(* ===== verification/Ua_Prelude.thy ===== *)
theory Ua_Prelude
  imports Main "HOL-Library.Word" "HOL-Library.Monad_Syntax"
begin

text \<open>
  Shared vocabulary of the development: the fixed-width integer types of
  \<^verbatim>\<open>include/ua_types.h\<close>, the status codes of \<^verbatim>\<open>include/ua_statuscodes.h\<close> with the
  algebra of \<open>retval |= ...\<close>, raw memory access with an explicit fault outcome,
  and little-endian (de)composition of words.

  \<^item> A C integer of width w is a \<open>w word\<close>; a signed one is the same word, read with
    \<open>sint\<close> where the source compares or orders it.
  \<^item> \<open>size_t\<close> lengths and offsets are \<open>nat\<close>: they index objects in memory, so the sums
    the source forms stay far below \<open>2 ^ 64\<close>.
  \<^item> \<open>None\<close> as the outcome of an operation on memory is undefined behaviour of the C
    program (an access outside the object). Error codes are ordinary results.
\<close>

unbundle bit_operations_syntax

named_theorems status_defs "values of the status codes"
named_theorems codec_defs "definitions of the binary encoders and decoders of integers"
named_theorems tag_defs "values of the tag and flag constants of the wire format"

section \<open>Integer types\<close>

type_synonym UA_Byte = "8 word"
type_synonym UA_UInt16 = "16 word"
type_synonym UA_UInt32 = "32 word"
type_synonym UA_UInt64 = "64 word"
type_synonym UA_Int16 = "16 word"
type_synonym UA_Int32 = "32 word"
type_synonym UA_Int64 = "64 word"
type_synonym UA_StatusCode = "32 word"
type_synonym UA_DateTime = "64 word"

section \<open>Status codes\<close>
definition UA_STATUSCODE_GOOD :: UA_StatusCode where [status_defs]: "UA_STATUSCODE_GOOD = 0x00"
definition UA_STATUSCODE_BADINTERNALERROR :: UA_StatusCode where [status_defs]: "UA_STATUSCODE_BADINTERNALERROR = 0x80020000"
definition UA_STATUSCODE_BADOUTOFMEMORY :: UA_StatusCode where [status_defs]: "UA_STATUSCODE_BADOUTOFMEMORY = 0x80030000"
definition UA_STATUSCODE_BADENCODINGERROR :: UA_StatusCode where [status_defs]: "UA_STATUSCODE_BADENCODINGERROR = 0x80060000"
definition UA_STATUSCODE_BADDECODINGERROR :: UA_StatusCode where [status_defs]: "UA_STATUSCODE_BADDECODINGERROR = 0x80070000"
definition UA_STATUSCODE_BADNODEIDEXISTS :: UA_StatusCode where [status_defs]: "UA_STATUSCODE_BADNODEIDEXISTS = 0x805e0000"
definition UA_STATUSCODE_BADNODEIDUNKNOWN :: UA_StatusCode where [status_defs]: "UA_STATUSCODE_BADNODEIDUNKNOWN = 0x80340000"
definition UA_STATUSCODE_BADTOOMANYSESSIONS :: UA_StatusCode where [status_defs]: "UA_STATUSCODE_BADTOOMANYSESSIONS = 0x80560000"
definition UA_STATUSCODE_BADSESSIONIDINVALID :: UA_StatusCode where [status_defs]: "UA_STATUSCODE_BADSESSIONIDINVALID = 0x80250000"
definition UA_STATUSCODE_BADSECURITYMODEREJECTED :: UA_StatusCode where [status_defs]: "UA_STATUSCODE_BADSECURITYMODEREJECTED = 0x80540000"
definition UA_STATUSCODE_BADIDENTITYTOKENINVALID :: UA_StatusCode where [status_defs]: "UA_STATUSCODE_BADIDENTITYTOKENINVALID = 0x80200000"
definition UA_STATUSCODE_BADUSERACCESSDENIED :: UA_StatusCode where [status_defs]: "UA_STATUSCODE_BADUSERACCESSDENIED = 0x801f0000"
definition UA_STATUSCODE_BADSECURECHANNELIDINVALID :: UA_StatusCode where [status_defs]: "UA_STATUSCODE_BADSECURECHANNELIDINVALID = 0x80220000"
definition UA_STATUSCODE_BADSESSIONNOTACTIVATED :: UA_StatusCode where [status_defs]: "UA_STATUSCODE_BADSESSIONNOTACTIVATED = 0x80270000"
definition UA_STATUSCODE_BADSERVICEUNSUPPORTED :: UA_StatusCode where [status_defs]: "UA_STATUSCODE_BADSERVICEUNSUPPORTED = 0x800b0000"
definition UA_STATUSCODE_BADINDEXRANGEINVALID :: UA_StatusCode where [status_defs]: "UA_STATUSCODE_BADINDEXRANGEINVALID = 0x80360000"
definition UA_STATUSCODE_BADINDEXRANGENODATA :: UA_StatusCode where [status_defs]: "UA_STATUSCODE_BADINDEXRANGENODATA = 0x80370000"
definition UA_STATUSCODE_BADNOTHINGTODO :: UA_StatusCode where [status_defs]: "UA_STATUSCODE_BADNOTHINGTODO = 0x800f0000"

text \<open>The accumulation \<open>retval |= f()\<close> yields GOOD exactly when every call did.\<close>

lemma or_good_iff [simp]:
  "(a OR b = UA_STATUSCODE_GOOD) = (a = UA_STATUSCODE_GOOD \<and> b = UA_STATUSCODE_GOOD)"
  by (simp add: UA_STATUSCODE_GOOD_def or_eq_0_iff)

lemma or_good [simp]: "UA_STATUSCODE_GOOD OR r = r" "r OR UA_STATUSCODE_GOOD = r"
  by (simp_all add: UA_STATUSCODE_GOOD_def)

lemma bad_codes_not_good [simp]:
  "UA_STATUSCODE_BADINTERNALERROR \<noteq> UA_STATUSCODE_GOOD"
  "UA_STATUSCODE_BADOUTOFMEMORY \<noteq> UA_STATUSCODE_GOOD"
  "UA_STATUSCODE_BADENCODINGERROR \<noteq> UA_STATUSCODE_GOOD"
  "UA_STATUSCODE_BADDECODINGERROR \<noteq> UA_STATUSCODE_GOOD"
  "UA_STATUSCODE_BADNODEIDEXISTS \<noteq> UA_STATUSCODE_GOOD"
  "UA_STATUSCODE_BADNODEIDUNKNOWN \<noteq> UA_STATUSCODE_GOOD"
  "UA_STATUSCODE_BADTOOMANYSESSIONS \<noteq> UA_STATUSCODE_GOOD"
  "UA_STATUSCODE_BADSESSIONIDINVALID \<noteq> UA_STATUSCODE_GOOD"
  "UA_STATUSCODE_BADSECURITYMODEREJECTED \<noteq> UA_STATUSCODE_GOOD"
  "UA_STATUSCODE_BADIDENTITYTOKENINVALID \<noteq> UA_STATUSCODE_GOOD"
  "UA_STATUSCODE_BADUSERACCESSDENIED \<noteq> UA_STATUSCODE_GOOD"
  "UA_STATUSCODE_BADSECURECHANNELIDINVALID \<noteq> UA_STATUSCODE_GOOD"
  "UA_STATUSCODE_BADSESSIONNOTACTIVATED \<noteq> UA_STATUSCODE_GOOD"
  "UA_STATUSCODE_BADSERVICEUNSUPPORTED \<noteq> UA_STATUSCODE_GOOD"
  "UA_STATUSCODE_BADINDEXRANGEINVALID \<noteq> UA_STATUSCODE_GOOD"
  "UA_STATUSCODE_BADINDEXRANGENODATA \<noteq> UA_STATUSCODE_GOOD"
  by (simp_all add: status_defs)

section \<open>Memory access\<close>

text \<open>
  \<open>memcpy(&dst[off], bs, n)\<close> and \<open>memcpy(buf, &src[off], n)\<close>: the access faults when it
  leaves the object.
\<close>

definition splice :: "'a list \<Rightarrow> nat \<Rightarrow> 'a list \<Rightarrow> 'a list" where
  "splice buf off bs = take off buf @ bs @ drop (off + length bs) buf"

definition write_bytes :: "'a list \<Rightarrow> nat \<Rightarrow> 'a list \<Rightarrow> 'a list option" where
  "write_bytes buf off bs = (if off + length bs \<le> length buf then Some (splice buf off bs) else None)"

definition read_bytes :: "'a list \<Rightarrow> nat \<Rightarrow> nat \<Rightarrow> 'a list option" where
  "read_bytes src off n = (if off + n \<le> length src then Some (take n (drop off src)) else None)"

lemma length_splice [simp]: "off + length bs \<le> length buf \<Longrightarrow> length (splice buf off bs) = length buf"
  by (simp add: splice_def)

lemma splice_Nil [simp]: "splice buf off [] = buf"
  by (simp add: splice_def)

lemma splice_splice:
  "off + length xs \<le> length buf \<Longrightarrow> off' = off + length xs \<Longrightarrow>
   splice (splice buf off xs) off' ys = splice buf off (xs @ ys)"
  by (simp add: splice_def ac_simps)

lemma splice_split:
  assumes "off + length bs \<le> length buf"
  obtains pre post where "splice buf off bs = pre @ bs @ post" "length pre = off"
    "pre = take off buf" "post = drop (off + length bs) buf"
  using assms by (simp add: splice_def)

lemma write_bytes_Some [simp]:
  "off + length bs \<le> length buf \<Longrightarrow> write_bytes buf off bs = Some (splice buf off bs)"
  by (simp add: write_bytes_def)

lemma read_bytes_Some [simp]:
  "off + n \<le> length src \<Longrightarrow> read_bytes src off n = Some (take n (drop off src))"
  by (simp add: read_bytes_def)

lemma read_bytes_mid [simp]:
  "off = length pre \<Longrightarrow> n = length bs \<Longrightarrow> read_bytes (pre @ bs @ post) off n = Some bs"
  by (simp add: read_bytes_def)

section \<open>Little-endian words\<close>

fun le_bytes :: "nat \<Rightarrow> 'a::len word \<Rightarrow> UA_Byte list" where
  "le_bytes 0 w = []"
| "le_bytes (Suc n) w = ucast w # le_bytes n (drop_bit 8 w)"

fun le_word :: "UA_Byte list \<Rightarrow> 'a::len word" where
  "le_word [] = 0"
| "le_word (b # bs) = ucast b OR push_bit 8 (le_word bs)"

lemma length_le_bytes [simp]: "length (le_bytes n w) = n"
  by (induction n arbitrary: w) auto

lemma le_bytes_numeral: "le_bytes (numeral k) w = ucast w # le_bytes (pred_numeral k) (drop_bit 8 w)"
  by (simp add: numeral_eq_Suc)

lemma le_word_le_bytes_take_bit:
  fixes w :: "'a::len word"
  shows "le_word (le_bytes n w) = take_bit (8 * n) w"
proof (induction n arbitrary: w)
  case (Suc n)
  show ?case
    unfolding le_bytes.simps le_word.simps Suc.IH
    by (rule bit_word_eqI) (auto simp: bit_simps)
qed simp

lemma le_word_le_bytes [simp]:
  fixes w :: "'a::len word"
  shows "LENGTH('a) \<le> 8 * n \<Longrightarrow> le_word (le_bytes n w) = w"
  unfolding le_word_le_bytes_take_bit
  by (rule bit_word_eqI) (auto simp: bit_simps)

lemma le_bytes_le_word:
  "8 * length bs \<le> LENGTH('a::len) \<Longrightarrow> le_bytes (length bs) (le_word bs :: 'a word) = bs"
proof (induction bs)
  case (Cons b bs)
  have 1: "ucast (ucast b OR push_bit 8 (le_word bs) :: 'a word) = b"
    using Cons.prems by (intro bit_word_eqI) (auto simp: bit_simps)
  have 2: "le_word bs = take_bit (8 * length bs) (le_word bs :: 'a word)"
    using Cons.IH Cons.prems le_word_le_bytes_take_bit [of "length bs" "le_word bs :: 'a word"] by simp
  have 3: "drop_bit 8 (ucast b OR push_bit 8 (le_word bs) :: 'a word) = le_word bs"
    using Cons.prems
    by (subst (2) 2, subst 2, intro bit_word_eqI) (auto simp: bit_simps dest: bit_imp_le_length)
  show ?case
    using Cons by (simp only: length_Cons le_bytes.simps le_word.simps 1 3) simp
qed simp

lemma map_nth_upt: "n = length xs \<Longrightarrow> map ((!) xs) [0..<n] = xs"
  by (simp add: map_nth)

lemma sint_of_nat32: "n < 2 ^ 31 \<Longrightarrow> sint (word_of_nat n :: 32 word) = int n"
  by (simp add: signed_of_nat signed_take_bit_int_eq_self)

lemma of_nat32_eq_0: "n < 2 ^ 31 \<Longrightarrow> (word_of_nat n :: 32 word) = 0 \<longleftrightarrow> n = 0"
  using sint_of_nat32 [of n] by auto

lemma ucast_down_up:
  fixes w :: "'a::len word"
  assumes "unat w < 2 ^ LENGTH('b::len)"
  shows "ucast (ucast w :: 'b word) = w"
proof -
  have u: "uint w < 2 ^ LENGTH('b)"
    using assms by (metis of_nat_less_iff of_nat_numeral of_nat_power uint_nat)
  then have t: "take_bit LENGTH('b) (uint w) = uint w"
    by (simp add: take_bit_int_eq_self)
  show ?thesis
  proof (rule bit_word_eqI)
    fix n assume "n < LENGTH('a)"
    have "bit w n \<Longrightarrow> n < LENGTH('b)"
      by (metis bit_take_bit_iff bit_uint_iff t bit_imp_le_length)
    then show "bit (ucast (ucast w :: 'b word) :: 'a word) n = bit w n"
      using \<open>n < LENGTH('a)\<close> by (auto simp: bit_simps)
  qed
qed

section \<open>Postconditions of partial computations\<close>

text \<open>Every result of the computation satisfies the predicate; the rules follow the shape of the code.\<close>

definition always :: "('a \<Rightarrow> bool) \<Rightarrow> 'a option \<Rightarrow> bool" where
  "always Q x \<longleftrightarrow> (\<forall>y. x = Some y \<longrightarrow> Q y)"

lemma alwaysI: "(\<And>y. x = Some y \<Longrightarrow> Q y) \<Longrightarrow> always Q x"
  by (simp add: always_def)

lemma alwaysD: "always Q x \<Longrightarrow> x = Some y \<Longrightarrow> Q y"
  by (simp add: always_def)

lemma always_Some: "Q y \<Longrightarrow> always Q (Some y)"
  by (simp add: always_def)

lemma always_None: "always Q None"
  by (simp add: always_def)

lemma always_if: "(b \<Longrightarrow> always Q x) \<Longrightarrow> (\<not> b \<Longrightarrow> always Q y) \<Longrightarrow> always Q (if b then x else y)"
  by simp

lemma always_bind: "(\<And>y. x = Some y \<Longrightarrow> always Q (f y)) \<Longrightarrow> always Q (x \<bind> f)"
  by (cases x) (simp_all add: always_def)

lemma always_prod: "(\<And>a b. x = (a, b) \<Longrightarrow> always Q (f a b)) \<Longrightarrow> always Q (case x of (a, b) \<Rightarrow> f a b)"
  by (cases x) simp

lemma always_option:
  "(x = None \<Longrightarrow> always Q f) \<Longrightarrow> (\<And>y. x = Some y \<Longrightarrow> always Q (g y)) \<Longrightarrow> always Q (case x of None \<Rightarrow> f | Some y \<Rightarrow> g y)"
  by (cases x) simp_all

lemmas always_rules = always_None always_if always_bind always_prod always_option

end
