(* ===== verification/Ua_Types.thy ===== *)
theory Ua_Types
  imports Ua_Prelude
begin

text \<open>
  The builtin data types of \<^verbatim>\<open>include/ua_types.h\<close> that carry identifiers and text, and
  their comparison, copying and clean-up functions of \<^verbatim>\<open>src/ua_types.c\<close>.

  A length/pointer pair (a \<open>UA_String\<close>, an array member) has three shapes in the code: the
  NULL pointer (undefined, length -1 on the wire), \<open>UA_EMPTY_ARRAY_SENTINEL\<close> (defined and
  empty) and a pointer to an allocated block. Heap allocation is a parameter
  \<open>mem :: nat \<Rightarrow> bool\<close> that says whether a request for n bytes is granted.
\<close>

section \<open>Length/pointer pairs\<close>

datatype 'a ua_array = Null_ptr | Empty_sentinel | Block "'a list"

fun content :: "'a ua_array \<Rightarrow> 'a list" where
  "content Null_ptr = []"
| "content Empty_sentinel = []"
| "content (Block xs) = xs"

abbreviation alen :: "'a ua_array \<Rightarrow> nat" where
  "alen a \<equiv> length (content a)"

text \<open>The form a pair has after a copy or a decode: an empty block becomes the sentinel.\<close>

fun canon_array :: "'a ua_array \<Rightarrow> 'a ua_array" where
  "canon_array (Block []) = Empty_sentinel"
| "canon_array a = a"

lemma content_canon [simp]: "content (canon_array a) = content a"
  by (induction a rule: canon_array.induct) auto

lemma canon_array_idem [simp]: "canon_array (canon_array a) = canon_array a"
  by (induction a rule: canon_array.induct) auto

lemma canon_array_Block: "xs \<noteq> [] \<Longrightarrow> canon_array (Block xs) = Block xs"
  by (cases xs) auto

type_synonym UA_String = "UA_Byte ua_array"
type_synonym UA_ByteString = "UA_Byte ua_array"

definition UA_STRING_NULL :: UA_String where
  "UA_STRING_NULL = Null_ptr"

definition UA_BYTESTRING_NULL :: UA_ByteString where
  "UA_BYTESTRING_NULL = Null_ptr"

definition UA_String_equal :: "UA_String \<Rightarrow> UA_String \<Rightarrow> bool" where
  "UA_String_equal string1 string2 =
     (if alen string1 \<noteq> alen string2 then False
      else take (alen string1) (content string1) = take (alen string1) (content string2))"

lemma UA_String_equal_content: "UA_String_equal a b \<longleftrightarrow> content a = content b"
  by (auto simp: UA_String_equal_def)

definition UA_ByteString_equal :: "UA_ByteString \<Rightarrow> UA_ByteString \<Rightarrow> bool" where
  "UA_ByteString_equal string1 string2 = UA_String_equal string1 string2"

definition UA_String_fromChars :: "(nat \<Rightarrow> bool) \<Rightarrow> UA_Byte list \<Rightarrow> UA_String" where
  "UA_String_fromChars mem src =
     (if length src > 0
      then (if mem (length src) then Block src else UA_STRING_NULL)
      else Empty_sentinel)"

section \<open>Guid\<close>

record UA_Guid =
  data1 :: UA_UInt32
  data2 :: UA_UInt16
  data3 :: UA_UInt16
  data4 :: "UA_Byte list"

text \<open>\<open>data4\<close> is an array of eight bytes.\<close>

definition wf_Guid :: "UA_Guid \<Rightarrow> bool" where
  "wf_Guid g \<longleftrightarrow> length (data4 g) = 8"

text \<open>The 16 bytes of the struct as they lie in memory (no padding).\<close>

definition Guid_bytes :: "UA_Guid \<Rightarrow> UA_Byte list" where
  "Guid_bytes g = le_bytes 4 (data1 g) @ le_bytes 2 (data2 g) @ le_bytes 2 (data3 g) @ data4 g"

definition UA_Guid_equal :: "UA_Guid \<Rightarrow> UA_Guid \<Rightarrow> bool" where
  "UA_Guid_equal g1 g2 = (Guid_bytes g1 = Guid_bytes g2)"

lemma le_bytes_inj:
  fixes v w :: "'a::len word"
  assumes "LENGTH('a) \<le> 8 * n" shows "le_bytes n v = le_bytes n w \<longleftrightarrow> v = w"
proof
  assume "le_bytes n v = le_bytes n w"
  then have "(le_word (le_bytes n v) :: 'a word) = le_word (le_bytes n w)" by simp
  then show "v = w" using assms by simp
qed simp

lemma UA_Guid_equal_iff [simp]: "UA_Guid_equal g1 g2 \<longleftrightarrow> g1 = g2"
  by (auto simp: UA_Guid_equal_def Guid_bytes_def le_bytes_inj intro: UA_Guid.equality)

section \<open>NodeId\<close>

datatype node_identifier =
    Numeric UA_UInt32
  | StringId UA_String
  | GuidId UA_Guid
  | ByteStringId UA_ByteString

record UA_NodeId =
  namespaceIndex :: UA_UInt16
  ident :: node_identifier

definition UA_NODEID_NULL :: UA_NodeId where
  "UA_NODEID_NULL = \<lparr>namespaceIndex = 0, ident = Numeric 0\<rparr>"

fun wf_identifier :: "node_identifier \<Rightarrow> bool" where
  "wf_identifier (GuidId g) = wf_Guid g"
| "wf_identifier _ = True"

definition UA_NODEID_NUMERIC :: "UA_UInt16 \<Rightarrow> UA_Int32 \<Rightarrow> UA_NodeId" where
  "UA_NODEID_NUMERIC nsIndex i = \<lparr>namespaceIndex = nsIndex, ident = Numeric i\<rparr>"

definition UA_NODEID_GUID :: "UA_UInt16 \<Rightarrow> UA_Guid \<Rightarrow> UA_NodeId" where
  "UA_NODEID_GUID nsIndex guid = \<lparr>namespaceIndex = nsIndex, ident = GuidId guid\<rparr>"

text \<open>The \<open>numeric\<close> member of the identifier union, whatever the identifier type is.\<close>

definition identifier_numeric :: "UA_NodeId \<Rightarrow> UA_UInt32" where
  "identifier_numeric n = (case ident n of
     Numeric i \<Rightarrow> i | StringId s \<Rightarrow> word_of_nat (alen s) | GuidId g \<Rightarrow> data1 g | ByteStringId s \<Rightarrow> word_of_nat (alen s))"

definition UA_NodeId_isNull :: "UA_NodeId \<Rightarrow> bool" where
  "UA_NodeId_isNull p = (namespaceIndex p = 0 \<and> (case ident p of Numeric n \<Rightarrow> n = 0 | _ \<Rightarrow> False))"

fun identifier_equal :: "node_identifier \<Rightarrow> node_identifier \<Rightarrow> bool" where
  "identifier_equal (Numeric a) (Numeric b) = (a = b)"
| "identifier_equal (StringId a) (StringId b) = UA_String_equal a b"
| "identifier_equal (GuidId a) (GuidId b) = UA_Guid_equal a b"
| "identifier_equal (ByteStringId a) (ByteStringId b) = UA_ByteString_equal a b"
| "identifier_equal _ _ = False"

definition UA_NodeId_equal :: "UA_NodeId \<Rightarrow> UA_NodeId \<Rightarrow> bool" where
  "UA_NodeId_equal n1 n2 =
     (if namespaceIndex n1 \<noteq> namespaceIndex n2 then False
      else identifier_equal (ident n1) (ident n2))"

text \<open>Comparison looks at the bytes only: the normal form maps a node id to the
  representative of its class, where every string is a block.\<close>

fun norm_identifier :: "node_identifier \<Rightarrow> node_identifier" where
  "norm_identifier (StringId s) = StringId (Block (content s))"
| "norm_identifier (ByteStringId s) = ByteStringId (Block (content s))"
| "norm_identifier i = i"

definition norm_NodeId :: "UA_NodeId \<Rightarrow> UA_NodeId" where
  "norm_NodeId n = n\<lparr>ident := norm_identifier (ident n)\<rparr>"

lemma identifier_equal_norm: "identifier_equal a b \<longleftrightarrow> norm_identifier a = norm_identifier b"
  by (cases a; cases b) (auto simp: UA_String_equal_content UA_ByteString_equal_def)

lemma UA_NodeId_equal_norm: "UA_NodeId_equal a b \<longleftrightarrow> norm_NodeId a = norm_NodeId b"
  by (cases a; cases b) (auto simp: UA_NodeId_equal_def norm_NodeId_def identifier_equal_norm)

lemma UA_NodeId_equal_refl [simp]: "UA_NodeId_equal a a"
  by (simp add: UA_NodeId_equal_norm)

lemma UA_NodeId_equal_sym: "UA_NodeId_equal a b \<Longrightarrow> UA_NodeId_equal b a"
  by (simp add: UA_NodeId_equal_norm)

lemma UA_NodeId_equal_trans: "UA_NodeId_equal a b \<Longrightarrow> UA_NodeId_equal b c \<Longrightarrow> UA_NodeId_equal a c"
  by (simp add: UA_NodeId_equal_norm)

fun identifier_deleteMembers :: "node_identifier \<Rightarrow> node_identifier" where
  "identifier_deleteMembers (StringId s) = StringId UA_BYTESTRING_NULL"
| "identifier_deleteMembers (ByteStringId s) = ByteStringId UA_BYTESTRING_NULL"
| "identifier_deleteMembers i = i"

definition NodeId_deleteMembers :: "UA_NodeId \<Rightarrow> UA_NodeId" where
  "NodeId_deleteMembers p = p\<lparr>ident := identifier_deleteMembers (ident p)\<rparr>"

section \<open>Copying\<close>

definition MAX_ARRAY_SIZE :: nat where
  "MAX_ARRAY_SIZE = 104857600"

text \<open>
  \<open>UA_Array_copy\<close> for an element type of \<open>memSize\<close> bytes whose elements are copied by
  \<open>copy_elem\<close>. For a \<open>fixedSize\<close> type the elements are copied with one \<open>memcpy\<close>;
  otherwise every element is copied, the status codes are accumulated and the whole array
  is deleted when one copy failed.
\<close>

fun copy_elems :: "('a \<Rightarrow> UA_StatusCode \<times> 'a) \<Rightarrow> 'a list \<Rightarrow> UA_StatusCode \<times> 'a list" where
  "copy_elems copy_elem [] = (UA_STATUSCODE_GOOD, [])"
| "copy_elems copy_elem (x # xs) =
     (let (r, y) = copy_elem x; (rs, ys) = copy_elems copy_elem xs in (r OR rs, y # ys))"

definition UA_Array_copy ::
  "(nat \<Rightarrow> bool) \<Rightarrow> nat \<Rightarrow> bool \<Rightarrow> ('a \<Rightarrow> UA_StatusCode \<times> 'a) \<Rightarrow> 'a ua_array \<Rightarrow> UA_StatusCode \<times> 'a ua_array" where
  "UA_Array_copy mem memSize fixedSize copy_elem src =
     (if alen src = 0
      then (UA_STATUSCODE_GOOD, case src of Null_ptr \<Rightarrow> Null_ptr | _ \<Rightarrow> Empty_sentinel)
      else if alen src > MAX_ARRAY_SIZE \<or> memSize * alen src > MAX_ARRAY_SIZE
      then (UA_STATUSCODE_BADOUTOFMEMORY, Null_ptr)
      else if \<not> mem (alen src * memSize) then (UA_STATUSCODE_BADOUTOFMEMORY, Null_ptr)
      else if fixedSize then (UA_STATUSCODE_GOOD, Block (content src))
      else let (retval, ys) = copy_elems copy_elem (content src)
           in if retval \<noteq> UA_STATUSCODE_GOOD then (retval, Null_ptr) else (retval, Block ys))"

definition UA_String_copy :: "(nat \<Rightarrow> bool) \<Rightarrow> UA_String \<Rightarrow> UA_StatusCode \<times> UA_String" where
  "UA_String_copy mem src = UA_Array_copy mem 1 True (\<lambda>b. (UA_STATUSCODE_GOOD, b)) src"

definition NodeId_copy :: "(nat \<Rightarrow> bool) \<Rightarrow> UA_NodeId \<Rightarrow> UA_StatusCode \<times> UA_NodeId" where
  "NodeId_copy mem src =
     (case ident src of
        Numeric n \<Rightarrow> (UA_STATUSCODE_GOOD, src)
      | StringId s \<Rightarrow>
          let (retval, t) = UA_String_copy mem s; dst = src\<lparr>ident := StringId t\<rparr>
          in (retval, if retval \<noteq> UA_STATUSCODE_GOOD then NodeId_deleteMembers dst else dst)
      | GuidId g \<Rightarrow> (UA_STATUSCODE_GOOD, src)
      | ByteStringId s \<Rightarrow>
          let (retval, t) = UA_String_copy mem s; dst = src\<lparr>ident := ByteStringId t\<rparr>
          in (retval, if retval \<noteq> UA_STATUSCODE_GOOD then NodeId_deleteMembers dst else dst))"

lemma UA_Array_copy_good:
  assumes "UA_Array_copy mem sz True f src = (UA_STATUSCODE_GOOD, dst)"
  shows "dst = canon_array src"
  using assms by (cases src rule: canon_array.cases) (auto simp: UA_Array_copy_def split: if_splits)

lemma UA_String_copy_good:
  "UA_String_copy mem src = (UA_STATUSCODE_GOOD, dst) \<Longrightarrow> content dst = content src"
  unfolding UA_String_copy_def by (drule UA_Array_copy_good) simp

lemma UA_Array_copy_bad:
  assumes "UA_Array_copy mem sz fx f src = (r, dst)" "r \<noteq> UA_STATUSCODE_GOOD"
  shows "dst = Null_ptr"
  using assms by (auto simp: UA_Array_copy_def Let_def split: if_splits prod.splits)

lemma NodeId_copy_equal:
  assumes "NodeId_copy mem src = (UA_STATUSCODE_GOOD, dst)"
  shows "UA_NodeId_equal dst src"
  using assms
  by (auto simp: NodeId_copy_def Let_def UA_NodeId_equal_norm norm_NodeId_def
      split: node_identifier.splits prod.splits if_splits dest!: UA_String_copy_good)

section \<open>Composite identifiers and text\<close>

record UA_ExpandedNodeId =
  nodeId :: UA_NodeId
  namespaceUri :: UA_String
  serverIndex :: UA_UInt32

definition UA_EXPANDEDNODEID_NULL :: UA_ExpandedNodeId where
  "UA_EXPANDEDNODEID_NULL = \<lparr>nodeId = UA_NODEID_NULL, namespaceUri = UA_STRING_NULL, serverIndex = 0\<rparr>"

record UA_QualifiedName =
  qn_namespaceIndex :: UA_UInt16
  qn_name :: UA_String

record UA_LocalizedText =
  locale_text :: UA_String
  text_text :: UA_String

text \<open>
  \<open>UA_DiagnosticInfo\<close>: the seven flag bits of its first byte say which members are
  present; \<open>innerDiagnosticInfo\<close> points to another one.
\<close>

datatype UA_DiagnosticInfo = DiagnosticInfo
  (hasSymbolicId: bool) (hasNamespaceUri: bool) (hasLocalizedText: bool) (hasLocale: bool)
  (hasAdditionalInfo: bool) (hasInnerStatusCode: bool) (hasInnerDiagnosticInfo: bool)
  (symbolicId: UA_Int32) (di_namespaceUri: UA_Int32) (di_localizedText: UA_Int32)
  (di_locale: UA_Int32) (additionalInfo: UA_String) (innerStatusCode: UA_StatusCode)
  (innerDiagnosticInfo: "UA_DiagnosticInfo option")

end
