(* ===== verification/Ua_Codec.thy ===== *)
theory Ua_Codec
  imports Ua_Types
begin

text \<open>
  The vocabulary of the binary (de)serialiser \<^verbatim>\<open>src/ua_types_encoding_binary.c\<close>: every
  encoder and decoder of that file works on a byte buffer and an offset it advances (here a
  \<open>cursor\<close>), returns a status code and chains further calls with \<open>retval |= ...\<close>.

  The interfaces are stated as locales: \<open>codec\<close> (an encoder and a decoder that agree on
  one wire format, with the round trip as its client theorem) and \<open>safe_decoder\<close> (a decoder
  that stays inside the buffer on every input, however malformed). The composition lemmas below
  discharge them for chained calls.
\<close>

type_synonym cursor = "UA_Byte list \<times> nat"
type_synonym encode = "cursor \<Rightarrow> (UA_StatusCode \<times> cursor) option"
type_synonym 'a encoder = "'a \<Rightarrow> encode"
type_synonym 'a decoder = "cursor \<Rightarrow> (UA_StatusCode \<times> 'a \<times> cursor) option"

section \<open>Chained calls\<close>

text \<open>\<open>retval = f(...); retval |= g(...);\<close> on the same buffer and offset.\<close>

definition enc_seq :: "encode \<Rightarrow> encode \<Rightarrow> encode" where
  "enc_seq f g c = do { (r1, c1) \<leftarrow> f c; (r2, c2) \<leftarrow> g c1; Some (r1 OR r2, c2) }"

definition enc_skip :: encode where
  "enc_skip c = Some (UA_STATUSCODE_GOOD, c)"

text \<open>\<open>if(b) retval |= f(...);\<close>\<close>

definition enc_when :: "bool \<Rightarrow> encode \<Rightarrow> encode" where
  "enc_when b f = (if b then f else enc_skip)"

text \<open>The decoding counterpart: the value read by the first call is available to the rest.\<close>

definition dec_bind :: "'a decoder \<Rightarrow> ('a \<Rightarrow> 'b decoder) \<Rightarrow> 'b decoder" where
  "dec_bind d f c = do { (r1, v, c1) \<leftarrow> d c; (r2, w, c2) \<leftarrow> f v c1; Some (r1 OR r2, w, c2) }"

definition dec_return :: "'a \<Rightarrow> 'a decoder" where
  "dec_return v c = Some (UA_STATUSCODE_GOOD, v, c)"

text \<open>\<open>if(b) retval |= d(..., &field);\<close> where the field was initialised to \<open>v0\<close>.\<close>

definition dec_when :: "bool \<Rightarrow> 'a decoder \<Rightarrow> 'a \<Rightarrow> 'a decoder" where
  "dec_when b d v0 = (if b then d else dec_return v0)"

text \<open>\<open>if(retval != UA_STATUSCODE_GOOD) deleteMembers(dst); return retval;\<close>\<close>

definition dec_cleanup :: "('a \<Rightarrow> 'a) \<Rightarrow> 'a decoder \<Rightarrow> 'a decoder" where
  "dec_cleanup del d c =
     do { (r, v, c1) \<leftarrow> d c; Some (r, if r \<noteq> UA_STATUSCODE_GOOD then del v else v, c1) }"

text \<open>\<open>retval = d(...); if(retval != UA_STATUSCODE_GOOD) return retval;\<close> with a caller that
  then sees the initial value \<open>w0\<close> of the destination.\<close>

definition dec_guard :: "'a decoder \<Rightarrow> 'b \<Rightarrow> ('a \<Rightarrow> 'b decoder) \<Rightarrow> 'b decoder" where
  "dec_guard d w0 f c =
     do { (r, v, c1) \<leftarrow> d c; if r \<noteq> UA_STATUSCODE_GOOD then Some (r, w0, c1) else f v c1 }"

lemma enc_seq_assoc: "enc_seq (enc_seq f g) h = enc_seq f (enc_seq g h)"
  by (rule ext) (auto simp: enc_seq_def or.assoc split: Option.bind_splits)

section \<open>What an encoder writes and a decoder reads\<close>

definition encodes :: "encode \<Rightarrow> UA_Byte list \<Rightarrow> bool" where
  "encodes f bs \<longleftrightarrow> (\<forall>buf off. off + length bs \<le> length buf \<longrightarrow>
     f (buf, off) = Some (UA_STATUSCODE_GOOD, (splice buf off bs, off + length bs)))"

definition decodes :: "'a decoder \<Rightarrow> UA_Byte list \<Rightarrow> 'a \<Rightarrow> bool" where
  "decodes d bs v \<longleftrightarrow> (\<forall>pre post. d (pre @ bs @ post, length pre) =
     Some (UA_STATUSCODE_GOOD, v, (pre @ bs @ post, length pre + length bs)))"

text \<open>A successful call never changes bytes before the offset nor the size of the buffer, and
  the offset only advances.\<close>

definition enc_frame :: "encode \<Rightarrow> bool" where
  "enc_frame f \<longleftrightarrow> (\<forall>buf off r buf' off'. f (buf, off) = Some (r, (buf', off')) \<longrightarrow>
     length buf' = length buf \<and> off \<le> off' \<and> take off buf' = take off buf)"

lemma encodesD:
  "encodes f bs \<Longrightarrow> off + length bs \<le> length buf \<Longrightarrow>
   f (buf, off) = Some (UA_STATUSCODE_GOOD, (splice buf off bs, off + length bs))"
  by (simp add: encodes_def)

lemma encodes_skip [intro]: "encodes enc_skip []"
  by (simp add: encodes_def enc_skip_def)

lemma encodes_seq [intro]:
  assumes "encodes f bs" "encodes g cs" shows "encodes (enc_seq f g) (bs @ cs)"
  unfolding encodes_def
proof (intro allI impI)
  fix buf :: "UA_Byte list" and off
  assume room: "off + length (bs @ cs) \<le> length buf"
  have "f (buf, off) = Some (UA_STATUSCODE_GOOD, (splice buf off bs, off + length bs))"
    using room by (intro encodesD assms) simp
  moreover have "g (splice buf off bs, off + length bs) =
      Some (UA_STATUSCODE_GOOD, (splice (splice buf off bs) (off + length bs) cs, off + length bs + length cs))"
    using room by (intro encodesD assms) simp
  ultimately show "enc_seq f g (buf, off) =
      Some (UA_STATUSCODE_GOOD, (splice buf off (bs @ cs), off + length (bs @ cs)))"
    using room by (simp add: enc_seq_def splice_splice)
qed

lemma encodes_when: "(b \<Longrightarrow> encodes f bs) \<Longrightarrow> encodes (enc_when b f) (if b then bs else [])"
  by (simp add: enc_when_def encodes_skip)

lemma decodesD:
  "decodes d bs v \<Longrightarrow> off = length pre \<Longrightarrow>
   d (pre @ bs @ post, off) = Some (UA_STATUSCODE_GOOD, v, (pre @ bs @ post, off + length bs))"
  by (simp add: decodes_def)

lemma decodes_return [intro]: "decodes (dec_return v) [] v"
  by (simp add: decodes_def dec_return_def)

lemma decodes_bind [intro]:
  assumes "decodes d bs v" "decodes (f v) cs w" shows "decodes (dec_bind d f) (bs @ cs) w"
  unfolding decodes_def
proof (intro allI)
  fix pre post
  have "d (pre @ bs @ cs @ post, length pre) =
      Some (UA_STATUSCODE_GOOD, v, (pre @ bs @ cs @ post, length pre + length bs))"
    using assms(1) by (rule decodesD) simp
  moreover have "f v ((pre @ bs) @ cs @ post, length pre + length bs) =
      Some (UA_STATUSCODE_GOOD, w, ((pre @ bs) @ cs @ post, length pre + length bs + length cs))"
    using assms(2) by (rule decodesD) simp
  ultimately show "dec_bind d f (pre @ (bs @ cs) @ post, length pre) =
      Some (UA_STATUSCODE_GOOD, w, (pre @ (bs @ cs) @ post, length pre + length (bs @ cs)))"
    by (simp add: dec_bind_def add.assoc)
qed

lemma decodes_bind_return [intro]: "decodes d bs v \<Longrightarrow> decodes (dec_bind d (\<lambda>v. dec_return (f v))) bs (f v)"
  by (simp add: decodes_def dec_bind_def dec_return_def)

lemma decodes_when: "(b \<Longrightarrow> decodes d bs v) \<Longrightarrow> decodes (dec_when b d v0) (if b then bs else []) (if b then v else v0)"
  by (simp add: dec_when_def decodes_return)

lemma decodes_cleanup [intro]: "decodes d bs v \<Longrightarrow> decodes (dec_cleanup del d) bs v"
  by (simp add: decodes_def dec_cleanup_def)

lemma decodes_guard [intro]:
  assumes "decodes d bs v" "decodes (f v) cs w" shows "decodes (dec_guard d w0 f) (bs @ cs) w"
proof -
  have "dec_guard d w0 f (pre @ (bs @ cs) @ post, length pre) =
      Some (UA_STATUSCODE_GOOD, w, (pre @ (bs @ cs) @ post, length pre + length (bs @ cs)))" for pre post
    using decodesD [OF assms(1), of "length pre" pre "cs @ post"]
      decodesD [OF assms(2), of "length pre + length bs" "pre @ bs" post]
    by (simp add: dec_guard_def add.assoc)
  then show ?thesis by (simp add: decodes_def)
qed

lemma enc_frame_seq [intro]: "enc_frame f \<Longrightarrow> enc_frame g \<Longrightarrow> enc_frame (enc_seq f g)"
proof -
  assume f: "enc_frame f" and g: "enc_frame g"
  { fix buf off r buf' off'
    assume "enc_seq f g (buf, off) = Some (r, (buf', off'))"
    then obtain r1 b1 o1 r2 where 1: "f (buf, off) = Some (r1, (b1, o1))"
      and 2: "g (b1, o1) = Some (r2, (buf', off'))"
      by (auto simp: enc_seq_def bind_eq_Some_conv)
    have "length b1 = length buf \<and> off \<le> o1 \<and> take off b1 = take off buf"
      using f 1 by (simp add: enc_frame_def)
    moreover have "length buf' = length b1 \<and> o1 \<le> off' \<and> take o1 buf' = take o1 b1"
      using g 2 by (simp add: enc_frame_def)
    ultimately have "length buf' = length buf \<and> off \<le> off' \<and> take off buf' = take off buf"
      by (metis le_trans min.absorb1 take_take) }
  then show ?thesis by (simp add: enc_frame_def)
qed

lemma enc_frame_skip [intro]: "enc_frame enc_skip"
  by (simp add: enc_frame_def enc_skip_def)

lemma enc_frame_when [intro]: "enc_frame f \<Longrightarrow> enc_frame (enc_when b f)"
  by (simp add: enc_when_def enc_frame_skip)

section \<open>Interfaces\<close>

text \<open>
  \<open>codec\<close>: for every value that satisfies \<open>ok\<close> the encoder writes the wire format \<open>ser\<close>
  where there is room, and the decoder reads it back as \<open>canon\<close> of the value wherever it
  stands in a message.
\<close>

locale codec =
  fixes enc :: "'a encoder" and dec :: "'a decoder"
    and ser :: "'a \<Rightarrow> UA_Byte list" and ok :: "'a \<Rightarrow> bool" and canon :: "'a \<Rightarrow> 'a"
  assumes enc_ser: "ok x \<Longrightarrow> encodes (enc x) (ser x)"
    and dec_ser: "ok x \<Longrightarrow> decodes dec (ser x) (canon x)"
begin

lemma roundtrip:
  assumes "ok x" "off + length (ser x) \<le> length buf"
  shows "\<exists>buf' off'. enc x (buf, off) = Some (UA_STATUSCODE_GOOD, (buf', off')) \<and>
     dec (buf', off) = Some (UA_STATUSCODE_GOOD, canon x, (buf', off')) \<and>
     off' = off + length (ser x) \<and> length buf' = length buf"
proof -
  have "splice buf off (ser x) = take off buf @ ser x @ drop (off + length (ser x)) buf"
    by (simp add: splice_def)
  moreover have "length (take off buf) = off" using assms(2) by simp
  ultimately have "dec (splice buf off (ser x), off) =
      Some (UA_STATUSCODE_GOOD, canon x, (splice buf off (ser x), off + length (ser x)))"
    by (metis dec_ser [OF assms(1)] decodesD)
  with encodesD [OF enc_ser [OF assms(1)] assms(2)] assms(2) show ?thesis by auto
qed

lemma enc_elements:
  "\<forall>x \<in> set xs. ok x \<Longrightarrow> encodes (foldr (\<lambda>x. enc_seq (enc x)) xs enc_skip) (concat (map ser xs))"
  by (induction xs) (auto intro: encodes_skip encodes_seq enc_ser)

end

text \<open>
  \<open>safe_decoder\<close>: on every buffer and every offset inside it, the decoder returns (it never
  accesses memory outside the buffer), keeps the size of the buffer, moves the offset forward
  and leaves it inside the buffer. Nothing is assumed about the bytes.
\<close>

locale safe_decoder =
  fixes dec :: "'a decoder"
  assumes safe: "off \<le> length src \<Longrightarrow> \<exists>r v src' off'.
     dec (src, off) = Some (r, v, (src', off')) \<and> length src' = length src \<and> off \<le> off' \<and> off' \<le> length src"
begin

lemma no_fault: "off \<le> length src \<Longrightarrow> dec (src, off) \<noteq> None"
  using safe by fastforce

lemma stays_inside:
  "off \<le> length src \<Longrightarrow> dec (src, off) = Some (r, v, (src', off')) \<Longrightarrow>
   length src' = length src \<and> off \<le> off' \<and> off' \<le> length src"
  using safe [of off src] by auto

end

lemma safe_return [intro]: "safe_decoder (dec_return v)"
  by unfold_locales (simp add: dec_return_def)

lemma safe_bind [intro]:
  assumes d: "safe_decoder d" and f: "\<And>v. safe_decoder (f v)"
  shows "safe_decoder (dec_bind d f)"
proof
  fix off and src :: "UA_Byte list"
  assume "off \<le> length src"
  from safe_decoder.safe [OF d this] obtain r v src1 off1 where
    1: "d (src, off) = Some (r, v, (src1, off1))" "length src1 = length src" "off \<le> off1" "off1 \<le> length src"
    by auto
  then have "off1 \<le> length src1" by simp
  from safe_decoder.safe [OF f [of v] this] 1
  show "\<exists>r v src' off'. dec_bind d f (src, off) = Some (r, v, (src', off')) \<and>
      length src' = length src \<and> off \<le> off' \<and> off' \<le> length src"
    by (force simp: dec_bind_def)
qed

lemma safe_guard [intro]:
  assumes d: "safe_decoder d" and f: "\<And>v. safe_decoder (f v)"
  shows "safe_decoder (dec_guard d w0 f)"
proof
  fix off and src :: "UA_Byte list"
  assume "off \<le> length src"
  from safe_decoder.safe [OF d this] obtain r v src1 off1 where
    1: "d (src, off) = Some (r, v, (src1, off1))" "length src1 = length src" "off \<le> off1" "off1 \<le> length src"
    by auto
  then have "off1 \<le> length src1" by simp
  from safe_decoder.safe [OF f [of v] this] 1
  show "\<exists>r v src' off'. dec_guard d w0 f (src, off) = Some (r, v, (src', off')) \<and>
      length src' = length src \<and> off \<le> off' \<and> off' \<le> length src"
    by (force simp: dec_guard_def)
qed

lemma safe_when [intro]: "safe_decoder d \<Longrightarrow> safe_decoder (dec_when b d v0)"
  by (simp add: dec_when_def safe_return)

lemma safe_cleanup [intro]: "safe_decoder d \<Longrightarrow> safe_decoder (dec_cleanup del d)"
  by unfold_locales (force simp: dec_cleanup_def dest: safe_decoder.safe)

end
