(* ===== verification/Ua_Encoding.thy ===== *)
theory Ua_Encoding
  imports Ua_Codec
begin

text \<open>
  The encoders and decoders of \<^verbatim>\<open>src/ua_types_encoding_binary.c\<close> for the integer types,
  arrays, strings, guids, node ids, localized text and diagnostic info, in the order of the
  file. The integer functions are those of a little-endian machine (the default build) and
  equally of the byte-wise \<open>UA_ALIGNED_MEMORY_ACCESS\<close> build: both put the least significant
  byte first. \<open>Float\<close> and \<open>Double\<close> are moved as their 32- and 64-bit images.

  A decoder starts from a zero-initialised destination, as \<open>UA_decodeBinary\<close> arranges;
  where it fails early the destination keeps that value.
\<close>

section \<open>Integer types\<close>

definition Boolean_encodeBinary :: "bool encoder" where [codec_defs]:
  "Boolean_encodeBinary v = (\<lambda>(dst, off).
     if off + 1 > length dst then Some (UA_STATUSCODE_BADENCODINGERROR, (dst, off))
     else do { d \<leftarrow> write_bytes dst off [if v then 1 else 0]; Some (UA_STATUSCODE_GOOD, (d, off + 1)) })"

definition Boolean_decodeBinary :: "bool decoder" where [codec_defs]:
  "Boolean_decodeBinary = (\<lambda>(src, off).
     if off + 1 > length src then Some (UA_STATUSCODE_BADDECODINGERROR, False, (src, off))
     else do { bs \<leftarrow> read_bytes src off 1; Some (UA_STATUSCODE_GOOD, hd bs > 0, (src, off + 1)) })"

definition Byte_encodeBinary :: "UA_Byte encoder" where [codec_defs]:
  "Byte_encodeBinary v = (\<lambda>(dst, off).
     if off + 1 > length dst then Some (UA_STATUSCODE_BADENCODINGERROR, (dst, off))
     else do { d \<leftarrow> write_bytes dst off [v]; Some (UA_STATUSCODE_GOOD, (d, off + 1)) })"

definition Byte_decodeBinary :: "UA_Byte decoder" where [codec_defs]:
  "Byte_decodeBinary = (\<lambda>(src, off).
     if off + 1 > length src then Some (UA_STATUSCODE_BADDECODINGERROR, 0, (src, off))
     else do { bs \<leftarrow> read_bytes src off 1; Some (UA_STATUSCODE_GOOD, hd bs, (src, off + 1)) })"

definition UInt16_encodeBinary :: "UA_UInt16 encoder" where [codec_defs]:
  "UInt16_encodeBinary v = (\<lambda>(dst, off).
     if off + 2 > length dst then Some (UA_STATUSCODE_BADENCODINGERROR, (dst, off))
     else do { d \<leftarrow> write_bytes dst off (le_bytes 2 v); Some (UA_STATUSCODE_GOOD, (d, off + 2)) })"

definition UInt16_decodeBinary :: "UA_UInt16 decoder" where [codec_defs]:
  "UInt16_decodeBinary = (\<lambda>(src, off).
     if off + 2 > length src then Some (UA_STATUSCODE_BADDECODINGERROR, 0, (src, off))
     else do { bs \<leftarrow> read_bytes src off 2; Some (UA_STATUSCODE_GOOD, le_word bs, (src, off + 2)) })"

definition UInt32_encodeBinary :: "UA_UInt32 encoder" where [codec_defs]:
  "UInt32_encodeBinary v = (\<lambda>(dst, off).
     if off + 4 > length dst then Some (UA_STATUSCODE_BADENCODINGERROR, (dst, off))
     else do { d \<leftarrow> write_bytes dst off (le_bytes 4 v); Some (UA_STATUSCODE_GOOD, (d, off + 4)) })"

definition UInt32_decodeBinary :: "UA_UInt32 decoder" where [codec_defs]:
  "UInt32_decodeBinary = (\<lambda>(src, off).
     if off + 4 > length src then Some (UA_STATUSCODE_BADDECODINGERROR, 0, (src, off))
     else do { bs \<leftarrow> read_bytes src off 4; Some (UA_STATUSCODE_GOOD, le_word bs, (src, off + 4)) })"

definition UInt64_encodeBinary :: "UA_UInt64 encoder" where [codec_defs]:
  "UInt64_encodeBinary v = (\<lambda>(dst, off).
     if off + 8 > length dst then Some (UA_STATUSCODE_BADENCODINGERROR, (dst, off))
     else do { d \<leftarrow> write_bytes dst off (le_bytes 8 v); Some (UA_STATUSCODE_GOOD, (d, off + 8)) })"

definition UInt64_decodeBinary :: "UA_UInt64 decoder" where [codec_defs]:
  "UInt64_decodeBinary = (\<lambda>(src, off).
     if off + 8 > length src then Some (UA_STATUSCODE_BADDECODINGERROR, 0, (src, off))
     else do { bs \<leftarrow> read_bytes src off 8; Some (UA_STATUSCODE_GOOD, le_word bs, (src, off + 8)) })"

text \<open>The signed, status-code and date-time variants cast the pointer and call these.\<close>

definition Int32_encodeBinary :: "UA_Int32 encoder" where
  "Int32_encodeBinary v = UInt32_encodeBinary v"

definition Int32_decodeBinary :: "UA_Int32 decoder" where
  "Int32_decodeBinary = UInt32_decodeBinary"

definition StatusCode_encodeBinary :: "UA_StatusCode encoder" where
  "StatusCode_encodeBinary v = UInt32_encodeBinary v"

definition StatusCode_decodeBinary :: "UA_StatusCode decoder" where
  "StatusCode_decodeBinary = UInt32_decodeBinary"

definition DateTime_encodeBinary :: "UA_DateTime encoder" where
  "DateTime_encodeBinary v = UInt64_encodeBinary v"

definition DateTime_decodeBinary :: "UA_DateTime decoder" where
  "DateTime_decodeBinary = UInt64_decodeBinary"

section \<open>Arrays\<close>

text \<open>\<open>for(i = 0; i < length && retval == GOOD; i++) retval = encode(...)\<close>.\<close>

fun enc_elems :: "'a encoder \<Rightarrow> 'a list \<Rightarrow> encode" where
  "enc_elems enc [] c = Some (UA_STATUSCODE_GOOD, c)"
| "enc_elems enc (x # xs) c =
     do { (r, c1) \<leftarrow> enc x c; if r \<noteq> UA_STATUSCODE_GOOD then Some (r, c1) else enc_elems enc xs c1 }"

text \<open>
  The element type is given by its \<open>memSize\<close> and by its encoder; a \<open>zeroCopyable\<close> type also
  by the memory image of an element, which is what \<open>memcpy\<close> moves.
\<close>

definition Array_encodeBinary ::
  "nat \<Rightarrow> ('a \<Rightarrow> UA_Byte list) option \<Rightarrow> 'a encoder \<Rightarrow> 'a ua_array encoder" where
  "Array_encodeBinary memSize zeroCopy enc src c =
     (let signed_length =
        (if alen src > 0 then word_of_nat (alen src)
         else case src of Empty_sentinel \<Rightarrow> 0 | _ \<Rightarrow> - 1) :: UA_Int32
      in do {
        (retval, dst, off) \<leftarrow> Int32_encodeBinary signed_length c;
        if retval \<noteq> UA_STATUSCODE_GOOD then Some (retval, (dst, off))
        else case zeroCopy of
          Some img \<Rightarrow>
            if length dst < off + memSize * alen src then Some (UA_STATUSCODE_BADENCODINGERROR, (dst, off))
            else do { d \<leftarrow> write_bytes dst off (concat (map img (content src)));
                      Some (retval, (d, off + memSize * alen src)) }
        | None \<Rightarrow> enc_elems enc (content src) (dst, off) })"

fun dec_elems :: "'a decoder \<Rightarrow> nat \<Rightarrow> 'a list decoder" where
  "dec_elems dec 0 c = Some (UA_STATUSCODE_GOOD, [], c)"
| "dec_elems dec (Suc n) c =
     do { (r, v, c1) \<leftarrow> dec c;
          if r \<noteq> UA_STATUSCODE_GOOD then Some (r, [], c1)
          else do { (r', vs, c2) \<leftarrow> dec_elems dec n c1; Some (r', v # vs, c2) } }"

fun chunks :: "nat \<Rightarrow> nat \<Rightarrow> 'b list \<Rightarrow> 'b list list" where
  "chunks sz 0 bs = []"
| "chunks sz (Suc n) bs = take sz bs # chunks sz n (drop sz bs)"

definition Array_decodeBinary ::
  "(nat \<Rightarrow> bool) \<Rightarrow> nat \<Rightarrow> (UA_Byte list \<Rightarrow> 'a) option \<Rightarrow> 'a decoder \<Rightarrow> UA_Int32 \<Rightarrow> 'a ua_array decoder" where
  "Array_decodeBinary mem memSize zeroCopy dec signed_length = (\<lambda>(src, off).
     let len = nat (sint signed_length) in
     if sint signed_length \<le> 0
     then Some (UA_STATUSCODE_GOOD, if signed_length = 0 then Empty_sentinel else Null_ptr, (src, off))
     else if memSize * len > MAX_ARRAY_SIZE then Some (UA_STATUSCODE_BADOUTOFMEMORY, Null_ptr, (src, off))
     else if off + (memSize * len) div 32 > length src
     then Some (UA_STATUSCODE_BADDECODINGERROR, Null_ptr, (src, off))
     else if \<not> mem (memSize * len) then Some (UA_STATUSCODE_BADOUTOFMEMORY, Null_ptr, (src, off))
     else case zeroCopy of
       Some unimage \<Rightarrow>
         if length src < off + memSize * len
         then Some (UA_STATUSCODE_BADDECODINGERROR, Block [], (src, off))
         else do { bs \<leftarrow> read_bytes src off (memSize * len);
                   Some (UA_STATUSCODE_GOOD, Block (map unimage (chunks memSize len bs)), (src, off + memSize * len)) }
     | None \<Rightarrow>
         do { (r, vs, c1) \<leftarrow> dec_elems dec len (src, off);
              Some (if r \<noteq> UA_STATUSCODE_GOOD then (r, Null_ptr, c1) else (r, Block vs, c1)) })"

section \<open>String, Guid, NodeId\<close>

definition String_encodeBinary :: "UA_String encoder" where
  "String_encodeBinary src = (\<lambda>(dst, off).
     if off + alen src > length dst then Some (UA_STATUSCODE_BADENCODINGERROR, (dst, off))
     else case src of
       Null_ptr \<Rightarrow> Int32_encodeBinary (- 1) (dst, off)
     | Empty_sentinel \<Rightarrow> Int32_encodeBinary 0 (dst, off)
     | Block bs \<Rightarrow> do {
         (retval, d1, off1) \<leftarrow> Int32_encodeBinary (word_of_nat (length bs)) (dst, off);
         d2 \<leftarrow> write_bytes d1 off1 bs;
         Some (retval, (d2, off1 + length bs)) })"

definition ByteString_encodeBinary :: "UA_ByteString encoder" where
  "ByteString_encodeBinary src = String_encodeBinary src"

definition String_decodeBinary :: "(nat \<Rightarrow> bool) \<Rightarrow> UA_String decoder" where
  "String_decodeBinary mem = (\<lambda>(src, off). do {
     (retval, signed_length, src, off) \<leftarrow> Int32_decodeBinary (src, off);
     if retval \<noteq> UA_STATUSCODE_GOOD then Some (UA_STATUSCODE_BADINTERNALERROR, Null_ptr, (src, off))
     else let len = nat (sint signed_length) in
       if sint signed_length \<le> 0
       then Some (UA_STATUSCODE_GOOD, if signed_length = 0 then Empty_sentinel else Null_ptr, (src, off))
       else if off + len > length src then Some (UA_STATUSCODE_BADDECODINGERROR, Null_ptr, (src, off))
       else if \<not> mem len then Some (UA_STATUSCODE_BADOUTOFMEMORY, Null_ptr, (src, off))
       else do { bs \<leftarrow> read_bytes src off len; Some (UA_STATUSCODE_GOOD, Block bs, (src, off + len)) } })"

definition ByteString_decodeBinary :: "(nat \<Rightarrow> bool) \<Rightarrow> UA_ByteString decoder" where
  "ByteString_decodeBinary mem = String_decodeBinary mem"

definition Guid_encodeBinary :: "UA_Guid encoder" where
  "Guid_encodeBinary src =
     enc_seq (UInt32_encodeBinary (data1 src)) (enc_seq (UInt16_encodeBinary (data2 src))
       (enc_seq (UInt16_encodeBinary (data3 src))
         (foldr (\<lambda>i. enc_seq (Byte_encodeBinary (data4 src ! i))) [0..<8] enc_skip)))"

fun dec_bytes :: "nat \<Rightarrow> UA_Byte list decoder" where
  "dec_bytes 0 = dec_return []"
| "dec_bytes (Suc n) = dec_bind Byte_decodeBinary (\<lambda>b. dec_bind (dec_bytes n) (\<lambda>bs. dec_return (b # bs)))"

definition Guid_decodeBinary :: "UA_Guid decoder" where
  "Guid_decodeBinary =
     dec_bind UInt32_decodeBinary (\<lambda>d1. dec_bind UInt16_decodeBinary (\<lambda>d2.
       dec_bind UInt16_decodeBinary (\<lambda>d3. dec_bind (dec_bytes 8) (\<lambda>d4.
         dec_return \<lparr>data1 = d1, data2 = d2, data3 = d3, data4 = d4\<rparr>))))"

definition UA_UINT16_MAX :: nat where "UA_UINT16_MAX = 65535"
definition UA_BYTE_MAX :: nat where "UA_BYTE_MAX = 256"

definition UA_NODEIDTYPE_NUMERIC_TWOBYTE :: UA_Byte where [tag_defs]: "UA_NODEIDTYPE_NUMERIC_TWOBYTE = 0"
definition UA_NODEIDTYPE_NUMERIC_FOURBYTE :: UA_Byte where [tag_defs]: "UA_NODEIDTYPE_NUMERIC_FOURBYTE = 1"
definition UA_NODEIDTYPE_NUMERIC_COMPLETE :: UA_Byte where [tag_defs]: "UA_NODEIDTYPE_NUMERIC_COMPLETE = 2"
definition UA_NODEIDTYPE_STRING :: UA_Byte where [tag_defs]: "UA_NODEIDTYPE_STRING = 3"
definition UA_NODEIDTYPE_GUID :: UA_Byte where [tag_defs]: "UA_NODEIDTYPE_GUID = 4"
definition UA_NODEIDTYPE_BYTESTRING :: UA_Byte where [tag_defs]: "UA_NODEIDTYPE_BYTESTRING = 5"

definition NodeId_encodeBinary :: "UA_NodeId encoder" where
  "NodeId_encodeBinary src =
     (case ident src of
        Numeric numeric \<Rightarrow>
          if unat numeric > UA_UINT16_MAX \<or> unat (namespaceIndex src) > UA_BYTE_MAX
          then enc_seq (Byte_encodeBinary UA_NODEIDTYPE_NUMERIC_COMPLETE)
                 (enc_seq (UInt16_encodeBinary (namespaceIndex src)) (UInt32_encodeBinary numeric))
          else if unat numeric > UA_BYTE_MAX \<or> unat (namespaceIndex src) > 0
          then enc_seq (Byte_encodeBinary UA_NODEIDTYPE_NUMERIC_FOURBYTE)
                 (enc_seq (Byte_encodeBinary (ucast (namespaceIndex src))) (UInt16_encodeBinary (ucast numeric)))
          else enc_seq (Byte_encodeBinary UA_NODEIDTYPE_NUMERIC_TWOBYTE) (Byte_encodeBinary (ucast numeric))
      | StringId s \<Rightarrow>
          enc_seq (Byte_encodeBinary UA_NODEIDTYPE_STRING)
            (enc_seq (UInt16_encodeBinary (namespaceIndex src)) (String_encodeBinary s))
      | GuidId g \<Rightarrow>
          enc_seq (Byte_encodeBinary UA_NODEIDTYPE_GUID)
            (enc_seq (UInt16_encodeBinary (namespaceIndex src)) (Guid_encodeBinary g))
      | ByteStringId s \<Rightarrow>
          enc_seq (Byte_encodeBinary UA_NODEIDTYPE_BYTESTRING)
            (enc_seq (UInt16_encodeBinary (namespaceIndex src)) (ByteString_encodeBinary s)))"

definition NodeId_decodeBinary :: "(nat \<Rightarrow> bool) \<Rightarrow> UA_NodeId decoder" where
  "NodeId_decodeBinary mem =
     dec_guard Byte_decodeBinary UA_NODEID_NULL (\<lambda>encodingByte. dec_cleanup NodeId_deleteMembers
       (if encodingByte = UA_NODEIDTYPE_NUMERIC_TWOBYTE then
          dec_bind Byte_decodeBinary (\<lambda>b. dec_return \<lparr>namespaceIndex = 0, ident = Numeric (ucast b)\<rparr>)
        else if encodingByte = UA_NODEIDTYPE_NUMERIC_FOURBYTE then
          dec_bind Byte_decodeBinary (\<lambda>b. dec_bind UInt16_decodeBinary (\<lambda>n.
            dec_return \<lparr>namespaceIndex = ucast b, ident = Numeric (ucast n)\<rparr>))
        else if encodingByte = UA_NODEIDTYPE_NUMERIC_COMPLETE then
          dec_bind UInt16_decodeBinary (\<lambda>ns. dec_bind UInt32_decodeBinary (\<lambda>n.
            dec_return \<lparr>namespaceIndex = ns, ident = Numeric n\<rparr>))
        else if encodingByte = UA_NODEIDTYPE_STRING then
          dec_bind UInt16_decodeBinary (\<lambda>ns. dec_bind (String_decodeBinary mem) (\<lambda>s.
            dec_return \<lparr>namespaceIndex = ns, ident = StringId s\<rparr>))
        else if encodingByte = UA_NODEIDTYPE_GUID then
          dec_bind UInt16_decodeBinary (\<lambda>ns. dec_bind Guid_decodeBinary (\<lambda>g.
            dec_return \<lparr>namespaceIndex = ns, ident = GuidId g\<rparr>))
        else if encodingByte = UA_NODEIDTYPE_BYTESTRING then
          dec_bind UInt16_decodeBinary (\<lambda>ns. dec_bind (ByteString_decodeBinary mem) (\<lambda>s.
            dec_return \<lparr>namespaceIndex = ns, ident = ByteStringId s\<rparr>))
        else (\<lambda>c. Some (UA_STATUSCODE_BADINTERNALERROR, UA_NODEID_NULL, c))))"

section \<open>ExpandedNodeId, LocalizedText, DiagnosticInfo\<close>

definition UA_EXPANDEDNODEID_NAMESPACEURI_FLAG :: UA_Byte where [tag_defs]: "UA_EXPANDEDNODEID_NAMESPACEURI_FLAG = 0x80"
definition UA_EXPANDEDNODEID_SERVERINDEX_FLAG :: UA_Byte where [tag_defs]: "UA_EXPANDEDNODEID_SERVERINDEX_FLAG = 0x40"

text \<open>\<open>dst->data[start] |= flag\<close>, a write to the buffer that no bound check precedes.\<close>

definition or_byte_at :: "nat \<Rightarrow> UA_Byte \<Rightarrow> encode" where
  "or_byte_at start flag = (\<lambda>(dst, off).
     if start < length dst then Some (UA_STATUSCODE_GOOD, (dst[start := dst ! start OR flag], off)) else None)"

definition ExpandedNodeId_encodeBinary :: "UA_ExpandedNodeId encoder" where
  "ExpandedNodeId_encodeBinary src = (\<lambda>(dst, off).
     let start = unat (word_of_nat off :: UA_UInt32) in
     enc_seq (NodeId_encodeBinary (nodeId src))
       (enc_seq
         (enc_when (alen (namespaceUri src) > 0)
           (enc_seq (String_encodeBinary (namespaceUri src)) (or_byte_at start UA_EXPANDEDNODEID_NAMESPACEURI_FLAG)))
         (enc_when (serverIndex src > 0)
           (enc_seq (UInt32_encodeBinary (serverIndex src)) (or_byte_at start UA_EXPANDEDNODEID_SERVERINDEX_FLAG))))
       (dst, off))"

definition ExpandedNodeId_deleteMembers :: "UA_ExpandedNodeId \<Rightarrow> UA_ExpandedNodeId" where
  "ExpandedNodeId_deleteMembers p = p\<lparr>nodeId := NodeId_deleteMembers (nodeId p), namespaceUri := UA_STRING_NULL\<rparr>"

text \<open>The decoder clears the two flag bits in the source buffer before it decodes the node id.\<close>

definition ExpandedNodeId_decodeBinary :: "(nat \<Rightarrow> bool) \<Rightarrow> UA_ExpandedNodeId decoder" where
  "ExpandedNodeId_decodeBinary mem = (\<lambda>(src, off).
     if off \<ge> length src then Some (UA_STATUSCODE_BADDECODINGERROR, UA_EXPANDEDNODEID_NULL, (src, off))
     else let encodingByte = src ! off;
              hasUri = encodingByte AND UA_EXPANDEDNODEID_NAMESPACEURI_FLAG \<noteq> 0;
              hasIndex = encodingByte AND UA_EXPANDEDNODEID_SERVERINDEX_FLAG \<noteq> 0
       in dec_cleanup ExpandedNodeId_deleteMembers
            (dec_bind (NodeId_decodeBinary mem) (\<lambda>n.
              dec_bind (dec_when hasUri (String_decodeBinary mem) UA_STRING_NULL) (\<lambda>uri.
                dec_bind (dec_when hasIndex UInt32_decodeBinary 0) (\<lambda>idx.
                  dec_return \<lparr>nodeId = (if hasUri then n\<lparr>namespaceIndex := 0\<rparr> else n),
                              namespaceUri = uri, serverIndex = idx\<rparr>))))
            (src[off := encodingByte AND NOT (UA_EXPANDEDNODEID_NAMESPACEURI_FLAG OR UA_EXPANDEDNODEID_SERVERINDEX_FLAG)], off))"

definition UA_LOCALIZEDTEXT_ENCODINGMASKTYPE_LOCALE :: UA_Byte where [tag_defs]: "UA_LOCALIZEDTEXT_ENCODINGMASKTYPE_LOCALE = 0x01"
definition UA_LOCALIZEDTEXT_ENCODINGMASKTYPE_TEXT :: UA_Byte where [tag_defs]: "UA_LOCALIZEDTEXT_ENCODINGMASKTYPE_TEXT = 0x02"

definition LocalizedText_encodeBinary :: "UA_LocalizedText encoder" where
  "LocalizedText_encodeBinary src =
     (let encodingMask =
        (if locale_text src \<noteq> Null_ptr then UA_LOCALIZEDTEXT_ENCODINGMASKTYPE_LOCALE else 0) OR
        (if text_text src \<noteq> Null_ptr then UA_LOCALIZEDTEXT_ENCODINGMASKTYPE_TEXT else 0)
      in enc_seq (Byte_encodeBinary encodingMask)
           (enc_seq
             (enc_when (encodingMask AND UA_LOCALIZEDTEXT_ENCODINGMASKTYPE_LOCALE \<noteq> 0) (String_encodeBinary (locale_text src)))
             (enc_when (encodingMask AND UA_LOCALIZEDTEXT_ENCODINGMASKTYPE_TEXT \<noteq> 0) (String_encodeBinary (text_text src)))))"

definition LocalizedText_deleteMembers :: "UA_LocalizedText \<Rightarrow> UA_LocalizedText" where
  "LocalizedText_deleteMembers p = \<lparr>locale_text = UA_STRING_NULL, text_text = UA_STRING_NULL\<rparr>"

definition LocalizedText_decodeBinary :: "(nat \<Rightarrow> bool) \<Rightarrow> UA_LocalizedText decoder" where
  "LocalizedText_decodeBinary mem = dec_cleanup LocalizedText_deleteMembers
     (dec_bind Byte_decodeBinary (\<lambda>encodingMask.
       dec_bind (dec_when (encodingMask AND UA_LOCALIZEDTEXT_ENCODINGMASKTYPE_LOCALE \<noteq> 0) (String_decodeBinary mem) UA_STRING_NULL) (\<lambda>l.
         dec_bind (dec_when (encodingMask AND UA_LOCALIZEDTEXT_ENCODINGMASKTYPE_TEXT \<noteq> 0) (String_decodeBinary mem) UA_STRING_NULL) (\<lambda>t.
           dec_return \<lparr>locale_text = l, text_text = t\<rparr>))))"

end
