(* ===== verification/Ua_Encoding_Laws.thy ===== *)
theory Ua_Encoding_Laws
  imports Ua_Encoding
begin

text \<open>
  The laws of the binary (de)serialiser: every type of \<^verbatim>\<open>Ua_Encoding\<close> as an instance of the
  interface \<open>codec\<close> (round trip) and of \<open>safe_decoder\<close> (memory safety on arbitrary
  bytes), composed from the laws of its members.
\<close>

section \<open>The integer codecs\<close>

lemma hd_take_drop: "off < length src \<Longrightarrow> hd (take (Suc 0) (drop off src)) = src ! off"
  by (simp add: hd_drop_conv_nth hd_take)

interpretation Boolean: codec Boolean_encodeBinary Boolean_decodeBinary "\<lambda>v. [if v then 1 else 0]" "\<lambda>_. True" id
  by unfold_locales (auto simp: encodes_def decodes_def codec_defs)

interpretation Byte: codec Byte_encodeBinary Byte_decodeBinary "\<lambda>v. [v]" "\<lambda>_. True" id
  by unfold_locales (auto simp: encodes_def decodes_def codec_defs)

interpretation UInt16: codec UInt16_encodeBinary UInt16_decodeBinary "le_bytes 2" "\<lambda>_. True" id
  by unfold_locales (auto simp: encodes_def decodes_def codec_defs)

interpretation UInt32: codec UInt32_encodeBinary UInt32_decodeBinary "le_bytes 4" "\<lambda>_. True" id
  by unfold_locales (auto simp: encodes_def decodes_def codec_defs)

interpretation UInt64: codec UInt64_encodeBinary UInt64_decodeBinary "le_bytes 8" "\<lambda>_. True" id
  by unfold_locales (auto simp: encodes_def decodes_def codec_defs)

interpretation Byte_safe: safe_decoder Byte_decodeBinary
  by unfold_locales (auto simp: codec_defs)

interpretation UInt16_safe: safe_decoder UInt16_decodeBinary
  by unfold_locales (auto simp: codec_defs)

interpretation UInt32_safe: safe_decoder UInt32_decodeBinary
  by unfold_locales (auto simp: codec_defs)

interpretation UInt64_safe: safe_decoder UInt64_decodeBinary
  by unfold_locales (auto simp: codec_defs)

lemmas int_safe [intro] =
  Byte_safe.safe_decoder_axioms UInt16_safe.safe_decoder_axioms
  UInt32_safe.safe_decoder_axioms UInt64_safe.safe_decoder_axioms

lemmas int_enc = Byte.enc_ser UInt16.enc_ser UInt32.enc_ser UInt64.enc_ser

lemma int_dec:
  "decodes Byte_decodeBinary [b] b" "decodes UInt16_decodeBinary (le_bytes 2 v) v"
  "decodes UInt32_decodeBinary (le_bytes 4 w) w" "decodes UInt64_decodeBinary (le_bytes 8 x) x"
  using Byte.dec_ser [of b] UInt16.dec_ser [of v] UInt32.dec_ser [of w] UInt64.dec_ser [of x] by simp_all

lemma take_splice: "n \<le> off \<Longrightarrow> off \<le> length buf \<Longrightarrow> take n (splice buf off bs) = take n buf"
  by (simp add: splice_def)

lemma int_frame [intro]:
  "enc_frame (Byte_encodeBinary b)" "enc_frame (UInt16_encodeBinary v)"
  "enc_frame (UInt32_encodeBinary w)" "enc_frame (UInt64_encodeBinary x)"
  by (auto simp: enc_frame_def codec_defs take_splice split: if_splits)

section \<open>The string codec\<close>

text \<open>The wire format: a signed 32-bit length, -1 for the undefined string, then the bytes.\<close>

definition ser_String :: "UA_String \<Rightarrow> UA_Byte list" where
  "ser_String s = le_bytes 4 (if s = Null_ptr then - 1 else word_of_nat (alen s) :: UA_Int32) @ content s"

definition ok_String :: "UA_String \<Rightarrow> bool" where
  "ok_String s \<longleftrightarrow> alen s < 2 ^ 31"

lemma encodes_String: "ok_String s \<Longrightarrow> encodes (String_encodeBinary s) (ser_String s)"
  by (cases s)
    (auto simp: encodes_def ser_String_def String_encodeBinary_def Int32_encodeBinary_def
      encodesD [OF UInt32.enc_ser] splice_splice)

lemma Int32_dec_ser:
  "off = length pre \<Longrightarrow> Int32_decodeBinary (pre @ le_bytes 4 w @ post, off) =
     Some (UA_STATUSCODE_GOOD, w, (pre @ le_bytes 4 w @ post, off + 4))"
  using decodesD [OF int_dec(3), of off pre w post] by (simp add: Int32_decodeBinary_def)

lemma decodes_String:
  assumes "ok_String s" "\<forall>n. mem n"
  shows "decodes (String_decodeBinary mem) (ser_String s) (canon_array s)"
  unfolding decodes_def
proof (intro allI)
  fix pre post :: "UA_Byte list"
  show "String_decodeBinary mem (pre @ ser_String s @ post, length pre) =
    Some (UA_STATUSCODE_GOOD, canon_array s, (pre @ ser_String s @ post, length pre + length (ser_String s)))"
  proof (cases s)
    case (Block bs)
    have rd: "read_bytes (pre @ le_bytes 4 w @ bs @ post) (length pre + 4) (length bs) = Some bs" for w :: UA_Int32
      using read_bytes_mid [of "length pre + 4" "pre @ le_bytes 4 w" "length bs" bs post] by simp
    have len: "length bs < 2 ^ 31" using assms(1) Block by (simp add: ok_String_def)
    note sgn = sint_of_nat32 [OF len] of_nat32_eq_0 [OF len]
    show ?thesis
    proof (cases "bs = []")
      case True
      then show ?thesis using Block by (simp add: String_decodeBinary_def ser_String_def Int32_dec_ser)
    next
      case False
      then show ?thesis using Block assms(2) sgn
        by (simp add: String_decodeBinary_def ser_String_def Int32_dec_ser rd Let_def canon_array_Block)
    qed
  qed (simp_all add: String_decodeBinary_def ser_String_def Int32_dec_ser)
qed

interpretation String: codec String_encodeBinary "String_decodeBinary (\<lambda>_. True)" ser_String ok_String canon_array
  by unfold_locales (auto intro: encodes_String decodes_String)

interpretation String_safe: safe_decoder "String_decodeBinary mem" for mem
proof
  fix off and src :: "UA_Byte list"
  assume "off \<le> length src"
  from UInt32_safe.safe [OF this] obtain r v off' where
    "UInt32_decodeBinary (src, off) = Some (r, v, (src, off'))" "off \<le> off'" "off' \<le> length src"
    by (auto simp: codec_defs split: if_splits)
  then show "\<exists>r v src' off'. String_decodeBinary mem (src, off) = Some (r, v, (src', off')) \<and>
      length src' = length src \<and> off \<le> off' \<and> off' \<le> length src"
    by (auto simp: String_decodeBinary_def Int32_decodeBinary_def Let_def)
qed

section \<open>The guid codec\<close>

lemma encodes_bytes:
  "encodes (foldr (\<lambda>i. enc_seq (Byte_encodeBinary (f i))) is enc_skip) (map f is)"
proof (induction "is")
  case (Cons i js)
  have "encodes (enc_seq (Byte_encodeBinary (f i)) (foldr (\<lambda>i. enc_seq (Byte_encodeBinary (f i))) js enc_skip)) ([f i] @ map f js)"
    by (intro encodes_seq Byte.enc_ser Cons) simp
  then show ?case by simp
qed (simp add: encodes_skip)

lemma decodes_bytes: "decodes (dec_bytes (length bs)) bs bs"
proof (induction bs)
  case (Cons b bs)
  have "decodes (dec_bytes (Suc (length bs))) ([b] @ bs @ []) (b # bs)"
    unfolding dec_bytes.simps by (rule decodes_bind int_dec Cons decodes_return)+
  then show ?case by simp
qed (simp add: decodes_return)

lemma encodes_Guid: "wf_Guid g \<Longrightarrow> encodes (Guid_encodeBinary g) (Guid_bytes g)"
  unfolding Guid_encodeBinary_def Guid_bytes_def
  using encodes_bytes [of "(!) (data4 g)" "[0..<8]"]
  by (intro encodes_seq int_enc TrueI) (simp add: map_nth_upt wf_Guid_def)

lemma decodes_Guid: "wf_Guid g \<Longrightarrow> decodes Guid_decodeBinary (Guid_bytes g) g"
proof -
  assume "wf_Guid g"
  then have d4: "decodes (dec_bytes 8) (data4 g) (data4 g)" using decodes_bytes [of "data4 g"] by (simp add: wf_Guid_def)
  have "decodes Guid_decodeBinary (le_bytes 4 (data1 g) @ le_bytes 2 (data2 g) @ le_bytes 2 (data3 g) @ data4 g @ [])
      \<lparr>data1 = data1 g, data2 = data2 g, data3 = data3 g, data4 = data4 g\<rparr>"
    unfolding Guid_decodeBinary_def
    by (rule decodes_bind int_dec decodes_return d4)+
  then show ?thesis by (cases g) (simp add: Guid_bytes_def)
qed

interpretation Guid: codec Guid_encodeBinary Guid_decodeBinary Guid_bytes wf_Guid id
  by unfold_locales (auto intro: encodes_Guid decodes_Guid)

lemma safe_bytes [intro]: "safe_decoder (dec_bytes n)"
  by (induction n) (auto)

interpretation Guid_safe: safe_decoder Guid_decodeBinary
  unfolding Guid_decodeBinary_def by (intro safe_bind int_safe safe_bytes safe_return)

section \<open>The node id codec\<close>

text \<open>
  The wire format of node ids as the OPC UA standard has it: the most compact of the three
  numeric encodings that can hold the namespace (one byte) and the identifier.
\<close>

definition ser_NodeId :: "UA_NodeId \<Rightarrow> UA_Byte list" where
  "ser_NodeId n = (case ident n of
     Numeric i \<Rightarrow>
       if namespaceIndex n = 0 \<and> unat i \<le> 255 then [0, ucast i]
       else if unat (namespaceIndex n) \<le> 255 \<and> unat i \<le> 65535
       then [1, ucast (namespaceIndex n)] @ le_bytes 2 (ucast i :: UA_UInt16)
       else [2] @ le_bytes 2 (namespaceIndex n) @ le_bytes 4 i
   | StringId s \<Rightarrow> [3] @ le_bytes 2 (namespaceIndex n) @ ser_String s
   | GuidId g \<Rightarrow> [4] @ le_bytes 2 (namespaceIndex n) @ Guid_bytes g
   | ByteStringId s \<Rightarrow> [5] @ le_bytes 2 (namespaceIndex n) @ ser_String s)"

text \<open>
  The numeric node ids the encoder handles: it compares with \<open>UA_BYTE_MAX\<close>, which the
  header sets to 256, so the identifier 256 in namespace 0 and the namespace 256 fall into a
  form that cannot hold them.
\<close>

definition ok_NodeId :: "UA_NodeId \<Rightarrow> bool" where
  "ok_NodeId n \<longleftrightarrow> (case ident n of
     Numeric i \<Rightarrow> \<not> (namespaceIndex n = 0 \<and> i = 256) \<and> \<not> (namespaceIndex n = 256 \<and> unat i \<le> 65535)
   | StringId s \<Rightarrow> ok_String s
   | GuidId g \<Rightarrow> wf_Guid g
   | ByteStringId s \<Rightarrow> ok_String s)"

fun canon_ident :: "node_identifier \<Rightarrow> node_identifier" where
  "canon_ident (StringId s) = StringId (canon_array s)"
| "canon_ident (ByteStringId s) = ByteStringId (canon_array s)"
| "canon_ident i = i"

definition canon_NodeId :: "UA_NodeId \<Rightarrow> UA_NodeId" where
  "canon_NodeId n = n\<lparr>ident := canon_ident (ident n)\<rparr>"

lemma canon_NodeId_equal: "UA_NodeId_equal (canon_NodeId n) n"
  by (cases "ident n") (auto simp: UA_NodeId_equal_norm norm_NodeId_def canon_NodeId_def)

lemma numeric_classes:
  fixes i :: UA_UInt32 and ns :: UA_UInt16
  assumes "\<not> (ns = 0 \<and> i = 256)" "\<not> (ns = 256 \<and> unat i \<le> 65535)"
  shows "(unat i > UA_UINT16_MAX \<or> unat ns > UA_BYTE_MAX) \<longleftrightarrow> \<not> (unat ns \<le> 255 \<and> unat i \<le> 65535)"
    and "unat ns \<le> 255 \<and> unat i \<le> 65535 \<Longrightarrow>
      (unat i > UA_BYTE_MAX \<or> unat ns > 0) \<longleftrightarrow> \<not> (ns = 0 \<and> unat i \<le> 255)"
proof -
  have n: "\<not> (unat ns = 0 \<and> unat i = 256)" "\<not> (unat ns = 256 \<and> unat i \<le> 65535)" "ns = 0 \<longleftrightarrow> unat ns = 0"
    using assms by (simp_all add: word_unat_eq_iff)
  show "(unat i > UA_UINT16_MAX \<or> unat ns > UA_BYTE_MAX) \<longleftrightarrow> \<not> (unat ns \<le> 255 \<and> unat i \<le> 65535)"
    using n unfolding UA_UINT16_MAX_def UA_BYTE_MAX_def by linarith
  show "(unat i > UA_BYTE_MAX \<or> unat ns > 0) \<longleftrightarrow> \<not> (ns = 0 \<and> unat i \<le> 255)"
    if "unat ns \<le> 255 \<and> unat i \<le> 65535"
    using n that unfolding UA_BYTE_MAX_def by linarith
qed

lemma encodes_NodeId:
  assumes "ok_NodeId n" shows "encodes (NodeId_encodeBinary n) (ser_NodeId n)"
proof (cases "ident n")
  case (Numeric i)
  have 2: "encodes (enc_seq (Byte_encodeBinary b) (Byte_encodeBinary c)) [b, c]" for b c
    using encodes_seq [OF Byte.enc_ser Byte.enc_ser, of b c] by simp
  have 4: "encodes (enc_seq (Byte_encodeBinary b) (enc_seq (Byte_encodeBinary c) (UInt16_encodeBinary w))) ([b, c] @ le_bytes 2 w)" for b c w
    using encodes_seq [OF Byte.enc_ser encodes_seq [OF Byte.enc_ser UInt16.enc_ser], of b c w] by simp
  have 7: "encodes (enc_seq (Byte_encodeBinary b) (enc_seq (UInt16_encodeBinary v) (UInt32_encodeBinary w))) ([b] @ le_bytes 2 v @ le_bytes 4 w)" for b v w
    by (intro encodes_seq int_enc TrueI)
  from assms Numeric have lim: "\<not> (namespaceIndex n = 0 \<and> i = 256)" "\<not> (namespaceIndex n = 256 \<and> unat i \<le> 65535)"
    by (auto simp: ok_NodeId_def)
  let ?big = "UA_UINT16_MAX < unat i \<or> UA_BYTE_MAX < unat (namespaceIndex n)"
  let ?mid = "UA_BYTE_MAX < unat i \<or> 0 < unat (namespaceIndex n)"
  let ?fits2 = "namespaceIndex n = 0 \<and> unat i \<le> 255"
  let ?fits4 = "unat (namespaceIndex n) \<le> 255 \<and> unat i \<le> 65535"
  have sub: "?fits2 \<Longrightarrow> ?fits4" by auto
  note defs = NodeId_encodeBinary_def ser_NodeId_def Numeric node_identifier.case tag_defs
  consider (a) "?fits2" "\<not> ?big" "\<not> ?mid" | (b) "\<not> ?fits2" "?fits4" "\<not> ?big" "?mid" | (c) "\<not> ?fits2" "\<not> ?fits4" "?big"
    using numeric_classes [OF lim] sub by metis
  then show ?thesis
  proof cases
    case a show ?thesis unfolding defs if_P [OF a(1)] if_not_P [OF a(2)] if_not_P [OF a(3)] by (rule 2)
  next
    case b show ?thesis
      unfolding defs if_not_P [OF b(1)] if_P [OF b(2)] if_not_P [OF b(3)] if_P [OF b(4)] by (rule 4)
  next
    case c show ?thesis unfolding defs if_not_P [OF c(1)] if_not_P [OF c(2)] if_P [OF c(3)] by (rule 7)
  qed
next
  case (StringId s)
  with assms show ?thesis
    by (simp only: NodeId_encodeBinary_def ser_NodeId_def ok_NodeId_def node_identifier.case tag_defs)
      (intro encodes_seq int_enc encodes_String TrueI)
next
  case (GuidId g)
  with assms show ?thesis
    by (simp only: NodeId_encodeBinary_def ser_NodeId_def ok_NodeId_def node_identifier.case tag_defs)
      (intro encodes_seq int_enc encodes_Guid TrueI)
next
  case (ByteStringId s)
  with assms show ?thesis
    by (simp only: NodeId_encodeBinary_def ser_NodeId_def ok_NodeId_def node_identifier.case tag_defs ByteString_encodeBinary_def)
      (intro encodes_seq int_enc encodes_String TrueI)
qed

text \<open>The decoder on each of the six tags, on top of the decoders of the parts.\<close>

lemma decodes_NodeId_parts:
  "decodes (NodeId_decodeBinary mem) ([0] @ [b]) \<lparr>namespaceIndex = 0, ident = Numeric (ucast b)\<rparr>"
  "decodes (NodeId_decodeBinary mem) ([1] @ [b] @ le_bytes 2 v) \<lparr>namespaceIndex = ucast b, ident = Numeric (ucast v)\<rparr>"
  "decodes (NodeId_decodeBinary mem) ([2] @ le_bytes 2 v @ le_bytes 4 w) \<lparr>namespaceIndex = v, ident = Numeric w\<rparr>"
  "decodes (String_decodeBinary mem) bs s \<Longrightarrow>
     decodes (NodeId_decodeBinary mem) ([3] @ le_bytes 2 v @ bs) \<lparr>namespaceIndex = v, ident = StringId s\<rparr>"
  "decodes Guid_decodeBinary bs g \<Longrightarrow>
     decodes (NodeId_decodeBinary mem) ([4] @ le_bytes 2 v @ bs) \<lparr>namespaceIndex = v, ident = GuidId g\<rparr>"
  "decodes (String_decodeBinary mem) bs s \<Longrightarrow>
     decodes (NodeId_decodeBinary mem) ([5] @ le_bytes 2 v @ bs) \<lparr>namespaceIndex = v, ident = ByteStringId s\<rparr>"
  unfolding NodeId_decodeBinary_def
  by (rule decodes_guard [OF int_dec(1)], simp add: tag_defs ByteString_decodeBinary_def del: append_Cons append_Nil,
      (rule decodes_cleanup decodes_bind_return decodes_bind int_dec | assumption)+)+

lemma decodes_NodeId:
  assumes "ok_NodeId n" "\<forall>k. mem k"
  shows "decodes (NodeId_decodeBinary mem) (ser_NodeId n) (canon_NodeId n)"
proof (cases "ident n")
  case (Numeric i)
  have 1: "ucast (ucast i :: UA_Byte) = i" if "unat i \<le> 255"
    using that by (intro ucast_down_up) simp
  have 2: "ucast (ucast i :: UA_UInt16) = i" if "unat i \<le> 65535"
    using that by (intro ucast_down_up) simp
  have 3: "ucast (ucast ns :: UA_Byte) = ns" if "unat ns \<le> 255" for ns :: UA_UInt16
    using that by (intro ucast_down_up) simp
  show ?thesis
    using Numeric decodes_NodeId_parts(1) [of mem "ucast i"]
      decodes_NodeId_parts(2) [of mem "ucast (namespaceIndex n)" "ucast i"]
      decodes_NodeId_parts(3) [of mem "namespaceIndex n" i]
    by (cases n) (auto simp: ser_NodeId_def canon_NodeId_def 1 2 3)
next
  case (StringId s)
  with assms decodes_NodeId_parts(4) [OF decodes_String] show ?thesis
    by (cases n) (simp add: ser_NodeId_def canon_NodeId_def ok_NodeId_def)
next
  case (GuidId g)
  with assms decodes_NodeId_parts(5) [OF decodes_Guid] show ?thesis
    by (cases n) (simp add: ser_NodeId_def canon_NodeId_def ok_NodeId_def)
next
  case (ByteStringId s)
  with assms decodes_NodeId_parts(6) [OF decodes_String] show ?thesis
    by (cases n) (simp add: ser_NodeId_def canon_NodeId_def ok_NodeId_def)
qed

interpretation NodeId: codec NodeId_encodeBinary "NodeId_decodeBinary (\<lambda>_. True)" ser_NodeId ok_NodeId canon_NodeId
  by unfold_locales (auto intro: encodes_NodeId decodes_NodeId)

lemma safe_fail [intro]: "safe_decoder (\<lambda>c. Some (r, v, c))"
  by unfold_locales simp

interpretation NodeId_safe: safe_decoder "NodeId_decodeBinary mem" for mem
  unfolding NodeId_decodeBinary_def ByteString_decodeBinary_def
  by (intro safe_guard int_safe safe_cleanup)
    (auto intro!: safe_bind safe_return safe_fail int_safe String_safe.safe_decoder_axioms Guid_safe.safe_decoder_axioms)

section \<open>Expanded node ids\<close>

definition eni_flags :: "UA_ExpandedNodeId \<Rightarrow> UA_Byte" where
  "eni_flags e = (if alen (namespaceUri e) > 0 then 0x80 else 0) OR (if serverIndex e > 0 then 0x40 else 0)"

definition ser_ExpandedNodeId :: "UA_ExpandedNodeId \<Rightarrow> UA_Byte list" where
  "ser_ExpandedNodeId e =
     [hd (ser_NodeId (nodeId e)) OR eni_flags e] @ tl (ser_NodeId (nodeId e)) @
     (if alen (namespaceUri e) > 0 then ser_String (namespaceUri e) else []) @
     (if serverIndex e > 0 then le_bytes 4 (serverIndex e) else [])"

definition ok_ExpandedNodeId :: "UA_ExpandedNodeId \<Rightarrow> bool" where
  "ok_ExpandedNodeId e \<longleftrightarrow> ok_NodeId (nodeId e) \<and> ok_String (namespaceUri e)"

definition canon_ExpandedNodeId :: "UA_ExpandedNodeId \<Rightarrow> UA_ExpandedNodeId" where
  "canon_ExpandedNodeId e =
     (let hasUri = alen (namespaceUri e) > 0; n = canon_NodeId (nodeId e) in
      \<lparr>nodeId = (if hasUri then n\<lparr>namespaceIndex := 0\<rparr> else n),
       namespaceUri = (if hasUri then canon_array (namespaceUri e) else Null_ptr),
       serverIndex = serverIndex e\<rparr>)"

lemma ser_NodeId_tag: "ser_NodeId n = hd (ser_NodeId n) # tl (ser_NodeId n)" "hd (ser_NodeId n) \<in> {0, 1, 2, 3, 4, 5}"
  by (auto simp: ser_NodeId_def split: node_identifier.splits)

lemma tag_flags:
  fixes b :: UA_Byte
  assumes "b \<in> {0, 1, 2, 3, 4, 5}"
  shows "(b OR eni_flags e) AND - 193 = b"
    and "((b OR eni_flags e) AND 0x80 \<noteq> 0) = (alen (namespaceUri e) > 0)"
    and "((b OR eni_flags e) AND 0x40 \<noteq> 0) = (serverIndex e > 0)"
  using assms by (auto simp: eni_flags_def)

lemma splice_update_head:
  "off + Suc (length bs) \<le> length buf \<Longrightarrow> (splice buf off (b # bs))[off := x] = splice buf off (x # bs)"
  by (simp add: splice_def list_update_append)

lemma splice_nth_head: "off + Suc (length bs) \<le> length buf \<Longrightarrow> splice buf off (b # bs) ! off = b"
  by (simp add: splice_def nth_append)

text \<open>\<open>retval |= f(...); dst->data[start] |= flag;\<close> after a prefix of the value was written.\<close>

lemma enc_flagged:
  assumes "encodes f cs" "off + Suc (length bs + length cs) \<le> length buf"
  shows "enc_seq f (or_byte_at off flag) (splice buf off (b # bs), off + Suc (length bs)) =
     Some (UA_STATUSCODE_GOOD, (splice buf off ((b OR flag) # bs @ cs), off + Suc (length (bs @ cs))))"
proof -
  have "f (splice buf off (b # bs), off + Suc (length bs)) =
      Some (UA_STATUSCODE_GOOD, (splice buf off (b # bs @ cs), off + Suc (length (bs @ cs))))"
    using assms(2) by (subst encodesD [OF assms(1)]) (simp_all add: splice_splice add.assoc)
  then show ?thesis
    using assms(2) by (simp add: enc_seq_def or_byte_at_def splice_update_head splice_nth_head)
qed

lemma ExpandedNodeId_enc:
  assumes ok: "ok_ExpandedNodeId e" and room: "off + length (ser_ExpandedNodeId e) \<le> length buf"
    and off: "off < 2 ^ 32"
  shows "ExpandedNodeId_encodeBinary e (buf, off) =
     Some (UA_STATUSCODE_GOOD, (splice buf off (ser_ExpandedNodeId e), off + length (ser_ExpandedNodeId e)))"
proof -
  let ?uri = "alen (namespaceUri e) > 0" and ?idx = "serverIndex e > 0"
  obtain b bs where n: "ser_NodeId (nodeId e) = b # bs" by (metis ser_NodeId_tag(1))
  have start: "unat (word_of_nat off :: UA_UInt32) = off" using off by (simp add: unat_of_nat)
  have 1: "NodeId_encodeBinary (nodeId e) (buf, off) =
      Some (UA_STATUSCODE_GOOD, (splice buf off (b # bs), off + Suc (length bs)))"
    using ok room n by (subst encodesD [OF encodes_NodeId]) (auto simp: ok_ExpandedNodeId_def ser_ExpandedNodeId_def)
  have 2: "enc_when ?uri (enc_seq (String_encodeBinary (namespaceUri e)) (or_byte_at off 0x80))
      (splice buf off (b # bs), off + Suc (length bs)) =
      Some (UA_STATUSCODE_GOOD, (splice buf off ((b OR (if ?uri then 0x80 else 0)) # bs @ (if ?uri then ser_String (namespaceUri e) else [])),
        off + Suc (length (bs @ (if ?uri then ser_String (namespaceUri e) else [])))))"
    using ok room n enc_flagged [OF encodes_String]
    by (auto simp: enc_when_def enc_skip_def ok_ExpandedNodeId_def ser_ExpandedNodeId_def split: if_splits)
  have 3: "enc_when ?idx (enc_seq (UInt32_encodeBinary (serverIndex e)) (or_byte_at off 0x40))
      (splice buf off (c # cs), off + Suc (length cs)) =
      Some (UA_STATUSCODE_GOOD, (splice buf off ((c OR (if ?idx then 0x40 else 0)) # cs @ (if ?idx then le_bytes 4 (serverIndex e) else [])),
        off + Suc (length (cs @ (if ?idx then le_bytes 4 (serverIndex e) else [])))))"
    if "off + Suc (length cs + (if ?idx then 4 else 0)) \<le> length buf" for c cs
    using that enc_flagged [OF UInt32.enc_ser] by (auto simp: enc_when_def enc_skip_def)
  have r: "off + Suc (length (bs @ (if ?uri then ser_String (namespaceUri e) else [])) + (if ?idx then 4 else 0)) \<le> length buf"
    using room n by (auto simp: ser_ExpandedNodeId_def)
  show ?thesis
    using 1 2 3 [OF r] n
    by (simp add: ExpandedNodeId_encodeBinary_def Let_def start tag_defs enc_seq_def ser_ExpandedNodeId_def eni_flags_def or.assoc)
qed

lemma ExpandedNodeId_dec:
  assumes ok: "ok_ExpandedNodeId e" and mem: "\<forall>k. mem k"
  shows "ExpandedNodeId_decodeBinary mem (pre @ ser_ExpandedNodeId e @ post, length pre) =
     Some (UA_STATUSCODE_GOOD, canon_ExpandedNodeId e,
       ((pre @ ser_ExpandedNodeId e @ post)[length pre := hd (ser_NodeId (nodeId e))],
        length pre + length (ser_ExpandedNodeId e)))"
proof -
  let ?uri = "alen (namespaceUri e) > 0" and ?idx = "serverIndex e > 0"
  obtain b bs where n: "ser_NodeId (nodeId e) = b # bs" and b: "b \<in> {0, 1, 2, 3, 4, 5}"
    by (metis ser_NodeId_tag)
  let ?tail = "(if ?uri then ser_String (namespaceUri e) else []) @ (if ?idx then le_bytes 4 (serverIndex e) else [])"
  have 1: "decodes (NodeId_decodeBinary mem) (b # bs) (canon_NodeId (nodeId e))"
    using decodes_NodeId [of "nodeId e" mem] ok mem n by (simp add: ok_ExpandedNodeId_def)
  have 2: "decodes (dec_when ?uri (String_decodeBinary mem) UA_STRING_NULL) (if ?uri then ser_String (namespaceUri e) else [])
      (if ?uri then canon_array (namespaceUri e) else UA_STRING_NULL)"
    using ok mem by (intro decodes_when decodes_String) (simp_all add: ok_ExpandedNodeId_def)
  have 3: "decodes (dec_when ?idx UInt32_decodeBinary 0) (if ?idx then le_bytes 4 (serverIndex e) else [])
      (if ?idx then serverIndex e else 0)"
    by (intro decodes_when int_dec)
  have idx: "\<not> ?idx \<Longrightarrow> serverIndex e = 0" by (simp add: word_gt_0)
  note D = decodes_cleanup [OF decodes_bind [OF 1 decodes_bind [OF 2 decodes_bind_return [OF 3]]], of ExpandedNodeId_deleteMembers
      "\<lambda>n uri idx. \<lparr>nodeId = (if ?uri then n\<lparr>namespaceIndex := 0\<rparr> else n), namespaceUri = uri, serverIndex = idx\<rparr>"]
  show ?thesis
    using decodesD [OF D, of "length pre" pre post] n idx
    by (cases ?uri; cases ?idx) (simp_all add: ExpandedNodeId_decodeBinary_def Let_def tag_defs tag_flags [OF b] ser_ExpandedNodeId_def
        canon_ExpandedNodeId_def UA_STRING_NULL_def nth_append list_update_append)
qed

interpretation ExpandedNodeId_safe: safe_decoder "ExpandedNodeId_decodeBinary mem" for mem
proof
  fix off and src :: "UA_Byte list"
  assume "off \<le> length src"
  have "safe_decoder (dec_cleanup ExpandedNodeId_deleteMembers
            (dec_bind (NodeId_decodeBinary mem) (\<lambda>n.
              dec_bind (dec_when u (String_decodeBinary mem) UA_STRING_NULL) (\<lambda>uri.
                dec_bind (dec_when i UInt32_decodeBinary 0) (\<lambda>idx.
                  dec_return \<lparr>nodeId = (if u then n\<lparr>namespaceIndex := 0\<rparr> else n),
                              namespaceUri = uri, serverIndex = idx\<rparr>)))))" for u i
    by (intro safe_cleanup safe_bind safe_when safe_return int_safe String_safe.safe_decoder_axioms NodeId_safe.safe_decoder_axioms)
  from safe_decoder.safe [OF this, of off "src[off := x]" for x] \<open>off \<le> length src\<close>
  show "\<exists>r v src' off'. ExpandedNodeId_decodeBinary mem (src, off) = Some (r, v, (src', off')) \<and>
      length src' = length src \<and> off \<le> off' \<and> off' \<le> length src"
    by (auto simp: ExpandedNodeId_decodeBinary_def Let_def)
qed

section \<open>Localized text\<close>

definition ser_LocalizedText :: "UA_LocalizedText \<Rightarrow> UA_Byte list" where
  "ser_LocalizedText t =
     [(if locale_text t \<noteq> Null_ptr then 1 else 0) OR (if text_text t \<noteq> Null_ptr then 2 else 0)] @
     (if locale_text t \<noteq> Null_ptr then ser_String (locale_text t) else []) @
     (if text_text t \<noteq> Null_ptr then ser_String (text_text t) else [])"

definition ok_LocalizedText :: "UA_LocalizedText \<Rightarrow> bool" where
  "ok_LocalizedText t \<longleftrightarrow> ok_String (locale_text t) \<and> ok_String (text_text t)"

definition canon_LocalizedText :: "UA_LocalizedText \<Rightarrow> UA_LocalizedText" where
  "canon_LocalizedText t = \<lparr>locale_text = canon_array (locale_text t), text_text = canon_array (text_text t)\<rparr>"

lemma mask_bits:
  fixes a b :: bool
  shows "(((if a then 1 else 0) OR (if b then 2 else 0)) AND 1 \<noteq> (0 :: UA_Byte)) = a"
    and "(((if a then 1 else 0) OR (if b then 2 else 0)) AND 2 \<noteq> (0 :: UA_Byte)) = b"
  by simp_all

lemma encodes_LocalizedText: "ok_LocalizedText t \<Longrightarrow> encodes (LocalizedText_encodeBinary t) (ser_LocalizedText t)"
  unfolding LocalizedText_encodeBinary_def ser_LocalizedText_def Let_def tag_defs mask_bits
  by (intro encodes_seq encodes_when int_enc encodes_String TrueI) (auto simp: ok_LocalizedText_def)

lemma decodes_LocalizedText:
  assumes ok: "ok_LocalizedText t" and mem: "\<forall>k. mem k"
  shows "decodes (LocalizedText_decodeBinary mem) (ser_LocalizedText t) (canon_LocalizedText t)"
proof -
  let ?l = "locale_text t \<noteq> Null_ptr" and ?t = "text_text t \<noteq> Null_ptr"
  have str: "decodes (dec_when b (String_decodeBinary mem) UA_STRING_NULL) (if b then ser_String s else [])
      (if b then canon_array s else UA_STRING_NULL)" if "ok_String s" for b s
    by (intro decodes_when decodes_String that mem)
  have l: "ok_String (locale_text t)" and t: "ok_String (text_text t)"
    using ok by (simp_all add: ok_LocalizedText_def)
  have "decodes (LocalizedText_decodeBinary mem) (ser_LocalizedText t)
      \<lparr>locale_text = (if ?l then canon_array (locale_text t) else UA_STRING_NULL),
       text_text = (if ?t then canon_array (text_text t) else UA_STRING_NULL)\<rparr>"
    unfolding LocalizedText_decodeBinary_def ser_LocalizedText_def tag_defs
    by (rule decodes_cleanup, rule decodes_bind [OF int_dec(1)], unfold mask_bits,
        rule decodes_bind [OF str [OF l]], rule decodes_bind_return [OF str [OF t]])
  moreover have "(if s \<noteq> Null_ptr then canon_array s else UA_STRING_NULL) = canon_array s" for s :: UA_String
    by (simp add: UA_STRING_NULL_def)
  ultimately show ?thesis by (simp only: canon_LocalizedText_def)
qed

interpretation LocalizedText: codec LocalizedText_encodeBinary "LocalizedText_decodeBinary (\<lambda>_. True)"
  ser_LocalizedText ok_LocalizedText canon_LocalizedText
  by unfold_locales (auto intro: encodes_LocalizedText decodes_LocalizedText)

interpretation LocalizedText_safe: safe_decoder "LocalizedText_decodeBinary mem" for mem
  unfolding LocalizedText_decodeBinary_def
  by (intro safe_cleanup safe_bind safe_when safe_return int_safe String_safe.safe_decoder_axioms)

section \<open>Arrays\<close>

definition array_length_code :: "'a ua_array \<Rightarrow> UA_Int32" where
  "array_length_code a = (if alen a > 0 then word_of_nat (alen a) else if a = Empty_sentinel then 0 else - 1)"

text \<open>A block of length zero is written with the length of the undefined array.\<close>

fun canon_elems :: "('a \<Rightarrow> 'a) \<Rightarrow> 'a ua_array \<Rightarrow> 'a ua_array" where
  "canon_elems f (Block xs) = (if xs = [] then Null_ptr else Block (map f xs))"
| "canon_elems f a = a"

text \<open>An array member of a structure: its length, then its elements.\<close>

definition array_member_decodeBinary ::
  "(nat \<Rightarrow> bool) \<Rightarrow> nat \<Rightarrow> (UA_Byte list \<Rightarrow> 'a) option \<Rightarrow> 'a decoder \<Rightarrow> 'a ua_array decoder" where
  "array_member_decodeBinary mem memSize zeroCopy dec c = do {
     (r1, sl, c1) \<leftarrow> Int32_decodeBinary c;
     let slength = (if r1 = UA_STATUSCODE_GOOD then sl else - 1);
     (r2, a, c2) \<leftarrow> Array_decodeBinary mem memSize zeroCopy dec slength c1;
     Some (r1 OR r2, a, c2) }"

text \<open>
  Arrays of a type that has a codec: the decoder discards an array when the message seems
  too short for it, by the rule that an element takes at least a 32nd of its size in memory.
\<close>

locale array_codec = codec enc dec ser ok canon
  for enc :: "'a encoder" and dec :: "'a decoder" and ser :: "'a \<Rightarrow> UA_Byte list"
    and ok :: "'a \<Rightarrow> bool" and canon :: "'a \<Rightarrow> 'a" +
  fixes memSize :: nat
  assumes min_size: "ok x \<Longrightarrow> memSize \<le> 32 * length (ser x)"
begin

definition ser_array :: "'a ua_array \<Rightarrow> UA_Byte list" where
  "ser_array a = le_bytes 4 (array_length_code a) @ concat (map ser (content a))"

definition ok_array :: "'a ua_array \<Rightarrow> bool" where
  "ok_array a \<longleftrightarrow> alen a < 2 ^ 31 \<and> memSize * alen a \<le> MAX_ARRAY_SIZE \<and> (\<forall>x \<in> set (content a). ok x)"

lemma enc_elems_encodes: "\<forall>x \<in> set xs. ok x \<Longrightarrow> encodes (enc_elems enc xs) (concat (map ser xs))"
proof (induction xs)
  case (Cons x xs)
  have "encodes (enc_seq (enc x) (enc_elems enc xs)) (ser x @ concat (map ser xs))"
    using Cons by (intro encodes_seq enc_ser) auto
  moreover have "ok x" using Cons.prems by simp
  ultimately show ?case
    by (auto simp: encodes_def enc_seq_def encodesD [OF enc_ser])
qed (simp add: encodes_def)

lemma dec_elems_decodes:
  "\<forall>x \<in> set xs. ok x \<Longrightarrow> decodes (dec_elems dec (length xs)) (concat (map ser xs)) (map canon xs)"
proof (induction xs)
  case (Cons x xs)
  have x: "decodes dec (ser x) (canon x)" using Cons.prems by (intro dec_ser) simp
  have "decodes (dec_elems dec (length xs)) (concat (map ser xs)) (map canon xs)" using Cons by simp
  note xs = this
  have "dec_elems dec (length (x # xs)) (pre @ (ser x @ concat (map ser xs)) @ post, length pre) =
      Some (UA_STATUSCODE_GOOD, map canon (x # xs), (pre @ (ser x @ concat (map ser xs)) @ post,
        length pre + length (ser x @ concat (map ser xs))))" for pre post
    using decodesD [OF x, of "length pre" pre "concat (map ser xs) @ post"]
      decodesD [OF xs, of "length pre + length (ser x)" "pre @ ser x" post]
    by (simp add: add.assoc)
  then show ?case unfolding decodes_def by simp
qed (simp add: decodes_def)

lemma body_size: "\<forall>x \<in> set xs. ok x \<Longrightarrow> memSize * length xs \<le> 32 * length (concat (map ser xs))"
  by (induction xs) (auto dest!: min_size)

lemma encodes_array: "ok_array a \<Longrightarrow> encodes (Array_encodeBinary memSize None enc a) (ser_array a)"
proof -
  assume ok: "ok_array a"
  have code: "(if 0 < alen a then word_of_nat (alen a) else case a of Empty_sentinel \<Rightarrow> 0 | _ \<Rightarrow> - 1) = array_length_code a"
    by (cases a) (auto simp: array_length_code_def)
  have "encodes (enc_seq (UInt32_encodeBinary (array_length_code a)) (enc_elems enc (content a))) (ser_array a)"
    unfolding ser_array_def using ok by (intro encodes_seq UInt32.enc_ser enc_elems_encodes) (simp_all add: ok_array_def)
  then show ?thesis
    unfolding encodes_def enc_seq_def Array_encodeBinary_def Int32_encodeBinary_def Let_def code
    by (auto simp: ser_array_def encodesD [OF UInt32.enc_ser] bind_eq_Some_conv split: if_splits)
qed

lemma decodes_array:
  assumes ok: "ok_array a" and mem: "\<forall>k. mem k"
  shows "decodes (array_member_decodeBinary mem memSize None dec) (ser_array a) (canon_elems canon a)"
  unfolding decodes_def
proof (intro allI)
  fix pre post :: "UA_Byte list"
  let ?body = "concat (map ser (content a))"
  have len: "alen a < 2 ^ 31" and all: "\<forall>x \<in> set (content a). ok x" and max: "\<not> memSize * alen a > MAX_ARRAY_SIZE"
    using ok by (auto simp: ok_array_def)
  have filt: "\<not> length pre + 4 + (memSize * alen a) div 32 > length (pre @ le_bytes 4 w @ ?body @ post)" for w :: UA_Int32
    using body_size [OF all] by simp
  have els: "dec_elems dec (alen a) (pre @ le_bytes 4 w @ ?body @ post, length pre + 4) =
      Some (UA_STATUSCODE_GOOD, map canon (content a), (pre @ le_bytes 4 w @ ?body @ post, length pre + 4 + length ?body))" for w :: UA_Int32
    using decodesD [OF dec_elems_decodes [OF all], of "length pre + 4" "pre @ le_bytes 4 w" post] by simp
  show "array_member_decodeBinary mem memSize None dec (pre @ ser_array a @ post, length pre) =
    Some (UA_STATUSCODE_GOOD, canon_elems canon a, (pre @ ser_array a @ post, length pre + length (ser_array a)))"
  proof (cases "alen a = 0")
    case True
    then show ?thesis
      by (cases a) (simp_all add: array_member_decodeBinary_def Array_decodeBinary_def ser_array_def
          array_length_code_def Int32_dec_ser)
  next
    case False
    then obtain xs where a: "a = Block xs" "xs \<noteq> []" by (cases a) auto
    then show ?thesis
      using sint_of_nat32 [OF len] mem max filt els
      by (simp add: array_member_decodeBinary_def Array_decodeBinary_def ser_array_def
          array_length_code_def Int32_dec_ser Let_def add.assoc)
  qed
qed

end

text \<open>Element types that are moved with one \<open>memcpy\<close>.\<close>

locale zero_copy_codec = array_codec enc dec ser ok canon memSize
  for enc :: "'a encoder" and dec :: "'a decoder" and ser :: "'a \<Rightarrow> UA_Byte list"
    and ok :: "'a \<Rightarrow> bool" and canon :: "'a \<Rightarrow> 'a" and memSize :: nat +
  fixes unser :: "UA_Byte list \<Rightarrow> 'a"
  assumes image_size: "ok x \<Longrightarrow> length (ser x) = memSize"
    and unser_ser: "ok x \<Longrightarrow> unser (ser x) = canon x"
begin

lemma length_image: "\<forall>x \<in> set xs. ok x \<Longrightarrow> length (concat (map ser xs)) = memSize * length xs"
  by (induction xs) (auto simp: image_size)

lemma chunks_image: "\<forall>x \<in> set xs. ok x \<Longrightarrow> chunks memSize (length xs) (concat (map ser xs)) = map ser xs"
  by (induction xs) (auto simp: image_size)

lemma encodes_zero_copy: "ok_array a \<Longrightarrow> encodes (Array_encodeBinary memSize (Some ser) enc a) (ser_array a)"
proof -
  assume ok: "ok_array a"
  have code: "(if 0 < alen a then word_of_nat (alen a) else case a of Empty_sentinel \<Rightarrow> 0 | _ \<Rightarrow> - 1) = array_length_code a"
    by (cases a) (auto simp: array_length_code_def)
  have len: "length (concat (map ser (content a))) = memSize * alen a"
    using ok by (intro length_image) (simp add: ok_array_def)
  show ?thesis
    unfolding encodes_def Array_encodeBinary_def Int32_encodeBinary_def Let_def code ser_array_def
    by (auto simp: encodesD [OF UInt32.enc_ser] len splice_splice)
qed

lemma decodes_zero_copy:
  assumes ok: "ok_array a" and mem: "\<forall>k. mem k"
  shows "decodes (array_member_decodeBinary mem memSize (Some unser) dec) (ser_array a) (canon_elems canon a)"
  unfolding decodes_def
proof (intro allI)
  fix pre post :: "UA_Byte list"
  let ?body = "concat (map ser (content a))"
  have len: "alen a < 2 ^ 31" and all: "\<forall>x \<in> set (content a). ok x" and max: "\<not> memSize * alen a > MAX_ARRAY_SIZE"
    using ok by (auto simp: ok_array_def)
  have rd: "read_bytes (pre @ le_bytes 4 w @ ?body @ post) (length pre + 4) (memSize * alen a) = Some ?body" for w :: UA_Int32
    using read_bytes_mid [of "length pre + 4" "pre @ le_bytes 4 w" "memSize * alen a" ?body post] length_image [OF all] by simp
  have filt: "\<not> length pre + 4 + (memSize * alen a) div 32 > length (pre @ le_bytes 4 w @ ?body @ post)" for w :: UA_Int32
    using length_image [OF all] by simp
  have els: "map unser (chunks memSize (alen a) ?body) = map canon (content a)"
    using all by (simp add: chunks_image unser_ser)
  show "array_member_decodeBinary mem memSize (Some unser) dec (pre @ ser_array a @ post, length pre) =
    Some (UA_STATUSCODE_GOOD, canon_elems canon a, (pre @ ser_array a @ post, length pre + length (ser_array a)))"
  proof (cases "alen a = 0")
    case True
    then show ?thesis
      by (cases a) (simp_all add: array_member_decodeBinary_def Array_decodeBinary_def ser_array_def
          array_length_code_def Int32_dec_ser)
  next
    case False
    then obtain xs where a: "a = Block xs" "xs \<noteq> []" by (cases a) auto
    then show ?thesis
      using sint_of_nat32 [OF len] mem max filt rd els length_image [OF all]
      by (simp add: array_member_decodeBinary_def Array_decodeBinary_def ser_array_def
          array_length_code_def Int32_dec_ser Let_def add.assoc)
  qed
qed

end

interpretation String_array: array_codec String_encodeBinary "String_decodeBinary (\<lambda>_. True)" ser_String ok_String canon_array 16
  by unfold_locales (simp add: ser_String_def)

interpretation NodeId_array: array_codec NodeId_encodeBinary "NodeId_decodeBinary (\<lambda>_. True)" ser_NodeId ok_NodeId canon_NodeId 24
  by unfold_locales (simp add: ser_NodeId_def split: node_identifier.splits)

interpretation LocalizedText_array: array_codec LocalizedText_encodeBinary "LocalizedText_decodeBinary (\<lambda>_. True)"
  ser_LocalizedText ok_LocalizedText canon_LocalizedText 32
  by unfold_locales (simp add: ser_LocalizedText_def)

interpretation UInt32_array: zero_copy_codec UInt32_encodeBinary UInt32_decodeBinary "le_bytes 4" "\<lambda>_. True" id 4 le_word
  by unfold_locales simp_all

lemma safe_elems: "safe_decoder d \<Longrightarrow> safe_decoder (dec_elems d n)"
proof (induction n)
  case 0
  show ?case by unfold_locales simp
next
  case (Suc n)
  have eq: "dec_elems d (Suc n) = dec_guard d [] (\<lambda>v. \<lambda>c. do { (r', vs, c2) \<leftarrow> dec_elems d n c; Some (r', v # vs, c2) })"
    by (rule ext) (simp add: dec_guard_def)
  have "safe_decoder (\<lambda>c. do { (r', vs, c2) \<leftarrow> dec_elems d n c; Some (r', v # vs, c2) })" for v
    using Suc by unfold_locales (force dest: safe_decoder.safe)
  with Suc.prems show ?case unfolding eq by (intro safe_guard)
qed

lemma safe_Array: "safe_decoder d \<Longrightarrow> safe_decoder (Array_decodeBinary mem sz zc d sl)"
proof
  fix off and src :: "UA_Byte list"
  assume d: "safe_decoder d" and off: "off \<le> length src"
  from safe_decoder.safe [OF safe_elems [OF d] off, of "nat (sint sl)"]
  show "\<exists>r v src' off'. Array_decodeBinary mem sz zc d sl (src, off) = Some (r, v, (src', off')) \<and>
      length src' = length src \<and> off \<le> off' \<and> off' \<le> length src"
    using off by (auto simp: Array_decodeBinary_def Let_def split: option.splits)
qed

interpretation array_member_safe: safe_decoder "array_member_decodeBinary mem sz zc (String_decodeBinary mem)" for mem sz zc
proof
  fix off and src :: "UA_Byte list"
  assume "off \<le> length src"
  from UInt32_safe.safe [OF this] obtain r v src1 off1 where
    1: "UInt32_decodeBinary (src, off) = Some (r, v, (src1, off1))" "length src1 = length src" "off \<le> off1" "off1 \<le> length src"
    by auto
  then have "off1 \<le> length src1" by simp
  from safe_decoder.safe [OF safe_Array [OF String_safe.safe_decoder_axioms] this, of mem sz zc mem "if r = UA_STATUSCODE_GOOD then v else - 1"] 1
  show "\<exists>r v src' off'. array_member_decodeBinary mem sz zc (String_decodeBinary mem) (src, off) = Some (r, v, (src', off')) \<and>
      length src' = length src \<and> off \<le> off' \<and> off' \<le> length src"
    by (force simp: array_member_decodeBinary_def Int32_decodeBinary_def Let_def)
qed

end
