(* ===== verification/Ua_DiagnosticInfo.thy ===== *)
theory Ua_DiagnosticInfo
  imports Ua_Encoding_Laws
begin

text \<open>
  \<open>UA_DiagnosticInfo\<close> is the one builtin type that nests itself through a pointer. Its
  encoder recurses on the structure; its decoder recurses on the input: every level reads at
  least the byte of flags, which is the termination argument.
\<close>

definition di_flags :: "UA_DiagnosticInfo \<Rightarrow> UA_Byte" where
  "di_flags d = of_bool (hasSymbolicId d) OR push_bit 1 (of_bool (hasNamespaceUri d)) OR
     push_bit 2 (of_bool (hasLocalizedText d)) OR push_bit 3 (of_bool (hasLocale d)) OR
     push_bit 4 (of_bool (hasAdditionalInfo d)) OR push_bit 5 (of_bool (hasInnerStatusCode d)) OR
     push_bit 6 (of_bool (hasInnerDiagnosticInfo d))"

lemma bit_di_flags:
  "bit (di_flags d) 0 = hasSymbolicId d" "bit (di_flags d) (Suc 0) = hasNamespaceUri d"
  "bit (di_flags d) 2 = hasLocalizedText d" "bit (di_flags d) 3 = hasLocale d"
  "bit (di_flags d) 4 = hasAdditionalInfo d" "bit (di_flags d) 5 = hasInnerStatusCode d"
  "bit (di_flags d) 6 = hasInnerDiagnosticInfo d"
  by (simp_all add: di_flags_def bit_simps)

text \<open>A set flag with a NULL pointer behind it is dereferenced: a fault.\<close>

fun DiagnosticInfo_encodeBinary :: "UA_DiagnosticInfo encoder" where
  "DiagnosticInfo_encodeBinary (DiagnosticInfo b0 b1 b2 b3 b4 b5 b6 sy ns lt lo ai sc inner) =
     (let src = DiagnosticInfo b0 b1 b2 b3 b4 b5 b6 sy ns lt lo ai sc inner in
      enc_seq (Byte_encodeBinary (di_flags src))
       (enc_seq (enc_when b0 (Int32_encodeBinary sy))
       (enc_seq (enc_when b1 (Int32_encodeBinary ns))
       (enc_seq (enc_when b2 (Int32_encodeBinary lt))
       (enc_seq (enc_when b3 (Int32_encodeBinary lo))
       (enc_seq (enc_when b4 (String_encodeBinary ai))
       (enc_seq (enc_when b5 (StatusCode_encodeBinary sc))
         (enc_when b6 (case inner of None \<Rightarrow> (\<lambda>c. None) | Some d \<Rightarrow> DiagnosticInfo_encodeBinary d)))))))))"

definition DiagnosticInfo_zero :: UA_DiagnosticInfo where
  "DiagnosticInfo_zero = DiagnosticInfo False False False False False False False 0 0 0 0 Null_ptr 0 None"

definition DiagnosticInfo_deleteMembers :: "UA_DiagnosticInfo \<Rightarrow> UA_DiagnosticInfo" where
  "DiagnosticInfo_deleteMembers p = (case p of
     DiagnosticInfo b0 b1 b2 b3 b4 b5 b6 sy ns lt lo ai sc inner \<Rightarrow>
       if b6 \<and> inner \<noteq> None then DiagnosticInfo b0 b1 b2 b3 b4 b5 False sy ns lt lo UA_STRING_NULL sc None
       else DiagnosticInfo b0 b1 b2 b3 b4 b5 b6 sy ns lt lo UA_STRING_NULL sc inner)"

definition sizeof_DiagnosticInfo :: nat where
  "sizeof_DiagnosticInfo = 56"

text \<open>The members between the flags and the nested information, in the order of the decoder.\<close>

definition di_members :: "(nat \<Rightarrow> bool) \<Rightarrow> UA_Byte \<Rightarrow> (UA_Int32 \<times> UA_Int32 \<times> UA_Int32 \<times> UA_Int32 \<times> UA_String \<times> UA_StatusCode) decoder" where
  "di_members mem fl =
     dec_bind (dec_when (bit fl 0) Int32_decodeBinary 0) (\<lambda>sy.
     dec_bind (dec_when (bit fl 1) Int32_decodeBinary 0) (\<lambda>ns.
     dec_bind (dec_when (bit fl 2) Int32_decodeBinary 0) (\<lambda>lt.
     dec_bind (dec_when (bit fl 3) Int32_decodeBinary 0) (\<lambda>lo.
     dec_bind (dec_when (bit fl 4) (String_decodeBinary mem) UA_STRING_NULL) (\<lambda>ai.
     dec_bind (dec_when (bit fl 5) StatusCode_decodeBinary 0) (\<lambda>sc.
       dec_return (sy, ns, lt, lo, ai, sc)))))))"

lemma safe_di_members: "safe_decoder (di_members mem fl)"
  unfolding di_members_def Int32_decodeBinary_def StatusCode_decodeBinary_def
  by (intro safe_bind safe_when safe_return int_safe String_safe.safe_decoder_axioms)

lemma di_level_advances:
  assumes "Byte_decodeBinary (src, off) = Some (UA_STATUSCODE_GOOD, fl, c0)"
    "di_members mem fl c0 = Some (r1, m, (src', off'))"
  shows "length src' - off' < length src - off"
proof -
  from assms(1) have c0: "c0 = (src, Suc off)" "Suc off \<le> length src"
    by (auto simp: Byte_decodeBinary_def split: if_splits)
  have "length src' = length src \<and> Suc off \<le> off' \<and> off' \<le> length src"
    using safe_decoder.stays_inside [OF safe_di_members c0(2) assms(2) [unfolded c0]] .
  then show ?thesis using c0(2) by linarith
qed

function DiagnosticInfo_decodeBinary :: "(nat \<Rightarrow> bool) \<Rightarrow> UA_DiagnosticInfo decoder" where
  "DiagnosticInfo_decodeBinary mem c = do {
     (r0, fl, c0) \<leftarrow> Byte_decodeBinary c;
     if r0 \<noteq> UA_STATUSCODE_GOOD then Some (r0, DiagnosticInfo_zero, c0)
     else do {
       (r1, m, c1) \<leftarrow> di_members mem fl c0;
       (r2, b6, inner, c2) \<leftarrow>
         (if bit fl 6
          then (if mem sizeof_DiagnosticInfo
                then do { (r, d, c') \<leftarrow> DiagnosticInfo_decodeBinary mem c1; Some (r, True, Some d, c') }
                else Some (UA_STATUSCODE_BADOUTOFMEMORY, False, None, c1))
          else Some (UA_STATUSCODE_GOOD, False, None, c1));
       let retval = r1 OR r2;
       let dst = (case m of (sy, ns, lt, lo, ai, sc) \<Rightarrow>
         DiagnosticInfo (bit fl 0) (bit fl 1) (bit fl 2) (bit fl 3) (bit fl 4) (bit fl 5) b6 sy ns lt lo ai sc inner);
       Some (retval, if retval \<noteq> UA_STATUSCODE_GOOD then DiagnosticInfo_deleteMembers dst else dst, c2) } }"
  by pat_completeness auto
termination
  by (relation "measure (\<lambda>(mem, (src, off)). length src - off)") (auto dest: di_level_advances)

declare DiagnosticInfo_decodeBinary.simps [simp del]


section \<open>Round trip and memory safety\<close>

definition ser_di_members :: "UA_DiagnosticInfo \<Rightarrow> UA_Byte list" where
  "ser_di_members d =
     (if hasSymbolicId d then le_bytes 4 (symbolicId d) else []) @
     (if hasNamespaceUri d then le_bytes 4 (di_namespaceUri d) else []) @
     (if hasLocalizedText d then le_bytes 4 (di_localizedText d) else []) @
     (if hasLocale d then le_bytes 4 (di_locale d) else []) @
     (if hasAdditionalInfo d then ser_String (additionalInfo d) else []) @
     (if hasInnerStatusCode d then le_bytes 4 (innerStatusCode d) else [])"

fun ser_DiagnosticInfo :: "UA_DiagnosticInfo \<Rightarrow> UA_Byte list" where
  "ser_DiagnosticInfo (DiagnosticInfo b0 b1 b2 b3 b4 b5 b6 sy ns lt lo ai sc inner) =
     (let d = DiagnosticInfo b0 b1 b2 b3 b4 b5 b6 sy ns lt lo ai sc inner in
      [di_flags d] @ ser_di_members d @
      (if b6 then (case inner of None \<Rightarrow> [] | Some i \<Rightarrow> ser_DiagnosticInfo i) else []))"

text \<open>A set flag needs the member behind it; a string must fit its 32-bit length.\<close>

fun ok_DiagnosticInfo :: "UA_DiagnosticInfo \<Rightarrow> bool" where
  "ok_DiagnosticInfo (DiagnosticInfo b0 b1 b2 b3 b4 b5 b6 sy ns lt lo ai sc inner) =
     ((b4 \<longrightarrow> ok_String ai) \<and>
      (b6 \<longrightarrow> (case inner of None \<Rightarrow> False | Some i \<Rightarrow> ok_DiagnosticInfo i)))"

text \<open>What arrives: the members without a flag are zero.\<close>

fun canon_DiagnosticInfo :: "UA_DiagnosticInfo \<Rightarrow> UA_DiagnosticInfo" where
  "canon_DiagnosticInfo (DiagnosticInfo b0 b1 b2 b3 b4 b5 b6 sy ns lt lo ai sc inner) =
     DiagnosticInfo b0 b1 b2 b3 b4 b5 b6 (if b0 then sy else 0) (if b1 then ns else 0)
       (if b2 then lt else 0) (if b3 then lo else 0) (if b4 then canon_array ai else UA_STRING_NULL)
       (if b5 then sc else 0)
       (if b6 then (case inner of None \<Rightarrow> None | Some i \<Rightarrow> Some (canon_DiagnosticInfo i)) else None)"

definition di_values :: "UA_DiagnosticInfo \<Rightarrow> UA_Int32 \<times> UA_Int32 \<times> UA_Int32 \<times> UA_Int32 \<times> UA_String \<times> UA_StatusCode" where
  "di_values d =
    (if hasSymbolicId d then symbolicId d else 0, if hasNamespaceUri d then di_namespaceUri d else 0,
     if hasLocalizedText d then di_localizedText d else 0, if hasLocale d then di_locale d else 0,
     if hasAdditionalInfo d then canon_array (additionalInfo d) else UA_STRING_NULL,
     if hasInnerStatusCode d then innerStatusCode d else 0)"

lemma canon_DiagnosticInfo_values:
  "canon_DiagnosticInfo (DiagnosticInfo b0 b1 b2 b3 b4 b5 b6 sy ns lt lo ai sc inner) =
   (case di_values (DiagnosticInfo b0 b1 b2 b3 b4 b5 b6 sy ns lt lo ai sc inner) of (sy', ns', lt', lo', ai', sc') \<Rightarrow>
     DiagnosticInfo b0 b1 b2 b3 b4 b5 b6 sy' ns' lt' lo' ai' sc'
       (if b6 then (case inner of None \<Rightarrow> None | Some i \<Rightarrow> Some (canon_DiagnosticInfo i)) else None))"
  by (simp only: canon_DiagnosticInfo.simps di_values_def UA_DiagnosticInfo.sel prod.case)

lemma decodes_di_members:
  assumes "hasAdditionalInfo d \<longrightarrow> ok_String (additionalInfo d)" "\<forall>k. mem k"
  shows "decodes (di_members mem (di_flags d)) (ser_di_members d) (di_values d)"
proof -
  have i: "decodes (dec_when b UInt32_decodeBinary 0) (if b then le_bytes 4 w else []) (if b then w else 0)" for b w
    by (intro decodes_when int_dec)
  have s: "decodes (dec_when (hasAdditionalInfo d) (String_decodeBinary mem) UA_STRING_NULL)
     (if hasAdditionalInfo d then ser_String (additionalInfo d) else [])
     (if hasAdditionalInfo d then canon_array (additionalInfo d) else UA_STRING_NULL)"
    using assms by (intro decodes_when decodes_String) auto
  show ?thesis
    unfolding di_members_def ser_di_members_def di_values_def Int32_decodeBinary_def StatusCode_decodeBinary_def
      bit_di_flags One_nat_def
    by (rule decodes_bind [OF i] decodes_bind [OF s] decodes_bind_return [OF i])+
qed

lemma encodes_DiagnosticInfo:
  "ok_DiagnosticInfo d \<Longrightarrow> encodes (DiagnosticInfo_encodeBinary d) (ser_DiagnosticInfo d)"
proof (induction d rule: ser_DiagnosticInfo.induct)
  case (1 b0 b1 b2 b3 b4 b5 b6 sy ns lt lo ai sc inner)
  have inner: "encodes (enc_when b6 (case inner of None \<Rightarrow> (\<lambda>c. None) | Some d \<Rightarrow> DiagnosticInfo_encodeBinary d))
      (if b6 then (case inner of None \<Rightarrow> [] | Some i \<Rightarrow> ser_DiagnosticInfo i) else [])"
    using 1 by (intro encodes_when) (auto split: option.splits)
  show ?case
    unfolding DiagnosticInfo_encodeBinary.simps ser_DiagnosticInfo.simps Let_def ser_di_members_def
      Int32_encodeBinary_def StatusCode_encodeBinary_def append_assoc UA_DiagnosticInfo.sel
    using 1(2) by (intro encodes_seq encodes_when int_enc TrueI encodes_String inner) simp
qed

lemma decodes_DiagnosticInfo:
  assumes mem: "\<forall>k. mem k"
  shows "ok_DiagnosticInfo d \<Longrightarrow> decodes (DiagnosticInfo_decodeBinary mem) (ser_DiagnosticInfo d) (canon_DiagnosticInfo d)"
proof (induction d rule: ser_DiagnosticInfo.induct)
  case (1 b0 b1 b2 b3 b4 b5 b6 sy ns lt lo ai sc inner)
  let ?d = "DiagnosticInfo b0 b1 b2 b3 b4 b5 b6 sy ns lt lo ai sc inner"
  let ?in = "if b6 then (case inner of None \<Rightarrow> [] | Some i \<Rightarrow> ser_DiagnosticInfo i) else []"
  have m: "decodes (di_members mem (di_flags ?d)) (ser_di_members ?d) (di_values ?d)"
    using 1(2) by (intro decodes_di_members mem) simp
  have i: "b6 \<Longrightarrow> \<exists>i. inner = Some i \<and> decodes (DiagnosticInfo_decodeBinary mem) ?in (canon_DiagnosticInfo i)"
    using 1 by (auto split: option.splits)
  show ?case
    unfolding decodes_def
  proof (intro allI)
    fix pre post :: "UA_Byte list"
    let ?src = "pre @ [di_flags ?d] @ ser_di_members ?d @ ?in @ post"
    let ?o = "length pre + 1 + length (ser_di_members ?d)"
    have rd: "Byte_decodeBinary (?src, length pre) = Some (UA_STATUSCODE_GOOD, di_flags ?d, (?src, length pre + 1))"
      using decodesD [OF int_dec(1), of "length pre" pre] by (simp del: append_Cons append_Nil)
    have ms: "di_members mem (di_flags ?d) (?src, length pre + 1) = Some (UA_STATUSCODE_GOOD, di_values ?d, (?src, ?o))"
      using decodesD [OF m, of "length pre + 1" "pre @ [di_flags ?d]"] by simp
    have nested: "b6 \<Longrightarrow> \<exists>i. inner = Some i \<and> DiagnosticInfo_decodeBinary mem (?src, ?o) =
        Some (UA_STATUSCODE_GOOD, canon_DiagnosticInfo i, (?src, ?o + length ?in))"
      using i decodesD [of "DiagnosticInfo_decodeBinary mem" ?in _ ?o "pre @ [di_flags ?d] @ ser_di_members ?d" post] by fastforce
    have ser: "pre @ ser_DiagnosticInfo ?d @ post = ?src" "length pre + length (ser_DiagnosticInfo ?d) = ?o + length ?in"
      by (simp_all add: Let_def)
    show "DiagnosticInfo_decodeBinary mem (pre @ ser_DiagnosticInfo ?d @ post, length pre) =
      Some (UA_STATUSCODE_GOOD, canon_DiagnosticInfo ?d,
        (pre @ ser_DiagnosticInfo ?d @ post, length pre + length (ser_DiagnosticInfo ?d)))"
      unfolding ser DiagnosticInfo_decodeBinary.simps [of mem "(?src, length pre)"] rd canon_DiagnosticInfo_values
      using ms nested mem
      by (cases b6) (auto simp: bit_di_flags simp del: append_Cons append_Nil split: prod.split)
  qed
qed


interpretation DiagnosticInfo: codec DiagnosticInfo_encodeBinary "DiagnosticInfo_decodeBinary (\<lambda>_. True)"
  ser_DiagnosticInfo ok_DiagnosticInfo canon_DiagnosticInfo
  by unfold_locales (auto intro: encodes_DiagnosticInfo decodes_DiagnosticInfo)

lemma di_step_inside:
  assumes "Byte_decodeBinary (src, off) = Some (UA_STATUSCODE_GOOD, fl, c0)"
  shows "\<exists>r1 m src' off'. di_members mem fl c0 = Some (r1, m, (src', off')) \<and>
    length src' = length src \<and> off < off' \<and> off' \<le> length src"
proof -
  from assms have c0: "c0 = (src, Suc off)" "Suc off \<le> length src"
    by (auto simp: Byte_decodeBinary_def split: if_splits)
  then show ?thesis using safe_decoder.safe [OF safe_di_members c0(2), of mem fl] by auto
qed

lemma DiagnosticInfo_inside:
  "off \<le> length src \<Longrightarrow> \<exists>r v src' off'. DiagnosticInfo_decodeBinary mem (src, off) = Some (r, v, (src', off')) \<and>
     length src' = length src \<and> off \<le> off' \<and> off' \<le> length src"
proof (induction "length src - off" arbitrary: src off rule: less_induct)
  case less
  from Byte_safe.safe [OF less.prems] obtain r0 fl src0 off0 where
    0: "Byte_decodeBinary (src, off) = Some (r0, fl, (src0, off0))" "length src0 = length src" "off \<le> off0" "off0 \<le> length src"
    by auto
  show ?case
  proof (cases "r0 = UA_STATUSCODE_GOOD")
    case False
    with 0 show ?thesis by (simp add: DiagnosticInfo_decodeBinary.simps [of mem "(src, off)"])
  next
    case True
    with 0(1) di_step_inside obtain r1 m src1 off1 where
      1: "di_members mem fl (src0, off0) = Some (r1, m, (src1, off1))" "length src1 = length src" "off < off1" "off1 \<le> length src"
      by metis
    then have "length src1 - off1 < length src - off" by linarith
    with 1 obtain r v src' off' where "DiagnosticInfo_decodeBinary mem (src1, off1) = Some (r, v, (src', off'))"
      "length src' = length src" "off1 \<le> off'" "off' \<le> length src"
      using less.hyps [of src1 off1] by auto
    with 0 1 True show ?thesis
      by (cases "bit fl 6"; cases "mem sizeof_DiagnosticInfo")
        (simp_all add: DiagnosticInfo_decodeBinary.simps [of mem "(src, off)"] Let_def)
  qed
qed

interpretation DiagnosticInfo_safe: safe_decoder "DiagnosticInfo_decodeBinary mem" for mem
  by unfold_locales (rule DiagnosticInfo_inside)

end
