(* ===== verification/Ua_Encoding_Theorems.thy ===== *)
theory Ua_Encoding_Theorems
  imports Ua_DiagnosticInfo
begin

text \<open>
  The properties of the binary (de)serialiser of identifiers, text and diagnostics, stated over
  the model of the source and obtained from the interpretations of \<open>codec\<close>, \<open>array_codec\<close>
  and \<open>safe_decoder\<close>; and the three places where the code departs from them.
\<close>

text \<open>
  C1: whatever bytes arrive, decoding a node id, an expanded node id, a localized text, a
  diagnostic info or an array of strings from any position inside the message returns a status
  code without reading outside the message, advances the offset and leaves it inside, whether
  or not the heap grants the requests for memory.
\<close>

theorem decoders_stay_inside:
  assumes "off \<le> length src"
  shows "(\<exists>r v src' off'. NodeId_decodeBinary mem (src, off) = Some (r, v, (src', off')) \<and>
      length src' = length src \<and> off \<le> off' \<and> off' \<le> length src) \<and>
    (\<exists>r v src' off'. ExpandedNodeId_decodeBinary mem (src, off) = Some (r, v, (src', off')) \<and>
      length src' = length src \<and> off \<le> off' \<and> off' \<le> length src) \<and>
    (\<exists>r v src' off'. LocalizedText_decodeBinary mem (src, off) = Some (r, v, (src', off')) \<and>
      length src' = length src \<and> off \<le> off' \<and> off' \<le> length src) \<and>
    (\<exists>r v src' off'. DiagnosticInfo_decodeBinary mem (src, off) = Some (r, v, (src', off')) \<and>
      length src' = length src \<and> off \<le> off' \<and> off' \<le> length src) \<and>
    (\<exists>r v src' off'. array_member_decodeBinary mem 16 None (String_decodeBinary mem) (src, off) = Some (r, v, (src', off')) \<and>
      length src' = length src \<and> off \<le> off' \<and> off' \<le> length src)"
  by (intro conjI NodeId_safe.safe ExpandedNodeId_safe.safe LocalizedText_safe.safe
      DiagnosticInfo_safe.safe array_member_safe.safe assms)

theorem decoders_stay_inside_witness:
  "\<exists>r v src' off'. NodeId_decodeBinary (\<lambda>_. False) ([3, 0, 0, 255, 255, 255, 127], 0) = Some (r, v, (src', off')) \<and>
      length src' = 7 \<and> 0 \<le> off' \<and> off' \<le> 7"
  using decoders_stay_inside [of 0 "[3, 0, 0, 255, 255, 255, 127]" "\<lambda>_. False", THEN conjunct1] by (simp add: eval_nat_numeral)

text \<open>
  C2: a node id that the encoder can represent is written to a buffer with enough room in
  exactly the bytes of the standard's wire format, and decoding at the same offset yields an
  equal node id and the same end offset.
\<close>

theorem NodeId_roundtrip:
  assumes "ok_NodeId n" "off + length (ser_NodeId n) \<le> length buf"
  shows "\<exists>buf' n'. NodeId_encodeBinary n (buf, off) = Some (UA_STATUSCODE_GOOD, (buf', off + length (ser_NodeId n))) \<and>
     buf' = splice buf off (ser_NodeId n) \<and>
     NodeId_decodeBinary (\<lambda>_. True) (buf', off) = Some (UA_STATUSCODE_GOOD, n', (buf', off + length (ser_NodeId n))) \<and>
     UA_NodeId_equal n' n"
  using NodeId.roundtrip [OF assms] encodesD [OF encodes_NodeId [OF assms(1)] assms(2)] canon_NodeId_equal [of n]
  by auto

theorem NodeId_roundtrip_witness:
  "\<exists>buf' n'. NodeId_encodeBinary \<lparr>namespaceIndex = 3, ident = Numeric 300\<rparr> ([9, 9, 9, 9, 9], 1) =
       Some (UA_STATUSCODE_GOOD, (buf', 5)) \<and> buf' = [9, 1, 3, 44, 1] \<and>
     NodeId_decodeBinary (\<lambda>_. True) (buf', 1) = Some (UA_STATUSCODE_GOOD, n', (buf', 5)) \<and>
     UA_NodeId_equal n' \<lparr>namespaceIndex = 3, ident = Numeric 300\<rparr>"
proof -
  have "ok_NodeId \<lparr>namespaceIndex = 3, ident = Numeric 300\<rparr>"
    and ser: "ser_NodeId \<lparr>namespaceIndex = 3, ident = Numeric 300\<rparr> = [1, 3, 44, 1]" by code_simp+
  with NodeId_roundtrip [of "\<lparr>namespaceIndex = 3, ident = Numeric 300\<rparr>" 1 "[9, 9, 9, 9, 9]"]
  show ?thesis by (simp add: splice_def eval_nat_numeral)
qed

text \<open>
  An expanded node id survives a round trip: its encoding takes the predicted number of
  bytes, decoding ends where encoding ended and yields the same node id (with namespace 0 when
  a namespace URI is given), URI and server index.
\<close>

theorem ExpandedNodeId_roundtrip:
  assumes "ok_ExpandedNodeId e" "off + length (ser_ExpandedNodeId e) \<le> length buf" "off < 2 ^ 32"
  shows "\<exists>buf' buf'' off'. ExpandedNodeId_encodeBinary e (buf, off) = Some (UA_STATUSCODE_GOOD, (buf', off')) \<and>
     off' = off + length (ser_ExpandedNodeId e) \<and> take off buf' = take off buf \<and>
     ExpandedNodeId_decodeBinary (\<lambda>_. True) (buf', off) =
       Some (UA_STATUSCODE_GOOD, canon_ExpandedNodeId e, (buf'', off'))"
proof -
  have "splice buf off (ser_ExpandedNodeId e) =
      take off buf @ ser_ExpandedNodeId e @ drop (off + length (ser_ExpandedNodeId e)) buf" "length (take off buf) = off"
    using assms(2) by (simp_all add: splice_def)
  with ExpandedNodeId_enc [OF assms] ExpandedNodeId_dec [OF assms(1), of "\<lambda>_. True" "take off buf"]
  show ?thesis by simp
qed

theorem ExpandedNodeId_roundtrip_witness:
  "let e = \<lparr>nodeId = UA_NODEID_NUMERIC 0 7, namespaceUri = Block [117], serverIndex = 2\<rparr> in
     \<exists>buf' buf'' off'. ExpandedNodeId_encodeBinary e (replicate 12 0, 1) = Some (UA_STATUSCODE_GOOD, (buf', off')) \<and>
     off' = 12 \<and> take 1 buf' = [0] \<and>
     ExpandedNodeId_decodeBinary (\<lambda>_. True) (buf', 1) = Some (UA_STATUSCODE_GOOD, e, (buf'', off'))"
proof -
  let ?e = "\<lparr>nodeId = UA_NODEID_NUMERIC 0 7, namespaceUri = Block [117], serverIndex = 2\<rparr>"
  have "ok_ExpandedNodeId ?e" by (simp add: ok_ExpandedNodeId_def ok_NodeId_def UA_NODEID_NUMERIC_def ok_String_def)
  moreover have "canon_ExpandedNodeId ?e = ?e" "length (ser_ExpandedNodeId ?e) = 11"
    by (simp_all add: canon_ExpandedNodeId_def canon_NodeId_def ser_ExpandedNodeId_def ser_NodeId_def ser_String_def UA_NODEID_NUMERIC_def)
  ultimately show ?thesis using ExpandedNodeId_roundtrip [of ?e 1 "replicate 12 0"] by (simp add: Let_def)
qed

text \<open>
  A diagnostic info of any nesting depth whose flags agree with its members survives a
  round trip; members without a flag arrive as zero.
\<close>

theorem DiagnosticInfo_roundtrip:
  assumes "ok_DiagnosticInfo d" "off + length (ser_DiagnosticInfo d) \<le> length buf"
  shows "\<exists>buf' off'. DiagnosticInfo_encodeBinary d (buf, off) = Some (UA_STATUSCODE_GOOD, (buf', off')) \<and>
     DiagnosticInfo_decodeBinary (\<lambda>_. True) (buf', off) =
       Some (UA_STATUSCODE_GOOD, canon_DiagnosticInfo d, (buf', off')) \<and>
     off' = off + length (ser_DiagnosticInfo d) \<and> length buf' = length buf"
  by (rule DiagnosticInfo.roundtrip [OF assms])

theorem DiagnosticInfo_roundtrip_witness:
  "let inner = DiagnosticInfo False False False False True False False 0 0 0 0 (Block [120]) 0 None;
       d = DiagnosticInfo True False False False False True True 5 0 0 0 Null_ptr UA_STATUSCODE_BADINTERNALERROR (Some inner) in
     \<exists>buf' off'. DiagnosticInfo_encodeBinary d (replicate 20 0, 0) = Some (UA_STATUSCODE_GOOD, (buf', off')) \<and>
     DiagnosticInfo_decodeBinary (\<lambda>_. True) (buf', 0) = Some (UA_STATUSCODE_GOOD, d, (buf', off')) \<and> off' = 15"
proof -
  let ?inner = "DiagnosticInfo False False False False True False False 0 0 0 0 (Block [120]) 0 None"
  let ?d = "DiagnosticInfo True False False False False True True 5 0 0 0 Null_ptr UA_STATUSCODE_BADINTERNALERROR (Some ?inner)"
  have "ok_DiagnosticInfo ?d" "canon_DiagnosticInfo ?d = ?d" "length (ser_DiagnosticInfo ?d) = 15"
    by (simp_all add: ok_String_def ser_di_members_def ser_String_def UA_STRING_NULL_def)
  with DiagnosticInfo_roundtrip [of ?d 0 "replicate 20 0"] show ?thesis
    by (auto simp add: Let_def simp del: DiagnosticInfo_encodeBinary.simps ser_DiagnosticInfo.simps
        ok_DiagnosticInfo.simps canon_DiagnosticInfo.simps)
qed

text \<open>
  An array of strings (the shape of locale lists, server URIs and profile lists) survives a
  round trip as a structure member: the length prefix, then every element; the plausibility
  filter of the decoder never rejects it.
\<close>

theorem String_array_roundtrip:
  assumes "String_array.ok_array a" "off + length (String_array.ser_array a) \<le> length buf"
  shows "\<exists>buf' off'. Array_encodeBinary 16 None String_encodeBinary a (buf, off) = Some (UA_STATUSCODE_GOOD, (buf', off')) \<and>
     array_member_decodeBinary (\<lambda>_. True) 16 None (String_decodeBinary (\<lambda>_. True)) (buf', off) =
       Some (UA_STATUSCODE_GOOD, canon_elems canon_array a, (buf', off')) \<and>
     off' = off + length (String_array.ser_array a)"
proof -
  have "splice buf off (String_array.ser_array a) =
      take off buf @ String_array.ser_array a @ drop (off + length (String_array.ser_array a)) buf" "length (take off buf) = off"
    using assms(2) by (simp_all add: splice_def)
  then show ?thesis
    using encodesD [OF String_array.encodes_array [OF assms(1)] assms(2)]
      decodesD [OF String_array.decodes_array [OF assms(1), of "\<lambda>_. True"], of off "take off buf"] by auto
qed

theorem String_array_roundtrip_witness:
  "\<exists>buf' off'. Array_encodeBinary 16 None String_encodeBinary (Block [Block [97, 98], Null_ptr, Empty_sentinel]) (replicate 18 0, 0) =
       Some (UA_STATUSCODE_GOOD, (buf', off')) \<and>
     array_member_decodeBinary (\<lambda>_. True) 16 None (String_decodeBinary (\<lambda>_. True)) (buf', 0) =
       Some (UA_STATUSCODE_GOOD, Block [Block [97, 98], Null_ptr, Empty_sentinel], (buf', off')) \<and> off' = 18"
  using String_array_roundtrip [of "Block [Block [97, 98], Null_ptr, Empty_sentinel]" 0 "replicate 18 0"]
  by (simp add: String_array.ok_array_def String_array.ser_array_def ok_String_def ser_String_def MAX_ARRAY_SIZE_def)

lemmas node_id_eval = NodeId_encodeBinary_def NodeId_decodeBinary_def UA_NODEID_NUMERIC_def UA_NODEID_NULL_def
  UA_BYTE_MAX_def UA_UINT16_MAX_def enc_seq_def dec_guard_def dec_bind_def dec_return_def dec_cleanup_def
  codec_defs tag_defs le_bytes_numeral splice_def read_bytes_def

text \<open>
  The numeric node id 256 of namespace 0 does not survive: \<open>UA_BYTE_MAX\<close> is 256, so the
  encoder picks the two-byte form, keeps one byte of the identifier and reports success; the
  reader sees the null node id. The same holds for identifiers in namespace 256, which arrive
  in namespace 0.
\<close>

theorem NodeId_256_truncated:
  "NodeId_encodeBinary (UA_NODEID_NUMERIC 0 256) ([9, 9], 0) = Some (UA_STATUSCODE_GOOD, ([0, 0], 2)) \<and>
   NodeId_decodeBinary (\<lambda>_. True) ([0, 0], 0) = Some (UA_STATUSCODE_GOOD, UA_NODEID_NULL, ([0, 0], 2)) \<and>
   NodeId_encodeBinary (UA_NODEID_NUMERIC 256 7) ([9, 9, 9, 9], 0) = Some (UA_STATUSCODE_GOOD, ([1, 0, 7, 0], 4)) \<and>
   NodeId_decodeBinary (\<lambda>_. True) ([1, 0, 7, 0], 0) = Some (UA_STATUSCODE_GOOD, UA_NODEID_NUMERIC 0 7, ([1, 0, 7, 0], 4))"
  by (intro conjI) (simp_all add: node_id_eval)

text \<open>
  \<open>String_encodeBinary\<close> checks the room for the characters but not for the four length
  bytes in front of them: a non-empty string that fits the remaining buffer, but not together
  with its length, is copied past the end of the buffer.
\<close>

theorem String_encode_overruns:
  assumes "s \<noteq> []" "off + 4 \<le> length buf" "off + length s \<le> length buf" "length buf < off + 4 + length s"
  shows "String_encodeBinary (Block s) (buf, off) = None"
  using assms
  by (auto simp: String_encodeBinary_def Int32_encodeBinary_def UInt32_encodeBinary_def write_bytes_def)

theorem String_encode_overruns_witness:
  "String_encodeBinary (Block [104, 105]) ([0, 0, 0, 0], 0) = None"
  using String_encode_overruns [of "[104, 105]" 0 "[0, 0, 0, 0]"] by simp

text \<open>
  The plausibility filter of \<open>Array_decodeBinary\<close> assumes that an element takes at least
  a 32nd of its size in memory. An empty diagnostic info takes one byte of 56: an array of two
  of them at the end of a message, as the encoder writes it, is rejected.
\<close>

theorem DiagnosticInfo_array_rejected:
  "Array_encodeBinary sizeof_DiagnosticInfo None DiagnosticInfo_encodeBinary
     (Block [DiagnosticInfo_zero, DiagnosticInfo_zero]) (replicate 6 9, 0) =
     Some (UA_STATUSCODE_GOOD, ([2, 0, 0, 0, 0, 0], 6)) \<and>
   array_member_decodeBinary (\<lambda>_. True) sizeof_DiagnosticInfo None (DiagnosticInfo_decodeBinary (\<lambda>_. True)) ([2, 0, 0, 0, 0, 0], 0) =
     Some (UA_STATUSCODE_BADDECODINGERROR, Null_ptr, ([2, 0, 0, 0, 0, 0], 4))"
  by (intro conjI) (simp_all add: Array_encodeBinary_def array_member_decodeBinary_def Array_decodeBinary_def
      DiagnosticInfo_zero_def sizeof_DiagnosticInfo_def MAX_ARRAY_SIZE_def Int32_encodeBinary_def Int32_decodeBinary_def
      di_flags_def enc_seq_def enc_when_def enc_skip_def codec_defs le_bytes_numeral splice_def read_bytes_def Let_def)

end
