(* ===== verification/Ua_Nodes.thy ===== *)
theory Ua_Nodes
  imports Ua_Types
begin

text \<open>
  The nodes of the address space (\<^verbatim>\<open>src/server/ua_nodes.h\<close>): the members every node class
  has. The class-specific members extend the record.
\<close>

datatype UA_NodeClass =
    UA_NODECLASS_UNSPECIFIED | UA_NODECLASS_OBJECT | UA_NODECLASS_VARIABLE | UA_NODECLASS_METHOD
  | UA_NODECLASS_OBJECTTYPE | UA_NODECLASS_VARIABLETYPE | UA_NODECLASS_REFERENCETYPE
  | UA_NODECLASS_DATATYPE | UA_NODECLASS_VIEW

text \<open>The classes are bits of a mask.\<close>

fun node_class_code :: "UA_NodeClass \<Rightarrow> UA_UInt32" where
  "node_class_code UA_NODECLASS_UNSPECIFIED = 0"
| "node_class_code UA_NODECLASS_OBJECT = 1"
| "node_class_code UA_NODECLASS_VARIABLE = 2"
| "node_class_code UA_NODECLASS_METHOD = 4"
| "node_class_code UA_NODECLASS_OBJECTTYPE = 8"
| "node_class_code UA_NODECLASS_VARIABLETYPE = 16"
| "node_class_code UA_NODECLASS_REFERENCETYPE = 32"
| "node_class_code UA_NODECLASS_DATATYPE = 64"
| "node_class_code UA_NODECLASS_VIEW = 128"

record UA_ReferenceNode =
  referenceTypeId :: UA_NodeId
  isInverse :: bool
  targetId :: UA_ExpandedNodeId

record UA_Node =
  n_nodeId :: UA_NodeId
  n_nodeClass :: UA_NodeClass
  n_browseName :: UA_QualifiedName
  n_displayName :: UA_LocalizedText
  n_description :: UA_LocalizedText
  n_writeMask :: UA_UInt32
  n_userWriteMask :: UA_UInt32
  n_references :: "UA_ReferenceNode list"

end
