(* ===== verification/Ua_Nodestore_Hash.thy ===== *)
theory Ua_Nodestore_Hash
  imports Ua_Nodes
begin

text \<open>
  Hashing of node ids (\<^verbatim>\<open>src/server/ua_nodestore_hash.inc\<close>): Knuth's multiplicative hash for
  numeric identifiers, Murmur 3 for the bytes of the others, and the two probing functions. All
  arithmetic is that of \<open>uint32_t\<close>.
\<close>

type_synonym hash_t = UA_UInt32

definition mod_hash :: "hash_t \<Rightarrow> hash_t \<Rightarrow> hash_t" where
  "mod_hash h sz = h mod sz"

definition mod2 :: "hash_t \<Rightarrow> hash_t \<Rightarrow> hash_t" where
  "mod2 h sz = 1 + h mod (sz - 2)"

definition murmur_c1 :: UA_UInt32 where "murmur_c1 = 0xcc9e2d51"
definition murmur_c2 :: UA_UInt32 where "murmur_c2 = 0x1b873593"

text \<open>\<open>(k << r) | (k >> (32 - r))\<close>\<close>

definition rotl32 :: "nat \<Rightarrow> UA_UInt32 \<Rightarrow> UA_UInt32" where
  "rotl32 r k = push_bit r k OR drop_bit (32 - r) k"

definition murmur_scramble :: "UA_UInt32 \<Rightarrow> UA_UInt32" where
  "murmur_scramble k = rotl32 15 (k * murmur_c1) * murmur_c2"

text \<open>The body: blocks of four bytes as little-endian words, then at most three bytes.\<close>

fun hash_blocks :: "UA_Byte list \<Rightarrow> hash_t \<Rightarrow> hash_t" where
  "hash_blocks (b0 # b1 # b2 # b3 # bs) h =
     hash_blocks bs (rotl32 13 (h XOR murmur_scramble (le_word [b0, b1, b2, b3])) * 5 + 0xe6546b64)"
| "hash_blocks [b0, b1, b2] h =
     h XOR murmur_scramble (push_bit 16 (ucast b2) XOR push_bit 8 (ucast b1) XOR ucast b0)"
| "hash_blocks [b0, b1] h = h XOR murmur_scramble (push_bit 8 (ucast b1) XOR ucast b0)"
| "hash_blocks [b0] h = h XOR murmur_scramble (ucast b0)"
| "hash_blocks [] h = h"

definition hash_finalize :: "hash_t \<Rightarrow> hash_t" where
  "hash_finalize h0 =
     (let h1 = (h0 XOR drop_bit 16 h0) * 0x85ebca6b;
          h2 = (h1 XOR drop_bit 13 h1) * 0xc2b2ae35
      in h2 XOR drop_bit 16 h2)"

definition hash_array :: "UA_Byte ua_array \<Rightarrow> hash_t \<Rightarrow> hash_t" where
  "hash_array data seed =
     (case data of
        Null_ptr \<Rightarrow> 0
      | _ \<Rightarrow> hash_finalize (hash_blocks (content data) seed XOR word_of_nat (alen data)))"

definition hash :: "UA_NodeId \<Rightarrow> hash_t" where
  "hash n = (case ident n of
     Numeric i \<Rightarrow> (i + ucast (namespaceIndex n)) * 2654435761
   | StringId s \<Rightarrow> hash_array s (ucast (namespaceIndex n))
   | GuidId g \<Rightarrow> hash_array (Block (Guid_bytes g)) (ucast (namespaceIndex n))
   | ByteStringId s \<Rightarrow> hash_array s (ucast (namespaceIndex n)))"

text \<open>
  Equal node ids hash equally as long as no string identifier is the NULL pointer: the hash
  of NULL is 0, the hash of a defined empty string is not, although the two compare equal.
\<close>

fun has_data :: "node_identifier \<Rightarrow> bool" where
  "has_data (StringId s) = (s \<noteq> Null_ptr)"
| "has_data (ByteStringId s) = (s \<noteq> Null_ptr)"
| "has_data _ = True"

definition hashable :: "UA_NodeId \<Rightarrow> bool" where
  "hashable n \<longleftrightarrow> has_data (ident n)"

lemma hash_array_content:
  "a \<noteq> Null_ptr \<Longrightarrow> b \<noteq> Null_ptr \<Longrightarrow> content a = content b \<Longrightarrow> hash_array a seed = hash_array b seed"
  by (cases a; cases b) (auto simp: hash_array_def)

lemma hash_equal:
  assumes "UA_NodeId_equal a b" "hashable a" "hashable b" shows "hash a = hash b"
  using assms
  by (cases "ident a"; cases "ident b")
    (auto simp: UA_NodeId_equal_def hash_def hashable_def UA_String_equal_content UA_ByteString_equal_def
      intro: hash_array_content split: if_splits)

text \<open>Sizes of the table and the step of the probe sequence.\<close>

lemma unat_mod_hash: "unat (mod_hash h sz) = unat h mod unat sz"
  by (simp add: mod_hash_def unat_mod_distrib)

lemma unat_mod2:
  assumes "unat sz > 2"
  shows "unat (mod2 h sz) = 1 + unat h mod (unat sz - 2)"
proof -
  have s: "unat (sz - 2) = unat sz - 2"
    using assms by (simp add: unat_sub word_le_nat_alt)
  have "unat h mod (unat sz - 2) < unat sz - 2" using assms by simp
  moreover have "unat sz < 2 ^ 32" using unsigned_less [of sz] by simp
  ultimately have "1 + unat h mod (unat sz - 2) < 2 ^ 32" by linarith
  then show ?thesis by (simp add: mod2_def unat_word_ariths unat_mod_distrib s)
qed

end
