(* ===== verification/Ua_Primes.thy ===== *)
theory Ua_Primes
  imports Main
begin

text \<open>
  Primality by trial division, and what the open addressing of the node store needs of it: the
  probe sequence \<open>i, i + s, i + 2 s, ...\<close> modulo a prime visits every slot.
\<close>

function no_divisor_from :: "int \<Rightarrow> int \<Rightarrow> bool" where
  "no_divisor_from d m = (if d < 1 \<or> d * d > m then True else m mod d \<noteq> 0 \<and> no_divisor_from (d + 2) m)"
  by pat_completeness auto
termination
proof (relation "measure (\<lambda>(d, m). nat (m + 1 - d))", goal_cases)
  case (2 d m)
  then have "1 \<le> d" "d * d \<le> m" by auto
  moreover have "1 * d \<le> d * d" using \<open>1 \<le> d\<close> by (intro mult_right_mono) auto
  ultimately have "d \<le> m" by linarith
  then show ?case by simp
qed simp

declare no_divisor_from.simps [simp del]

definition odd_prime :: "int \<Rightarrow> bool" where
  "odd_prime m \<longleftrightarrow> m > 2 \<and> m mod 2 \<noteq> 0 \<and> no_divisor_from 3 m"

lemma no_divisor_fromD:
  assumes "no_divisor_from d m" "1 \<le> d" "d \<le> k" "k * k \<le> m" "even (k - d)"
  shows "m mod k \<noteq> 0"
  using assms
proof (induction d m rule: no_divisor_from.induct)
  case (1 d m)
  have "d * d \<le> k * k" using 1(3,4) by (intro mult_mono) auto
  then have go: "\<not> (d < 1 \<or> d * d > m)" using 1 by auto
  then have step: "m mod d \<noteq> 0" "no_divisor_from (d + 2) m"
    using 1(2) no_divisor_from.simps [of d m] by auto
  show ?case
  proof (cases "k = d")
    case True then show ?thesis using step by simp
  next
    case False
    then have "d + 2 \<le> k" using 1(4,6) by presburger
    then show ?thesis using 1 go step by auto
  qed
qed

lemma odd_prime_no_divisor:
  assumes "odd_prime m" "1 < k" "k * k \<le> m" shows "\<not> k dvd m"
proof (cases "even k")
  case True
  then have "k dvd m \<Longrightarrow> 2 dvd m" by (rule dvd_trans)
  then show ?thesis using assms(1) by (auto simp: odd_prime_def even_iff_mod_2_eq_zero)
next
  case False
  then have "3 \<le> k" "even (k - 3)" using assms(2) by presburger+
  then show ?thesis
    using no_divisor_fromD [of 3 m k] assms by (auto simp: odd_prime_def dvd_eq_mod_eq_0)
qed

lemma odd_prime_coprime:
  fixes s m :: nat
  assumes "odd_prime (int m)" "0 < s" "s < m" shows "coprime s m"
proof (rule ccontr)
  define g where "g = gcd s m"
  assume "\<not> coprime s m"
  then have g1: "1 < g" using assms(2) by (auto simp: g_def coprime_iff_gcd_eq_1 nat_neq_iff)
  obtain q where q: "m = g * q" by (metis g_def gcd_dvd2 dvdE)
  have "g \<le> s" using assms(2) by (simp add: g_def gcd_le1_nat)
  then have "1 < q" using q assms(3) by (cases "q = 0"; cases "q = 1") auto
  have "g * g \<le> m \<or> q * q \<le> m" using q by (cases "g \<le> q") (auto intro: mult_le_mono)
  then show False
    using odd_prime_no_divisor [OF assms(1), of "int g"] odd_prime_no_divisor [OF assms(1), of "int q"]
      g1 \<open>1 < q\<close> q by (auto simp flip: of_nat_mult simp: of_nat_le_iff)
qed

lemma probe_inj:
  fixes i s m :: nat
  assumes "odd_prime (int m)" "0 < s" "s < m"
  shows "inj_on (\<lambda>k. (i + k * s) mod m) {..<m}"
proof (rule inj_onI)
  have *: "k = l" if "k \<le> l" "l < m" "(i + k * s) mod m = (i + l * s) mod m" for k l
  proof -
    have "m dvd (i + l * s) - (i + k * s)" using that by (metis mod_eq_dvd_iff_nat add_left_mono mult_right_mono zero_le)
    then have "m dvd (l - k) * s" by (simp add: diff_mult_distrib)
    then have "m dvd l - k" using odd_prime_coprime [OF assms] by (simp add: coprime_dvd_mult_left_iff coprime_commute)
    then show ?thesis using that by (auto dest: dvd_imp_le)
  qed
  fix k l
  assume "k \<in> {..<m}" "l \<in> {..<m}" "(i + k * s) mod m = (i + l * s) mod m"
  then show "k = l" using * [of k l] * [of l k] by (cases "k \<le> l") auto
qed

lemma probe_surj:
  fixes i s m :: nat
  assumes "odd_prime (int m)" "0 < s" "s < m" "p < m"
  shows "\<exists>k < m. (i + k * s) mod m = p"
proof -
  have "card ((\<lambda>k. (i + k * s) mod m) ` {..<m}) = m"
    using card_image [OF probe_inj [OF assms(1-3)]] by simp
  moreover have "(\<lambda>k. (i + k * s) mod m) ` {..<m} \<subseteq> {..<m}" using assms(4) by auto
  ultimately have "(\<lambda>k. (i + k * s) mod m) ` {..<m} = {..<m}" by (intro card_subset_eq) auto
  then have "p \<in> (\<lambda>k. (i + k * s) mod m) ` {..<m}" using assms(4) by simp
  then show ?thesis by auto
qed


lemma odd_prime_small:
  "odd_prime 7" "odd_prime 13" "odd_prime 31" "odd_prime 61" "odd_prime 127" "odd_prime 251"
  "odd_prime 509" "odd_prime 1021" "odd_prime 2039" "odd_prime 4093" "odd_prime 8191" "odd_prime 16381"
  by code_simp+

lemma odd_prime_medium:
  "odd_prime 32749" "odd_prime 65521" "odd_prime 131071" "odd_prime 262139" "odd_prime 524287" "odd_prime 1048573"
  by code_simp+

lemma odd_prime_2097143: "odd_prime 2097143" by code_simp
lemma odd_prime_4194301: "odd_prime 4194301" by code_simp
lemma odd_prime_8388593: "odd_prime 8388593" by code_simp
lemma odd_prime_16777213: "odd_prime 16777213" by code_simp

lemmas odd_prime_table = odd_prime_small odd_prime_medium odd_prime_2097143 odd_prime_4194301
  odd_prime_8388593 odd_prime_16777213

end
