(* ===== verification/Ua_Nodestore.thy ===== *)
theory Ua_Nodestore
  imports Ua_Nodestore_Hash Ua_Primes
begin

text \<open>
  The node store (\<^verbatim>\<open>src/server/ua_nodestore.c\<close>): an open-addressing hash table with double
  hashing that maps node ids to nodes.

  An entry is \<open>None\<close> when its \<open>taken\<close> flag is false. A pointer into the table (the \<open>entry\<close>
  result of \<open>containsNodeId\<close>, the node that \<open>UA_NodeStore_get\<close> returns) is the index of
  its slot. \<open>None\<close> as the result of an operation means that the C function does not return: an
  access outside the table or a probe loop that never ends.
\<close>

section \<open>State and helpers\<close>

definition UA_NODESTORE_MINSIZE :: UA_UInt32 where "UA_NODESTORE_MINSIZE = 64"

record 'n UA_NodeStore =
  entries :: "'n UA_Node_scheme option list"
  ns_size :: UA_UInt32
  ns_count :: UA_UInt32
  sizePrimeIndex :: UA_UInt32

definition primes :: "hash_t list" where
  "primes = [
    7,         13,         31,         61,         127,         251,
    509,       1021,       2039,       4093,       8191,        16381,
    32749,     65521,      131071,     262139,     524287,      1048573,
    2097143,   4194301,    8388593,    16777213,   33554393,    67108859,
    134217689, 268435399,  536870909,  1073741789, 2147483647,  4294967291]"

function higher_prime_search :: "hash_t \<Rightarrow> nat \<Rightarrow> nat \<Rightarrow> nat" where
  "higher_prime_search n low high =
     (if low < high
      then let mid = low + (high - low) div 2
           in if n > primes ! mid then higher_prime_search n (mid + 1) high
              else higher_prime_search n low mid
      else low)"
  by pat_completeness auto
termination
  by (relation "measure (\<lambda>(n, low, high). high - low)") auto

declare higher_prime_search.simps [simp del]

definition higher_prime_index :: "hash_t \<Rightarrow> nat" where
  "higher_prime_index n = higher_prime_search n 0 (length primes)"

definition entry_at :: "'n UA_NodeStore \<Rightarrow> hash_t \<Rightarrow> 'n UA_Node_scheme option option" where
  "entry_at ns index = (if unat index < length (entries ns) then Some (entries ns ! unat index) else None)"

definition next_index :: "hash_t \<Rightarrow> hash_t \<Rightarrow> hash_t \<Rightarrow> hash_t" where
  "next_index sz hash2 index = (let i = index + hash2 in if i \<ge> sz then i - sz else i)"

text \<open>The loop \<open>for(;;)\<close> of \<open>containsNodeId\<close>.\<close>

partial_function (option) probe ::
  "'n UA_NodeStore \<Rightarrow> UA_NodeId \<Rightarrow> hash_t \<Rightarrow> hash_t \<Rightarrow> (bool \<times> hash_t) option" where
  "probe ns nodeid hash2 index = do {
     e \<leftarrow> entry_at ns (next_index (ns_size ns) hash2 index);
     (case e of
        None \<Rightarrow> Some (False, next_index (ns_size ns) hash2 index)
      | Some n \<Rightarrow>
          if UA_NodeId_equal (n_nodeId n) nodeid then Some (True, next_index (ns_size ns) hash2 index)
          else probe ns nodeid hash2 (next_index (ns_size ns) hash2 index)) }"

definition containsNodeId :: "'n UA_NodeStore \<Rightarrow> UA_NodeId \<Rightarrow> (bool \<times> hash_t) option" where
  "containsNodeId ns nodeid = (let h = hash nodeid; index = mod_hash h (ns_size ns) in do {
     e \<leftarrow> entry_at ns index;
     (case e of
        None \<Rightarrow> Some (False, index)
      | Some n \<Rightarrow>
          if UA_NodeId_equal (n_nodeId n) nodeid then Some (True, index)
          else probe ns nodeid (mod2 h (ns_size ns)) index) })"

text \<open>\<open>fillEntry\<close> copies the node by its class; \<open>UA_assert\<close> fails for any other.\<close>

definition fillEntry :: "'n UA_NodeStore \<Rightarrow> hash_t \<Rightarrow> 'n UA_Node_scheme \<Rightarrow> 'n UA_NodeStore option" where
  "fillEntry ns entry node =
     (if n_nodeClass node = UA_NODECLASS_UNSPECIFIED \<or> \<not> unat entry < length (entries ns) then None
      else Some (ns\<lparr>entries := (entries ns)[unat entry := Some node]\<rparr>))"

definition deleteEntry :: "'n UA_NodeStore \<Rightarrow> hash_t \<Rightarrow> 'n UA_NodeStore" where
  "deleteEntry ns entry = ns\<lparr>entries := (entries ns)[unat entry := None]\<rparr>"

text \<open>The reinsertion loop of \<open>expand\<close> over the old entries; \<open>j\<close> counts the moved ones.\<close>

fun expand_loop :: "'n UA_Node_scheme option list \<Rightarrow> UA_UInt32 \<Rightarrow> UA_UInt32 \<Rightarrow> 'n UA_NodeStore \<Rightarrow> 'n UA_NodeStore option" where
  "expand_loop [] j count ns = Some ns"
| "expand_loop (e # es) j count ns =
     (if \<not> j < count then Some ns
      else case e of
        None \<Rightarrow> expand_loop es j count ns
      | Some n \<Rightarrow> do {
          (_, slot) \<leftarrow> containsNodeId ns (n_nodeId n);
          expand_loop es (j + 1) count (ns\<lparr>entries := (entries ns)[unat slot := Some n]\<rparr>) })"

definition expand :: "(nat \<Rightarrow> bool) \<Rightarrow> 'n UA_NodeStore \<Rightarrow> (UA_StatusCode \<times> 'n UA_NodeStore) option" where
  "expand mem ns = (let osize = ns_size ns; count = ns_count ns in
     if count * 2 < osize \<and> (count * 8 > osize \<or> osize \<le> UA_NODESTORE_MINSIZE)
     then Some (UA_STATUSCODE_GOOD, ns)
     else let nindex = higher_prime_index (count * 2) in
       if nindex \<ge> length primes then None
       else let nsize = primes ! nindex in
         if \<not> mem (unat nsize) then Some (UA_STATUSCODE_BADOUTOFMEMORY, ns)
         else do {
           ns' \<leftarrow> expand_loop (entries ns) 0 count
                   (ns\<lparr>entries := replicate (unat nsize) None, ns_size := nsize,
                       sizePrimeIndex := word_of_nat nindex\<rparr>);
           Some (UA_STATUSCODE_GOOD, ns') })"

declare probe.simps [code]

section \<open>Exported functions\<close>

definition UA_NodeStore_new :: "(nat \<Rightarrow> bool) \<Rightarrow> 'n UA_NodeStore option" where
  "UA_NodeStore_new mem =
     (let i = higher_prime_index UA_NODESTORE_MINSIZE; sz = primes ! i in
      if mem (unat sz)
      then Some \<lparr>entries = replicate (unat sz) None, ns_size = sz, ns_count = 0, sizePrimeIndex = word_of_nat i\<rparr>
      else None)"

text \<open>The search for a free numeric identifier; \<open>identifier\<close>, \<open>sz\<close> are \<open>UA_Int32\<close>.\<close>

partial_function (option) find_free ::
  "'n UA_NodeStore \<Rightarrow> UA_UInt16 \<Rightarrow> hash_t \<Rightarrow> UA_Int32 \<Rightarrow> (UA_UInt32 \<times> hash_t) option" where
  "find_free ns nsIndex increase identifier = do {
     (found, entry) \<leftarrow> containsNodeId ns \<lparr>namespaceIndex = nsIndex, ident = Numeric identifier\<rparr>;
     if \<not> found then Some (identifier, entry)
     else find_free ns nsIndex increase
       (let i = identifier + increase in if sint i \<ge> sint (ns_size ns) then i - ns_size ns else i) }"

declare find_free.simps [code]

definition UA_NodeStore_insert ::
  "(nat \<Rightarrow> bool) \<Rightarrow> 'n UA_NodeStore \<Rightarrow> 'n UA_Node_scheme \<Rightarrow> (UA_StatusCode \<times> hash_t option \<times> 'n UA_NodeStore) option" where
  "UA_NodeStore_insert mem ns0 node = do {
     (r, ns) \<leftarrow> (if ns_size ns0 * 3 \<le> ns_count ns0 * 4 then expand mem ns0 else Some (UA_STATUSCODE_GOOD, ns0));
     if r \<noteq> UA_STATUSCODE_GOOD then Some (UA_STATUSCODE_BADINTERNALERROR, None, ns)
     else do {
       (found, node', entry) \<leftarrow>
         (if UA_NodeId_isNull ((n_nodeId node)\<lparr>namespaceIndex := 0\<rparr>) then
            let nsIndex = (if namespaceIndex (n_nodeId node) = 0 then 1 else namespaceIndex (n_nodeId node));
                identifier = ns_count ns + 1
            in do {
              (i, entry) \<leftarrow> find_free ns nsIndex (mod2 identifier (ns_size ns)) identifier;
              Some (False, node\<lparr>n_nodeId := \<lparr>namespaceIndex = nsIndex, ident = Numeric i\<rparr>\<rparr>, entry) }
          else do {
            (found, entry) \<leftarrow> containsNodeId ns (n_nodeId node);
            Some (found, node, entry) });
       if found then Some (UA_STATUSCODE_BADNODEIDEXISTS, None, ns)
       else do {
         ns' \<leftarrow> fillEntry ns entry node';
         Some (UA_STATUSCODE_GOOD, Some entry, ns'\<lparr>ns_count := ns_count ns' + 1\<rparr>) } } }"

text \<open>\<open>oldNode\<close> is the pointer to the slot the caller got the node from.\<close>

definition UA_NodeStore_replace ::
  "'n UA_NodeStore \<Rightarrow> hash_t \<Rightarrow> 'n UA_Node_scheme \<Rightarrow> (UA_StatusCode \<times> hash_t option \<times> 'n UA_NodeStore) option" where
  "UA_NodeStore_replace ns oldNode node = do {
     (found, slot) \<leftarrow> containsNodeId ns (n_nodeId node);
     if \<not> found then Some (UA_STATUSCODE_BADNODEIDUNKNOWN, None, ns)
     else if slot \<noteq> oldNode then Some (UA_STATUSCODE_BADINTERNALERROR, None, ns)
     else do {
       ns' \<leftarrow> fillEntry (deleteEntry ns slot) slot node;
       Some (UA_STATUSCODE_GOOD, Some slot, ns') } }"

definition UA_NodeStore_get :: "'n UA_NodeStore \<Rightarrow> UA_NodeId \<Rightarrow> hash_t option option" where
  "UA_NodeStore_get ns nodeid = do {
     (found, slot) \<leftarrow> containsNodeId ns nodeid;
     Some (if found then Some slot else None) }"

definition UA_NodeStore_remove ::
  "(nat \<Rightarrow> bool) \<Rightarrow> 'n UA_NodeStore \<Rightarrow> UA_NodeId \<Rightarrow> (UA_StatusCode \<times> 'n UA_NodeStore) option" where
  "UA_NodeStore_remove mem ns nodeid = do {
     (found, slot) \<leftarrow> containsNodeId ns nodeid;
     if \<not> found then Some (UA_STATUSCODE_BADNODEIDUNKNOWN, ns)
     else let ns1 = deleteEntry ns slot; ns2 = ns1\<lparr>ns_count := ns_count ns1 - 1\<rparr> in
       if ns_count ns2 * 8 < ns_size ns2 \<and> ns_size ns2 > 32
       then do { (_, ns3) \<leftarrow> expand mem ns2; Some (UA_STATUSCODE_GOOD, ns3) }
       else Some (UA_STATUSCODE_GOOD, ns2) }"

text \<open>The nodes a visitor is called with, in order; \<open>UA_NodeStore_delete\<close> releases the same.\<close>

fun nodes :: "'n UA_Node_scheme option list \<Rightarrow> 'n UA_Node_scheme list" where
  "nodes [] = []"
| "nodes (None # es) = nodes es"
| "nodes (Some n # es) = n # nodes es"

definition UA_NodeStore_iterate :: "'n UA_NodeStore \<Rightarrow> 'n UA_Node_scheme list option" where
  "UA_NodeStore_iterate ns =
     (if unat (ns_size ns) \<le> length (entries ns)
      then Some (nodes (take (unat (ns_size ns)) (entries ns))) else None)"

text \<open>The node that \<open>UA_NodeStore_get\<close> returns a pointer to.\<close>

definition get_node :: "'n UA_NodeStore \<Rightarrow> UA_NodeId \<Rightarrow> 'n UA_Node_scheme option option" where
  "get_node ns i = do { e \<leftarrow> UA_NodeStore_get ns i; (case e of None \<Rightarrow> Some None | Some entry \<Rightarrow> entry_at ns entry) }"

end
