(* ===== verification/Ua_Nodestore_Laws.thy ===== *)
theory Ua_Nodestore_Laws
  imports Ua_Nodestore
begin

text \<open>
  The laws of the node store: the probe sequence, the invariant that every stored node is
  reachable by probing, and the contract of the exported functions against the set of stored
  nodes.

  The results hold for tables of up to 16777213 entries, the 22nd of the 30 sizes: the primality
  of the sizes is checked by trial division, and such a table already takes several gigabytes.
\<close>

section \<open>Table sizes\<close>

abbreviation table_sizes :: "hash_t list" where
  "table_sizes \<equiv> take 22 primes"

lemma table_sizes_prime:
  assumes "sz \<in> set table_sizes"
  shows "odd_prime (int (unat sz))" "7 \<le> unat sz" "unat sz \<le> 16777213"
  using assms by (auto simp: primes_def odd_prime_table)

lemma sorted_primes: "sorted primes"
  by (simp add: primes_def)

lemma higher_prime_search_bounds:
  assumes "low \<le> high" "high \<le> length primes" "\<forall>i < low. primes ! i < n" "\<forall>i < length primes. high \<le> i \<longrightarrow> n \<le> primes ! i"
  shows "let r = higher_prime_search n low high in
    low \<le> r \<and> r \<le> high \<and> (\<forall>i < r. primes ! i < n) \<and> (\<forall>i < length primes. r \<le> i \<longrightarrow> n \<le> primes ! i)"
  using assms
proof (induction n low high rule: higher_prime_search.induct)
  case (1 n low high)
  show ?case
  proof (cases "low < high")
    case False
    then have "higher_prime_search n low high = low" by (subst higher_prime_search.simps) simp
    moreover have "low = high" using False 1(3) by simp
    ultimately show ?thesis using 1(3-6) by (simp add: Let_def)
  next
    case True
    define mid where "mid = low + (high - low) div 2"
    have mid: "low \<le> mid" "mid < high" "mid < length primes" using True 1(4) by (auto simp: mid_def)
    show ?thesis
    proof (cases "n > primes ! mid")
      case lt: True
      have "\<forall>i < mid + 1. primes ! i < n"
        using lt mid sorted_nth_mono [OF sorted_primes, of _ mid] by (auto simp: less_Suc_eq_le intro: le_less_trans)
      moreover have "higher_prime_search n low high = higher_prime_search n (mid + 1) high"
        using True lt by (subst higher_prime_search.simps) (simp add: Let_def mid_def)
      ultimately show ?thesis
        using 1(1) [OF True mid_def lt _ 1(4) _ 1(6)] mid by (simp add: Let_def)
    next
      case ge: False
      have "\<forall>i < length primes. mid \<le> i \<longrightarrow> n \<le> primes ! i"
        using ge mid sorted_nth_mono [OF sorted_primes, of mid] by (meson not_less order_trans)
      moreover have "higher_prime_search n low high = higher_prime_search n low mid"
        using True ge by (subst higher_prime_search.simps) (simp add: Let_def mid_def)
      ultimately show ?thesis
        using 1(2) [OF True mid_def ge mid(1) _ 1(5)] mid by (simp add: Let_def)
    qed
  qed
qed

lemma higher_prime_index_least:
  "\<forall>i < higher_prime_index n. primes ! i < n"
  "\<forall>i < length primes. higher_prime_index n \<le> i \<longrightarrow> n \<le> primes ! i"
  using higher_prime_search_bounds [of 0 "length primes" n] by (auto simp: higher_prime_index_def Let_def)

lemma higher_prime_index_size:
  assumes "n \<le> 16777213"
  shows "higher_prime_index n < 22" "primes ! higher_prime_index n \<in> set table_sizes" "n \<le> primes ! higher_prime_index n"
proof -
  have "primes ! 21 = 16777213" "length primes = 30" by (simp_all add: primes_def)
  then show lt: "higher_prime_index n < 22"
    using assms higher_prime_index_least(1) [of n] by (metis not_less_eq not_le eval_nat_numeral(2) semiring_norm(26,27,28))
  then show "primes ! higher_prime_index n \<in> set table_sizes" "n \<le> primes ! higher_prime_index n"
    using \<open>length primes = 30\<close> higher_prime_index_least(2) [of n] by (auto simp: in_set_conv_nth)
qed

section \<open>The probe sequence\<close>

definition wf_table :: "'n UA_NodeStore \<Rightarrow> bool" where
  "wf_table ns \<longleftrightarrow> ns_size ns \<in> set table_sizes \<and> length (entries ns) = unat (ns_size ns)"

definition slot :: "hash_t \<Rightarrow> hash_t \<Rightarrow> nat \<Rightarrow> nat" where
  "slot sz h k = (unat (mod_hash h sz) + k * unat (mod2 h sz)) mod unat sz"

definition stops :: "'n UA_NodeStore \<Rightarrow> UA_NodeId \<Rightarrow> nat \<Rightarrow> bool" where
  "stops ns nodeid p = (case entries ns ! p of None \<Rightarrow> True | Some n \<Rightarrow> UA_NodeId_equal (n_nodeId n) nodeid)"

lemma unat_next_index:
  assumes "unat i < unat sz" "unat s < unat sz" "unat sz < 2 ^ 31"
  shows "unat (next_index sz s i) = (unat i + unat s) mod unat sz"
proof -
  have sum: "unat (i + s) = unat i + unat s" using assms by (subst unat_plus_if_size) (simp add: word_size)
  show ?thesis
  proof (cases "i + s \<ge> sz")
    case True
    then have "unat sz \<le> unat i + unat s" using sum by (simp add: word_le_nat_alt)
    moreover from this have "unat (i + s - sz) = unat i + unat s - unat sz"
      using sum True by (simp add: unat_sub)
    ultimately show ?thesis using assms True by (simp add: next_index_def Let_def le_mod_geq)
  next
    case False
    then have "unat i + unat s < unat sz" using sum by (simp add: word_le_nat_alt)
    then show ?thesis using False sum by (simp add: next_index_def Let_def)
  qed
qed

lemma mod2_range:
  assumes "sz \<in> set table_sizes" shows "0 < unat (mod2 h sz)" "unat (mod2 h sz) < unat sz"
proof -
  have "7 \<le> unat sz" using table_sizes_prime [OF assms] by simp
  moreover from this have "unat h mod (unat sz - 2) < unat sz - 2" by (intro mod_less_divisor) simp
  moreover from calculation have "unat (mod2 h sz) = 1 + unat h mod (unat sz - 2)" by (intro unat_mod2) simp
  ultimately show "0 < unat (mod2 h sz)" "unat (mod2 h sz) < unat sz" by linarith+
qed

lemma slot_less: "sz \<in> set table_sizes \<Longrightarrow> slot sz h k < unat sz"
  using table_sizes_prime(2) [of sz] by (simp add: slot_def)

lemma slot_surj: "sz \<in> set table_sizes \<Longrightarrow> p < unat sz \<Longrightarrow> \<exists>k < unat sz. slot sz h k = p"
  unfolding slot_def by (intro probe_surj table_sizes_prime mod2_range)

lemma slot_0: "slot sz h 0 = unat (mod_hash h sz)"
  by (simp add: slot_def unat_mod_hash)

lemma next_index_slot:
  assumes "sz \<in> set table_sizes"
  shows "next_index sz (mod2 h sz) (word_of_nat (slot sz h k)) = word_of_nat (slot sz h (Suc k))"
proof -
  have lt: "unat sz < 2 ^ 31" using table_sizes_prime(3) [OF assms] by simp
  have u: "unat (word_of_nat (slot sz h j) :: hash_t) = slot sz h j" for j
    using slot_less [OF assms, of h j] lt by (simp add: unat_of_nat)
  have "unat (next_index sz (mod2 h sz) (word_of_nat (slot sz h k))) = (slot sz h k + unat (mod2 h sz)) mod unat sz"
    using u slot_less [OF assms] mod2_range [OF assms] lt by (subst unat_next_index) simp_all
  also have "\<dots> = slot sz h (Suc k)" unfolding slot_def by (simp add: mod_add_left_eq add.assoc add.commute [of "unat (mod2 h sz)"])
  finally show ?thesis by (simp add: u word_unat_eq_iff)
qed


text \<open>
  What \<open>containsNodeId\<close> returns: the first slot of the probe sequence that is empty or holds
  the node id. When one slot of the table is empty, there is such a slot.
\<close>

definition first_stop :: "'n UA_NodeStore \<Rightarrow> UA_NodeId \<Rightarrow> nat \<Rightarrow> bool" where
  "first_stop ns nodeid k \<longleftrightarrow> stops ns nodeid (slot (ns_size ns) (hash nodeid) k) \<and>
     (\<forall>j < k. \<not> stops ns nodeid (slot (ns_size ns) (hash nodeid) j))"

lemma unat_slot:
  "sz \<in> set table_sizes \<Longrightarrow> unat (word_of_nat (slot sz h j) :: hash_t) = slot sz h j"
  using slot_less [of sz h j] table_sizes_prime(3) [of sz] by (simp add: unat_of_nat)

lemma entry_at_slot:
  "wf_table ns \<Longrightarrow> entry_at ns (word_of_nat (slot (ns_size ns) h j)) = Some (entries ns ! slot (ns_size ns) h j)"
  using slot_less [of "ns_size ns" h j] by (simp add: entry_at_def unat_slot wf_table_def)

lemma probe_first:
  assumes "wf_table ns" "k < K" "stops ns nodeid (slot (ns_size ns) h K)"
    "\<forall>j. k < j \<and> j < K \<longrightarrow> \<not> stops ns nodeid (slot (ns_size ns) h j)"
  shows "probe ns nodeid (mod2 h (ns_size ns)) (word_of_nat (slot (ns_size ns) h k)) =
     Some (entries ns ! slot (ns_size ns) h K \<noteq> None, word_of_nat (slot (ns_size ns) h K))"
  using assms(2-)
proof (induction "K - k" arbitrary: k)
  case (Suc d)
  have sz: "ns_size ns \<in> set table_sizes" using assms(1) by (simp add: wf_table_def)
  note step = probe.simps [of ns nodeid "mod2 h (ns_size ns)" "word_of_nat (slot (ns_size ns) h k)",
      unfolded next_index_slot [OF sz] entry_at_slot [OF assms(1)]]
  show ?case
  proof (cases "Suc k = K")
    case True
    then show ?thesis using Suc.prems(2) by (auto simp: step stops_def split: option.splits)
  next
    case False
    then have "\<not> stops ns nodeid (slot (ns_size ns) h (Suc k))" using Suc.prems by auto
    moreover have "probe ns nodeid (mod2 h (ns_size ns)) (word_of_nat (slot (ns_size ns) h (Suc k))) =
       Some (entries ns ! slot (ns_size ns) h K \<noteq> None, word_of_nat (slot (ns_size ns) h K))"
      using Suc False by (intro Suc.hyps) auto
    ultimately show ?thesis by (auto simp: step stops_def split: option.splits)
  qed
qed simp

lemma containsNodeId_first:
  assumes "wf_table ns" "first_stop ns nodeid k"
  shows "containsNodeId ns nodeid =
     Some (entries ns ! slot (ns_size ns) (hash nodeid) k \<noteq> None, word_of_nat (slot (ns_size ns) (hash nodeid) k))"
proof -
  let ?s = "slot (ns_size ns) (hash nodeid)"
  have start: "mod_hash (hash nodeid) (ns_size ns) = word_of_nat (?s 0)"
    by (simp add: slot_0 word_unat_eq_iff)
  show ?thesis
  proof (cases k)
    case 0
    then show ?thesis
      using assms entry_at_slot [OF assms(1), of "hash nodeid" 0]
      by (auto simp: containsNodeId_def start first_stop_def stops_def split: option.splits)
  next
    case (Suc _)
    then have "\<not> stops ns nodeid (?s 0)" using assms(2) by (simp add: first_stop_def)
    then obtain n where "entries ns ! ?s 0 = Some n" "\<not> UA_NodeId_equal (n_nodeId n) nodeid"
      by (auto simp: stops_def split: option.splits)
    moreover have "probe ns nodeid (mod2 (hash nodeid) (ns_size ns)) (word_of_nat (?s 0)) =
        Some (entries ns ! ?s k \<noteq> None, word_of_nat (?s k))"
      using assms Suc by (intro probe_first) (auto simp: first_stop_def)
    ultimately show ?thesis
      using entry_at_slot [OF assms(1), of "hash nodeid" 0] by (simp add: containsNodeId_def start Let_def)
  qed
qed

lemma first_stop_exists:
  assumes "wf_table ns" "None \<in> set (entries ns)"
  shows "\<exists>k < unat (ns_size ns). first_stop ns nodeid k"
proof -
  let ?s = "slot (ns_size ns) (hash nodeid)"
  from assms obtain p where p: "p < unat (ns_size ns)" "entries ns ! p = None"
    by (auto simp: in_set_conv_nth wf_table_def)
  with assms obtain k where k: "k < unat (ns_size ns)" "?s k = p"
    using slot_surj [of "ns_size ns" p "hash nodeid"] by (auto simp: wf_table_def)
  then have "stops ns nodeid (?s k)" using p by (simp add: stops_def)
  then have "first_stop ns nodeid (LEAST k. stops ns nodeid (?s k))"
    unfolding first_stop_def by (auto intro: LeastI dest: not_less_Least)
  moreover have "(LEAST k. stops ns nodeid (?s k)) \<le> k" using \<open>stops ns nodeid (?s k)\<close> by (rule Least_le)
  ultimately show ?thesis using k by (meson le_less_trans)
qed


lemma unat_plus_1:
  fixes j c :: "'a::len word"
  assumes "j < c" shows "unat (j + 1) = unat j + 1"
proof -
  have "unat j < unat c" using assms by (simp add: word_less_nat_alt)
  then have "unat j + 1 < 2 ^ LENGTH('a)" using unsigned_less [of c, where ?'a = nat] by linarith
  then show ?thesis by (simp add: unat_word_ariths)
qed

section \<open>The invariant\<close>

definition stored :: "'n UA_NodeStore \<Rightarrow> 'n UA_Node_scheme set" where
  "stored ns = {n. Some n \<in> set (entries ns)}"

definition taken_count :: "'n UA_Node_scheme option list \<Rightarrow> nat" where
  "taken_count es = length (filter (\<lambda>e. e \<noteq> None) es)"

text \<open>Every stored node is found on the probe sequence of its own id, with no empty slot and no
  equal id in front of it.\<close>

definition reachable_slots :: "'n UA_NodeStore \<Rightarrow> bool" where
  "reachable_slots ns \<longleftrightarrow> (\<forall>p < length (entries ns). \<forall>n. entries ns ! p = Some n \<longrightarrow>
     hashable (n_nodeId n) \<and> (\<exists>k. first_stop ns (n_nodeId n) k \<and> slot (ns_size ns) (hash (n_nodeId n)) k = p))"

definition ns_inv :: "'n UA_NodeStore \<Rightarrow> bool" where
  "ns_inv ns \<longleftrightarrow> wf_table ns \<and> reachable_slots ns \<and> unat (ns_count ns) = taken_count (entries ns) \<and>
     taken_count (entries ns) < unat (ns_size ns)"

lemma reachable_slotsD:
  assumes "reachable_slots ns" "p < length (entries ns)" "entries ns ! p = Some n"
  obtains k where "hashable (n_nodeId n)" "first_stop ns (n_nodeId n) k" "slot (ns_size ns) (hash (n_nodeId n)) k = p"
  using assms by (auto simp: reachable_slots_def)

lemma first_stop_unique: "first_stop ns i k \<Longrightarrow> first_stop ns i l \<Longrightarrow> k = l"
  by (metis first_stop_def linorder_neqE_nat)

lemma first_stop_cong:
  assumes "UA_NodeId_equal a b" "hash a = hash b" shows "first_stop ns a k = first_stop ns b k"
proof -
  have "UA_NodeId_equal x a = UA_NodeId_equal x b" for x using assms(1) by (simp add: UA_NodeId_equal_norm)
  then have "stops ns a p = stops ns b p" for p by (auto simp: stops_def split: option.splits)
  then show ?thesis using assms(2) by (simp add: first_stop_def)
qed

lemma find_stored:
  assumes "wf_table ns" "reachable_slots ns" "n \<in> stored ns" "UA_NodeId_equal (n_nodeId n) nodeid" "hashable nodeid"
  shows "\<exists>p < length (entries ns). entries ns ! p = Some n \<and> containsNodeId ns nodeid = Some (True, word_of_nat p) \<and>
    unat (word_of_nat p :: hash_t) = p"
proof -
  from assms(3) obtain p where p: "p < length (entries ns)" "entries ns ! p = Some n"
    by (auto simp: stored_def in_set_conv_nth)
  with assms(2) obtain k where k: "first_stop ns (n_nodeId n) k" "slot (ns_size ns) (hash (n_nodeId n)) k = p"
    and h: "hashable (n_nodeId n)" by (auto simp: reachable_slots_def)
  have eq: "hash (n_nodeId n) = hash nodeid" using assms(4,5) h by (intro hash_equal)
  have "first_stop ns nodeid k" using k by (simp add: first_stop_cong [OF assms(4) eq])
  then have "containsNodeId ns nodeid = Some (True, word_of_nat p)"
    using containsNodeId_first [OF assms(1)] k eq p by simp
  moreover have "unat (word_of_nat p :: hash_t) = p"
    using unat_slot [of "ns_size ns"] k assms(1) by (auto simp: wf_table_def)
  ultimately show ?thesis using p by blast
qed

lemma stored_unique:
  assumes "wf_table ns" "reachable_slots ns" "a \<in> stored ns" "b \<in> stored ns" "UA_NodeId_equal (n_nodeId a) (n_nodeId b)"
  shows "a = b"
proof -
  have h: "hashable (n_nodeId b)"
    using assms(2,4) by (auto simp: reachable_slots_def stored_def in_set_conv_nth)
  show ?thesis
    using find_stored [OF assms(1,2,3,5) h] find_stored [OF assms(1,2,4) UA_NodeId_equal_refl h] by (metis option.inject prod.inject)
qed

text \<open>A node id that is not stored is reported absent, with an empty slot on its sequence.\<close>

lemma find_absent:
  assumes "wf_table ns" "None \<in> set (entries ns)" "\<forall>n \<in> stored ns. \<not> UA_NodeId_equal (n_nodeId n) nodeid"
  shows "\<exists>k. first_stop ns nodeid k \<and> slot (ns_size ns) (hash nodeid) k < length (entries ns) \<and>
    entries ns ! slot (ns_size ns) (hash nodeid) k = None \<and>
    containsNodeId ns nodeid = Some (False, word_of_nat (slot (ns_size ns) (hash nodeid) k))"
proof -
  obtain k where k: "first_stop ns nodeid k" using first_stop_exists [OF assms(1,2)] by auto
  let ?p = "slot (ns_size ns) (hash nodeid) k"
  have p: "?p < length (entries ns)" using assms(1) slot_less by (auto simp: wf_table_def)
  have "entries ns ! ?p = None"
  proof (rule ccontr)
    assume "entries ns ! ?p \<noteq> None"
    then obtain n where n: "entries ns ! ?p = Some n" by auto
    then have "n \<in> stored ns" using p by (auto simp: stored_def in_set_conv_nth)
    with assms(3) n k show False by (auto simp: first_stop_def stops_def)
  qed
  then show ?thesis using k p containsNodeId_first [OF assms(1) k] by auto
qed

lemma taken_count_less_None: "taken_count es < length es \<Longrightarrow> None \<in> set es"
proof (rule ccontr)
  assume "taken_count es < length es" "None \<notin> set es"
  moreover from this(2) have "filter (\<lambda>e. e \<noteq> None) es = es" by (intro filter_True ballI) metis
  ultimately show False by (simp only: taken_count_def less_irrefl)
qed

lemma taken_count_update:
  "p < length es \<Longrightarrow> es ! p = None \<Longrightarrow> taken_count (es[p := Some n]) = Suc (taken_count es)"
  by (induction es arbitrary: p) (auto simp: taken_count_def less_Suc_eq_0_disj)

text \<open>Filling the empty slot that \<open>containsNodeId\<close> found keeps every node reachable.\<close>

lemma fill_keeps_reachable:
  assumes wf: "wf_table ns" and inv: "reachable_slots ns" and fs: "first_stop ns (n_nodeId n) k"
    and p: "p = slot (ns_size ns) (hash (n_nodeId n)) k" and empty: "entries ns ! p = None" and h: "hashable (n_nodeId n)"
  defines "ns' \<equiv> ns\<lparr>entries := (entries ns)[p := Some n]\<rparr>"
  shows "reachable_slots ns'" "stored ns' = insert n (stored ns)" "wf_table ns'"
proof -
  have plt: "p < length (entries ns)" using wf slot_less p by (auto simp: wf_table_def)
  have sz: "ns_size ns' = ns_size ns" by (simp add: ns'_def)
  have other: "stops ns' i q = stops ns i q" if "q \<noteq> p" for i q using that by (simp add: stops_def ns'_def)
  have here: "stops ns i p" for i using empty by (simp add: stops_def)
  have "stops ns' (n_nodeId n) p" using plt by (simp add: stops_def ns'_def)
  then have new: "first_stop ns' (n_nodeId n) k"
    using fs here p unfolding first_stop_def sz by (metis other)
  have old: "first_stop ns' i l" if "first_stop ns i l" "slot (ns_size ns) (hash i) l \<noteq> p" for i l
    using that here unfolding first_stop_def sz by (metis other)
  show "wf_table ns'" using wf by (simp add: wf_table_def ns'_def)
  show "reachable_slots ns'"
    unfolding reachable_slots_def
  proof (intro allI impI)
    fix q m
    assume q: "q < length (entries ns')" "entries ns' ! q = Some m"
    show "hashable (n_nodeId m) \<and> (\<exists>k. first_stop ns' (n_nodeId m) k \<and> slot (ns_size ns') (hash (n_nodeId m)) k = q)"
    proof (cases "q = p")
      case True
      then show ?thesis using q new h p plt sz by (auto simp: ns'_def)
    next
      case False
      then have "entries ns ! q = Some m" "q < length (entries ns)" using q by (simp_all add: ns'_def)
      then obtain l where "hashable (n_nodeId m)" "first_stop ns (n_nodeId m) l" "slot (ns_size ns) (hash (n_nodeId m)) l = q"
        using inv by (auto simp: reachable_slots_def)
      then show ?thesis using old False sz by auto
    qed
  qed
  show "stored ns' = insert n (stored ns)"
    using plt empty by (auto simp: stored_def ns'_def in_set_conv_nth nth_list_update split: if_splits) (metis option.distinct(1))+
qed


section \<open>Rebuilding the table\<close>

abbreviation id_key :: "'n UA_Node_scheme \<Rightarrow> UA_NodeId" where
  "id_key n \<equiv> norm_NodeId (n_nodeId n)"

lemma in_nodes: "n \<in> set (nodes es) \<longleftrightarrow> Some n \<in> set es"
  by (induction es rule: nodes.induct) auto

lemma stored_nodes: "stored ns = set (nodes (entries ns))"
  by (auto simp: stored_def in_nodes)

lemma length_nodes: "length (nodes es) = taken_count es"
  by (induction es rule: nodes.induct) (auto simp: taken_count_def)

lemma taken_count_simps [simp]:
  "taken_count [] = 0" "taken_count (None # es) = taken_count es" "taken_count (Some n # es) = Suc (taken_count es)"
  by (simp_all add: taken_count_def)

lemma distinct_nodesI:
  "(\<And>p q a b. p < q \<Longrightarrow> q < length es \<Longrightarrow> es ! p = Some a \<Longrightarrow> es ! q = Some b \<Longrightarrow> f a \<noteq> f b) \<Longrightarrow> distinct (map f (nodes es))"
proof (induction es)
  case Nil
  show ?case by simp
next
  case (Cons e es)
  have "distinct (map f (nodes es))"
    using Cons.prems by (intro Cons.IH) (metis Suc_less_eq length_Cons nth_Cons_Suc)
  moreover have "f n \<notin> f ` set (nodes es)" if "e = Some n" for n
  proof
    assume "f n \<in> f ` set (nodes es)"
    then obtain b where b: "f n = f b" "Some b \<in> set es" by (auto simp: in_nodes)
    then obtain q where "q < length es" "es ! q = Some b" by (auto simp: in_set_conv_nth)
    then show False using Cons.prems [of 0 "Suc q" n b] that b by simp
  qed
  ultimately show ?case by (cases e) auto
qed

lemma stored_distinct:
  assumes "wf_table ns" "reachable_slots ns" shows "distinct (map id_key (nodes (entries ns)))"
proof (rule distinct_nodesI)
  fix p q a b
  assume pq: "p < q" "q < length (entries ns)" "entries ns ! p = Some a" "entries ns ! q = Some b"
  then have "p < length (entries ns)" by simp
  then obtain k where ha: "hashable (n_nodeId a)" "first_stop ns (n_nodeId a) k" "slot (ns_size ns) (hash (n_nodeId a)) k = p"
    using pq(3) by (rule reachable_slotsD [OF assms(2)])
  obtain l where hb: "hashable (n_nodeId b)" "first_stop ns (n_nodeId b) l" "slot (ns_size ns) (hash (n_nodeId b)) l = q"
    using pq(2,4) by (rule reachable_slotsD [OF assms(2)])
  show "id_key a \<noteq> id_key b"
  proof
    assume "id_key a = id_key b"
    then have eq: "UA_NodeId_equal (n_nodeId a) (n_nodeId b)" by (simp add: UA_NodeId_equal_norm)
    then have h: "hash (n_nodeId a) = hash (n_nodeId b)" using ha hb by (intro hash_equal)
    have "k = l" using first_stop_unique [OF hb(2)] ha(2) first_stop_cong [OF eq h] by metis
    then show False using ha hb h pq by simp
  qed
qed

lemma expand_loop_moves:
  assumes "wf_table ns" "reachable_slots ns" "taken_count (entries ns) + taken_count es < unat (ns_size ns)"
    "unat j + taken_count es = unat count" "\<forall>n \<in> set (nodes es). hashable (n_nodeId n)"
    "distinct (map id_key (nodes es))" "id_key ` set (nodes es) \<inter> id_key ` stored ns = {}"
  shows "\<exists>ns'. expand_loop es j count ns = Some ns' \<and> wf_table ns' \<and> reachable_slots ns' \<and>
    stored ns' = stored ns \<union> set (nodes es) \<and> taken_count (entries ns') = taken_count (entries ns) + taken_count es \<and>
    ns_size ns' = ns_size ns \<and> ns_count ns' = ns_count ns"
  using assms
proof (induction es arbitrary: j ns)
  case Nil
  then show ?case by simp
next
  case (Cons e es)
  have stop: "taken_count (e # es) = 0" "set (nodes (e # es)) = {}" if "\<not> j < count"
  proof -
    show "taken_count (e # es) = 0" using that Cons.prems(4) by (simp add: word_less_nat_alt)
    then show "set (nodes (e # es)) = {}" by (metis length_0_conv length_nodes set_empty)
  qed
  show ?case
  proof (cases "j < count \<and> e \<noteq> None")
    case False
    then consider "\<not> j < count" | "j < count" "e = None" by auto
    then show ?thesis
    proof cases
      case 1 then show ?thesis using Cons.prems stop by auto
    next
      case 2 then show ?thesis using Cons by simp
    qed
  next
    case True
    then obtain n where e: "e = Some n" and j: "j < count" by auto
    have j1: "unat (j + 1) = unat j + 1"
      by (rule unat_plus_1 [OF j])
    have free: "None \<in> set (entries ns)"
      using Cons.prems(1,3) by (intro taken_count_less_None) (simp add: wf_table_def)
    have "\<forall>m \<in> stored ns. \<not> UA_NodeId_equal (n_nodeId m) (n_nodeId n)"
      using Cons.prems(7) e by (auto simp: UA_NodeId_equal_norm) (metis imageI)
    from find_absent [OF Cons.prems(1) free this] obtain k where
      k: "first_stop ns (n_nodeId n) k" "slot (ns_size ns) (hash (n_nodeId n)) k < length (entries ns)"
        "entries ns ! slot (ns_size ns) (hash (n_nodeId n)) k = None"
        "containsNodeId ns (n_nodeId n) = Some (False, word_of_nat (slot (ns_size ns) (hash (n_nodeId n)) k))" by auto
    let ?p = "slot (ns_size ns) (hash (n_nodeId n)) k"
    let ?ns1 = "ns\<lparr>entries := (entries ns)[?p := Some n]\<rparr>"
    have hn: "hashable (n_nodeId n)" using Cons.prems(5) e by simp
    note fill = fill_keeps_reachable [OF Cons.prems(1,2) k(1) refl k(3) hn]
    have tc: "taken_count (entries ?ns1) = Suc (taken_count (entries ns))" using taken_count_update [OF k(2,3)] by simp
    have "\<exists>ns'. expand_loop es (j + 1) count ?ns1 = Some ns' \<and> wf_table ns' \<and> reachable_slots ns' \<and>
      stored ns' = stored ?ns1 \<union> set (nodes es) \<and> taken_count (entries ns') = taken_count (entries ?ns1) + taken_count es \<and>
      ns_size ns' = ns_size ?ns1 \<and> ns_count ns' = ns_count ?ns1"
      using Cons.prems(3-7) e tc j1 by (intro Cons.IH fill) (auto simp: fill(2))
    moreover have "unat (word_of_nat ?p :: hash_t) = ?p" using Cons.prems(1) by (simp add: unat_slot wf_table_def)
    ultimately show ?thesis using e j k(4) tc fill(2) by auto
  qed
qed


lemma unat_times:
  fixes a b :: UA_UInt32
  assumes "unat a * unat b < 2 ^ 32" shows "unat (a * b) = unat a * unat b"
  using assms by (simp add: unat_word_ariths)

lemma expand_rebuilds:
  assumes "\<forall>n. mem n" "unat (ns_count ns) = taken_count (entries ns)" "unat (ns_count ns) * 2 \<le> 16777213"
    and hashable: "\<forall>n \<in> stored ns. hashable (n_nodeId n)" and distinct: "distinct (map id_key (nodes (entries ns)))"
    and resize: "\<not> (ns_count ns * 2 < ns_size ns \<and> (ns_count ns * 8 > ns_size ns \<or> ns_size ns \<le> UA_NODESTORE_MINSIZE))"
  shows "\<exists>ns'. expand mem ns = Some (UA_STATUSCODE_GOOD, ns') \<and> ns_inv ns' \<and> stored ns' = stored ns \<and>
    ns_count ns' = ns_count ns \<and> unat (ns_count ns) * 2 \<le> unat (ns_size ns')"
proof -
  let ?i = "higher_prime_index (ns_count ns * 2)"
  let ?ns0 = "ns\<lparr>entries := replicate (unat (primes ! ?i)) None, ns_size := primes ! ?i, sizePrimeIndex := word_of_nat ?i\<rparr>"
  have c2: "unat (ns_count ns * 2) = unat (ns_count ns) * 2" using assms(3) by (subst unat_times) auto
  then have "ns_count ns * 2 \<le> 16777213" using assms(3) by (simp add: word_le_nat_alt)
  note idx = higher_prime_index_size [OF this]
  have len: "length primes = 30" by (simp add: primes_def)
  have size2: "unat (ns_count ns) * 2 \<le> unat (primes ! ?i)" using idx(3) c2 by (simp add: word_le_nat_alt)
  have "7 \<le> unat (primes ! ?i)" using table_sizes_prime(2) [OF idx(2)] .
  then have room: "unat (ns_count ns) < unat (primes ! ?i)" using size2 by linarith
  have none: "taken_count (replicate k None) = 0" "nodes (replicate k None) = []" for k
    by (induction k) auto
  have "\<exists>ns'. expand_loop (entries ns) 0 (ns_count ns) ?ns0 = Some ns' \<and> wf_table ns' \<and> reachable_slots ns' \<and>
    stored ns' = stored ?ns0 \<union> set (nodes (entries ns)) \<and> taken_count (entries ns') = taken_count (entries ?ns0) + taken_count (entries ns) \<and>
    ns_size ns' = ns_size ?ns0 \<and> ns_count ns' = ns_count ?ns0"
    using idx(2) room assms(2) hashable distinct
    by (intro expand_loop_moves) (auto simp: wf_table_def reachable_slots_def none stored_nodes)
  then show ?thesis
    using resize idx(1) len assms(1,2) size2 room
    by (auto simp: expand_def Let_def ns_inv_def stored_nodes none)
qed

lemma inv_hashable: "ns_inv ns \<Longrightarrow> n \<in> stored ns \<Longrightarrow> hashable (n_nodeId n)"
  by (auto simp: ns_inv_def stored_def in_set_conv_nth elim: reachable_slotsD)

lemma load_cond:
  assumes "unat (ns_size ns) \<le> 16777213" "unat (ns_count ns) * 2 \<le> 16777213"
  shows "(ns_size ns * 3 \<le> ns_count ns * 4) = (unat (ns_size ns) * 3 \<le> unat (ns_count ns) * 4)"
    and "(ns_count ns * 2 < ns_size ns) = (unat (ns_count ns) * 2 < unat (ns_size ns))"
  using assms by (auto simp: word_le_nat_alt word_less_nat_alt unat_times)

text \<open>The first statement of \<open>UA_NodeStore_insert\<close>: afterwards the table has an empty slot.\<close>

lemma insert_makes_room:
  assumes inv: "ns_inv ns" and mem: "\<forall>n. mem n" and small: "unat (ns_count ns) * 2 \<le> 16777213"
  shows "\<exists>ns1. (if ns_size ns * 3 \<le> ns_count ns * 4 then expand mem ns else Some (UA_STATUSCODE_GOOD, ns)) =
      Some (UA_STATUSCODE_GOOD, ns1) \<and> ns_inv ns1 \<and> stored ns1 = stored ns \<and> ns_count ns1 = ns_count ns \<and>
      unat (ns_count ns) + 1 < unat (ns_size ns1)"
proof -
  have sz: "ns_size ns \<in> set table_sizes" using inv by (simp add: ns_inv_def wf_table_def)
  note cond = load_cond [OF table_sizes_prime(3) [OF sz] small]
  show ?thesis
  proof (cases "ns_size ns * 3 \<le> ns_count ns * 4")
    case False
    then show ?thesis using inv cond table_sizes_prime(2) [OF sz] by auto
  next
    case True
    have "\<exists>ns'. expand mem ns = Some (UA_STATUSCODE_GOOD, ns') \<and> ns_inv ns' \<and> stored ns' = stored ns \<and>
      ns_count ns' = ns_count ns \<and> unat (ns_count ns) * 2 \<le> unat (ns_size ns')"
      using inv mem small True cond stored_distinct [of ns] inv_hashable [OF inv]
      by (intro expand_rebuilds) (auto simp: ns_inv_def)
    then obtain ns' where *: "expand mem ns = Some (UA_STATUSCODE_GOOD, ns')" "ns_inv ns'" "stored ns' = stored ns"
      "ns_count ns' = ns_count ns" "unat (ns_count ns) * 2 \<le> unat (ns_size ns')" by auto
    then have "7 \<le> unat (ns_size ns')" using table_sizes_prime(2) by (auto simp: ns_inv_def wf_table_def)
    then have "unat (ns_count ns) + 1 < unat (ns_size ns')" using *(5) by linarith
    then show ?thesis using * True by auto
  qed
qed

lemma inv_free: "ns_inv ns \<Longrightarrow> None \<in> set (entries ns)"
  by (intro taken_count_less_None) (simp add: ns_inv_def wf_table_def)

text \<open>Storing the node and counting it.\<close>

lemma fill_inv:
  assumes "ns_inv ns" "unat (ns_count ns) + 1 < unat (ns_size ns)" "hashable (n_nodeId n)" "n_nodeClass n \<noteq> UA_NODECLASS_UNSPECIFIED"
    "first_stop ns (n_nodeId n) k" "entries ns ! slot (ns_size ns) (hash (n_nodeId n)) k = None"
  shows "\<exists>ns'. fillEntry ns (word_of_nat (slot (ns_size ns) (hash (n_nodeId n)) k)) n = Some ns' \<and>
     ns_count ns' = ns_count ns \<and> ns_inv (ns'\<lparr>ns_count := ns_count ns + 1\<rparr>) \<and> stored ns' = insert n (stored ns) \<and>
     entry_at ns' (word_of_nat (slot (ns_size ns) (hash (n_nodeId n)) k)) = Some (Some n)"
proof -
  let ?p = "slot (ns_size ns) (hash (n_nodeId n)) k"
  have wf: "wf_table ns" "reachable_slots ns" using assms(1) by (simp_all add: ns_inv_def)
  have p: "?p < length (entries ns)" "unat (word_of_nat ?p :: hash_t) = ?p"
    using wf(1) slot_less unat_slot by (auto simp: wf_table_def)
  note fill = fill_keeps_reachable [OF wf assms(5) refl assms(6,3)]
  have "ns_count ns < ns_size ns" using assms(2) by (simp add: word_less_nat_alt)
  note cnt = unat_plus_1 [OF this]
  have "fillEntry ns (word_of_nat ?p) n = Some (ns\<lparr>entries := (entries ns)[?p := Some n]\<rparr>)"
    using assms(4) p by (simp add: fillEntry_def)
  moreover have "ns_inv (ns\<lparr>entries := (entries ns)[?p := Some n], ns_count := ns_count ns + 1\<rparr>)"
    using fill assms(1,2) cnt taken_count_update [OF p(1) assms(6)]
    by (simp add: ns_inv_def wf_table_def reachable_slots_def first_stop_def stops_def)
  ultimately show ?thesis using fill(2) p by (simp add: entry_at_def)
qed


section \<open>The exported functions\<close>

definition null_id :: "UA_NodeId \<Rightarrow> bool" where
  "null_id i \<longleftrightarrow> UA_NodeId_isNull (i\<lparr>namespaceIndex := 0\<rparr>)"

definition absent :: "'n UA_NodeStore \<Rightarrow> UA_NodeId \<Rightarrow> bool" where
  "absent ns i \<longleftrightarrow> (\<forall>n \<in> stored ns. \<not> UA_NodeId_equal (n_nodeId n) i)"

lemma count_update [simp]:
  "stored (ns\<lparr>ns_count := c\<rparr>) = stored ns" "entry_at (ns\<lparr>ns_count := c\<rparr>) i = entry_at ns i"
  by (simp_all add: stored_def entry_at_def)

lemma insert_fresh:
  assumes inv: "ns_inv ns" and mem: "\<forall>n. mem n" and small: "unat (ns_count ns) * 2 \<le> 16777213"
    and n: "\<not> null_id (n_nodeId n)" "hashable (n_nodeId n)" "n_nodeClass n \<noteq> UA_NODECLASS_UNSPECIFIED" "absent ns (n_nodeId n)"
  shows "\<exists>entry ns'. UA_NodeStore_insert mem ns n = Some (UA_STATUSCODE_GOOD, Some entry, ns') \<and> ns_inv ns' \<and>
    stored ns' = insert n (stored ns) \<and> ns_count ns' = ns_count ns + 1 \<and> entry_at ns' entry = Some (Some n)"
proof -
  from insert_makes_room [OF inv mem small] obtain ns1 where
    1: "(if ns_size ns * 3 \<le> ns_count ns * 4 then expand mem ns else Some (UA_STATUSCODE_GOOD, ns)) = Some (UA_STATUSCODE_GOOD, ns1)"
       "ns_inv ns1" "stored ns1 = stored ns" "ns_count ns1 = ns_count ns" "unat (ns_count ns1) + 1 < unat (ns_size ns1)" by auto
  have "None \<in> set (entries ns1)" by (rule inv_free [OF 1(2)])
  moreover have "wf_table ns1" using 1(2) by (simp add: ns_inv_def)
  ultimately have "wf_table ns1" "None \<in> set (entries ns1)" by simp_all
  from find_absent [OF this, of "n_nodeId n"] n(4) 1(3) obtain k where
    k: "first_stop ns1 (n_nodeId n) k" "entries ns1 ! slot (ns_size ns1) (hash (n_nodeId n)) k = None"
      "containsNodeId ns1 (n_nodeId n) = Some (False, word_of_nat (slot (ns_size ns1) (hash (n_nodeId n)) k))"
    by (auto simp: absent_def)
  from fill_inv [OF 1(2,5) n(2,3) k(1,2)] k(3) 1 n(1)
  show ?thesis by (auto simp: UA_NodeStore_insert_def null_id_def)
qed

lemma insert_existing:
  assumes inv: "ns_inv ns" and mem: "\<forall>n. mem n" and small: "unat (ns_count ns) * 2 \<le> 16777213"
    and n: "\<not> null_id (n_nodeId n)" "hashable (n_nodeId n)" "\<not> absent ns (n_nodeId n)"
  shows "\<exists>ns'. UA_NodeStore_insert mem ns n = Some (UA_STATUSCODE_BADNODEIDEXISTS, None, ns') \<and> ns_inv ns' \<and>
    stored ns' = stored ns \<and> ns_count ns' = ns_count ns"
proof -
  from insert_makes_room [OF inv mem small] obtain ns1 where
    1: "(if ns_size ns * 3 \<le> ns_count ns * 4 then expand mem ns else Some (UA_STATUSCODE_GOOD, ns)) = Some (UA_STATUSCODE_GOOD, ns1)"
       "ns_inv ns1" "stored ns1 = stored ns" "ns_count ns1 = ns_count ns" by auto
  from n(3) obtain m where m: "m \<in> stored ns1" "UA_NodeId_equal (n_nodeId m) (n_nodeId n)" using 1(3) by (auto simp: absent_def)
  have "wf_table ns1" "reachable_slots ns1" using 1 by (auto simp: ns_inv_def)
  from find_stored [OF this m n(2)] obtain p where "containsNodeId ns1 (n_nodeId n) = Some (True, word_of_nat p)" by auto
  then show ?thesis using 1 n(1) by (auto simp: UA_NodeStore_insert_def null_id_def)
qed

text \<open>The identifiers tried for a node without one: the probe sequence that starts at
  \<open>count + 1\<close>. More of them than there are nodes, so one is free.\<close>

lemma sint_small: "unat (w :: 32 word) < 2 ^ 31 \<Longrightarrow> sint w = int (unat w)"
  using sint_of_nat32 [of "unat w"] by simp

abbreviation numeric_id :: "UA_UInt16 \<Rightarrow> UA_UInt32 \<Rightarrow> UA_NodeId" where
  "numeric_id x i \<equiv> \<lparr>namespaceIndex = x, ident = Numeric i\<rparr>"

lemma contains_iff_stored:
  assumes "ns_inv ns" "hashable i"
  shows "\<exists>entry. containsNodeId ns i = Some (\<not> absent ns i, entry)"
proof (cases "absent ns i")
  case True
  then show ?thesis using find_absent [OF _ inv_free [OF assms(1)], of i] assms by (auto simp: ns_inv_def absent_def)
next
  case False
  then obtain m where "m \<in> stored ns" "UA_NodeId_equal (n_nodeId m) i" by (auto simp: absent_def)
  then show ?thesis using find_stored [of ns m i] assms False by (auto simp: ns_inv_def)
qed

lemma find_free_step:
  assumes "sz \<in> set table_sizes"
  shows "(let i = word_of_nat (slot sz h k) + mod2 h sz in if sint i \<ge> sint sz then i - sz else i) =
    word_of_nat (slot sz h (Suc k))"
proof -
  let ?i = "word_of_nat (slot sz h k) :: hash_t"
  have "unat ?i < unat sz" "unat (mod2 h sz) < unat sz" "unat sz \<le> 16777213"
    using unat_slot [OF assms] slot_less [OF assms] mod2_range [OF assms] table_sizes_prime [OF assms] by auto
  then have "unat (?i + mod2 h sz) < 2 ^ 31" "unat sz < 2 ^ 31"
    by (subst unat_plus_if_size, auto simp: word_size)
  then have "(sint (?i + mod2 h sz) \<ge> sint sz) = (?i + mod2 h sz \<ge> sz)"
    by (simp add: sint_small word_le_def)
  then show ?thesis using next_index_slot [OF assms, of h k] by (simp add: next_index_def Let_def)
qed

lemma find_free_first:
  assumes inv: "ns_inv ns"
    and "k \<le> K" "absent ns (numeric_id x (word_of_nat (slot (ns_size ns) h K)))"
    "\<forall>j. k \<le> j \<and> j < K \<longrightarrow> \<not> absent ns (numeric_id x (word_of_nat (slot (ns_size ns) h j)))"
  shows "\<exists>entry. find_free ns x (mod2 h (ns_size ns)) (word_of_nat (slot (ns_size ns) h k)) =
      Some (word_of_nat (slot (ns_size ns) h K), entry) \<and>
      containsNodeId ns (numeric_id x (word_of_nat (slot (ns_size ns) h K))) = Some (False, entry)"
  using assms(2-)
proof (induction "K - k" arbitrary: k)
  case 0
  then have k: "k = K" by simp
  from contains_iff_stored [OF inv, of "numeric_id x (word_of_nat (slot (ns_size ns) h K))"] 0(3)
  show ?case by (auto simp: k find_free.simps hashable_def)
next
  case (Suc d)
  have sz: "ns_size ns \<in> set table_sizes" using inv by (simp add: ns_inv_def wf_table_def)
  have "\<exists>entry. find_free ns x (mod2 h (ns_size ns)) (word_of_nat (slot (ns_size ns) h (Suc k))) =
      Some (word_of_nat (slot (ns_size ns) h K), entry) \<and>
      containsNodeId ns (numeric_id x (word_of_nat (slot (ns_size ns) h K))) = Some (False, entry)"
    using Suc by (intro Suc.hyps) auto
  moreover have "\<not> absent ns (numeric_id x (word_of_nat (slot (ns_size ns) h k)))" using Suc by auto
  moreover from this contains_iff_stored [OF inv, of "numeric_id x (word_of_nat (slot (ns_size ns) h k))"]
  obtain e where "containsNodeId ns (numeric_id x (word_of_nat (slot (ns_size ns) h k))) = Some (True, e)"
    by (auto simp: hashable_def)
  ultimately show ?case
    by (subst find_free.simps) (simp add: find_free_step [OF sz])
qed

lemma free_identifier_exists:
  assumes inv: "ns_inv ns"
  shows "\<exists>k < unat (ns_size ns). absent ns (numeric_id x (word_of_nat (slot (ns_size ns) h k)))"
proof (rule ccontr)
  let ?f = "\<lambda>k. numeric_id x (word_of_nat (slot (ns_size ns) h k))"
  assume "\<not> ?thesis"
  then have sub: "?f ` {..<unat (ns_size ns)} \<subseteq> id_key ` stored ns"
    by (fastforce simp: absent_def UA_NodeId_equal_norm norm_NodeId_def image_iff)
  have sz: "ns_size ns \<in> set table_sizes" using inv by (simp add: ns_inv_def wf_table_def)
  have "inj_on (slot (ns_size ns) h) {..<unat (ns_size ns)}"
    unfolding slot_def by (intro probe_inj table_sizes_prime mod2_range sz)
  moreover have "((word_of_nat (slot (ns_size ns) h a) :: hash_t) = word_of_nat (slot (ns_size ns) h b)) =
      (slot (ns_size ns) h a = slot (ns_size ns) h b)" for a b
    by (metis unat_slot [OF sz])
  ultimately have "inj_on ?f {..<unat (ns_size ns)}" by (auto simp: inj_on_def)
  then have "unat (ns_size ns) \<le> card (id_key ` stored ns)"
    using card_mono [OF _ sub] by (simp add: card_image stored_nodes)
  also have "\<dots> \<le> length (nodes (entries ns))"
    unfolding stored_nodes by (metis card_image_le card_length finite_set le_trans)
  finally show False using inv by (simp add: ns_inv_def length_nodes)
qed

lemma insert_null:
  assumes inv: "ns_inv ns" and mem: "\<forall>n. mem n" and small: "unat (ns_count ns) * 2 \<le> 16777213"
    and n: "null_id (n_nodeId n)" "n_nodeClass n \<noteq> UA_NODECLASS_UNSPECIFIED"
  defines "x \<equiv> if namespaceIndex (n_nodeId n) = 0 then 1 else namespaceIndex (n_nodeId n)"
  shows "\<exists>i entry ns'. UA_NodeStore_insert mem ns n = Some (UA_STATUSCODE_GOOD, Some entry, ns') \<and> ns_inv ns' \<and>
    absent ns (numeric_id x i) \<and> stored ns' = insert (n\<lparr>n_nodeId := numeric_id x i\<rparr>) (stored ns) \<and>
    entry_at ns' entry = Some (Some (n\<lparr>n_nodeId := numeric_id x i\<rparr>))"
proof -
  from insert_makes_room [OF inv mem small] obtain ns1 where
    1: "(if ns_size ns * 3 \<le> ns_count ns * 4 then expand mem ns else Some (UA_STATUSCODE_GOOD, ns)) = Some (UA_STATUSCODE_GOOD, ns1)"
       "ns_inv ns1" "stored ns1 = stored ns" "ns_count ns1 = ns_count ns" "unat (ns_count ns1) + 1 < unat (ns_size ns1)" by auto
  let ?s = "slot (ns_size ns1) (ns_count ns1 + 1)"
  have free: "None \<in> set (entries ns1)" by (rule inv_free [OF 1(2)])
  have wf: "wf_table ns1" using 1(2) by (simp add: ns_inv_def)
  have "ns_count ns1 < ns_size ns1" using 1(5) by (simp add: word_less_nat_alt)
  from unat_plus_1 [OF this] have "?s 0 = unat (ns_count ns1 + 1)" using 1(5) by (simp add: slot_0 unat_mod_hash)
  then have start: "word_of_nat (?s 0) = ns_count ns1 + 1" by simp
  let ?P = "\<lambda>k. absent ns1 (numeric_id x (word_of_nat (?s k)))"
  have "\<exists>k. ?P k" using free_identifier_exists [OF 1(2), of x "ns_count ns1 + 1"] by auto
  then obtain K where K: "?P K" "\<forall>j < K. \<not> ?P j" using exists_least_iff [of ?P] by blast
  from find_free_first [OF 1(2) le0 K(1)] K(2) obtain entry where
    e: "find_free ns1 x (mod2 (ns_count ns1 + 1) (ns_size ns1)) (ns_count ns1 + 1) = Some (word_of_nat (?s K), entry)"
      "containsNodeId ns1 (numeric_id x (word_of_nat (?s K))) = Some (False, entry)"
    unfolding start by blast
  define i where "i = (word_of_nat (?s K) :: hash_t)"
  have i: "absent ns1 (numeric_id x i)" using K(1) by (simp add: i_def)
  let ?n = "n\<lparr>n_nodeId := numeric_id x i\<rparr>"
  from find_absent [OF wf free, of "numeric_id x i"] i obtain k where
    k: "first_stop ns1 (n_nodeId ?n) k" "entries ns1 ! slot (ns_size ns1) (hash (n_nodeId ?n)) k = None"
      "entry = word_of_nat (slot (ns_size ns1) (hash (n_nodeId ?n)) k)"
    using e(2) by (auto simp: absent_def i_def)
  have "hashable (n_nodeId ?n)" "n_nodeClass ?n \<noteq> UA_NODECLASS_UNSPECIFIED" using n by (simp_all add: hashable_def)
  from fill_inv [OF 1(2,5) this k(1,2)] k(3) obtain ns2 where
    ns2: "fillEntry ns1 entry ?n = Some ns2" "ns_count ns2 = ns_count ns1" "ns_inv (ns2\<lparr>ns_count := ns_count ns1 + 1\<rparr>)"
      "stored ns2 = insert ?n (stored ns1)" "entry_at ns2 entry = Some (Some ?n)" by auto
  have "UA_NodeStore_insert mem ns n = Some (UA_STATUSCODE_GOOD, Some entry, ns2\<lparr>ns_count := ns_count ns2 + 1\<rparr>)"
    using 1(1) e(1) n(1) ns2(1) by (simp add: UA_NodeStore_insert_def null_id_def x_def i_def)
  then show ?thesis
    using ns2 i 1(3) by (intro exI [of _ i] exI [of _ entry]) (auto simp: absent_def)
qed


lemma get_stored:
  assumes inv: "ns_inv ns" and i: "hashable i"
  shows "case UA_NodeStore_get ns i of
      None \<Rightarrow> False
    | Some None \<Rightarrow> absent ns i
    | Some (Some entry) \<Rightarrow> (\<exists>n \<in> stored ns. entry_at ns entry = Some (Some n) \<and> UA_NodeId_equal (n_nodeId n) i)"
proof (cases "absent ns i")
  case True
  then show ?thesis
    using contains_iff_stored [OF assms] by (auto simp: UA_NodeStore_get_def)
next
  case False
  then obtain m where m: "m \<in> stored ns" "UA_NodeId_equal (n_nodeId m) i" by (auto simp: absent_def)
  have wf: "wf_table ns" "reachable_slots ns" using inv by (simp_all add: ns_inv_def)
  from find_stored [OF wf m i] obtain p where "p < length (entries ns)" "entries ns ! p = Some m"
    "containsNodeId ns i = Some (True, word_of_nat p)" "unat (word_of_nat p :: hash_t) = p" by auto
  then show ?thesis using m by (auto simp: UA_NodeStore_get_def entry_at_def)
qed

lemma get_found:
  assumes "ns_inv ns" "n \<in> stored ns" "UA_NodeId_equal (n_nodeId n) i" "hashable i"
  shows "\<exists>entry. UA_NodeStore_get ns i = Some (Some entry) \<and> entry_at ns entry = Some (Some n)"
proof -
  have wf: "wf_table ns" "reachable_slots ns" using assms(1) by (simp_all add: ns_inv_def)
  from find_stored [OF wf assms(2-4)] show ?thesis by (auto simp: UA_NodeStore_get_def entry_at_def)
qed

lemma taken_count_replace:
  "p < length es \<Longrightarrow> es ! p \<noteq> None \<Longrightarrow> taken_count (es[p := Some n]) = taken_count es"
  by (induction es arbitrary: p) (auto simp: taken_count_def less_Suc_eq_0_disj)

text \<open>Replacing a node in its slot: the entry stays taken, so no probe sequence changes.\<close>

lemma replace_keeps:
  assumes inv: "ns_inv ns" and old: "old \<in> stored ns" "UA_NodeId_equal (n_nodeId old) (n_nodeId n)"
    and n: "hashable (n_nodeId n)" "n_nodeClass n \<noteq> UA_NODECLASS_UNSPECIFIED"
    and e: "UA_NodeStore_get ns (n_nodeId n) = Some (Some entry)"
  shows "\<exists>ns'. UA_NodeStore_replace ns entry n = Some (UA_STATUSCODE_GOOD, Some entry, ns') \<and> ns_inv ns' \<and>
    stored ns' = insert n (stored ns - {old}) \<and> ns_count ns' = ns_count ns \<and> entry_at ns' entry = Some (Some n)"
proof -
  have wf: "wf_table ns" "reachable_slots ns" using inv by (simp_all add: ns_inv_def)
  from find_stored [OF wf old n(1)] obtain p where
    p: "p < length (entries ns)" "entries ns ! p = Some old" "containsNodeId ns (n_nodeId n) = Some (True, word_of_nat p)"
      "unat (word_of_nat p :: hash_t) = p" by auto
  have entry: "entry = word_of_nat p" using e p(3) by (simp add: UA_NodeStore_get_def)
  let ?ns = "ns\<lparr>entries := (entries ns)[p := Some n]\<rparr>"
  have keq: "UA_NodeId_equal (n_nodeId old) i = UA_NodeId_equal (n_nodeId n) i" for i
    using old(2) by (simp add: UA_NodeId_equal_norm)
  have st: "stops ?ns i q = stops ns i q" for i q
    using p keq by (cases "q = p") (simp_all add: stops_def)
  then have fs: "first_stop ?ns i k = first_stop ns i k" for i k by (simp add: first_stop_def)
  have others: "entries ns ! q \<noteq> Some old" if "q < length (entries ns)" "q \<noteq> p" for q
  proof
    assume "entries ns ! q = Some old"
    from reachable_slotsD [OF wf(2) that(1) this] obtain k where k: "first_stop ns (n_nodeId old) k" "slot (ns_size ns) (hash (n_nodeId old)) k = q" .
    from reachable_slotsD [OF wf(2) p(1,2)] obtain l where "first_stop ns (n_nodeId old) l" "slot (ns_size ns) (hash (n_nodeId old)) l = p" .
    then show False using first_stop_unique k that(2) by blast
  qed
  have "stored ?ns = insert n (stored ns - {old})"
    using p others by (auto simp: stored_def in_set_conv_nth nth_list_update split: if_splits) (metis option.inject)
  moreover have "reachable_slots ?ns"
    unfolding reachable_slots_def
  proof (intro allI impI)
    fix q m assume q: "q < length (entries ?ns)" "entries ?ns ! q = Some m"
    obtain l where l: "hashable (n_nodeId old)" "first_stop ns (n_nodeId old) l" "slot (ns_size ns) (hash (n_nodeId old)) l = p"
      using reachable_slotsD [OF wf(2) p(1,2)] .
    have h: "hash (n_nodeId old) = hash (n_nodeId n)" using old(2) l(1) n(1) by (rule hash_equal)
    show "hashable (n_nodeId m) \<and> (\<exists>k. first_stop ?ns (n_nodeId m) k \<and> slot (ns_size ?ns) (hash (n_nodeId m)) k = q)"
    proof (cases "q = p")
      case True
      then have "m = n" using q by simp
      then show ?thesis using l h n(1) True first_stop_cong [OF old(2) h, of ns] by (auto simp: fs)
    next
      case False
      then show ?thesis using q reachable_slotsD [OF wf(2), of q m] by (auto simp: fs)
    qed
  qed
  moreover have "taken_count (entries ?ns) = taken_count (entries ns)"
    using p(1,2) by (simp add: taken_count_replace)
  ultimately show ?thesis
    using p n(2) inv entry
    by (auto simp: UA_NodeStore_replace_def fillEntry_def deleteEntry_def ns_inv_def wf_table_def entry_at_def)
qed


section \<open>Removal\<close>

lemma taken_count_None:
  "p < length es \<Longrightarrow> es ! p \<noteq> None \<Longrightarrow> Suc (taken_count (es[p := None])) = taken_count es"
proof (induction es arbitrary: p)
  case (Cons e es)
  then show ?case by (cases p; cases e) auto
qed simp

lemma set_nodes_None: "set (nodes (es[p := None])) \<subseteq> set (nodes es)"
  by (auto simp: in_nodes dest: set_update_subset_insert [THEN subsetD])

lemma distinct_nodes_None: "distinct (map f (nodes es)) \<Longrightarrow> distinct (map f (nodes (es[p := None])))"
proof (induction es arbitrary: p)
  case (Cons e es)
  then show ?case using set_nodes_None [of es "p - 1"] by (cases p; cases e) auto
qed simp

lemma remove_deletes:
  assumes inv: "ns_inv ns" and n: "n \<in> stored ns" "UA_NodeId_equal (n_nodeId n) i" and i: "hashable i"
  shows "\<exists>p < length (entries ns). containsNodeId ns i = Some (True, word_of_nat p) \<and> unat (word_of_nat p :: hash_t) = p \<and>
     (let ns2 = ns\<lparr>entries := (entries ns)[p := None], ns_count := ns_count ns - 1\<rparr> in
      stored ns2 = stored ns - {n} \<and> unat (ns_count ns2) = taken_count (entries ns2) \<and> wf_table ns2 \<and>
      distinct (map id_key (nodes (entries ns2))))"
proof -
  have wf: "wf_table ns" "reachable_slots ns" using inv by (simp_all add: ns_inv_def)
  from find_stored [OF wf n i] obtain p where
    p: "p < length (entries ns)" "entries ns ! p = Some n" "containsNodeId ns i = Some (True, word_of_nat p)"
      "unat (word_of_nat p :: hash_t) = p" by auto
  have others: "entries ns ! q \<noteq> Some n" if "q < length (entries ns)" "q \<noteq> p" for q
  proof
    assume "entries ns ! q = Some n"
    from reachable_slotsD [OF wf(2) that(1) this] obtain k where "first_stop ns (n_nodeId n) k" "slot (ns_size ns) (hash (n_nodeId n)) k = q" .
    moreover from reachable_slotsD [OF wf(2) p(1,2)] obtain l where "first_stop ns (n_nodeId n) l" "slot (ns_size ns) (hash (n_nodeId n)) l = p" .
    ultimately show False using first_stop_unique that(2) by blast
  qed
  have "{m. Some m \<in> set ((entries ns)[p := None])} = stored ns - {n}"
    using p others by (auto simp: stored_def in_set_conv_nth nth_list_update split: if_splits) (metis option.inject)
  moreover have "Suc (taken_count ((entries ns)[p := None])) = unat (ns_count ns)"
    using taken_count_None [OF p(1)] p(2) inv by (simp add: ns_inv_def)
  moreover from this have "unat (ns_count ns - 1) = unat (ns_count ns) - 1"
    by (metis Suc_diff_1 nat.distinct(1) unat_1 unat_minus_one unat_0 zero_less_Suc)
  ultimately show ?thesis
    using p wf(1) distinct_nodes_None [OF stored_distinct [OF wf]]
    by (intro exI [of _ p]) (auto simp: Let_def stored_def wf_table_def)
qed

text \<open>When the table shrinks, the rebuild restores the invariant.\<close>

lemma remove_shrinks:
  assumes inv: "ns_inv ns" and mem: "\<forall>n. mem n" and n: "n \<in> stored ns" "UA_NodeId_equal (n_nodeId n) i" and i: "hashable i"
    and shrink: "unat (ns_size ns) > 64" "unat (ns_count ns - 1) * 8 < unat (ns_size ns)"
  shows "\<exists>ns'. UA_NodeStore_remove mem ns i = Some (UA_STATUSCODE_GOOD, ns') \<and> ns_inv ns' \<and> stored ns' = stored ns - {n} \<and>
     ns_count ns' = ns_count ns - 1"
proof -
  from remove_deletes [OF inv n i] obtain p where
    p: "containsNodeId ns i = Some (True, word_of_nat p)" "unat (word_of_nat p :: hash_t) = p" and
    d: "stored (ns\<lparr>entries := (entries ns)[p := None], ns_count := ns_count ns - 1\<rparr>) = stored ns - {n}"
       "unat (ns_count ns - 1) = taken_count ((entries ns)[p := None])"
       "distinct (map id_key (nodes ((entries ns)[p := None])))"
    by (auto simp: Let_def)
  let ?ns2 = "ns\<lparr>entries := (entries ns)[p := None], ns_count := ns_count ns - 1\<rparr>"
  have le: "unat (ns_size ns) \<le> 16777213" using inv table_sizes_prime(3) by (auto simp: ns_inv_def wf_table_def)
  have c8: "unat ((ns_count ns - 1) * 8) = unat (ns_count ns - 1) * 8" using shrink(2) le by (subst unat_times) auto
  have cond: "(ns_count ns - 1) * 8 < ns_size ns" "ns_size ns > 32" "ns_size ns > 64"
    using shrink c8 by (simp_all add: word_less_nat_alt)
  have "\<exists>ns'. expand mem ?ns2 = Some (UA_STATUSCODE_GOOD, ns') \<and> ns_inv ns' \<and> stored ns' = stored ?ns2 \<and>
    ns_count ns' = ns_count ?ns2 \<and> unat (ns_count ?ns2) * 2 \<le> unat (ns_size ns')"
    using d(2,3) shrink le cond inv_hashable [OF inv]
    by (intro expand_rebuilds mem) (auto simp: d(1) [simplified] UA_NODESTORE_MINSIZE_def)
  then show ?thesis
    using p cond d(1) by (auto simp: UA_NodeStore_remove_def deleteEntry_def Let_def)
qed

end
