(* ===== verification/Ua_Nodestore_Theorems.thy ===== *)
theory Ua_Nodestore_Theorems
  imports Ua_Nodestore_Laws
begin

text \<open>
  The contract of the node store towards the services, as the locale \<open>node_dictionary\<close>: a
  dictionary from node ids to nodes. The model of the hash table interprets it. Removal is not
  part of the contract: the last theorem shows that the table does not keep it.
\<close>

section \<open>The interface\<close>

definition node_of :: "'n UA_NodeStore \<Rightarrow> UA_NodeId \<Rightarrow> 'n UA_Node_scheme option" where
  "node_of ns i = (case UA_NodeStore_get ns i of
     Some (Some entry) \<Rightarrow> (case entry_at ns entry of Some e \<Rightarrow> e | None \<Rightarrow> None) | _ \<Rightarrow> None)"

definition insertable :: "'n UA_Node_scheme \<Rightarrow> bool" where
  "insertable n \<longleftrightarrow> \<not> null_id (n_nodeId n) \<and> hashable (n_nodeId n) \<and> n_nodeClass n \<noteq> UA_NODECLASS_UNSPECIFIED"

definition insert_node :: "'n UA_NodeStore \<Rightarrow> 'n UA_Node_scheme \<Rightarrow> (UA_StatusCode \<times> 'n UA_NodeStore) option" where
  "insert_node ns n = do { (r, _, ns') \<leftarrow> UA_NodeStore_insert (\<lambda>_. True) ns n; Some (r, ns') }"

text \<open>How many nodes the store can take before the table leaves the sizes of the development.\<close>

definition capacity :: "'n UA_NodeStore \<Rightarrow> nat" where
  "capacity ns = 8388607 - unat (ns_count ns)"

locale node_dictionary =
  fixes lookup :: "'s \<Rightarrow> UA_NodeId \<Rightarrow> 'v option"
    and ins :: "'s \<Rightarrow> 'v \<Rightarrow> (UA_StatusCode \<times> 's) option"
    and key :: "'v \<Rightarrow> UA_NodeId" and admissible :: "'v \<Rightarrow> bool" and room :: "'s \<Rightarrow> nat" and inv :: "'s \<Rightarrow> bool"
  assumes ins_new: "inv s \<Longrightarrow> admissible v \<Longrightarrow> 0 < room s \<Longrightarrow> lookup s (key v) = None \<Longrightarrow>
      \<exists>s'. ins s v = Some (UA_STATUSCODE_GOOD, s') \<and> inv s' \<and> room s \<le> Suc (room s') \<and>
        (\<forall>k. hashable k \<longrightarrow> lookup s' k = (if UA_NodeId_equal (key v) k then Some v else lookup s k))"
    and ins_dup: "inv s \<Longrightarrow> admissible v \<Longrightarrow> 0 < room s \<Longrightarrow> lookup s (key v) \<noteq> None \<Longrightarrow>
      \<exists>s'. ins s v = Some (UA_STATUSCODE_BADNODEIDEXISTS, s') \<and> inv s' \<and> room s \<le> Suc (room s') \<and>
        (\<forall>k. hashable k \<longrightarrow> lookup s' k = lookup s k)"
    and admissible_key: "admissible v \<Longrightarrow> hashable (key v)"
begin

fun ins_all :: "'s \<Rightarrow> 'v list \<Rightarrow> 's option" where
  "ins_all s [] = Some s"
| "ins_all s (v # vs) = do { (r, s') \<leftarrow> ins s v; if r = UA_STATUSCODE_GOOD then ins_all s' vs else None }"

text \<open>Adding a list of new nodes succeeds and finds each of them afterwards.\<close>

lemma ins_all_lookup:
  assumes "inv s" "\<forall>v \<in> set vs. admissible v \<and> lookup s (key v) = None" "length vs \<le> room s"
    "distinct (map (\<lambda>v. norm_NodeId (key v)) vs)"
  shows "\<exists>s'. ins_all s vs = Some s' \<and> inv s' \<and> (\<forall>v \<in> set vs. lookup s' (key v) = Some v) \<and>
    (\<forall>k. hashable k \<longrightarrow> (\<forall>v \<in> set vs. \<not> UA_NodeId_equal (key v) k) \<longrightarrow> lookup s' k = lookup s k)"
  using assms
proof (induction vs arbitrary: s)
  case (Cons v vs)
  from ins_new [of s v] Cons.prems obtain s1 where
    1: "ins s v = Some (UA_STATUSCODE_GOOD, s1)" "inv s1" "room s \<le> Suc (room s1)" and
    look: "\<And>k. hashable k \<Longrightarrow> lookup s1 k = (if UA_NodeId_equal (key v) k then Some v else lookup s k)"
    by auto
  have neq: "\<not> UA_NodeId_equal (key v) (key w)" if "w \<in> set vs" for w
    using that Cons.prems(4) by (force simp: UA_NodeId_equal_norm)
  have "\<forall>w \<in> set vs. admissible w \<and> lookup s1 (key w) = None"
    using Cons.prems(2) neq look admissible_key by auto
  moreover have "length vs \<le> room s1" using Cons.prems(3) 1(3) by simp
  ultimately obtain s' where
    s': "ins_all s1 vs = Some s'" "inv s'" "\<forall>w \<in> set vs. lookup s' (key w) = Some w"
      "\<forall>k. hashable k \<longrightarrow> (\<forall>w \<in> set vs. \<not> UA_NodeId_equal (key w) k) \<longrightarrow> lookup s' k = lookup s1 k"
    using Cons.IH [OF 1(2)] Cons.prems(4) by auto
  have "hashable (key v)" using Cons.prems(2) admissible_key by simp
  then have "lookup s' (key v) = Some v"
    using s'(4) look neq by (metis UA_NodeId_equal_refl UA_NodeId_equal_sym)
  then show ?case using s' 1(1) look by auto
qed simp

end

lemma node_of_stored:
  assumes "ns_inv ns" "hashable i"
  shows "node_of ns i = Some n \<longleftrightarrow> n \<in> stored ns \<and> UA_NodeId_equal (n_nodeId n) i"
proof
  assume "node_of ns i = Some n"
  then show "n \<in> stored ns \<and> UA_NodeId_equal (n_nodeId n) i"
    using get_stored [OF assms] by (auto simp: node_of_def split: option.splits)
next
  assume "n \<in> stored ns \<and> UA_NodeId_equal (n_nodeId n) i"
  then show "node_of ns i = Some n"
    using get_found [OF assms(1), of n i] assms(2) by (auto simp: node_of_def)
qed

lemma node_of_absent: "ns_inv ns \<Longrightarrow> hashable i \<Longrightarrow> node_of ns i = None \<longleftrightarrow> absent ns i"
  using node_of_stored [of ns i] by (auto simp: absent_def) (metis option.exhaust)

lemma capacity_Suc:
  assumes "0 < capacity ns" "ns_count ns' = ns_count ns + 1 \<or> ns_count ns' = ns_count ns"
  shows "capacity ns \<le> Suc (capacity ns')" "unat (ns_count ns) * 2 \<le> 16777213"
proof -
  have lt: "unat (ns_count ns) < 8388607" using assms(1) by (simp add: capacity_def)
  then have "ns_count ns < 8388607" by (simp add: word_less_nat_alt)
  from unat_plus_1 [OF this] show "capacity ns \<le> Suc (capacity ns')" using assms(2) by (auto simp: capacity_def)
  show "unat (ns_count ns) * 2 \<le> 16777213" using lt by simp
qed

interpretation nodestore: node_dictionary node_of insert_node n_nodeId insertable capacity ns_inv
proof
  fix ns :: "'n UA_NodeStore" and n :: "'n UA_Node_scheme"
  assume inv: "ns_inv ns" and n: "insertable n" and cap: "0 < capacity ns"
  have h: "hashable (n_nodeId n)" using n by (simp add: insertable_def)
  have small: "unat (ns_count ns) * 2 \<le> 16777213" using capacity_Suc(2) [OF cap, of ns] by simp
  show "\<exists>s'. insert_node ns n = Some (UA_STATUSCODE_GOOD, s') \<and> ns_inv s' \<and> capacity ns \<le> Suc (capacity s') \<and>
      (\<forall>k. hashable k \<longrightarrow> node_of s' k = (if UA_NodeId_equal (n_nodeId n) k then Some n else node_of ns k))"
    if none: "node_of ns (n_nodeId n) = None"
  proof -
    have "absent ns (n_nodeId n)" using none node_of_absent [OF inv h] by simp
    with insert_fresh [OF inv _ small, of "\<lambda>_. True" n] n obtain entry ns' where
      1: "UA_NodeStore_insert (\<lambda>_. True) ns n = Some (UA_STATUSCODE_GOOD, Some entry, ns')" "ns_inv ns'"
        "stored ns' = insert n (stored ns)" "ns_count ns' = ns_count ns + 1" by (auto simp: insertable_def)
    have "node_of ns' k = (if UA_NodeId_equal (n_nodeId n) k then Some n else node_of ns k)" if "hashable k" for k
    proof -
      have "node_of ns' k = Some m \<longleftrightarrow> (if UA_NodeId_equal (n_nodeId n) k then m = n else node_of ns k = Some m)" for m
        using node_of_stored [OF 1(2) that, of m] node_of_stored [OF inv that] 1(3)
          stored_unique [of ns' m n] 1(2) UA_NodeId_equal_norm
        by (auto simp: ns_inv_def)
      note eq = this
      show ?thesis
      proof (cases "UA_NodeId_equal (n_nodeId n) k")
        case True then show ?thesis using eq [of n] by simp
      next
        case False then show ?thesis using eq by (metis option.exhaust)
      qed
    qed
    then show ?thesis using 1 capacity_Suc(1) [OF cap, of ns'] by (auto simp: insert_node_def)
  qed
  show "\<exists>s'. insert_node ns n = Some (UA_STATUSCODE_BADNODEIDEXISTS, s') \<and> ns_inv s' \<and> capacity ns \<le> Suc (capacity s') \<and>
      (\<forall>k. hashable k \<longrightarrow> node_of s' k = node_of ns k)"
    if some: "node_of ns (n_nodeId n) \<noteq> None"
  proof -
    have "\<not> absent ns (n_nodeId n)" using some node_of_absent [OF inv h] by simp
    with insert_existing [OF inv _ small, of "\<lambda>_. True" n] n obtain ns' where
      1: "UA_NodeStore_insert (\<lambda>_. True) ns n = Some (UA_STATUSCODE_BADNODEIDEXISTS, None, ns')" "ns_inv ns'"
        "stored ns' = stored ns" "ns_count ns' = ns_count ns" by (auto simp: insertable_def)
    have "node_of ns' k = node_of ns k" if "hashable k" for k
      using node_of_stored [OF 1(2) that] node_of_stored [OF inv that] 1(3) by (metis option.exhaust)
    then show ?thesis using 1 capacity_Suc(1) [OF cap, of ns'] by (auto simp: insert_node_def)
  qed
qed (simp add: insertable_def)


section \<open>Stores built by the server\<close>

lemma new_inv:
  assumes "UA_NodeStore_new mem = Some ns" shows "ns_inv ns" "stored ns = {}" "ns_count ns = 0" "unat (ns_size ns) = 127"
proof -
  have i: "higher_prime_index UA_NODESTORE_MINSIZE = 4" by code_simp
  have none: "taken_count (replicate k None) = 0" for k by (induction k) auto
  show "ns_inv ns" "stored ns = {}" "ns_count ns = 0" "unat (ns_size ns) = 127"
    using assms
    by (auto simp: UA_NodeStore_new_def i primes_def ns_inv_def wf_table_def reachable_slots_def none stored_def
        split: if_splits)
qed

text \<open>Any sequence of insertions and replacements, with whatever results.\<close>

inductive built :: "'n UA_NodeStore \<Rightarrow> bool" where
  new: "UA_NodeStore_new mem = Some ns \<Longrightarrow> built ns"
| insert: "built ns \<Longrightarrow> 0 < capacity ns \<Longrightarrow> hashable (n_nodeId n) \<Longrightarrow> n_nodeClass n \<noteq> UA_NODECLASS_UNSPECIFIED \<Longrightarrow>
    UA_NodeStore_insert (\<lambda>_. True) ns n = Some (r, e, ns') \<Longrightarrow> built ns'"
| replace: "built ns \<Longrightarrow> hashable (n_nodeId n) \<Longrightarrow> n_nodeClass n \<noteq> UA_NODECLASS_UNSPECIFIED \<Longrightarrow>
    UA_NodeStore_replace ns oldNode n = Some (r, e, ns') \<Longrightarrow> built ns'"

lemma insert_inv:
  assumes inv: "ns_inv ns" and cap: "0 < capacity ns" and n: "hashable (n_nodeId n)" "n_nodeClass n \<noteq> UA_NODECLASS_UNSPECIFIED"
    and res: "UA_NodeStore_insert (\<lambda>_. True) ns n = Some (r, e, ns')"
  shows "ns_inv ns'"
proof -
  have small: "unat (ns_count ns) * 2 \<le> 16777213" using capacity_Suc(2) [OF cap, of ns] by simp
  consider "null_id (n_nodeId n)" | "\<not> null_id (n_nodeId n)" "absent ns (n_nodeId n)" | "\<not> null_id (n_nodeId n)" "\<not> absent ns (n_nodeId n)"
    by auto
  then show ?thesis
  proof cases
    case 1 then show ?thesis using insert_null [OF inv _ small 1 n(2), of "\<lambda>_. True"] res by auto
  next
    case 2 then show ?thesis using insert_fresh [OF inv _ small 2(1) n 2(2), of "\<lambda>_. True"] res by auto
  next
    case 3 then show ?thesis using insert_existing [OF inv _ small 3(1) n(1) 3(2), of "\<lambda>_. True"] res by auto
  qed
qed

lemma replace_inv:
  assumes inv: "ns_inv ns" and n: "hashable (n_nodeId n)" "n_nodeClass n \<noteq> UA_NODECLASS_UNSPECIFIED"
    and res: "UA_NodeStore_replace ns oldNode n = Some (r, e, ns')"
  shows "ns_inv ns'"
proof (cases "UA_NodeStore_get ns (n_nodeId n) = Some (Some oldNode)")
  case True
  from get_stored [OF inv n(1)] True obtain old where "old \<in> stored ns" "UA_NodeId_equal (n_nodeId old) (n_nodeId n)" by auto
  from replace_keeps [OF inv this n True] res show ?thesis by auto
next
  case False
  then show ?thesis using inv res
    by (auto simp: UA_NodeStore_replace_def UA_NodeStore_get_def bind_eq_Some_conv split: if_splits)
qed

lemma built_inv: "built ns \<Longrightarrow> ns_inv ns"
  by (induction rule: built.induct) (auto intro: new_inv insert_inv replace_inv)


abbreviation plain_node :: "UA_NodeId \<Rightarrow> UA_Node" where
  "plain_node i \<equiv> \<lparr>n_nodeId = i, n_nodeClass = UA_NODECLASS_OBJECT, n_browseName = \<lparr>qn_namespaceIndex = 0, qn_name = Null_ptr\<rparr>,
     n_displayName = \<lparr>locale_text = Null_ptr, text_text = Null_ptr\<rparr>, n_description = \<lparr>locale_text = Null_ptr, text_text = Null_ptr\<rparr>,
     n_writeMask = 0, n_userWriteMask = 0, n_references = []\<rparr>"

definition empty_store :: "'n UA_NodeStore" where
  "empty_store = \<lparr>entries = replicate 127 None, ns_size = 127, ns_count = 0, sizePrimeIndex = 4\<rparr>"

lemma empty_store_new: "UA_NodeStore_new (\<lambda>_. True) = Some empty_store"
proof -
  have "higher_prime_index UA_NODESTORE_MINSIZE = 4" by code_simp
  then show ?thesis by (simp add: UA_NodeStore_new_def primes_def empty_store_def)
qed

definition one_store :: "unit UA_NodeStore" where
  "one_store = empty_store\<lparr>entries := (replicate 127 None)[47 := Some (plain_node (UA_NODEID_NUMERIC 1 7))], ns_count := 1\<rparr>"

lemma one_store_insert:
  "UA_NodeStore_insert (\<lambda>_. True) empty_store (plain_node (UA_NODEID_NUMERIC 1 7)) = Some (UA_STATUSCODE_GOOD, Some 47, one_store)"
  by code_simp


lemma built_empty: "built empty_store"
  by (rule built.new [OF empty_store_new])

lemma built_one: "built one_store"
  by (rule built.insert [OF built_empty _ _ _ one_store_insert]) (simp_all add: capacity_def empty_store_def hashable_def UA_NODEID_NUMERIC_def)




text \<open>
  C7: a node whose identifier is the numeric null is given an unused identifier in its own
  namespace (namespace 1 for namespace 0): the search terminates because it visits more
  identifiers than there are nodes.
\<close>

theorem insert_assigns_fresh_id:
  assumes "ns_inv ns" "0 < capacity ns" "n_nodeClass n \<noteq> UA_NODECLASS_UNSPECIFIED" "ident (n_nodeId n) = Numeric 0"
  shows "\<exists>i entry ns'. UA_NodeStore_insert (\<lambda>_. True) ns n = Some (UA_STATUSCODE_GOOD, Some entry, ns') \<and> ns_inv ns' \<and>
    (let x = (if namespaceIndex (n_nodeId n) = 0 then 1 else namespaceIndex (n_nodeId n));
         n' = n\<lparr>n_nodeId := \<lparr>namespaceIndex = x, ident = Numeric i\<rparr>\<rparr> in
      absent ns (n_nodeId n') \<and> stored ns' = insert n' (stored ns) \<and> entry_at ns' entry = Some (Some n'))"
proof -
  have "unat (ns_count ns) * 2 \<le> 16777213" using capacity_Suc(2) [OF assms(2), of ns] by simp
  moreover have "null_id (n_nodeId n)" using assms(4) by (simp add: null_id_def UA_NodeId_isNull_def)
  ultimately show ?thesis using insert_null [OF assms(1), of "\<lambda>_. True" n] assms(3) by (simp add: Let_def)
qed

theorem insert_assigns_fresh_id_witness:
  "\<exists>i entry ns'. UA_NodeStore_insert (\<lambda>_. True) one_store (plain_node UA_NODEID_NULL) = Some (UA_STATUSCODE_GOOD, Some entry, ns') \<and>
    absent one_store \<lparr>namespaceIndex = 1, ident = Numeric i\<rparr>"
  using insert_assigns_fresh_id [OF built_inv [OF built_one], of "plain_node UA_NODEID_NULL"]
  by (auto simp: capacity_def one_store_def empty_store_def UA_NODEID_NULL_def Let_def)

text \<open>
  Replacing the node the caller obtained under its id puts the new node in its place and
  changes nothing else; with a stale pointer or an unknown id the store is left unchanged and
  BadInternalError or BadNodeIdUnknown is returned.
\<close>

theorem replace_semantics:
  assumes "ns_inv ns" "hashable (n_nodeId n)" "n_nodeClass n \<noteq> UA_NODECLASS_UNSPECIFIED"
  shows "case UA_NodeStore_get ns (n_nodeId n) of
      Some None \<Rightarrow> UA_NodeStore_replace ns oldNode n = Some (UA_STATUSCODE_BADNODEIDUNKNOWN, None, ns)
    | Some (Some entry) \<Rightarrow>
        if entry \<noteq> oldNode then UA_NodeStore_replace ns oldNode n = Some (UA_STATUSCODE_BADINTERNALERROR, None, ns)
        else (\<exists>old ns'. node_of ns (n_nodeId n) = Some old \<and>
          UA_NodeStore_replace ns oldNode n = Some (UA_STATUSCODE_GOOD, Some oldNode, ns') \<and> ns_inv ns' \<and>
          stored ns' = insert n (stored ns - {old}) \<and> ns_count ns' = ns_count ns)
    | None \<Rightarrow> False"
proof (cases "UA_NodeStore_get ns (n_nodeId n)")
  case None
  then show ?thesis using get_stored [OF assms(1,2)] by simp
next
  case (Some g)
  show ?thesis
  proof (cases g)
    case None
    then show ?thesis using Some by (auto simp: UA_NodeStore_replace_def UA_NodeStore_get_def bind_eq_Some_conv split: if_splits)
  next
    case (Some entry)
    then have g: "UA_NodeStore_get ns (n_nodeId n) = Some (Some entry)" using \<open>UA_NodeStore_get ns (n_nodeId n) = Some g\<close> by simp
    from get_stored [OF assms(1,2)] g obtain old where old: "old \<in> stored ns" "UA_NodeId_equal (n_nodeId old) (n_nodeId n)" by auto
    then have "node_of ns (n_nodeId n) = Some old" using node_of_stored [OF assms(1,2)] by simp
    with replace_keeps [OF assms(1) old assms(2,3) g] g show ?thesis
      by (auto simp: UA_NodeStore_replace_def UA_NodeStore_get_def bind_eq_Some_conv split: if_splits)
  qed
qed

theorem replace_semantics_witness:
  "\<exists>ns'. UA_NodeStore_replace one_store 47 ((plain_node (UA_NODEID_NUMERIC 1 7))\<lparr>n_writeMask := 1\<rparr>) =
     Some (UA_STATUSCODE_GOOD, Some 47, ns') \<and> ns_inv ns'"
proof -
  have "UA_NodeStore_get one_store (UA_NODEID_NUMERIC 1 7) = Some (Some 47)" by code_simp
  then show ?thesis
    using replace_semantics [OF built_inv [OF built_one], of "(plain_node (UA_NODEID_NUMERIC 1 7))\<lparr>n_writeMask := 1\<rparr>" 47]
    by (auto simp: hashable_def UA_NODEID_NUMERIC_def)
qed


text \<open>
  C8: removing a stored node when the table then shrinks (more than 64 slots, at most an eighth
  of them taken): the rebuild leaves a store that satisfies the invariant and holds exactly the
  other nodes.
\<close>

theorem remove_with_rebuild:
  assumes "ns_inv ns" "n \<in> stored ns" "UA_NodeId_equal (n_nodeId n) i" "hashable i"
    "unat (ns_size ns) > 64" "unat (ns_count ns - 1) * 8 < unat (ns_size ns)"
  shows "\<exists>ns'. UA_NodeStore_remove (\<lambda>_. True) ns i = Some (UA_STATUSCODE_GOOD, ns') \<and> ns_inv ns' \<and>
    stored ns' = stored ns - {n} \<and> ns_count ns' = ns_count ns - 1"
  using remove_shrinks [OF assms(1) _ assms(2-6)] by simp

theorem remove_with_rebuild_witness:
  "\<exists>ns'. UA_NodeStore_remove (\<lambda>_. True) one_store (UA_NODEID_NUMERIC 1 7) = Some (UA_STATUSCODE_GOOD, ns') \<and> ns_inv ns' \<and> stored ns' = {}"
proof -
  have "stored one_store = {plain_node (UA_NODEID_NUMERIC 1 7)}" by (simp add: stored_nodes) code_simp
  moreover have "unat (ns_size one_store) = 127" "ns_count one_store = 1" by (simp_all add: one_store_def empty_store_def)
  ultimately show ?thesis
    using remove_with_rebuild [OF built_inv [OF built_one], of "plain_node (UA_NODEID_NUMERIC 1 7)" "UA_NODEID_NUMERIC 1 7"]
    by (auto simp: hashable_def UA_NODEID_NUMERIC_def)
qed


text \<open>
  String identifiers that are the NULL pointer and defined empty strings compare equal but
  hash differently: a node stored under one is not found under the other.
\<close>

theorem null_string_id_not_found:
  "let a = \<lparr>namespaceIndex = 2, ident = StringId Null_ptr\<rparr>; b = \<lparr>namespaceIndex = 2, ident = StringId Empty_sentinel\<rparr> in
   UA_NodeId_equal a b \<and>
   do { ns0 \<leftarrow> UA_NodeStore_new (\<lambda>_. True);
        (r, _, ns1) \<leftarrow> UA_NodeStore_insert (\<lambda>_. True) ns0 (plain_node a);
        g \<leftarrow> UA_NodeStore_get ns1 b; Some (r, g) } = Some (UA_STATUSCODE_GOOD, None)"
  by code_simp

end
