(* ===== verification/Ua_Connection.thy ===== *)
theory Ua_Connection
  imports Ua_Encoding_Laws
begin

text \<open>
  Connections (\<^verbatim>\<open>src/ua_connection.c\<close>): the configuration of a connection, the reassembly
  of messages from the segments the network delivers, and what an arbitrary segmentation of a
  stream of messages yields.

  Releasing a received buffer is an operation of the network layer; like the TCP layer of the
  repository it leaves an empty byte string behind. Allocation is the parameter \<open>mem\<close>.
\<close>

section \<open>State\<close>

datatype UA_ConnectionState = UA_CONNECTION_OPENING | UA_CONNECTION_ESTABLISHED | UA_CONNECTION_CLOSED

record UA_ConnectionConfig =
  protocolVersion :: UA_UInt32
  sendBufferSize :: UA_UInt32
  recvBufferSize :: UA_UInt32
  maxMessageSize :: UA_UInt32
  maxChunkCount :: UA_UInt32

definition UA_ConnectionConfig_standard :: UA_ConnectionConfig where
  "UA_ConnectionConfig_standard = \<lparr>protocolVersion = 0, sendBufferSize = 65536, recvBufferSize = 65536,
     maxMessageSize = 65536, maxChunkCount = 1\<rparr>"

text \<open>The attached secure channel is a pointer: the address of the channel or NULL.\<close>

record UA_Connection =
  c_state :: UA_ConnectionState
  localConf :: UA_ConnectionConfig
  remoteConf :: UA_ConnectionConfig
  c_channel :: "nat option"
  sockfd :: UA_Int32
  incompleteMessage :: UA_ByteString

definition UA_Connection_init :: UA_Connection where
  "UA_Connection_init = \<lparr>c_state = UA_CONNECTION_CLOSED, localConf = UA_ConnectionConfig_standard,
     remoteConf = UA_ConnectionConfig_standard, c_channel = None, sockfd = 0, incompleteMessage = Null_ptr\<rparr>"

definition UA_Connection_deleteMembers :: "UA_Connection \<Rightarrow> UA_Connection" where
  "UA_Connection_deleteMembers c = c\<lparr>incompleteMessage := Null_ptr\<rparr>"

section \<open>Completing messages\<close>

text \<open>MSG, OPN, HEL, ACK, CLO as the three bytes stand in the buffer.\<close>

definition known_type :: "UA_Byte \<Rightarrow> UA_Byte \<Rightarrow> UA_Byte \<Rightarrow> bool" where
  "known_type a b c \<longleftrightarrow> (a, b, c) \<in> {(77, 83, 71), (79, 80, 78), (72, 69, 76), (65, 67, 75), (67, 76, 79)}"

text \<open>
  The loop over the buffer: the position after the last complete message, and the position of
  garbage, if any.
\<close>

function scan_messages :: "UA_Byte list \<Rightarrow> UA_UInt32 \<Rightarrow> nat \<Rightarrow> nat \<times> nat option" where
  "scan_messages cur maxsize pos =
     (if length cur < pos + 16 then (pos, None)
      else if \<not> known_type (cur ! pos) (cur ! (pos + 1)) (cur ! (pos + 2)) then (pos, Some pos)
      else case Int32_decodeBinary (cur, pos + 4) of
        None \<Rightarrow> (pos, Some pos)
      | Some (retval, len, _) \<Rightarrow>
          if retval \<noteq> UA_STATUSCODE_GOOD \<or> sint len < 16 \<or> sint len > sint maxsize then (pos, Some pos)
          else if nat (sint len) + pos > length cur then (pos, None)
          else scan_messages cur maxsize (pos + nat (sint len)))"
  by pat_completeness auto
termination
  by (relation "measure (\<lambda>(cur, maxsize, pos). length cur - pos)") auto

declare scan_messages.simps [simp del]

definition UA_Connection_completeMessages ::
  "(nat \<Rightarrow> bool) \<Rightarrow> UA_Connection \<Rightarrow> UA_ByteString \<Rightarrow> UA_StatusCode \<times> UA_Connection \<times> UA_ByteString \<times> bool" where
  "UA_Connection_completeMessages mem connection message =
     (let joined = alen (incompleteMessage connection) > 0;
          current = (if joined then content (incompleteMessage connection) @ content message else content message)
      in
      if joined \<and> \<not> mem (length current)
      then (UA_STATUSCODE_BADOUTOFMEMORY, connection\<lparr>incompleteMessage := Null_ptr\<rparr>, Null_ptr, False)
      else
        let connection = (if joined then connection\<lparr>incompleteMessage := Block current\<rparr> else connection);
            message = (if joined then Null_ptr else message);
            (pos, garbage) = scan_messages current (maxMessageSize (localConf connection)) 0;
            delete_at = (case garbage of Some p \<Rightarrow> p | None \<Rightarrow> if length current = 0 then 2 ^ 64 - 1 else length current - 1)
        in
        if delete_at = 0 then
          (if \<not> joined then (UA_STATUSCODE_GOOD, connection, Null_ptr, True)
           else (UA_STATUSCODE_GOOD, connection\<lparr>incompleteMessage := Null_ptr\<rparr>, message, True))
        else if pos = 0 then
          (if \<not> joined
           then (UA_STATUSCODE_GOOD, connection\<lparr>incompleteMessage := snd (UA_String_copy mem message)\<rparr>, Null_ptr, True)
           else (UA_STATUSCODE_GOOD, connection, message, True))
        else if length current \<noteq> pos then
          (if \<not> mem (length current - pos)
           then (UA_STATUSCODE_BADOUTOFMEMORY, connection\<lparr>incompleteMessage := Null_ptr\<rparr>, Null_ptr, True)
           else (UA_STATUSCODE_GOOD, connection\<lparr>incompleteMessage := Block (drop pos current)\<rparr>, Block (take pos current), joined))
        else if joined
        then (UA_STATUSCODE_GOOD, connection\<lparr>incompleteMessage := UA_BYTESTRING_NULL\<rparr>, Block current, True)
        else (UA_STATUSCODE_GOOD, connection, message, False))"

section \<open>Messages and incomplete messages\<close>

definition declared_size :: "UA_Byte list \<Rightarrow> int" where
  "declared_size m = sint (le_word (take 4 (drop 4 m)) :: UA_Int32)"

definition valid_header :: "UA_UInt32 \<Rightarrow> UA_Byte list \<Rightarrow> bool" where
  "valid_header maxsize m \<longleftrightarrow> 16 \<le> length m \<and> known_type (m ! 0) (m ! 1) (m ! 2) \<and>
     16 \<le> declared_size m \<and> declared_size m \<le> sint maxsize"

definition is_message :: "UA_UInt32 \<Rightarrow> UA_Byte list \<Rightarrow> bool" where
  "is_message maxsize m \<longleftrightarrow> valid_header maxsize m \<and> declared_size m = int (length m)"

definition incomplete :: "UA_UInt32 \<Rightarrow> UA_Byte list \<Rightarrow> bool" where
  "incomplete maxsize q \<longleftrightarrow> length q < 16 \<or> valid_header maxsize q \<and> int (length q) < declared_size q"

lemma scan_step:
  "16 \<le> length q \<Longrightarrow> scan_messages (pre @ q) maxsize (length pre) =
     (if \<not> known_type (q ! 0) (q ! 1) (q ! 2) \<or> declared_size q < 16 \<or> declared_size q > sint maxsize
      then (length pre, Some (length pre))
      else if declared_size q > int (length q) then (length pre, None)
      else scan_messages (pre @ q) maxsize (length pre + nat (declared_size q)))"
  by (subst scan_messages.simps)
    (auto simp: Int32_decodeBinary_def UInt32_decodeBinary_def nth_append declared_size_def nat_less_iff)

lemma header_append:
  assumes "16 \<le> length m"
  shows "declared_size (m @ r) = declared_size m" "i < 3 \<Longrightarrow> (m @ r) ! i = m ! i"
  using assms by (auto simp: declared_size_def nth_append)

lemma scan_stream:
  assumes "\<forall>m \<in> set ms. is_message maxsize m" "incomplete maxsize q"
  shows "scan_messages (pre @ concat ms @ q) maxsize (length pre) = (length pre + length (concat ms), None)"
  using assms
proof (induction ms arbitrary: pre)
  case Nil
  show ?case
  proof (cases "length q < 16")
    case True then show ?thesis by (subst scan_messages.simps) simp
  next
    case False
    then show ?thesis using Nil(2) scan_step [of q pre maxsize] by (simp add: incomplete_def valid_header_def)
  qed
next
  case (Cons m ms)
  have m: "valid_header maxsize m" "declared_size m = int (length m)" "16 \<le> length m"
    using Cons.prems(1) by (auto simp: is_message_def valid_header_def)
  have "scan_messages (pre @ concat (m # ms) @ q) maxsize (length pre) =
      scan_messages ((pre @ m) @ concat ms @ q) maxsize (length (pre @ m))"
    using scan_step [of "m @ concat ms @ q" pre maxsize] m
    by (simp add: valid_header_def header_append [OF m(3)])
  also have "\<dots> = (length (pre @ m) + length (concat ms), None)" using Cons by (intro Cons.IH) auto
  finally show ?case by simp
qed


lemma incomplete_Nil [simp]: "incomplete maxsize []"
  by (simp add: incomplete_def)

lemma take_incomplete:
  assumes "is_message maxsize m" "k < length m" shows "incomplete maxsize (take k m)"
proof (cases "k < 16")
  case False
  then have "declared_size (take k m) = declared_size m" "\<forall>i < 3. take k m ! i = m ! i"
    using assms by (auto simp: declared_size_def is_message_def valid_header_def drop_take min_def)
  then show ?thesis using assms False
    by (auto simp: incomplete_def is_message_def valid_header_def)
qed (use assms in \<open>simp add: incomplete_def\<close>)

text \<open>Every prefix of a stream of messages is a list of messages and an incomplete rest.\<close>

lemma stream_prefix:
  assumes "\<forall>m \<in> set ms. is_message maxsize m" "x @ y = concat ms"
  shows "\<exists>ms1 ms2 q. ms = ms1 @ ms2 \<and> x = concat ms1 @ q \<and> incomplete maxsize q \<and> q @ y = concat ms2"
  using assms
proof (induction ms arbitrary: x)
  case Nil
  then show ?case by simp
next
  case (Cons m ms)
  show ?case
  proof (cases "length x < length m")
    case True
    have "x = take (length x) m" using Cons.prems(2) True
      by (metis append_eq_append_conv_if append_eq_conv_conj concat.simps(2) less_imp_le_nat take_append)
    then have "incomplete maxsize x" using Cons.prems(1) True take_incomplete [of maxsize m "length x"] by simp
    then show ?thesis using Cons.prems(2) by (intro exI [of _ "[]"] exI [of _ "m # ms"] exI [of _ x]) simp
  next
    case False
    then obtain x' where x: "x = m @ x'" "x' @ y = concat ms"
      using Cons.prems(2) by (auto simp: append_eq_append_conv2)
    with Cons.IH [OF _ x(2)] Cons.prems(1) obtain ms1 ms2 q where
      "ms = ms1 @ ms2" "x' = concat ms1 @ q" "incomplete maxsize q" "q @ y = concat ms2" by auto
    then show ?thesis using x by (intro exI [of _ "m # ms1"] exI [of _ ms2] exI [of _ q]) simp
  qed
qed

lemma String_copy_granted:
  "\<forall>n. mem n \<Longrightarrow> length xs \<le> MAX_ARRAY_SIZE \<Longrightarrow> content (snd (UA_String_copy mem (Block xs))) = xs"
  by (simp add: UA_String_copy_def UA_Array_copy_def)

lemma complete_frames:
  assumes mem: "\<forall>n. mem n" and all: "\<forall>m \<in> set ms. is_message (maxMessageSize (localConf c)) m"
    and q: "incomplete (maxMessageSize (localConf c)) q"
    and stream: "content (incompleteMessage c) @ seg = concat ms @ q"
    and len: "length (concat ms @ q) \<noteq> 1" "length seg \<le> MAX_ARRAY_SIZE"
  shows "\<exists>c' out re. UA_Connection_completeMessages mem c (Block seg) = (UA_STATUSCODE_GOOD, c', out, re) \<and>
    content out = concat ms \<and> content (incompleteMessage c') = q \<and> localConf c' = localConf c"
proof -
  define good where "good = concat ms"
  have memT: "mem = (\<lambda>_. True)" using mem by auto
  have scan: "scan_messages (good @ q) (maxMessageSize (localConf c)) 0 = (length good, None)"
    using scan_stream [OF all q, of "[]"] by (simp add: good_def)
  have st: "content (incompleteMessage c) @ seg = good @ q" using stream by (simp add: good_def)
  have n1: "length (good @ q) \<noteq> Suc 0" using len(1) by (simp add: good_def)
  have del: "(case None of Some p \<Rightarrow> p | None \<Rightarrow> if n = 0 then 2 ^ 64 - 1 else n - 1) \<noteq> (0 :: nat)" if "n \<noteq> Suc 0" for n
    using that by (cases n) auto
  have neq: "length (good @ q) = length good \<longleftrightarrow> q = []" by simp
  show ?thesis
  proof (cases "alen (incompleteMessage c) > 0")
    case True
    then show ?thesis
      using scan st del [OF n1]
      by (cases "good = []"; cases "q = []")
        (auto simp add: UA_Connection_completeMessages_def Let_def memT good_def [symmetric] UA_BYTESTRING_NULL_def neq simp del: length_append)
  next
    case False
    then have "seg = good @ q" using st by simp
    then show ?thesis
      using scan False del [OF n1] String_copy_granted [OF mem, of seg] len(2)
      by (cases "good = []"; cases "q = []")
        (auto simp add: UA_Connection_completeMessages_def Let_def memT good_def [symmetric] neq simp del: length_append)
  qed
qed

section \<open>Segmentation\<close>

text \<open>The receive loop of the network layer: what the server is handed for each segment.\<close>

fun receive_all :: "(nat \<Rightarrow> bool) \<Rightarrow> UA_Connection \<Rightarrow> UA_Byte list list \<Rightarrow> UA_Byte list list \<times> UA_Connection" where
  "receive_all mem c [] = ([], c)"
| "receive_all mem c (seg # segs) =
     (case UA_Connection_completeMessages mem c (Block seg) of (_, c', out, _) \<Rightarrow>
        let (outs, c'') = receive_all mem c' segs in (content out # outs, c''))"

lemma receive_all_stream:
  assumes mem: "\<forall>n. mem n"
    and "\<forall>m \<in> set ms. is_message (maxMessageSize (localConf c)) m"
    "content (incompleteMessage c) @ concat segs = concat ms"
    "\<forall>seg \<in> set segs. 2 \<le> length seg \<and> length seg \<le> MAX_ARRAY_SIZE"
    "incomplete (maxMessageSize (localConf c)) (content (incompleteMessage c))"
  shows "\<exists>outs c'. receive_all mem c segs = (outs, c') \<and> concat outs = concat ms \<and> alen (incompleteMessage c') = 0"
  using assms(2-)
proof (induction segs arbitrary: c ms)
  case Nil
  have "ms = []"
  proof (cases ms)
    case (Cons m ms')
    then have m: "valid_header (maxMessageSize (localConf c)) m" "declared_size m = int (length m)" "16 \<le> length m"
      using Nil.prems(1) by (auto simp: is_message_def valid_header_def)
    have "content (incompleteMessage c) = m @ concat ms'" using Nil.prems(2) Cons by simp
    then show ?thesis using Nil.prems(4) m by (auto simp: incomplete_def header_append [OF m(3)])
  qed
  then show ?case using Nil by simp
next
  case (Cons seg segs)
  have st: "(content (incompleteMessage c) @ seg) @ concat segs = concat ms" using Cons.prems(2) by simp
  from stream_prefix [OF Cons.prems(1) st] obtain ms1 ms2 q where
    ms: "ms = ms1 @ ms2" and pre: "content (incompleteMessage c) @ seg = concat ms1 @ q"
    and q: "incomplete (maxMessageSize (localConf c)) q" "q @ concat segs = concat ms2" by auto
  have seg: "2 \<le> length seg" "length seg \<le> MAX_ARRAY_SIZE" using Cons.prems(3) by simp_all
  have len: "length (concat ms1 @ q) \<noteq> 1" using seg(1) by (simp add: pre [symmetric] del: length_append) simp
  have all1: "\<forall>m \<in> set ms1. is_message (maxMessageSize (localConf c)) m" using Cons.prems(1) ms by simp
  from complete_frames [OF mem all1 q(1) pre len seg(2)] obtain c' out re where
    c': "UA_Connection_completeMessages mem c (Block seg) = (UA_STATUSCODE_GOOD, c', out, re)"
      "content out = concat ms1" "content (incompleteMessage c') = q" "localConf c' = localConf c" by auto
  from Cons.IH [of ms2 c'] Cons.prems ms q c' obtain outs c'' where
    "receive_all mem c' segs = (outs, c'')" "concat outs = concat ms2" "alen (incompleteMessage c'') = 0" by auto
  then show ?case using c' ms by simp
qed


abbreviation hello16 :: "UA_Byte list" where
  "hello16 \<equiv> [72, 69, 76, 70, 16, 0, 0, 0, 0, 0, 0, 0, 0, 0, 0, 0]"

lemma hello16_message: "is_message (maxMessageSize UA_ConnectionConfig_standard) hello16"
  by (simp add: is_message_def valid_header_def known_type_def declared_size_def UA_ConnectionConfig_standard_def)


text \<open>
  A first segment of a single byte is thrown away: the marker for garbage is initialised to
  the last position of the buffer, which is position 0 here. The message is lost, because its
  remaining bytes are no longer recognised.
\<close>

theorem single_byte_dropped:
  assumes "alen (incompleteMessage c) = 0"
  shows "UA_Connection_completeMessages mem c (Block [b]) = (UA_STATUSCODE_GOOD, c, Null_ptr, True)"
  using assms
  by (simp add: UA_Connection_completeMessages_def Let_def scan_messages.simps [of "[b]"])

theorem single_byte_dropped_witness:
  "UA_Connection_completeMessages (\<lambda>_. True) UA_Connection_init (Block [72]) = (UA_STATUSCODE_GOOD, UA_Connection_init, Null_ptr, True)"
  using single_byte_dropped [of UA_Connection_init "\<lambda>_. True" 72] by (simp add: UA_Connection_init_def)

text \<open>
  Garbage behind a complete message is not thrown away as the comment in the source says, but
  kept as if it were the beginning of a message; the next call finds it in front of the new
  segment and discards both, so that the following, well-formed message is lost.
\<close>

theorem garbage_swallows_next_message:
  "let (r1, c1, out1, _) = UA_Connection_completeMessages (\<lambda>_. True) UA_Connection_init (Block (hello16 @ [1, 2, 3]));
       (r2, c2, out2, _) = UA_Connection_completeMessages (\<lambda>_. True) c1 (Block hello16)
   in r1 = UA_STATUSCODE_GOOD \<and> content out1 = hello16 \<and> content (incompleteMessage c1) = [1, 2, 3] \<and>
      r2 = UA_STATUSCODE_GOOD \<and> out2 = Null_ptr \<and> alen (incompleteMessage c2) = 0"
  by (simp add: UA_Connection_completeMessages_def UA_Connection_init_def UA_ConnectionConfig_standard_def Let_def
      scan_messages.simps known_type_def Int32_decodeBinary_def UInt32_decodeBinary_def)

end
