(* ===== verification/Ua_Channels.thy ===== *)
theory Ua_Channels
  imports Complex_Main Ua_Connection
begin

text \<open>
  Secure channels and sessions: \<^verbatim>\<open>src/ua_securechannel.c\<close>, \<^verbatim>\<open>src/ua_session.c\<close>, the two
  managers and the attach/detach functions of \<^verbatim>\<open>src/ua_connection.c\<close>, in the single-threaded
  build.

  Connections, channels and sessions point at each other, so the state is a heap: three stores
  from addresses to objects, where a freed object is \<open>None\<close>. An operation that follows a
  pointer to a freed object is a fault, its result is \<open>None\<close>. The managers hold the
  addresses of their channels and sessions in list order.

  \<open>UA_DateTime_now()\<close>, the random guid and the outcome of allocations are arguments. Security
  headers, application descriptions and subscriptions are left out of the objects.
\<close>

section \<open>Objects\<close>

record UA_ChannelSecurityToken =
  channelId :: UA_UInt32
  tokenId :: UA_UInt32
  createdAt :: UA_DateTime
  revisedLifetime :: UA_UInt32

definition UA_ChannelSecurityToken_init :: UA_ChannelSecurityToken where
  "UA_ChannelSecurityToken_init = \<lparr>channelId = 0, tokenId = 0, createdAt = 0, revisedLifetime = 0\<rparr>"

record UA_SecureChannel =
  securityToken :: UA_ChannelSecurityToken
  nextSecurityToken :: UA_ChannelSecurityToken
  clientNonce :: UA_ByteString
  serverNonce :: UA_ByteString
  sequenceNumber :: UA_UInt32
  sc_connection :: "nat option"
  sc_sessions :: "nat list"

definition UA_SecureChannel_init :: UA_SecureChannel where
  "UA_SecureChannel_init = \<lparr>securityToken = UA_ChannelSecurityToken_init, nextSecurityToken = UA_ChannelSecurityToken_init,
     clientNonce = Null_ptr, serverNonce = Null_ptr, sequenceNumber = 0, sc_connection = None, sc_sessions = []\<rparr>"

definition MAXCONTINUATIONPOINTS :: UA_UInt16 where "MAXCONTINUATIONPOINTS = 5"

record UA_Session =
  activated :: bool
  sessionName :: UA_String
  authenticationToken :: UA_NodeId
  sessionId :: UA_NodeId
  maxRequestMessageSize :: UA_UInt32
  maxResponseMessageSize :: UA_UInt32
  timeout :: UA_Int64
  validTill :: UA_DateTime
  s_channel :: "nat option"
  availableContinuationPoints :: UA_UInt16

definition UA_Session_init :: UA_Session where
  "UA_Session_init = \<lparr>activated = False, sessionName = Null_ptr, authenticationToken = UA_NODEID_NULL,
     sessionId = UA_NODEID_NULL, maxRequestMessageSize = 0, maxResponseMessageSize = 0, timeout = 0, validTill = 0,
     s_channel = None, availableContinuationPoints = MAXCONTINUATIONPOINTS\<rparr>"

text \<open>The timeout is in milliseconds, a date in units of 100 nanoseconds.\<close>

definition UA_Session_updateLifetime :: "UA_DateTime \<Rightarrow> UA_Session \<Rightarrow> UA_Session" where
  "UA_Session_updateLifetime now session = session\<lparr>validTill := now + timeout session * 10000\<rparr>"

record UA_SecureChannelManager =
  channels :: "nat list"
  maxChannelCount :: nat
  currentChannelCount :: nat
  maxChannelLifetime :: UA_DateTime
  lastChannelId :: UA_Int32
  lastTokenId :: UA_UInt32

definition UA_SecureChannelManager_init :: "nat \<Rightarrow> UA_UInt32 \<Rightarrow> UA_UInt32 \<Rightarrow> UA_UInt32 \<Rightarrow> UA_SecureChannelManager" where
  "UA_SecureChannelManager_init maxCount tokenLifetime startChannelId startTokenId =
     \<lparr>channels = [], maxChannelCount = maxCount, currentChannelCount = 0, maxChannelLifetime = ucast tokenLifetime,
      lastChannelId = startChannelId, lastTokenId = startTokenId\<rparr>"

record UA_SessionManager =
  sessions :: "nat list"
  maxSessionCount :: UA_UInt32
  lastSessionId :: UA_Int32
  currentSessionCount :: UA_UInt32
  maxSessionLifeTime :: UA_DateTime

definition UA_SessionManager_init :: "UA_UInt32 \<Rightarrow> UA_UInt32 \<Rightarrow> UA_UInt32 \<Rightarrow> UA_SessionManager" where
  "UA_SessionManager_init maxCount maxLifeTime startSessionId =
     \<lparr>sessions = [], maxSessionCount = maxCount, lastSessionId = startSessionId, currentSessionCount = 0,
      maxSessionLifeTime = ucast maxLifeTime\<rparr>"

record comm =
  conns :: "nat \<Rightarrow> UA_Connection option"
  chans :: "nat \<Rightarrow> UA_SecureChannel option"
  sess :: "nat \<Rightarrow> UA_Session option"
  secureChannelManager :: UA_SecureChannelManager
  sessionManager :: UA_SessionManager

abbreviation put_conn :: "nat \<Rightarrow> UA_Connection \<Rightarrow> comm \<Rightarrow> comm" where
  "put_conn k c st \<equiv> st\<lparr>conns := (conns st)(k := Some c)\<rparr>"

abbreviation put_chan :: "nat \<Rightarrow> UA_SecureChannel \<Rightarrow> comm \<Rightarrow> comm" where
  "put_chan a ch st \<equiv> st\<lparr>chans := (chans st)(a := Some ch)\<rparr>"

abbreviation put_sess :: "nat \<Rightarrow> UA_Session \<Rightarrow> comm \<Rightarrow> comm" where
  "put_sess s se st \<equiv> st\<lparr>sess := (sess st)(s := Some se)\<rparr>"

section \<open>Connections and channels\<close>

definition UA_Connection_detachSecureChannel :: "comm \<Rightarrow> nat \<Rightarrow> comm option" where
  "UA_Connection_detachSecureChannel st k = do {
     c \<leftarrow> conns st k;
     st1 \<leftarrow> (case c_channel c of
               None \<Rightarrow> Some st
             | Some a \<Rightarrow> do { ch \<leftarrow> chans st a; Some (put_chan a (ch\<lparr>sc_connection := None\<rparr>) st) });
     Some (put_conn k (c\<lparr>c_channel := None\<rparr>) st1) }"

definition UA_Connection_attachSecureChannel :: "comm \<Rightarrow> nat \<Rightarrow> nat \<Rightarrow> comm option" where
  "UA_Connection_attachSecureChannel st k a = do {
     ch \<leftarrow> chans st a;
     if sc_connection ch \<noteq> None then Some st
     else do {
       c \<leftarrow> conns st k;
       Some (put_conn k (c\<lparr>c_channel := Some a\<rparr>) (put_chan a (ch\<lparr>sc_connection := Some k\<rparr>) st)) } }"

text \<open>The close callback of the network layer marks the connection.\<close>

definition connection_close :: "comm \<Rightarrow> nat \<Rightarrow> comm option" where
  "connection_close st k = do { c \<leftarrow> conns st k; Some (put_conn k (c\<lparr>c_state := UA_CONNECTION_CLOSED\<rparr>) st) }"

section \<open>Channels and sessions\<close>

text \<open>The loop over the sessions of a channel that is deleted.\<close>

fun clear_session_pointers :: "nat list \<Rightarrow> comm \<Rightarrow> comm option" where
  "clear_session_pointers [] st = Some st"
| "clear_session_pointers (s # ss) st = do {
     se \<leftarrow> sess st s;
     clear_session_pointers ss (put_sess s (se\<lparr>s_channel := None\<rparr>) st) }"

definition UA_SecureChannel_deleteMembersCleanup :: "comm \<Rightarrow> nat \<Rightarrow> comm option" where
  "UA_SecureChannel_deleteMembersCleanup st a = do {
     ch \<leftarrow> chans st a;
     let st0 = put_chan a (ch\<lparr>serverNonce := Null_ptr, clientNonce := Null_ptr\<rparr>) st;
     st1 \<leftarrow> (case sc_connection ch of
               None \<Rightarrow> Some st0
             | Some k \<Rightarrow> do { st' \<leftarrow> UA_Connection_detachSecureChannel st0 k; connection_close st' k });
     st2 \<leftarrow> clear_session_pointers (sc_sessions ch) st1;
     ch2 \<leftarrow> chans st2 a;
     Some (put_chan a (ch2\<lparr>sc_sessions := []\<rparr>) st2) }"

definition UA_SecureChannel_generateNonce :: "(nat \<Rightarrow> bool) \<Rightarrow> UA_StatusCode \<times> UA_ByteString" where
  "UA_SecureChannel_generateNonce mem =
     (if \<not> mem 1 then (UA_STATUSCODE_BADOUTOFMEMORY, Null_ptr) else (UA_STATUSCODE_GOOD, Block [97]))"

definition UA_SecureChannel_attachSession :: "bool \<Rightarrow> comm \<Rightarrow> nat \<Rightarrow> nat \<Rightarrow> comm option" where
  "UA_SecureChannel_attachSession granted st a s =
     (if \<not> granted then Some st
      else do {
        se \<leftarrow> sess st s;
        if s_channel se \<noteq> None then Some st
        else do {
          ch \<leftarrow> chans st a;
          Some (put_chan a (ch\<lparr>sc_sessions := s # sc_sessions ch\<rparr>) (put_sess s (se\<lparr>s_channel := Some a\<rparr>) st)) } })"

definition UA_SecureChannel_detachSession :: "comm \<Rightarrow> nat \<Rightarrow> nat \<Rightarrow> comm option" where
  "UA_SecureChannel_detachSession st a s = do {
     se \<leftarrow> sess st s;
     ch \<leftarrow> chans st a;
     Some (put_chan a (ch\<lparr>sc_sessions := remove1 s (sc_sessions ch)\<rparr>) (put_sess s (se\<lparr>s_channel := None\<rparr>) st)) }"

text \<open>The first session of a list with the token; the lists are searched from the head.\<close>

fun find_token :: "comm \<Rightarrow> nat list \<Rightarrow> UA_NodeId \<Rightarrow> nat option option" where
  "find_token st [] token = Some None"
| "find_token st (s # ss) token = do {
     se \<leftarrow> sess st s;
     if UA_NodeId_equal (authenticationToken se) token then Some (Some s) else find_token st ss token }"

definition UA_SecureChannel_getSession :: "comm \<Rightarrow> nat \<Rightarrow> UA_NodeId \<Rightarrow> nat option option" where
  "UA_SecureChannel_getSession st a token = do { ch \<leftarrow> chans st a; find_token st (sc_sessions ch) token }"

definition UA_SecureChannel_revolveTokens :: "UA_SecureChannel \<Rightarrow> UA_SecureChannel" where
  "UA_SecureChannel_revolveTokens channel =
     (if tokenId (nextSecurityToken channel) = 0 then channel
      else channel\<lparr>securityToken := nextSecurityToken channel, nextSecurityToken := UA_ChannelSecurityToken_init\<rparr>)"

definition UA_Session_deleteMembersCleanup :: "comm \<Rightarrow> nat \<Rightarrow> comm option" where
  "UA_Session_deleteMembersCleanup st s = do {
     se \<leftarrow> sess st s;
     let se1 = se\<lparr>authenticationToken := NodeId_deleteMembers (authenticationToken se),
                  sessionId := NodeId_deleteMembers (sessionId se), sessionName := Null_ptr\<rparr>;
     let st1 = put_sess s se1 st;
     (case s_channel se1 of None \<Rightarrow> Some st1 | Some a \<Rightarrow> UA_SecureChannel_detachSession st1 a s) }"

section \<open>The session manager\<close>

text \<open>\<open>LIST_REMOVE\<close>, clean-up and \<open>UA_free\<close> of a session entry.\<close>

definition free_session :: "comm \<Rightarrow> nat \<Rightarrow> comm option" where
  "free_session st s = do {
     st1 \<leftarrow> UA_Session_deleteMembersCleanup
       (st\<lparr>sessionManager := (sessionManager st)\<lparr>sessions := remove1 s (sessions (sessionManager st))\<rparr>\<rparr>) s;
     Some (st1\<lparr>sess := (sess st1)(s := None)\<rparr>) }"

definition decrement_sessions :: "comm \<Rightarrow> comm" where
  "decrement_sessions st =
     st\<lparr>sessionManager := (sessionManager st)\<lparr>currentSessionCount := currentSessionCount (sessionManager st) - 1\<rparr>\<rparr>"

fun cleanup_sessions :: "nat list \<Rightarrow> UA_DateTime \<Rightarrow> comm \<Rightarrow> comm option" where
  "cleanup_sessions [] now st = Some st"
| "cleanup_sessions (s # ss) now st = do {
     se \<leftarrow> sess st s;
     if sint (validTill se) < sint now
     then do { st1 \<leftarrow> free_session st s; cleanup_sessions ss now (decrement_sessions st1) }
     else cleanup_sessions ss now st }"

definition UA_SessionManager_cleanupTimedOut :: "UA_DateTime \<Rightarrow> comm \<Rightarrow> comm option" where
  "UA_SessionManager_cleanupTimedOut now st = cleanup_sessions (sessions (sessionManager st)) now st"

fun free_sessions :: "nat list \<Rightarrow> comm \<Rightarrow> comm option" where
  "free_sessions [] st = Some st"
| "free_sessions (s # ss) st = do { st1 \<leftarrow> free_session st s; free_sessions ss st1 }"

definition UA_SessionManager_deleteMembers :: "comm \<Rightarrow> comm option" where
  "UA_SessionManager_deleteMembers st = free_sessions (sessions (sessionManager st)) st"

definition UA_SessionManager_getSession :: "UA_DateTime \<Rightarrow> comm \<Rightarrow> UA_NodeId \<Rightarrow> nat option option" where
  "UA_SessionManager_getSession now st token = do {
     r \<leftarrow> find_token st (sessions (sessionManager st)) token;
     (case r of
        None \<Rightarrow> Some None
      | Some s \<Rightarrow> do { se \<leftarrow> sess st s; Some (if sint now > sint (validTill se) then None else Some s) }) }"

text \<open>
  The requested timeout is a double in milliseconds: a rational number, or \<open>None\<close> for the
  values that are not finite, for which both comparisons lead to the default.
\<close>

definition session_timeout :: "UA_DateTime \<Rightarrow> rat option \<Rightarrow> UA_Int64" where
  "session_timeout maxLifeTime requested = (case requested of
     None \<Rightarrow> maxLifeTime
   | Some r \<Rightarrow> if r \<le> of_int (sint maxLifeTime) \<and> r > 0 then word_of_int \<lfloor>r\<rfloor> else maxLifeTime)"

text \<open>The new object is allocated at the address \<open>new\<close>.\<close>

definition UA_SessionManager_createSession ::
  "bool \<Rightarrow> nat \<Rightarrow> UA_Guid \<Rightarrow> UA_DateTime \<Rightarrow> rat option \<Rightarrow> comm \<Rightarrow> UA_StatusCode \<times> nat option \<times> comm" where
  "UA_SessionManager_createSession granted new guid now requestedSessionTimeout st =
     (let m = sessionManager st in
      if currentSessionCount m \<ge> maxSessionCount m then (UA_STATUSCODE_BADTOOMANYSESSIONS, None, st)
      else if \<not> granted then (UA_STATUSCODE_BADOUTOFMEMORY, None, st)
      else
        let se = UA_Session_updateLifetime now
              (UA_Session_init\<lparr>sessionId := UA_NODEID_NUMERIC 1 (lastSessionId m), authenticationToken := UA_NODEID_GUID 1 guid,
                 timeout := session_timeout (maxSessionLifeTime m) requestedSessionTimeout\<rparr>)
        in (UA_STATUSCODE_GOOD, Some new,
            (put_sess new se st)\<lparr>sessionManager := m\<lparr>currentSessionCount := currentSessionCount m + 1,
              lastSessionId := lastSessionId m + 1, sessions := new # sessions m\<rparr>\<rparr>))"

definition UA_SessionManager_removeSession :: "comm \<Rightarrow> UA_NodeId \<Rightarrow> (UA_StatusCode \<times> comm) option" where
  "UA_SessionManager_removeSession st token = do {
     r \<leftarrow> find_token st (sessions (sessionManager st)) token;
     (case r of
        None \<Rightarrow> Some (UA_STATUSCODE_BADSESSIONIDINVALID, st)
      | Some s \<Rightarrow> do { st1 \<leftarrow> free_session st s; Some (UA_STATUSCODE_GOOD, decrement_sessions st1) }) }"

section \<open>The channel manager\<close>

definition free_channel :: "comm \<Rightarrow> nat \<Rightarrow> comm option" where
  "free_channel st a = do {
     st1 \<leftarrow> UA_SecureChannel_deleteMembersCleanup
       (st\<lparr>secureChannelManager := (secureChannelManager st)\<lparr>channels := remove1 a (channels (secureChannelManager st))\<rparr>\<rparr>) a;
     Some (st1\<lparr>chans := (chans st1)(a := None)\<rparr>) }"

definition decrement_channels :: "comm \<Rightarrow> comm" where
  "decrement_channels st =
     st\<lparr>secureChannelManager := (secureChannelManager st)\<lparr>currentChannelCount := currentChannelCount (secureChannelManager st) - 1\<rparr>\<rparr>"

fun free_channels :: "nat list \<Rightarrow> comm \<Rightarrow> comm option" where
  "free_channels [] st = Some st"
| "free_channels (a # as) st = do { st1 \<leftarrow> free_channel st a; free_channels as st1 }"

definition UA_SecureChannelManager_deleteMembers :: "comm \<Rightarrow> comm option" where
  "UA_SecureChannelManager_deleteMembers st = free_channels (channels (secureChannelManager st)) st"

definition token_timeout :: "UA_ChannelSecurityToken \<Rightarrow> UA_DateTime" where
  "token_timeout t = createdAt t + ucast (revisedLifetime t) * 10000"

fun cleanup_channels :: "nat list \<Rightarrow> UA_DateTime \<Rightarrow> comm \<Rightarrow> comm option" where
  "cleanup_channels [] now st = Some st"
| "cleanup_channels (a # as) now st = do {
     ch \<leftarrow> chans st a;
     if sint (token_timeout (securityToken ch)) < sint now \<or> sc_connection ch = None
     then do { st1 \<leftarrow> free_channel st a; cleanup_channels as now (decrement_channels st1) }
     else if tokenId (nextSecurityToken ch) > 0
     then cleanup_channels as now (put_chan a (UA_SecureChannel_revolveTokens ch) st)
     else cleanup_channels as now st }"

definition UA_SecureChannelManager_cleanupTimedOut :: "UA_DateTime \<Rightarrow> comm \<Rightarrow> comm option" where
  "UA_SecureChannelManager_cleanupTimedOut now st = cleanup_channels (channels (secureChannelManager st)) now st"

datatype UA_MessageSecurityMode = UA_MESSAGESECURITYMODE_INVALID | UA_MESSAGESECURITYMODE_NONE
  | UA_MESSAGESECURITYMODE_SIGN | UA_MESSAGESECURITYMODE_SIGNANDENCRYPT

datatype UA_SecurityTokenRequestType = UA_SECURITYTOKENREQUESTTYPE_ISSUE | UA_SECURITYTOKENREQUESTTYPE_RENEW

record UA_OpenSecureChannelRequest =
  requestType :: UA_SecurityTokenRequestType
  securityMode :: UA_MessageSecurityMode
  requestedLifetime :: UA_UInt32
  r_clientNonce :: UA_ByteString

text \<open>The members of the response the manager sets.\<close>

record UA_OpenSecureChannelResponse =
  r_serverNonce :: UA_ByteString
  r_securityToken :: UA_ChannelSecurityToken

definition UA_OpenSecureChannelResponse_init :: UA_OpenSecureChannelResponse where
  "UA_OpenSecureChannelResponse_init = \<lparr>r_serverNonce = Null_ptr, r_securityToken = UA_ChannelSecurityToken_init\<rparr>"

text \<open>The lifetime is cut to the maximum; 0 stands for the maximum.\<close>

definition revise_lifetime :: "UA_DateTime \<Rightarrow> UA_UInt32 \<Rightarrow> UA_UInt32" where
  "revise_lifetime maxLifetime requested =
     (let l = (if int (unat requested) > sint maxLifetime then ucast maxLifetime else requested)
      in if l = 0 then ucast maxLifetime else l)"

definition UA_SecureChannelManager_open ::
  "(nat \<Rightarrow> bool) \<Rightarrow> bool \<Rightarrow> nat \<Rightarrow> UA_DateTime \<Rightarrow> comm \<Rightarrow> nat \<Rightarrow> UA_OpenSecureChannelRequest \<Rightarrow>
   (UA_StatusCode \<times> UA_OpenSecureChannelResponse \<times> comm) option" where
  "UA_SecureChannelManager_open mem granted new now st k request =
     (let m = secureChannelManager st; p0 = UA_OpenSecureChannelResponse_init in
      if securityMode request \<noteq> UA_MESSAGESECURITYMODE_NONE then Some (UA_STATUSCODE_BADSECURITYMODEREJECTED, p0, st)
      else if currentChannelCount m \<ge> maxChannelCount m then Some (UA_STATUSCODE_BADOUTOFMEMORY, p0, st)
      else if \<not> granted then Some (UA_STATUSCODE_BADOUTOFMEMORY, p0, st)
      else
        let token = \<lparr>channelId = lastChannelId m, tokenId = lastTokenId m, createdAt = now,
                     revisedLifetime = revise_lifetime (maxChannelLifetime m) (requestedLifetime request)\<rparr>;
            nonce = snd (UA_SecureChannel_generateNonce mem);
            ch = UA_SecureChannel_init\<lparr>securityToken := token, clientNonce := snd (UA_String_copy mem (r_clientNonce request)),
                   serverNonce := nonce\<rparr>;
            m' = m\<lparr>currentChannelCount := currentChannelCount m + 1, lastChannelId := lastChannelId m + 1,
                   lastTokenId := lastTokenId m + 1\<rparr>
        in do {
          st1 \<leftarrow> UA_Connection_attachSecureChannel ((put_chan new ch st)\<lparr>secureChannelManager := m'\<rparr>) k new;
          Some (UA_STATUSCODE_GOOD, \<lparr>r_serverNonce = snd (UA_String_copy mem nonce), r_securityToken = token\<rparr>,
            st1\<lparr>secureChannelManager := (secureChannelManager st1)\<lparr>channels := new # channels (secureChannelManager st1)\<rparr>\<rparr>) })"

definition UA_SecureChannelManager_renew ::
  "(nat \<Rightarrow> bool) \<Rightarrow> UA_DateTime \<Rightarrow> comm \<Rightarrow> nat \<Rightarrow> UA_OpenSecureChannelRequest \<Rightarrow>
   (UA_StatusCode \<times> UA_OpenSecureChannelResponse \<times> comm) option" where
  "UA_SecureChannelManager_renew mem now st k request = do {
     c \<leftarrow> conns st k;
     (case c_channel c of
        None \<Rightarrow> Some (UA_STATUSCODE_BADINTERNALERROR, UA_OpenSecureChannelResponse_init, st)
      | Some a \<Rightarrow> do {
          ch \<leftarrow> chans st a;
          let m = secureChannelManager st;
          let issue = (tokenId (nextSecurityToken ch) = 0);
          let next = (if issue
                then \<lparr>channelId = channelId (securityToken ch), tokenId = lastTokenId m, createdAt = now,
                      revisedLifetime = revise_lifetime (maxChannelLifetime m) (requestedLifetime request)\<rparr>
                else nextSecurityToken ch);
          let ch1 = ch\<lparr>nextSecurityToken := next, clientNonce := snd (UA_String_copy mem (r_clientNonce request))\<rparr>;
          Some (UA_STATUSCODE_GOOD, \<lparr>r_serverNonce = snd (UA_String_copy mem (serverNonce ch)), r_securityToken = next\<rparr>,
            (put_chan a ch1 st)\<lparr>secureChannelManager := (if issue then m\<lparr>lastTokenId := lastTokenId m + 1\<rparr> else m)\<rparr>) }) }"

fun find_channel :: "comm \<Rightarrow> nat list \<Rightarrow> UA_UInt32 \<Rightarrow> nat option option" where
  "find_channel st [] i = Some None"
| "find_channel st (a # as) i = do {
     ch \<leftarrow> chans st a;
     if channelId (securityToken ch) = i then Some (Some a) else find_channel st as i }"

definition UA_SecureChannelManager_get :: "comm \<Rightarrow> UA_UInt32 \<Rightarrow> nat option option" where
  "UA_SecureChannelManager_get st i = find_channel st (channels (secureChannelManager st)) i"

definition UA_SecureChannelManager_close :: "comm \<Rightarrow> UA_UInt32 \<Rightarrow> (UA_StatusCode \<times> comm) option" where
  "UA_SecureChannelManager_close st i = do {
     r \<leftarrow> find_channel st (channels (secureChannelManager st)) i;
     (case r of
        None \<Rightarrow> Some (UA_STATUSCODE_BADINTERNALERROR, st)
      | Some a \<Rightarrow> do { st1 \<leftarrow> free_channel st a; Some (UA_STATUSCODE_GOOD, decrement_channels st1) }) }"

section \<open>The services\<close>

definition Service_OpenSecureChannel ::
  "(nat \<Rightarrow> bool) \<Rightarrow> bool \<Rightarrow> nat \<Rightarrow> UA_DateTime \<Rightarrow> comm \<Rightarrow> nat \<Rightarrow> UA_OpenSecureChannelRequest \<Rightarrow>
   (UA_StatusCode \<times> UA_OpenSecureChannelResponse \<times> comm) option" where
  "Service_OpenSecureChannel mem granted new now st k request =
     (if requestType request = UA_SECURITYTOKENREQUESTTYPE_ISSUE
      then UA_SecureChannelManager_open mem granted new now st k request
      else UA_SecureChannelManager_renew mem now st k request)"

definition Service_CloseSecureChannel :: "comm \<Rightarrow> UA_UInt32 \<Rightarrow> comm option" where
  "Service_CloseSecureChannel st i = do { (_, st1) \<leftarrow> UA_SecureChannelManager_close st i; Some st1 }"

text \<open>
  What the services use of the server: the outcome of the deep copy of the endpoint array, the
  server certificate of the first endpoint (if there is one) and the login configuration.
\<close>

record server_config =
  endpointsCopy :: UA_StatusCode
  serverCertificate :: "UA_ByteString option"
  Login_enableAnonymous :: bool
  Login_enableUsernamePassword :: bool
  Login_logins :: "(UA_Byte list \<times> UA_Byte list) list"

record UA_CreateSessionRequest =
  cs_sessionName :: UA_String
  cs_requestedSessionTimeout :: "rat option"
  cs_maxResponseMessageSize :: UA_UInt32

text \<open>\<open>a\<close> is the channel of the session the request came in on.\<close>

definition Service_CreateSession ::
  "server_config \<Rightarrow> (nat \<Rightarrow> bool) \<Rightarrow> bool \<Rightarrow> nat \<Rightarrow> UA_Guid \<Rightarrow> UA_DateTime \<Rightarrow> comm \<Rightarrow> nat \<Rightarrow> UA_CreateSessionRequest \<Rightarrow>
   (UA_StatusCode \<times> nat option \<times> comm) option" where
  "Service_CreateSession cfg mem granted new guid now st a request = do {
     ch \<leftarrow> chans st a;
     if channelId (securityToken ch) = 0 then Some (UA_STATUSCODE_BADSECURECHANNELIDINVALID, None, st)
     else if endpointsCopy cfg \<noteq> UA_STATUSCODE_GOOD then Some (endpointsCopy cfg, None, st)
     else case UA_SessionManager_createSession granted new guid now (cs_requestedSessionTimeout request) st of
       (r, None, st1) \<Rightarrow> Some (r, None, st1)
     | (r, Some s, st1) \<Rightarrow>
         if r \<noteq> UA_STATUSCODE_GOOD then Some (r, None, st1)
         else do {
           se \<leftarrow> sess st1 s;
           let (r2, name) = UA_String_copy mem (cs_sessionName request);
           let r3 = (case serverCertificate cfg of None \<Rightarrow> r2 | Some cert \<Rightarrow> r2 OR fst (UA_String_copy mem cert));
           let st2 = put_sess s (se\<lparr>maxResponseMessageSize := cs_maxResponseMessageSize request, sessionName := name\<rparr>) st1;
           if r3 \<noteq> UA_STATUSCODE_GOOD
           then do { (_, st3) \<leftarrow> UA_SessionManager_removeSession st2 (authenticationToken se); Some (r3, None, st3) }
           else Some (r3, Some s, st2) } }"

text \<open>
  The user identity token of the request: still encoded, one of the two supported types, or
  another decoded type.
\<close>

datatype identity_token =
    EncodedToken
  | AnonymousIdentityToken UA_String
  | UserNameIdentityToken UA_String UA_String UA_ByteString UA_String
  | OtherToken

definition ANONYMOUS_POLICY :: "UA_Byte list" where
  "ANONYMOUS_POLICY = map (\<lambda>c. word_of_nat (of_char c)) ''open62541-anonymous-policy''"

definition USERNAME_POLICY :: "UA_Byte list" where
  "USERNAME_POLICY = map (\<lambda>c. word_of_nat (of_char c)) ''open62541-username-policy''"

text \<open>The tail of both login branches: attach the session to the channel of the request.\<close>

definition activate_on_channel :: "bool \<Rightarrow> UA_DateTime \<Rightarrow> comm \<Rightarrow> nat \<Rightarrow> nat \<Rightarrow> comm option" where
  "activate_on_channel granted now st a s = do {
     se \<leftarrow> sess st s;
     st1 \<leftarrow> (case s_channel se of
               None \<Rightarrow> Some st
             | Some b \<Rightarrow> if b \<noteq> a then UA_SecureChannel_detachSession st b s else Some st);
     st2 \<leftarrow> UA_SecureChannel_attachSession granted st1 a s;
     se2 \<leftarrow> sess st2 s;
     Some (put_sess s (UA_Session_updateLifetime now (se2\<lparr>activated := True\<rparr>)) st2) }"

definition Service_ActivateSession ::
  "server_config \<Rightarrow> bool \<Rightarrow> UA_DateTime \<Rightarrow> comm \<Rightarrow> nat \<Rightarrow> UA_NodeId \<Rightarrow> identity_token \<Rightarrow> (UA_StatusCode \<times> comm) option" where
  "Service_ActivateSession cfg granted now st a authToken userToken = do {
     found \<leftarrow> UA_SessionManager_getSession now st authToken;
     (case found of
        None \<Rightarrow> Some (UA_STATUSCODE_BADSESSIONIDINVALID, st)
      | Some s \<Rightarrow> do {
          se \<leftarrow> sess st s;
          if sint (validTill se) < sint now then Some (UA_STATUSCODE_BADSESSIONIDINVALID, st)
          else case userToken of
            EncodedToken \<Rightarrow> Some (UA_STATUSCODE_BADINTERNALERROR, st)
          | OtherToken \<Rightarrow> Some (UA_STATUSCODE_BADINTERNALERROR, st)
          | AnonymousIdentityToken policyId \<Rightarrow>
              if \<not> Login_enableAnonymous cfg then Some (UA_STATUSCODE_BADIDENTITYTOKENINVALID, st)
              else if policyId \<noteq> Null_ptr \<and> \<not> UA_String_equal policyId (Block ANONYMOUS_POLICY)
              then Some (UA_STATUSCODE_BADIDENTITYTOKENINVALID, st)
              else do { st1 \<leftarrow> activate_on_channel granted now st a s; Some (UA_STATUSCODE_GOOD, st1) }
          | UserNameIdentityToken policyId userName password encryptionAlgorithm \<Rightarrow>
              if \<not> Login_enableUsernamePassword cfg then Some (UA_STATUSCODE_BADIDENTITYTOKENINVALID, st)
              else if \<not> UA_String_equal policyId (Block USERNAME_POLICY) then Some (UA_STATUSCODE_BADIDENTITYTOKENINVALID, st)
              else if alen encryptionAlgorithm > 0 then Some (UA_STATUSCODE_BADIDENTITYTOKENINVALID, st)
              else if list_ex (\<lambda>(user, pw). UA_String_equal userName (Block user) \<and> UA_String_equal password (Block pw)) (Login_logins cfg)
              then do { st1 \<leftarrow> activate_on_channel granted now st a s; Some (UA_STATUSCODE_GOOD, st1) }
              else Some (UA_STATUSCODE_BADUSERACCESSDENIED, st) }) }"

definition Service_CloseSession :: "comm \<Rightarrow> nat \<Rightarrow> (UA_StatusCode \<times> comm) option" where
  "Service_CloseSession st s = do { se \<leftarrow> sess st s; UA_SessionManager_removeSession st (authenticationToken se) }"

end
