(* ===== verification/Ua_Channels_Laws.thy ===== *)
theory Ua_Channels_Laws
  imports Ua_Channels
begin

text \<open>
  The pointers between connections, channels and sessions. The invariant \<open>comm_inv\<close> says
  that they are mutual, that the managers' lists hold exactly the allocated objects and that the
  counters count them. Under the invariant, freeing an object follows no dangling pointer and its
  effect is to remove the object and every pointer to it (\<open>session_gone\<close>,
  \<open>channel_gone\<close>).
\<close>

lemma unat_Suc_less:
  fixes x :: "'a::len word"
  assumes "x < y"
  shows "unat (x + 1) = Suc (unat x)" "x + 1 \<le> y"
proof -
  have "Suc (unat x) \<le> unat y" "unat y < 2 ^ LENGTH('a)"
    using assms by (simp_all add: word_less_nat_alt Suc_leI)
  moreover from this have "Suc (unat x) < 2 ^ LENGTH('a)"
    by linarith
  then have "unat (x + 1) = Suc (unat x)"
    by (simp add: unat_word_ariths)
  ultimately show "unat (x + 1) = Suc (unat x)" "x + 1 \<le> y"
    by (simp_all add: word_le_nat_alt)
qed

section \<open>The invariant\<close>

definition conn_links :: "comm \<Rightarrow> bool" where
  "conn_links st \<longleftrightarrow>
     (\<forall>k c a. conns st k = Some c \<longrightarrow> c_channel c = Some a \<longrightarrow> (\<exists>ch. chans st a = Some ch \<and> sc_connection ch = Some k)) \<and>
     (\<forall>a ch k. chans st a = Some ch \<longrightarrow> sc_connection ch = Some k \<longrightarrow> (\<exists>c. conns st k = Some c \<and> c_channel c = Some a))"

definition sess_links :: "comm \<Rightarrow> bool" where
  "sess_links st \<longleftrightarrow>
     (\<forall>s se a. sess st s = Some se \<longrightarrow> s_channel se = Some a \<longrightarrow> (\<exists>ch. chans st a = Some ch \<and> s \<in> set (sc_sessions ch))) \<and>
     (\<forall>a ch. chans st a = Some ch \<longrightarrow> distinct (sc_sessions ch)) \<and>
     (\<forall>a ch s. chans st a = Some ch \<longrightarrow> s \<in> set (sc_sessions ch) \<longrightarrow> (\<exists>se. sess st s = Some se \<and> s_channel se = Some a))"

definition managed :: "comm \<Rightarrow> bool" where
  "managed st \<longleftrightarrow>
     distinct (channels (secureChannelManager st)) \<and> set (channels (secureChannelManager st)) = dom (chans st) \<and>
     distinct (sessions (sessionManager st)) \<and> set (sessions (sessionManager st)) = dom (sess st)"

definition counted :: "comm \<Rightarrow> bool" where
  "counted st \<longleftrightarrow>
     currentChannelCount (secureChannelManager st) = length (channels (secureChannelManager st)) \<and>
     currentChannelCount (secureChannelManager st) \<le> maxChannelCount (secureChannelManager st) \<and>
     unat (currentSessionCount (sessionManager st)) = length (sessions (sessionManager st)) \<and>
     currentSessionCount (sessionManager st) \<le> maxSessionCount (sessionManager st)"

definition comm_inv :: "comm \<Rightarrow> bool" where
  "comm_inv st \<longleftrightarrow> conn_links st \<and> sess_links st \<and> managed st \<and> counted st"

definition linked :: "comm \<Rightarrow> bool" where
  "linked st \<longleftrightarrow> conn_links st \<and> sess_links st \<and> managed st"

lemma comm_inv_linked: "comm_inv st \<longleftrightarrow> linked st \<and> counted st"
  by (auto simp: comm_inv_def linked_def)

text \<open>The session links as one equivalence, with what the updates make of its two sides.\<close>

definition session_on :: "(nat \<Rightarrow> UA_Session option) \<Rightarrow> nat \<Rightarrow> nat \<Rightarrow> bool" where
  "session_on h s a \<longleftrightarrow> (\<exists>se. h s = Some se \<and> s_channel se = Some a)"

definition listed_on :: "(nat \<Rightarrow> UA_SecureChannel option) \<Rightarrow> nat \<Rightarrow> nat \<Rightarrow> bool" where
  "listed_on h s a \<longleftrightarrow> (\<exists>ch. h a = Some ch \<and> s \<in> set (sc_sessions ch))"

lemma sess_links_iff:
  "sess_links st \<longleftrightarrow> (\<forall>a ch. chans st a = Some ch \<longrightarrow> distinct (sc_sessions ch)) \<and>
     (\<forall>s a. session_on (sess st) s a \<longleftrightarrow> listed_on (chans st) s a)"
  unfolding sess_links_def session_on_def listed_on_def by blast

lemma listed_on_session:
  assumes "sess_links st" "sess st s = Some se"
  shows "listed_on (chans st) s b \<longleftrightarrow> s_channel se = Some b"
proof -
  have "listed_on (chans st) s b \<longleftrightarrow> session_on (sess st) s b" using assms(1) by (simp add: sess_links_iff)
  then show ?thesis using assms(2) by (simp add: session_on_def)
qed

lemma links_after_put [simp]:
  "session_on (h(s := Some se)) t b \<longleftrightarrow> (if t = s then s_channel se = Some b else session_on h t b)"
  "listed_on (g(a := Some ch)) t b \<longleftrightarrow> (if b = a then t \<in> set (sc_sessions ch) else listed_on g t b)"
  by (auto simp: session_on_def listed_on_def)

lemma conn_links_put_sess [simp]: "conn_links (put_sess s se st) = conn_links st"
  by (simp add: conn_links_def)

lemma conn_links_put_chan:
  assumes "conn_links st" "chans st a = Some ch" "sc_connection ch' = sc_connection ch"
  shows "conn_links (put_chan a ch' st)"
  using assms unfolding conn_links_def by (intro conjI allI impI) (auto split: if_splits, fastforce+)

lemma managed_put:
  "managed st \<Longrightarrow> chans st a = Some ch \<Longrightarrow> managed (put_chan a ch' st)"
  "managed st \<Longrightarrow> sess st s = Some se \<Longrightarrow> managed (put_sess s se' st)"
  by (auto simp: managed_def)

lemma linked_put_both:
  assumes "linked st" "sess st s = Some se" "chans st a = Some ch" "sc_connection ch' = sc_connection ch"
    "sess_links (put_chan a ch' (put_sess s se' st))"
  shows "linked (put_chan a ch' (put_sess s se' st))"
proof -
  have "conn_links (put_chan a ch' (put_sess s se' st))"
    by (rule conn_links_put_chan [where ch = ch]) (use assms in \<open>simp_all add: linked_def\<close>)
  moreover have "managed (put_chan a ch' (put_sess s se' st))"
    by (rule managed_put(1) [where ch = ch]) (use assms in \<open>auto simp: linked_def intro: managed_put(2)\<close>)
  ultimately show ?thesis using assms(5) by (simp add: linked_def)
qed

lemmas links_defs = linked_def conn_links_def sess_links_def managed_def

section \<open>Freeing a session\<close>

definition session_gone :: "comm \<Rightarrow> nat \<Rightarrow> comm" where
  "session_gone st s = st\<lparr>sess := (sess st)(s := None),
     chans := (\<lambda>a. map_option (sc_sessions_update (remove1 s)) (chans st a)),
     sessionManager := (sessionManager st)\<lparr>sessions := remove1 s (sessions (sessionManager st))\<rparr>\<rparr>"

lemma sessions_unlinked:
  assumes "sess_links st" "sess st s = Some se" "s_channel se \<noteq> Some a"
  shows "map_option (sc_sessions_update (remove1 s)) (chans st a) = chans st a"
proof (cases "chans st a")
  case (Some ch)
  then have "s \<notin> set (sc_sessions ch)"
    using assms unfolding sess_links_def by fastforce
  then show ?thesis using Some by (simp add: remove1_idem)
qed simp

lemma free_session_eq:
  assumes "sess_links st" "sess st s = Some se"
  shows "free_session st s = Some (session_gone st s)"
proof (cases "s_channel se")
  case None
  then have "(\<lambda>a. map_option (sc_sessions_update (remove1 s)) (chans st a)) = chans st"
    using assms by (simp add: sessions_unlinked fun_eq_iff)
  then show ?thesis
    using assms None by (simp add: free_session_def UA_Session_deleteMembersCleanup_def session_gone_def)
next
  case (Some a)
  then obtain ch where ch: "chans st a = Some ch"
    using assms unfolding sess_links_def by blast
  have "(\<lambda>b. map_option (sc_sessions_update (remove1 s)) (chans st b)) =
        (chans st)(a := Some (ch\<lparr>sc_sessions := remove1 s (sc_sessions ch)\<rparr>))"
    using assms Some ch by (auto simp: fun_eq_iff sessions_unlinked)
  then show ?thesis
    using assms Some ch
    by (simp add: free_session_def UA_Session_deleteMembersCleanup_def UA_SecureChannel_detachSession_def session_gone_def)
qed

lemma session_gone_linked:
  assumes "linked st"
  shows "linked (session_gone st s)"
proof -
  have "conn_links (session_gone st s)"
    using assms unfolding linked_def conn_links_def session_gone_def by fastforce
  moreover have "sess_links (session_gone st s)"
    using assms unfolding linked_def sess_links_def session_gone_def
    by (intro conjI allI impI) (auto split: if_splits, fastforce+)
  moreover have "managed (session_gone st s)"
    using assms unfolding linked_def managed_def session_gone_def by auto
  ultimately show ?thesis by (simp add: linked_def)
qed

section \<open>Freeing a channel\<close>

definition unlink_session :: "nat \<Rightarrow> UA_Session \<Rightarrow> UA_Session" where
  "unlink_session a se = (if s_channel se = Some a then se\<lparr>s_channel := None\<rparr> else se)"

definition unlink_connection :: "nat \<Rightarrow> UA_Connection \<Rightarrow> UA_Connection" where
  "unlink_connection a c = (if c_channel c = Some a then c\<lparr>c_channel := None, c_state := UA_CONNECTION_CLOSED\<rparr> else c)"

lemma s_channel_unlink [simp]: "s_channel (unlink_session a se) = Some b \<longleftrightarrow> s_channel se = Some b \<and> b \<noteq> a"
  by (auto simp: unlink_session_def)

lemma c_channel_unlink [simp]: "c_channel (unlink_connection a c) = Some b \<longleftrightarrow> c_channel c = Some b \<and> b \<noteq> a"
  by (auto simp: unlink_connection_def)

definition channel_gone :: "comm \<Rightarrow> nat \<Rightarrow> comm" where
  "channel_gone st a = st\<lparr>chans := (chans st)(a := None),
     sess := (\<lambda>s. map_option (unlink_session a) (sess st s)),
     conns := (\<lambda>k. map_option (unlink_connection a) (conns st k)),
     secureChannelManager := (secureChannelManager st)\<lparr>channels := remove1 a (channels (secureChannelManager st))\<rparr>\<rparr>"

lemma clear_session_pointers_eq:
  assumes "\<forall>s\<in>set ss. sess st s \<noteq> None"
  shows "clear_session_pointers ss st =
    Some (st\<lparr>sess := (\<lambda>s. if s \<in> set ss then map_option (s_channel_update (\<lambda>_. None)) (sess st s) else sess st s)\<rparr>)"
  using assms
proof (induction ss arbitrary: st)
  case (Cons s ss)
  then obtain se where se: "sess st s = Some se" by auto
  show ?case
    using Cons.prems se
    by (simp add: Cons.IH) (auto simp: fun_eq_iff intro!: arg_cong [where f = "\<lambda>f. sess_update f st"])
qed simp

lemma channel_sessions_cleared:
  assumes "sess_links st" "chans st a = Some ch"
  shows "(\<lambda>s. if s \<in> set (sc_sessions ch) then map_option (s_channel_update (\<lambda>_. None)) (sess st s) else sess st s) =
         (\<lambda>s. map_option (unlink_session a) (sess st s))"
proof
  fix s
  have "sess st s = Some se \<Longrightarrow> s \<in> set (sc_sessions ch) \<longleftrightarrow> s_channel se = Some a" for se
    using assms unfolding sess_links_def by fastforce
  then show "(if s \<in> set (sc_sessions ch) then map_option (s_channel_update (\<lambda>_. None)) (sess st s) else sess st s) =
    map_option (unlink_session a) (sess st s)"
    by (cases "sess st s") (auto simp: unlink_session_def)
qed

lemma channel_connection_closed:
  assumes "conn_links st" "chans st a = Some ch"
  shows "(\<lambda>k. map_option (unlink_connection a) (conns st k)) =
    (case sc_connection ch of None \<Rightarrow> conns st
     | Some k \<Rightarrow> (conns st)(k := map_option (\<lambda>c. c\<lparr>c_channel := None, c_state := UA_CONNECTION_CLOSED\<rparr>) (conns st k)))"
proof
  fix k
  have "conns st k = Some c \<Longrightarrow> c_channel c = Some a \<longleftrightarrow> sc_connection ch = Some k" for c
    using assms unfolding conn_links_def by fastforce
  then show "map_option (unlink_connection a) (conns st k) =
    (case sc_connection ch of None \<Rightarrow> conns st
     | Some k \<Rightarrow> (conns st)(k := map_option (\<lambda>c. c\<lparr>c_channel := None, c_state := UA_CONNECTION_CLOSED\<rparr>) (conns st k))) k"
    by (cases "conns st k") (auto simp: unlink_connection_def split: option.splits)
qed

lemma free_channel_eq:
  assumes "conn_links st" "sess_links st" "chans st a = Some ch"
  shows "free_channel st a = Some (channel_gone st a)"
proof -
  have all: "\<forall>s\<in>set (sc_sessions ch). sess st s \<noteq> None"
    using assms unfolding sess_links_def by fastforce
  show ?thesis
  proof (cases "sc_connection ch")
    case None
    then show ?thesis
      using assms all
      by (simp add: free_channel_def UA_SecureChannel_deleteMembersCleanup_def clear_session_pointers_eq
          channel_gone_def channel_sessions_cleared channel_connection_closed
          cong: if_cong)
  next
    case (Some k)
    then obtain c where c: "conns st k = Some c" "c_channel c = Some a"
      using assms unfolding conn_links_def by blast
    show ?thesis
      using assms all Some c
      by (simp add: free_channel_def UA_SecureChannel_deleteMembersCleanup_def clear_session_pointers_eq
          channel_gone_def channel_sessions_cleared channel_connection_closed
          UA_Connection_detachSecureChannel_def connection_close_def
          cong: if_cong)
  qed
qed

lemma channel_gone_linked:
  assumes "linked st"
  shows "linked (channel_gone st a)"
proof -
  have "conn_links (channel_gone st a)"
    using assms unfolding linked_def conn_links_def channel_gone_def
    by (intro conjI allI impI) (auto split: if_splits, fastforce+)
  moreover have "sess_links (channel_gone st a)"
    using assms unfolding linked_def sess_links_def channel_gone_def
    by (intro conjI allI impI) (auto split: if_splits, fastforce+)
  moreover have "managed (channel_gone st a)"
    using assms unfolding linked_def managed_def channel_gone_def by (auto simp: dom_def)
  ultimately show ?thesis by (simp add: linked_def)
qed

section \<open>Counters\<close>

lemma linked_decrement [simp]:
  "linked (decrement_sessions st) = linked st" "linked (decrement_channels st) = linked st"
  by (simp_all add: links_defs decrement_sessions_def decrement_channels_def)

lemma session_removed_inv:
  assumes "comm_inv st" "sess st s = Some se"
  shows "comm_inv (decrement_sessions (session_gone st s))"
proof -
  let ?m = "sessionManager st"
  have l: "linked (session_gone st s)" and c: "counted st"
    using assms by (simp_all add: comm_inv_linked session_gone_linked)
  have s: "s \<in> set (sessions ?m)"
    using assms by (auto simp: comm_inv_def managed_def)
  have "length (sessions ?m) > 0" using s by (cases "sessions ?m") auto
  then have pos: "currentSessionCount ?m \<noteq> 0"
    using c unfolding counted_def by (metis less_numeral_extra(3) unat_0)
  then have "unat (currentSessionCount ?m - 1) = unat (currentSessionCount ?m) - 1"
    by (simp add: unat_minus_one)
  moreover have "currentSessionCount ?m - 1 \<le> currentSessionCount ?m"
    using pos by (simp add: word_le_nat_alt unat_minus_one)
  ultimately have "counted (decrement_sessions (session_gone st s))"
    using c s by (auto simp: counted_def decrement_sessions_def session_gone_def length_remove1)
  then show ?thesis using l by (simp add: comm_inv_linked)
qed

lemma channel_removed_inv:
  assumes "comm_inv st" "chans st a = Some ch"
  shows "comm_inv (decrement_channels (channel_gone st a))"
proof -
  have l: "linked (channel_gone st a)" and c: "counted st"
    using assms by (simp_all add: comm_inv_linked channel_gone_linked)
  have "a \<in> set (channels (secureChannelManager st))"
    using assms by (auto simp: comm_inv_def managed_def)
  then have "counted (decrement_channels (channel_gone st a))"
    using c by (auto simp: counted_def decrement_channels_def channel_gone_def length_remove1)
  then show ?thesis using l by (simp add: comm_inv_linked)
qed

section \<open>Removing what timed out\<close>

definition session_expired :: "UA_DateTime \<Rightarrow> UA_Session \<Rightarrow> bool" where
  "session_expired now se \<longleftrightarrow> sint (validTill se) < sint now"

definition channel_dead :: "UA_DateTime \<Rightarrow> UA_SecureChannel \<Rightarrow> bool" where
  "channel_dead now ch \<longleftrightarrow> sint (token_timeout (securityToken ch)) < sint now \<or> sc_connection ch = None"

lemma cleanup_sessions_eq:
  assumes "comm_inv st" "distinct ss" "set ss \<subseteq> dom (sess st)"
  shows "\<exists>st'. cleanup_sessions ss now st = Some st' \<and> comm_inv st' \<and> conns st' = conns st \<and> dom (chans st') = dom (chans st) \<and>
    sess st' = (\<lambda>s. if s \<in> set ss \<and> session_expired now (the (sess st s)) then None else sess st s)"
  using assms
proof (induction ss arbitrary: st)
  case (Cons s ss)
  then obtain se where se: "sess st s = Some se" by auto
  show ?case
  proof (cases "session_expired now se")
    case True
    let ?st = "decrement_sessions (session_gone st s)"
    have same: "sess ?st = (sess st)(s := None)" "conns ?st = conns st" "dom (chans ?st) = dom (chans st)"
      by (auto simp: decrement_sessions_def session_gone_def)
    have free: "free_session st s = Some (session_gone st s)"
      using Cons.prems se by (auto simp: comm_inv_def free_session_eq)
    have "comm_inv ?st" "set ss \<subseteq> dom (sess ?st)"
      using Cons.prems se session_removed_inv same by auto
    from Cons.IH [OF this(1) _ this(2)] Cons.prems obtain st' where
      st': "cleanup_sessions ss now ?st = Some st'" "comm_inv st'" "conns st' = conns ?st" "dom (chans st') = dom (chans ?st)"
        "sess st' = (\<lambda>t. if t \<in> set ss \<and> session_expired now (the (sess ?st t)) then None else sess ?st t)"
      by auto
    have "cleanup_sessions (s # ss) now st = Some st'"
      using se True free st'(1) by (simp add: session_expired_def)
    moreover have "sess st' = (\<lambda>t. if t \<in> set (s # ss) \<and> session_expired now (the (sess st t)) then None else sess st t)"
      unfolding st'(5) same using True se Cons.prems(2) by (auto simp: fun_eq_iff)
    ultimately show ?thesis using st' same by simp
  next
    case False
    then have "cleanup_sessions (s # ss) now st = cleanup_sessions ss now st"
      using se by (simp add: session_expired_def)
    then show ?thesis
      using Cons.IH [of st] Cons.prems False se by (auto simp: fun_eq_iff)
  qed
qed auto

lemma put_chan_linked:
  assumes "linked st" "chans st a = Some ch" "sc_connection ch' = sc_connection ch" "sc_sessions ch' = sc_sessions ch"
  shows "linked (put_chan a ch' st)"
  using assms unfolding links_defs by (intro conjI allI impI) (auto split: if_splits, fastforce+)

lemma put_chan_inv:
  assumes "comm_inv st" "chans st a = Some ch" "sc_connection ch' = sc_connection ch" "sc_sessions ch' = sc_sessions ch"
  shows "comm_inv (put_chan a ch' st)"
  using assms put_chan_linked [OF _ assms(2-4)] by (auto simp: comm_inv_linked counted_def)

lemma revolveTokens_links [simp]:
  "sc_connection (UA_SecureChannel_revolveTokens ch) = sc_connection ch"
  "sc_sessions (UA_SecureChannel_revolveTokens ch) = sc_sessions ch"
  by (auto simp: UA_SecureChannel_revolveTokens_def)

text \<open>What the clean-up makes of a channel.\<close>

definition cleaned :: "UA_DateTime \<Rightarrow> UA_SecureChannel \<Rightarrow> UA_SecureChannel option" where
  "cleaned now ch = (if channel_dead now ch then None else Some (UA_SecureChannel_revolveTokens ch))"

lemma cleanup_channels_eq:
  assumes "comm_inv st" "distinct as" "set as \<subseteq> dom (chans st)"
  shows "\<exists>st'. cleanup_channels as now st = Some st' \<and> comm_inv st' \<and> dom (sess st') = dom (sess st) \<and>
    chans st' = (\<lambda>a. if a \<in> set as then Option.bind (chans st a) (cleaned now) else chans st a)"
  using assms
proof (induction as arbitrary: st)
  case (Cons a as)
  then obtain ch where ch: "chans st a = Some ch" by auto
  let ?st = "if channel_dead now ch then decrement_channels (channel_gone st a)
    else put_chan a (UA_SecureChannel_revolveTokens ch) st"
  have same: "chans ?st = (chans st)(a := cleaned now ch)" "dom (sess ?st) = dom (sess st)"
    by (auto simp: cleaned_def decrement_channels_def channel_gone_def)
  have free: "free_channel st a = Some (channel_gone st a)"
    using Cons.prems ch by (auto simp: comm_inv_def free_channel_eq)
  have step: "cleanup_channels (a # as) now st = cleanup_channels as now ?st"
    using ch free
    by (auto simp: channel_dead_def UA_SecureChannel_revolveTokens_def word_neq_0_conv fun_upd_idem)
  have "comm_inv ?st" "set as \<subseteq> dom (chans ?st)"
    using Cons.prems ch channel_removed_inv put_chan_inv same(1) by (auto split: if_splits)
  from Cons.IH [OF this(1) _ this(2)] Cons.prems obtain st' where
    st': "cleanup_channels as now ?st = Some st'" "comm_inv st'" "dom (sess st') = dom (sess ?st)"
      "chans st' = (\<lambda>b. if b \<in> set as then Option.bind (chans ?st b) (cleaned now) else chans ?st b)"
    by auto
  moreover have "chans st' = (\<lambda>b. if b \<in> set (a # as) then Option.bind (chans st b) (cleaned now) else chans st b)"
    unfolding st'(4) same(1) using ch Cons.prems(2) by (auto simp: fun_eq_iff)
  ultimately show ?case using step same by auto
qed (auto simp: fun_eq_iff)

section \<open>The other operations keep the invariant\<close>

lemma put_sess_inv:
  assumes "comm_inv st" "sess st s = Some se" "s_channel se' = s_channel se"
  shows "comm_inv (put_sess s se' st)"
proof -
  have "linked (put_sess s se' st)"
    using assms unfolding comm_inv_linked links_defs by (intro conjI allI impI) (auto split: if_splits, fastforce+)
  then show ?thesis using assms(1) by (simp add: comm_inv_linked counted_def)
qed

lemma manager_inv:
  assumes "comm_inv st" "channels m = channels (secureChannelManager st)"
    "currentChannelCount m = currentChannelCount (secureChannelManager st)"
    "maxChannelCount m = maxChannelCount (secureChannelManager st)"
  shows "comm_inv (st\<lparr>secureChannelManager := m\<rparr>)"
  using assms by (auto simp: comm_inv_def counted_def managed_def conn_links_def sess_links_def)

lemma new_connection_inv:
  assumes "comm_inv st" "conns st k = None" "c_channel c = None"
  shows "comm_inv (put_conn k c st)"
proof -
  have "linked (put_conn k c st)"
    using assms unfolding comm_inv_linked links_defs by (intro conjI allI impI) (auto split: if_splits, fastforce+)
  then show ?thesis using assms(1) by (simp add: comm_inv_linked counted_def)
qed

lemma detach_connection_inv:
  assumes "comm_inv st" "conns st k = Some c"
  shows "\<exists>st'. UA_Connection_detachSecureChannel st k = Some st' \<and> comm_inv st' \<and> comm_inv (st'\<lparr>conns := (conns st')(k := None)\<rparr>)"
proof (cases "c_channel c")
  case None
  then have "linked (put_conn k (c\<lparr>c_channel := None\<rparr>) st)" "linked (st\<lparr>conns := (conns st)(k := None)\<rparr>)"
    using assms unfolding comm_inv_linked links_defs by (intro conjI allI impI; auto split: if_splits; fastforce)+
  then show ?thesis
    using assms None by (auto simp: UA_Connection_detachSecureChannel_def comm_inv_linked counted_def)
next
  case (Some a)
  then obtain ch where ch: "chans st a = Some ch" "sc_connection ch = Some k"
    using assms unfolding comm_inv_def conn_links_def by blast
  let ?st = "put_conn k (c\<lparr>c_channel := None\<rparr>) (put_chan a (ch\<lparr>sc_connection := None\<rparr>) st)"
  have "linked ?st" "linked (?st\<lparr>conns := (conns ?st)(k := None)\<rparr>)"
    using assms Some ch unfolding comm_inv_linked links_defs
    by (intro conjI allI impI; auto split: if_splits; fastforce)+
  then show ?thesis
    using assms Some ch by (auto simp: UA_Connection_detachSecureChannel_def comm_inv_linked counted_def)
qed

lemma createSession_inv:
  assumes "comm_inv st" "sess st new = None"
    and "UA_SessionManager_createSession granted new guid now requested st = (r, s, st')"
  shows "comm_inv st'" "s = Some s' \<Longrightarrow> s' = new \<and> (\<exists>se. sess st' new = Some se \<and> s_channel se = None)"
    "chans st' = chans st" "conns st' = conns st"
proof -
  let ?m = "sessionManager st"
  have new: "linked st" "new \<notin> set (sessions ?m)"
    using assms(1,2) by (auto simp: comm_inv_linked linked_def managed_def)
  show "s = Some s' \<Longrightarrow> s' = new \<and> (\<exists>se. sess st' new = Some se \<and> s_channel se = None)"
    "chans st' = chans st" "conns st' = conns st"
    using assms(3) by (auto simp: UA_SessionManager_createSession_def Let_def UA_Session_init_def
        UA_Session_updateLifetime_def split: if_splits)
  show "comm_inv st'"
  proof (cases "s = None")
    case True
    then show ?thesis
      using assms by (auto simp: UA_SessionManager_createSession_def Let_def split: if_splits)
  next
    case False
    then have lt: "currentSessionCount ?m < maxSessionCount ?m"
      using assms(3) by (auto simp: UA_SessionManager_createSession_def Let_def not_le split: if_splits)
    define se where "se = UA_Session_updateLifetime now
      (UA_Session_init\<lparr>sessionId := UA_NODEID_NUMERIC 1 (lastSessionId ?m), authenticationToken := UA_NODEID_GUID 1 guid,
         timeout := session_timeout (maxSessionLifeTime ?m) requested\<rparr>)"
    have se: "s_channel se = None"
      by (simp add: se_def UA_Session_updateLifetime_def UA_Session_init_def)
    have st': "st' = (put_sess new se st)\<lparr>sessionManager := ?m\<lparr>currentSessionCount := currentSessionCount ?m + 1,
         lastSessionId := lastSessionId ?m + 1, sessions := new # sessions ?m\<rparr>\<rparr>"
      using assms(3) False lt unfolding se_def [symmetric]
      by (auto simp: UA_SessionManager_createSession_def Let_def not_le se_def split: if_splits)
    have "linked st'"
      using new assms(2) se unfolding st' links_defs by (intro conjI allI impI) (auto split: if_splits, fastforce+)
    moreover have "counted st'"
      using assms(1) unat_Suc_less [OF lt] unfolding st' by (simp add: comm_inv_def counted_def)
    ultimately show ?thesis by (simp add: comm_inv_linked)
  qed
qed

lemma open_linked:
  assumes "linked st" "conns st k = Some c" "c_channel c = None" "chans st new = None"
    and "sc_connection ch = Some k" "sc_sessions ch = []" "channels (secureChannelManager st') = new # channels (secureChannelManager st)"
    and "conns st' = (conns st)(k := Some (c\<lparr>c_channel := Some new\<rparr>))" "chans st' = (chans st)(new := Some ch)"
    and "sess st' = sess st" "sessionManager st' = sessionManager st"
  shows "linked st'"
proof -
  have "conn_links st'"
    using assms unfolding linked_def conn_links_def
    by (intro conjI allI impI) (auto split: if_splits, fastforce+)
  moreover have "sess_links st'"
  proof -
    have "\<not> listed_on (chans st) s new" for s using assms(4) by (simp add: listed_on_def)
    moreover have "session_on (sess st') = session_on (sess st)" "listed_on (chans st') s a = (a \<noteq> new \<and> listed_on (chans st) s a)" for s a
      using assms(6,9,10) by (auto simp: session_on_def listed_on_def fun_eq_iff)
    ultimately show ?thesis
      using assms(1,6,9) unfolding linked_def sess_links_iff by auto
  qed
  moreover have "managed st'"
    using assms unfolding linked_def managed_def by auto
  ultimately show ?thesis by (simp add: linked_def)
qed

lemma open_inv:
  assumes "comm_inv st" "conns st k = Some c" "c_channel c = None" "chans st new = None"
  shows "\<exists>r p st'. UA_SecureChannelManager_open mem granted new now st k request = Some (r, p, st') \<and> comm_inv st'"
proof -
  have l: "linked st" using assms by (simp add: comm_inv_linked)
  show ?thesis
    using assms
    by (auto simp: UA_SecureChannelManager_open_def Let_def UA_Connection_attachSecureChannel_def
        UA_SecureChannel_init_def comm_inv_linked counted_def intro!: open_linked [OF l assms(2-4)])
qed

lemma renew_inv:
  assumes "comm_inv st" "conns st k = Some c"
  shows "\<exists>r p st'. UA_SecureChannelManager_renew mem now st k request = Some (r, p, st') \<and> comm_inv st'"
proof (cases "c_channel c")
  case (Some a)
  then obtain ch where ch: "chans st a = Some ch" "sc_connection ch = Some k"
    using assms unfolding comm_inv_def conn_links_def by blast
  show ?thesis
    using assms Some ch
    by (auto simp: UA_SecureChannelManager_renew_def Let_def intro!: manager_inv put_chan_inv)
qed (use assms in \<open>auto simp: UA_SecureChannelManager_renew_def\<close>)

lemma find_channel_some:
  assumes "set as \<subseteq> dom (chans st)"
  shows "\<exists>r. find_channel st as i = Some r \<and>
    (\<forall>a. r = Some a \<longrightarrow> a \<in> set as \<and> (\<exists>ch. chans st a = Some ch \<and> channelId (securityToken ch) = i)) \<and>
    (r = None \<longrightarrow> (\<forall>a\<in>set as. \<forall>ch. chans st a = Some ch \<longrightarrow> channelId (securityToken ch) \<noteq> i))"
  using assms by (induction as) auto

lemma find_token_some:
  assumes "set ss \<subseteq> dom (sess st)"
  shows "\<exists>r. find_token st ss token = Some r \<and>
    (\<forall>s. r = Some s \<longrightarrow> s \<in> set ss \<and> (\<exists>se. sess st s = Some se \<and> UA_NodeId_equal (authenticationToken se) token)) \<and>
    (r = None \<longrightarrow> (\<forall>s\<in>set ss. \<forall>se. sess st s = Some se \<longrightarrow> \<not> UA_NodeId_equal (authenticationToken se) token))"
  using assms by (induction ss) auto

lemma close_inv:
  assumes "comm_inv st"
  shows "\<exists>r st'. UA_SecureChannelManager_close st i = Some (r, st') \<and> comm_inv st'"
proof -
  obtain r where r: "find_channel st (channels (secureChannelManager st)) i = Some r"
    "\<And>a. r = Some a \<Longrightarrow> \<exists>ch. chans st a = Some ch"
    using find_channel_some [of "channels (secureChannelManager st)" st i] assms
    unfolding comm_inv_def managed_def by blast
  show ?thesis
  proof (cases r)
    case (Some a)
    then obtain ch where ch: "chans st a = Some ch" using r(2) by blast
    then have "free_channel st a = Some (channel_gone st a)" "comm_inv (decrement_channels (channel_gone st a))"
      using assms channel_removed_inv by (auto simp: comm_inv_def free_channel_eq)
    then show ?thesis using r(1) Some by (simp add: UA_SecureChannelManager_close_def)
  qed (use r assms in \<open>auto simp: UA_SecureChannelManager_close_def\<close>)
qed

lemma removeSession_inv:
  assumes "comm_inv st"
  shows "\<exists>r st'. UA_SessionManager_removeSession st token = Some (r, st') \<and> comm_inv st'"
proof -
  obtain r where r: "find_token st (sessions (sessionManager st)) token = Some r"
    "\<And>s. r = Some s \<Longrightarrow> \<exists>se. sess st s = Some se"
    using find_token_some [of "sessions (sessionManager st)" st token] assms
    unfolding comm_inv_def managed_def by blast
  show ?thesis
  proof (cases r)
    case (Some s)
    then obtain se where se: "sess st s = Some se" using r(2) by blast
    then have "free_session st s = Some (session_gone st s)" "comm_inv (decrement_sessions (session_gone st s))"
      using assms session_removed_inv by (auto simp: comm_inv_def free_session_eq)
    then show ?thesis using r(1) Some by (simp add: UA_SessionManager_removeSession_def)
  qed (use r assms in \<open>auto simp: UA_SessionManager_removeSession_def\<close>)
qed

lemma detachSession_inv:
  assumes "comm_inv st" "sess st s = Some se" "s_channel se = Some a"
  shows "\<exists>st'. UA_SecureChannel_detachSession st a s = Some st' \<and> comm_inv st' \<and>
    sess st' s = Some (se\<lparr>s_channel := None\<rparr>) \<and> dom (chans st') = dom (chans st)"
proof -
  obtain ch where ch: "chans st a = Some ch"
    using assms unfolding comm_inv_def sess_links_def by blast
  let ?st = "put_chan a (ch\<lparr>sc_sessions := remove1 s (sc_sessions ch)\<rparr>) (put_sess s (se\<lparr>s_channel := None\<rparr>) st)"
  have "listed_on (chans st) s b \<longleftrightarrow> b = a" for b
    using assms by (auto simp: comm_inv_def listed_on_session)
  then have "sess_links ?st"
    using assms ch unfolding comm_inv_def sess_links_iff by (auto simp: listed_on_def)
  then have "linked ?st"
    using assms(1,2) ch linked_put_both by (simp add: comm_inv_linked)
  then show ?thesis
    using assms ch by (auto simp: UA_SecureChannel_detachSession_def comm_inv_linked counted_def)
qed

lemma attachSession_inv:
  assumes "comm_inv st" "sess st s = Some se" "chans st a = Some ch"
  shows "\<exists>st' c. UA_SecureChannel_attachSession granted st a s = Some st' \<and> comm_inv st' \<and>
    sess st' s = Some (se\<lparr>s_channel := c\<rparr>) \<and> (granted \<longrightarrow> s_channel se = None \<longrightarrow> c = Some a) \<and>
    (s_channel se \<noteq> None \<longrightarrow> c = s_channel se)"
proof (cases "granted \<and> s_channel se = None")
  case True
  let ?st = "put_chan a (ch\<lparr>sc_sessions := s # sc_sessions ch\<rparr>) (put_sess s (se\<lparr>s_channel := Some a\<rparr>) st)"
  have "\<not> listed_on (chans st) s b" for b
    using assms True by (auto simp: comm_inv_def listed_on_session)
  then have "sess_links ?st"
    using assms unfolding comm_inv_def sess_links_iff by (auto simp: listed_on_def)
  then have "linked ?st"
    using assms linked_put_both by (simp add: comm_inv_linked)
  then have "comm_inv ?st" using assms(1) by (simp add: comm_inv_linked counted_def)
  then show ?thesis
    using assms True by (auto simp: UA_SecureChannel_attachSession_def)
next
  case False
  then have "UA_SecureChannel_attachSession granted st a s = Some st"
    using assms by (auto simp: UA_SecureChannel_attachSession_def)
  then show ?thesis using assms False by (intro exI [of _ st] exI [of _ "s_channel se"]) auto
qed

lemma activate_on_channel_inv:
  assumes "comm_inv st" "sess st s = Some se" "chans st a = Some ch"
  shows "\<exists>st' c. activate_on_channel granted now st a s = Some st' \<and> comm_inv st' \<and> (granted \<longrightarrow> c = Some a) \<and>
    sess st' s = Some (UA_Session_updateLifetime now (se\<lparr>s_channel := c, activated := True\<rparr>))"
proof -
  define moved where "moved \<longleftrightarrow> (\<exists>b. s_channel se = Some b \<and> b \<noteq> a)"
  obtain st1 se1 where st1: "(case s_channel se of None \<Rightarrow> Some st
      | Some b \<Rightarrow> if b \<noteq> a then UA_SecureChannel_detachSession st b s else Some st) = Some st1"
    and inv1: "comm_inv st1" "chans st1 a \<noteq> None"
    and se1: "sess st1 s = Some se1" "se1 = se\<lparr>s_channel := s_channel se1\<rparr>" "s_channel se1 = None \<or> s_channel se1 = Some a"
  proof (cases moved)
    case True
    then obtain b where b: "s_channel se = Some b" "b \<noteq> a" by (auto simp: moved_def)
    from detachSession_inv [OF assms(1,2) b(1)] obtain st' where
      "UA_SecureChannel_detachSession st b s = Some st'" "comm_inv st'"
      "sess st' s = Some (se\<lparr>s_channel := None\<rparr>)" "dom (chans st') = dom (chans st)" by blast
    then show thesis using that [of st' "se\<lparr>s_channel := None\<rparr>"] b assms(3) by fastforce
  next
    case False
    then show thesis using that [of st se] assms by (cases "s_channel se") (auto simp: moved_def)
  qed
  obtain ch1 where ch1: "chans st1 a = Some ch1" using inv1(2) by auto
  from attachSession_inv [OF inv1(1) se1(1) ch1, of granted] obtain st2 c where
    st2: "UA_SecureChannel_attachSession granted st1 a s = Some st2" "comm_inv st2"
      "sess st2 s = Some (se1\<lparr>s_channel := c\<rparr>)" "granted \<longrightarrow> s_channel se1 = None \<longrightarrow> c = Some a"
      "s_channel se1 \<noteq> None \<longrightarrow> c = s_channel se1" by (elim exE conjE) (rule that)
  let ?se = "UA_Session_updateLifetime now (se1\<lparr>s_channel := c, activated := True\<rparr>)"
  have "activate_on_channel granted now st a s = Some (put_sess s ?se st2)"
    using assms(2) st1 st2 by (simp add: activate_on_channel_def)
  moreover have "comm_inv (put_sess s ?se st2)"
    using st2 by (auto simp: UA_Session_updateLifetime_def intro!: put_sess_inv)
  moreover have "?se = UA_Session_updateLifetime now (se\<lparr>s_channel := c, activated := True\<rparr>)"
    using se1(2) by (metis UA_Session.surjective UA_Session.update_convs(9))
  moreover have "granted \<longrightarrow> c = Some a"
    using st2(4,5) se1(3) by auto
  ultimately show ?thesis by auto
qed

lemma find_token_managed:
  assumes "comm_inv st"
  obtains r where "find_token st (sessions (sessionManager st)) token = Some r"
    "\<And>s. r = Some s \<Longrightarrow> \<exists>se. sess st s = Some se \<and> UA_NodeId_equal (authenticationToken se) token"
  using find_token_some [of "sessions (sessionManager st)" st token] assms
  unfolding comm_inv_def managed_def by blast

lemma getSession_found:
  assumes "comm_inv st"
  obtains r where "UA_SessionManager_getSession now st token = Some r"
    "\<And>s. r = Some s \<Longrightarrow> \<exists>se. sess st s = Some se \<and> UA_NodeId_equal (authenticationToken se) token \<and> sint now \<le> sint (validTill se)"
proof -
  obtain r where r: "find_token st (sessions (sessionManager st)) token = Some r"
    "\<And>s. r = Some s \<Longrightarrow> \<exists>se. sess st s = Some se \<and> UA_NodeId_equal (authenticationToken se) token"
    using find_token_managed [OF assms] by blast
  show thesis
  proof (cases r)
    case None
    then show thesis using that [of None] r(1) by (simp add: UA_SessionManager_getSession_def)
  next
    case (Some s)
    then obtain se where "sess st s = Some se" "UA_NodeId_equal (authenticationToken se) token" using r(2) by blast
    then show thesis
      using that [of None] that [of "Some s"] r(1) Some
      by (cases "sint now > sint (validTill se)") (auto simp: UA_SessionManager_getSession_def)
  qed
qed

section \<open>The services\<close>

lemma OpenSecureChannel_inv:
  assumes "comm_inv st" "conns st k = Some c" "c_channel c = None \<or> requestType request = UA_SECURITYTOKENREQUESTTYPE_RENEW"
    "chans st new = None"
  shows "\<exists>r p st'. Service_OpenSecureChannel mem granted new now st k request = Some (r, p, st') \<and> comm_inv st'"
  using assms open_inv renew_inv
  by (cases "requestType request") (auto simp: Service_OpenSecureChannel_def)

text \<open>Removing the session at the head of the list, the one created last.\<close>

lemma removeSession_head:
  assumes "comm_inv st" "sessions (sessionManager st) = s # ss" "sess st s = Some se" "authenticationToken se = token"
  shows "UA_SessionManager_removeSession st token = Some (UA_STATUSCODE_GOOD, decrement_sessions (session_gone st s))"
  using assms by (simp add: UA_SessionManager_removeSession_def free_session_eq comm_inv_def)

lemma createSession_head:
  assumes "UA_SessionManager_createSession granted new guid now requested st = (r, Some s, st')"
  shows "sessions (sessionManager st') = s # sessions (sessionManager st)" "r = UA_STATUSCODE_GOOD" "s = new"
    "sess st' = (sess st)(s := sess st' s)" "sess st' s \<noteq> None"
  using assms by (auto simp: UA_SessionManager_createSession_def Let_def split: if_splits)

lemma CreateSession_inv:
  assumes "comm_inv st" "chans st a = Some ch" "sess st new = None"
  shows "\<exists>r s st'. Service_CreateSession cfg mem granted new guid now st a request = Some (r, s, st') \<and> comm_inv st' \<and>
    (s = None \<longrightarrow> r \<noteq> UA_STATUSCODE_GOOD \<and> sess st' = sess st) \<and> (s \<noteq> None \<longrightarrow> r = UA_STATUSCODE_GOOD \<and> s = Some new \<and> sess st' new \<noteq> None)"
proof -
  obtain r s st1 where cr: "UA_SessionManager_createSession granted new guid now (cs_requestedSessionTimeout request) st = (r, s, st1)"
    by (metis prod_cases3)
  note inv1 = createSession_inv [OF assms(1,3) cr]
  show ?thesis
  proof (cases "channelId (securityToken ch) = 0 \<or> endpointsCopy cfg \<noteq> UA_STATUSCODE_GOOD \<or> s = None")
    case True
    moreover have "s = None \<Longrightarrow> st1 = st \<and> r \<noteq> UA_STATUSCODE_GOOD"
      using cr by (auto simp: UA_SessionManager_createSession_def Let_def status_defs split: if_splits)
    ultimately show ?thesis
      using assms cr by (auto simp: Service_CreateSession_def status_defs)
  next
    case False
    then have cr': "UA_SessionManager_createSession granted new guid now (cs_requestedSessionTimeout request) st = (r, Some new, st1)"
      using cr inv1(2) by auto
    note head = createSession_head [OF cr']
    obtain se where se: "sess st1 new = Some se" using head(5) by auto
    obtain r2 name where copy: "UA_String_copy mem (cs_sessionName request) = (r2, name)" by force
    let ?st2 = "put_sess new (se\<lparr>maxResponseMessageSize := cs_maxResponseMessageSize request, sessionName := name\<rparr>) st1"
    let ?r3 = "case serverCertificate cfg of None \<Rightarrow> r2 | Some cert \<Rightarrow> r2 OR fst (UA_String_copy mem cert)"
    have inv2: "comm_inv ?st2" by (rule put_sess_inv [OF inv1(1) se]) simp
    have rem: "UA_SessionManager_removeSession ?st2 (authenticationToken se) =
        Some (UA_STATUSCODE_GOOD, decrement_sessions (session_gone ?st2 new))"
      by (rule removeSession_head [OF inv2, where ss = "sessions (sessionManager st)" and
            se = "se\<lparr>maxResponseMessageSize := cs_maxResponseMessageSize request, sessionName := name\<rparr>"])
        (simp_all add: head(1))
    have inv3: "comm_inv (decrement_sessions (session_gone ?st2 new))"
      by (rule session_removed_inv [OF inv2]) simp
    have same: "sess (decrement_sessions (session_gone ?st2 new)) = sess st"
    proof -
      have "(sess st1)(new := None) = sess st" using head(4) assms(3) by (metis fun_upd_triv fun_upd_upd)
      then show ?thesis by (simp add: decrement_sessions_def session_gone_def)
    qed
    have "Service_CreateSession cfg mem granted new guid now st a request =
      (if ?r3 \<noteq> UA_STATUSCODE_GOOD then Some (?r3, None, decrement_sessions (session_gone ?st2 new)) else Some (?r3, Some new, ?st2))"
      using False assms(2) cr' head(2) se copy rem by (simp add: Service_CreateSession_def Let_def)
    then show ?thesis using inv2 inv3 same by simp
  qed
qed

lemma ActivateSession_cases:
  assumes "comm_inv st" "chans st a = Some ch"
  obtains (error) r where "Service_ActivateSession cfg granted now st a token user = Some (r, st)" "r \<noteq> UA_STATUSCODE_GOOD"
  | (ok) s se st' c where "Service_ActivateSession cfg granted now st a token user = Some (UA_STATUSCODE_GOOD, st')"
      "comm_inv st'" "sess st s = Some se" "UA_NodeId_equal (authenticationToken se) token" "sint now \<le> sint (validTill se)"
      "sess st' s = Some (UA_Session_updateLifetime now (se\<lparr>s_channel := c, activated := True\<rparr>))" "granted \<longrightarrow> c = Some a"
proof -
  obtain r where r: "UA_SessionManager_getSession now st token = Some r"
    "\<And>s. r = Some s \<Longrightarrow> \<exists>se. sess st s = Some se \<and> UA_NodeId_equal (authenticationToken se) token \<and> sint now \<le> sint (validTill se)"
    using getSession_found [OF assms(1)] by blast
  show thesis
  proof (cases r)
    case None
    then show thesis using error [of UA_STATUSCODE_BADSESSIONIDINVALID] r(1)
      by (simp add: Service_ActivateSession_def status_defs)
  next
    case (Some s)
    then obtain se where se: "sess st s = Some se" "UA_NodeId_equal (authenticationToken se) token" "sint now \<le> sint (validTill se)"
      using r(2) by blast
    obtain st' c where act: "activate_on_channel granted now st a s = Some st'" "comm_inv st'" "granted \<longrightarrow> c = Some a"
      "sess st' s = Some (UA_Session_updateLifetime now (se\<lparr>s_channel := c, activated := True\<rparr>))"
      using activate_on_channel_inv [OF assms(1) se(1) assms(2), of granted now] by (elim exE conjE) (rule that)
    have "Service_ActivateSession cfg granted now st a token user = Some (UA_STATUSCODE_GOOD, st') \<or>
      (\<exists>r. r \<noteq> UA_STATUSCODE_GOOD \<and> Service_ActivateSession cfg granted now st a token user = Some (r, st))"
      using r(1) Some se(1,3) act(1)
      by (cases user) (auto simp: Service_ActivateSession_def status_defs)
    then show thesis using ok [OF _ act(2) se act(4,3)] error by blast
  qed
qed

end
