(* ===== verification/Ua_Channels_Theorems.thy ===== *)
theory Ua_Channels_Theorems
  imports Ua_Channels_Laws
begin

text \<open>
  What the layer of secure channels and sessions guarantees: the pointers stay mutual along every
  run in which a connection opens one channel at a time, no operation of such a run follows a
  pointer to a freed object, the clean-up removes exactly what has expired, a session is only
  activated with accepted credentials. The last theorem shows the run that breaks it: a second
  channel on a connection.
\<close>

section \<open>Runs\<close>

text \<open>
  One rule per event of the server: a connection is accepted or dropped by the network layer
  (which detaches the channel and frees the connection), the services, the clean-up.
  The addresses of new objects are unused ones.
\<close>

definition comm_start :: "UA_SecureChannelManager \<Rightarrow> UA_SessionManager \<Rightarrow> comm" where
  "comm_start cm sm = \<lparr>conns = (\<lambda>_. None), chans = (\<lambda>_. None), sess = (\<lambda>_. None),
     secureChannelManager = cm, sessionManager = sm\<rparr>"

definition drop_connection :: "comm \<Rightarrow> nat \<Rightarrow> comm option" where
  "drop_connection st k = do { st1 \<leftarrow> UA_Connection_detachSecureChannel st k; Some (st1\<lparr>conns := (conns st1)(k := None)\<rparr>) }"

inductive comm_reachable :: "comm \<Rightarrow> bool" where
  start: "comm_reachable (comm_start (UA_SecureChannelManager_init n l c t) (UA_SessionManager_init m sl si))"
| accept: "comm_reachable st \<Longrightarrow> conns st k = None \<Longrightarrow> c_channel c = None \<Longrightarrow> comm_reachable (put_conn k c st)"
| drop: "comm_reachable st \<Longrightarrow> drop_connection st k = Some st' \<Longrightarrow> comm_reachable st'"
| open_channel: "comm_reachable st \<Longrightarrow> conns st k = Some cn \<Longrightarrow>
    c_channel cn = None \<or> requestType request = UA_SECURITYTOKENREQUESTTYPE_RENEW \<Longrightarrow> chans st new = None \<Longrightarrow>
    Service_OpenSecureChannel mem granted new now st k request = Some (r, p, st') \<Longrightarrow> comm_reachable st'"
| close_channel: "comm_reachable st \<Longrightarrow> Service_CloseSecureChannel st i = Some st' \<Longrightarrow> comm_reachable st'"
| create_session: "comm_reachable st \<Longrightarrow> sess st new = None \<Longrightarrow>
    Service_CreateSession cfg mem granted new guid now st a req = Some (r, s, st') \<Longrightarrow> comm_reachable st'"
| activate_session: "comm_reachable st \<Longrightarrow> chans st a \<noteq> None \<Longrightarrow>
    Service_ActivateSession cfg granted now st a token user = Some (r, st') \<Longrightarrow> comm_reachable st'"
| close_session: "comm_reachable st \<Longrightarrow> Service_CloseSession st s = Some (r, st') \<Longrightarrow> comm_reachable st'"
| clean_sessions: "comm_reachable st \<Longrightarrow> UA_SessionManager_cleanupTimedOut now st = Some st' \<Longrightarrow> comm_reachable st'"
| clean_channels: "comm_reachable st \<Longrightarrow> UA_SecureChannelManager_cleanupTimedOut now st = Some st' \<Longrightarrow> comm_reachable st'"

lemma start_inv: "comm_inv (comm_start (UA_SecureChannelManager_init n l c t) (UA_SessionManager_init m sl si))"
  by (simp add: comm_inv_def conn_links_def sess_links_def managed_def counted_def comm_start_def
      UA_SecureChannelManager_init_def UA_SessionManager_init_def)

lemma drop_inv:
  assumes "comm_inv st" "conns st k \<noteq> None"
  shows "\<exists>st'. drop_connection st k = Some st' \<and> comm_inv st'"
  using assms detach_connection_inv by (fastforce simp: drop_connection_def)

lemma cleanupSessions_inv:
  assumes "comm_inv st"
  shows "\<exists>st'. UA_SessionManager_cleanupTimedOut now st = Some st' \<and> comm_inv st' \<and>
    sess st' = (\<lambda>s. case sess st s of Some se \<Rightarrow> if session_expired now se then None else Some se | None \<Rightarrow> None)"
proof -
  have m: "distinct (sessions (sessionManager st))" "set (sessions (sessionManager st)) = dom (sess st)"
    using assms by (auto simp: comm_inv_def managed_def)
  from cleanup_sessions_eq [OF assms m(1) m(2)[THEN equalityD1], of now] show ?thesis
    unfolding UA_SessionManager_cleanupTimedOut_def m(2) by (fastforce split: option.splits)
qed

lemma cleanupChannels_inv:
  assumes "comm_inv st"
  shows "\<exists>st'. UA_SecureChannelManager_cleanupTimedOut now st = Some st' \<and> comm_inv st' \<and> dom (sess st') = dom (sess st) \<and>
    chans st' = (\<lambda>a. Option.bind (chans st a) (cleaned now))"
proof -
  have m: "distinct (channels (secureChannelManager st))" "set (channels (secureChannelManager st)) = dom (chans st)"
    using assms by (auto simp: comm_inv_def managed_def)
  have "(\<lambda>a. if a \<in> dom (chans st) then Option.bind (chans st a) (cleaned now) else chans st a) =
    (\<lambda>a. Option.bind (chans st a) (cleaned now))" by (auto simp: fun_eq_iff domIff)
  with cleanup_channels_eq [OF assms m(1) m(2)[THEN equalityD1], of now] show ?thesis
    unfolding UA_SecureChannelManager_cleanupTimedOut_def m(2) by simp
qed

lemma reachable_inv: "comm_reachable st \<Longrightarrow> comm_inv st"
proof (induction rule: comm_reachable.induct)
  case (drop st k st')
  then show ?case
    using drop_inv [of st k] by (cases "conns st k") (auto simp: drop_connection_def UA_Connection_detachSecureChannel_def)
next
  case (open_channel st k cn request new mem granted now r p st')
  then show ?case using OpenSecureChannel_inv [OF open_channel.IH open_channel.hyps(2-4), of mem granted now] by auto
next
  case (close_channel st i st')
  then show ?case using close_inv [of st i] by (auto simp: Service_CloseSecureChannel_def)
next
  case (create_session st new cfg mem granted guid now a req r s st')
  then obtain ch where "chans st a = Some ch" by (auto simp: Service_CreateSession_def bind_eq_Some_conv)
  then show ?case
    using CreateSession_inv [OF create_session.IH _ create_session.hyps(2), of a ch cfg mem granted guid now req] create_session.hyps(3)
    by auto
next
  case (activate_session st a cfg granted now token user r st')
  then obtain ch where ch: "chans st a = Some ch" by auto
  show ?case
    using ActivateSession_cases [OF activate_session.IH ch, of cfg granted now token user] activate_session
    by (metis Pair_inject option.inject)
next
  case (close_session st s r st')
  then obtain se :: UA_Session where "UA_SessionManager_removeSession st (authenticationToken se) = Some (r, st')"
    by (auto simp: Service_CloseSession_def bind_eq_Some_conv)
  then show ?case using removeSession_inv [OF close_session.IH, of "authenticationToken se"] by auto
next
  case (clean_sessions st now st')
  then show ?case using cleanupSessions_inv [of st now] by auto
next
  case (clean_channels st now st')
  then show ?case using cleanupChannels_inv [of st now] by auto
qed (simp_all add: start_inv new_connection_inv)

section \<open>Shutdown\<close>

lemma free_sessions_linked:
  assumes "linked st" "distinct ss" "set ss \<subseteq> dom (sess st)"
  shows "\<exists>st'. free_sessions ss st = Some st' \<and> linked st' \<and> dom (sess st') = dom (sess st) - set ss \<and> dom (chans st') = dom (chans st)"
  using assms
proof (induction ss arbitrary: st)
  case (Cons s ss)
  then obtain se where "sess st s = Some se" by auto
  then have free: "free_session st s = Some (session_gone st s)"
    using Cons.prems by (simp add: linked_def free_session_eq)
  have dom: "dom (sess (session_gone st s)) = dom (sess st) - {s}" "dom (chans (session_gone st s)) = dom (chans st)"
    by (auto simp: session_gone_def)
  have "set ss \<subseteq> dom (sess (session_gone st s))" using Cons.prems(2,3) unfolding dom(1) by auto
  then show ?case
    using Cons.IH [of "session_gone st s"] Cons.prems(1,2) free dom session_gone_linked [of st s] by (auto simp: set_diff_eq)
qed simp

lemma free_channels_linked:
  assumes "linked st" "distinct as" "set as \<subseteq> dom (chans st)"
  shows "\<exists>st'. free_channels as st = Some st' \<and> linked st' \<and> dom (chans st') = dom (chans st) - set as \<and> dom (sess st') = dom (sess st)"
  using assms
proof (induction as arbitrary: st)
  case (Cons a as)
  then obtain ch where "chans st a = Some ch" by auto
  then have free: "free_channel st a = Some (channel_gone st a)"
    using Cons.prems by (simp add: linked_def free_channel_eq)
  have dom: "dom (chans (channel_gone st a)) = dom (chans st) - {a}" "dom (sess (channel_gone st a)) = dom (sess st)"
    by (auto simp: channel_gone_def)
  have "set as \<subseteq> dom (chans (channel_gone st a))" using Cons.prems(2,3) unfolding dom(1) by auto
  then show ?case
    using Cons.IH [of "channel_gone st a"] Cons.prems(1,2) free dom channel_gone_linked [of st a] by (auto simp: set_diff_eq)
qed simp

lemma shutdown_frees_all:
  assumes "linked st"
  shows "\<exists>st1 st2. UA_SessionManager_deleteMembers st = Some st1 \<and> UA_SecureChannelManager_deleteMembers st1 = Some st2 \<and>
    sess st2 = Map.empty \<and> chans st2 = Map.empty"
proof -
  obtain st1 where st1: "UA_SessionManager_deleteMembers st = Some st1" "linked st1" "dom (sess st1) = {}"
    using free_sessions_linked [of st "sessions (sessionManager st)"] assms
    by (auto simp: UA_SessionManager_deleteMembers_def linked_def managed_def)
  moreover obtain st2 where "UA_SecureChannelManager_deleteMembers st1 = Some st2" "dom (chans st2) = {}" "dom (sess st2) = dom (sess st1)"
    using free_channels_linked [of st1 "channels (secureChannelManager st1)"] st1(2)
    by (auto simp: UA_SecureChannelManager_deleteMembers_def linked_def managed_def)
  ultimately show ?thesis by (metis dom_eq_empty_conv)
qed

text \<open>An example state: one connection with a channel and two sessions on it, one of them expired at time 7.\<close>

definition example_state :: comm where
  "example_state =
     \<lparr>conns = Map.empty(0 \<mapsto> UA_Connection_init\<lparr>c_channel := Some 0\<rparr>),
      chans = Map.empty(0 \<mapsto> UA_SecureChannel_init\<lparr>sc_connection := Some 0, sc_sessions := [1, 0],
        securityToken := \<lparr>channelId = 1, tokenId = 1, createdAt = 5, revisedLifetime = 600\<rparr>\<rparr>),
      sess = Map.empty(0 \<mapsto> UA_Session_init\<lparr>authenticationToken := UA_NODEID_NUMERIC 1 8, timeout := 100, validTill := 900, s_channel := Some 0\<rparr>,
         1 \<mapsto> UA_Session_init\<lparr>authenticationToken := UA_NODEID_NUMERIC 1 9, timeout := 100, validTill := 6, s_channel := Some 0\<rparr>),
      secureChannelManager = (UA_SecureChannelManager_init 3 60000 1 1)\<lparr>channels := [0], currentChannelCount := 1\<rparr>,
      sessionManager = (UA_SessionManager_init 2 3600 5)\<lparr>sessions := [1, 0], currentSessionCount := 2\<rparr>\<rparr>"

lemma example_state_inv: "comm_inv example_state"
  by (auto simp: comm_inv_def conn_links_def sess_links_def managed_def counted_def example_state_def
      UA_SecureChannelManager_init_def UA_SessionManager_init_def UA_Session_init_def UA_SecureChannel_init_def
      UA_Connection_init_def split: if_splits)

section \<open>Properties\<close>



text \<open>
  C12: The session clean-up keeps exactly the sessions that are valid at the given time, unchanged;
  the channel clean-up removes exactly the channels whose token has expired or that have no
  connection, and activates the renewed token of the others. Both keep the invariant.
\<close>

theorem cleanup_removes_expired:
  assumes "comm_inv st"
  shows "\<exists>st1 st2. UA_SessionManager_cleanupTimedOut now st = Some st1 \<and> comm_inv st1 \<and>
    (\<forall>s se. sess st1 s = Some se \<longleftrightarrow> sess st s = Some se \<and> sint now \<le> sint (validTill se)) \<and>
    UA_SecureChannelManager_cleanupTimedOut now st1 = Some st2 \<and> comm_inv st2 \<and> dom (sess st2) = dom (sess st1) \<and>
    (\<forall>a. a \<in> dom (chans st2) \<longleftrightarrow> (\<exists>ch. chans st1 a = Some ch \<and> sint now \<le> sint (token_timeout (securityToken ch)) \<and> sc_connection ch \<noteq> None)) \<and>
    (\<forall>a ch ch'. chans st1 a = Some ch \<longrightarrow> chans st2 a = Some ch' \<longrightarrow> tokenId (nextSecurityToken ch) \<noteq> 0 \<longrightarrow>
       securityToken ch' = nextSecurityToken ch \<and> tokenId (nextSecurityToken ch') = 0)"
proof -
  obtain st1 where st1: "UA_SessionManager_cleanupTimedOut now st = Some st1" "comm_inv st1"
    "sess st1 = (\<lambda>s. case sess st s of Some se \<Rightarrow> if session_expired now se then None else Some se | None \<Rightarrow> None)"
    using cleanupSessions_inv [OF assms] by blast
  obtain st2 where st2: "UA_SecureChannelManager_cleanupTimedOut now st1 = Some st2" "comm_inv st2" "dom (sess st2) = dom (sess st1)"
    "chans st2 = (\<lambda>a. Option.bind (chans st1 a) (cleaned now))"
    using cleanupChannels_inv [OF st1(2)] by blast
  have "\<forall>s se. sess st1 s = Some se \<longleftrightarrow> sess st s = Some se \<and> sint now \<le> sint (validTill se)"
    unfolding st1(3) by (auto simp: session_expired_def not_less split: option.splits)
  moreover have "\<forall>a. a \<in> dom (chans st2) \<longleftrightarrow>
      (\<exists>ch. chans st1 a = Some ch \<and> sint now \<le> sint (token_timeout (securityToken ch)) \<and> sc_connection ch \<noteq> None)"
    unfolding st2(4) by (auto simp: cleaned_def channel_dead_def not_less bind_eq_Some_conv split: if_splits)
  moreover have "\<forall>a ch ch'. chans st1 a = Some ch \<longrightarrow> chans st2 a = Some ch' \<longrightarrow> tokenId (nextSecurityToken ch) \<noteq> 0 \<longrightarrow>
       securityToken ch' = nextSecurityToken ch \<and> tokenId (nextSecurityToken ch') = 0"
    unfolding st2(4)
    by (auto simp: cleaned_def UA_SecureChannel_revolveTokens_def UA_ChannelSecurityToken_init_def split: if_splits)
  ultimately show ?thesis using st1(1,2) st2(1-3) by blast
qed

theorem cleanup_removes_expired_witness:
  "\<exists>st1. UA_SessionManager_cleanupTimedOut 7 example_state = Some st1 \<and> sess st1 0 \<noteq> None \<and> sess st1 1 = None"
proof -
  from cleanup_removes_expired [OF example_state_inv, of 7] obtain st1 where
    st1: "UA_SessionManager_cleanupTimedOut 7 example_state = Some st1"
      "\<forall>s se. sess st1 s = Some se \<longleftrightarrow> sess example_state s = Some se \<and> sint (7 :: UA_DateTime) \<le> sint (validTill se)" by blast
  have "sess st1 0 \<noteq> None" using st1(2) by (auto simp: example_state_def UA_Session_init_def)
  moreover have "sess st1 1 \<noteq> Some se" for se
    using st1(2) by (auto simp: example_state_def UA_Session_init_def)
  ultimately show ?thesis using st1(1) by blast
qed

text \<open>The credentials the server accepts, said of the bytes of the token.\<close>

fun credentials_ok :: "server_config \<Rightarrow> identity_token \<Rightarrow> bool" where
  "credentials_ok cfg (AnonymousIdentityToken policyId) \<longleftrightarrow>
     Login_enableAnonymous cfg \<and> (policyId = Null_ptr \<or> content policyId = ANONYMOUS_POLICY)"
| "credentials_ok cfg (UserNameIdentityToken policyId userName password encryptionAlgorithm) \<longleftrightarrow>
     Login_enableUsernamePassword cfg \<and> content policyId = USERNAME_POLICY \<and> content encryptionAlgorithm = [] \<and>
     (content userName, content password) \<in> set (Login_logins cfg)"
| "credentials_ok cfg _ \<longleftrightarrow> False"

lemma activate_good_credentials:
  assumes "Service_ActivateSession cfg granted now st a token user = Some (UA_STATUSCODE_GOOD, st')"
  shows "credentials_ok cfg user"
  using assms
  by (cases user)
    (auto simp: Service_ActivateSession_def UA_String_equal_content list_ex_iff bind_eq_Some_conv status_defs
      split: option.splits if_splits)

text \<open>
  C13: Activating a session succeeds only with an authentication token of a session that has not
  timed out and with credentials the server is configured to accept: the anonymous policy where it
  is enabled, or a registered pair of user name and password. The session is then activated, its
  lifetime starts again and, if memory suffices, it belongs to the channel of the request. Any other
  request changes nothing.
\<close>

theorem activation_authenticated:
  assumes "comm_inv st" "chans st a = Some ch"
  shows "\<exists>r st'. Service_ActivateSession cfg granted now st a token user = Some (r, st') \<and> comm_inv st' \<and>
    (if r = UA_STATUSCODE_GOOD
     then credentials_ok cfg user \<and> (\<exists>s se se'. sess st s = Some se \<and> UA_NodeId_equal (authenticationToken se) token \<and>
       sint now \<le> sint (validTill se) \<and> sess st' s = Some se' \<and> activated se' \<and> validTill se' = now + timeout se * 10000 \<and>
       (granted \<longrightarrow> s_channel se' = Some a))
     else st' = st)"
  using assms
proof (cases rule: ActivateSession_cases [where cfg = cfg and granted = granted and now = now and token = token and user = user])
  case (error r)
  then show ?thesis using assms(1) by simp
next
  case (ok s se st' c)
  let ?se' = "UA_Session_updateLifetime now (se\<lparr>s_channel := c, activated := True\<rparr>)"
  have "sess st' s = Some ?se' \<and> activated ?se' \<and> validTill ?se' = now + timeout se * 10000 \<and> (granted \<longrightarrow> s_channel ?se' = Some a)"
    using ok by (simp add: UA_Session_updateLifetime_def)
  with ok(3-5) have "\<exists>s se se'. sess st s = Some se \<and> UA_NodeId_equal (authenticationToken se) token \<and>
      sint now \<le> sint (validTill se) \<and> sess st' s = Some se' \<and> activated se' \<and> validTill se' = now + timeout se * 10000 \<and>
      (granted \<longrightarrow> s_channel se' = Some a)"
    by (intro exI [of _ s] exI [of _ se] exI [of _ ?se'] conjI) simp_all
  then show ?thesis
    using ok(1,2) activate_good_credentials [OF ok(1)] by simp
qed

theorem activation_authenticated_witness:
  "\<exists>cfg st'. Service_ActivateSession cfg True 7 example_state 0 (UA_NODEID_NUMERIC 1 8) (AnonymousIdentityToken Null_ptr) =
     Some (UA_STATUSCODE_GOOD, st') \<and> comm_inv st'"
proof -
  let ?cfg = "\<lparr>endpointsCopy = 0, serverCertificate = None, Login_enableAnonymous = True, Login_enableUsernamePassword = False, Login_logins = []\<rparr>"
  obtain ch where ch: "chans example_state 0 = Some ch" by (simp add: example_state_def)
  have "fst (the (Service_ActivateSession ?cfg True 7 example_state 0 (UA_NODEID_NUMERIC 1 8) (AnonymousIdentityToken Null_ptr))) = UA_STATUSCODE_GOOD"
    by (simp add: Service_ActivateSession_def UA_SessionManager_getSession_def example_state_def UA_SessionManager_init_def
        UA_Session_init_def UA_NODEID_NUMERIC_def UA_NodeId_equal_def activate_on_channel_def UA_SecureChannel_attachSession_def)
  moreover obtain r st' where "Service_ActivateSession ?cfg True 7 example_state 0 (UA_NODEID_NUMERIC 1 8) (AnonymousIdentityToken Null_ptr) =
      Some (r, st')" "comm_inv st'"
    using activation_authenticated [OF example_state_inv ch, of ?cfg True 7 "UA_NODEID_NUMERIC 1 8" "AnonymousIdentityToken Null_ptr"] by blast
  ultimately show ?thesis by (intro exI [of _ ?cfg] exI [of _ st']) simp
qed

text \<open>
  A session that could not be set up leaves nothing behind: when the service reports an error
  the set of sessions is the one before, otherwise exactly the new session was added. The
  invariant is kept in both cases.
\<close>

theorem create_session_atomic:
  assumes "comm_inv st" "chans st a = Some ch" "sess st new = None"
  shows "\<exists>r s st'. Service_CreateSession cfg mem granted new guid now st a request = Some (r, s, st') \<and> comm_inv st' \<and>
    (if r = UA_STATUSCODE_GOOD then s = Some new \<and> sess st' new \<noteq> None else s = None \<and> sess st' = sess st)"
  using CreateSession_inv [OF assms, of cfg mem granted guid now request] by auto

theorem create_session_atomic_witness:
  "\<forall>guid. \<exists>r s st'. Service_CreateSession \<lparr>endpointsCopy = 0, serverCertificate = Some (Block [1]), Login_enableAnonymous = True,
       Login_enableUsernamePassword = False, Login_logins = []\<rparr> (\<lambda>n. n > 1) True 5 guid 7 example_state 0
       \<lparr>cs_sessionName = Block [65, 66], cs_requestedSessionTimeout = Some 3, cs_maxResponseMessageSize = 0\<rparr> = Some (r, s, st') \<and> comm_inv st'"
proof -
  obtain ch where ch: "chans example_state 0 = Some ch" by (simp add: example_state_def)
  have new: "sess example_state 5 = None" by (simp add: example_state_def)
  show ?thesis using create_session_atomic [OF example_state_inv ch new] by blast
qed

lemma sint_ucast_64: "sint (ucast (x :: 32 word) :: 64 word) = uint x"
proof -
  have "uint x < 4294967296" "0 \<le> uint x" using uint_lt2p [of x] by simp_all
  then have "- 9223372036854775808 \<le> uint x" "uint x < 9223372036854775808" by linarith+
  then show ?thesis
    by (simp add: sint_uint unsigned_ucast_eq signed_take_bit_int_eq_self_iff take_bit_int_eq_self_iff
        take_bit_int_eq_self signed_take_bit_int_eq_self)
qed

lemma ucast_32_64_32: "(ucast (ucast (x :: 32 word) :: 64 word) :: 32 word) = x"
  by (simp add: ucast_up_ucast_id is_up.rep_eq)



text \<open>
  C15: A second channel opened on a connection that already has one: the request is granted,
  the connection forgets the first channel, but the first channel keeps its pointer to the
  connection. Once the connection is dropped and freed, removing the first channel follows the
  dangling pointer.
\<close>

theorem second_channel_dangles:
  assumes "comm_inv st" "conns st k = Some c" "c_channel c = Some a" "chans st new = None"
    and "requestType request = UA_SECURITYTOKENREQUESTTYPE_ISSUE" "securityMode request = UA_MESSAGESECURITYMODE_NONE"
    and "currentChannelCount (secureChannelManager st) < maxChannelCount (secureChannelManager st)"
  shows "\<exists>p st1 st2. Service_OpenSecureChannel mem True new now st k request = Some (UA_STATUSCODE_GOOD, p, st1) \<and>
    \<not> comm_inv st1 \<and> drop_connection st1 k = Some st2 \<and> chans st2 a \<noteq> None \<and> free_channel st2 a = None"
proof -
  obtain ch where ch: "chans st a = Some ch" "sc_connection ch = Some k"
    using assms(1-3) unfolding comm_inv_def conn_links_def by blast
  have ne: "a \<noteq> new" using ch assms(4) by auto
  have "\<not> comm_inv st1" if c1: "chans st1 a = Some ch" and c2: "conns st1 k = Some (c\<lparr>c_channel := Some new\<rparr>)" for st1
  proof
    assume "comm_inv st1"
    then obtain c' where "conns st1 k = Some c'" "c_channel c' = Some a"
      unfolding comm_inv_def conn_links_def using c1 ch(2) by blast
    then show False using c2 ne by auto
  qed
  then show ?thesis
    using assms ch ne
    by (simp add: Service_OpenSecureChannel_def UA_SecureChannelManager_open_def Let_def UA_Connection_attachSecureChannel_def
        UA_SecureChannel_init_def drop_connection_def UA_Connection_detachSecureChannel_def free_channel_def
        UA_SecureChannel_deleteMembersCleanup_def)
qed

theorem second_channel_dangles_witness:
  "\<exists>p st1 st2. Service_OpenSecureChannel (\<lambda>_. True) True 1 7 example_state 0
      \<lparr>requestType = UA_SECURITYTOKENREQUESTTYPE_ISSUE, securityMode = UA_MESSAGESECURITYMODE_NONE, requestedLifetime = 100, r_clientNonce = Null_ptr\<rparr>
      = Some (UA_STATUSCODE_GOOD, p, st1) \<and> drop_connection st1 0 = Some st2 \<and> free_channel st2 0 = None"
proof -
  have c: "conns example_state 0 = Some (UA_Connection_init\<lparr>c_channel := Some 0\<rparr>)" "chans example_state 1 = None"
    "currentChannelCount (secureChannelManager example_state) < maxChannelCount (secureChannelManager example_state)"
    by (simp_all add: example_state_def UA_SecureChannelManager_init_def)
  show ?thesis
    using second_channel_dangles [OF example_state_inv c(1) _ c(2) _ _ c(3), of 0 "\<lparr>requestType = UA_SECURITYTOKENREQUESTTYPE_ISSUE,
      securityMode = UA_MESSAGESECURITYMODE_NONE, requestedLifetime = 100, r_clientNonce = Null_ptr\<rparr>" "\<lambda>_. True" 7]
    by auto
qed

end
