(* ===== verification/Ua_TypeTable.thy ===== *)
theory Ua_TypeTable
  imports Ua_Types
begin

text \<open>
  The type descriptions that drive the generic encoding, decoding, copying and clean-up of
  structures: \<open>UA_TYPES\<close> of \<^verbatim>\<open>build/src_generated/ua_types_generated.c\<close>, entry by entry.

  An entry holds the numeric part of the type's node id (namespace 0), the size of the C type in
  memory (on a machine with 64-bit pointers), the three flags, the index that selects the
  functions of a builtin type, and the members: the index of the member's type and whether it is
  an array. Padding is a matter of the memory layout and every member refers to this table
  (\<open>namespaceZero\<close>), so both are left out. The names of the indices are those of
  \<^verbatim>\<open>ua_types_generated.h\<close>.
\<close>

datatype UA_DataType = DataType
  (typeId: UA_UInt32) (memSize: nat) (builtin: bool) (fixedSize: bool) (zeroCopyable: bool) (typeIndex: nat)
  (members: "(nat \<times> bool) list")

section \<open>Indices\<close>

abbreviation (input) UA_TYPES_BOOLEAN :: nat where "UA_TYPES_BOOLEAN \<equiv> 0"
abbreviation (input) UA_TYPES_SBYTE :: nat where "UA_TYPES_SBYTE \<equiv> 1"
abbreviation (input) UA_TYPES_BYTE :: nat where "UA_TYPES_BYTE \<equiv> 2"
abbreviation (input) UA_TYPES_INT16 :: nat where "UA_TYPES_INT16 \<equiv> 3"
abbreviation (input) UA_TYPES_UINT16 :: nat where "UA_TYPES_UINT16 \<equiv> 4"
abbreviation (input) UA_TYPES_INT32 :: nat where "UA_TYPES_INT32 \<equiv> 5"
abbreviation (input) UA_TYPES_UINT32 :: nat where "UA_TYPES_UINT32 \<equiv> 6"
abbreviation (input) UA_TYPES_INT64 :: nat where "UA_TYPES_INT64 \<equiv> 7"
abbreviation (input) UA_TYPES_UINT64 :: nat where "UA_TYPES_UINT64 \<equiv> 8"
abbreviation (input) UA_TYPES_FLOAT :: nat where "UA_TYPES_FLOAT \<equiv> 9"
abbreviation (input) UA_TYPES_DOUBLE :: nat where "UA_TYPES_DOUBLE \<equiv> 10"
abbreviation (input) UA_TYPES_STRING :: nat where "UA_TYPES_STRING \<equiv> 11"
abbreviation (input) UA_TYPES_DATETIME :: nat where "UA_TYPES_DATETIME \<equiv> 12"
abbreviation (input) UA_TYPES_GUID :: nat where "UA_TYPES_GUID \<equiv> 13"
abbreviation (input) UA_TYPES_BYTESTRING :: nat where "UA_TYPES_BYTESTRING \<equiv> 14"
abbreviation (input) UA_TYPES_XMLELEMENT :: nat where "UA_TYPES_XMLELEMENT \<equiv> 15"
abbreviation (input) UA_TYPES_NODEID :: nat where "UA_TYPES_NODEID \<equiv> 16"
abbreviation (input) UA_TYPES_EXPANDEDNODEID :: nat where "UA_TYPES_EXPANDEDNODEID \<equiv> 17"
abbreviation (input) UA_TYPES_STATUSCODE :: nat where "UA_TYPES_STATUSCODE \<equiv> 18"
abbreviation (input) UA_TYPES_QUALIFIEDNAME :: nat where "UA_TYPES_QUALIFIEDNAME \<equiv> 19"
abbreviation (input) UA_TYPES_LOCALIZEDTEXT :: nat where "UA_TYPES_LOCALIZEDTEXT \<equiv> 20"
abbreviation (input) UA_TYPES_EXTENSIONOBJECT :: nat where "UA_TYPES_EXTENSIONOBJECT \<equiv> 21"
abbreviation (input) UA_TYPES_DATAVALUE :: nat where "UA_TYPES_DATAVALUE \<equiv> 22"
abbreviation (input) UA_TYPES_VARIANT :: nat where "UA_TYPES_VARIANT \<equiv> 23"
abbreviation (input) UA_TYPES_DIAGNOSTICINFO :: nat where "UA_TYPES_DIAGNOSTICINFO \<equiv> 24"
abbreviation (input) UA_TYPES_IDTYPE :: nat where "UA_TYPES_IDTYPE \<equiv> 25"
abbreviation (input) UA_TYPES_NODECLASS :: nat where "UA_TYPES_NODECLASS \<equiv> 26"
abbreviation (input) UA_TYPES_REFERENCENODE :: nat where "UA_TYPES_REFERENCENODE \<equiv> 27"
abbreviation (input) UA_TYPES_ARGUMENT :: nat where "UA_TYPES_ARGUMENT \<equiv> 28"
abbreviation (input) UA_TYPES_APPLICATIONTYPE :: nat where "UA_TYPES_APPLICATIONTYPE \<equiv> 29"
abbreviation (input) UA_TYPES_APPLICATIONDESCRIPTION :: nat where "UA_TYPES_APPLICATIONDESCRIPTION \<equiv> 30"
abbreviation (input) UA_TYPES_REQUESTHEADER :: nat where "UA_TYPES_REQUESTHEADER \<equiv> 31"
abbreviation (input) UA_TYPES_RESPONSEHEADER :: nat where "UA_TYPES_RESPONSEHEADER \<equiv> 32"
abbreviation (input) UA_TYPES_SERVICEFAULT :: nat where "UA_TYPES_SERVICEFAULT \<equiv> 33"
abbreviation (input) UA_TYPES_FINDSERVERSREQUEST :: nat where "UA_TYPES_FINDSERVERSREQUEST \<equiv> 34"
abbreviation (input) UA_TYPES_FINDSERVERSRESPONSE :: nat where "UA_TYPES_FINDSERVERSRESPONSE \<equiv> 35"
abbreviation (input) UA_TYPES_MESSAGESECURITYMODE :: nat where "UA_TYPES_MESSAGESECURITYMODE \<equiv> 36"
abbreviation (input) UA_TYPES_USERTOKENTYPE :: nat where "UA_TYPES_USERTOKENTYPE \<equiv> 37"
abbreviation (input) UA_TYPES_USERTOKENPOLICY :: nat where "UA_TYPES_USERTOKENPOLICY \<equiv> 38"
abbreviation (input) UA_TYPES_ENDPOINTDESCRIPTION :: nat where "UA_TYPES_ENDPOINTDESCRIPTION \<equiv> 39"
abbreviation (input) UA_TYPES_GETENDPOINTSREQUEST :: nat where "UA_TYPES_GETENDPOINTSREQUEST \<equiv> 40"
abbreviation (input) UA_TYPES_GETENDPOINTSRESPONSE :: nat where "UA_TYPES_GETENDPOINTSRESPONSE \<equiv> 41"
abbreviation (input) UA_TYPES_SECURITYTOKENREQUESTTYPE :: nat where "UA_TYPES_SECURITYTOKENREQUESTTYPE \<equiv> 42"
abbreviation (input) UA_TYPES_CHANNELSECURITYTOKEN :: nat where "UA_TYPES_CHANNELSECURITYTOKEN \<equiv> 43"
abbreviation (input) UA_TYPES_OPENSECURECHANNELREQUEST :: nat where "UA_TYPES_OPENSECURECHANNELREQUEST \<equiv> 44"
abbreviation (input) UA_TYPES_OPENSECURECHANNELRESPONSE :: nat where "UA_TYPES_OPENSECURECHANNELRESPONSE \<equiv> 45"
abbreviation (input) UA_TYPES_CLOSESECURECHANNELREQUEST :: nat where "UA_TYPES_CLOSESECURECHANNELREQUEST \<equiv> 46"
abbreviation (input) UA_TYPES_CLOSESECURECHANNELRESPONSE :: nat where "UA_TYPES_CLOSESECURECHANNELRESPONSE \<equiv> 47"
abbreviation (input) UA_TYPES_SIGNEDSOFTWARECERTIFICATE :: nat where "UA_TYPES_SIGNEDSOFTWARECERTIFICATE \<equiv> 48"
abbreviation (input) UA_TYPES_SIGNATUREDATA :: nat where "UA_TYPES_SIGNATUREDATA \<equiv> 49"
abbreviation (input) UA_TYPES_CREATESESSIONREQUEST :: nat where "UA_TYPES_CREATESESSIONREQUEST \<equiv> 50"
abbreviation (input) UA_TYPES_CREATESESSIONRESPONSE :: nat where "UA_TYPES_CREATESESSIONRESPONSE \<equiv> 51"
abbreviation (input) UA_TYPES_USERIDENTITYTOKEN :: nat where "UA_TYPES_USERIDENTITYTOKEN \<equiv> 52"
abbreviation (input) UA_TYPES_ANONYMOUSIDENTITYTOKEN :: nat where "UA_TYPES_ANONYMOUSIDENTITYTOKEN \<equiv> 53"
abbreviation (input) UA_TYPES_USERNAMEIDENTITYTOKEN :: nat where "UA_TYPES_USERNAMEIDENTITYTOKEN \<equiv> 54"
abbreviation (input) UA_TYPES_ACTIVATESESSIONREQUEST :: nat where "UA_TYPES_ACTIVATESESSIONREQUEST \<equiv> 55"
abbreviation (input) UA_TYPES_ACTIVATESESSIONRESPONSE :: nat where "UA_TYPES_ACTIVATESESSIONRESPONSE \<equiv> 56"
abbreviation (input) UA_TYPES_CLOSESESSIONREQUEST :: nat where "UA_TYPES_CLOSESESSIONREQUEST \<equiv> 57"
abbreviation (input) UA_TYPES_CLOSESESSIONRESPONSE :: nat where "UA_TYPES_CLOSESESSIONRESPONSE \<equiv> 58"
abbreviation (input) UA_TYPES_NODEATTRIBUTESMASK :: nat where "UA_TYPES_NODEATTRIBUTESMASK \<equiv> 59"
abbreviation (input) UA_TYPES_NODEATTRIBUTES :: nat where "UA_TYPES_NODEATTRIBUTES \<equiv> 60"
abbreviation (input) UA_TYPES_OBJECTATTRIBUTES :: nat where "UA_TYPES_OBJECTATTRIBUTES \<equiv> 61"
abbreviation (input) UA_TYPES_VARIABLEATTRIBUTES :: nat where "UA_TYPES_VARIABLEATTRIBUTES \<equiv> 62"
abbreviation (input) UA_TYPES_METHODATTRIBUTES :: nat where "UA_TYPES_METHODATTRIBUTES \<equiv> 63"
abbreviation (input) UA_TYPES_OBJECTTYPEATTRIBUTES :: nat where "UA_TYPES_OBJECTTYPEATTRIBUTES \<equiv> 64"
abbreviation (input) UA_TYPES_VARIABLETYPEATTRIBUTES :: nat where "UA_TYPES_VARIABLETYPEATTRIBUTES \<equiv> 65"
abbreviation (input) UA_TYPES_REFERENCETYPEATTRIBUTES :: nat where "UA_TYPES_REFERENCETYPEATTRIBUTES \<equiv> 66"
abbreviation (input) UA_TYPES_DATATYPEATTRIBUTES :: nat where "UA_TYPES_DATATYPEATTRIBUTES \<equiv> 67"
abbreviation (input) UA_TYPES_VIEWATTRIBUTES :: nat where "UA_TYPES_VIEWATTRIBUTES \<equiv> 68"
abbreviation (input) UA_TYPES_ADDNODESITEM :: nat where "UA_TYPES_ADDNODESITEM \<equiv> 69"
abbreviation (input) UA_TYPES_ADDNODESRESULT :: nat where "UA_TYPES_ADDNODESRESULT \<equiv> 70"
abbreviation (input) UA_TYPES_ADDNODESREQUEST :: nat where "UA_TYPES_ADDNODESREQUEST \<equiv> 71"
abbreviation (input) UA_TYPES_ADDNODESRESPONSE :: nat where "UA_TYPES_ADDNODESRESPONSE \<equiv> 72"
abbreviation (input) UA_TYPES_ADDREFERENCESITEM :: nat where "UA_TYPES_ADDREFERENCESITEM \<equiv> 73"
abbreviation (input) UA_TYPES_ADDREFERENCESREQUEST :: nat where "UA_TYPES_ADDREFERENCESREQUEST \<equiv> 74"
abbreviation (input) UA_TYPES_ADDREFERENCESRESPONSE :: nat where "UA_TYPES_ADDREFERENCESRESPONSE \<equiv> 75"
abbreviation (input) UA_TYPES_DELETENODESITEM :: nat where "UA_TYPES_DELETENODESITEM \<equiv> 76"
abbreviation (input) UA_TYPES_DELETENODESREQUEST :: nat where "UA_TYPES_DELETENODESREQUEST \<equiv> 77"
abbreviation (input) UA_TYPES_DELETENODESRESPONSE :: nat where "UA_TYPES_DELETENODESRESPONSE \<equiv> 78"
abbreviation (input) UA_TYPES_DELETEREFERENCESITEM :: nat where "UA_TYPES_DELETEREFERENCESITEM \<equiv> 79"
abbreviation (input) UA_TYPES_DELETEREFERENCESREQUEST :: nat where "UA_TYPES_DELETEREFERENCESREQUEST \<equiv> 80"
abbreviation (input) UA_TYPES_DELETEREFERENCESRESPONSE :: nat where "UA_TYPES_DELETEREFERENCESRESPONSE \<equiv> 81"
abbreviation (input) UA_TYPES_BROWSEDIRECTION :: nat where "UA_TYPES_BROWSEDIRECTION \<equiv> 82"
abbreviation (input) UA_TYPES_VIEWDESCRIPTION :: nat where "UA_TYPES_VIEWDESCRIPTION \<equiv> 83"
abbreviation (input) UA_TYPES_BROWSEDESCRIPTION :: nat where "UA_TYPES_BROWSEDESCRIPTION \<equiv> 84"
abbreviation (input) UA_TYPES_BROWSERESULTMASK :: nat where "UA_TYPES_BROWSERESULTMASK \<equiv> 85"
abbreviation (input) UA_TYPES_REFERENCEDESCRIPTION :: nat where "UA_TYPES_REFERENCEDESCRIPTION \<equiv> 86"
abbreviation (input) UA_TYPES_BROWSERESULT :: nat where "UA_TYPES_BROWSERESULT \<equiv> 87"
abbreviation (input) UA_TYPES_BROWSEREQUEST :: nat where "UA_TYPES_BROWSEREQUEST \<equiv> 88"
abbreviation (input) UA_TYPES_BROWSERESPONSE :: nat where "UA_TYPES_BROWSERESPONSE \<equiv> 89"
abbreviation (input) UA_TYPES_BROWSENEXTREQUEST :: nat where "UA_TYPES_BROWSENEXTREQUEST \<equiv> 90"
abbreviation (input) UA_TYPES_BROWSENEXTRESPONSE :: nat where "UA_TYPES_BROWSENEXTRESPONSE \<equiv> 91"
abbreviation (input) UA_TYPES_RELATIVEPATHELEMENT :: nat where "UA_TYPES_RELATIVEPATHELEMENT \<equiv> 92"
abbreviation (input) UA_TYPES_RELATIVEPATH :: nat where "UA_TYPES_RELATIVEPATH \<equiv> 93"
abbreviation (input) UA_TYPES_BROWSEPATH :: nat where "UA_TYPES_BROWSEPATH \<equiv> 94"
abbreviation (input) UA_TYPES_BROWSEPATHTARGET :: nat where "UA_TYPES_BROWSEPATHTARGET \<equiv> 95"
abbreviation (input) UA_TYPES_BROWSEPATHRESULT :: nat where "UA_TYPES_BROWSEPATHRESULT \<equiv> 96"
abbreviation (input) UA_TYPES_TRANSLATEBROWSEPATHSTONODEIDSREQUEST :: nat where "UA_TYPES_TRANSLATEBROWSEPATHSTONODEIDSREQUEST \<equiv> 97"
abbreviation (input) UA_TYPES_TRANSLATEBROWSEPATHSTONODEIDSRESPONSE :: nat where "UA_TYPES_TRANSLATEBROWSEPATHSTONODEIDSRESPONSE \<equiv> 98"
abbreviation (input) UA_TYPES_REGISTERNODESREQUEST :: nat where "UA_TYPES_REGISTERNODESREQUEST \<equiv> 99"
abbreviation (input) UA_TYPES_REGISTERNODESRESPONSE :: nat where "UA_TYPES_REGISTERNODESRESPONSE \<equiv> 100"
abbreviation (input) UA_TYPES_UNREGISTERNODESREQUEST :: nat where "UA_TYPES_UNREGISTERNODESREQUEST \<equiv> 101"
abbreviation (input) UA_TYPES_UNREGISTERNODESRESPONSE :: nat where "UA_TYPES_UNREGISTERNODESRESPONSE \<equiv> 102"
abbreviation (input) UA_TYPES_QUERYDATADESCRIPTION :: nat where "UA_TYPES_QUERYDATADESCRIPTION \<equiv> 103"
abbreviation (input) UA_TYPES_NODETYPEDESCRIPTION :: nat where "UA_TYPES_NODETYPEDESCRIPTION \<equiv> 104"
abbreviation (input) UA_TYPES_FILTEROPERATOR :: nat where "UA_TYPES_FILTEROPERATOR \<equiv> 105"
abbreviation (input) UA_TYPES_QUERYDATASET :: nat where "UA_TYPES_QUERYDATASET \<equiv> 106"
abbreviation (input) UA_TYPES_CONTENTFILTERELEMENT :: nat where "UA_TYPES_CONTENTFILTERELEMENT \<equiv> 107"
abbreviation (input) UA_TYPES_CONTENTFILTER :: nat where "UA_TYPES_CONTENTFILTER \<equiv> 108"
abbreviation (input) UA_TYPES_CONTENTFILTERELEMENTRESULT :: nat where "UA_TYPES_CONTENTFILTERELEMENTRESULT \<equiv> 109"
abbreviation (input) UA_TYPES_CONTENTFILTERRESULT :: nat where "UA_TYPES_CONTENTFILTERRESULT \<equiv> 110"
abbreviation (input) UA_TYPES_PARSINGRESULT :: nat where "UA_TYPES_PARSINGRESULT \<equiv> 111"
abbreviation (input) UA_TYPES_QUERYFIRSTREQUEST :: nat where "UA_TYPES_QUERYFIRSTREQUEST \<equiv> 112"
abbreviation (input) UA_TYPES_QUERYFIRSTRESPONSE :: nat where "UA_TYPES_QUERYFIRSTRESPONSE \<equiv> 113"
abbreviation (input) UA_TYPES_QUERYNEXTREQUEST :: nat where "UA_TYPES_QUERYNEXTREQUEST \<equiv> 114"
abbreviation (input) UA_TYPES_QUERYNEXTRESPONSE :: nat where "UA_TYPES_QUERYNEXTRESPONSE \<equiv> 115"
abbreviation (input) UA_TYPES_TIMESTAMPSTORETURN :: nat where "UA_TYPES_TIMESTAMPSTORETURN \<equiv> 116"
abbreviation (input) UA_TYPES_READVALUEID :: nat where "UA_TYPES_READVALUEID \<equiv> 117"
abbreviation (input) UA_TYPES_READREQUEST :: nat where "UA_TYPES_READREQUEST \<equiv> 118"
abbreviation (input) UA_TYPES_READRESPONSE :: nat where "UA_TYPES_READRESPONSE \<equiv> 119"
abbreviation (input) UA_TYPES_WRITEVALUE :: nat where "UA_TYPES_WRITEVALUE \<equiv> 120"
abbreviation (input) UA_TYPES_WRITEREQUEST :: nat where "UA_TYPES_WRITEREQUEST \<equiv> 121"
abbreviation (input) UA_TYPES_WRITERESPONSE :: nat where "UA_TYPES_WRITERESPONSE \<equiv> 122"
abbreviation (input) UA_TYPES_CALLMETHODREQUEST :: nat where "UA_TYPES_CALLMETHODREQUEST \<equiv> 123"
abbreviation (input) UA_TYPES_CALLMETHODRESULT :: nat where "UA_TYPES_CALLMETHODRESULT \<equiv> 124"
abbreviation (input) UA_TYPES_CALLREQUEST :: nat where "UA_TYPES_CALLREQUEST \<equiv> 125"
abbreviation (input) UA_TYPES_CALLRESPONSE :: nat where "UA_TYPES_CALLRESPONSE \<equiv> 126"
abbreviation (input) UA_TYPES_MONITORINGMODE :: nat where "UA_TYPES_MONITORINGMODE \<equiv> 127"
abbreviation (input) UA_TYPES_MONITORINGPARAMETERS :: nat where "UA_TYPES_MONITORINGPARAMETERS \<equiv> 128"
abbreviation (input) UA_TYPES_MONITOREDITEMCREATEREQUEST :: nat where "UA_TYPES_MONITOREDITEMCREATEREQUEST \<equiv> 129"
abbreviation (input) UA_TYPES_MONITOREDITEMCREATERESULT :: nat where "UA_TYPES_MONITOREDITEMCREATERESULT \<equiv> 130"
abbreviation (input) UA_TYPES_CREATEMONITOREDITEMSREQUEST :: nat where "UA_TYPES_CREATEMONITOREDITEMSREQUEST \<equiv> 131"
abbreviation (input) UA_TYPES_CREATEMONITOREDITEMSRESPONSE :: nat where "UA_TYPES_CREATEMONITOREDITEMSRESPONSE \<equiv> 132"
abbreviation (input) UA_TYPES_CREATESUBSCRIPTIONREQUEST :: nat where "UA_TYPES_CREATESUBSCRIPTIONREQUEST \<equiv> 133"
abbreviation (input) UA_TYPES_CREATESUBSCRIPTIONRESPONSE :: nat where "UA_TYPES_CREATESUBSCRIPTIONRESPONSE \<equiv> 134"
abbreviation (input) UA_TYPES_SETPUBLISHINGMODEREQUEST :: nat where "UA_TYPES_SETPUBLISHINGMODEREQUEST \<equiv> 135"
abbreviation (input) UA_TYPES_SETPUBLISHINGMODERESPONSE :: nat where "UA_TYPES_SETPUBLISHINGMODERESPONSE \<equiv> 136"
abbreviation (input) UA_TYPES_NOTIFICATIONMESSAGE :: nat where "UA_TYPES_NOTIFICATIONMESSAGE \<equiv> 137"
abbreviation (input) UA_TYPES_SUBSCRIPTIONACKNOWLEDGEMENT :: nat where "UA_TYPES_SUBSCRIPTIONACKNOWLEDGEMENT \<equiv> 138"
abbreviation (input) UA_TYPES_PUBLISHREQUEST :: nat where "UA_TYPES_PUBLISHREQUEST \<equiv> 139"
abbreviation (input) UA_TYPES_PUBLISHRESPONSE :: nat where "UA_TYPES_PUBLISHRESPONSE \<equiv> 140"
abbreviation (input) UA_TYPES_DELETESUBSCRIPTIONSREQUEST :: nat where "UA_TYPES_DELETESUBSCRIPTIONSREQUEST \<equiv> 141"
abbreviation (input) UA_TYPES_DELETESUBSCRIPTIONSRESPONSE :: nat where "UA_TYPES_DELETESUBSCRIPTIONSRESPONSE \<equiv> 142"
abbreviation (input) UA_TYPES_BUILDINFO :: nat where "UA_TYPES_BUILDINFO \<equiv> 143"
abbreviation (input) UA_TYPES_SERVERSTATE :: nat where "UA_TYPES_SERVERSTATE \<equiv> 144"
abbreviation (input) UA_TYPES_SERVERSTATUSDATATYPE :: nat where "UA_TYPES_SERVERSTATUSDATATYPE \<equiv> 145"

section \<open>The table\<close>

definition UA_TYPES_0 :: "UA_DataType list" where
  "UA_TYPES_0 = [
    DataType 1 1 True True True UA_TYPES_BOOLEAN
      [(UA_TYPES_BOOLEAN, False)],
    DataType 2 1 True True True UA_TYPES_SBYTE
      [(UA_TYPES_SBYTE, False)],
    DataType 3 1 True True True UA_TYPES_BYTE
      [(UA_TYPES_BYTE, False)],
    DataType 4 2 True True True UA_TYPES_INT16
      [(UA_TYPES_INT16, False)],
    DataType 5 2 True True True UA_TYPES_UINT16
      [(UA_TYPES_UINT16, False)],
    DataType 6 4 True True True UA_TYPES_INT32
      [(UA_TYPES_INT32, False)],
    DataType 7 4 True True True UA_TYPES_UINT32
      [(UA_TYPES_UINT32, False)],
    DataType 8 8 True True True UA_TYPES_INT64
      [(UA_TYPES_INT64, False)],
    DataType 9 8 True True True UA_TYPES_UINT64
      [(UA_TYPES_UINT64, False)],
    DataType 10 4 True True True UA_TYPES_FLOAT
      [(UA_TYPES_FLOAT, False)],
    DataType 11 8 True True True UA_TYPES_DOUBLE
      [(UA_TYPES_DOUBLE, False)],
    DataType 12 16 True False False UA_TYPES_STRING
      [(UA_TYPES_BYTE, True)],
    DataType 13 8 True True True UA_TYPES_DATETIME
      [(UA_TYPES_DATETIME, False)],
    DataType 14 16 True True False UA_TYPES_GUID
      [(UA_TYPES_GUID, False)],
    DataType 15 16 True False False UA_TYPES_BYTESTRING
      [(UA_TYPES_BYTE, True)],
    DataType 16 16 True False False UA_TYPES_XMLELEMENT
      [(UA_TYPES_BYTE, True)],
    DataType 17 24 True False False UA_TYPES_NODEID
      [(UA_TYPES_NODEID, False)],
    DataType 18 48 True False False UA_TYPES_EXPANDEDNODEID
      [(UA_TYPES_NODEID, False), (UA_TYPES_STRING, False), (UA_TYPES_UINT32, False)],
    DataType 19 4 True True True UA_TYPES_STATUSCODE
      [(UA_TYPES_STATUSCODE, False)],
    DataType 20 24 True False False UA_TYPES_QUALIFIEDNAME
      [(UA_TYPES_UINT16, False), (UA_TYPES_STRING, False)],
    DataType 21 32 True False False UA_TYPES_LOCALIZEDTEXT
      [(UA_TYPES_STRING, False), (UA_TYPES_STRING, False)],
    DataType 22 48 True False False UA_TYPES_EXTENSIONOBJECT
      [(UA_TYPES_EXTENSIONOBJECT, False)],
    DataType 23 96 True False False UA_TYPES_DATAVALUE
      [(UA_TYPES_DATAVALUE, False)],
    DataType 24 48 True False False UA_TYPES_VARIANT
      [(UA_TYPES_VARIANT, False)],
    DataType 25 56 True False False UA_TYPES_DIAGNOSTICINFO
      [(UA_TYPES_DIAGNOSTICINFO, False)]]"

definition UA_TYPES_1 :: "UA_DataType list" where
  "UA_TYPES_1 = [
    DataType 256 4 True True True UA_TYPES_INT32
      [(UA_TYPES_INT32, False)],
    DataType 257 4 True True True UA_TYPES_INT32
      [(UA_TYPES_INT32, False)],
    DataType 285 80 False False False UA_TYPES_REFERENCENODE
      [(UA_TYPES_NODEID, False), (UA_TYPES_BOOLEAN, False), (UA_TYPES_EXPANDEDNODEID, False)],
    DataType 296 96 False False False UA_TYPES_ARGUMENT
      [(UA_TYPES_STRING, False), (UA_TYPES_NODEID, False), (UA_TYPES_INT32, False), (UA_TYPES_UINT32, True), (UA_TYPES_LOCALIZEDTEXT, False)],
    DataType 307 4 True True True UA_TYPES_INT32
      [(UA_TYPES_INT32, False)],
    DataType 308 120 False False False UA_TYPES_APPLICATIONDESCRIPTION
      [(UA_TYPES_STRING, False), (UA_TYPES_STRING, False), (UA_TYPES_LOCALIZEDTEXT, False), (UA_TYPES_APPLICATIONTYPE, False), (UA_TYPES_STRING, False), (UA_TYPES_STRING, False), (UA_TYPES_STRING, True)],
    DataType 389 112 False False False UA_TYPES_REQUESTHEADER
      [(UA_TYPES_NODEID, False), (UA_TYPES_DATETIME, False), (UA_TYPES_UINT32, False), (UA_TYPES_UINT32, False), (UA_TYPES_STRING, False), (UA_TYPES_UINT32, False), (UA_TYPES_EXTENSIONOBJECT, False)],
    DataType 392 136 False False False UA_TYPES_RESPONSEHEADER
      [(UA_TYPES_DATETIME, False), (UA_TYPES_UINT32, False), (UA_TYPES_STATUSCODE, False), (UA_TYPES_DIAGNOSTICINFO, False), (UA_TYPES_STRING, True), (UA_TYPES_EXTENSIONOBJECT, False)],
    DataType 395 136 False False False UA_TYPES_SERVICEFAULT
      [(UA_TYPES_RESPONSEHEADER, False)],
    DataType 420 160 False False False UA_TYPES_FINDSERVERSREQUEST
      [(UA_TYPES_REQUESTHEADER, False), (UA_TYPES_STRING, False), (UA_TYPES_STRING, True), (UA_TYPES_STRING, True)],
    DataType 423 152 False False False UA_TYPES_FINDSERVERSRESPONSE
      [(UA_TYPES_RESPONSEHEADER, False), (UA_TYPES_APPLICATIONDESCRIPTION, True)],
    DataType 302 4 True True True UA_TYPES_INT32
      [(UA_TYPES_INT32, False)],
    DataType 303 4 True True True UA_TYPES_INT32
      [(UA_TYPES_INT32, False)],
    DataType 304 72 False False False UA_TYPES_USERTOKENPOLICY
      [(UA_TYPES_STRING, False), (UA_TYPES_USERTOKENTYPE, False), (UA_TYPES_STRING, False), (UA_TYPES_STRING, False), (UA_TYPES_STRING, False)],
    DataType 312 216 False False False UA_TYPES_ENDPOINTDESCRIPTION
      [(UA_TYPES_STRING, False), (UA_TYPES_APPLICATIONDESCRIPTION, False), (UA_TYPES_BYTESTRING, False), (UA_TYPES_MESSAGESECURITYMODE, False), (UA_TYPES_STRING, False), (UA_TYPES_USERTOKENPOLICY, True), (UA_TYPES_STRING, False), (UA_TYPES_BYTE, False)],
    DataType 426 160 False False False UA_TYPES_GETENDPOINTSREQUEST
      [(UA_TYPES_REQUESTHEADER, False), (UA_TYPES_STRING, False), (UA_TYPES_STRING, True), (UA_TYPES_STRING, True)],
    DataType 429 152 False False False UA_TYPES_GETENDPOINTSRESPONSE
      [(UA_TYPES_RESPONSEHEADER, False), (UA_TYPES_ENDPOINTDESCRIPTION, True)],
    DataType 315 4 True True True UA_TYPES_INT32
      [(UA_TYPES_INT32, False)],
    DataType 441 24 False True False UA_TYPES_CHANNELSECURITYTOKEN
      [(UA_TYPES_UINT32, False), (UA_TYPES_UINT32, False), (UA_TYPES_DATETIME, False), (UA_TYPES_UINT32, False)]]"

definition UA_TYPES_2 :: "UA_DataType list" where
  "UA_TYPES_2 = [
    DataType 444 152 False False False UA_TYPES_OPENSECURECHANNELREQUEST
      [(UA_TYPES_REQUESTHEADER, False), (UA_TYPES_UINT32, False), (UA_TYPES_SECURITYTOKENREQUESTTYPE, False), (UA_TYPES_MESSAGESECURITYMODE, False), (UA_TYPES_BYTESTRING, False), (UA_TYPES_UINT32, False)],
    DataType 447 184 False False False UA_TYPES_OPENSECURECHANNELRESPONSE
      [(UA_TYPES_RESPONSEHEADER, False), (UA_TYPES_UINT32, False), (UA_TYPES_CHANNELSECURITYTOKEN, False), (UA_TYPES_BYTESTRING, False)],
    DataType 450 112 False False False UA_TYPES_CLOSESECURECHANNELREQUEST
      [(UA_TYPES_REQUESTHEADER, False)],
    DataType 453 136 False False False UA_TYPES_CLOSESECURECHANNELRESPONSE
      [(UA_TYPES_RESPONSEHEADER, False)],
    DataType 344 32 False False False UA_TYPES_SIGNEDSOFTWARECERTIFICATE
      [(UA_TYPES_BYTESTRING, False), (UA_TYPES_BYTESTRING, False)],
    DataType 456 32 False False False UA_TYPES_SIGNATUREDATA
      [(UA_TYPES_STRING, False), (UA_TYPES_BYTESTRING, False)],
    DataType 459 328 False False False UA_TYPES_CREATESESSIONREQUEST
      [(UA_TYPES_REQUESTHEADER, False), (UA_TYPES_APPLICATIONDESCRIPTION, False), (UA_TYPES_STRING, False), (UA_TYPES_STRING, False), (UA_TYPES_STRING, False), (UA_TYPES_BYTESTRING, False), (UA_TYPES_BYTESTRING, False), (UA_TYPES_DOUBLE, False), (UA_TYPES_UINT32, False)],
    DataType 462 296 False False False UA_TYPES_CREATESESSIONRESPONSE
      [(UA_TYPES_RESPONSEHEADER, False), (UA_TYPES_NODEID, False), (UA_TYPES_NODEID, False), (UA_TYPES_DOUBLE, False), (UA_TYPES_BYTESTRING, False), (UA_TYPES_BYTESTRING, False), (UA_TYPES_ENDPOINTDESCRIPTION, True), (UA_TYPES_SIGNEDSOFTWARECERTIFICATE, True), (UA_TYPES_SIGNATUREDATA, False), (UA_TYPES_UINT32, False)],
    DataType 316 16 False False False UA_TYPES_USERIDENTITYTOKEN
      [(UA_TYPES_STRING, False)],
    DataType 319 16 False False False UA_TYPES_ANONYMOUSIDENTITYTOKEN
      [(UA_TYPES_STRING, False)],
    DataType 322 64 False False False UA_TYPES_USERNAMEIDENTITYTOKEN
      [(UA_TYPES_STRING, False), (UA_TYPES_STRING, False), (UA_TYPES_BYTESTRING, False), (UA_TYPES_STRING, False)],
    DataType 465 256 False False False UA_TYPES_ACTIVATESESSIONREQUEST
      [(UA_TYPES_REQUESTHEADER, False), (UA_TYPES_SIGNATUREDATA, False), (UA_TYPES_SIGNEDSOFTWARECERTIFICATE, True), (UA_TYPES_STRING, True), (UA_TYPES_EXTENSIONOBJECT, False), (UA_TYPES_SIGNATUREDATA, False)],
    DataType 468 184 False False False UA_TYPES_ACTIVATESESSIONRESPONSE
      [(UA_TYPES_RESPONSEHEADER, False), (UA_TYPES_BYTESTRING, False), (UA_TYPES_STATUSCODE, True), (UA_TYPES_DIAGNOSTICINFO, True)],
    DataType 471 120 False False False UA_TYPES_CLOSESESSIONREQUEST
      [(UA_TYPES_REQUESTHEADER, False), (UA_TYPES_BOOLEAN, False)],
    DataType 474 136 False False False UA_TYPES_CLOSESESSIONRESPONSE
      [(UA_TYPES_RESPONSEHEADER, False)],
    DataType 348 4 True True True UA_TYPES_INT32
      [(UA_TYPES_INT32, False)],
    DataType 349 80 False False False UA_TYPES_NODEATTRIBUTES
      [(UA_TYPES_UINT32, False), (UA_TYPES_LOCALIZEDTEXT, False), (UA_TYPES_LOCALIZEDTEXT, False), (UA_TYPES_UINT32, False), (UA_TYPES_UINT32, False)],
    DataType 352 88 False False False UA_TYPES_OBJECTATTRIBUTES
      [(UA_TYPES_UINT32, False), (UA_TYPES_LOCALIZEDTEXT, False), (UA_TYPES_LOCALIZEDTEXT, False), (UA_TYPES_UINT32, False), (UA_TYPES_UINT32, False), (UA_TYPES_BYTE, False)]]"

definition UA_TYPES_3 :: "UA_DataType list" where
  "UA_TYPES_3 = [
    DataType 355 200 False False False UA_TYPES_VARIABLEATTRIBUTES
      [(UA_TYPES_UINT32, False), (UA_TYPES_LOCALIZEDTEXT, False), (UA_TYPES_LOCALIZEDTEXT, False), (UA_TYPES_UINT32, False), (UA_TYPES_UINT32, False), (UA_TYPES_VARIANT, False), (UA_TYPES_NODEID, False), (UA_TYPES_INT32, False), (UA_TYPES_UINT32, True), (UA_TYPES_BYTE, False), (UA_TYPES_BYTE, False), (UA_TYPES_DOUBLE, False), (UA_TYPES_BOOLEAN, False)],
    DataType 358 88 False False False UA_TYPES_METHODATTRIBUTES
      [(UA_TYPES_UINT32, False), (UA_TYPES_LOCALIZEDTEXT, False), (UA_TYPES_LOCALIZEDTEXT, False), (UA_TYPES_UINT32, False), (UA_TYPES_UINT32, False), (UA_TYPES_BOOLEAN, False), (UA_TYPES_BOOLEAN, False)],
    DataType 361 88 False False False UA_TYPES_OBJECTTYPEATTRIBUTES
      [(UA_TYPES_UINT32, False), (UA_TYPES_LOCALIZEDTEXT, False), (UA_TYPES_LOCALIZEDTEXT, False), (UA_TYPES_UINT32, False), (UA_TYPES_UINT32, False), (UA_TYPES_BOOLEAN, False)],
    DataType 364 184 False False False UA_TYPES_VARIABLETYPEATTRIBUTES
      [(UA_TYPES_UINT32, False), (UA_TYPES_LOCALIZEDTEXT, False), (UA_TYPES_LOCALIZEDTEXT, False), (UA_TYPES_UINT32, False), (UA_TYPES_UINT32, False), (UA_TYPES_VARIANT, False), (UA_TYPES_NODEID, False), (UA_TYPES_INT32, False), (UA_TYPES_UINT32, True), (UA_TYPES_BOOLEAN, False)],
    DataType 367 120 False False False UA_TYPES_REFERENCETYPEATTRIBUTES
      [(UA_TYPES_UINT32, False), (UA_TYPES_LOCALIZEDTEXT, False), (UA_TYPES_LOCALIZEDTEXT, False), (UA_TYPES_UINT32, False), (UA_TYPES_UINT32, False), (UA_TYPES_BOOLEAN, False), (UA_TYPES_BOOLEAN, False), (UA_TYPES_LOCALIZEDTEXT, False)],
    DataType 370 88 False False False UA_TYPES_DATATYPEATTRIBUTES
      [(UA_TYPES_UINT32, False), (UA_TYPES_LOCALIZEDTEXT, False), (UA_TYPES_LOCALIZEDTEXT, False), (UA_TYPES_UINT32, False), (UA_TYPES_UINT32, False), (UA_TYPES_BOOLEAN, False)],
    DataType 373 88 False False False UA_TYPES_VIEWATTRIBUTES
      [(UA_TYPES_UINT32, False), (UA_TYPES_LOCALIZEDTEXT, False), (UA_TYPES_LOCALIZEDTEXT, False), (UA_TYPES_UINT32, False), (UA_TYPES_UINT32, False), (UA_TYPES_BOOLEAN, False), (UA_TYPES_BYTE, False)],
    DataType 376 248 False False False UA_TYPES_ADDNODESITEM
      [(UA_TYPES_EXPANDEDNODEID, False), (UA_TYPES_NODEID, False), (UA_TYPES_EXPANDEDNODEID, False), (UA_TYPES_QUALIFIEDNAME, False), (UA_TYPES_NODECLASS, False), (UA_TYPES_EXTENSIONOBJECT, False), (UA_TYPES_EXPANDEDNODEID, False)],
    DataType 483 32 False False False UA_TYPES_ADDNODESRESULT
      [(UA_TYPES_STATUSCODE, False), (UA_TYPES_NODEID, False)],
    DataType 486 128 False False False UA_TYPES_ADDNODESREQUEST
      [(UA_TYPES_REQUESTHEADER, False), (UA_TYPES_ADDNODESITEM, True)],
    DataType 489 168 False False False UA_TYPES_ADDNODESRESPONSE
      [(UA_TYPES_RESPONSEHEADER, False), (UA_TYPES_ADDNODESRESULT, True), (UA_TYPES_DIAGNOSTICINFO, True)],
    DataType 379 128 False False False UA_TYPES_ADDREFERENCESITEM
      [(UA_TYPES_NODEID, False), (UA_TYPES_NODEID, False), (UA_TYPES_BOOLEAN, False), (UA_TYPES_STRING, False), (UA_TYPES_EXPANDEDNODEID, False), (UA_TYPES_NODECLASS, False)],
    DataType 492 128 False False False UA_TYPES_ADDREFERENCESREQUEST
      [(UA_TYPES_REQUESTHEADER, False), (UA_TYPES_ADDREFERENCESITEM, True)],
    DataType 495 168 False False False UA_TYPES_ADDREFERENCESRESPONSE
      [(UA_TYPES_RESPONSEHEADER, False), (UA_TYPES_STATUSCODE, True), (UA_TYPES_DIAGNOSTICINFO, True)]]"

definition UA_TYPES_4 :: "UA_DataType list" where
  "UA_TYPES_4 = [
    DataType 382 32 False False False UA_TYPES_DELETENODESITEM
      [(UA_TYPES_NODEID, False), (UA_TYPES_BOOLEAN, False)],
    DataType 498 128 False False False UA_TYPES_DELETENODESREQUEST
      [(UA_TYPES_REQUESTHEADER, False), (UA_TYPES_DELETENODESITEM, True)],
    DataType 501 168 False False False UA_TYPES_DELETENODESRESPONSE
      [(UA_TYPES_RESPONSEHEADER, False), (UA_TYPES_STATUSCODE, True), (UA_TYPES_DIAGNOSTICINFO, True)],
    DataType 385 112 False False False UA_TYPES_DELETEREFERENCESITEM
      [(UA_TYPES_NODEID, False), (UA_TYPES_NODEID, False), (UA_TYPES_BOOLEAN, False), (UA_TYPES_EXPANDEDNODEID, False), (UA_TYPES_BOOLEAN, False)],
    DataType 504 128 False False False UA_TYPES_DELETEREFERENCESREQUEST
      [(UA_TYPES_REQUESTHEADER, False), (UA_TYPES_DELETEREFERENCESITEM, True)],
    DataType 507 168 False False False UA_TYPES_DELETEREFERENCESRESPONSE
      [(UA_TYPES_RESPONSEHEADER, False), (UA_TYPES_STATUSCODE, True), (UA_TYPES_DIAGNOSTICINFO, True)],
    DataType 510 4 True True True UA_TYPES_INT32
      [(UA_TYPES_INT32, False)],
    DataType 511 40 False False False UA_TYPES_VIEWDESCRIPTION
      [(UA_TYPES_NODEID, False), (UA_TYPES_DATETIME, False), (UA_TYPES_UINT32, False)],
    DataType 514 72 False False False UA_TYPES_BROWSEDESCRIPTION
      [(UA_TYPES_NODEID, False), (UA_TYPES_BROWSEDIRECTION, False), (UA_TYPES_NODEID, False), (UA_TYPES_BOOLEAN, False), (UA_TYPES_UINT32, False), (UA_TYPES_UINT32, False)],
    DataType 517 4 True True True UA_TYPES_INT32
      [(UA_TYPES_INT32, False)],
    DataType 518 192 False False False UA_TYPES_REFERENCEDESCRIPTION
      [(UA_TYPES_NODEID, False), (UA_TYPES_BOOLEAN, False), (UA_TYPES_EXPANDEDNODEID, False), (UA_TYPES_QUALIFIEDNAME, False), (UA_TYPES_LOCALIZEDTEXT, False), (UA_TYPES_NODECLASS, False), (UA_TYPES_EXPANDEDNODEID, False)],
    DataType 522 40 False False False UA_TYPES_BROWSERESULT
      [(UA_TYPES_STATUSCODE, False), (UA_TYPES_BYTESTRING, False), (UA_TYPES_REFERENCEDESCRIPTION, True)],
    DataType 525 176 False False False UA_TYPES_BROWSEREQUEST
      [(UA_TYPES_REQUESTHEADER, False), (UA_TYPES_VIEWDESCRIPTION, False), (UA_TYPES_UINT32, False), (UA_TYPES_BROWSEDESCRIPTION, True)],
    DataType 528 168 False False False UA_TYPES_BROWSERESPONSE
      [(UA_TYPES_RESPONSEHEADER, False), (UA_TYPES_BROWSERESULT, True), (UA_TYPES_DIAGNOSTICINFO, True)],
    DataType 531 136 False False False UA_TYPES_BROWSENEXTREQUEST
      [(UA_TYPES_REQUESTHEADER, False), (UA_TYPES_BOOLEAN, False), (UA_TYPES_BYTESTRING, True)],
    DataType 534 168 False False False UA_TYPES_BROWSENEXTRESPONSE
      [(UA_TYPES_RESPONSEHEADER, False), (UA_TYPES_BROWSERESULT, True), (UA_TYPES_DIAGNOSTICINFO, True)],
    DataType 537 56 False False False UA_TYPES_RELATIVEPATHELEMENT
      [(UA_TYPES_NODEID, False), (UA_TYPES_BOOLEAN, False), (UA_TYPES_BOOLEAN, False), (UA_TYPES_QUALIFIEDNAME, False)],
    DataType 540 16 False False False UA_TYPES_RELATIVEPATH
      [(UA_TYPES_RELATIVEPATHELEMENT, True)],
    DataType 543 40 False False False UA_TYPES_BROWSEPATH
      [(UA_TYPES_NODEID, False), (UA_TYPES_RELATIVEPATH, False)],
    DataType 546 56 False False False UA_TYPES_BROWSEPATHTARGET
      [(UA_TYPES_EXPANDEDNODEID, False), (UA_TYPES_UINT32, False)]]"

definition UA_TYPES_5 :: "UA_DataType list" where
  "UA_TYPES_5 = [
    DataType 549 24 False False False UA_TYPES_BROWSEPATHRESULT
      [(UA_TYPES_STATUSCODE, False), (UA_TYPES_BROWSEPATHTARGET, True)],
    DataType 552 128 False False False UA_TYPES_TRANSLATEBROWSEPATHSTONODEIDSREQUEST
      [(UA_TYPES_REQUESTHEADER, False), (UA_TYPES_BROWSEPATH, True)],
    DataType 555 168 False False False UA_TYPES_TRANSLATEBROWSEPATHSTONODEIDSRESPONSE
      [(UA_TYPES_RESPONSEHEADER, False), (UA_TYPES_BROWSEPATHRESULT, True), (UA_TYPES_DIAGNOSTICINFO, True)],
    DataType 558 128 False False False UA_TYPES_REGISTERNODESREQUEST
      [(UA_TYPES_REQUESTHEADER, False), (UA_TYPES_NODEID, True)],
    DataType 561 152 False False False UA_TYPES_REGISTERNODESRESPONSE
      [(UA_TYPES_RESPONSEHEADER, False), (UA_TYPES_NODEID, True)],
    DataType 564 128 False False False UA_TYPES_UNREGISTERNODESREQUEST
      [(UA_TYPES_REQUESTHEADER, False), (UA_TYPES_NODEID, True)],
    DataType 567 136 False False False UA_TYPES_UNREGISTERNODESRESPONSE
      [(UA_TYPES_RESPONSEHEADER, False)],
    DataType 570 40 False False False UA_TYPES_QUERYDATADESCRIPTION
      [(UA_TYPES_RELATIVEPATH, False), (UA_TYPES_UINT32, False), (UA_TYPES_STRING, False)],
    DataType 573 72 False False False UA_TYPES_NODETYPEDESCRIPTION
      [(UA_TYPES_EXPANDEDNODEID, False), (UA_TYPES_BOOLEAN, False), (UA_TYPES_QUERYDATADESCRIPTION, True)],
    DataType 576 4 True True True UA_TYPES_INT32
      [(UA_TYPES_INT32, False)],
    DataType 577 112 False False False UA_TYPES_QUERYDATASET
      [(UA_TYPES_EXPANDEDNODEID, False), (UA_TYPES_EXPANDEDNODEID, False), (UA_TYPES_VARIANT, True)],
    DataType 583 24 False False False UA_TYPES_CONTENTFILTERELEMENT
      [(UA_TYPES_FILTEROPERATOR, False), (UA_TYPES_EXTENSIONOBJECT, True)],
    DataType 586 16 False False False UA_TYPES_CONTENTFILTER
      [(UA_TYPES_CONTENTFILTERELEMENT, True)],
    DataType 604 40 False False False UA_TYPES_CONTENTFILTERELEMENTRESULT
      [(UA_TYPES_STATUSCODE, False), (UA_TYPES_STATUSCODE, True), (UA_TYPES_DIAGNOSTICINFO, True)],
    DataType 607 32 False False False UA_TYPES_CONTENTFILTERRESULT
      [(UA_TYPES_CONTENTFILTERELEMENTRESULT, True), (UA_TYPES_DIAGNOSTICINFO, True)],
    DataType 610 40 False False False UA_TYPES_PARSINGRESULT
      [(UA_TYPES_STATUSCODE, False), (UA_TYPES_STATUSCODE, True), (UA_TYPES_DIAGNOSTICINFO, True)],
    DataType 613 192 False False False UA_TYPES_QUERYFIRSTREQUEST
      [(UA_TYPES_REQUESTHEADER, False), (UA_TYPES_VIEWDESCRIPTION, False), (UA_TYPES_NODETYPEDESCRIPTION, True), (UA_TYPES_CONTENTFILTER, False), (UA_TYPES_UINT32, False), (UA_TYPES_UINT32, False)],
    DataType 616 232 False False False UA_TYPES_QUERYFIRSTRESPONSE
      [(UA_TYPES_RESPONSEHEADER, False), (UA_TYPES_QUERYDATASET, True), (UA_TYPES_BYTESTRING, False), (UA_TYPES_PARSINGRESULT, True), (UA_TYPES_DIAGNOSTICINFO, True), (UA_TYPES_CONTENTFILTERRESULT, False)],
    DataType 619 136 False False False UA_TYPES_QUERYNEXTREQUEST
      [(UA_TYPES_REQUESTHEADER, False), (UA_TYPES_BOOLEAN, False), (UA_TYPES_BYTESTRING, False)],
    DataType 622 168 False False False UA_TYPES_QUERYNEXTRESPONSE
      [(UA_TYPES_RESPONSEHEADER, False), (UA_TYPES_QUERYDATASET, True), (UA_TYPES_BYTESTRING, False)],
    DataType 625 4 True True True UA_TYPES_INT32
      [(UA_TYPES_INT32, False)]]"

definition UA_TYPES_6 :: "UA_DataType list" where
  "UA_TYPES_6 = [
    DataType 626 72 False False False UA_TYPES_READVALUEID
      [(UA_TYPES_NODEID, False), (UA_TYPES_UINT32, False), (UA_TYPES_STRING, False), (UA_TYPES_QUALIFIEDNAME, False)],
    DataType 629 144 False False False UA_TYPES_READREQUEST
      [(UA_TYPES_REQUESTHEADER, False), (UA_TYPES_DOUBLE, False), (UA_TYPES_TIMESTAMPSTORETURN, False), (UA_TYPES_READVALUEID, True)],
    DataType 632 168 False False False UA_TYPES_READRESPONSE
      [(UA_TYPES_RESPONSEHEADER, False), (UA_TYPES_DATAVALUE, True), (UA_TYPES_DIAGNOSTICINFO, True)],
    DataType 668 144 False False False UA_TYPES_WRITEVALUE
      [(UA_TYPES_NODEID, False), (UA_TYPES_UINT32, False), (UA_TYPES_STRING, False), (UA_TYPES_DATAVALUE, False)],
    DataType 671 128 False False False UA_TYPES_WRITEREQUEST
      [(UA_TYPES_REQUESTHEADER, False), (UA_TYPES_WRITEVALUE, True)],
    DataType 674 168 False False False UA_TYPES_WRITERESPONSE
      [(UA_TYPES_RESPONSEHEADER, False), (UA_TYPES_STATUSCODE, True), (UA_TYPES_DIAGNOSTICINFO, True)],
    DataType 704 64 False False False UA_TYPES_CALLMETHODREQUEST
      [(UA_TYPES_NODEID, False), (UA_TYPES_NODEID, False), (UA_TYPES_VARIANT, True)],
    DataType 707 56 False False False UA_TYPES_CALLMETHODRESULT
      [(UA_TYPES_STATUSCODE, False), (UA_TYPES_STATUSCODE, True), (UA_TYPES_DIAGNOSTICINFO, True), (UA_TYPES_VARIANT, True)],
    DataType 710 128 False False False UA_TYPES_CALLREQUEST
      [(UA_TYPES_REQUESTHEADER, False), (UA_TYPES_CALLMETHODREQUEST, True)],
    DataType 713 168 False False False UA_TYPES_CALLRESPONSE
      [(UA_TYPES_RESPONSEHEADER, False), (UA_TYPES_CALLMETHODRESULT, True), (UA_TYPES_DIAGNOSTICINFO, True)],
    DataType 716 4 True True True UA_TYPES_INT32
      [(UA_TYPES_INT32, False)],
    DataType 740 72 False False False UA_TYPES_MONITORINGPARAMETERS
      [(UA_TYPES_UINT32, False), (UA_TYPES_DOUBLE, False), (UA_TYPES_EXTENSIONOBJECT, False), (UA_TYPES_UINT32, False), (UA_TYPES_BOOLEAN, False)],
    DataType 743 152 False False False UA_TYPES_MONITOREDITEMCREATEREQUEST
      [(UA_TYPES_READVALUEID, False), (UA_TYPES_MONITORINGMODE, False), (UA_TYPES_MONITORINGPARAMETERS, False)],
    DataType 746 72 False False False UA_TYPES_MONITOREDITEMCREATERESULT
      [(UA_TYPES_STATUSCODE, False), (UA_TYPES_UINT32, False), (UA_TYPES_DOUBLE, False), (UA_TYPES_UINT32, False), (UA_TYPES_EXTENSIONOBJECT, False)],
    DataType 749 136 False False False UA_TYPES_CREATEMONITOREDITEMSREQUEST
      [(UA_TYPES_REQUESTHEADER, False), (UA_TYPES_UINT32, False), (UA_TYPES_TIMESTAMPSTORETURN, False), (UA_TYPES_MONITOREDITEMCREATEREQUEST, True)],
    DataType 752 168 False False False UA_TYPES_CREATEMONITOREDITEMSRESPONSE
      [(UA_TYPES_RESPONSEHEADER, False), (UA_TYPES_MONITOREDITEMCREATERESULT, True), (UA_TYPES_DIAGNOSTICINFO, True)],
    DataType 785 136 False False False UA_TYPES_CREATESUBSCRIPTIONREQUEST
      [(UA_TYPES_REQUESTHEADER, False), (UA_TYPES_DOUBLE, False), (UA_TYPES_UINT32, False), (UA_TYPES_UINT32, False), (UA_TYPES_UINT32, False), (UA_TYPES_BOOLEAN, False), (UA_TYPES_BYTE, False)],
    DataType 788 160 False False False UA_TYPES_CREATESUBSCRIPTIONRESPONSE
      [(UA_TYPES_RESPONSEHEADER, False), (UA_TYPES_UINT32, False), (UA_TYPES_DOUBLE, False), (UA_TYPES_UINT32, False), (UA_TYPES_UINT32, False)]]"

definition UA_TYPES_7 :: "UA_DataType list" where
  "UA_TYPES_7 = [
    DataType 797 136 False False False UA_TYPES_SETPUBLISHINGMODEREQUEST
      [(UA_TYPES_REQUESTHEADER, False), (UA_TYPES_BOOLEAN, False), (UA_TYPES_UINT32, True)],
    DataType 800 168 False False False UA_TYPES_SETPUBLISHINGMODERESPONSE
      [(UA_TYPES_RESPONSEHEADER, False), (UA_TYPES_STATUSCODE, True), (UA_TYPES_DIAGNOSTICINFO, True)],
    DataType 803 32 False False False UA_TYPES_NOTIFICATIONMESSAGE
      [(UA_TYPES_UINT32, False), (UA_TYPES_DATETIME, False), (UA_TYPES_EXTENSIONOBJECT, True)],
    DataType 821 8 False True True UA_TYPES_SUBSCRIPTIONACKNOWLEDGEMENT
      [(UA_TYPES_UINT32, False), (UA_TYPES_UINT32, False)],
    DataType 824 128 False False False UA_TYPES_PUBLISHREQUEST
      [(UA_TYPES_REQUESTHEADER, False), (UA_TYPES_SUBSCRIPTIONACKNOWLEDGEMENT, True)],
    DataType 827 232 False False False UA_TYPES_PUBLISHRESPONSE
      [(UA_TYPES_RESPONSEHEADER, False), (UA_TYPES_UINT32, False), (UA_TYPES_UINT32, True), (UA_TYPES_BOOLEAN, False), (UA_TYPES_NOTIFICATIONMESSAGE, False), (UA_TYPES_STATUSCODE, True), (UA_TYPES_DIAGNOSTICINFO, True)],
    DataType 845 128 False False False UA_TYPES_DELETESUBSCRIPTIONSREQUEST
      [(UA_TYPES_REQUESTHEADER, False), (UA_TYPES_UINT32, True)],
    DataType 848 168 False False False UA_TYPES_DELETESUBSCRIPTIONSRESPONSE
      [(UA_TYPES_RESPONSEHEADER, False), (UA_TYPES_STATUSCODE, True), (UA_TYPES_DIAGNOSTICINFO, True)],
    DataType 338 88 False False False UA_TYPES_BUILDINFO
      [(UA_TYPES_STRING, False), (UA_TYPES_STRING, False), (UA_TYPES_STRING, False), (UA_TYPES_STRING, False), (UA_TYPES_STRING, False), (UA_TYPES_DATETIME, False)],
    DataType 852 4 True True True UA_TYPES_INT32
      [(UA_TYPES_INT32, False)],
    DataType 862 152 False False False UA_TYPES_SERVERSTATUSDATATYPE
      [(UA_TYPES_DATETIME, False), (UA_TYPES_DATETIME, False), (UA_TYPES_SERVERSTATE, False), (UA_TYPES_BUILDINFO, False), (UA_TYPES_UINT32, False), (UA_TYPES_LOCALIZEDTEXT, False)]]"

definition UA_TYPES :: "UA_DataType list" where
  "UA_TYPES = UA_TYPES_0 @ UA_TYPES_1 @ UA_TYPES_2 @ UA_TYPES_3 @ UA_TYPES_4 @ UA_TYPES_5 @ UA_TYPES_6 @ UA_TYPES_7"

definition UA_TYPES_COUNT :: nat where "UA_TYPES_COUNT = 146"

section \<open>Facts about the table\<close>

lemmas UA_TYPES_defs = UA_TYPES_def UA_TYPES_0_def UA_TYPES_1_def UA_TYPES_2_def UA_TYPES_3_def UA_TYPES_4_def
  UA_TYPES_5_def UA_TYPES_6_def UA_TYPES_7_def

lemma length_UA_TYPES: "length UA_TYPES = UA_TYPES_COUNT"
  by code_simp

text \<open>
  What the generic functions rely on: a structure only has members of types that stand earlier
  in the table, the index of a builtin type selects one of the 25 dedicated functions, the index of
  a structure is its own position.
\<close>

definition entry_ok :: "nat \<Rightarrow> UA_DataType \<Rightarrow> bool" where
  "entry_ok i t \<longleftrightarrow>
     (if builtin t then typeIndex t < 25 \<and> (i < 25 \<longrightarrow> typeIndex t = i) \<and> (25 \<le> i \<longrightarrow> typeIndex t = UA_TYPES_INT32)
      else 25 \<le> i \<and> typeIndex t = i \<and> list_all (\<lambda>(j, _). j < i) (members t)) \<and>
     0 < memSize t"

lemma all_entries_ok: "list_all (\<lambda>(i, t). entry_ok i t) (enumerate 0 UA_TYPES)"
  by code_simp

lemma entry_ok_nth: "i < UA_TYPES_COUNT \<Longrightarrow> entry_ok i (UA_TYPES ! i)"
  using all_entries_ok by (auto simp: list_all_length nth_enumerate_eq length_UA_TYPES)

section \<open>Allocation of arrays\<close>

text \<open>\<open>UA_Array_new\<close>: whether it returns an array.\<close>

definition UA_Array_new :: "(nat \<Rightarrow> bool) \<Rightarrow> nat \<Rightarrow> nat \<Rightarrow> bool" where
  "UA_Array_new mem n i \<longleftrightarrow> \<not> (n > MAX_ARRAY_SIZE \<or> memSize (UA_TYPES ! i) * n > MAX_ARRAY_SIZE) \<and>
     (n = 0 \<or> mem (n * memSize (UA_TYPES ! i)))"

end
