(* ===== verification/Ua_Structures.thy ===== *)
theory Ua_Structures
  imports Ua_TypeTable Ua_DiagnosticInfo
begin

text \<open>
  The generic part of \<^verbatim>\<open>src/ua_types_encoding_binary.c\<close>: extension objects, variants, data
  values and structures, driven by the type table.

  A C value of a table type is a \<open>ua_value\<close>: one constructor per representation of the
  builtin types (integers of a width share one; \<open>Float\<close> and \<open>Double\<close> are their images),
  \<open>VStruct\<close> for the members of a structure in order, \<open>VArray\<close> for an array member,
  \<open>VDeleted\<close> for a destination that \<open>UA_deleteMembers\<close> has cleared after an error.
  A value whose constructor does not fit the type is a fault.

  The functions call each other through the jump tables. \<open>rec\<close> stands for the call of the
  table one level deeper; \<open>UA_dec\<close> and \<open>UA_enc\<close> close the recursion with a bound on
  its depth, the size of the stack. \<open>Ua_Structures_Laws\<close> shows which bound is enough.
\<close>

section \<open>Values\<close>

datatype eo_encoding = UA_EXTENSIONOBJECT_ENCODED_NOBODY | UA_EXTENSIONOBJECT_ENCODED_BYTESTRING | UA_EXTENSIONOBJECT_ENCODED_XML

record dv_flags =
  hasValue :: bool
  hasStatus :: bool
  hasSourceTimestamp :: bool
  hasServerTimestamp :: bool
  hasSourcePicoseconds :: bool
  hasServerPicoseconds :: bool

datatype ua_value =
    VBoolean bool
  | VByte UA_Byte
  | VUInt16 UA_UInt16
  | VUInt32 UA_UInt32
  | VUInt64 UA_UInt64
  | VString UA_String
  | VGuid UA_Guid
  | VNodeId UA_NodeId
  | VExpandedNodeId UA_ExpandedNodeId
  | VLocalizedText UA_LocalizedText
  | VEncoded eo_encoding UA_NodeId UA_ByteString
  | VDecoded "nat option" "ua_value option"
  | VDataValue dv_flags ua_value UA_StatusCode UA_DateTime UA_UInt16 UA_DateTime UA_UInt16
  | VVariant "nat option" nat "ua_value ua_array" "UA_UInt32 ua_array"
  | VDiagnosticInfo UA_DiagnosticInfo
  | VStruct "ua_value list"
  | VArray "ua_value ua_array"
  | VDeleted

definition UA_ENCODINGOFFSET_BINARY :: UA_UInt32 where "UA_ENCODINGOFFSET_BINARY = 2"

definition UA_BUILTIN_TYPES_COUNT :: nat where "UA_BUILTIN_TYPES_COUNT = 25"

definition VVariant_zero :: ua_value where
  "VVariant_zero = VVariant None 0 Null_ptr Null_ptr"

definition VExtensionObject_zero :: ua_value where
  "VExtensionObject_zero = VEncoded UA_EXTENSIONOBJECT_ENCODED_NOBODY UA_NODEID_NULL Null_ptr"

fun find_type :: "UA_NodeId \<Rightarrow> nat \<Rightarrow> UA_DataType list \<Rightarrow> nat option" where
  "find_type tid i [] = None"
| "find_type tid i (t # ts) =
     (if UA_NodeId_equal tid (UA_NODEID_NUMERIC 0 (typeId t)) then Some i else find_type tid (Suc i) ts)"

definition findDataType :: "UA_NodeId \<Rightarrow> nat option" where
  "findDataType tid = find_type tid 0 UA_TYPES"

section \<open>Decoding\<close>

type_synonym dec_table = "nat \<Rightarrow> ua_value decoder"

definition dec_map :: "('a \<Rightarrow> 'b) \<Rightarrow> 'a decoder \<Rightarrow> 'b decoder" where
  "dec_map f d = dec_bind d (\<lambda>v. dec_return (f v))"

text \<open>
  On a little-endian machine the memory of a zero-copyable type is its encoding: reading
  the copied bytes as a value is decoding them.
\<close>

definition dec_zero_copy :: "dec_table \<Rightarrow> nat \<Rightarrow> (UA_Byte list \<Rightarrow> ua_value) option" where
  "dec_zero_copy rec j =
     (if zeroCopyable (UA_TYPES ! j)
      then Some (\<lambda>bs. case rec j (bs, 0) of None \<Rightarrow> VDeleted | Some (_, v, _) \<Rightarrow> v) else None)"

definition dec_array :: "dec_table \<Rightarrow> (nat \<Rightarrow> bool) \<Rightarrow> nat \<Rightarrow> UA_Int32 \<Rightarrow> ua_value ua_array decoder" where
  "dec_array rec mem j = Array_decodeBinary mem (memSize (UA_TYPES ! j)) (dec_zero_copy rec j) (rec j)"

fun dec_members :: "dec_table \<Rightarrow> (nat \<Rightarrow> bool) \<Rightarrow> (nat \<times> bool) list \<Rightarrow> ua_value list decoder" where
  "dec_members rec mem [] = dec_return []"
| "dec_members rec mem ((j, isArray) # ms) =
     dec_bind (if \<not> isArray then rec j
               else dec_map VArray (array_member_decodeBinary mem (memSize (UA_TYPES ! j)) (dec_zero_copy rec j) (rec j)))
       (\<lambda>v. dec_bind (dec_members rec mem ms) (\<lambda>vs. dec_return (v # vs)))"

definition UA_decodeBinaryNoInit :: "dec_table \<Rightarrow> (nat \<Rightarrow> bool) \<Rightarrow> nat \<Rightarrow> ua_value decoder" where
  "UA_decodeBinaryNoInit rec mem i =
     dec_cleanup (\<lambda>_. VDeleted) (dec_map VStruct (dec_members rec mem (members (UA_TYPES ! i))))"

definition ExtensionObject_decodeBinary :: "dec_table \<Rightarrow> (nat \<Rightarrow> bool) \<Rightarrow> ua_value decoder" where
  "ExtensionObject_decodeBinary rec mem c = do {
     (r1, tid, c1) \<leftarrow> NodeId_decodeBinary mem c;
     (r2, encoding, src2, off2) \<leftarrow> Byte_decodeBinary c1;
     let retval = (case ident tid of
           Numeric _ \<Rightarrow> if namespaceIndex tid \<noteq> 0 then UA_STATUSCODE_BADDECODINGERROR else r1 OR r2
         | _ \<Rightarrow> UA_STATUSCODE_BADDECODINGERROR);
     if retval \<noteq> UA_STATUSCODE_GOOD then Some (retval, VExtensionObject_zero, (src2, off2))
     else if encoding = 0 then Some (retval, VEncoded UA_EXTENSIONOBJECT_ENCODED_NOBODY tid Null_ptr, (src2, off2))
     else if encoding = 2 then
       dec_cleanup (\<lambda>_. VDeleted) (dec_map (VEncoded UA_EXTENSIONOBJECT_ENCODED_XML tid) (ByteString_decodeBinary mem)) (src2, off2)
     else do {
       (r3, len, src3, off3) \<leftarrow> Int32_decodeBinary (src2, off2);
       if r3 \<noteq> UA_STATUSCODE_GOOD then Some (r3, VExtensionObject_zero, (src3, off3))
       else
         let tid' = (case ident tid of Numeric n \<Rightarrow> tid\<lparr>ident := Numeric (n - UA_ENCODINGOFFSET_BINARY)\<rparr> | _ \<Rightarrow> tid)
         in case findDataType tid' of
           Some k \<Rightarrow> do {
             (r4, v, src4, off4) \<leftarrow>
               (if mem (memSize (UA_TYPES ! k))
                then do { (r, w, c4) \<leftarrow> rec k (src3, off3); Some (r, VDecoded (Some k) (Some w), c4) }
                else Some (UA_STATUSCODE_BADOUTOFMEMORY, VExtensionObject_zero, (src3, off3)));
             let r5 = (if int off4 \<noteq> int off2 + 4 + sint len then UA_STATUSCODE_BADDECODINGERROR else r4);
             Some (r5, if r5 \<noteq> UA_STATUSCODE_GOOD then VDeleted else v, (src4, off4)) }
         | None \<Rightarrow>
             dec_cleanup (\<lambda>_. VDeleted)
               (dec_map (VEncoded UA_EXTENSIONOBJECT_ENCODED_BYTESTRING tid') (ByteString_decodeBinary mem)) (src3, off2) } }"

definition UA_VARIANT_ENCODINGMASKTYPE_TYPEID_MASK :: UA_Byte where [tag_defs]: "UA_VARIANT_ENCODINGMASKTYPE_TYPEID_MASK = 0x3F"
definition UA_VARIANT_ENCODINGMASKTYPE_DIMENSIONS :: UA_Byte where [tag_defs]: "UA_VARIANT_ENCODINGMASKTYPE_DIMENSIONS = 0x40"
definition UA_VARIANT_ENCODINGMASKTYPE_ARRAY :: UA_Byte where [tag_defs]: "UA_VARIANT_ENCODINGMASKTYPE_ARRAY = 0x80"

text \<open>The branch of a single extension object: the type id is read ahead.\<close>

definition variant_extension_object :: "dec_table \<Rightarrow> (nat \<Rightarrow> bool) \<Rightarrow> (nat option \<times> ua_value ua_array) decoder" where
  "variant_extension_object rec mem = (\<lambda>(src, off). do {
     (r1, tid, src1, off1) \<leftarrow> NodeId_decodeBinary mem (src, off);
     if r1 \<noteq> UA_STATUSCODE_GOOD then Some (r1, (None, Null_ptr), (src1, off))
     else do {
       (r2, eo_encoding, src2, off2) \<leftarrow> Byte_decodeBinary (src1, off1);
       if r2 \<noteq> UA_STATUSCODE_GOOD then Some (r2, (None, Null_ptr), (src2, off))
       else
         let (k, start) = (if namespaceIndex tid = 0 \<and> eo_encoding = 1
               then (case findDataType tid of Some k \<Rightarrow> (k, off2) | None \<Rightarrow> (UA_TYPES_EXTENSIONOBJECT, off))
               else (UA_TYPES_EXTENSIONOBJECT, off))
         in if mem (memSize (UA_TYPES ! k))
            then do {
              (r3, v, c3) \<leftarrow> rec k (src2, start);
              Some (r3, (Some k, if r3 \<noteq> UA_STATUSCODE_GOOD then Null_ptr else Block [v]), c3) }
            else Some (UA_STATUSCODE_BADOUTOFMEMORY, (Some k, Null_ptr), (src2, start)) } })"

text \<open>An early return, which leaves the variant to the caller, is the status with \<open>True\<close>.\<close>

definition variant_content :: "dec_table \<Rightarrow> (nat \<Rightarrow> bool) \<Rightarrow> UA_Byte \<Rightarrow> (bool \<times> nat option \<times> nat \<times> ua_value ua_array) decoder" where
  "variant_content rec mem encodingByte c =
     (let isArray = encodingByte AND UA_VARIANT_ENCODINGMASKTYPE_ARRAY \<noteq> 0;
          ti = unat (encodingByte AND UA_VARIANT_ENCODINGMASKTYPE_TYPEID_MASK) - 1 in
      if isArray then do {
        (r1, len, c1) \<leftarrow> Int32_decodeBinary c;
        if r1 \<noteq> UA_STATUSCODE_GOOD then Some (r1, (True, Some ti, 0, Null_ptr), c1)
        else do { (r2, a, c2) \<leftarrow> dec_array rec mem ti len c1; Some (r2, (False, Some ti, alen a, a), c2) } }
      else if ti \<noteq> UA_TYPES_EXTENSIONOBJECT then do {
        (r1, a, c1) \<leftarrow> dec_array rec mem ti 1 c; Some (r1, (False, Some ti, 0, a), c1) }
      else do {
        (r1, (ty, a), c1) \<leftarrow> variant_extension_object rec mem c;
        Some (r1, (ty = None, ty, 0, a), c1) })"

definition Variant_decodeBinary :: "dec_table \<Rightarrow> (nat \<Rightarrow> bool) \<Rightarrow> ua_value decoder" where
  "Variant_decodeBinary rec mem =
     dec_guard Byte_decodeBinary VVariant_zero (\<lambda>encodingByte c.
       let ti = unat (encodingByte AND UA_VARIANT_ENCODINGMASKTYPE_TYPEID_MASK) in
       if ti = 0 \<or> ti - 1 > 24 then Some (UA_STATUSCODE_BADDECODINGERROR, VVariant_zero, c)
       else do {
         (r1, (early, ty, len, a), c1) \<leftarrow> variant_content rec mem encodingByte c;
         if early then Some (r1, VVariant ty 0 Null_ptr Null_ptr, c1)
         else do {
           (r2, dims, c2) \<leftarrow>
             (if encodingByte AND UA_VARIANT_ENCODINGMASKTYPE_ARRAY \<noteq> 0 \<and> encodingByte AND UA_VARIANT_ENCODINGMASKTYPE_DIMENSIONS \<noteq> 0
              then do {
                (r, dlen, cd) \<leftarrow> Int32_decodeBinary c1;
                if r1 OR r = UA_STATUSCODE_GOOD then Array_decodeBinary mem 4 (Some le_word) UInt32_decodeBinary dlen cd
                else Some (r1 OR r, Null_ptr, cd) }
              else Some (r1, Null_ptr, c1));
           Some (r2, if r2 \<noteq> UA_STATUSCODE_GOOD then VDeleted else VVariant ty len a dims, c2) } })"

definition MAX_PICO_SECONDS :: int where "MAX_PICO_SECONDS = 999"

definition clamp_pico :: "UA_UInt16 \<Rightarrow> UA_UInt16" where
  "clamp_pico p = (if sint p > MAX_PICO_SECONDS then word_of_int MAX_PICO_SECONDS else p)"

definition dv_flags_of :: "UA_Byte \<Rightarrow> dv_flags" where
  "dv_flags_of b = \<lparr>hasValue = bit b 0, hasStatus = bit b 1, hasSourceTimestamp = bit b 2, hasServerTimestamp = bit b 3,
     hasSourcePicoseconds = bit b 4, hasServerPicoseconds = bit b 5\<rparr>"

definition DataValue_decodeBinary :: "dec_table \<Rightarrow> (nat \<Rightarrow> bool) \<Rightarrow> ua_value decoder" where
  "DataValue_decodeBinary rec mem =
     dec_guard Byte_decodeBinary (VDataValue (dv_flags_of 0) VVariant_zero 0 0 0 0 0) (\<lambda>b.
       let f = dv_flags_of b in
       dec_cleanup (\<lambda>_. VDeleted)
         (dec_bind (dec_when (hasValue f) (Variant_decodeBinary rec mem) VVariant_zero) (\<lambda>v.
          dec_bind (dec_when (hasStatus f) StatusCode_decodeBinary 0) (\<lambda>st.
          dec_bind (dec_when (hasSourceTimestamp f) DateTime_decodeBinary 0) (\<lambda>sts.
          dec_bind (dec_when (hasSourcePicoseconds f) (dec_map clamp_pico UInt16_decodeBinary) 0) (\<lambda>sp.
          dec_bind (dec_when (hasServerTimestamp f) DateTime_decodeBinary 0) (\<lambda>svts.
          dec_bind (dec_when (hasServerPicoseconds f) (dec_map clamp_pico UInt16_decodeBinary) 0) (\<lambda>svp.
            dec_return (VDataValue f v st sts sp svts svp)))))))))"

definition decodeBinaryJumpTable :: "dec_table \<Rightarrow> (nat \<Rightarrow> bool) \<Rightarrow> nat \<Rightarrow> nat \<Rightarrow> ua_value decoder" where
  "decodeBinaryJumpTable rec mem fi i =
     (if fi = UA_TYPES_BOOLEAN then dec_map VBoolean Boolean_decodeBinary
      else if fi \<in> {UA_TYPES_SBYTE, UA_TYPES_BYTE} then dec_map VByte Byte_decodeBinary
      else if fi \<in> {UA_TYPES_INT16, UA_TYPES_UINT16} then dec_map VUInt16 UInt16_decodeBinary
      else if fi \<in> {UA_TYPES_INT32, UA_TYPES_UINT32, UA_TYPES_FLOAT, UA_TYPES_STATUSCODE} then dec_map VUInt32 UInt32_decodeBinary
      else if fi \<in> {UA_TYPES_INT64, UA_TYPES_UINT64, UA_TYPES_DOUBLE, UA_TYPES_DATETIME} then dec_map VUInt64 UInt64_decodeBinary
      else if fi \<in> {UA_TYPES_STRING, UA_TYPES_BYTESTRING, UA_TYPES_XMLELEMENT} then dec_map VString (String_decodeBinary mem)
      else if fi = UA_TYPES_GUID then dec_map VGuid Guid_decodeBinary
      else if fi = UA_TYPES_NODEID then dec_map VNodeId (NodeId_decodeBinary mem)
      else if fi = UA_TYPES_EXPANDEDNODEID then dec_map VExpandedNodeId (ExpandedNodeId_decodeBinary mem)
      else if fi = UA_TYPES_LOCALIZEDTEXT then dec_map VLocalizedText (LocalizedText_decodeBinary mem)
      else if fi = UA_TYPES_EXTENSIONOBJECT then ExtensionObject_decodeBinary rec mem
      else if fi = UA_TYPES_DATAVALUE then DataValue_decodeBinary rec mem
      else if fi = UA_TYPES_VARIANT then Variant_decodeBinary rec mem
      else if fi = UA_TYPES_DIAGNOSTICINFO then dec_map VDiagnosticInfo (DiagnosticInfo_decodeBinary mem)
      else UA_decodeBinaryNoInit rec mem i)"

definition jump_index :: "nat \<Rightarrow> nat" where
  "jump_index i = (if builtin (UA_TYPES ! i) then typeIndex (UA_TYPES ! i) else UA_BUILTIN_TYPES_COUNT)"

primrec UA_dec :: "(nat \<Rightarrow> bool) \<Rightarrow> nat \<Rightarrow> dec_table" where
  "UA_dec mem 0 i = (\<lambda>_. None)"
| "UA_dec mem (Suc n) i = decodeBinaryJumpTable (UA_dec mem n) mem (jump_index i) i"

text \<open>A depth of recursion that every message of the given remaining length can be decoded with.\<close>

definition enough_depth :: "nat \<Rightarrow> nat" where
  "enough_depth remaining = (UA_TYPES_COUNT + 1) * (remaining + 1)"

definition UA_decodeBinary :: "(nat \<Rightarrow> bool) \<Rightarrow> nat \<Rightarrow> ua_value decoder" where
  "UA_decodeBinary mem i = (\<lambda>(src, off). UA_decodeBinaryNoInit (UA_dec mem (enough_depth (length src - off))) mem i (src, off))"

section \<open>Encoding\<close>

type_synonym enc_table = "nat \<Rightarrow> ua_value encoder"

definition enc_fault :: encode where
  "enc_fault c = None"

definition enc_zero_copy :: "enc_table \<Rightarrow> nat \<Rightarrow> (ua_value \<Rightarrow> UA_Byte list) option" where
  "enc_zero_copy rec j =
     (if zeroCopyable (UA_TYPES ! j)
      then Some (\<lambda>v. case rec j v (replicate (memSize (UA_TYPES ! j)) 0, 0) of None \<Rightarrow> [] | Some (_, (dst, _)) \<Rightarrow> dst) else None)"

definition enc_array :: "enc_table \<Rightarrow> nat \<Rightarrow> ua_value ua_array encoder" where
  "enc_array rec j = Array_encodeBinary (memSize (UA_TYPES ! j)) (enc_zero_copy rec j) (rec j)"

definition enc_member :: "enc_table \<Rightarrow> nat \<Rightarrow> bool \<Rightarrow> ua_value encoder" where
  "enc_member rec j isArray v =
     (if \<not> isArray then rec j v else case v of VArray a \<Rightarrow> enc_array rec j a | _ \<Rightarrow> enc_fault)"

fun enc_members :: "enc_table \<Rightarrow> (nat \<times> bool) list \<Rightarrow> ua_value list \<Rightarrow> encode" where
  "enc_members rec [] [] = enc_skip"
| "enc_members rec ((j, isArray) # ms) (v # vs) = enc_seq (enc_member rec j isArray v) (enc_members rec ms vs)"
| "enc_members rec _ _ = enc_fault"

definition encode_members :: "enc_table \<Rightarrow> nat \<Rightarrow> ua_value encoder" where
  "encode_members rec i v = (case v of VStruct vs \<Rightarrow> enc_members rec (members (UA_TYPES ! i)) vs | _ \<Rightarrow> enc_fault)"

text \<open>
  A value behind a length: the four bytes of the length are skipped, the content is written,
  then the length is written into the gap.
\<close>

definition enc_with_length :: "encode \<Rightarrow> encode" where
  "enc_with_length body = (\<lambda>(dst, off). do {
     (r1, dst1, off1) \<leftarrow> body (dst, off + 4);
     (r2, dst2, _) \<leftarrow> Int32_encodeBinary (word_of_int (int off1 - int off - 4)) (dst1, off);
     Some (r1 OR r2, (dst2, off1)) })"

definition binary_id :: "nat \<Rightarrow> UA_NodeId" where
  "binary_id k = UA_NODEID_NUMERIC 0 (typeId (UA_TYPES ! k) + UA_ENCODINGOFFSET_BINARY)"

fun ExtensionObject_encodeBinary :: "enc_table \<Rightarrow> ua_value encoder" where
  "ExtensionObject_encodeBinary rec (VDecoded (Some k) (Some v)) =
     enc_seq (NodeId_encodeBinary (binary_id k)) (enc_seq (Byte_encodeBinary 1) (enc_with_length (rec k v)))"
| "ExtensionObject_encodeBinary rec (VDecoded _ _) = (\<lambda>c. Some (UA_STATUSCODE_BADENCODINGERROR, c))"
| "ExtensionObject_encodeBinary rec (VEncoded UA_EXTENSIONOBJECT_ENCODED_NOBODY tid body) =
     enc_seq (NodeId_encodeBinary tid) (Byte_encodeBinary 0)"
| "ExtensionObject_encodeBinary rec (VEncoded UA_EXTENSIONOBJECT_ENCODED_BYTESTRING tid body) =
     enc_seq (NodeId_encodeBinary tid) (enc_seq (Byte_encodeBinary 1) (ByteString_encodeBinary body))"
| "ExtensionObject_encodeBinary rec (VEncoded UA_EXTENSIONOBJECT_ENCODED_XML tid body) =
     enc_seq (NodeId_encodeBinary tid) (enc_seq (Byte_encodeBinary 2) (ByteString_encodeBinary body))"
| "ExtensionObject_encodeBinary rec _ = enc_fault"

definition variant_element :: "enc_table \<Rightarrow> nat \<Rightarrow> ua_value encoder" where
  "variant_element rec k v =
     (if builtin (UA_TYPES ! k) then rec k v
      else enc_seq (NodeId_encodeBinary (binary_id k)) (enc_seq (Byte_encodeBinary 1) (enc_with_length (rec k v))))"

definition variant_is_array :: "nat \<Rightarrow> 'a ua_array \<Rightarrow> bool" where
  "variant_is_array arrayLength data \<longleftrightarrow> arrayLength > 0 \<or> (case data of Block _ \<Rightarrow> False | _ \<Rightarrow> True)"

definition variant_byte :: "nat \<Rightarrow> bool \<Rightarrow> bool \<Rightarrow> UA_Byte" where
  "variant_byte k isArray hasDimensions =
     (if isArray then UA_VARIANT_ENCODINGMASKTYPE_ARRAY OR (if hasDimensions then UA_VARIANT_ENCODINGMASKTYPE_DIMENSIONS else 0) else 0) OR
     (UA_VARIANT_ENCODINGMASKTYPE_TYPEID_MASK AND (if builtin (UA_TYPES ! k) then word_of_nat (typeIndex (UA_TYPES ! k) + 1) else 22))"

text \<open>The elements are read from memory: fewer of them than the length says is a fault.\<close>

fun Variant_encodeBinary :: "enc_table \<Rightarrow> ua_value encoder" where
  "Variant_encodeBinary rec (VVariant None arrayLength data dims) = (\<lambda>c. Some (UA_STATUSCODE_BADINTERNALERROR, c))"
| "Variant_encodeBinary rec (VVariant (Some k) arrayLength data dims) =
     (let isArray = variant_is_array arrayLength data;
          hasDimensions = isArray \<and> alen dims > 0;
          len = (if isArray then arrayLength else 1);
          encodeLength = (if arrayLength > 0 then word_of_nat arrayLength else case data of Empty_sentinel \<Rightarrow> 0 | _ \<Rightarrow> - 1) :: UA_Int32
      in if len > alen data then enc_fault
         else enc_seq (Byte_encodeBinary (variant_byte k isArray hasDimensions))
           (enc_seq (enc_when isArray (Int32_encodeBinary encodeLength))
           (enc_seq (foldr (\<lambda>v. enc_seq (variant_element rec k v)) (take len (content data)) enc_skip)
             (enc_when hasDimensions (Array_encodeBinary 4 (Some (le_bytes 4)) UInt32_encodeBinary dims)))))"
| "Variant_encodeBinary rec _ = enc_fault"

definition dv_flags_byte :: "dv_flags \<Rightarrow> UA_Byte" where
  "dv_flags_byte f = of_bool (hasValue f) OR push_bit 1 (of_bool (hasStatus f)) OR push_bit 2 (of_bool (hasSourceTimestamp f)) OR
     push_bit 3 (of_bool (hasServerTimestamp f)) OR push_bit 4 (of_bool (hasSourcePicoseconds f)) OR push_bit 5 (of_bool (hasServerPicoseconds f))"

fun DataValue_encodeBinary :: "enc_table \<Rightarrow> ua_value encoder" where
  "DataValue_encodeBinary rec (VDataValue f v st sts sp svts svp) =
     enc_seq (Byte_encodeBinary (dv_flags_byte f))
     (enc_seq (enc_when (hasValue f) (Variant_encodeBinary rec v))
     (enc_seq (enc_when (hasStatus f) (StatusCode_encodeBinary st))
     (enc_seq (enc_when (hasSourceTimestamp f) (DateTime_encodeBinary sts))
     (enc_seq (enc_when (hasSourcePicoseconds f) (UInt16_encodeBinary sp))
     (enc_seq (enc_when (hasServerTimestamp f) (DateTime_encodeBinary svts))
       (enc_when (hasServerPicoseconds f) (UInt16_encodeBinary svp)))))))"
| "DataValue_encodeBinary rec _ = enc_fault"

definition encodeBinaryJumpTable :: "enc_table \<Rightarrow> nat \<Rightarrow> nat \<Rightarrow> ua_value encoder" where
  "encodeBinaryJumpTable rec fi i v =
     (if fi = UA_TYPES_BOOLEAN then (case v of VBoolean b \<Rightarrow> Boolean_encodeBinary b | _ \<Rightarrow> enc_fault)
      else if fi \<in> {UA_TYPES_SBYTE, UA_TYPES_BYTE} then (case v of VByte b \<Rightarrow> Byte_encodeBinary b | _ \<Rightarrow> enc_fault)
      else if fi \<in> {UA_TYPES_INT16, UA_TYPES_UINT16} then (case v of VUInt16 w \<Rightarrow> UInt16_encodeBinary w | _ \<Rightarrow> enc_fault)
      else if fi \<in> {UA_TYPES_INT32, UA_TYPES_UINT32, UA_TYPES_FLOAT, UA_TYPES_STATUSCODE} then (case v of VUInt32 w \<Rightarrow> UInt32_encodeBinary w | _ \<Rightarrow> enc_fault)
      else if fi \<in> {UA_TYPES_INT64, UA_TYPES_UINT64, UA_TYPES_DOUBLE, UA_TYPES_DATETIME} then (case v of VUInt64 w \<Rightarrow> UInt64_encodeBinary w | _ \<Rightarrow> enc_fault)
      else if fi \<in> {UA_TYPES_STRING, UA_TYPES_BYTESTRING, UA_TYPES_XMLELEMENT} then (case v of VString s \<Rightarrow> String_encodeBinary s | _ \<Rightarrow> enc_fault)
      else if fi = UA_TYPES_GUID then (case v of VGuid g \<Rightarrow> Guid_encodeBinary g | _ \<Rightarrow> enc_fault)
      else if fi = UA_TYPES_NODEID then (case v of VNodeId n \<Rightarrow> NodeId_encodeBinary n | _ \<Rightarrow> enc_fault)
      else if fi = UA_TYPES_EXPANDEDNODEID then (case v of VExpandedNodeId n \<Rightarrow> ExpandedNodeId_encodeBinary n | _ \<Rightarrow> enc_fault)
      else if fi = UA_TYPES_LOCALIZEDTEXT then (case v of VLocalizedText l \<Rightarrow> LocalizedText_encodeBinary l | _ \<Rightarrow> enc_fault)
      else if fi = UA_TYPES_EXTENSIONOBJECT then ExtensionObject_encodeBinary rec v
      else if fi = UA_TYPES_DATAVALUE then DataValue_encodeBinary rec v
      else if fi = UA_TYPES_VARIANT then Variant_encodeBinary rec v
      else if fi = UA_TYPES_DIAGNOSTICINFO then (case v of VDiagnosticInfo d \<Rightarrow> DiagnosticInfo_encodeBinary d | _ \<Rightarrow> enc_fault)
      else encode_members rec i v)"

primrec UA_enc :: "nat \<Rightarrow> enc_table" where
  "UA_enc 0 i v = enc_fault"
| "UA_enc (Suc n) i v = encodeBinaryJumpTable (UA_enc n) (jump_index i) i v"

text \<open>\<open>UA_encodeBinary\<close> with a bound on the depth of the recursion, as the value is nested.\<close>

definition UA_encodeBinary :: "nat \<Rightarrow> nat \<Rightarrow> ua_value encoder" where
  "UA_encodeBinary depth i v = encode_members (UA_enc depth) i v"

end
