(* ===== verification/Ua_Structures_Laws.thy ===== *)
theory Ua_Structures_Laws
  imports Ua_Structures
begin

text \<open>
  The generic decoder on arbitrary bytes. \<open>safe_upto N d\<close>: the decoder \<open>d\<close> returns
  and stays inside the message whenever at most \<open>N\<close> bytes remain. A structure passes the
  bound on to its members, of smaller types; extension objects and variants have consumed bytes
  before they call the jump table for an arbitrary type. So the depth that is enough
  for type \<open>i\<close> grows with \<open>i\<close> and with \<open>N\<close> times the size of the table.
\<close>

section \<open>Decoders that are safe on short messages\<close>

definition safe_upto :: "nat \<Rightarrow> 'a decoder \<Rightarrow> bool" where
  "safe_upto N d \<longleftrightarrow> (\<forall>src off. off \<le> length src \<longrightarrow> length src - off \<le> N \<longrightarrow>
     (\<exists>r v src' off'. d (src, off) = Some (r, v, (src', off')) \<and> length src' = length src \<and> off \<le> off' \<and> off' \<le> length src))"

lemma safe_uptoD:
  assumes "safe_upto N d" "off \<le> length src" "length src - off \<le> N"
  obtains r v src' off' where "d (src, off) = Some (r, v, (src', off'))" "length src' = length src" "off \<le> off'" "off' \<le> length src"
  using assms unfolding safe_upto_def by blast

lemma safe_uptoI:
  assumes "\<And>src off. off \<le> length src \<Longrightarrow> length src - off \<le> N \<Longrightarrow>
     \<exists>r v src' off'. d (src, off) = Some (r, v, (src', off')) \<and> length src' = length src \<and> off \<le> off' \<and> off' \<le> length src"
  shows "safe_upto N d"
  using assms unfolding safe_upto_def by blast

lemma safe_upto_safe: "safe_decoder d \<Longrightarrow> safe_upto N d"
  by (rule safe_uptoI) (blast dest: safe_decoder.safe)

lemma safe_upto_mono: "safe_upto N d \<Longrightarrow> M \<le> N \<Longrightarrow> safe_upto M d"
  unfolding safe_upto_def by (meson le_trans)

lemma safe_upto_bind:
  assumes "safe_upto N d" "\<And>v. safe_upto N (f v)"
  shows "safe_upto N (dec_bind d f)"
proof (rule safe_uptoI)
  fix src :: "UA_Byte list" and off
  assume off: "off \<le> length src" "length src - off \<le> N"
  from safe_uptoD [OF assms(1) off] obtain r v src1 off1 where
    1: "d (src, off) = Some (r, v, (src1, off1))" "length src1 = length src" "off \<le> off1" "off1 \<le> length src" .
  have rem: "off1 \<le> length src1" "length src1 - off1 \<le> N" using 1 off by linarith+
  from safe_uptoD [OF assms(2) rem] obtain r' v' src' off' where "f v (src1, off1) = Some (r', v', (src', off'))"
    "length src' = length src1" "off1 \<le> off'" "off' \<le> length src1" .
  with 1 show "\<exists>r v src' off'. dec_bind d f (src, off) = Some (r, v, (src', off')) \<and>
      length src' = length src \<and> off \<le> off' \<and> off' \<le> length src"
    by (auto simp: dec_bind_def)
qed

lemma safe_upto_return: "safe_upto N (dec_return v)"
  by (simp add: safe_upto_safe safe_return)

lemma safe_upto_map: "safe_upto N d \<Longrightarrow> safe_upto N (dec_map f d)"
  unfolding dec_map_def by (intro safe_upto_bind safe_upto_return)

lemma safe_upto_when: "safe_upto N d \<Longrightarrow> safe_upto N (dec_when b d v0)"
  by (simp add: dec_when_def safe_upto_return)

lemma safe_upto_cleanup: "safe_upto N d \<Longrightarrow> safe_upto N (dec_cleanup del d)"
  by (rule safe_uptoI) (force simp: dec_cleanup_def safe_upto_def)

text \<open>After a byte has been read less of the message remains.\<close>

lemma safe_upto_byte:
  assumes "\<And>v. 0 < N \<Longrightarrow> safe_upto (N - 1) (f v)"
  shows "safe_upto N (dec_guard Byte_decodeBinary w0 f)"
proof (rule safe_uptoI)
  fix src :: "UA_Byte list" and off
  assume off: "off \<le> length src" "length src - off \<le> N"
  show "\<exists>r v src' off'. dec_guard Byte_decodeBinary w0 f (src, off) = Some (r, v, (src', off')) \<and>
      length src' = length src \<and> off \<le> off' \<and> off' \<le> length src"
  proof (cases "off < length src")
    case True
    then have N: "0 < N" "Suc off \<le> length src" "length src - Suc off \<le> N - 1" using off by linarith+
    from safe_uptoD [OF assms [OF N(1)] N(2,3)] obtain r v src' off' where
      "f (src ! off) (src, Suc off) = Some (r, v, (src', off'))" "length src' = length src" "Suc off \<le> off'" "off' \<le> length src" .
    then show ?thesis using True
      by (auto simp: dec_guard_def Byte_decodeBinary_def hd_drop_conv_nth)
  next
    case False
    then show ?thesis using off by (simp add: dec_guard_def Byte_decodeBinary_def)
  qed
qed

lemma safe_upto_elems: "safe_upto N d \<Longrightarrow> safe_upto N (dec_elems d n)"
proof (induction n)
  case 0
  show ?case by (rule safe_uptoI) simp
next
  case (Suc n)
  then have n: "safe_upto N (dec_elems d n)" by simp
  show ?case
  proof (rule safe_uptoI)
    fix src :: "UA_Byte list" and off
    assume off: "off \<le> length src" "length src - off \<le> N"
    from safe_uptoD [OF Suc.prems off] obtain r v src1 off1 where
      1: "d (src, off) = Some (r, v, (src1, off1))" "length src1 = length src" "off \<le> off1" "off1 \<le> length src" .
    have rem: "off1 \<le> length src1" "length src1 - off1 \<le> N" using 1 off by linarith+
    from safe_uptoD [OF n rem] obtain r' v' src' off' where "dec_elems d n (src1, off1) = Some (r', v', (src', off'))"
      "length src' = length src1" "off1 \<le> off'" "off' \<le> length src1" .
    with 1 show "\<exists>r v src' off'. dec_elems d (Suc n) (src, off) = Some (r, v, (src', off')) \<and>
      length src' = length src \<and> off \<le> off' \<and> off' \<le> length src" by auto
  qed
qed

lemma safe_upto_array: "safe_upto N d \<Longrightarrow> safe_upto N (Array_decodeBinary mem sz zc d sl)"
proof (rule safe_uptoI)
  fix src :: "UA_Byte list" and off
  assume d: "safe_upto N d" and off: "off \<le> length src" "length src - off \<le> N"
  obtain r v src1 off1 where
    1: "dec_elems d (nat (sint sl)) (src, off) = Some (r, v, (src1, off1))" "length src1 = length src" "off \<le> off1" "off1 \<le> length src"
    using safe_uptoD [OF safe_upto_elems [OF d] off] by blast
  then show "\<exists>r v src' off'. Array_decodeBinary mem sz zc d sl (src, off) = Some (r, v, (src', off')) \<and>
      length src' = length src \<and> off \<le> off' \<and> off' \<le> length src"
    using off by (auto simp: Array_decodeBinary_def Let_def split: option.splits)
qed

lemma safe_upto_array_member: "safe_upto N d \<Longrightarrow> safe_upto N (array_member_decodeBinary mem sz zc d)"
proof -
  assume d: "safe_upto N d"
  have "safe_upto N (dec_bind (\<lambda>c. do { (r, sl, c1) \<leftarrow> Int32_decodeBinary c; Some (r, if r = UA_STATUSCODE_GOOD then sl else - 1, c1) })
      (Array_decodeBinary mem sz zc d))"
  proof (intro safe_upto_bind safe_upto_array d)
    show "safe_upto N (\<lambda>c. do { (r, sl, c1) \<leftarrow> Int32_decodeBinary c; Some (r, if r = UA_STATUSCODE_GOOD then sl else - 1, c1) })"
      by (rule safe_uptoI) (auto simp: Int32_decodeBinary_def codec_defs)
  qed
  moreover have "dec_bind (\<lambda>c. do { (r, sl, c1) \<leftarrow> Int32_decodeBinary c; Some (r, if r = UA_STATUSCODE_GOOD then sl else - 1, c1) })
      (Array_decodeBinary mem sz zc d) = array_member_decodeBinary mem sz zc d"
    by (rule ext) (auto simp: dec_bind_def array_member_decodeBinary_def Let_def split: Option.bind_splits prod.splits)
  ultimately show ?thesis by simp
qed

lemma safe_upto_members:
  assumes "\<And>j b. (j, b) \<in> set ms \<Longrightarrow> safe_upto N (rec j)"
  shows "safe_upto N (dec_members rec mem ms)"
  using assms
proof (induction ms)
  case (Cons m ms)
  obtain j b where m: "m = (j, b)" by force
  have j: "safe_upto N (rec j)" using Cons.prems m by auto
  have ms: "safe_upto N (dec_members rec mem ms)" using Cons by auto
  show ?case
    unfolding m dec_members.simps using j ms
    by (auto intro!: safe_upto_bind safe_upto_return safe_upto_map safe_upto_array_member)
qed (simp add: safe_upto_return)

lemma safe_upto_struct:
  assumes "\<And>j b. (j, b) \<in> set (members (UA_TYPES ! i)) \<Longrightarrow> safe_upto N (rec j)"
  shows "safe_upto N (UA_decodeBinaryNoInit rec mem i)"
  unfolding UA_decodeBinaryNoInit_def by (intro safe_upto_cleanup safe_upto_map safe_upto_members assms)

section \<open>Extension objects, variants and data values\<close>

lemma find_type_bound: "find_type tid i ts = Some k \<Longrightarrow> k < i + length ts"
  by (induction ts arbitrary: i) (fastforce split: if_splits)+

lemma findDataType_bound: "findDataType tid = Some k \<Longrightarrow> k < UA_TYPES_COUNT"
  using find_type_bound [of tid 0 UA_TYPES k] by (simp add: findDataType_def length_UA_TYPES)

lemma Byte_decode_cases:
  assumes "off \<le> length src"
  obtains (ok) "Byte_decodeBinary (src, off) = Some (UA_STATUSCODE_GOOD, src ! off, (src, off + 1))" "off < length src"
  | (short) r v where "Byte_decodeBinary (src, off) = Some (r, v, (src, off))" "r \<noteq> UA_STATUSCODE_GOOD"
proof (cases "off < length src")
  case True
  then show thesis using ok by (simp add: Byte_decodeBinary_def hd_drop_conv_nth)
next
  case False
  then show thesis using short assms by (simp add: Byte_decodeBinary_def)
qed

lemma Int32_decode_inside:
  "off \<le> length src \<Longrightarrow> \<exists>r v off'. Int32_decodeBinary (src, off) = Some (r, v, (src, off')) \<and> off \<le> off' \<and> off' \<le> length src"
  by (auto simp: Int32_decodeBinary_def codec_defs)

lemma safe_upto_ExtensionObject:
  assumes rec: "\<And>k. 0 < N \<Longrightarrow> k < UA_TYPES_COUNT \<Longrightarrow> safe_upto (N - 1) (rec k)"
  shows "safe_upto N (ExtensionObject_decodeBinary rec mem)"
proof (rule safe_uptoI)
  fix src :: "UA_Byte list" and off
  assume off: "off \<le> length src" "length src - off \<le> N"
  let ?goal = "\<lambda>x :: (UA_StatusCode \<times> ua_value \<times> cursor) option. \<exists>r v src' off'. x = Some (r, v, (src', off')) \<and>
      length src' = length src \<and> off \<le> off' \<and> off' \<le> length src"
  obtain r1 tid src1 off1 where
    1: "NodeId_decodeBinary mem (src, off) = Some (r1, tid, (src1, off1))" "length src1 = length src" "off \<le> off1" "off1 \<le> length src"
    using NodeId_safe.safe [OF off(1)] by blast
  from 1 have "off1 \<le> length src1" by simp
  then show "?goal (ExtensionObject_decodeBinary rec mem (src, off))"
  proof (cases rule: Byte_decode_cases)
    case (short r v)
    then show ?thesis using 1 by (auto simp: ExtensionObject_decodeBinary_def Let_def split: node_identifier.splits)
  next
    case ok
    have N: "0 < N" "off1 + 1 \<le> length src1" "length src1 - (off1 + 1) \<le> N - 1" using 1 off ok(2) by linarith+
    have str: "?goal (dec_cleanup del (dec_map f (ByteString_decodeBinary mem)) (src1, off1 + 1))" for del f
    proof -
      have "safe_upto N (dec_cleanup del (dec_map f (ByteString_decodeBinary mem)))"
        unfolding ByteString_decodeBinary_def
        by (intro safe_upto_cleanup safe_upto_map safe_upto_safe String_safe.safe_decoder_axioms)
      from safe_uptoD [OF this N(2)] show ?thesis using N 1 by fastforce
    qed
    obtain r3 len off3 where 3: "Int32_decodeBinary (src1, off1 + 1) = Some (r3, len, (src1, off3))"
      "off1 + 1 \<le> off3" "off3 \<le> length src1"
      using Int32_decode_inside [OF N(2)] by blast
    have inner: "\<exists>r v src' off'. rec k (src1, off3) = Some (r, v, (src', off')) \<and> length src' = length src \<and> off \<le> off' \<and> off' \<le> length src"
      if "k < UA_TYPES_COUNT" for k
    proof -
      have "off3 \<le> length src1" "length src1 - off3 \<le> N - 1" using 3 N by linarith+
      from safe_uptoD [OF rec [OF N(1) that] this] show ?thesis using 1 3 by fastforce
    qed
    show ?thesis
      unfolding ExtensionObject_decodeBinary_def
      using 1 ok 3 str
      by (auto simp: Let_def split: option.splits node_identifier.splits) (force dest!: findDataType_bound inner)
  qed
qed

lemma safe_upto_variant_extension_object:
  assumes rec: "\<And>k. k < UA_TYPES_COUNT \<Longrightarrow> safe_upto M (rec k)"
  shows "safe_upto M (variant_extension_object rec mem)"
proof (rule safe_uptoI)
  fix src :: "UA_Byte list" and off
  assume off: "off \<le> length src" "length src - off \<le> M"
  obtain r1 tid src1 off1 where
    1: "NodeId_decodeBinary mem (src, off) = Some (r1, tid, (src1, off1))" "length src1 = length src" "off \<le> off1" "off1 \<le> length src"
    using NodeId_safe.safe [OF off(1)] by blast
  from 1 have in1: "off1 \<le> length src1" by simp
  have inner: "\<exists>r v src' off'. rec k (src1, s) = Some (r, v, (src', off')) \<and> length src' = length src \<and> off \<le> off' \<and> off' \<le> length src"
    if "k < UA_TYPES_COUNT" "off \<le> s" "s \<le> length src" for k s
  proof -
    have "s \<le> length src1" "length src1 - s \<le> M" using 1 off that by linarith+
    from safe_uptoD [OF rec [OF that(1)] this] obtain r v src' off' where
      "rec k (src1, s) = Some (r, v, (src', off'))" "length src' = length src1" "s \<le> off'" "off' \<le> length src1" .
    then show ?thesis using 1 that by auto
  qed
  have eo: "UA_TYPES_EXTENSIONOBJECT < UA_TYPES_COUNT" by (simp add: UA_TYPES_COUNT_def)
  from in1 show "\<exists>r v src' off'. variant_extension_object rec mem (src, off) = Some (r, v, (src', off')) \<and>
      length src' = length src \<and> off \<le> off' \<and> off' \<le> length src"
  proof (cases rule: Byte_decode_cases)
    case (short r v)
    then show ?thesis using 1 off by (auto simp: variant_extension_object_def)
  next
    case ok
    let ?ks = "if namespaceIndex tid = 0 \<and> src1 ! off1 = 1
        then (case findDataType tid of Some k \<Rightarrow> (k, Suc off1) | None \<Rightarrow> (UA_TYPES_EXTENSIONOBJECT, off)) else (UA_TYPES_EXTENSIONOBJECT, off)"
    obtain k s where ks: "?ks = (k, s)" by fastforce
    have k: "k < UA_TYPES_COUNT" "off \<le> s" "s \<le> length src"
      using ks eo findDataType_bound [of tid] 1 ok(2) off(1) by (auto split: if_splits option.splits)
    show ?thesis
      using 1 ok ks inner [OF k] off k
      by (cases "r1 = UA_STATUSCODE_GOOD") (auto simp: variant_extension_object_def split: if_splits option.splits)
  qed
qed

lemma safe_upto_variant_content:
  assumes rec: "\<And>k. k < UA_TYPES_COUNT \<Longrightarrow> safe_upto M (rec k)"
    and ti: "unat (b AND UA_VARIANT_ENCODINGMASKTYPE_TYPEID_MASK) - 1 \<le> 24"
  shows "safe_upto M (variant_content rec mem b)"
proof (rule safe_uptoI)
  fix src :: "UA_Byte list" and off
  assume off: "off \<le> length src" "length src - off \<le> M"
  let ?ti = "unat (b AND UA_VARIANT_ENCODINGMASKTYPE_TYPEID_MASK) - 1"
  have "?ti < UA_TYPES_COUNT" using ti by (simp add: UA_TYPES_COUNT_def)
  then have arr: "safe_upto M (dec_array rec mem ?ti n)" for n
    unfolding dec_array_def by (intro safe_upto_array rec)
  obtain r len off1 where 1: "Int32_decodeBinary (src, off) = Some (r, len, (src, off1))" "off \<le> off1" "off1 \<le> length src"
    using Int32_decode_inside [OF off(1)] by blast
  have rem1: "length src - off1 \<le> M" using 1 off by linarith
  obtain r2 a src2 off2 where 2: "dec_array rec mem ?ti len (src, off1) = Some (r2, a, (src2, off2))" "length src2 = length src"
    "off1 \<le> off2" "off2 \<le> length src"
    using safe_uptoD [OF arr 1(3) rem1] by blast
  obtain r3 a3 src3 off3 where 3: "dec_array rec mem ?ti 1 (src, off) = Some (r3, a3, (src3, off3))" "length src3 = length src"
    "off \<le> off3" "off3 \<le> length src"
    using safe_uptoD [OF arr off] by blast
  have veo: "safe_upto M (variant_extension_object rec mem)" using rec by (rule safe_upto_variant_extension_object)
  obtain r4 x src4 off4 where 4: "variant_extension_object rec mem (src, off) = Some (r4, x, (src4, off4))" "length src4 = length src"
    "off \<le> off4" "off4 \<le> length src"
    using safe_uptoD [OF veo off] by blast
  show "\<exists>r v src' off'. variant_content rec mem b (src, off) = Some (r, v, (src', off')) \<and>
      length src' = length src \<and> off \<le> off' \<and> off' \<le> length src"
    unfolding variant_content_def Let_def
    using 1 2 3 4 by (cases "b AND UA_VARIANT_ENCODINGMASKTYPE_ARRAY \<noteq> 0"; cases "?ti = UA_TYPES_EXTENSIONOBJECT"; cases x)
      (auto simp: Let_def)
qed

lemma safe_upto_Variant:
  assumes rec: "\<And>k. 0 < N \<Longrightarrow> k < UA_TYPES_COUNT \<Longrightarrow> safe_upto (N - 1) (rec k)"
  shows "safe_upto N (Variant_decodeBinary rec mem)"
  unfolding Variant_decodeBinary_def
proof (rule safe_upto_byte)
  fix b :: UA_Byte
  assume N: "0 < N"
  let ?ti = "unat (b AND UA_VARIANT_ENCODINGMASKTYPE_TYPEID_MASK)"
  let ?body = "\<lambda>c. let ti = ?ti in
       if ti = 0 \<or> ti - 1 > 24 then Some (UA_STATUSCODE_BADDECODINGERROR, VVariant_zero, c)
       else do {
         (r1, (early, ty, len, a), c1) \<leftarrow> variant_content rec mem b c;
         if early then Some (r1, VVariant ty 0 Null_ptr Null_ptr, c1)
         else do {
           (r2, dims, c2) \<leftarrow>
             (if b AND UA_VARIANT_ENCODINGMASKTYPE_ARRAY \<noteq> 0 \<and> b AND UA_VARIANT_ENCODINGMASKTYPE_DIMENSIONS \<noteq> 0
              then do {
                (r, dlen, cd) \<leftarrow> Int32_decodeBinary c1;
                if r1 OR r = UA_STATUSCODE_GOOD then Array_decodeBinary mem 4 (Some le_word) UInt32_decodeBinary dlen cd
                else Some (r1 OR r, Null_ptr, cd) }
              else Some (r1, Null_ptr, c1));
           Some (r2, if r2 \<noteq> UA_STATUSCODE_GOOD then VDeleted else VVariant ty len a dims, c2) } }"
  show "safe_upto (N - 1) ?body"
  proof (rule safe_uptoI)
    fix src :: "UA_Byte list" and off
    assume off: "off \<le> length src" "length src - off \<le> N - 1"
    show "\<exists>r v src' off'. ?body (src, off) = Some (r, v, (src', off')) \<and> length src' = length src \<and> off \<le> off' \<and> off' \<le> length src"
    proof (cases "?ti = 0 \<or> ?ti - 1 > 24")
      case False
      then have "safe_upto (N - 1) (variant_content rec mem b)"
        by (intro safe_upto_variant_content rec N) simp_all
      from safe_uptoD [OF this off] obtain r1 early ty len a src1 off1 where
        1: "variant_content rec mem b (src, off) = Some (r1, (early, ty, len, a), (src1, off1))" "length src1 = length src" "off \<le> off1" "off1 \<le> length src"
        by (metis prod_cases4)
      from 1 have in1: "off1 \<le> length src1" by simp
      obtain r dlen off2 where 2: "Int32_decodeBinary (src1, off1) = Some (r, dlen, (src1, off2))" "off1 \<le> off2" "off2 \<le> length src1"
        using Int32_decode_inside [OF in1] by blast
      have "safe_upto (length src1) (Array_decodeBinary mem 4 (Some le_word) UInt32_decodeBinary dlen)"
        by (intro safe_upto_array safe_upto_safe int_safe)
      from safe_uptoD [OF this 2(3)] obtain r3 d src3 off3 where
        3: "Array_decodeBinary mem 4 (Some le_word) UInt32_decodeBinary dlen (src1, off2) = Some (r3, d, (src3, off3))"
          "length src3 = length src1" "off2 \<le> off3" "off3 \<le> length src1" by (metis diff_le_self)
      show ?thesis using False 1 2 3 by (auto simp: Let_def)
    qed (use off in \<open>auto simp: Let_def\<close>)
  qed
qed

lemma safe_upto_DataValue:
  assumes rec: "\<And>k. 0 < N \<Longrightarrow> k < UA_TYPES_COUNT \<Longrightarrow> safe_upto (N - 1) (rec k)"
  shows "safe_upto N (DataValue_decodeBinary rec mem)"
proof -
  have "safe_upto N (Variant_decodeBinary rec mem)" using rec by (rule safe_upto_Variant)
  then have v: "safe_upto (N - 1) (Variant_decodeBinary rec mem)" by (rule safe_upto_mono) simp
  show ?thesis
    unfolding DataValue_decodeBinary_def Let_def StatusCode_decodeBinary_def DateTime_decodeBinary_def
    by (intro safe_upto_byte safe_upto_cleanup safe_upto_bind safe_upto_when safe_upto_map safe_upto_return v safe_upto_safe int_safe)
qed

section \<open>Enough depth\<close>

lemma safe_upto_jump:
  assumes rec: "\<And>k. 0 < N \<Longrightarrow> k < UA_TYPES_COUNT \<Longrightarrow> safe_upto (N - 1) (rec k)"
    and struct: "\<And>j b. fi = UA_TYPES_QUALIFIEDNAME \<or> 25 \<le> fi \<Longrightarrow> (j, b) \<in> set (members (UA_TYPES ! i)) \<Longrightarrow> safe_upto N (rec j)"
  shows "safe_upto N (decodeBinaryJumpTable rec mem fi i)"
proof -
  have bool: "safe_decoder Boolean_decodeBinary" by unfold_locales (auto simp: codec_defs)
  note leaf = safe_upto_map [OF safe_upto_safe]
  have eo: "safe_upto N (ExtensionObject_decodeBinary rec mem)" using rec by (rule safe_upto_ExtensionObject)
  have dv: "safe_upto N (DataValue_decodeBinary rec mem)" using rec by (rule safe_upto_DataValue)
  have var: "safe_upto N (Variant_decodeBinary rec mem)" using rec by (rule safe_upto_Variant)
  show ?thesis
  proof (cases "fi = UA_TYPES_QUALIFIEDNAME \<or> 25 \<le> fi")
    case True
    then have "decodeBinaryJumpTable rec mem fi i = UA_decodeBinaryNoInit rec mem i"
      by (auto simp: decodeBinaryJumpTable_def)
    moreover have "safe_upto N (UA_decodeBinaryNoInit rec mem i)"
      by (rule safe_upto_struct) (use struct True in blast)
    ultimately show ?thesis by simp
  next
    case False
    then have "fi \<in> {0, 1, 2, 3, 4, 5, 6, 7, 8, 9, 10, 11, 12, 13, 14, 15, 16, 17, 18, 20, 21, 22, 23, 24}"
      by (simp add: not_le) presburger
    then show ?thesis
      unfolding decodeBinaryJumpTable_def
      by (elim insertE emptyE; simp)
        (intro leaf bool int_safe eo dv var String_safe.safe_decoder_axioms Guid_safe.safe_decoder_axioms NodeId_safe.safe_decoder_axioms
          ExpandedNodeId_safe.safe_decoder_axioms LocalizedText_safe.safe_decoder_axioms DiagnosticInfo_safe.safe_decoder_axioms)+
  qed
qed

lemma members_earlier:
  assumes "i < UA_TYPES_COUNT" "jump_index i = UA_TYPES_QUALIFIEDNAME \<or> 25 \<le> jump_index i" "(j, b) \<in> set (members (UA_TYPES ! i))"
  shows "j < i"
proof (cases "builtin (UA_TYPES ! i)")
  case True
  then have "i = UA_TYPES_QUALIFIEDNAME"
    using entry_ok_nth [OF assms(1)] assms(2) by (auto simp: entry_ok_def jump_index_def)
  moreover have "list_all (\<lambda>(j, _). j < UA_TYPES_QUALIFIEDNAME) (members (UA_TYPES ! UA_TYPES_QUALIFIEDNAME))" by code_simp
  ultimately show ?thesis using assms(3) by (auto simp: list_all_iff)
next
  case False
  then show ?thesis using entry_ok_nth [OF assms(1)] assms(3) by (auto simp: entry_ok_def list_all_iff)
qed

lemma UA_dec_safe:
  assumes "i < UA_TYPES_COUNT" "i + 1 + N * (UA_TYPES_COUNT + 1) \<le> n"
  shows "safe_upto N (UA_dec mem n i)"
  using assms
proof (induction n arbitrary: i N)
  case (Suc n)
  have "safe_upto (N - 1) (UA_dec mem n k)" if N: "0 < N" and k: "k < UA_TYPES_COUNT" for k
  proof (rule Suc.IH [OF k])
    obtain M where M: "N = Suc M" using N by (cases N) auto
    show "k + 1 + (N - 1) * (UA_TYPES_COUNT + 1) \<le> n" using Suc.prems k unfolding M by simp
  qed
  moreover have "safe_upto N (UA_dec mem n j)"
    if "jump_index i = UA_TYPES_QUALIFIEDNAME \<or> 25 \<le> jump_index i" "(j, b) \<in> set (members (UA_TYPES ! i))" for j b
    using members_earlier [OF Suc.prems(1) that] Suc.prems by (intro Suc.IH) simp_all
  ultimately show ?case
    unfolding UA_dec.simps by (rule safe_upto_jump)
qed simp

end
