(* ===== verification/Ua_Wire.thy ===== *)
theory Ua_Wire
  imports Ua_Structures_Laws
begin

text \<open>
  What the generic encoder writes and the generic decoder reads back.

  \<open>encodes\<close> and \<open>decodes\<close> are too strict for values that contain expanded node ids: their
  encoder truncates the offset of its first byte to 32 bits, and their decoder clears two flag bits in
  the message it reads. \<open>writes\<close> asks for a buffer of less than 4 GiB, \<open>reads\<close> lets the
  bytes of the value itself change. \<open>wire_codec\<close> is the interface of a type, \<open>wire_array\<close>
  that of the arrays of a type, with or without \<open>memcpy\<close>.
\<close>

section \<open>Writing and reading\<close>

definition writes :: "encode \<Rightarrow> UA_Byte list \<Rightarrow> bool" where
  "writes f bs \<longleftrightarrow> (\<forall>buf off. length buf < 2 ^ 32 \<longrightarrow> off + length bs \<le> length buf \<longrightarrow>
     f (buf, off) = Some (UA_STATUSCODE_GOOD, (splice buf off bs, off + length bs)))"

definition reads :: "'a decoder \<Rightarrow> UA_Byte list \<Rightarrow> 'a \<Rightarrow> bool" where
  "reads d bs v \<longleftrightarrow> (\<forall>pre post. \<exists>bs'. length bs' = length bs \<and> d (pre @ bs @ post, length pre) =
     Some (UA_STATUSCODE_GOOD, v, (pre @ bs' @ post, length pre + length bs)))"

lemma writesD:
  "writes f bs \<Longrightarrow> length buf < 2 ^ 32 \<Longrightarrow> off + length bs \<le> length buf \<Longrightarrow>
   f (buf, off) = Some (UA_STATUSCODE_GOOD, (splice buf off bs, off + length bs))"
  by (simp add: writes_def)

lemma readsE:
  assumes "reads d bs v" "off = length pre"
  obtains bs' where "length bs' = length bs"
    "d (pre @ bs @ post, off) = Some (UA_STATUSCODE_GOOD, v, (pre @ bs' @ post, off + length bs))"
  using assms unfolding reads_def by blast

lemma encodes_writes: "encodes f bs \<Longrightarrow> writes f bs"
  by (simp add: writes_def encodesD)

lemma decodes_reads: "decodes d bs v \<Longrightarrow> reads d bs v"
  unfolding reads_def by (metis decodesD)

lemma writes_skip: "writes enc_skip []"
  by (simp add: encodes_writes encodes_skip)

lemma writes_seq:
  assumes "writes f bs" "writes g cs" shows "writes (enc_seq f g) (bs @ cs)"
  unfolding writes_def
proof (intro allI impI)
  fix buf :: "UA_Byte list" and off
  assume buf: "length buf < 2 ^ 32" and room: "off + length (bs @ cs) \<le> length buf"
  have "f (buf, off) = Some (UA_STATUSCODE_GOOD, (splice buf off bs, off + length bs))"
    using room by (intro writesD assms buf) simp
  moreover have "g (splice buf off bs, off + length bs) =
      Some (UA_STATUSCODE_GOOD, (splice (splice buf off bs) (off + length bs) cs, off + length bs + length cs))"
    using room buf by (intro writesD assms) simp_all
  ultimately show "enc_seq f g (buf, off) =
      Some (UA_STATUSCODE_GOOD, (splice buf off (bs @ cs), off + length (bs @ cs)))"
    using room by (simp add: enc_seq_def splice_splice)
qed

lemma writes_when: "(b \<Longrightarrow> writes f bs) \<Longrightarrow> writes (enc_when b f) (if b then bs else [])"
  by (simp add: enc_when_def writes_skip)

lemma reads_return: "reads (dec_return v) [] v"
  by (simp add: decodes_reads decodes_return)

lemma reads_bind:
  assumes "reads d bs v" "reads (f v) cs w" shows "reads (dec_bind d f) (bs @ cs) w"
  unfolding reads_def
proof (intro allI)
  fix pre post
  obtain bs' where 1: "length bs' = length bs"
    "d (pre @ bs @ cs @ post, length pre) = Some (UA_STATUSCODE_GOOD, v, (pre @ bs' @ cs @ post, length pre + length bs))"
    using readsE [OF assms(1) refl] .
  obtain cs' where 2: "length cs' = length cs" "f v ((pre @ bs') @ cs @ post, length pre + length bs) =
      Some (UA_STATUSCODE_GOOD, w, ((pre @ bs') @ cs' @ post, length pre + length bs + length cs))"
    using readsE [OF assms(2), of "length pre + length bs" "pre @ bs'"] 1(1) by auto
  show "\<exists>xs. length xs = length (bs @ cs) \<and> dec_bind d f (pre @ (bs @ cs) @ post, length pre) =
      Some (UA_STATUSCODE_GOOD, w, (pre @ xs @ post, length pre + length (bs @ cs)))"
    using 1 2 by (intro exI [of _ "bs' @ cs'"]) (simp add: dec_bind_def add.assoc)
qed

lemma reads_map: "reads d bs v \<Longrightarrow> reads (dec_map f d) bs (f v)"
  unfolding dec_map_def using reads_bind [of d bs v _ "[]" "f v"] reads_return by fastforce

lemma reads_bind_return: "reads d bs v \<Longrightarrow> reads (dec_bind d (\<lambda>v. dec_return (f v))) bs (f v)"
  using reads_map unfolding dec_map_def .

lemma reads_when: "(b \<Longrightarrow> reads d bs v) \<Longrightarrow> reads (dec_when b d v0) (if b then bs else []) (if b then v else v0)"
  by (simp add: dec_when_def reads_return)

lemma reads_cleanup: "reads d bs v \<Longrightarrow> reads (dec_cleanup del d) bs v"
  unfolding reads_def
proof (intro allI)
  fix pre post
  assume "\<forall>pre post. \<exists>bs'. length bs' = length bs \<and> d (pre @ bs @ post, length pre) =
     Some (UA_STATUSCODE_GOOD, v, (pre @ bs' @ post, length pre + length bs))"
  then obtain bs' where "length bs' = length bs"
    "d (pre @ bs @ post, length pre) = Some (UA_STATUSCODE_GOOD, v, (pre @ bs' @ post, length pre + length bs))" by blast
  then show "\<exists>bs'. length bs' = length bs \<and> dec_cleanup del d (pre @ bs @ post, length pre) =
     Some (UA_STATUSCODE_GOOD, v, (pre @ bs' @ post, length pre + length bs))" by (auto simp: dec_cleanup_def)
qed

lemma reads_guard:
  assumes "reads d bs v" "reads (f v) cs w" shows "reads (dec_guard d w0 f) (bs @ cs) w"
proof -
  have "reads (dec_bind d f) (bs @ cs) w" using assms by (rule reads_bind)
  moreover have "dec_guard d w0 f (pre @ (bs @ cs) @ post, length pre) = dec_bind d f (pre @ (bs @ cs) @ post, length pre)" for pre post
  proof -
    obtain bs' where "d (pre @ bs @ cs @ post, length pre) = Some (UA_STATUSCODE_GOOD, v, (pre @ bs' @ cs @ post, length pre + length bs))"
      using readsE [OF assms(1) refl] .
    then show ?thesis by (simp add: dec_guard_def dec_bind_def split: Option.bind_splits)
  qed
  ultimately show ?thesis unfolding reads_def by simp
qed

section \<open>Interfaces\<close>

locale wire_codec =
  fixes enc :: "'a encoder" and dec :: "'a decoder"
    and ser :: "'a \<Rightarrow> UA_Byte list" and ok :: "'a \<Rightarrow> bool" and canon :: "'a \<Rightarrow> 'a"
  assumes writes_ser: "ok x \<Longrightarrow> writes (enc x) (ser x)"
    and reads_ser: "ok x \<Longrightarrow> reads dec (ser x) (canon x)"
begin

lemma wire_roundtrip:
  assumes "ok x" "off + length (ser x) \<le> length buf" "length buf < 2 ^ 32"
  shows "\<exists>buf' buf''. enc x (buf, off) = Some (UA_STATUSCODE_GOOD, (buf', off + length (ser x))) \<and>
     dec (buf', off) = Some (UA_STATUSCODE_GOOD, canon x, (buf'', off + length (ser x)))"
proof -
  have "length (take off buf) = off" using assms(2) by simp
  then obtain bs' where "dec (take off buf @ ser x @ drop (off + length (ser x)) buf, off) =
      Some (UA_STATUSCODE_GOOD, canon x, (take off buf @ bs' @ drop (off + length (ser x)) buf, off + length (ser x)))"
    by (metis readsE [OF reads_ser [OF assms(1)]])
  then show ?thesis using writesD [OF writes_ser [OF assms(1)] assms(3,2)] by (simp add: splice_def)
qed

end

text \<open>Every strict codec is one.\<close>

sublocale codec \<subseteq> wire: wire_codec enc dec ser ok canon
  by unfold_locales (auto intro: encodes_writes decodes_reads enc_ser dec_ser)

locale wire_array = wire_codec enc dec ser ok canon
  for enc :: "'a encoder" and dec :: "'a decoder" and ser :: "'a \<Rightarrow> UA_Byte list"
    and ok :: "'a \<Rightarrow> bool" and canon :: "'a \<Rightarrow> 'a" +
  fixes memSize :: nat and image :: "('a \<Rightarrow> UA_Byte list) option" and unimage :: "(UA_Byte list \<Rightarrow> 'a) option"
  assumes image_ser: "image = Some img \<Longrightarrow> ok x \<Longrightarrow> img x = ser x"
    and image_size: "image = Some img \<Longrightarrow> ok x \<Longrightarrow> length (ser x) = memSize"
    and unimage_ser: "unimage = Some un \<Longrightarrow> ok x \<Longrightarrow> un (ser x) = canon x"
    and same_copy: "(image = None) = (unimage = None)"
begin

definition ser_elems :: "'a ua_array \<Rightarrow> UA_Byte list" where
  "ser_elems a = concat (map ser (content a))"

text \<open>
  The length fits, the array is within the limit of an allocation, and the plausibility
  filter of the decoder accepts it also at the end of a message.
\<close>

definition array_ok :: "'a ua_array \<Rightarrow> bool" where
  "array_ok a \<longleftrightarrow> alen a < 2 ^ 31 \<and> memSize * alen a \<le> MAX_ARRAY_SIZE \<and>
     memSize * alen a div 32 \<le> length (ser_elems a) \<and> list_all ok (content a)"

lemma writes_elems: "list_all ok xs \<Longrightarrow> writes (enc_elems enc xs) (concat (map ser xs))"
proof (induction xs)
  case (Cons x xs)
  then have "writes (enc_seq (enc x) (enc_elems enc xs)) (ser x @ concat (map ser xs))"
    by (intro writes_seq writes_ser) auto
  moreover have "writes (enc x) (ser x)" using Cons.prems by (intro writes_ser) simp
  ultimately show ?case
    by (auto simp: writes_def enc_seq_def)
qed (simp add: writes_def)

lemma reads_elems: "list_all ok xs \<Longrightarrow> reads (dec_elems dec (length xs)) (concat (map ser xs)) (map canon xs)"
proof (induction xs)
  case (Cons x xs)
  have "reads (dec_guard dec [] (\<lambda>v. dec_map ((#) v) (dec_elems dec (length xs)))) (ser x @ concat (map ser xs)) (canon x # map canon xs)"
    using Cons by (intro reads_guard [OF reads_ser] reads_map) auto
  moreover have "dec_guard dec [] (\<lambda>v. dec_map ((#) v) (dec_elems dec (length xs))) = dec_elems dec (length (x # xs))"
    by (rule ext) (auto simp: dec_guard_def dec_map_def dec_bind_def dec_return_def split: Option.bind_splits)
  ultimately show ?case by (simp only: list.map concat.simps)
qed (simp add: decodes_reads decodes_def)

lemma image_length: "image = Some img \<Longrightarrow> list_all ok xs \<Longrightarrow> length (concat (map ser xs)) = memSize * length xs"
  by (induction xs) (auto simp: image_size)

lemma image_chunks: "image = Some img \<Longrightarrow> list_all ok xs \<Longrightarrow> chunks memSize (length xs) (concat (map ser xs)) = map ser xs"
  by (induction xs) (auto simp: image_size)

lemma image_concat: "image = Some img \<Longrightarrow> list_all ok xs \<Longrightarrow> concat (map img xs) = concat (map ser xs)"
  by (induction xs) (auto simp: image_ser)

lemma length_code: "(if 0 < alen a then word_of_nat (alen a) else case a of Empty_sentinel \<Rightarrow> 0 | _ \<Rightarrow> - 1) = array_length_code a"
  by (cases a) (auto simp: array_length_code_def)

lemma writes_array:
  assumes "array_ok a"
  shows "writes (Array_encodeBinary memSize image enc a) (le_bytes 4 (array_length_code a) @ ser_elems a)"
proof -
  have all: "list_all ok (content a)" using assms by (simp add: array_ok_def)
  show ?thesis
  proof (cases image)
    case None
    then show ?thesis using writes_elems [OF all]
      unfolding writes_def Array_encodeBinary_def Int32_encodeBinary_def Let_def length_code ser_elems_def
      by (auto simp: encodesD [OF UInt32.enc_ser] splice_splice)
  next
    case (Some img)
    then show ?thesis using image_concat [OF Some all] image_length [OF Some all]
      unfolding writes_def Array_encodeBinary_def Int32_encodeBinary_def Let_def length_code ser_elems_def
      by (auto simp: encodesD [OF UInt32.enc_ser] splice_splice)
  qed
qed

lemma reads_array:
  assumes ok: "array_ok a" and mem: "\<forall>k. mem k"
  shows "reads (Array_decodeBinary mem memSize unimage dec (array_length_code a)) (ser_elems a) (canon_elems canon a)"
  unfolding reads_def
proof (intro allI)
  fix pre post :: "UA_Byte list"
  have len: "alen a < 2 ^ 31" and all: "list_all ok (content a)" and max: "\<not> memSize * alen a > MAX_ARRAY_SIZE"
    and filt: "memSize * alen a div 32 \<le> length (ser_elems a)"
    using ok by (auto simp: array_ok_def)
  let ?goal = "\<exists>bs'. length bs' = length (ser_elems a) \<and>
     Array_decodeBinary mem memSize unimage dec (array_length_code a) (pre @ ser_elems a @ post, length pre) =
     Some (UA_STATUSCODE_GOOD, canon_elems canon a, (pre @ bs' @ post, length pre + length (ser_elems a)))"
  show ?goal
  proof (cases "alen a = 0")
    case True
    then show ?thesis by (cases a) (simp_all add: Array_decodeBinary_def ser_elems_def array_length_code_def)
  next
    case False
    then obtain xs where a: "a = Block xs" "xs \<noteq> []" by (cases a) auto
    have sl: "sint (array_length_code a) = int (length xs)" "nat (sint (array_length_code a)) = length xs"
      using sint_of_nat32 [OF len] a by (simp_all add: array_length_code_def)
    have els: "ser_elems a = concat (map ser xs)" using a by (simp add: ser_elems_def)
    show ?thesis
    proof (cases unimage)
      case None
      obtain bs' where "length bs' = length (ser_elems a)" "dec_elems dec (length xs) (pre @ ser_elems a @ post, length pre) =
          Some (UA_STATUSCODE_GOOD, map canon xs, (pre @ bs' @ post, length pre + length (ser_elems a)))"
        using readsE [OF reads_elems refl, of xs pre post] all a els by auto
      then show ?thesis using None a sl max filt mem by (auto simp: Array_decodeBinary_def)
    next
      case (Some un)
      then obtain img where img: "image = Some img" using same_copy by auto
      have len': "length (ser_elems a) = memSize * length xs" using image_length [OF img all] a els by simp
      have un: "map un (chunks memSize (length xs) (ser_elems a)) = map canon xs"
        using image_chunks [OF img all] a els all by (auto simp: list_all_iff unimage_ser [OF Some])
      have "read_bytes (pre @ ser_elems a @ post) (length pre) (memSize * length xs) = Some (ser_elems a)"
        using read_bytes_mid [of "length pre" pre "memSize * length xs" "ser_elems a" post] len' by simp
      then show ?thesis using Some a sl max filt mem un len' by (auto simp: Array_decodeBinary_def Let_def)
    qed
  qed
qed

lemma reads_array_member:
  assumes "array_ok a" "\<forall>k. mem k"
  shows "reads (array_member_decodeBinary mem memSize unimage dec) (le_bytes 4 (array_length_code a) @ ser_elems a) (canon_elems canon a)"
proof -
  have "reads (dec_bind Int32_decodeBinary (Array_decodeBinary mem memSize unimage dec))
      (le_bytes 4 (array_length_code a) @ ser_elems a) (canon_elems canon a)"
    unfolding Int32_decodeBinary_def by (intro reads_bind [OF decodes_reads [OF int_dec(3)]] reads_array assms)
  moreover have "dec_bind Int32_decodeBinary (Array_decodeBinary mem memSize unimage dec) (pre @ (le_bytes 4 w @ bs) @ post, length pre) =
      array_member_decodeBinary mem memSize unimage dec (pre @ (le_bytes 4 w @ bs) @ post, length pre)" for pre post bs and w :: UA_Int32
    by (simp add: dec_bind_def array_member_decodeBinary_def Int32_dec_ser)
  ultimately show ?thesis unfolding reads_def by metis
qed

end

interpretation UInt32_wire: wire_array UInt32_encodeBinary UInt32_decodeBinary "le_bytes 4" "\<lambda>_. True" id 4 "Some (le_bytes 4)" "Some le_word"
  by unfold_locales auto

end
