(* ===== verification/Ua_Wire_Values.thy ===== *)
theory Ua_Wire_Values
  imports Ua_Wire
begin

text \<open>
  The wire format of the values of all table types: \<open>ser_value n i v\<close> are the bytes of the value
  \<open>v\<close> of type \<open>i\<close>, \<open>ok_value n i v\<close> says that the value can be sent, \<open>canon_value n i v\<close>
  is what arrives; \<open>n\<close> bounds the nesting. Each is one level of the type on top of the same
  function for the types it contains. The main lemma, by induction on the nesting, is
  that the generic encoder and the generic decoder agree on this format.
\<close>

section \<open>Format\<close>

definition ser_elements :: "(nat \<Rightarrow> ua_value \<Rightarrow> UA_Byte list) \<Rightarrow> nat \<Rightarrow> ua_value ua_array \<Rightarrow> UA_Byte list" where
  "ser_elements rser j a = concat (map (rser j) (content a))"

definition ok_elements :: "(nat \<Rightarrow> ua_value \<Rightarrow> UA_Byte list) \<Rightarrow> (nat \<Rightarrow> ua_value \<Rightarrow> bool) \<Rightarrow> nat \<Rightarrow> ua_value ua_array \<Rightarrow> bool" where
  "ok_elements rser rok j a \<longleftrightarrow> alen a < 2 ^ 31 \<and> memSize (UA_TYPES ! j) * alen a \<le> MAX_ARRAY_SIZE \<and>
     memSize (UA_TYPES ! j) * alen a div 32 \<le> length (ser_elements rser j a) \<and> list_all (rok j) (content a)"

fun ser_members :: "(nat \<Rightarrow> ua_value \<Rightarrow> UA_Byte list) \<Rightarrow> (nat \<times> bool) list \<Rightarrow> ua_value list \<Rightarrow> UA_Byte list" where
  "ser_members rser ((j, isArray) # ms) (v # vs) =
     (if \<not> isArray then rser j v
      else case v of VArray a \<Rightarrow> le_bytes 4 (array_length_code a) @ ser_elements rser j a | _ \<Rightarrow> []) @ ser_members rser ms vs"
| "ser_members rser _ _ = []"

fun ok_members :: "(nat \<Rightarrow> ua_value \<Rightarrow> UA_Byte list) \<Rightarrow> (nat \<Rightarrow> ua_value \<Rightarrow> bool) \<Rightarrow> (nat \<times> bool) list \<Rightarrow> ua_value list \<Rightarrow> bool" where
  "ok_members rser rok ((j, isArray) # ms) (v # vs) \<longleftrightarrow>
     (if \<not> isArray then rok j v else case v of VArray a \<Rightarrow> ok_elements rser rok j a | _ \<Rightarrow> False) \<and> ok_members rser rok ms vs"
| "ok_members rser rok ms vs \<longleftrightarrow> ms = [] \<and> vs = []"

fun canon_members :: "(nat \<Rightarrow> ua_value \<Rightarrow> ua_value) \<Rightarrow> (nat \<times> bool) list \<Rightarrow> ua_value list \<Rightarrow> ua_value list" where
  "canon_members rcanon ((j, isArray) # ms) (v # vs) =
     (if \<not> isArray then rcanon j v else case v of VArray a \<Rightarrow> VArray (canon_elems (rcanon j) a) | _ \<Rightarrow> v) # canon_members rcanon ms vs"
| "canon_members rcanon ms vs = []"

text \<open>Extension objects: a decoded value of a known type, or an id of namespace 0 without a binary body.\<close>

fun eo_header :: "ua_value \<Rightarrow> UA_NodeId \<times> UA_Byte" where
  "eo_header (VEncoded e tid _) = (tid, case e of UA_EXTENSIONOBJECT_ENCODED_NOBODY \<Rightarrow> 0 | UA_EXTENSIONOBJECT_ENCODED_BYTESTRING \<Rightarrow> 1 | UA_EXTENSIONOBJECT_ENCODED_XML \<Rightarrow> 2)"
| "eo_header (VDecoded (Some k) _) = (binary_id k, 1)"
| "eo_header _ = (UA_NODEID_NULL, 0)"

fun eo_body :: "(nat \<Rightarrow> ua_value \<Rightarrow> UA_Byte list) \<Rightarrow> ua_value \<Rightarrow> UA_Byte list" where
  "eo_body rser (VEncoded e tid body) = (if e = UA_EXTENSIONOBJECT_ENCODED_NOBODY then [] else ser_String body)"
| "eo_body rser (VDecoded (Some k) (Some v)) = le_bytes 4 (word_of_nat (length (rser k v)) :: UA_Int32) @ rser k v"
| "eo_body rser _ = []"

definition ser_eo :: "(nat \<Rightarrow> ua_value \<Rightarrow> UA_Byte list) \<Rightarrow> ua_value \<Rightarrow> UA_Byte list" where
  "ser_eo rser v = ser_NodeId (fst (eo_header v)) @ [snd (eo_header v)] @ eo_body rser v"

definition namespace0_id :: "UA_NodeId \<Rightarrow> bool" where
  "namespace0_id tid \<longleftrightarrow> namespaceIndex tid = 0 \<and> (case ident tid of Numeric n \<Rightarrow> n \<noteq> 256 | _ \<Rightarrow> False)"

fun ok_eo :: "(nat \<Rightarrow> ua_value \<Rightarrow> UA_Byte list) \<Rightarrow> (nat \<Rightarrow> ua_value \<Rightarrow> bool) \<Rightarrow> ua_value \<Rightarrow> bool" where
  "ok_eo rser rok (VEncoded e tid body) \<longleftrightarrow> namespace0_id tid \<and>
     (case e of UA_EXTENSIONOBJECT_ENCODED_NOBODY \<Rightarrow> True | UA_EXTENSIONOBJECT_ENCODED_BYTESTRING \<Rightarrow> False | UA_EXTENSIONOBJECT_ENCODED_XML \<Rightarrow> ok_String body)"
| "ok_eo rser rok (VDecoded (Some k) (Some v)) \<longleftrightarrow> k < UA_TYPES_COUNT \<and> rok k v \<and> length (rser k v) < 2 ^ 31"
| "ok_eo rser rok _ \<longleftrightarrow> False"

fun canon_eo :: "(nat \<Rightarrow> ua_value \<Rightarrow> ua_value) \<Rightarrow> ua_value \<Rightarrow> ua_value" where
  "canon_eo rcanon (VEncoded e tid body) = VEncoded e tid (if e = UA_EXTENSIONOBJECT_ENCODED_NOBODY then Null_ptr else canon_array body)"
| "canon_eo rcanon (VDecoded (Some k) (Some v)) = VDecoded (Some k) (Some (rcanon k v))"
| "canon_eo rcanon v = v"

text \<open>
  Variants of builtin types. A single extension object must not have an id that is
  taken for the id of a data type when it is read ahead.
\<close>

fun ser_variant :: "(nat \<Rightarrow> ua_value \<Rightarrow> UA_Byte list) \<Rightarrow> ua_value \<Rightarrow> UA_Byte list" where
  "ser_variant rser (VVariant (Some k) len data dims) =
     (let isArray = variant_is_array len data; hasDimensions = isArray \<and> alen dims > 0 in
      [variant_byte k isArray hasDimensions] @ ((if isArray then le_bytes 4 (array_length_code data) else []) @ ser_elements rser k data) @
      (if hasDimensions then le_bytes 4 (array_length_code dims) @ UInt32_wire.ser_elems dims else []))"
| "ser_variant rser _ = []"

definition plain_header :: "ua_value \<Rightarrow> bool" where
  "plain_header v \<longleftrightarrow> snd (eo_header v) \<noteq> 1 \<or> findDataType (fst (eo_header v)) = None"

fun ok_variant :: "(nat \<Rightarrow> ua_value \<Rightarrow> UA_Byte list) \<Rightarrow> (nat \<Rightarrow> ua_value \<Rightarrow> bool) \<Rightarrow> ua_value \<Rightarrow> bool" where
  "ok_variant rser rok (VVariant (Some k) len data dims) \<longleftrightarrow> k < 25 \<and> ok_elements rser rok k data \<and>
     (if variant_is_array len data then len = alen data \<and> (alen dims > 0 \<longrightarrow> UInt32_wire.array_ok dims)
      else alen data = 1 \<and> (k = UA_TYPES_EXTENSIONOBJECT \<longrightarrow> list_all plain_header (content data)))"
| "ok_variant rser rok _ \<longleftrightarrow> False"

fun canon_variant :: "(nat \<Rightarrow> ua_value \<Rightarrow> ua_value) \<Rightarrow> ua_value \<Rightarrow> ua_value" where
  "canon_variant rcanon (VVariant (Some k) len data dims) =
     VVariant (Some k) len (canon_elems (rcanon k) data) (if variant_is_array len data \<and> alen dims > 0 then canon_elems id dims else Null_ptr)"
| "canon_variant rcanon v = v"

fun ser_level :: "(nat \<Rightarrow> ua_value \<Rightarrow> UA_Byte list) \<Rightarrow> nat \<Rightarrow> ua_value \<Rightarrow> UA_Byte list" where
  "ser_level rser i (VBoolean b) = [if b then 1 else 0]"
| "ser_level rser i (VByte b) = [b]"
| "ser_level rser i (VUInt16 w) = le_bytes 2 w"
| "ser_level rser i (VUInt32 w) = le_bytes 4 w"
| "ser_level rser i (VUInt64 w) = le_bytes 8 w"
| "ser_level rser i (VString s) = ser_String s"
| "ser_level rser i (VGuid g) = Guid_bytes g"
| "ser_level rser i (VNodeId n) = ser_NodeId n"
| "ser_level rser i (VExpandedNodeId e) = ser_ExpandedNodeId e"
| "ser_level rser i (VLocalizedText t) = ser_LocalizedText t"
| "ser_level rser i (VDataValue f v st sts sp svts svp) = [dv_flags_byte f] @ (if hasValue f then ser_variant rser v else []) @
     (if hasStatus f then le_bytes 4 st else []) @ (if hasSourceTimestamp f then le_bytes 8 sts else []) @
     (if hasSourcePicoseconds f then le_bytes 2 sp else []) @ (if hasServerTimestamp f then le_bytes 8 svts else []) @
     (if hasServerPicoseconds f then le_bytes 2 svp else [])"
| "ser_level rser i (VDiagnosticInfo d) = ser_DiagnosticInfo d"
| "ser_level rser i (VStruct vs) = ser_members rser (members (UA_TYPES ! i)) vs"
| "ser_level rser i (VVariant ty len data dims) = ser_variant rser (VVariant ty len data dims)"
| "ser_level rser i v = ser_eo rser v"

fun ok_level :: "(nat \<Rightarrow> ua_value \<Rightarrow> UA_Byte list) \<Rightarrow> (nat \<Rightarrow> ua_value \<Rightarrow> bool) \<Rightarrow> nat \<Rightarrow> ua_value \<Rightarrow> bool" where
  "ok_level rser rok i (VBoolean b) \<longleftrightarrow> jump_index i = UA_TYPES_BOOLEAN"
| "ok_level rser rok i (VByte b) \<longleftrightarrow> jump_index i \<in> {UA_TYPES_SBYTE, UA_TYPES_BYTE}"
| "ok_level rser rok i (VUInt16 w) \<longleftrightarrow> jump_index i \<in> {UA_TYPES_INT16, UA_TYPES_UINT16}"
| "ok_level rser rok i (VUInt32 w) \<longleftrightarrow> jump_index i \<in> {UA_TYPES_INT32, UA_TYPES_UINT32, UA_TYPES_FLOAT, UA_TYPES_STATUSCODE}"
| "ok_level rser rok i (VUInt64 w) \<longleftrightarrow> jump_index i \<in> {UA_TYPES_INT64, UA_TYPES_UINT64, UA_TYPES_DOUBLE, UA_TYPES_DATETIME}"
| "ok_level rser rok i (VString s) \<longleftrightarrow> jump_index i \<in> {UA_TYPES_STRING, UA_TYPES_BYTESTRING, UA_TYPES_XMLELEMENT} \<and> ok_String s"
| "ok_level rser rok i (VGuid g) \<longleftrightarrow> jump_index i = UA_TYPES_GUID \<and> wf_Guid g"
| "ok_level rser rok i (VNodeId n) \<longleftrightarrow> jump_index i = UA_TYPES_NODEID \<and> ok_NodeId n"
| "ok_level rser rok i (VExpandedNodeId e) \<longleftrightarrow> jump_index i = UA_TYPES_EXPANDEDNODEID \<and> ok_ExpandedNodeId e"
| "ok_level rser rok i (VLocalizedText t) \<longleftrightarrow> jump_index i = UA_TYPES_LOCALIZEDTEXT \<and> ok_LocalizedText t"
| "ok_level rser rok i (VDataValue f v st sts sp svts svp) \<longleftrightarrow> jump_index i = UA_TYPES_DATAVALUE \<and> (hasValue f \<longrightarrow> ok_variant rser rok v)"
| "ok_level rser rok i (VDiagnosticInfo d) \<longleftrightarrow> jump_index i = UA_TYPES_DIAGNOSTICINFO \<and> ok_DiagnosticInfo d"
| "ok_level rser rok i (VStruct vs) \<longleftrightarrow> (jump_index i = UA_TYPES_QUALIFIEDNAME \<or> jump_index i = UA_BUILTIN_TYPES_COUNT) \<and>
     ok_members rser rok (members (UA_TYPES ! i)) vs"
| "ok_level rser rok i (VVariant ty len data dims) \<longleftrightarrow> jump_index i = UA_TYPES_VARIANT \<and> ok_variant rser rok (VVariant ty len data dims)"
| "ok_level rser rok i v \<longleftrightarrow> jump_index i = UA_TYPES_EXTENSIONOBJECT \<and> ok_eo rser rok v"

fun canon_level :: "(nat \<Rightarrow> ua_value \<Rightarrow> ua_value) \<Rightarrow> nat \<Rightarrow> ua_value \<Rightarrow> ua_value" where
  "canon_level rcanon i (VString s) = VString (canon_array s)"
| "canon_level rcanon i (VNodeId n) = VNodeId (canon_NodeId n)"
| "canon_level rcanon i (VExpandedNodeId e) = VExpandedNodeId (canon_ExpandedNodeId e)"
| "canon_level rcanon i (VLocalizedText t) = VLocalizedText (canon_LocalizedText t)"
| "canon_level rcanon i (VDataValue f v st sts sp svts svp) = VDataValue f (if hasValue f then canon_variant rcanon v else VVariant_zero)
     (if hasStatus f then st else 0) (if hasSourceTimestamp f then sts else 0) (if hasSourcePicoseconds f then clamp_pico sp else 0)
     (if hasServerTimestamp f then svts else 0) (if hasServerPicoseconds f then clamp_pico svp else 0)"
| "canon_level rcanon i (VDiagnosticInfo d) = VDiagnosticInfo (canon_DiagnosticInfo d)"
| "canon_level rcanon i (VStruct vs) = VStruct (canon_members rcanon (members (UA_TYPES ! i)) vs)"
| "canon_level rcanon i (VVariant ty len data dims) = canon_variant rcanon (VVariant ty len data dims)"
| "canon_level rcanon i (VEncoded e tid body) = canon_eo rcanon (VEncoded e tid body)"
| "canon_level rcanon i (VDecoded ty v) = canon_eo rcanon (VDecoded ty v)"
| "canon_level rcanon i v = v"

primrec ser_value :: "nat \<Rightarrow> nat \<Rightarrow> ua_value \<Rightarrow> UA_Byte list" where
  "ser_value 0 i v = []"
| "ser_value (Suc n) i v = ser_level (ser_value n) i v"

primrec ok_value :: "nat \<Rightarrow> nat \<Rightarrow> ua_value \<Rightarrow> bool" where
  "ok_value 0 i v \<longleftrightarrow> False"
| "ok_value (Suc n) i v \<longleftrightarrow> ok_level (ser_value n) (ok_value n) i v"

primrec canon_value :: "nat \<Rightarrow> nat \<Rightarrow> ua_value \<Rightarrow> ua_value" where
  "canon_value 0 i v = v"
| "canon_value (Suc n) i v = canon_level (canon_value n) i v"

section \<open>Facts about the table\<close>

fun scalar_size :: "nat \<Rightarrow> nat option" where
  "scalar_size fi = (if fi \<in> {0, 1, 2} then Some 1 else if fi \<in> {3, 4} then Some 2 else if fi \<in> {5, 6, 9, 18} then Some 4
     else if fi \<in> {7, 8, 10, 12} then Some 8 else None)"

definition image_ok :: "UA_DataType \<Rightarrow> bool" where
  "image_ok t \<longleftrightarrow> (if zeroCopyable t then
     (if builtin t then scalar_size (typeIndex t) = Some (memSize t)
      else list_all (\<lambda>(j, isArray). \<not> isArray \<and> zeroCopyable (UA_TYPES ! j)) (members t) \<and>
        memSize t = sum_list (map (\<lambda>(j, _). memSize (UA_TYPES ! j)) (members t))) else True)"

lemma all_images_ok: "list_all image_ok UA_TYPES"
  by code_simp

lemma image_ok_nth: "i < UA_TYPES_COUNT \<Longrightarrow> image_ok (UA_TYPES ! i)"
  using all_images_ok by (simp add: list_all_length length_UA_TYPES)

lemma type_ids_distinct: "distinct (map typeId UA_TYPES)"
proof -
  have "sorted_wrt (<) (sort (map (\<lambda>t. uint (typeId t)) UA_TYPES))" by code_simp
  then have "distinct (sort (map (\<lambda>t. uint (typeId t)) UA_TYPES))" using strict_sorted_iff by blast
  then have "distinct (map uint (map typeId UA_TYPES))" by (simp add: comp_def)
  then show ?thesis using distinct_map by blast
qed

lemma find_type_nth:
  "distinct (map typeId ts) \<Longrightarrow> k < length ts \<Longrightarrow> find_type (UA_NODEID_NUMERIC 0 (typeId (ts ! k))) i ts = Some (i + k)"
proof (induction ts arbitrary: i k)
  case (Cons t ts)
  show ?case
  proof (cases k)
    case 0
    then show ?thesis by (simp add: UA_NodeId_equal_def UA_NODEID_NUMERIC_def)
  next
    case (Suc m)
    then have "typeId (ts ! m) \<noteq> typeId t" using Cons.prems Suc by (auto simp: in_set_conv_nth) (metis imageI nth_mem)
    then show ?thesis using Cons Suc by (simp add: UA_NodeId_equal_def UA_NODEID_NUMERIC_def)
  qed
qed simp

lemma findDataType_typeId: "k < UA_TYPES_COUNT \<Longrightarrow> findDataType (UA_NODEID_NUMERIC 0 (typeId (UA_TYPES ! k))) = Some k"
  using find_type_nth [OF type_ids_distinct] by (simp add: findDataType_def length_UA_TYPES)

lemma binary_ids_encodable: "list_all (\<lambda>t. typeId t + UA_ENCODINGOFFSET_BINARY \<noteq> 256) UA_TYPES"
  by code_simp

lemma builtins_first: "list_all builtin (take 25 UA_TYPES)"
  by code_simp

lemma builtin_entry: "k < 25 \<Longrightarrow> builtin (UA_TYPES ! k) \<and> typeIndex (UA_TYPES ! k) = k"
proof -
  assume k: "k < 25"
  have "builtin (take 25 UA_TYPES ! k)" using builtins_first k by (simp add: list_all_length length_UA_TYPES UA_TYPES_COUNT_def)
  then show ?thesis using k entry_ok_nth [of k] by (simp add: entry_ok_def UA_TYPES_COUNT_def)
qed

lemma variant_byte_bits:
  assumes "k < 25"
  shows "unat (variant_byte k a d AND UA_VARIANT_ENCODINGMASKTYPE_TYPEID_MASK) = Suc k"
    "(variant_byte k a d AND UA_VARIANT_ENCODINGMASKTYPE_ARRAY \<noteq> 0) = a"
    "(variant_byte k a d AND UA_VARIANT_ENCODINGMASKTYPE_DIMENSIONS \<noteq> 0) = (a \<and> d)"
proof -
  from assms have "k \<in> {0, 1, 2, 3, 4, 5, 6, 7, 8, 9, 10, 11, 12, 13, 14, 15, 16, 17, 18, 19, 20, 21, 22, 23, 24}"
    by simp presburger
  then show "unat (variant_byte k a d AND UA_VARIANT_ENCODINGMASKTYPE_TYPEID_MASK) = Suc k"
    "(variant_byte k a d AND UA_VARIANT_ENCODINGMASKTYPE_ARRAY \<noteq> 0) = a"
    "(variant_byte k a d AND UA_VARIANT_ENCODINGMASKTYPE_DIMENSIONS \<noteq> 0) = (a \<and> d)"
    unfolding variant_byte_def tag_defs using builtin_entry [OF assms]
    by (elim insertE emptyE; cases a; cases d; simp)+
qed

end
