(* ===== verification/Ua_Wire_Laws.thy ===== *)
theory Ua_Wire_Laws
  imports Ua_Wire_Values
begin

text \<open>
  The generic encoder and decoder agree on the wire format of every value: one lemma per
  kind of type, each for arbitrary functions \<open>renc\<close>, \<open>rdec\<close> of the contained types that
  agree (the assumption \<open>level_ok\<close>), and the induction on the nesting that closes the recursion.
\<close>

type_synonym ser_table = "nat \<Rightarrow> ua_value \<Rightarrow> UA_Byte list"
type_synonym ok_table = "nat \<Rightarrow> ua_value \<Rightarrow> bool"
type_synonym canon_table = "nat \<Rightarrow> ua_value \<Rightarrow> ua_value"

definition level_ok :: "enc_table \<Rightarrow> dec_table \<Rightarrow> ser_table \<Rightarrow> ok_table \<Rightarrow> canon_table \<Rightarrow> bool" where
  "level_ok renc rdec rser rok rcanon \<longleftrightarrow> (\<forall>k < UA_TYPES_COUNT.
     wire_codec (renc k) (rdec k) (rser k) (rok k) (rcanon k) \<and>
     (zeroCopyable (UA_TYPES ! k) \<longrightarrow> (\<forall>x. rok k x \<longrightarrow> length (rser k x) = memSize (UA_TYPES ! k)))) \<and>
     (\<forall>x. rok UA_TYPES_EXTENSIONOBJECT x \<longrightarrow> (\<exists>rser' rok'. ok_eo rser' rok' x \<and> rser UA_TYPES_EXTENSIONOBJECT x = ser_eo rser' x))"

lemma level_codec: "level_ok renc rdec rser rok rcanon \<Longrightarrow> k < UA_TYPES_COUNT \<Longrightarrow> wire_codec (renc k) (rdec k) (rser k) (rok k) (rcanon k)"
  by (simp add: level_ok_def)

lemma level_size:
  "level_ok renc rdec rser rok rcanon \<Longrightarrow> k < UA_TYPES_COUNT \<Longrightarrow> zeroCopyable (UA_TYPES ! k) \<Longrightarrow> rok k x \<Longrightarrow>
   length (rser k x) = memSize (UA_TYPES ! k)"
  by (simp add: level_ok_def)

section \<open>Arrays and structures\<close>

lemma level_array:
  assumes lvl: "level_ok renc rdec rser rok rcanon" and k: "k < UA_TYPES_COUNT" and max: "memSize (UA_TYPES ! k) < 2 ^ 32"
  shows "wire_array (renc k) (rdec k) (rser k) (rok k) (rcanon k) (memSize (UA_TYPES ! k)) (enc_zero_copy renc k) (dec_zero_copy rdec k)"
proof (intro wire_array.intro level_codec [OF lvl k] wire_array_axioms.intro)
  note cd = level_codec [OF lvl k]
  show "img x = rser k x" if "enc_zero_copy renc k = Some img" "rok k x" for img x
  proof -
    have z: "zeroCopyable (UA_TYPES ! k)" and img: "img = (\<lambda>v. case renc k v (replicate (memSize (UA_TYPES ! k)) 0, 0) of None \<Rightarrow> [] | Some (_, (dst, _)) \<Rightarrow> dst)"
      using that(1) by (auto simp: enc_zero_copy_def split: if_splits)
    have len: "length (rser k x) = memSize (UA_TYPES ! k)" using level_size [OF lvl k z that(2)] .
    then show ?thesis
      using writesD [OF wire_codec.writes_ser [OF cd that(2)], of "replicate (memSize (UA_TYPES ! k)) 0" 0] max
      unfolding img by (simp add: splice_def)
  qed
  show "un (rser k x) = rcanon k x" if un: "dec_zero_copy rdec k = Some un" and x: "rok k x" for un x
  proof -
    obtain bs' where "rdec k ([] @ rser k x @ [], 0) = Some (UA_STATUSCODE_GOOD, rcanon k x, ([] @ bs' @ [], 0 + length (rser k x)))"
      using readsE [OF wire_codec.reads_ser [OF cd x], of 0 "[]" "[]"] by auto
    then show ?thesis using un by (auto simp: dec_zero_copy_def split: if_splits)
  qed
  show "length (rser k x) = memSize (UA_TYPES ! k)" if "enc_zero_copy renc k = Some img" "rok k x" for img x
    using level_size [OF lvl k _ that(2)] that(1) by (simp add: enc_zero_copy_def split: if_splits)
qed (simp add: enc_zero_copy_def dec_zero_copy_def)

lemma sizes_bounded: "list_all (\<lambda>t. memSize t < 1024) UA_TYPES"
  by code_simp

lemma memSize_bounded: "k < UA_TYPES_COUNT \<Longrightarrow> memSize (UA_TYPES ! k) < 2 ^ 32"
  using sizes_bounded by (auto simp: list_all_length length_UA_TYPES dest!: spec [of _ k])

lemma wire_elements:
  assumes "level_ok renc rdec rser rok rcanon" "k < UA_TYPES_COUNT" "ok_elements rser rok k a"
  shows "writes (enc_array renc k a) (le_bytes 4 (array_length_code a) @ ser_elements rser k a)"
    and "reads (dec_array rdec (\<lambda>_. True) k (array_length_code a)) (ser_elements rser k a) (canon_elems (rcanon k) a)"
    and "reads (array_member_decodeBinary (\<lambda>_. True) (memSize (UA_TYPES ! k)) (dec_zero_copy rdec k) (rdec k))
       (le_bytes 4 (array_length_code a) @ ser_elements rser k a) (canon_elems (rcanon k) a)"
proof -
  note arr = level_array [OF assms(1,2) memSize_bounded [OF assms(2)]]
  have ser: "wire_array.ser_elems (rser k) a = ser_elements rser k a" for a
    using wire_array.ser_elems_def [OF arr] by (simp add: ser_elements_def)
  have ok: "wire_array.array_ok (rser k) (rok k) (memSize (UA_TYPES ! k)) a"
    using assms(3) wire_array.array_ok_def [OF arr] by (simp add: ok_elements_def ser)
  show "writes (enc_array renc k a) (le_bytes 4 (array_length_code a) @ ser_elements rser k a)"
    using wire_array.writes_array [OF arr ok] by (simp add: enc_array_def ser)
  show "reads (dec_array rdec (\<lambda>_. True) k (array_length_code a)) (ser_elements rser k a) (canon_elems (rcanon k) a)"
    using wire_array.reads_array [OF arr ok] by (simp add: dec_array_def ser)
  show "reads (array_member_decodeBinary (\<lambda>_. True) (memSize (UA_TYPES ! k)) (dec_zero_copy rdec k) (rdec k))
       (le_bytes 4 (array_length_code a) @ ser_elements rser k a) (canon_elems (rcanon k) a)"
    using wire_array.reads_array_member [OF arr ok] by (simp add: ser)
qed

lemma wire_member:
  assumes lvl: "level_ok renc rdec rser rok rcanon" and j: "j < UA_TYPES_COUNT" and ok: "ok_members rser rok [(j, isArray)] [v]"
  shows "writes (enc_member renc j isArray v) (ser_members rser [(j, isArray)] [v])"
    and "reads (if \<not> isArray then rdec j
       else dec_map VArray (array_member_decodeBinary (\<lambda>_. True) (memSize (UA_TYPES ! j)) (dec_zero_copy rdec j) (rdec j)))
       (ser_members rser [(j, isArray)] [v]) (hd (canon_members rcanon [(j, isArray)] [v]))"
proof -
  have "writes (enc_member renc j isArray v) (ser_members rser [(j, isArray)] [v]) \<and>
    reads (if \<not> isArray then rdec j
       else dec_map VArray (array_member_decodeBinary (\<lambda>_. True) (memSize (UA_TYPES ! j)) (dec_zero_copy rdec j) (rdec j)))
       (ser_members rser [(j, isArray)] [v]) (hd (canon_members rcanon [(j, isArray)] [v]))"
  proof (cases isArray)
    case False
    then show ?thesis using ok wire_codec.writes_ser [OF level_codec [OF lvl j]] wire_codec.reads_ser [OF level_codec [OF lvl j]]
      by (simp add: enc_member_def)
  next
    case True
    then obtain a where a: "v = VArray a" "ok_elements rser rok j a" using ok by (auto split: ua_value.splits)
    then show ?thesis using True wire_elements [OF lvl j a(2)] by (simp add: enc_member_def reads_map)
  qed
  then show "writes (enc_member renc j isArray v) (ser_members rser [(j, isArray)] [v])"
    "reads (if \<not> isArray then rdec j
       else dec_map VArray (array_member_decodeBinary (\<lambda>_. True) (memSize (UA_TYPES ! j)) (dec_zero_copy rdec j) (rdec j)))
       (ser_members rser [(j, isArray)] [v]) (hd (canon_members rcanon [(j, isArray)] [v]))" by blast+
qed

lemma wire_members:
  assumes lvl: "level_ok renc rdec rser rok rcanon"
  shows "\<forall>m \<in> set ms. fst m < UA_TYPES_COUNT \<Longrightarrow> ok_members rser rok ms vs \<Longrightarrow>
    writes (enc_members renc ms vs) (ser_members rser ms vs) \<and>
    reads (dec_members rdec (\<lambda>_. True) ms) (ser_members rser ms vs) (canon_members rcanon ms vs)"
proof (induction ms arbitrary: vs)
  case Nil
  then show ?case by (simp add: writes_skip reads_return)
next
  case (Cons m ms)
  obtain j isArray where m: "m = (j, isArray)" by force
  obtain v vs' where vs: "vs = v # vs'" using Cons.prems(2) m by (cases vs) auto
  have j: "j < UA_TYPES_COUNT" using Cons.prems(1) m by simp
  have ok: "ok_members rser rok [(j, isArray)] [v]" using Cons.prems(2) m vs by simp
  have rest: "writes (enc_members renc ms vs') (ser_members rser ms vs')"
    "reads (dec_members rdec (\<lambda>_. True) ms) (ser_members rser ms vs') (canon_members rcanon ms vs')"
    using Cons m vs by auto
  have ser: "ser_members rser (m # ms) vs = ser_members rser [(j, isArray)] [v] @ ser_members rser ms vs'"
    and canon: "canon_members rcanon (m # ms) vs = hd (canon_members rcanon [(j, isArray)] [v]) # canon_members rcanon ms vs'"
    by (simp_all add: m vs)
  have "writes (enc_members renc (m # ms) vs) (ser_members rser (m # ms) vs)"
    unfolding ser unfolding m vs enc_members.simps by (intro writes_seq wire_member [OF lvl j ok] rest)
  moreover have "reads (dec_members rdec (\<lambda>_. True) (m # ms)) (ser_members rser (m # ms) vs) (canon_members rcanon (m # ms) vs)"
    unfolding ser canon unfolding m dec_members.simps
    by (intro reads_bind [OF wire_member(2) [OF lvl j ok]] reads_bind_return rest)
  ultimately show ?case by blast
qed

lemma wire_struct:
  assumes "level_ok renc rdec rser rok rcanon" "i < UA_TYPES_COUNT" "jump_index i = UA_TYPES_QUALIFIEDNAME \<or> jump_index i = UA_BUILTIN_TYPES_COUNT"
    "ok_members rser rok (members (UA_TYPES ! i)) vs"
  shows "writes (encode_members renc i (VStruct vs)) (ser_members rser (members (UA_TYPES ! i)) vs)"
    and "reads (UA_decodeBinaryNoInit rdec (\<lambda>_. True) i) (ser_members rser (members (UA_TYPES ! i)) vs)
      (VStruct (canon_members rcanon (members (UA_TYPES ! i)) vs))"
proof -
  have "\<forall>m \<in> set (members (UA_TYPES ! i)). fst m < UA_TYPES_COUNT"
    using members_earlier [OF assms(2)] assms(2,3) by (force simp: UA_BUILTIN_TYPES_COUNT_def)
  note ms = wire_members [OF assms(1) this assms(4)]
  show "writes (encode_members renc i (VStruct vs)) (ser_members rser (members (UA_TYPES ! i)) vs)"
    using ms by (simp add: encode_members_def)
  show "reads (UA_decodeBinaryNoInit rdec (\<lambda>_. True) i) (ser_members rser (members (UA_TYPES ! i)) vs)
      (VStruct (canon_members rcanon (members (UA_TYPES ! i)) vs))"
    unfolding UA_decodeBinaryNoInit_def by (intro reads_cleanup reads_map conjunct2 [OF ms])
qed

section \<open>Extension objects\<close>

lemma writes_with_length:
  assumes "writes f bs" "length bs < 2 ^ 31"
  shows "writes (enc_with_length f) (le_bytes 4 (word_of_nat (length bs) :: UA_Int32) @ bs)"
  unfolding writes_def
proof (intro allI impI)
  fix buf :: "UA_Byte list" and off
  let ?len = "le_bytes 4 (word_of_nat (length bs) :: UA_Int32)"
  assume buf: "length buf < 2 ^ 32" and room: "off + length (?len @ bs) \<le> length buf"
  have 1: "f (buf, off + 4) = Some (UA_STATUSCODE_GOOD, (splice buf (off + 4) bs, off + 4 + length bs))"
    using room by (intro writesD [OF assms(1) buf]) simp
  have 2: "UInt32_encodeBinary (word_of_nat (length bs)) (splice buf (off + 4) bs, off) =
      Some (UA_STATUSCODE_GOOD, (splice (splice buf (off + 4) bs) off ?len, off + 4))"
    using encodesD [OF UInt32.enc_ser [OF TrueI], of off "word_of_nat (length bs)" "splice buf (off + 4) bs"] room by simp
  have "splice (splice buf (off + 4) bs) off ?len = splice buf off (?len @ bs)"
    using room by (simp add: splice_def add.assoc)
  then show "enc_with_length f (buf, off) = Some (UA_STATUSCODE_GOOD, (splice buf off (?len @ bs), off + length (?len @ bs)))"
    using 1 2 by (simp add: enc_with_length_def Int32_encodeBinary_def add.assoc)
qed

lemma namespace0_id_wire:
  assumes "namespace0_id tid"
  shows "ok_NodeId tid" "canon_NodeId tid = tid" "\<exists>n. ident tid = Numeric n" "namespaceIndex tid = 0"
  using assms by (auto simp: namespace0_id_def ok_NodeId_def canon_NodeId_def split: node_identifier.splits)

lemma binary_id_ok: "k < UA_TYPES_COUNT \<Longrightarrow> namespace0_id (binary_id k)"
  using binary_ids_encodable
  by (auto simp: list_all_length length_UA_TYPES namespace0_id_def binary_id_def UA_NODEID_NUMERIC_def)

lemma eo_header_ok: "ok_eo rser rok v \<Longrightarrow> namespace0_id (fst (eo_header v))"
  by (cases "(rser, rok, v)" rule: ok_eo.cases) (auto intro: binary_id_ok)

lemma writes_eo:
  assumes lvl: "level_ok renc rdec rser rok rcanon" and ok: "ok_eo rser rok v"
  shows "writes (ExtensionObject_encodeBinary renc v) (ser_eo rser v)"
proof -
  have hd: "writes (NodeId_encodeBinary (fst (eo_header v))) (ser_NodeId (fst (eo_header v)))"
    by (intro encodes_writes encodes_NodeId namespace0_id_wire eo_header_ok [OF ok])
  show ?thesis
  proof (cases "(rser, rok, v)" rule: ok_eo.cases)
    case (1 rser' rok' e tid body)
    have "writes (Byte_encodeBinary 0) [0]" "ok_String body \<Longrightarrow> writes (enc_seq (Byte_encodeBinary 2) (String_encodeBinary body)) ([2] @ ser_String body)"
      by (intro encodes_writes encodes_seq int_enc encodes_String TrueI, assumption?)+
    then show ?thesis using hd ok 1
      by (cases e) (auto simp: ser_eo_def ByteString_encodeBinary_def intro: writes_seq)
  next
    case (2 rser' rok' k w)
    then have k: "k < UA_TYPES_COUNT" "rok k w" "length (rser k w) < 2 ^ 31" using ok by simp_all
    have "writes (enc_seq (NodeId_encodeBinary (binary_id k)) (enc_seq (Byte_encodeBinary 1) (enc_with_length (renc k w))))
      (ser_NodeId (binary_id k) @ [1] @ le_bytes 4 (word_of_nat (length (rser k w)) :: UA_Int32) @ rser k w)"
      using hd 2 by (intro writes_seq writes_with_length encodes_writes [OF int_enc(1)] TrueI
        wire_codec.writes_ser [OF level_codec [OF lvl k(1)] k(2)] k(3)) simp
    then show ?thesis using 2 by (simp add: ser_eo_def)
  qed (use ok in auto)
qed

lemma eo_header_reads:
  assumes ok: "ok_eo rser rok v" and src: "src = pre @ ser_NodeId (fst (eo_header v)) @ [snd (eo_header v)] @ post"
    and o1: "o1 = length pre + length (ser_NodeId (fst (eo_header v)))"
  shows "NodeId_decodeBinary (\<lambda>_. True) (src, length pre) = Some (UA_STATUSCODE_GOOD, fst (eo_header v), (src, o1))"
    and "Byte_decodeBinary (src, o1) = Some (UA_STATUSCODE_GOOD, snd (eo_header v), (src, o1 + 1))"
proof -
  let ?tid = "fst (eo_header v)"
  note id = namespace0_id_wire [OF eo_header_ok [OF ok]]
  show "NodeId_decodeBinary (\<lambda>_. True) (src, length pre) = Some (UA_STATUSCODE_GOOD, ?tid, (src, o1))"
    using decodesD [OF decodes_NodeId [OF id(1)], of "\<lambda>_. True" "length pre" pre "[snd (eo_header v)] @ post"] id(2) by (simp add: src o1)
  show "Byte_decodeBinary (src, o1) = Some (UA_STATUSCODE_GOOD, snd (eo_header v), (src, o1 + 1))"
    using decodesD [OF int_dec(1), of o1 "pre @ ser_NodeId ?tid" "snd (eo_header v)" post] by (simp add: src o1)
qed

lemma reads_eo:
  assumes lvl: "level_ok renc rdec rser rok rcanon" and ok: "ok_eo rser rok v"
  shows "reads (ExtensionObject_decodeBinary rdec (\<lambda>_. True)) (ser_eo rser v) (canon_eo rcanon v)"
  unfolding reads_def
proof (intro allI)
  fix pre post :: "UA_Byte list"
  let ?tid = "fst (eo_header v)" and ?src = "pre @ ser_eo rser v @ post"
  let ?o1 = "length pre + length (ser_NodeId ?tid)"
  let ?goal = "\<exists>bs'. length bs' = length (ser_eo rser v) \<and> ExtensionObject_decodeBinary rdec (\<lambda>_. True) (?src, length pre) =
     Some (UA_STATUSCODE_GOOD, canon_eo rcanon v, (pre @ bs' @ post, length pre + length (ser_eo rser v)))"
  note id = namespace0_id_wire [OF eo_header_ok [OF ok]]
  have src: "?src = pre @ ser_NodeId ?tid @ [snd (eo_header v)] @ eo_body rser v @ post" by (simp add: ser_eo_def)
  note hdr = eo_header_reads [OF ok src refl]
  have head: "length (ser_NodeId ?tid @ [snd (eo_header v)]) = ?o1 + 1 - length pre" by simp
  show ?goal
  proof (cases "(rser, rok, v)" rule: ok_eo.cases)
    case (1 rser' rok' e tid body)
    have tid: "?tid = tid" using 1 by simp
    show ?thesis
    proof (cases e)
      case UA_EXTENSIONOBJECT_ENCODED_NOBODY
      then show ?thesis using hdr id 1 tid
        by (intro exI [of _ "ser_eo rser v"]) (auto simp: ExtensionObject_decodeBinary_def ser_eo_def split: node_identifier.splits)
    next
      case UA_EXTENSIONOBJECT_ENCODED_XML
      then have "decodes (dec_cleanup (\<lambda>_. VDeleted) (dec_map (VEncoded UA_EXTENSIONOBJECT_ENCODED_XML tid) (ByteString_decodeBinary (\<lambda>_. True))))
          (ser_String body) (VEncoded UA_EXTENSIONOBJECT_ENCODED_XML tid (canon_array body))"
        unfolding dec_map_def ByteString_decodeBinary_def using ok 1
        by (intro decodes_cleanup decodes_bind_return decodes_String) auto
      from decodesD [OF this, of "?o1 + 1" "pre @ ser_NodeId tid @ [2]" post] show ?thesis
        using hdr id 1 tid UA_EXTENSIONOBJECT_ENCODED_XML
        by (intro exI [of _ "ser_eo rser v"]) (auto simp: ExtensionObject_decodeBinary_def ser_eo_def split: node_identifier.splits)
    qed (use ok 1 in simp)
  next
    case (2 rser' rok' k w)
    then have k: "k < UA_TYPES_COUNT" "rok k w" "length (rser k w) < 2 ^ 31" using ok by simp_all
    have tid: "?tid = binary_id k" "snd (eo_header v) = 1" using 2 by simp_all
    let ?len = "word_of_nat (length (rser k w)) :: UA_Int32"
    have len: "Int32_decodeBinary (?src, ?o1 + 1) = Some (UA_STATUSCODE_GOOD, ?len, (?src, ?o1 + 5))"
      using Int32_dec_ser [of "?o1 + 1" "pre @ ser_NodeId (binary_id k) @ [1]" ?len "rser k w @ post"] 2 by (simp add: ser_eo_def)
    have "reads (rdec k) (rser k w) (rcanon k w)" using wire_codec.reads_ser [OF level_codec [OF lvl k(1)] k(2)] .
    from readsE [OF this, of "?o1 + 5" "pre @ ser_NodeId (binary_id k) @ [1] @ le_bytes 4 ?len" post] obtain bs' where
      rd: "length bs' = length (rser k w)" "rdec k (?src, ?o1 + 5) = Some (UA_STATUSCODE_GOOD, rcanon k w,
        (pre @ ser_NodeId (binary_id k) @ [1] @ le_bytes 4 ?len @ bs' @ post, ?o1 + 5 + length (rser k w)))"
      using 2 by (auto simp: ser_eo_def)
    have found: "findDataType ((binary_id k)\<lparr>ident := Numeric (typeId (UA_TYPES ! k) + 2 - UA_ENCODINGOFFSET_BINARY)\<rparr>) = Some k"
      using findDataType_typeId [OF k(1)] by (simp add: binary_id_def UA_NODEID_NUMERIC_def UA_ENCODINGOFFSET_BINARY_def)
    have numeric: "ident (binary_id k) = Numeric (typeId (UA_TYPES ! k) + 2)" "namespaceIndex (binary_id k) = 0"
      by (simp_all add: binary_id_def UA_NODEID_NUMERIC_def UA_ENCODINGOFFSET_BINARY_def)
    show ?thesis
      using hdr len rd found numeric sint_of_nat32 [OF k(3)] tid 2
      by (intro exI [of _ "ser_NodeId (binary_id k) @ [1] @ le_bytes 4 ?len @ bs'"])
        (auto simp: ExtensionObject_decodeBinary_def ser_eo_def)
  qed (use ok in auto)
qed

section \<open>Variants and data values\<close>

lemma writes_variant_elements:
  assumes lvl: "level_ok renc rdec rser rok rcanon" and k: "k < 25"
  shows "list_all (rok k) xs \<Longrightarrow> writes (foldr (\<lambda>v. enc_seq (variant_element renc k v)) xs enc_skip) (concat (map (rser k) xs))"
proof (induction xs)
  case (Cons x xs)
  have "k < UA_TYPES_COUNT" using k by (simp add: UA_TYPES_COUNT_def)
  from wire_codec.writes_ser [OF level_codec [OF lvl this]] have "writes (variant_element renc k x) (rser k x)"
    using Cons.prems builtin_entry [OF k] by (simp add: variant_element_def)
  then show ?case using Cons by (auto intro: writes_seq)
qed (simp add: writes_skip)

lemma writes_variant:
  assumes lvl: "level_ok renc rdec rser rok rcanon" and ok: "ok_variant rser rok v"
  shows "writes (Variant_encodeBinary renc v) (ser_variant rser v)"
proof (cases "(rser, rok, v)" rule: ok_variant.cases)
  case (1 rser' rok' k len data dims)
  let ?a = "variant_is_array len data" and ?d = "variant_is_array len data \<and> alen dims > 0"
  let ?len = "if ?a then len else 1"
  have v: "k < 25" "list_all (rok k) (content data)" "?len = alen data" "?d \<Longrightarrow> UInt32_wire.array_ok dims"
    using ok 1 by (auto simp: ok_elements_def)
  have code: "(if 0 < len then word_of_nat len else case data of Empty_sentinel \<Rightarrow> 0 | _ \<Rightarrow> - 1) = array_length_code data" if ?a
    using v(3) that by (cases data) (auto simp: array_length_code_def)
  have "writes (enc_seq (Byte_encodeBinary (variant_byte k ?a ?d))
           (enc_seq (enc_seq (enc_when ?a (Int32_encodeBinary (if 0 < len then word_of_nat len else case data of Empty_sentinel \<Rightarrow> 0 | _ \<Rightarrow> - 1)))
              (foldr (\<lambda>v. enc_seq (variant_element renc k v)) (take ?len (content data)) enc_skip))
             (enc_when ?d (Array_encodeBinary 4 (Some (le_bytes 4)) UInt32_encodeBinary dims))))
     ([variant_byte k ?a ?d] @ ((if ?a then le_bytes 4 (array_length_code data) else []) @ concat (map (rser k) (content data))) @
       (if ?d then le_bytes 4 (array_length_code dims) @ UInt32_wire.ser_elems dims else []))"
  proof (intro writes_seq writes_when encodes_writes [OF int_enc(1)] TrueI)
    show "writes (foldr (\<lambda>v. enc_seq (variant_element renc k v)) (take ?len (content data)) enc_skip) (concat (map (rser k) (content data)))"
      using writes_variant_elements [OF lvl v(1,2)] v(3) by simp
    show "writes (Int32_encodeBinary (if 0 < len then word_of_nat len else case data of Empty_sentinel \<Rightarrow> 0 | _ \<Rightarrow> - 1)) (le_bytes 4 (array_length_code data))" if ?a
      unfolding code [OF that] Int32_encodeBinary_def by (intro encodes_writes int_enc TrueI)
    show "writes (Array_encodeBinary 4 (Some (le_bytes 4)) UInt32_encodeBinary dims) (le_bytes 4 (array_length_code dims) @ UInt32_wire.ser_elems dims)" if ?d
      using v(4) [OF that] by (rule UInt32_wire.writes_array)
  qed
  then show ?thesis using 1 v(3) by (simp add: Let_def ser_elements_def enc_seq_assoc)
qed (use ok in auto)

text \<open>The values of a variant, with the length in front of an array.\<close>

lemma reads_variant_eo:
  assumes lvl: "level_ok renc rdec rser rok rcanon" and x: "rok UA_TYPES_EXTENSIONOBJECT x" "plain_header x"
  shows "reads (variant_extension_object rdec (\<lambda>_. True)) (rser UA_TYPES_EXTENSIONOBJECT x)
    (Some UA_TYPES_EXTENSIONOBJECT, Block [rcanon UA_TYPES_EXTENSIONOBJECT x])"
  unfolding reads_def
proof (intro allI)
  fix pre post :: "UA_Byte list"
  obtain rser' rok' where eo: "ok_eo rser' rok' x" "rser UA_TYPES_EXTENSIONOBJECT x = ser_eo rser' x"
    using lvl x(1) by (auto simp: level_ok_def)
  let ?src = "pre @ rser UA_TYPES_EXTENSIONOBJECT x @ post"
  have "?src = pre @ ser_NodeId (fst (eo_header x)) @ [snd (eo_header x)] @ eo_body rser' x @ post"
    using eo(2) by (simp add: ser_eo_def)
  note hdr = eo_header_reads [OF eo(1) this refl]
  have "UA_TYPES_EXTENSIONOBJECT < UA_TYPES_COUNT" by (simp add: UA_TYPES_COUNT_def)
  from readsE [OF wire_codec.reads_ser [OF level_codec [OF lvl this] x(1)] refl]
  obtain bs' where "length bs' = length (rser UA_TYPES_EXTENSIONOBJECT x)" "rdec UA_TYPES_EXTENSIONOBJECT (?src, length pre) =
    Some (UA_STATUSCODE_GOOD, rcanon UA_TYPES_EXTENSIONOBJECT x, (pre @ bs' @ post, length pre + length (rser UA_TYPES_EXTENSIONOBJECT x)))" .
  then show "\<exists>bs'. length bs' = length (rser UA_TYPES_EXTENSIONOBJECT x) \<and>
     variant_extension_object rdec (\<lambda>_. True) (?src, length pre) =
     Some (UA_STATUSCODE_GOOD, (Some UA_TYPES_EXTENSIONOBJECT, Block [rcanon UA_TYPES_EXTENSIONOBJECT x]),
       (pre @ bs' @ post, length pre + length (rser UA_TYPES_EXTENSIONOBJECT x)))"
    using hdr x(2) namespace0_id_wire(4) [OF eo_header_ok [OF eo(1)]]
    by (intro exI [of _ bs']) (auto simp: variant_extension_object_def plain_header_def)
qed

lemma reads_variant_content:
  assumes lvl: "level_ok renc rdec rser rok rcanon" and ok: "ok_variant rser rok (VVariant (Some k) len data dims)"
  defines "a \<equiv> variant_is_array len data"
  shows "reads (variant_content rdec (\<lambda>_. True) (variant_byte k a d))
    ((if a then le_bytes 4 (array_length_code data) else []) @ ser_elements rser k data)
    (False, Some k, len, canon_elems (rcanon k) data)"
proof -
  have k: "k < 25" and els: "ok_elements rser rok k data" using ok by auto
  have kc: "k < UA_TYPES_COUNT" using k by (simp add: UA_TYPES_COUNT_def)
  note arr = wire_elements [OF lvl kc els]
  note bits = variant_byte_bits [OF k]
  show ?thesis
  proof (cases a)
    case True
    then have len: "alen (canon_elems (rcanon k) data) = len" using ok by (cases data) (auto simp: a_def)
    have "reads (dec_bind Int32_decodeBinary (\<lambda>n. dec_map (\<lambda>x. (False, Some k, alen x, x)) (dec_array rdec (\<lambda>_. True) k n)))
        (le_bytes 4 (array_length_code data) @ ser_elements rser k data)
        (False, Some k, alen (canon_elems (rcanon k) data), canon_elems (rcanon k) data)"
      unfolding Int32_decodeBinary_def by (intro reads_bind [OF decodes_reads [OF int_dec(3)]] reads_map arr(2))
    moreover have "dec_bind Int32_decodeBinary (\<lambda>n. dec_map (\<lambda>x. (False, Some k, alen x, x)) (dec_array rdec (\<lambda>_. True) k n))
        (pre @ (le_bytes 4 w @ bs) @ post, length pre) = variant_content rdec (\<lambda>_. True) (variant_byte k a d) (pre @ (le_bytes 4 w @ bs) @ post, length pre)"
      for pre post bs and w :: UA_Int32
      using True bits by (auto simp: variant_content_def dec_bind_def dec_map_def dec_return_def Int32_dec_ser split: Option.bind_splits)
    ultimately show ?thesis using True len unfolding reads_def by simp
  next
    case False
    then have one: "alen data = 1" "len = 0" using ok by (auto simp: a_def variant_is_array_def)
    then obtain x where data: "data = Block [x]" by (cases data) (auto simp: length_Suc_conv)
    show ?thesis
    proof (cases "k = UA_TYPES_EXTENSIONOBJECT")
      case True
      have x: "rok UA_TYPES_EXTENSIONOBJECT x" "plain_header x" using els ok False data True by (auto simp: ok_elements_def a_def)
      have "reads (dec_map (\<lambda>(ty, a). (ty = None, ty, 0 :: nat, a)) (variant_extension_object rdec (\<lambda>_. True))) (rser k x)
          (False, Some k, 0, Block [rcanon k x])"
        using reads_map [OF reads_variant_eo [OF lvl x], of "\<lambda>(ty, a). (ty = None, ty, 0 :: nat, a)"] True by simp
      moreover have "dec_map (\<lambda>(ty, a). (ty = None, ty, 0 :: nat, a)) (variant_extension_object rdec (\<lambda>_. True)) =
          variant_content rdec (\<lambda>_. True) (variant_byte k a d)"
        using False bits True by (intro ext)
          (auto simp: variant_content_def dec_bind_def dec_map_def dec_return_def split: Option.bind_splits)
      ultimately show ?thesis using False data one by (simp add: ser_elements_def)
    next
      case neo: False
      have code: "array_length_code data = 1" using data by (simp add: array_length_code_def)
      have "reads (dec_map (\<lambda>x. (False, Some k, 0 :: nat, x)) (dec_array rdec (\<lambda>_. True) k 1)) (ser_elements rser k data)
          (False, Some k, 0, canon_elems (rcanon k) data)"
        using reads_map [OF arr(2)] code by simp
      moreover have "dec_map (\<lambda>x. (False, Some k, 0 :: nat, x)) (dec_array rdec (\<lambda>_. True) k 1) =
          variant_content rdec (\<lambda>_. True) (variant_byte k a d)"
        using False bits neo by (intro ext)
          (auto simp: variant_content_def dec_bind_def dec_map_def dec_return_def split: Option.bind_splits)
      ultimately show ?thesis using False one by simp
    qed
  qed
qed

lemma reads_variant:
  assumes lvl: "level_ok renc rdec rser rok rcanon" and ok: "ok_variant rser rok v"
  shows "reads (Variant_decodeBinary rdec (\<lambda>_. True)) (ser_variant rser v) (canon_variant rcanon v)"
proof (cases "(rser, rok, v)" rule: ok_variant.cases)
  case (1 rser' rok' k len data dims)
  let ?a = "variant_is_array len data"
  let ?d = "?a \<and> alen dims > 0"
  let ?b = "variant_byte k ?a ?d"
  let ?cs = "(if ?a then le_bytes 4 (array_length_code data) else []) @ ser_elements rser k data"
  let ?ds = "if ?d then le_bytes 4 (array_length_code dims) @ UInt32_wire.ser_elems dims else []"
  have k: "k < 25" and d: "?d \<Longrightarrow> UInt32_wire.array_ok dims" using ok 1 by auto
  note bits = variant_byte_bits [OF k]
  have body: "reads (variant_content rdec (\<lambda>_. True) ?b) ?cs (False, Some k, len, canon_elems (rcanon k) data)"
    using reads_variant_content [OF lvl] ok 1 by blast
  have dims: "reads (dec_when ?d (dec_bind Int32_decodeBinary (Array_decodeBinary (\<lambda>_. True) 4 (Some le_word) UInt32_decodeBinary)) Null_ptr) ?ds
      (if ?d then canon_elems id dims else Null_ptr)"
    unfolding Int32_decodeBinary_def
    by (intro reads_when reads_bind [OF decodes_reads [OF int_dec(3)]] UInt32_wire.reads_array d) simp_all
  let ?rest = "\<lambda>c. let ti = unat (?b AND UA_VARIANT_ENCODINGMASKTYPE_TYPEID_MASK) in
       if ti = 0 \<or> ti - 1 > 24 then Some (UA_STATUSCODE_BADDECODINGERROR, VVariant_zero, c)
       else do {
         (r1, (early, ty, len, a), c1) \<leftarrow> variant_content rdec (\<lambda>_. True) ?b c;
         if early then Some (r1, VVariant ty 0 Null_ptr Null_ptr, c1)
         else do {
           (r2, dims, c2) \<leftarrow>
             (if ?b AND UA_VARIANT_ENCODINGMASKTYPE_ARRAY \<noteq> 0 \<and> ?b AND UA_VARIANT_ENCODINGMASKTYPE_DIMENSIONS \<noteq> 0
              then do {
                (r, dlen, cd) \<leftarrow> Int32_decodeBinary c1;
                if r1 OR r = UA_STATUSCODE_GOOD then Array_decodeBinary (\<lambda>_. True) 4 (Some le_word) UInt32_decodeBinary dlen cd
                else Some (r1 OR r, Null_ptr, cd) }
              else Some (r1, Null_ptr, c1));
           Some (r2, if r2 \<noteq> UA_STATUSCODE_GOOD then VDeleted else VVariant ty len a dims, c2) } }"
  have "reads ?rest (?cs @ ?ds) (VVariant (Some k) len (canon_elems (rcanon k) data) (if ?d then canon_elems id dims else Null_ptr))"
    unfolding reads_def
  proof (intro allI)
    fix pre post :: "UA_Byte list"
    obtain bs' where c: "length bs' = length ?cs" "variant_content rdec (\<lambda>_. True) ?b (pre @ ?cs @ ?ds @ post, length pre) =
      Some (UA_STATUSCODE_GOOD, (False, Some k, len, canon_elems (rcanon k) data), (pre @ bs' @ ?ds @ post, length pre + length ?cs))"
      using readsE [OF body refl] by blast
    obtain ds' where e: "length ds' = length ?ds"
      "dec_when ?d (dec_bind Int32_decodeBinary (Array_decodeBinary (\<lambda>_. True) 4 (Some le_word) UInt32_decodeBinary)) Null_ptr
        ((pre @ bs') @ ?ds @ post, length pre + length ?cs) = Some (UA_STATUSCODE_GOOD, if ?d then canon_elems id dims else Null_ptr,
        ((pre @ bs') @ ds' @ post, length pre + length ?cs + length ?ds))"
      using readsE [OF dims, of "length pre + length ?cs" "pre @ bs'"] c(1) by auto
    show "\<exists>bs'. length bs' = length (?cs @ ?ds) \<and> ?rest (pre @ (?cs @ ?ds) @ post, length pre) =
      Some (UA_STATUSCODE_GOOD, VVariant (Some k) len (canon_elems (rcanon k) data) (if ?d then canon_elems id dims else Null_ptr),
        (pre @ bs' @ post, length pre + length (?cs @ ?ds)))"
    proof (cases ?d)
      case True
      have i: "Int32_decodeBinary (pre @ bs' @ ?ds @ post, length pre + length ?cs) =
          Some (UA_STATUSCODE_GOOD, array_length_code dims, (pre @ bs' @ ?ds @ post, length pre + length ?cs + 4))"
        using Int32_dec_ser [of "length pre + length ?cs" "pre @ bs'" "array_length_code dims" "UInt32_wire.ser_elems dims @ post"] c(1) True by simp
      show ?thesis
        by (rule exI [of _ "bs' @ ds'"]) (use c e i k bits True in \<open>simp add: dec_when_def dec_bind_def\<close>)
    next
      case False
      show ?thesis
        by (rule exI [of _ "bs' @ ds'"]) (use c e k bits False in \<open>auto simp: dec_when_def dec_return_def\<close>)
    qed
  qed
  then have "reads (Variant_decodeBinary rdec (\<lambda>_. True)) ([?b] @ ?cs @ ?ds)
      (VVariant (Some k) len (canon_elems (rcanon k) data) (if ?d then canon_elems id dims else Null_ptr))"
    unfolding Variant_decodeBinary_def by (rule reads_guard [OF decodes_reads [OF int_dec(1)]])
  then show ?thesis using 1 by (simp add: Let_def)
qed (use ok in auto)

lemma dv_flags_roundtrip: "dv_flags_of (dv_flags_byte f) = f"
  by (cases f) (simp add: dv_flags_of_def dv_flags_byte_def bit_simps)

lemma wire_DataValue:
  assumes lvl: "level_ok renc rdec rser rok rcanon" and ok: "hasValue f \<longrightarrow> ok_variant rser rok v"
  shows "writes (DataValue_encodeBinary renc (VDataValue f v st sts sp svts svp)) (ser_level rser i (VDataValue f v st sts sp svts svp))"
    and "reads (DataValue_decodeBinary rdec (\<lambda>_. True)) (ser_level rser i (VDataValue f v st sts sp svts svp))
      (canon_level rcanon i (VDataValue f v st sts sp svts svp))"
proof -
  show "writes (DataValue_encodeBinary renc (VDataValue f v st sts sp svts svp)) (ser_level rser i (VDataValue f v st sts sp svts svp))"
    unfolding DataValue_encodeBinary.simps ser_level.simps StatusCode_encodeBinary_def DateTime_encodeBinary_def
    using ok by (intro writes_seq writes_when writes_variant [OF lvl] encodes_writes [OF int_enc(1)] encodes_writes [OF int_enc(2)]
        encodes_writes [OF int_enc(3)] encodes_writes [OF int_enc(4)] TrueI) simp
  have i2: "reads (dec_when b (dec_map clamp_pico UInt16_decodeBinary) 0) (if b then le_bytes 2 w else []) (if b then clamp_pico w else 0)" for b w
    by (intro reads_when reads_map decodes_reads int_dec)
  have i4: "reads (dec_when b UInt32_decodeBinary 0) (if b then le_bytes 4 w else []) (if b then w else 0)" for b w
    by (intro reads_when decodes_reads int_dec)
  have i8: "reads (dec_when b UInt64_decodeBinary 0) (if b then le_bytes 8 w else []) (if b then w else 0)" for b w
    by (intro reads_when decodes_reads int_dec)
  have var: "reads (dec_when (hasValue f) (Variant_decodeBinary rdec (\<lambda>_. True)) VVariant_zero) (if hasValue f then ser_variant rser v else [])
      (if hasValue f then canon_variant rcanon v else VVariant_zero)"
    using ok by (intro reads_when reads_variant [OF lvl]) simp
  show "reads (DataValue_decodeBinary rdec (\<lambda>_. True)) (ser_level rser i (VDataValue f v st sts sp svts svp))
      (canon_level rcanon i (VDataValue f v st sts sp svts svp))"
    unfolding DataValue_decodeBinary_def ser_level.simps canon_level.simps StatusCode_decodeBinary_def DateTime_decodeBinary_def
    apply (rule reads_guard [OF decodes_reads [OF int_dec(1)]])
    unfolding dv_flags_roundtrip Let_def
    by (rule reads_cleanup, (rule reads_bind [OF var] reads_bind [OF i2] reads_bind [OF i4] reads_bind [OF i8] reads_bind_return [OF i2])+)
qed

section \<open>All types\<close>

definition level_wire :: "enc_table \<Rightarrow> dec_table \<Rightarrow> ser_table \<Rightarrow> ok_table \<Rightarrow> canon_table \<Rightarrow> nat \<Rightarrow> ua_value \<Rightarrow> bool" where
  "level_wire renc rdec rser rok rcanon i v \<longleftrightarrow>
     writes (encodeBinaryJumpTable renc (jump_index i) i v) (ser_level rser i v) \<and>
     reads (decodeBinaryJumpTable rdec (\<lambda>_. True) (jump_index i) i) (ser_level rser i v) (canon_level rcanon i v)"

lemma Boolean_literals:
  "writes (Boolean_encodeBinary True) [1]" "writes (Boolean_encodeBinary False) [0]"
  "reads Boolean_decodeBinary [1] True" "reads Boolean_decodeBinary [0] False"
  using Boolean.wire.writes_ser [of True] Boolean.wire.writes_ser [of False]
    Boolean.wire.reads_ser [of True] Boolean.wire.reads_ser [of False] by simp_all

lemmas leaf_writes = Boolean_literals(1,2) encodes_writes [OF int_enc(1)] encodes_writes [OF int_enc(2)] encodes_writes [OF int_enc(3)]
  encodes_writes [OF int_enc(4)] encodes_writes [OF encodes_String] encodes_writes [OF encodes_Guid] encodes_writes [OF encodes_NodeId]
  encodes_writes [OF encodes_LocalizedText] encodes_writes [OF encodes_DiagnosticInfo]

lemmas leaf_reads = Boolean_literals(3,4) decodes_reads [OF int_dec(1)] decodes_reads [OF int_dec(2)] decodes_reads [OF int_dec(3)]
  decodes_reads [OF int_dec(4)] decodes_reads [OF decodes_String] decodes_reads [OF decodes_Guid] decodes_reads [OF decodes_NodeId]
  decodes_reads [OF decodes_LocalizedText] decodes_reads [OF decodes_DiagnosticInfo]

lemma wire_ExpandedNodeId:
  assumes "ok_ExpandedNodeId e"
  shows "writes (ExpandedNodeId_encodeBinary e) (ser_ExpandedNodeId e)"
    and "reads (ExpandedNodeId_decodeBinary (\<lambda>_. True)) (ser_ExpandedNodeId e) (canon_ExpandedNodeId e)"
proof -
  show "writes (ExpandedNodeId_encodeBinary e) (ser_ExpandedNodeId e)"
    unfolding writes_def using ExpandedNodeId_enc [OF assms] by simp
  have "length (ser_ExpandedNodeId e) > 0" by (simp add: ser_ExpandedNodeId_def)
  then have "(pre @ ser_ExpandedNodeId e @ post)[length pre := x] = pre @ (ser_ExpandedNodeId e)[0 := x] @ post" for pre post x
    by (simp add: list_update_append)
  then show "reads (ExpandedNodeId_decodeBinary (\<lambda>_. True)) (ser_ExpandedNodeId e) (canon_ExpandedNodeId e)"
    unfolding reads_def using ExpandedNodeId_dec [OF assms, of "\<lambda>_. True"]
    by (metis length_list_update)
qed

lemma level_wire_leaf:
  assumes "ok_level rser rok i v" "jump_index i \<notin> {UA_TYPES_QUALIFIEDNAME, UA_TYPES_EXTENSIONOBJECT, UA_TYPES_DATAVALUE, UA_TYPES_VARIANT, UA_BUILTIN_TYPES_COUNT}"
  shows "level_wire renc rdec rser rok rcanon i v"
  using assms unfolding level_wire_def encodeBinaryJumpTable_def decodeBinaryJumpTable_def
  by (cases v) (auto intro!: leaf_writes reads_map [OF leaf_reads(1)] reads_map [OF leaf_reads(2)] reads_map [OF leaf_reads(3)]
      reads_map [OF leaf_reads(4)] reads_map [OF leaf_reads(5)] reads_map [OF leaf_reads(6)] reads_map [OF leaf_reads(7)]
      reads_map [OF leaf_reads(8)] reads_map [OF leaf_reads(9)] reads_map [OF leaf_reads(10)] reads_map [OF leaf_reads(11)] wire_ExpandedNodeId reads_map [OF wire_ExpandedNodeId(2)])

lemma level_wire_all:
  assumes lvl: "level_ok renc rdec rser rok rcanon" and i: "i < UA_TYPES_COUNT" and ok: "ok_level rser rok i v"
  shows "level_wire renc rdec rser rok rcanon i v"
proof (cases v)
  case (VDataValue f w st sts sp svts svp)
  then show ?thesis using ok wire_DataValue [OF lvl, of f w]
    by (auto simp: level_wire_def encodeBinaryJumpTable_def decodeBinaryJumpTable_def)
next
  case (VVariant ty len data dims)
  then show ?thesis using ok writes_variant [OF lvl, of v] reads_variant [OF lvl, of v]
    by (auto simp: level_wire_def encodeBinaryJumpTable_def decodeBinaryJumpTable_def)
next
  case (VEncoded e tid body)
  then show ?thesis using ok writes_eo [OF lvl, of v] reads_eo [OF lvl, of v]
    by (auto simp: level_wire_def encodeBinaryJumpTable_def decodeBinaryJumpTable_def)
next
  case (VDecoded ty w)
  then show ?thesis using ok writes_eo [OF lvl, of v] reads_eo [OF lvl, of v]
    by (auto simp: level_wire_def encodeBinaryJumpTable_def decodeBinaryJumpTable_def)
next
  case (VStruct vs)
  then have struct: "jump_index i = UA_TYPES_QUALIFIEDNAME \<or> jump_index i = UA_BUILTIN_TYPES_COUNT" "ok_members rser rok (members (UA_TYPES ! i)) vs"
    using ok by simp_all
  from wire_struct [OF lvl i this] show ?thesis using struct(1) VStruct
    by (auto simp: level_wire_def encodeBinaryJumpTable_def decodeBinaryJumpTable_def UA_BUILTIN_TYPES_COUNT_def)
qed (use ok in \<open>auto intro!: level_wire_leaf simp: UA_BUILTIN_TYPES_COUNT_def\<close>)

lemma members_size:
  assumes lvl: "level_ok renc rdec rser rok rcanon"
  shows "list_all (\<lambda>(j, isArray). \<not> isArray \<and> zeroCopyable (UA_TYPES ! j)) ms \<Longrightarrow> \<forall>m \<in> set ms. fst m < UA_TYPES_COUNT \<Longrightarrow>
    ok_members rser rok ms vs \<Longrightarrow> length (ser_members rser ms vs) = sum_list (map (\<lambda>(j, _). memSize (UA_TYPES ! j)) ms)"
proof (induction ms arbitrary: vs)
  case (Cons m ms)
  then show ?case by (cases vs; cases m) (auto simp: level_size [OF lvl])
qed simp

lemma level_size_step:
  assumes lvl: "level_ok renc rdec rser rok rcanon" and i: "i < UA_TYPES_COUNT" and z: "zeroCopyable (UA_TYPES ! i)" and ok: "ok_level rser rok i v"
  shows "length (ser_level rser i v) = memSize (UA_TYPES ! i)"
proof (cases "builtin (UA_TYPES ! i)")
  case True
  then have "scalar_size (jump_index i) = Some (memSize (UA_TYPES ! i))"
    using image_ok_nth [OF i] z by (simp add: image_ok_def jump_index_def del: scalar_size.simps)
  then show ?thesis using ok
    by (cases "(rser, rok, i, v)" rule: ok_level.cases) (auto simp: UA_BUILTIN_TYPES_COUNT_def)
next
  case False
  then have fi: "jump_index i = UA_BUILTIN_TYPES_COUNT" by (simp add: jump_index_def)
  then obtain vs where v: "v = VStruct vs" "ok_members rser rok (members (UA_TYPES ! i)) vs"
    using ok by (cases "(rser, rok, i, v)" rule: ok_level.cases) (auto simp: UA_BUILTIN_TYPES_COUNT_def)
  have "\<forall>m \<in> set (members (UA_TYPES ! i)). fst m < UA_TYPES_COUNT"
    using members_earlier [OF i] i fi by (force simp: UA_BUILTIN_TYPES_COUNT_def)
  then show ?thesis using image_ok_nth [OF i] z False v members_size [OF lvl _ _ v(2)] by (simp add: image_ok_def)
qed

lemma values_wire: "level_ok (UA_enc n) (UA_dec (\<lambda>_. True) n) (ser_value n) (ok_value n) (canon_value n)"
proof (induction n)
  case 0
  show ?case by (auto simp: level_ok_def intro: wire_codec.intro)
next
  case (Suc n)
  have "wire_codec (UA_enc (Suc n) k) (UA_dec (\<lambda>_. True) (Suc n) k) (ser_value (Suc n) k) (ok_value (Suc n) k) (canon_value (Suc n) k)"
    if "k < UA_TYPES_COUNT" for k
    using level_wire_all [OF Suc that] by unfold_locales (simp_all add: level_wire_def)
  moreover have "length (ser_value (Suc n) k x) = memSize (UA_TYPES ! k)"
    if "k < UA_TYPES_COUNT" "zeroCopyable (UA_TYPES ! k)" "ok_value (Suc n) k x" for k x
    using level_size_step [OF Suc that(1,2)] that(3) by simp
  moreover have "\<exists>rser' rok'. ok_eo rser' rok' x \<and> ser_value (Suc n) UA_TYPES_EXTENSIONOBJECT x = ser_eo rser' x"
    if "ok_value (Suc n) UA_TYPES_EXTENSIONOBJECT x" for x
  proof -
    have "jump_index UA_TYPES_EXTENSIONOBJECT = UA_TYPES_EXTENSIONOBJECT" using builtin_entry [of UA_TYPES_EXTENSIONOBJECT] by (simp add: jump_index_def)
    then show ?thesis using that
      by (cases "(ser_value n, ok_value n, UA_TYPES_EXTENSIONOBJECT, x)" rule: ok_level.cases) (auto simp: UA_BUILTIN_TYPES_COUNT_def)
  qed
  ultimately show ?case unfolding level_ok_def by blast
qed

interpretation Value: wire_codec "UA_enc n i" "UA_dec (\<lambda>_. True) n i" "ser_value n i" "\<lambda>v. i < UA_TYPES_COUNT \<and> ok_value n i v" "canon_value n i" for n i
  using level_codec [OF values_wire, of i n] by (cases "i < UA_TYPES_COUNT") (auto simp: wire_codec_def)

end
