(* ===== verification/Ua_Wire_Depth.thy ===== *)
theory Ua_Wire_Depth
  imports Ua_Wire_Laws
begin

text \<open>
  The nesting of a value is bounded by its encoding, so that the depth of recursion the
  decoder is given for the bytes of a message is always enough for the values in it, and the format
  of a value does not depend on the bound chosen for its nesting.
\<close>

definition nesting :: "ser_table \<Rightarrow> nat \<Rightarrow> ua_value \<Rightarrow> nat" where
  "nesting rser k w = k + 1 + (UA_TYPES_COUNT + 1) * length (rser k w)"

text \<open>Two levels agree on the values of a nesting of at most \<open>m\<close>.\<close>

definition agree :: "nat \<Rightarrow> ser_table \<Rightarrow> ok_table \<Rightarrow> canon_table \<Rightarrow> ser_table \<Rightarrow> ok_table \<Rightarrow> canon_table \<Rightarrow> bool" where
  "agree m rser rok rcanon rser' rok' rcanon' \<longleftrightarrow> (\<forall>k < UA_TYPES_COUNT. \<forall>w. rok k w \<longrightarrow> nesting rser k w \<le> m \<longrightarrow>
     rok' k w \<and> rser' k w = rser k w \<and> rcanon' k w = rcanon k w)"

lemma agreeD:
  "agree m rser rok rcanon rser' rok' rcanon' \<Longrightarrow> k < UA_TYPES_COUNT \<Longrightarrow> rok k w \<Longrightarrow> nesting rser k w \<le> m \<Longrightarrow>
   rok' k w \<and> rser' k w = rser k w \<and> rcanon' k w = rcanon k w"
  by (simp add: agree_def)

lemma elements_agree:
  assumes ag: "agree m rser rok rcanon rser' rok' rcanon'" and k: "k < UA_TYPES_COUNT" and ok: "ok_elements rser rok k a"
    and m: "k + 1 + (UA_TYPES_COUNT + 1) * length (ser_elements rser k a) \<le> m"
  shows "ok_elements rser' rok' k a \<and> ser_elements rser' k a = ser_elements rser k a \<and> canon_elems (rcanon' k) a = canon_elems (rcanon k) a"
proof -
  have el: "rok' k x \<and> rser' k x = rser k x \<and> rcanon' k x = rcanon k x" if "x \<in> set (content a)" for x
  proof (rule agreeD [OF ag k])
    show "rok k x" using ok that by (simp add: ok_elements_def list_all_iff)
    have "length (rser k x) \<le> length (ser_elements rser k a)"
      using that by (force simp: ser_elements_def length_concat intro: member_le_sum_list)
    then have "(UA_TYPES_COUNT + 1) * length (rser k x) \<le> (UA_TYPES_COUNT + 1) * length (ser_elements rser k a)" by (rule mult_le_mono2)
    then show "nesting rser k x \<le> m" using m by (simp add: nesting_def)
  qed
  have ser: "ser_elements rser' k a = ser_elements rser k a"
    unfolding ser_elements_def using el by (intro arg_cong [of _ _ concat] map_cong) auto
  moreover have "canon_elems (rcanon' k) a = canon_elems (rcanon k) a"
    using el by (cases a) auto
  moreover have "ok_elements rser' rok' k a"
    using ok el ser by (auto simp: ok_elements_def list_all_iff)
  ultimately show ?thesis by blast
qed

lemma members_agree:
  assumes ag: "agree m rser rok rcanon rser' rok' rcanon'"
  shows "\<forall>x \<in> set ms. fst x < i \<Longrightarrow> i < UA_TYPES_COUNT \<Longrightarrow> ok_members rser rok ms vs \<Longrightarrow>
    i + (UA_TYPES_COUNT + 1) * length (ser_members rser ms vs) \<le> m \<Longrightarrow>
    ok_members rser' rok' ms vs \<and> ser_members rser' ms vs = ser_members rser ms vs \<and> canon_members rcanon' ms vs = canon_members rcanon ms vs"
proof (induction ms arbitrary: vs)
  case (Cons x ms)
  obtain j isArray where x: "x = (j, isArray)" by force
  obtain v vs' where vs: "vs = v # vs'" using Cons.prems(3) x by (cases vs) auto
  have j: "j < i" "j < UA_TYPES_COUNT" using Cons.prems x by auto
  let ?one = "length (ser_members rser [(j, isArray)] [v])"
  have len: "length (ser_members rser (x # ms) vs) = ?one + length (ser_members rser ms vs')" by (simp add: x vs)
  have m: "i + (UA_TYPES_COUNT + 1) * length (ser_members rser ms vs') \<le> m" "i + (UA_TYPES_COUNT + 1) * ?one \<le> m"
    using Cons.prems(4) unfolding len by (simp_all add: algebra_simps)
  have rest: "ok_members rser' rok' ms vs' \<and> ser_members rser' ms vs' = ser_members rser ms vs' \<and> canon_members rcanon' ms vs' = canon_members rcanon ms vs'"
    using Cons.prems x vs by (intro Cons.IH m) auto
  show ?case
  proof (cases isArray)
    case False
    then have "rok' j v \<and> rser' j v = rser j v \<and> rcanon' j v = rcanon j v"
      using Cons.prems(3) x vs j m(2) by (intro agreeD [OF ag]) (auto simp: nesting_def)
    then show ?thesis using rest False x vs by simp
  next
    case True
    then obtain a where a: "v = VArray a" "ok_elements rser rok j a" using Cons.prems(3) x vs by (auto split: ua_value.splits)
    have "ok_elements rser' rok' j a \<and> ser_elements rser' j a = ser_elements rser j a \<and> canon_elems (rcanon' j) a = canon_elems (rcanon j) a"
      using m(2) True a j by (intro elements_agree [OF ag j(2) a(2)]) (simp add: algebra_simps)
    then show ?thesis using rest True x vs a by simp
  qed
qed simp

text \<open>At least one byte stands before the content of an extension object or a variant.\<close>

lemma inner_bound:
  assumes "i + (UA_TYPES_COUNT + 1) * len \<le> m" "1 + l \<le> len" "k < UA_TYPES_COUNT"
  shows "k + 1 + (UA_TYPES_COUNT + 1) * l \<le> m"
proof -
  have "(UA_TYPES_COUNT + 1) * (1 + l) \<le> (UA_TYPES_COUNT + 1) * len" using assms(2) by (rule mult_le_mono2)
  then show ?thesis using assms(1,3) by simp
qed

lemma eo_agree:
  assumes ag: "agree m rser rok rcanon rser' rok' rcanon'" and ok: "ok_eo rser rok v"
    and m: "i + (UA_TYPES_COUNT + 1) * length (ser_eo rser v) \<le> m"
  shows "ok_eo rser' rok' v \<and> ser_eo rser' v = ser_eo rser v \<and> canon_eo rcanon' v = canon_eo rcanon v"
proof (cases "(rser, rok, v)" rule: ok_eo.cases)
  case (2 _ _ k w)
  then have k: "k < UA_TYPES_COUNT" "rok k w" using ok by simp_all
  have "1 + length (rser k w) \<le> length (ser_eo rser v)" using 2 by (simp add: ser_eo_def)
  from inner_bound [OF m this k(1)] have "rok' k w \<and> rser' k w = rser k w \<and> rcanon' k w = rcanon k w"
    using k by (intro agreeD [OF ag]) (simp_all add: nesting_def)
  then show ?thesis using 2 ok by (simp add: ser_eo_def)
qed (use ok in \<open>auto simp: ser_eo_def\<close>)

lemma variant_agree:
  assumes ag: "agree m rser rok rcanon rser' rok' rcanon'" and ok: "ok_variant rser rok v"
    and m: "i + (UA_TYPES_COUNT + 1) * length (ser_variant rser v) \<le> m"
  shows "ok_variant rser' rok' v \<and> ser_variant rser' v = ser_variant rser v \<and> canon_variant rcanon' v = canon_variant rcanon v"
proof (cases "(rser, rok, v)" rule: ok_variant.cases)
  case (1 _ _ k len data dims)
  then have k: "k < UA_TYPES_COUNT" "ok_elements rser rok k data" using ok by (simp_all add: UA_TYPES_COUNT_def)
  have "1 + length (ser_elements rser k data) \<le> length (ser_variant rser v)" using 1 by (simp add: Let_def)
  from elements_agree [OF ag k inner_bound [OF m this k(1)]] show ?thesis using 1 ok by (simp add: Let_def)
qed (use ok in auto)

lemma level_agree:
  assumes ag: "agree m rser rok rcanon rser' rok' rcanon'" and i: "i < UA_TYPES_COUNT" and ok: "ok_level rser rok i v"
    and m: "i + (UA_TYPES_COUNT + 1) * length (ser_level rser i v) \<le> m"
  shows "ok_level rser' rok' i v \<and> ser_level rser' i v = ser_level rser i v \<and> canon_level rcanon' i v = canon_level rcanon i v"
proof (cases v)
  case (VStruct vs)
  then have "\<forall>x \<in> set (members (UA_TYPES ! i)). fst x < i"
    using members_earlier [OF i] ok by (force simp: UA_BUILTIN_TYPES_COUNT_def)
  then show ?thesis using members_agree [OF ag _ i] ok m VStruct by simp
next
  case (VDataValue f w st sts sp svts svp)
  have "ok_variant rser' rok' w \<and> ser_variant rser' w = ser_variant rser w \<and> canon_variant rcanon' w = canon_variant rcanon w" if v: "hasValue f"
  proof (rule variant_agree [OF ag])
    show "ok_variant rser rok w" using ok VDataValue v by simp
    have "length (ser_variant rser w) \<le> length (ser_level rser i v)" using VDataValue v by simp
    then have "(UA_TYPES_COUNT + 1) * length (ser_variant rser w) \<le> (UA_TYPES_COUNT + 1) * length (ser_level rser i v)" by (rule mult_le_mono2)
    then show "i + (UA_TYPES_COUNT + 1) * length (ser_variant rser w) \<le> m" using m by linarith
  qed
  then show ?thesis using VDataValue ok by auto
next
  case (VVariant ty len data dims)
  then show ?thesis using variant_agree [OF ag, of v i] ok m by simp
next
  case (VEncoded e tid body)
  then show ?thesis using eo_agree [OF ag, of v i] ok m by simp
next
  case (VDecoded ty w)
  then show ?thesis using eo_agree [OF ag, of v i] ok m by simp
qed (use ok in auto)

lemma value_depth: "agree m (ser_value n) (ok_value n) (canon_value n) (ser_value m) (ok_value m) (canon_value m)"
proof (induction n arbitrary: m)
  case 0
  show ?case by (simp add: agree_def)
next
  case (Suc n)
  show ?case
    unfolding agree_def
  proof (intro allI impI)
    fix k w
    assume k: "k < UA_TYPES_COUNT" and ok: "ok_value (Suc n) k w" and m: "nesting (ser_value (Suc n)) k w \<le> m"
    then obtain m' where m': "m = Suc m'" by (cases m) (auto simp: nesting_def)
    show "ok_value m k w \<and> ser_value m k w = ser_value (Suc n) k w \<and> canon_value m k w = canon_value (Suc n) k w"
      using level_agree [OF Suc [of m'] k] ok m unfolding m' by (simp add: nesting_def)
  qed
qed

end
