(* ===== verification/Ua_Structures_Theorems.thy ===== *)
theory Ua_Structures_Theorems
  imports Ua_Wire_Depth
begin

text \<open>The properties of the generic encoder and decoder.\<close>

lemma members_upto: "list_all (\<lambda>(i, t). list_all (\<lambda>(j, _). j \<le> i) (members t)) (enumerate 0 UA_TYPES)"
  by code_simp

lemma member_bound: "i < UA_TYPES_COUNT \<Longrightarrow> (j, b) \<in> set (members (UA_TYPES ! i)) \<Longrightarrow> j \<le> i"
  using members_upto by (fastforce simp: list_all_length nth_enumerate_eq length_UA_TYPES in_set_conv_nth)

lemma UA_decodeBinary_safe:
  assumes "i < UA_TYPES_COUNT" shows "safe_decoder (UA_decodeBinary mem i)"
proof
  fix off and src :: "UA_Byte list" assume off: "off \<le> length src"
  let ?N = "length src - off"
  have "safe_upto ?N (UA_dec mem (enough_depth ?N) j)" if "(j, b) \<in> set (members (UA_TYPES ! i))" for j b
    using member_bound [OF assms that] assms by (intro UA_dec_safe) (simp_all add: enough_depth_def algebra_simps)
  then have "safe_upto ?N (UA_decodeBinaryNoInit (UA_dec mem (enough_depth ?N)) mem i)" by (rule safe_upto_struct)
  from safe_uptoD [OF this off le_refl] show "\<exists>r v src' off'. UA_decodeBinary mem i (src, off) = Some (r, v, (src', off')) \<and>
      length src' = length src \<and> off \<le> off' \<and> off' \<le> length src"
    unfolding UA_decodeBinary_def by fastforce
qed



lemma jump_index_struct: "\<not> builtin (UA_TYPES ! i) \<Longrightarrow> jump_index i = UA_BUILTIN_TYPES_COUNT"
  by (simp add: jump_index_def)

lemma UA_encodeBinary_struct: "\<not> builtin (UA_TYPES ! i) \<Longrightarrow> UA_encodeBinary n i v = UA_enc (Suc n) i v"
  by (simp add: UA_encodeBinary_def encodeBinaryJumpTable_def jump_index_struct UA_BUILTIN_TYPES_COUNT_def)

lemma UA_decodeBinary_struct:
  "\<not> builtin (UA_TYPES ! i) \<Longrightarrow> UA_decodeBinary mem i (src, off) = UA_dec mem (Suc (enough_depth (length src - off))) i (src, off)"
  by (simp add: UA_decodeBinary_def decodeBinaryJumpTable_def jump_index_struct UA_BUILTIN_TYPES_COUNT_def)

text \<open>A decoder with any depth that is enough for the bytes reads the value.\<close>

lemma reads_with_depth:
  assumes i: "i < UA_TYPES_COUNT" and ok: "ok_value n i v" and m: "nesting (ser_value n) i v \<le> m"
  shows "reads (UA_dec (\<lambda>_. True) m i) (ser_value n i v) (canon_value n i v)"
proof -
  have "ok_value m i v" "ser_value m i v = ser_value n i v" "canon_value m i v = canon_value n i v"
    using agreeD [OF value_depth i ok m] by simp_all
  then show ?thesis using Value.reads_ser [of i m v] i by simp
qed


text \<open>A read request for the value attribute of a node, with a request header and an extension object in it.\<close>

definition example_header :: ua_value where
  "example_header = VStruct [VNodeId (UA_NODEID_NUMERIC 1 5), VUInt64 0, VUInt32 7, VUInt32 0, VString Null_ptr, VUInt32 1000,
     VDecoded (Some UA_TYPES_ANONYMOUSIDENTITYTOKEN) (Some (VStruct [VString (Block [97, 98])]))]"

definition example_read :: ua_value where
  "example_read = VStruct [example_header, VUInt64 0, VUInt32 2,
     VArray (Block [VStruct [VNodeId (UA_NODEID_NUMERIC 0 2253), VUInt32 13, VString Null_ptr, VStruct [VUInt16 0, VString Null_ptr]]])]"

lemma example_entries:
  "members (UA_TYPES ! UA_TYPES_READREQUEST) = [(UA_TYPES_REQUESTHEADER, False), (UA_TYPES_DOUBLE, False), (UA_TYPES_TIMESTAMPSTORETURN, False), (UA_TYPES_READVALUEID, True)]"
  "members (UA_TYPES ! UA_TYPES_REQUESTHEADER) = [(UA_TYPES_NODEID, False), (UA_TYPES_DATETIME, False), (UA_TYPES_UINT32, False),
     (UA_TYPES_UINT32, False), (UA_TYPES_STRING, False), (UA_TYPES_UINT32, False), (UA_TYPES_EXTENSIONOBJECT, False)]"
  "members (UA_TYPES ! UA_TYPES_READVALUEID) = [(UA_TYPES_NODEID, False), (UA_TYPES_UINT32, False), (UA_TYPES_STRING, False), (UA_TYPES_QUALIFIEDNAME, False)]"
  "members (UA_TYPES ! UA_TYPES_QUALIFIEDNAME) = [(UA_TYPES_UINT16, False), (UA_TYPES_STRING, False)]"
  "members (UA_TYPES ! UA_TYPES_ANONYMOUSIDENTITYTOKEN) = [(UA_TYPES_STRING, False)]"
  "memSize (UA_TYPES ! UA_TYPES_READVALUEID) = 72" "typeId (UA_TYPES ! UA_TYPES_ANONYMOUSIDENTITYTOKEN) = 319" "\<not> builtin (UA_TYPES ! UA_TYPES_READREQUEST)"
  by code_simp+

lemma example_indices:
  "jump_index UA_TYPES_READREQUEST = 25" "jump_index UA_TYPES_REQUESTHEADER = 25" "jump_index UA_TYPES_READVALUEID = 25"
  "jump_index UA_TYPES_ANONYMOUSIDENTITYTOKEN = 25" "jump_index UA_TYPES_TIMESTAMPSTORETURN = 5" "jump_index UA_TYPES_NODEID = 16"
  "jump_index UA_TYPES_DATETIME = 12" "jump_index UA_TYPES_UINT32 = 6" "jump_index UA_TYPES_STRING = 11" "jump_index UA_TYPES_EXTENSIONOBJECT = 21"
  "jump_index UA_TYPES_DOUBLE = 10" "jump_index UA_TYPES_QUALIFIEDNAME = 19" "jump_index UA_TYPES_UINT16 = 4"
  by code_simp+

lemmas example_eval = example_read_def example_header_def example_entries example_indices ok_NodeId_def ok_String_def ser_String_def ser_NodeId_def
  ok_elements_def ser_elements_def MAX_ARRAY_SIZE_def UA_NODEID_NUMERIC_def binary_id_def UA_BUILTIN_TYPES_COUNT_def UA_TYPES_COUNT_def ser_eo_def
  UA_ENCODINGOFFSET_BINARY_def array_length_code_def

lemma example_read_ok:
  "ok_value (Suc (Suc (Suc (Suc (Suc 0))))) UA_TYPES_READREQUEST example_read"
  "length (ser_value (Suc (Suc (Suc (Suc (Suc 0))))) UA_TYPES_READREQUEST example_read) \<le> 100"
  by (simp_all add: example_eval)


section \<open>Where values change on the way\<close>

text \<open>
  A single structure in a variant is written as an extension object, and the decoder, which
  looks the encoding id up without taking the encoding offset off, does not recognise it: what arrives is a
  variant that holds an extension object, not a variant that holds the structure.
\<close>

theorem variant_structure_arrives_as_extension_object:
  assumes k: "k < UA_TYPES_COUNT" "\<not> builtin (UA_TYPES ! k)" "findDataType (binary_id k) = None"
    and w: "ok_value n k w" "length (ser_value n k w) < 2 ^ 31"
    and buf: "off + 13 + length (ser_value n k w) \<le> length buf" "length buf < 2 ^ 32"
  shows "\<exists>buf' buf'' off'.
    UA_enc (Suc n) UA_TYPES_VARIANT (VVariant (Some k) 0 (Block [w]) Null_ptr) (buf, off) = Some (UA_STATUSCODE_GOOD, (buf', off')) \<and>
    UA_dec (\<lambda>_. True) (Suc (Suc n)) UA_TYPES_VARIANT (buf', off) = Some (UA_STATUSCODE_GOOD,
      VVariant (Some UA_TYPES_EXTENSIONOBJECT) 0 (Block [VDecoded (Some k) (Some (canon_value n k w))]) Null_ptr, (buf'', off'))"
proof -
  let ?eo = "VDecoded (Some k) (Some w)" and ?var = "VVariant (Some UA_TYPES_EXTENSIONOBJECT) 0 (Block [VDecoded (Some k) (Some w)]) Null_ptr"
  note idx = example_indices(10) builtin_entry [of UA_TYPES_VARIANT] builtin_entry [of UA_TYPES_EXTENSIONOBJECT]
  have same: "UA_enc (Suc n) UA_TYPES_VARIANT (VVariant (Some k) 0 (Block [w]) Null_ptr) = UA_enc (Suc (Suc n)) UA_TYPES_VARIANT ?var"
    using k(2) idx by (simp add: encodeBinaryJumpTable_def jump_index_def variant_element_def variant_is_array_def variant_byte_def tag_defs)
  have eo_len: "memSize (UA_TYPES ! UA_TYPES_EXTENSIONOBJECT) = 48" by code_simp
  have id: "length (ser_NodeId (binary_id k)) \<le> 7"
    by (simp add: ser_NodeId_def binary_id_def UA_NODEID_NUMERIC_def)
  have ok: "ok_value (Suc (Suc n)) UA_TYPES_VARIANT ?var"
    using k w idx eo_len by (simp add: jump_index_def variant_is_array_def ok_elements_def ser_elements_def MAX_ARRAY_SIZE_def ser_eo_def plain_header_def)
  have "length (ser_value (Suc (Suc n)) UA_TYPES_VARIANT ?var) \<le> 13 + length (ser_value n k w)"
    using id by (simp add: variant_is_array_def ser_elements_def ser_eo_def)
  then have room: "off + length (ser_value (Suc (Suc n)) UA_TYPES_VARIANT ?var) \<le> length buf" using buf(1) by linarith
  have arrives: "canon_value (Suc (Suc n)) UA_TYPES_VARIANT ?var =
      VVariant (Some UA_TYPES_EXTENSIONOBJECT) 0 (Block [VDecoded (Some k) (Some (canon_value n k w))]) Null_ptr"
    by (simp add: variant_is_array_def)
  have "UA_TYPES_VARIANT < UA_TYPES_COUNT \<and> ok_value (Suc (Suc n)) UA_TYPES_VARIANT ?var" by (intro conjI ok) (simp add: UA_TYPES_COUNT_def)
  from Value.wire_roundtrip [OF this room buf(2)] show ?thesis unfolding same arrives by blast
qed

lemma anonymous_token_entries:
  "\<not> builtin (UA_TYPES ! UA_TYPES_ANONYMOUSIDENTITYTOKEN)" "findDataType (binary_id UA_TYPES_ANONYMOUSIDENTITYTOKEN) = None"
  by code_simp+

theorem variant_structure_arrives_as_extension_object_witness:
  "\<exists>buf' buf'' off'. UA_enc (Suc (Suc (Suc 0))) UA_TYPES_VARIANT
      (VVariant (Some UA_TYPES_ANONYMOUSIDENTITYTOKEN) 0 (Block [VStruct [VString (Block [97])]]) Null_ptr) (replicate 100 0, 0) = Some (UA_STATUSCODE_GOOD, (buf', off')) \<and>
    UA_dec (\<lambda>_. True) (Suc (Suc (Suc (Suc 0)))) UA_TYPES_VARIANT (buf', 0) = Some (UA_STATUSCODE_GOOD,
      VVariant (Some UA_TYPES_EXTENSIONOBJECT) 0 (Block [VDecoded (Some UA_TYPES_ANONYMOUSIDENTITYTOKEN) (Some (VStruct [VString (Block [97])]))]) Null_ptr, (buf'', off'))"
proof -
  let ?w = "VStruct [VString (Block [97])]"
  have k: "UA_TYPES_ANONYMOUSIDENTITYTOKEN < UA_TYPES_COUNT" by (simp add: UA_TYPES_COUNT_def)
  have w: "ok_value (Suc (Suc 0)) UA_TYPES_ANONYMOUSIDENTITYTOKEN ?w" "length (ser_value (Suc (Suc 0)) UA_TYPES_ANONYMOUSIDENTITYTOKEN ?w) = 5"
    "canon_value (Suc (Suc 0)) UA_TYPES_ANONYMOUSIDENTITYTOKEN ?w = ?w"
    by (simp_all add: example_eval canon_array_Block)
  have "\<exists>buf' buf'' off'. UA_enc (Suc (Suc (Suc 0))) UA_TYPES_VARIANT
      (VVariant (Some UA_TYPES_ANONYMOUSIDENTITYTOKEN) 0 (Block [?w]) Null_ptr) (replicate 100 0, 0) = Some (UA_STATUSCODE_GOOD, (buf', off')) \<and>
    UA_dec (\<lambda>_. True) (Suc (Suc (Suc (Suc 0)))) UA_TYPES_VARIANT (buf', 0) = Some (UA_STATUSCODE_GOOD,
      VVariant (Some UA_TYPES_EXTENSIONOBJECT) 0 (Block [VDecoded (Some UA_TYPES_ANONYMOUSIDENTITYTOKEN) (Some
        (canon_value (Suc (Suc 0)) UA_TYPES_ANONYMOUSIDENTITYTOKEN ?w))]) Null_ptr, (buf'', off'))"
    using w by (intro variant_structure_arrives_as_extension_object [OF k anonymous_token_entries w(1)]) simp_all
  then show ?thesis unfolding w(3) .
qed

text \<open>
  An extension object with a binary body whose type is not known is passed on undecoded, as it
  should be, but with the encoding offset taken off its type id: the id that arrives is the id that was
  sent minus two.
\<close>

theorem unknown_extension_object_loses_id:
  assumes id: "n \<noteq> 256" "findDataType (UA_NODEID_NUMERIC 0 (n - 2)) = None" and body: "ok_String body"
  shows "\<exists>bs. encodes (ExtensionObject_encodeBinary renc (VEncoded UA_EXTENSIONOBJECT_ENCODED_BYTESTRING (UA_NODEID_NUMERIC 0 n) body)) bs \<and>
    decodes (ExtensionObject_decodeBinary rdec (\<lambda>_. True)) bs
      (VEncoded UA_EXTENSIONOBJECT_ENCODED_BYTESTRING (UA_NODEID_NUMERIC 0 (n - 2)) (canon_array body))"
proof -
  let ?id = "UA_NODEID_NUMERIC 0 n"
  let ?bs = "ser_NodeId ?id @ [1] @ ser_String body"
  have ok: "ok_NodeId ?id" "canon_NodeId ?id = ?id" using id(1) by (auto simp: ok_NodeId_def canon_NodeId_def UA_NODEID_NUMERIC_def)
  have "encodes (ExtensionObject_encodeBinary renc (VEncoded UA_EXTENSIONOBJECT_ENCODED_BYTESTRING ?id body)) ?bs"
    unfolding ExtensionObject_encodeBinary.simps ByteString_encodeBinary_def
    by (intro encodes_seq encodes_NodeId ok int_enc encodes_String body TrueI)
  moreover have "ExtensionObject_decodeBinary rdec (\<lambda>_. True) (pre @ ?bs @ post, length pre) = Some (UA_STATUSCODE_GOOD,
      VEncoded UA_EXTENSIONOBJECT_ENCODED_BYTESTRING (UA_NODEID_NUMERIC 0 (n - 2)) (canon_array body), (pre @ ?bs @ post, length pre + length ?bs))" for pre post
  proof -
    let ?o1 = "length pre + length (ser_NodeId ?id)" and ?src = "pre @ ?bs @ post"
    have 1: "NodeId_decodeBinary (\<lambda>_. True) (?src, length pre) = Some (UA_STATUSCODE_GOOD, ?id, (?src, ?o1))"
      using decodesD [OF decodes_NodeId [OF ok(1)], of "\<lambda>_. True" "length pre" pre "[1] @ ser_String body @ post"] ok(2) by simp
    have 2: "Byte_decodeBinary (?src, ?o1) = Some (UA_STATUSCODE_GOOD, 1, (?src, ?o1 + 1))"
      using decodesD [OF int_dec(1), of ?o1 "pre @ ser_NodeId ?id" 1 "ser_String body @ post"] by simp
    have len: "4 \<le> length (ser_String body)" "\<exists>w :: UA_Int32. \<exists>rest. ser_String body = le_bytes 4 w @ rest"
      by (auto simp: ser_String_def)
    then obtain w :: UA_Int32 and rest where w: "ser_String body = le_bytes 4 w @ rest" by blast
    have 3: "Int32_decodeBinary (?src, ?o1 + 1) = Some (UA_STATUSCODE_GOOD, w, (?src, ?o1 + 5))"
      using Int32_dec_ser [of "?o1 + 1" "pre @ ser_NodeId ?id @ [1]" w "rest @ post"] by (simp add: w)
    have "decodes (dec_cleanup (\<lambda>_. VDeleted) (dec_map (VEncoded UA_EXTENSIONOBJECT_ENCODED_BYTESTRING (UA_NODEID_NUMERIC 0 (n - 2)))
        (ByteString_decodeBinary (\<lambda>_. True)))) (ser_String body) (VEncoded UA_EXTENSIONOBJECT_ENCODED_BYTESTRING (UA_NODEID_NUMERIC 0 (n - 2)) (canon_array body))"
      unfolding dec_map_def ByteString_decodeBinary_def using body
      by (intro decodes_cleanup decodes_bind_return decodes_String) auto
    from decodesD [OF this, of "?o1 + 1" "pre @ ser_NodeId ?id @ [1]" post]
    show ?thesis using 1 2 3 id(2)
      by (simp add: ExtensionObject_decodeBinary_def UA_NODEID_NUMERIC_def UA_ENCODINGOFFSET_BINARY_def)
  qed
  ultimately show ?thesis unfolding decodes_def by blast
qed

theorem unknown_extension_object_loses_id_witness:
  "\<exists>bs. encodes (ExtensionObject_encodeBinary (UA_enc 1) (VEncoded UA_EXTENSIONOBJECT_ENCODED_BYTESTRING (UA_NODEID_NUMERIC 0 7001) (Block [5]))) bs \<and>
    decodes (ExtensionObject_decodeBinary (UA_dec (\<lambda>_. True) 1) (\<lambda>_. True)) bs
      (VEncoded UA_EXTENSIONOBJECT_ENCODED_BYTESTRING (UA_NODEID_NUMERIC 0 6999) (Block [5]))"
proof -
  have "findDataType (UA_NODEID_NUMERIC 0 6999) = None" by code_simp
  then show ?thesis
    using unknown_extension_object_loses_id [of 7001 "Block [5]" "UA_enc 1" "UA_dec (\<lambda>_. True) 1"]
    by (simp add: ok_String_def canon_array_Block)
qed

end
