(* ===== verification/Ua_Server_Binary.thy ===== *)
theory Ua_Server_Binary
  imports Ua_Channels Ua_Structures
begin

text \<open>
  The server side of the binary protocol: \<^verbatim>\<open>src/server/ua_server_binary.c\<close> with
  \<open>UA_SecureChannel_sendBinaryMessage\<close> of \<^verbatim>\<open>src/ua_securechannel.c\<close> and the send callbacks of
  the TCP network layer, in the configuration of \<^verbatim>\<open>build/src_generated/ua_config.h\<close> (method
  calls, no subscriptions, no node management, single-threaded).

  The server is the heap of connections, channels and sessions, and the messages handed to the socket so far.
  An \<open>env\<close> holds what comes from outside: the outcome of allocations and of sending, the
  clock, the address of a new channel, the size of the stack (as a bound on the recursion of the encoder) and
  the table of services, which \<open>processMSG\<close> calls through a function pointer: they get the
  request and the initialised response. \<open>None\<close> is an access outside of a buffer, or to freed memory.
\<close>

section \<open>Transport types\<close>

definition UA_STATUSCODE_BADCOMMUNICATIONERROR :: UA_StatusCode where [status_defs]: "UA_STATUSCODE_BADCOMMUNICATIONERROR = 0x80050000"
definition UA_STATUSCODE_BADCONNECTIONCLOSED :: UA_StatusCode where [status_defs]: "UA_STATUSCODE_BADCONNECTIONCLOSED = 0x80ae0000"

definition UA_MESSAGETYPEANDFINAL_ACKF :: UA_UInt32 where [tag_defs]: "UA_MESSAGETYPEANDFINAL_ACKF = 1179337537"
definition UA_MESSAGETYPEANDFINAL_CLOF :: UA_UInt32 where [tag_defs]: "UA_MESSAGETYPEANDFINAL_CLOF = 1179601987"
definition UA_MESSAGETYPEANDFINAL_HELF :: UA_UInt32 where [tag_defs]: "UA_MESSAGETYPEANDFINAL_HELF = 1179403592"
definition UA_MESSAGETYPEANDFINAL_MSGF :: UA_UInt32 where [tag_defs]: "UA_MESSAGETYPEANDFINAL_MSGF = 1179079501"
definition UA_MESSAGETYPEANDFINAL_OPNF :: UA_UInt32 where [tag_defs]: "UA_MESSAGETYPEANDFINAL_OPNF = 1179537487"

record UA_TcpMessageHeader =
  messageTypeAndFinal :: UA_UInt32
  messageSize :: UA_UInt32

definition TcpMessageHeader_decodeBinary :: "UA_TcpMessageHeader decoder" where
  "TcpMessageHeader_decodeBinary =
     dec_bind UInt32_decodeBinary (\<lambda>t. dec_bind UInt32_decodeBinary (\<lambda>s. dec_return \<lparr>messageTypeAndFinal = t, messageSize = s\<rparr>))"

definition TcpMessageHeader_encodeBinary :: "UA_TcpMessageHeader encoder" where
  "TcpMessageHeader_encodeBinary h = enc_seq (UInt32_encodeBinary (messageTypeAndFinal h)) (UInt32_encodeBinary (messageSize h))"

text \<open>The hello and the acknowledge message carry a connection configuration.\<close>

definition TcpHelloMessage_decodeBinary :: "(nat \<Rightarrow> bool) \<Rightarrow> UA_ConnectionConfig decoder" where
  "TcpHelloMessage_decodeBinary mem =
     dec_bind UInt32_decodeBinary (\<lambda>pv. dec_bind UInt32_decodeBinary (\<lambda>rb. dec_bind UInt32_decodeBinary (\<lambda>sb.
     dec_bind UInt32_decodeBinary (\<lambda>mm. dec_bind UInt32_decodeBinary (\<lambda>mc. dec_bind (String_decodeBinary mem) (\<lambda>url.
       dec_return \<lparr>protocolVersion = pv, sendBufferSize = sb, recvBufferSize = rb, maxMessageSize = mm, maxChunkCount = mc\<rparr>))))))"

definition TcpAcknowledgeMessage_encodeBinary :: "UA_ConnectionConfig encoder" where
  "TcpAcknowledgeMessage_encodeBinary a =
     enc_seq (UInt32_encodeBinary (protocolVersion a)) (enc_seq (UInt32_encodeBinary (recvBufferSize a))
     (enc_seq (UInt32_encodeBinary (sendBufferSize a)) (enc_seq (UInt32_encodeBinary (maxMessageSize a)) (UInt32_encodeBinary (maxChunkCount a)))))"

record UA_SequenceHeader =
  seq_sequenceNumber :: UA_UInt32
  seq_requestId :: UA_UInt32

definition SequenceHeader_decodeBinary :: "UA_SequenceHeader decoder" where
  "SequenceHeader_decodeBinary =
     dec_bind UInt32_decodeBinary (\<lambda>n. dec_bind UInt32_decodeBinary (\<lambda>i. dec_return \<lparr>seq_sequenceNumber = n, seq_requestId = i\<rparr>))"

definition SequenceHeader_encodeBinary :: "UA_SequenceHeader encoder" where
  "SequenceHeader_encodeBinary h = enc_seq (UInt32_encodeBinary (seq_sequenceNumber h)) (UInt32_encodeBinary (seq_requestId h))"

definition SecureConversationMessageHeader_encodeBinary :: "UA_TcpMessageHeader \<Rightarrow> UA_UInt32 \<Rightarrow> encode" where
  "SecureConversationMessageHeader_encodeBinary h channel = enc_seq (TcpMessageHeader_encodeBinary h) (UInt32_encodeBinary channel)"

record UA_AsymmetricAlgorithmSecurityHeader =
  securityPolicyUri :: UA_ByteString
  senderCertificate :: UA_ByteString
  receiverCertificateThumbprint :: UA_ByteString

definition AsymmetricAlgorithmSecurityHeader_decodeBinary :: "(nat \<Rightarrow> bool) \<Rightarrow> UA_AsymmetricAlgorithmSecurityHeader decoder" where
  "AsymmetricAlgorithmSecurityHeader_decodeBinary mem =
     dec_bind (ByteString_decodeBinary mem) (\<lambda>p. dec_bind (ByteString_decodeBinary mem) (\<lambda>s. dec_bind (ByteString_decodeBinary mem) (\<lambda>r.
       dec_return \<lparr>securityPolicyUri = p, senderCertificate = s, receiverCertificateThumbprint = r\<rparr>)))"

definition AsymmetricAlgorithmSecurityHeader_encodeBinary :: "UA_AsymmetricAlgorithmSecurityHeader encoder" where
  "AsymmetricAlgorithmSecurityHeader_encodeBinary h =
     enc_seq (ByteString_encodeBinary (securityPolicyUri h))
       (enc_seq (ByteString_encodeBinary (senderCertificate h)) (ByteString_encodeBinary (receiverCertificateThumbprint h)))"

section \<open>Server and environment\<close>

text \<open>\<open>anonymousChannel\<close> is the channel object on the stack of \<open>processMSG\<close>.\<close>

record UA_Server =
  srv_comm :: comm
  anonymousChannel :: UA_SecureChannel
  outbox :: "(nat \<times> UA_Byte list) list"

type_synonym service = "comm \<Rightarrow> nat option \<Rightarrow> nat option \<Rightarrow> ua_value \<Rightarrow> ua_value \<Rightarrow> (ua_value \<times> comm) option"

record env =
  e_mem :: "nat \<Rightarrow> bool"
  e_now :: UA_DateTime
  e_granted :: bool
  e_new :: nat
  e_sends :: "nat \<Rightarrow> bool"
  e_stack :: nat
  e_services :: "nat \<Rightarrow> service"

text \<open>A channel in the heap, or the channel on the stack.\<close>

definition chan_of :: "UA_Server \<Rightarrow> nat option \<Rightarrow> UA_SecureChannel option" where
  "chan_of srv ref = (case ref of Some a \<Rightarrow> chans (srv_comm srv) a | None \<Rightarrow> Some (anonymousChannel srv))"

definition set_chan :: "UA_Server \<Rightarrow> nat option \<Rightarrow> UA_SecureChannel \<Rightarrow> UA_Server" where
  "set_chan srv ref ch = (case ref of Some a \<Rightarrow> srv\<lparr>srv_comm := put_chan a ch (srv_comm srv)\<rparr> | None \<Rightarrow> srv\<lparr>anonymousChannel := ch\<rparr>)"

definition close_conn :: "UA_Server \<Rightarrow> nat \<Rightarrow> UA_Server option" where
  "close_conn srv k = do { c \<leftarrow> connection_close (srv_comm srv) k; Some (srv\<lparr>srv_comm := c\<rparr>) }"

definition getSendBuffer :: "env \<Rightarrow> UA_Connection \<Rightarrow> nat \<Rightarrow> UA_StatusCode \<times> UA_Byte list" where
  "getSendBuffer env connection len =
     (if len > unat (recvBufferSize (remoteConf connection)) then (UA_STATUSCODE_BADCOMMUNICATIONERROR, [])
      else if \<not> e_mem env len then (UA_STATUSCODE_BADOUTOFMEMORY, [])
      else (UA_STATUSCODE_GOOD, replicate len 0))"

text \<open>The first \<open>len\<close> bytes of a buffer go to the socket; a failure closes the connection.\<close>

definition socket_write :: "env \<Rightarrow> UA_Server \<Rightarrow> nat \<Rightarrow> nat \<Rightarrow> UA_Byte list \<Rightarrow> (UA_StatusCode \<times> UA_Server) option" where
  "socket_write env srv k len buf =
     (if len > length buf then None
      else if e_sends env (length (outbox srv)) then Some (UA_STATUSCODE_GOOD, srv\<lparr>outbox := outbox srv @ [(k, take len buf)]\<rparr>)
      else do { srv1 \<leftarrow> close_conn srv k; Some (UA_STATUSCODE_BADCONNECTIONCLOSED, srv1) })"

section \<open>Sending\<close>

definition UA_SecureChannel_sendBinaryMessage ::
  "env \<Rightarrow> UA_Server \<Rightarrow> nat option \<Rightarrow> UA_UInt32 \<Rightarrow> ua_value \<Rightarrow> nat \<Rightarrow> (UA_StatusCode \<times> UA_Server) option" where
  "UA_SecureChannel_sendBinaryMessage env srv ref requestId body contentType = do {
     ch \<leftarrow> chan_of srv ref;
     (case sc_connection ch of
        None \<Rightarrow> Some (UA_STATUSCODE_BADINTERNALERROR, srv)
      | Some k \<Rightarrow> do {
          connection \<leftarrow> conns (srv_comm srv) k;
          let (rb, buf) = getSendBuffer env connection (unat (recvBufferSize (remoteConf connection)));
          if rb \<noteq> UA_STATUSCODE_GOOD then Some (rb, srv)
          else do {
            (r1, buf1, pos1) \<leftarrow> NodeId_encodeBinary (binary_id contentType) (buf, 24);
            (r2, buf2, pos2) \<leftarrow> UA_encodeBinary (e_stack env) contentType body (buf1, pos1);
            if r1 OR r2 \<noteq> UA_STATUSCODE_GOOD then Some (r1 OR r2, srv)
            else do {
              let msize = word_of_nat pos2;
              let ch' = ch\<lparr>sequenceNumber := sequenceNumber ch + 1\<rparr>;
              (_, buf3, pos3) \<leftarrow> SecureConversationMessageHeader_encodeBinary
                 \<lparr>messageTypeAndFinal = UA_MESSAGETYPEANDFINAL_MSGF, messageSize = msize\<rparr> (channelId (securityToken ch)) (buf2, 0);
              (_, buf4, pos4) \<leftarrow> UInt32_encodeBinary (tokenId (securityToken ch)) (buf3, pos3);
              (_, buf5, _) \<leftarrow> SequenceHeader_encodeBinary
                 \<lparr>seq_sequenceNumber = sequenceNumber ch', seq_requestId = requestId\<rparr> (buf4, pos4);
              socket_write env (set_chan srv ref ch') k (unat msize) buf5 } } }) }"

section \<open>Requests and responses\<close>

text \<open>\<open>UA_init\<close>: the value of a type whose memory is zero. Members stand earlier in the table.\<close>

primrec zero_value :: "nat \<Rightarrow> nat \<Rightarrow> ua_value" where
  "zero_value 0 i = VDeleted"
| "zero_value (Suc n) i =
     (let fi = jump_index i in
      if fi = UA_TYPES_BOOLEAN then VBoolean False
      else if fi \<in> {UA_TYPES_SBYTE, UA_TYPES_BYTE} then VByte 0
      else if fi \<in> {UA_TYPES_INT16, UA_TYPES_UINT16} then VUInt16 0
      else if fi \<in> {UA_TYPES_INT32, UA_TYPES_UINT32, UA_TYPES_FLOAT, UA_TYPES_STATUSCODE} then VUInt32 0
      else if fi \<in> {UA_TYPES_INT64, UA_TYPES_UINT64, UA_TYPES_DOUBLE, UA_TYPES_DATETIME} then VUInt64 0
      else if fi \<in> {UA_TYPES_STRING, UA_TYPES_BYTESTRING, UA_TYPES_XMLELEMENT} then VString Null_ptr
      else if fi = UA_TYPES_GUID then VGuid \<lparr>data1 = 0, data2 = 0, data3 = 0, data4 = replicate 8 0\<rparr>
      else if fi = UA_TYPES_NODEID then VNodeId UA_NODEID_NULL
      else if fi = UA_TYPES_EXPANDEDNODEID then VExpandedNodeId UA_EXPANDEDNODEID_NULL
      else if fi = UA_TYPES_LOCALIZEDTEXT then VLocalizedText \<lparr>locale_text = Null_ptr, text_text = Null_ptr\<rparr>
      else if fi = UA_TYPES_EXTENSIONOBJECT then VExtensionObject_zero
      else if fi = UA_TYPES_DATAVALUE then VDataValue (dv_flags_of 0) VVariant_zero 0 0 0 0 0
      else if fi = UA_TYPES_VARIANT then VVariant_zero
      else if fi = UA_TYPES_DIAGNOSTICINFO then VDiagnosticInfo DiagnosticInfo_zero
      else VStruct (map (\<lambda>(j, isArray). if isArray then VArray Null_ptr else zero_value n j) (members (UA_TYPES ! i))))"

definition UA_init :: "nat \<Rightarrow> ua_value" where
  "UA_init i = zero_value (Suc i) i"

text \<open>The members of a structure, read as the types they have.\<close>

definition as_struct :: "ua_value \<Rightarrow> ua_value list option" where
  "as_struct v = (case v of VStruct vs \<Rightarrow> Some vs | _ \<Rightarrow> None)"

definition as_UInt32 :: "ua_value \<Rightarrow> UA_UInt32 option" where
  "as_UInt32 v = (case v of VUInt32 w \<Rightarrow> Some w | _ \<Rightarrow> None)"

definition as_String :: "ua_value \<Rightarrow> UA_String option" where
  "as_String v = (case v of VString s \<Rightarrow> Some s | _ \<Rightarrow> None)"

definition as_NodeId :: "ua_value \<Rightarrow> UA_NodeId option" where
  "as_NodeId v = (case v of VNodeId n \<Rightarrow> Some n | _ \<Rightarrow> None)"

text \<open>A request starts with the request header: authentication token, timestamp, request handle.\<close>

definition request_header :: "ua_value \<Rightarrow> (UA_NodeId \<times> UA_UInt32) option" where
  "request_header v = do {
     vs \<leftarrow> as_struct v;
     hs \<leftarrow> (case vs of h # _ \<Rightarrow> as_struct h | [] \<Rightarrow> None);
     (case hs of t # _ # h # _ \<Rightarrow> do { token \<leftarrow> as_NodeId t; handle \<leftarrow> as_UInt32 h; Some (token, handle) } | _ \<Rightarrow> None) }"

text \<open>A response starts with the response header: timestamp, request handle, service result.\<close>

definition init_response_header :: "UA_DateTime \<Rightarrow> UA_UInt32 \<Rightarrow> ua_value \<Rightarrow> ua_value" where
  "init_response_header now handle v = (case v of
     VStruct (VStruct hs # vs) \<Rightarrow> VStruct (VStruct (VUInt64 now # VUInt32 handle # drop 2 hs) # vs)
   | _ \<Rightarrow> v)"

definition response_header :: "UA_DateTime \<Rightarrow> UA_UInt32 \<Rightarrow> UA_StatusCode \<Rightarrow> ua_value" where
  "response_header ts handle result =
     VStruct [VUInt64 ts, VUInt32 handle, VUInt32 result, VDiagnosticInfo DiagnosticInfo_zero, VArray Null_ptr, VExtensionObject_zero]"

text \<open>\<open>sendError\<close> decodes the request header at \<open>pos\<close> to answer with its handle.\<close>

definition sendError ::
  "env \<Rightarrow> UA_Server \<Rightarrow> nat option \<Rightarrow> UA_Byte list \<Rightarrow> nat \<Rightarrow> UA_UInt32 \<Rightarrow> UA_StatusCode \<Rightarrow> (UA_Server \<times> UA_Byte list) option" where
  "sendError env srv ref msg pos requestId error = do {
     (r, header, msg1, _) \<leftarrow> UA_decodeBinary (e_mem env) UA_TYPES_REQUESTHEADER (msg, pos);
     if r \<noteq> UA_STATUSCODE_GOOD then Some (srv, msg1)
     else do {
       (_, handle) \<leftarrow> request_header (VStruct [header]);
       (_, srv1) \<leftarrow> UA_SecureChannel_sendBinaryMessage env srv ref requestId
          (VStruct [response_header (e_now env) handle error]) UA_TYPES_SERVICEFAULT;
       Some (srv1, msg1) } }"

definition UA_NS0ID_GETENDPOINTSREQUEST :: UA_UInt32 where "UA_NS0ID_GETENDPOINTSREQUEST = 426"
definition UA_NS0ID_FINDSERVERSREQUEST :: UA_UInt32 where "UA_NS0ID_FINDSERVERSREQUEST = 420"
definition UA_NS0ID_CREATESESSIONREQUEST :: UA_UInt32 where "UA_NS0ID_CREATESESSIONREQUEST = 459"
definition UA_NS0ID_ACTIVATESESSIONREQUEST :: UA_UInt32 where "UA_NS0ID_ACTIVATESESSIONREQUEST = 465"
definition UA_NS0ID_CLOSESESSIONREQUEST :: UA_UInt32 where "UA_NS0ID_CLOSESESSIONREQUEST = 471"
definition UA_NS0ID_READREQUEST :: UA_UInt32 where "UA_NS0ID_READREQUEST = 629"
definition UA_NS0ID_WRITEREQUEST :: UA_UInt32 where "UA_NS0ID_WRITEREQUEST = 671"
definition UA_NS0ID_BROWSEREQUEST :: UA_UInt32 where "UA_NS0ID_BROWSEREQUEST = 525"
definition UA_NS0ID_BROWSENEXTREQUEST :: UA_UInt32 where "UA_NS0ID_BROWSENEXTREQUEST = 531"
definition UA_NS0ID_REGISTERNODESREQUEST :: UA_UInt32 where "UA_NS0ID_REGISTERNODESREQUEST = 558"
definition UA_NS0ID_UNREGISTERNODESREQUEST :: UA_UInt32 where "UA_NS0ID_UNREGISTERNODESREQUEST = 564"
definition UA_NS0ID_TRANSLATEBROWSEPATHSTONODEIDSREQUEST :: UA_UInt32 where "UA_NS0ID_TRANSLATEBROWSEPATHSTONODEIDSREQUEST = 552"
definition UA_NS0ID_CALLREQUEST :: UA_UInt32 where "UA_NS0ID_CALLREQUEST = 710"
definition UA_NS0ID_OPENSECURECHANNELRESPONSE :: UA_UInt32 where "UA_NS0ID_OPENSECURECHANNELRESPONSE = 447"

lemmas UA_NS0ID_defs = UA_NS0ID_GETENDPOINTSREQUEST_def UA_NS0ID_FINDSERVERSREQUEST_def UA_NS0ID_CREATESESSIONREQUEST_def
  UA_NS0ID_ACTIVATESESSIONREQUEST_def UA_NS0ID_CLOSESESSIONREQUEST_def UA_NS0ID_READREQUEST_def UA_NS0ID_WRITEREQUEST_def
  UA_NS0ID_BROWSEREQUEST_def UA_NS0ID_BROWSENEXTREQUEST_def UA_NS0ID_REGISTERNODESREQUEST_def UA_NS0ID_UNREGISTERNODESREQUEST_def
  UA_NS0ID_TRANSLATEBROWSEPATHSTONODEIDSREQUEST_def UA_NS0ID_CALLREQUEST_def UA_NS0ID_OPENSECURECHANNELRESPONSE_def

text \<open>The types of request and response; the request type selects the service.\<close>

definition getServicePointers :: "UA_UInt32 \<Rightarrow> (nat \<times> nat) option" where
  "getServicePointers requestTypeId =
     (let i = requestTypeId - UA_ENCODINGOFFSET_BINARY in
      if i = UA_NS0ID_GETENDPOINTSREQUEST then Some (UA_TYPES_GETENDPOINTSREQUEST, UA_TYPES_GETENDPOINTSRESPONSE)
      else if i = UA_NS0ID_FINDSERVERSREQUEST then Some (UA_TYPES_FINDSERVERSREQUEST, UA_TYPES_FINDSERVERSRESPONSE)
      else if i = UA_NS0ID_CREATESESSIONREQUEST then Some (UA_TYPES_CREATESESSIONREQUEST, UA_TYPES_CREATESESSIONRESPONSE)
      else if i = UA_NS0ID_ACTIVATESESSIONREQUEST then Some (UA_TYPES_ACTIVATESESSIONREQUEST, UA_TYPES_ACTIVATESESSIONRESPONSE)
      else if i = UA_NS0ID_CLOSESESSIONREQUEST then Some (UA_TYPES_CLOSESESSIONREQUEST, UA_TYPES_CLOSESESSIONRESPONSE)
      else if i = UA_NS0ID_READREQUEST then Some (UA_TYPES_READREQUEST, UA_TYPES_READRESPONSE)
      else if i = UA_NS0ID_WRITEREQUEST then Some (UA_TYPES_WRITEREQUEST, UA_TYPES_WRITERESPONSE)
      else if i = UA_NS0ID_BROWSEREQUEST then Some (UA_TYPES_BROWSEREQUEST, UA_TYPES_BROWSERESPONSE)
      else if i = UA_NS0ID_BROWSENEXTREQUEST then Some (UA_TYPES_BROWSENEXTREQUEST, UA_TYPES_BROWSENEXTRESPONSE)
      else if i = UA_NS0ID_REGISTERNODESREQUEST then Some (UA_TYPES_REGISTERNODESREQUEST, UA_TYPES_REGISTERNODESRESPONSE)
      else if i = UA_NS0ID_UNREGISTERNODESREQUEST then Some (UA_TYPES_UNREGISTERNODESREQUEST, UA_TYPES_UNREGISTERNODESRESPONSE)
      else if i = UA_NS0ID_TRANSLATEBROWSEPATHSTONODEIDSREQUEST
      then Some (UA_TYPES_TRANSLATEBROWSEPATHSTONODEIDSREQUEST, UA_TYPES_TRANSLATEBROWSEPATHSTONODEIDSRESPONSE)
      else if i = UA_NS0ID_CALLREQUEST then Some (UA_TYPES_CALLREQUEST, UA_TYPES_CALLRESPONSE)
      else None)"

section \<open>Handlers\<close>

definition processHEL :: "env \<Rightarrow> UA_Server \<Rightarrow> nat \<Rightarrow> cursor \<Rightarrow> (UA_Server \<times> UA_Byte list) option" where
  "processHEL env srv k c = do {
     (r, hello, msg1, _) \<leftarrow> TcpHelloMessage_decodeBinary (e_mem env) c;
     if r \<noteq> UA_STATUSCODE_GOOD then do { srv1 \<leftarrow> close_conn srv k; Some (srv1, msg1) }
     else do {
       connection \<leftarrow> conns (srv_comm srv) k;
       let conf = localConf connection;
       let conf1 = (if sendBufferSize conf > recvBufferSize hello then conf\<lparr>sendBufferSize := recvBufferSize hello\<rparr> else conf);
       let conf2 = (if recvBufferSize conf1 > sendBufferSize hello then conf1\<lparr>recvBufferSize := sendBufferSize hello\<rparr> else conf1);
       let connection1 = connection\<lparr>remoteConf := hello, localConf := conf2, c_state := UA_CONNECTION_ESTABLISHED\<rparr>;
       let srv1 = srv\<lparr>srv_comm := put_conn k connection1 (srv_comm srv)\<rparr>;
       let (rb, buf) = getSendBuffer env connection1 (unat (recvBufferSize (remoteConf connection1)));
       if rb \<noteq> UA_STATUSCODE_GOOD then Some (srv1, msg1)
       else do {
         (_, buf1, pos1) \<leftarrow> TcpMessageHeader_encodeBinary \<lparr>messageTypeAndFinal = UA_MESSAGETYPEANDFINAL_ACKF, messageSize = 28\<rparr> (buf, 0);
         (_, buf2, _) \<leftarrow> TcpAcknowledgeMessage_encodeBinary conf2 (buf1, pos1);
         (_, srv2) \<leftarrow> socket_write env srv1 k 28 buf2;
         Some (srv2, msg1) } } }"

definition open_request :: "ua_value \<Rightarrow> UA_OpenSecureChannelRequest option" where
  "open_request v = do {
     vs \<leftarrow> as_struct v;
     (case vs of
        [_, _, t, m, n, l] \<Rightarrow> do {
          rt \<leftarrow> as_UInt32 t; sm \<leftarrow> as_UInt32 m; nonce \<leftarrow> as_String n; lifetime \<leftarrow> as_UInt32 l;
          Some \<lparr>requestType = (if rt = 0 then UA_SECURITYTOKENREQUESTTYPE_ISSUE else UA_SECURITYTOKENREQUESTTYPE_RENEW),
            securityMode = (if sm = 0 then UA_MESSAGESECURITYMODE_INVALID else if sm = 1 then UA_MESSAGESECURITYMODE_NONE
              else if sm = 2 then UA_MESSAGESECURITYMODE_SIGN else UA_MESSAGESECURITYMODE_SIGNANDENCRYPT),
            requestedLifetime = lifetime, r_clientNonce = nonce\<rparr> }
      | _ \<Rightarrow> None) }"

definition open_response :: "UA_DateTime \<Rightarrow> UA_OpenSecureChannelRequest \<Rightarrow> UA_StatusCode \<Rightarrow> UA_OpenSecureChannelResponse \<Rightarrow> ua_value" where
  "open_response now request result p = (let t = r_securityToken p in
     VStruct [response_header (if requestType request = UA_SECURITYTOKENREQUESTTYPE_ISSUE \<and> result = UA_STATUSCODE_GOOD then now else 0) 0 result,
       VUInt32 0, VStruct [VUInt32 (channelId t), VUInt32 (tokenId t), VUInt64 (createdAt t), VUInt32 (revisedLifetime t)],
       VString (r_serverNonce p)])"

text \<open>The answer is written with the mirrored security header, then the message header in front of it.\<close>

definition send_opn ::
  "env \<Rightarrow> UA_Server \<Rightarrow> nat \<Rightarrow> UA_AsymmetricAlgorithmSecurityHeader \<Rightarrow> UA_SequenceHeader \<Rightarrow> UA_UInt32 \<Rightarrow> ua_value \<Rightarrow> UA_Server option" where
  "send_opn env srv k asymHeader seqHeader channel response = do {
     connection \<leftarrow> conns (srv_comm srv) k;
     let (rb, buf) = getSendBuffer env connection (unat (recvBufferSize (remoteConf connection)));
     if rb \<noteq> UA_STATUSCODE_GOOD then Some srv
     else do {
       (r1, buf1, pos1) \<leftarrow> enc_seq (AsymmetricAlgorithmSecurityHeader_encodeBinary asymHeader)
         (enc_seq (SequenceHeader_encodeBinary seqHeader)
         (enc_seq (NodeId_encodeBinary (UA_NODEID_NUMERIC 0 (UA_NS0ID_OPENSECURECHANNELRESPONSE + UA_ENCODINGOFFSET_BINARY)))
           (UA_encodeBinary (e_stack env) UA_TYPES_OPENSECURECHANNELRESPONSE response))) (buf, 12);
       if r1 \<noteq> UA_STATUSCODE_GOOD then close_conn srv k
       else do {
         (_, buf2, _) \<leftarrow> SecureConversationMessageHeader_encodeBinary
           \<lparr>messageTypeAndFinal = UA_MESSAGETYPEANDFINAL_OPNF, messageSize = word_of_nat pos1\<rparr> channel (buf1, 0);
         (_, srv1) \<leftarrow> socket_write env srv k (unat (word_of_nat pos1 :: UA_UInt32)) buf2;
         Some srv1 } } }"

definition processOPN :: "env \<Rightarrow> UA_Server \<Rightarrow> nat \<Rightarrow> cursor \<Rightarrow> (UA_Server \<times> UA_Byte list) option" where
  "processOPN env srv k c = do {
     connection \<leftarrow> conns (srv_comm srv) k;
     if c_state connection \<noteq> UA_CONNECTION_ESTABLISHED then do { srv1 \<leftarrow> close_conn srv k; Some (srv1, fst c) }
     else do {
       (r, (asymHeader, seqHeader, typ, v), msg1, _) \<leftarrow>
         dec_bind UInt32_decodeBinary (\<lambda>_. dec_bind (AsymmetricAlgorithmSecurityHeader_decodeBinary (e_mem env)) (\<lambda>a.
         dec_bind SequenceHeader_decodeBinary (\<lambda>s. dec_bind (NodeId_decodeBinary (e_mem env)) (\<lambda>t.
         dec_bind (UA_decodeBinary (e_mem env) UA_TYPES_OPENSECURECHANNELREQUEST) (\<lambda>v. dec_return (a, s, t, v)))))) c;
       if r \<noteq> UA_STATUSCODE_GOOD \<or> identifier_numeric typ \<noteq> 446 then do { srv1 \<leftarrow> close_conn srv k; Some (srv1, msg1) }
       else do {
         request \<leftarrow> open_request v;
         (result, p, st1) \<leftarrow> Service_OpenSecureChannel (e_mem env) (e_granted env) (e_new env) (e_now env) (srv_comm srv) k request;
         let srv1 = srv\<lparr>srv_comm := st1\<rparr>;
         connection1 \<leftarrow> conns st1 k;
         (case c_channel connection1 of
            None \<Rightarrow> do { srv2 \<leftarrow> close_conn srv1 k; Some (srv2, msg1) }
          | Some a \<Rightarrow> do {
              ch \<leftarrow> chans st1 a;
              let ch' = ch\<lparr>sequenceNumber := sequenceNumber ch + 1\<rparr>;
              srv2 \<leftarrow> send_opn env (set_chan srv1 (Some a) ch') k asymHeader (seqHeader\<lparr>seq_sequenceNumber := sequenceNumber ch'\<rparr>)
                (channelId (r_securityToken p)) (open_response (e_now env) request result p);
              Some (srv2, msg1) }) } } }"

text \<open>
  The part of \<open>processMSG\<close> behind the security header: the request of the given type at \<open>pos\<close>, for the channel \<open>ref\<close>.
\<close>

definition process_request ::
  "env \<Rightarrow> UA_Server \<Rightarrow> nat option \<Rightarrow> UA_UInt32 \<Rightarrow> nat \<Rightarrow> nat \<Rightarrow> UA_Byte list \<Rightarrow> nat \<Rightarrow> (UA_Server \<times> UA_Byte list) option" where
  "process_request env srv ref requestId reqType respType msg oldpos = do {
     (r, request, msg1, pos1) \<leftarrow> UA_decodeBinary (e_mem env) reqType (msg, oldpos);
     if r \<noteq> UA_STATUSCODE_GOOD then sendError env srv ref msg1 oldpos requestId r
     else do {
       (token, handle) \<leftarrow> request_header request;
       ch \<leftarrow> chan_of srv ref;
       found \<leftarrow> find_token (srv_comm srv) (sc_sessions ch) token;
       active \<leftarrow> (case found of None \<Rightarrow> Some True | Some s \<Rightarrow> do { se \<leftarrow> sess (srv_comm srv) s; Some (activated se) });
       if \<not> active \<and> reqType \<noteq> UA_TYPES_ACTIVATESESSIONREQUEST
       then sendError env srv ref msg1 pos1 requestId UA_STATUSCODE_BADSESSIONNOTACTIVATED
       else if found = None \<and> reqType > UA_TYPES_ACTIVATESESSIONREQUEST
       then sendError env srv ref msg1 pos1 requestId UA_STATUSCODE_BADSESSIONIDINVALID
       else do {
         st1 \<leftarrow> (case found of
                   None \<Rightarrow> Some (srv_comm srv)
                 | Some s \<Rightarrow> do { se \<leftarrow> sess (srv_comm srv) s; Some (put_sess s (UA_Session_updateLifetime (e_now env) se) (srv_comm srv)) });
         (response, st2) \<leftarrow> e_services env reqType st1 ref found request (init_response_header (e_now env) handle (UA_init respType));
         (r2, srv2) \<leftarrow> UA_SecureChannel_sendBinaryMessage env (srv\<lparr>srv_comm := st2\<rparr>) ref requestId response respType;
         if r2 \<noteq> UA_STATUSCODE_GOOD then sendError env srv2 ref msg1 oldpos requestId r2
         else Some (srv2, msg1) } } }"

definition processMSG :: "env \<Rightarrow> UA_Server \<Rightarrow> nat \<Rightarrow> cursor \<Rightarrow> (UA_Server \<times> UA_Byte list) option" where
  "processMSG env srv k c = do {
     (_, secureChannelId, c1) \<leftarrow> UInt32_decodeBinary c;
     (_, token, c2) \<leftarrow> UInt32_decodeBinary c1;
     (_, sequenceHeader, c3) \<leftarrow> SequenceHeader_decodeBinary c2;
     (r, requestTypeId, msg, pos) \<leftarrow> NodeId_decodeBinary (e_mem env) c3;
     if r \<noteq> UA_STATUSCODE_GOOD then Some (srv, msg)
     else do {
       connection \<leftarrow> conns (srv_comm srv) k;
       let ref = c_channel connection;
       let srv = srv\<lparr>anonymousChannel := UA_SecureChannel_init\<lparr>sc_connection := Some k\<rparr>\<rparr>;
       ch \<leftarrow> chan_of srv ref;
       if secureChannelId \<noteq> channelId (securityToken ch) then Some (srv, msg)
       else if token \<noteq> tokenId (securityToken ch) \<and> token \<noteq> tokenId (nextSecurityToken ch)
       then do { st1 \<leftarrow> Service_CloseSecureChannel (srv_comm srv) (channelId (securityToken ch)); Some (srv\<lparr>srv_comm := st1\<rparr>, msg) }
       else do {
         let srv1 = (if token \<noteq> tokenId (securityToken ch) then set_chan srv ref (UA_SecureChannel_revolveTokens ch) else srv);
         let requestId = seq_requestId sequenceHeader;
         (case ident requestTypeId of
            Numeric n \<Rightarrow>
              if namespaceIndex requestTypeId \<noteq> 0 then sendError env srv1 ref msg pos requestId UA_STATUSCODE_BADSERVICEUNSUPPORTED
              else (case getServicePointers n of
                None \<Rightarrow> sendError env srv1 ref msg pos requestId UA_STATUSCODE_BADSERVICEUNSUPPORTED
              | Some (reqType, respType) \<Rightarrow>
                  if ref = None \<and> reqType > UA_TYPES_OPENSECURECHANNELREQUEST
                  then sendError env srv1 ref msg pos requestId UA_STATUSCODE_BADSECURECHANNELIDINVALID
                  else process_request env srv1 ref requestId reqType respType msg pos)
          | _ \<Rightarrow> sendError env srv1 ref msg pos requestId UA_STATUSCODE_BADSERVICEUNSUPPORTED) } } }"

definition processCLO :: "UA_Server \<Rightarrow> nat \<Rightarrow> cursor \<Rightarrow> UA_Server option" where
  "processCLO srv k c = do {
     (r, secureChannelId, _) \<leftarrow> UInt32_decodeBinary c;
     connection \<leftarrow> conns (srv_comm srv) k;
     (case c_channel connection of
        None \<Rightarrow> Some srv
      | Some a \<Rightarrow> do {
          ch \<leftarrow> chans (srv_comm srv) a;
          if r \<noteq> UA_STATUSCODE_GOOD \<or> channelId (securityToken ch) \<noteq> secureChannelId then Some srv
          else do { st1 \<leftarrow> Service_CloseSecureChannel (srv_comm srv) secureChannelId; Some (srv\<lparr>srv_comm := st1\<rparr>) } }) }"

section \<open>The loop over the messages of a buffer\<close>

text \<open>One round: stop, or go on at the position after the announced size.\<close>

datatype round = Stop UA_Server | Next UA_Server "UA_Byte list" nat

definition process_round :: "env \<Rightarrow> UA_Server \<Rightarrow> nat \<Rightarrow> cursor \<Rightarrow> round option" where
  "process_round env srv k c = do {
     (r, header, msg, pos) \<leftarrow> TcpMessageHeader_decodeBinary c;
     if r \<noteq> UA_STATUSCODE_GOOD then do { srv1 \<leftarrow> close_conn srv k; Some (Stop srv1) }
     else do {
       let targetpos = pos - 8 + unat (messageSize header);
       let t = messageTypeAndFinal header AND 0xffffff;
       if t = UA_MESSAGETYPEANDFINAL_HELF AND 0xffffff then do { (srv1, msg1) \<leftarrow> processHEL env srv k (msg, pos); Some (Next srv1 msg1 targetpos) }
       else if t = UA_MESSAGETYPEANDFINAL_OPNF AND 0xffffff then do { (srv1, msg1) \<leftarrow> processOPN env srv k (msg, pos); Some (Next srv1 msg1 targetpos) }
       else if t = UA_MESSAGETYPEANDFINAL_MSGF AND 0xffffff then do {
         connection \<leftarrow> conns (srv_comm srv) k;
         if c_state connection \<noteq> UA_CONNECTION_ESTABLISHED then do { srv1 \<leftarrow> close_conn srv k; Some (Stop srv1) }
         else do { (srv1, msg1) \<leftarrow> processMSG env srv k (msg, pos); Some (Next srv1 msg1 targetpos) } }
       else if t = UA_MESSAGETYPEANDFINAL_CLOF AND 0xffffff then do {
         srv1 \<leftarrow> processCLO srv k (msg, pos); srv2 \<leftarrow> close_conn srv1 k; Some (Stop srv2) }
       else Some (Next srv msg targetpos) } }"

text \<open>The loop with a number of rounds; \<open>Running\<close> when they did not suffice.\<close>

datatype loop_result = Finished UA_Server | Fault | Running

primrec UA_Server_processBinaryMessage :: "nat \<Rightarrow> env \<Rightarrow> UA_Server \<Rightarrow> nat \<Rightarrow> cursor \<Rightarrow> loop_result" where
  "UA_Server_processBinaryMessage 0 env srv k c = Running"
| "UA_Server_processBinaryMessage (Suc n) env srv k c =
     (case process_round env srv k c of
        None \<Rightarrow> Fault
      | Some (Stop srv1) \<Rightarrow> Finished srv1
      | Some (Next srv1 msg1 pos1) \<Rightarrow>
          if length msg1 > pos1 then UA_Server_processBinaryMessage n env srv1 k (msg1, pos1) else Finished srv1)"

end
