(* ===== verification/Ua_Server_Theorems.thy ===== *)
theory Ua_Server_Theorems
  imports Ua_Server_Binary Ua_Structures_Theorems Ua_Channels_Theorems
begin

text \<open>The properties of the binary protocol server.\<close>

section \<open>The hello message\<close>

text \<open>A 32-bit integer is written, or refused without a change.\<close>

lemma UInt32_encode_total:
  "\<exists>r buf' off'. UInt32_encodeBinary w (buf, off) = Some (r, (buf', off')) \<and> length buf' = length buf"
  by (auto simp: UInt32_encodeBinary_def)

lemma enc_seq_total:
  assumes "\<And>buf off. \<exists>r buf' off'. f (buf, off) = Some (r, (buf', off')) \<and> length buf' = length buf"
    and "\<And>buf off. \<exists>r buf' off'. g (buf, off) = Some (r, (buf', off')) \<and> length buf' = length buf"
  shows "\<exists>r buf' off'. enc_seq f g (buf, off) = Some (r, (buf', off')) \<and> length buf' = length buf"
proof -
  obtain r1 b1 o1 where 1: "f (buf, off) = Some (r1, (b1, o1))" "length b1 = length buf" using assms(1) by blast
  obtain r2 b2 o2 where "g (b1, o1) = Some (r2, (b2, o2))" "length b2 = length b1" using assms(2) by blast
  with 1 show ?thesis by (auto simp: enc_seq_def)
qed

lemma header_encoders_total:
  "\<exists>r buf' off'. TcpMessageHeader_encodeBinary h (buf, off) = Some (r, (buf', off')) \<and> length buf' = length buf"
  "\<exists>r buf' off'. TcpAcknowledgeMessage_encodeBinary a (buf, off) = Some (r, (buf', off')) \<and> length buf' = length buf"
  unfolding TcpMessageHeader_encodeBinary_def TcpAcknowledgeMessage_encodeBinary_def
  by (intro enc_seq_total UInt32_encode_total)+

definition ser_ack :: "UA_ConnectionConfig \<Rightarrow> UA_Byte list" where
  "ser_ack a = (le_bytes 4 UA_MESSAGETYPEANDFINAL_ACKF @ le_bytes 4 (28 :: UA_UInt32)) @
     le_bytes 4 (protocolVersion a) @ le_bytes 4 (recvBufferSize a) @ le_bytes 4 (sendBufferSize a) @
     le_bytes 4 (maxMessageSize a) @ le_bytes 4 (maxChunkCount a)"

lemma encodes_ack:
  "encodes (enc_seq (TcpMessageHeader_encodeBinary \<lparr>messageTypeAndFinal = UA_MESSAGETYPEANDFINAL_ACKF, messageSize = 28\<rparr>)
     (TcpAcknowledgeMessage_encodeBinary a)) (ser_ack a)"
  unfolding TcpMessageHeader_encodeBinary_def TcpAcknowledgeMessage_encodeBinary_def ser_ack_def
  by (simp only: UA_TcpMessageHeader.simps) (intro encodes_seq int_enc TrueI)

text \<open>The configuration of the connection after a hello: both directions are limited by both sides.\<close>

definition negotiated :: "UA_ConnectionConfig \<Rightarrow> UA_ConnectionConfig \<Rightarrow> UA_ConnectionConfig" where
  "negotiated conf hello = conf\<lparr>sendBufferSize := min (sendBufferSize conf) (recvBufferSize hello),
     recvBufferSize := min (recvBufferSize conf) (sendBufferSize hello)\<rparr>"


text \<open>
  A hello message that announces a receive buffer of less than 28 bytes makes the server
  send 28 bytes from a smaller buffer: memory behind the buffer is read and would be sent to the client.
\<close>

theorem hello_overread:
  assumes conn: "conns (srv_comm srv) k = Some connection"
    and hello: "TcpHelloMessage_decodeBinary (e_mem env) c = Some (UA_STATUSCODE_GOOD, hello, (msg, pos))"
    and size: "unat (recvBufferSize hello) < 28" "e_mem env (unat (recvBufferSize hello))"
  shows "processHEL env srv k c = None"
proof -
  let ?n = "unat (recvBufferSize hello)"
  have "\<exists>b2. (do { (_, buf1, pos1) \<leftarrow> TcpMessageHeader_encodeBinary h (replicate ?n 0, 0);
      (_, buf2, _) \<leftarrow> TcpAcknowledgeMessage_encodeBinary a (buf1, pos1); (_, srv2) \<leftarrow> socket_write env srv' k 28 buf2; Some (srv2, msg) }) = None" for h a srv'
  proof -
    obtain r1 b1 o1 where 1: "TcpMessageHeader_encodeBinary h (replicate ?n 0, 0) = Some (r1, (b1, o1))" "length b1 = ?n"
      using header_encoders_total(1) [of h "replicate ?n 0" 0] by auto
    obtain r2 b2 o2 where 2: "TcpAcknowledgeMessage_encodeBinary a (b1, o1) = Some (r2, (b2, o2))" "length b2 = ?n"
      using header_encoders_total(2) [of a b1 o1] 1(2) by auto
    show ?thesis using 1 2 size(1) by (simp add: socket_write_def)
  qed
  then show ?thesis using conn hello size(2) by (simp add: processHEL_def Let_def getSendBuffer_def)
qed

text \<open>A server with one connection and no channel.\<close>

definition example_comm :: "UA_Connection \<Rightarrow> comm" where
  "example_comm connection = \<lparr>conns = (\<lambda>k. if k = 0 then Some connection else None), chans = (\<lambda>_. None), sess = (\<lambda>_. None),
     secureChannelManager = UA_SecureChannelManager_init 10 1000 1 1, sessionManager = UA_SessionManager_init 10 1000 1\<rparr>"

definition example_server :: "UA_ConnectionState \<Rightarrow> UA_Server" where
  "example_server state = \<lparr>srv_comm = example_comm (UA_Connection_init\<lparr>c_state := state\<rparr>), anonymousChannel = UA_SecureChannel_init, outbox = []\<rparr>"

definition example_env :: "(nat \<Rightarrow> service) \<Rightarrow> env" where
  "example_env services = \<lparr>e_mem = (\<lambda>_. True), e_now = 0, e_granted = True, e_new = 1, e_sends = (\<lambda>_. True), e_stack = Suc (Suc (Suc 0)), e_services = services\<rparr>"

definition example_hello :: "UA_UInt32 \<Rightarrow> UA_ConnectionConfig" where
  "example_hello n = \<lparr>protocolVersion = 0, sendBufferSize = 8192, recvBufferSize = n, maxMessageSize = 0, maxChunkCount = 0\<rparr>"

definition ser_hello :: "UA_ConnectionConfig \<Rightarrow> UA_String \<Rightarrow> UA_Byte list" where
  "ser_hello h url = le_bytes 4 (protocolVersion h) @ le_bytes 4 (recvBufferSize h) @ le_bytes 4 (sendBufferSize h) @
     le_bytes 4 (maxMessageSize h) @ le_bytes 4 (maxChunkCount h) @ ser_String url"

lemma decodes_hello:
  assumes "ok_String url" shows "decodes (TcpHelloMessage_decodeBinary (\<lambda>_. True)) (ser_hello h url) h"
proof -
  have s: "decodes (String_decodeBinary (\<lambda>_. True)) (ser_String url) (canon_array url)" using assms by (rule decodes_String) simp
  have "decodes (TcpHelloMessage_decodeBinary (\<lambda>_. True)) (ser_hello h url) \<lparr>protocolVersion = protocolVersion h, sendBufferSize = sendBufferSize h,
      recvBufferSize = recvBufferSize h, maxMessageSize = maxMessageSize h, maxChunkCount = maxChunkCount h\<rparr>"
    unfolding TcpHelloMessage_decodeBinary_def ser_hello_def
    by (rule decodes_bind [OF int_dec(3)] decodes_bind_return [OF s])+
  then show ?thesis by (cases h) simp
qed

lemma example_hello_decoded:
  "TcpHelloMessage_decodeBinary (e_mem (example_env services)) (ser_hello (example_hello n) Null_ptr, 0) =
     Some (UA_STATUSCODE_GOOD, example_hello n, (ser_hello (example_hello n) Null_ptr, 24))"
  using decodesD [OF decodes_hello, of Null_ptr 0 "[]" "example_hello n" "[]"]
  by (simp add: example_env_def ok_String_def ser_hello_def ser_String_def)


theorem hello_overread_witness:
  "processHEL (example_env (\<lambda>_ _ _ _ _ _. None)) (example_server UA_CONNECTION_OPENING) 0 (ser_hello (example_hello 10) Null_ptr, 0) = None"
  by (rule hello_overread [OF _ example_hello_decoded])
    (simp_all add: example_server_def example_comm_def example_env_def example_hello_def)

section \<open>Sending a response\<close>

lemma unat_of_nat32: "n < 2 ^ 32 \<Longrightarrow> unat (word_of_nat n :: UA_UInt32) = n"
  by (simp add: unat_of_nat)

definition ser_response :: "UA_SecureChannel \<Rightarrow> UA_UInt32 \<Rightarrow> UA_Byte list \<Rightarrow> UA_Byte list" where
  "ser_response ch requestId bs =
     ((le_bytes 4 UA_MESSAGETYPEANDFINAL_MSGF @ le_bytes 4 (word_of_nat (24 + length bs) :: UA_UInt32)) @ le_bytes 4 (channelId (securityToken ch))) @
     le_bytes 4 (tokenId (securityToken ch)) @ le_bytes 4 (sequenceNumber ch + 1) @ le_bytes 4 requestId @ bs"

lemma encodes_response_header:
  "encodes (enc_seq (SecureConversationMessageHeader_encodeBinary \<lparr>messageTypeAndFinal = UA_MESSAGETYPEANDFINAL_MSGF, messageSize = n\<rparr> ci)
      (enc_seq (UInt32_encodeBinary t) (SequenceHeader_encodeBinary \<lparr>seq_sequenceNumber = q, seq_requestId = i\<rparr>)))
    (((le_bytes 4 UA_MESSAGETYPEANDFINAL_MSGF @ le_bytes 4 n) @ le_bytes 4 ci) @ le_bytes 4 t @ le_bytes 4 q @ le_bytes 4 i)"
  unfolding SecureConversationMessageHeader_encodeBinary_def TcpMessageHeader_encodeBinary_def SequenceHeader_encodeBinary_def
    UA_TcpMessageHeader.simps UA_SequenceHeader.simps
  by (intro encodes_seq int_enc TrueI)


definition example_fault :: ua_value where
  "example_fault = VStruct [response_header 0 7 UA_STATUSCODE_BADSERVICEUNSUPPORTED]"

lemma fault_entries:
  "members (UA_TYPES ! UA_TYPES_SERVICEFAULT) = [(UA_TYPES_RESPONSEHEADER, False)]"
  "members (UA_TYPES ! UA_TYPES_RESPONSEHEADER) = [(UA_TYPES_DATETIME, False), (UA_TYPES_UINT32, False), (UA_TYPES_STATUSCODE, False),
     (UA_TYPES_DIAGNOSTICINFO, False), (UA_TYPES_STRING, True), (UA_TYPES_EXTENSIONOBJECT, False)]"
  "\<not> builtin (UA_TYPES ! UA_TYPES_SERVICEFAULT)" "jump_index UA_TYPES_SERVICEFAULT = 25" "jump_index UA_TYPES_RESPONSEHEADER = 25"
  "jump_index UA_TYPES_STATUSCODE = 18" "jump_index UA_TYPES_DIAGNOSTICINFO = 24" "memSize (UA_TYPES ! UA_TYPES_STRING) = 16"
  "typeId (UA_TYPES ! UA_TYPES_SERVICEFAULT) = 395"
  by code_simp+

lemma example_fault_ok:
  "ok_value (Suc (Suc (Suc (Suc 0)))) UA_TYPES_SERVICEFAULT example_fault"
  "length (ser_value (Suc (Suc (Suc (Suc 0)))) UA_TYPES_SERVICEFAULT example_fault) \<le> 100"
  by (simp_all add: example_fault_def response_header_def VExtensionObject_zero_def DiagnosticInfo_zero_def namespace0_id_def UA_NODEID_NULL_def
      fault_entries example_eval ser_di_members_def)


section \<open>Who may call a service\<close>

text \<open>
  \<open>authorised\<close>: beyond the discovery services the connection needs a secure channel; beyond opening a session the
  request needs a session, and a session is only used when it is attached to this very channel, its
  authentication token is the one of the request, and it is activated (or is being activated).
\<close>

definition authorised :: "nat \<Rightarrow> comm \<Rightarrow> nat option \<Rightarrow> nat option \<Rightarrow> ua_value \<Rightarrow> bool" where
  "authorised i st ref found request \<longleftrightarrow>
     (i > UA_TYPES_OPENSECURECHANNELREQUEST \<longrightarrow> ref \<noteq> None) \<and> (i > UA_TYPES_ACTIVATESESSIONREQUEST \<longrightarrow> found \<noteq> None) \<and>
     (\<forall>s. found = Some s \<longrightarrow> (\<exists>a ch se token handle. ref = Some a \<and> chans st a = Some ch \<and> s \<in> set (sc_sessions ch) \<and>
        sess st s = Some se \<and> (activated se \<or> i = UA_TYPES_ACTIVATESESSIONREQUEST) \<and>
        request_header request = Some (token, handle) \<and> UA_NodeId_equal (authenticationToken se) token))"

lemma find_token_sound:
  "find_token st ss token = Some (Some s) \<Longrightarrow> s \<in> set ss \<and> (\<exists>se. sess st s = Some se \<and> UA_NodeId_equal (authenticationToken se) token)"
  by (induction ss) (auto simp: bind_eq_Some_conv split: if_splits)

lemma env_services:
  "e_mem (env\<lparr>e_services := f\<rparr>) = e_mem env" "e_now (env\<lparr>e_services := f\<rparr>) = e_now env" "e_stack (env\<lparr>e_services := f\<rparr>) = e_stack env"
  "e_sends (env\<lparr>e_services := f\<rparr>) = e_sends env" "e_services (env\<lparr>e_services := f\<rparr>) = f"
  by simp_all

lemma send_services:
  "UA_SecureChannel_sendBinaryMessage (env\<lparr>e_services := f\<rparr>) = UA_SecureChannel_sendBinaryMessage env"
  "sendError (env\<lparr>e_services := f\<rparr>) = sendError env"
proof -
  have w: "socket_write (env\<lparr>e_services := f\<rparr>) = socket_write env" by (intro ext) (simp add: socket_write_def)
  have b: "getSendBuffer (env\<lparr>e_services := f\<rparr>) = getSendBuffer env" by (intro ext) (simp add: getSendBuffer_def)
  show s: "UA_SecureChannel_sendBinaryMessage (env\<lparr>e_services := f\<rparr>) = UA_SecureChannel_sendBinaryMessage env"
    by (intro ext) (unfold UA_SecureChannel_sendBinaryMessage_def w b env_services, rule refl)
  show "sendError (env\<lparr>e_services := f\<rparr>) = sendError env" by (intro ext) (unfold sendError_def s env_services, rule refl)
qed

lemma request_authorised:
  assumes "request_header request = Some (token, handle)" "chan_of srv ref = Some ch" "find_token (srv_comm srv) (sc_sessions ch) token = Some found"
    and anon: "sc_sessions (anonymousChannel srv) = []"
    and act: "case found of None \<Rightarrow> True | Some s \<Rightarrow> \<exists>se. sess (srv_comm srv) s = Some se \<and> (activated se \<or> i = UA_TYPES_ACTIVATESESSIONREQUEST)"
    and ref: "i > UA_TYPES_OPENSECURECHANNELREQUEST \<longrightarrow> ref \<noteq> None" and found: "i > UA_TYPES_ACTIVATESESSIONREQUEST \<longrightarrow> found \<noteq> None"
    and st1: "(case found of None \<Rightarrow> Some (srv_comm srv)
                 | Some s \<Rightarrow> do { se \<leftarrow> sess (srv_comm srv) s; Some (put_sess s (UA_Session_updateLifetime now se) (srv_comm srv)) }) = Some st1"
  shows "authorised i st1 ref found request"
proof (cases found)
  case None
  then show ?thesis using ref found by (simp add: authorised_def)
next
  case (Some s)
  from find_token_sound [OF assms(3) [unfolded Some]] obtain se where
    se: "s \<in> set (sc_sessions ch)" "sess (srv_comm srv) s = Some se" "UA_NodeId_equal (authenticationToken se) token" by blast
  obtain a where a: "ref = Some a" "chans (srv_comm srv) a = Some ch"
    using assms(2) anon se(1) by (auto simp: chan_of_def split: option.splits)
  have "st1 = put_sess s (UA_Session_updateLifetime now se) (srv_comm srv)" using st1 Some se(2) by simp
  then show ?thesis using a se act assms(1) ref found Some by (auto simp: authorised_def UA_Session_updateLifetime_def)
qed

lemma process_request_services:
  assumes same: "\<And>i st ref found request response. authorised i st ref found request \<Longrightarrow>
      services i st ref found request response = services' i st ref found request response"
    and anon: "sc_sessions (anonymousChannel srv) = []" and ref: "reqType > UA_TYPES_OPENSECURECHANNELREQUEST \<longrightarrow> ref \<noteq> None"
  shows "process_request (env\<lparr>e_services := services\<rparr>) srv ref requestId reqType respType msg pos =
    process_request (env\<lparr>e_services := services'\<rparr>) srv ref requestId reqType respType msg pos"
proof -
  have none: "services reqType (srv_comm srv) ref None request response = services' reqType (srv_comm srv) ref None request response"
    if "request_header request = Some (token, handle)" "chan_of srv ref = Some ch" "find_token (srv_comm srv) (sc_sessions ch) token = Some None"
      "\<not> reqType > UA_TYPES_ACTIVATESESSIONREQUEST" for request token handle ch response
    using that by (intro same request_authorised [OF that(1-3) anon _ ref]) simp_all
  have some: "services reqType (put_sess s (UA_Session_updateLifetime (e_now env) se) (srv_comm srv)) ref (Some s) request response =
      services' reqType (put_sess s (UA_Session_updateLifetime (e_now env) se) (srv_comm srv)) ref (Some s) request response"
    if "request_header request = Some (token, handle)" "chan_of srv ref = Some ch" "find_token (srv_comm srv) (sc_sessions ch) token = Some (Some s)"
      "sess (srv_comm srv) s = Some se" "activated se \<or> reqType = UA_TYPES_ACTIVATESESSIONREQUEST" for request token handle ch s se response
    using that by (intro same request_authorised [OF that(1-3) anon _ ref]) simp_all
  note eq = process_request_def send_services env_services
  show ?thesis
  proof (cases "UA_decodeBinary (e_mem env) reqType (msg, pos)")
    case None
    then show ?thesis unfolding eq by simp
  next
    case dec: (Some x)
    obtain r request msg1 pos1 where x: "x = (r, request, msg1, pos1)" by (cases x) auto
    show ?thesis
    proof (cases "r = UA_STATUSCODE_GOOD")
      case False
      then show ?thesis using dec x unfolding eq by simp
    next
      case r: True
      show ?thesis
      proof (cases "request_header request")
        case None
        then show ?thesis using dec x r unfolding eq by simp
      next
        case h: (Some h)
        obtain token handle where head: "request_header request = Some (token, handle)" using h by (cases h) auto
        show ?thesis
        proof (cases "chan_of srv ref")
          case None
          then show ?thesis using dec x r head unfolding eq by simp
        next
          case ch: (Some ch)
          show ?thesis
          proof (cases "find_token (srv_comm srv) (sc_sessions ch) token")
            case None
            then show ?thesis using dec x r head ch unfolding eq by simp
          next
            case found: (Some found)
            show ?thesis
            proof (cases found)
              case None
              then show ?thesis using dec x r head ch found none [OF head ch] unfolding eq by simp
            next
              case s: (Some s)
              then obtain se where se: "sess (srv_comm srv) s = Some se" using find_token_sound found by blast
              from some [OF head ch] found s se have "activated se \<or> reqType = UA_TYPES_ACTIVATESESSIONREQUEST \<Longrightarrow>
                  services reqType (put_sess s (UA_Session_updateLifetime (e_now env) se) (srv_comm srv)) ref (Some s) request =
                  services' reqType (put_sess s (UA_Session_updateLifetime (e_now env) se) (srv_comm srv)) ref (Some s) request"
                by (intro ext) simp
              with se show ?thesis using dec x r head ch found s unfolding eq
                by (cases "activated se"; cases "reqType = UA_TYPES_ACTIVATESESSIONREQUEST") simp_all
            qed
          qed
        qed
      qed
    qed
  qed
qed

text \<open>
  C16: \<open>processMSG\<close> calls a service only for an authorised request: two tables of services that agree on the
  authorised calls cannot be told apart by any message, on any state of the server. So without a
  secure channel only the discovery services run, without an activated session that belongs to the channel and whose
  token the request carries only the services that open one.
\<close>

theorem services_need_session:
  assumes "\<And>i st ref found request response. authorised i st ref found request \<Longrightarrow>
      services i st ref found request response = services' i st ref found request response"
  shows "processMSG (env\<lparr>e_services := services\<rparr>) srv k c = processMSG (env\<lparr>e_services := services'\<rparr>) srv k c"
proof -
  have anon: "sc_sessions (anonymousChannel (set_chan (srv\<lparr>anonymousChannel := UA_SecureChannel_init\<lparr>sc_connection := Some k\<rparr>\<rparr>) ref (UA_SecureChannel_revolveTokens ch))) = []"
    if "chan_of (srv\<lparr>anonymousChannel := UA_SecureChannel_init\<lparr>sc_connection := Some k\<rparr>\<rparr>) ref = Some ch" for ref ch
    using that by (auto simp: set_chan_def chan_of_def UA_SecureChannel_init_def UA_SecureChannel_revolveTokens_def split: option.splits)
  have anon0: "sc_sessions (anonymousChannel (srv\<lparr>anonymousChannel := UA_SecureChannel_init\<lparr>sc_connection := Some k\<rparr>\<rparr>)) = []"
    by (simp add: UA_SecureChannel_init_def)
  show ?thesis
    unfolding processMSG_def send_services env_services Let_def
    by (intro Option.bind_cong refl)
      (auto intro!: Option.bind_cong process_request_services assms anon anon0 split: prod.splits option.splits node_identifier.splits)
qed

text \<open>A browse request without channel.\<close>

definition example_request :: "UA_Byte list" where
  "example_request = [77, 83, 71, 70, 60, 0, 0, 0] @ replicate 16 0 @ [1, 0, 15, 2] @ replicate 32 0"

theorem services_need_session_witness:
  "processMSG ((example_env (\<lambda>_ _ _ _ _ _. None))\<lparr>e_services := (\<lambda>i st ref found request response. Some (response, st))\<rparr>) (example_server UA_CONNECTION_ESTABLISHED) 0 (example_request, 8) =
   processMSG ((example_env (\<lambda>_ _ _ _ _ _. None))\<lparr>e_services := (\<lambda>i st ref found request response.
     if ref = None \<and> i > UA_TYPES_OPENSECURECHANNELREQUEST \<or> found = None \<and> i > UA_TYPES_ACTIVATESESSIONREQUEST then None else Some (response, st))\<rparr>)
     (example_server UA_CONNECTION_ESTABLISHED) 0 (example_request, 8)"
  by (rule services_need_session) (auto simp: authorised_def)

section \<open>A message that stops the server\<close>

text \<open>
  A request of an unknown service whose request header ends in an extension object of the type
  \<open>ExpandedNodeId\<close>, and an acknowledge message of 64 bytes behind it. The extension object has no room for
  its length and its content: both are read from the header of the next message.
\<close>

definition hang_message :: "UA_Byte list" where
  "hang_message = [77, 83, 71, 70, 55, 0, 0, 0, 0, 0, 0, 0, 0, 0, 0, 0, 0, 0, 0, 0, 0, 0, 0, 0,
     0, 0, 0, 0, 0, 0, 0, 0, 0, 0, 0, 0, 0, 0, 0, 0, 0, 0, 0, 0, 255, 255, 255, 255, 0, 0, 0, 0, 0, 20, 1]"

definition hang_follower :: "UA_Byte \<Rightarrow> UA_Byte list \<Rightarrow> UA_Byte list" where
  "hang_follower s rest = [65, 67, 75, 70, s, 0, 0, 0] @ rest"

lemma hang_length: "length hang_message = 55" "length (hang_follower s rest) = 8 + length rest"
  by (simp_all add: hang_message_def hang_follower_def)

lemma ExpandedNodeId_known: "findDataType \<lparr>namespaceIndex = 0, ident = Numeric 18\<rparr> = Some 17" by code_simp

lemma no_service_0: "getServicePointers 0 = None" by code_simp

lemma ExpandedNodeId_entry: "jump_index 17 = 17" "memSize (UA_TYPES ! 17) = 48" by code_simp+

lemma hang_header:
  assumes "4 \<le> length rest"
  shows "\<exists>r v pos. UA_decodeBinaryNoInit (UA_dec (\<lambda>_. True) (Suc (Suc n))) (\<lambda>_. True) UA_TYPES_REQUESTHEADER
    (hang_message @ hang_follower 64 rest, 26) = Some (r, v, (hang_message @ hang_follower 0 rest, pos)) \<and> r \<noteq> UA_STATUSCODE_GOOD"
  using assms
  by (simp add: UA_decodeBinaryNoInit_def example_entries example_indices dec_map_def dec_cleanup_def dec_bind_def dec_return_def
   decodeBinaryJumpTable_def NodeId_decodeBinary_def dec_guard_def codec_defs hang_message_def hang_follower_def tag_defs String_decodeBinary_def Int32_decodeBinary_def
   ExtensionObject_decodeBinary_def UA_ENCODINGOFFSET_BINARY_def ExpandedNodeId_known ExpandedNodeId_entry ExpandedNodeId_decodeBinary_def dec_when_def)

lemma hang_round1:
  assumes conn: "conns (srv_comm srv) k = Some connection" "c_state connection = UA_CONNECTION_ESTABLISHED" "c_channel connection = None"
    and mem: "e_mem env = (\<lambda>_. True)" and rest: "4 \<le> length rest"
  shows "process_round env srv k (hang_message @ hang_follower 64 rest, 0) =
     Some (Next (srv\<lparr>anonymousChannel := UA_SecureChannel_init\<lparr>sc_connection := Some k\<rparr>\<rparr>) (hang_message @ hang_follower 0 rest) 55)"
proof -
  let ?m = "hang_message @ hang_follower 64 rest" and ?srv = "srv\<lparr>anonymousChannel := UA_SecureChannel_init\<lparr>sc_connection := Some k\<rparr>\<rparr>"
  have "\<exists>n. enough_depth (length ?m - 26) = Suc (Suc n)"
    by (rule exI [of _ "enough_depth (length ?m - 26) - 2"]) (simp add: enough_depth_def UA_TYPES_COUNT_def)
  then obtain n where n: "enough_depth (length ?m - 26) = Suc (Suc n)" ..
  obtain r v pos where "UA_decodeBinary (e_mem env) UA_TYPES_REQUESTHEADER (?m, 26) = Some (r, v, (hang_message @ hang_follower 0 rest, pos))" "r \<noteq> UA_STATUSCODE_GOOD"
    using hang_header [OF rest, of n] unfolding UA_decodeBinary_def mem split n by blast
  then have err: "sendError env srv' ref ?m 26 i e = Some (srv', hang_message @ hang_follower 0 rest)" for srv' ref i e by (simp add: sendError_def)
  have head: "UInt32_decodeBinary (?m, 0) = Some (UA_STATUSCODE_GOOD, UA_MESSAGETYPEANDFINAL_MSGF, (?m, 4))"
    "UInt32_decodeBinary (?m, 4) = Some (UA_STATUSCODE_GOOD, 55, (?m, 8))"
    "UInt32_decodeBinary (?m, 8) = Some (UA_STATUSCODE_GOOD, 0, (?m, 12))"
    "UInt32_decodeBinary (?m, 12) = Some (UA_STATUSCODE_GOOD, 0, (?m, 16))"
    "UInt32_decodeBinary (?m, 16) = Some (UA_STATUSCODE_GOOD, 0, (?m, 20))"
    "UInt32_decodeBinary (?m, 20) = Some (UA_STATUSCODE_GOOD, 0, (?m, 24))"
    "NodeId_decodeBinary (e_mem env) (?m, 24) = Some (UA_STATUSCODE_GOOD, \<lparr>namespaceIndex = 0, ident = Numeric 0\<rparr>, (?m, 26))"
    by (simp_all add: codec_defs hang_message_def hang_follower_def tag_defs NodeId_decodeBinary_def dec_guard_def dec_cleanup_def dec_bind_def dec_return_def)
  have "processMSG env srv k (?m, 8) = Some (?srv, hang_message @ hang_follower 0 rest)"
    using conn by (simp add: processMSG_def SequenceHeader_decodeBinary_def dec_bind_def dec_return_def head err chan_of_def UA_SecureChannel_init_def
      UA_ChannelSecurityToken_init_def no_service_0 Let_def)
  then show ?thesis using conn
    by (simp add: process_round_def TcpMessageHeader_decodeBinary_def dec_bind_def dec_return_def head tag_defs)
qed

lemma hang_round2:
  "process_round env srv k (hang_message @ hang_follower 0 rest, 55) = Some (Next srv (hang_message @ hang_follower 0 rest) 55)"
proof -
  let ?m = "hang_message @ hang_follower 0 rest"
  have "UInt32_decodeBinary (?m, 55) = Some (UA_STATUSCODE_GOOD, UA_MESSAGETYPEANDFINAL_ACKF, (?m, 59))"
    "UInt32_decodeBinary (?m, 59) = Some (UA_STATUSCODE_GOOD, 0, (?m, 63))"
    by (simp_all add: codec_defs hang_message_def hang_follower_def tag_defs)
  then show ?thesis by (simp add: process_round_def TcpMessageHeader_decodeBinary_def dec_bind_def dec_return_def tag_defs)
qed
text \<open>
  C19: two messages that are accepted when the buffer is cut into messages keep the server
  busy forever, on a connection without secure channel: the decoder of the first one clears the flag bits of an
  expanded node id in the buffer, which are the size of the second one, and the loop does not move on.
\<close>

theorem crafted_message_hangs:
  assumes conn: "conns (srv_comm srv) k = Some connection" "c_state connection = UA_CONNECTION_ESTABLISHED" "c_channel connection = None"
      "incompleteMessage connection = Null_ptr" "64 \<le> sint (maxMessageSize (localConf connection))"
    and mem: "e_mem env = (\<lambda>_. True)" and rest: "length rest = 56"
  shows "UA_Connection_completeMessages (e_mem env) connection (Block (hang_message @ hang_follower 64 rest)) =
      (UA_STATUSCODE_GOOD, connection, Block (hang_message @ hang_follower 64 rest), False) \<and>
    (\<forall>n. UA_Server_processBinaryMessage n env srv k (hang_message @ hang_follower 64 rest, 0) = Running)"
proof (intro conjI allI)
  let ?m = "hang_message @ hang_follower 64 rest" and ?max = "maxMessageSize (localConf connection)"
  have "is_message ?max hang_message" "is_message ?max (hang_follower 64 rest)"
    using conn(5) rest by (simp_all add: is_message_def valid_header_def declared_size_def known_type_def hang_message_def hang_follower_def)
  then have "scan_messages ?m ?max 0 = (length ?m, None)"
    using scan_stream [of "[hang_message, hang_follower 64 rest]" ?max "[]" "[]"] by (simp add: incomplete_def)
  moreover have "length ?m = 119" using rest by (simp add: hang_message_def hang_follower_def)
  ultimately show "UA_Connection_completeMessages (e_mem env) connection (Block ?m) = (UA_STATUSCODE_GOOD, connection, Block ?m, False)"
    using conn(4) by (simp add: UA_Connection_completeMessages_def del: length_append)
next
  fix n
  have loop: "UA_Server_processBinaryMessage n env srv' k (hang_message @ hang_follower 0 rest, 55) = Running" for n srv'
    by (induction n) (simp_all add: hang_round2 hang_length)
  show "UA_Server_processBinaryMessage n env srv k (hang_message @ hang_follower 64 rest, 0) = Running"
    using rest by (cases n) (simp_all add: hang_round1 [OF conn(1-3) mem] loop hang_length)
qed


theorem crafted_message_hangs_witness:
  "UA_Server_processBinaryMessage 1000 (example_env (\<lambda>_ _ _ _ _ _. None)) (example_server UA_CONNECTION_ESTABLISHED) 0 (hang_message @ hang_follower 64 (replicate 56 0), 0) = Running"
  using crafted_message_hangs [of "example_server UA_CONNECTION_ESTABLISHED" 0 "UA_Connection_init\<lparr>c_state := UA_CONNECTION_ESTABLISHED\<rparr>"
    "example_env (\<lambda>_ _ _ _ _ _. None)" "replicate 56 0"]
  by (simp add: example_server_def example_comm_def example_env_def UA_Connection_init_def UA_ConnectionConfig_standard_def)

section \<open>Termination of the loop\<close>

text \<open>The positions that the loop over a buffer reaches, with the state of the server and of the buffer.\<close>

inductive rounds :: "env \<Rightarrow> nat \<Rightarrow> UA_Server \<times> UA_Byte list \<times> nat \<Rightarrow> UA_Server \<times> UA_Byte list \<times> nat \<Rightarrow> bool" for env k start where
  rounds_start: "rounds env k start start"
| rounds_next: "rounds env k start (srv, msg, pos) \<Longrightarrow> process_round env srv k (msg, pos) = Some (Next srv1 msg1 pos1) \<Longrightarrow>
     pos1 < length msg1 \<Longrightarrow> rounds env k start (srv1, msg1, pos1)"

lemma rounds_trans: "rounds env k b c \<Longrightarrow> rounds env k a b \<Longrightarrow> rounds env k a c"
  by (induction rule: rounds.induct) (auto intro: rounds.intros)

definition announced_size :: "UA_Byte list \<Rightarrow> nat \<Rightarrow> UA_UInt32" where
  "announced_size msg pos = le_word (take 4 (drop (pos + 4) msg))"

lemma header_decoders_safe:
  "safe_decoder TcpMessageHeader_decodeBinary" "safe_decoder SequenceHeader_decodeBinary" "safe_decoder (TcpHelloMessage_decodeBinary mem)"
  "safe_decoder (AsymmetricAlgorithmSecurityHeader_decodeBinary mem)"
  unfolding TcpMessageHeader_decodeBinary_def SequenceHeader_decodeBinary_def TcpHelloMessage_decodeBinary_def AsymmetricAlgorithmSecurityHeader_decodeBinary_def
    ByteString_decodeBinary_def
  by (intro safe_bind safe_return int_safe String_safe.safe_decoder_axioms)+

lemma keeps_length:
  assumes "safe_decoder d" "d c = Some (r, v, c')" "snd c \<le> length (fst c)"
  shows "length (fst c') = length (fst c) \<and> snd c \<le> snd c' \<and> snd c' \<le> length (fst c')"
  using safe_decoder.stays_inside [OF assms(1), of "snd c" "fst c" r v "fst c'" "snd c'"] assms(2,3) by simp

lemma sendError_keeps:
  assumes "sendError env srv ref msg pos i e = Some (srv', msg')" "pos \<le> length msg" shows "length msg' = length msg"
  using assms keeps_length [OF UA_decodeBinary_safe, of UA_TYPES_REQUESTHEADER "e_mem env" "(msg, pos)"]
  by (auto simp: sendError_def bind_eq_Some_conv UA_TYPES_COUNT_def split: if_splits)

text \<open>A computation that, if it returns, returns the given buffer.\<close>

definition gives :: "UA_Byte list \<Rightarrow> ('a \<times> UA_Byte list) option \<Rightarrow> bool" where
  "gives m x \<longleftrightarrow> (\<forall>a b. x = Some (a, b) \<longrightarrow> b = m)"

lemma gives_intros:
  "gives m (Some (a, m))" "(\<And>y. gives m (f y)) \<Longrightarrow> gives m (Option.bind z f)" "gives m u \<Longrightarrow> gives m v \<Longrightarrow> gives m (if c then u else v)"
  "(\<And>a b. gives m (g a b)) \<Longrightarrow> gives m (case p of (a, b) \<Rightarrow> g a b)"
  by (auto simp: gives_def bind_eq_Some_conv split: prod.splits)

lemma processHEL_keeps:
  assumes "processHEL env srv k (msg, pos) = Some (srv', msg')" "pos \<le> length msg" shows "length msg' = length msg"
proof -
  from assms(1) obtain r hello m p where d: "TcpHelloMessage_decodeBinary (e_mem env) (msg, pos) = Some (r, hello, (m, p))"
    by (auto simp: processHEL_def bind_eq_Some_conv)
  have "gives m (processHEL env srv k (msg, pos))"
    unfolding processHEL_def d Let_def bind.simps split by (intro gives_intros)
  with assms(1) have "msg' = m" by (simp add: gives_def)
  then show ?thesis using keeps_length [OF header_decoders_safe(3) d] assms(2) by simp
qed

lemma open_decoder_safe:
  "safe_decoder (dec_bind UInt32_decodeBinary (\<lambda>_. dec_bind (AsymmetricAlgorithmSecurityHeader_decodeBinary mem) (\<lambda>a.
     dec_bind SequenceHeader_decodeBinary (\<lambda>s. dec_bind (NodeId_decodeBinary mem) (\<lambda>t.
     dec_bind (UA_decodeBinary mem UA_TYPES_OPENSECURECHANNELREQUEST) (\<lambda>v. dec_return (a, s, t, v)))))))"
  by (intro safe_bind safe_return int_safe header_decoders_safe NodeId_safe.safe_decoder_axioms UA_decodeBinary_safe) (simp add: UA_TYPES_COUNT_def)

lemma processOPN_keeps:
  assumes "processOPN env srv k (msg, pos) = Some (srv', msg')" "pos \<le> length msg" shows "length msg' = length msg"
  using assms keeps_length [OF open_decoder_safe, of "e_mem env" "(msg, pos)"]
  by (auto simp: processOPN_def bind_eq_Some_conv Let_def split: if_splits prod.splits option.splits)

lemma process_request_keeps:
  assumes "process_request env srv ref i reqType respType msg pos = Some (srv', msg')" "pos \<le> length msg" "reqType < UA_TYPES_COUNT"
  shows "length msg' = length msg"
  using assms keeps_length [OF UA_decodeBinary_safe [OF assms(3)], of "e_mem env" "(msg, pos)"]
  by (auto simp: process_request_def bind_eq_Some_conv split: if_splits dest: sendError_keeps)

lemma service_types: "getServicePointers n = Some (reqType, respType) \<Longrightarrow> reqType < UA_TYPES_COUNT"
  by (auto simp: getServicePointers_def Let_def UA_TYPES_COUNT_def split: if_splits)

lemma processMSG_keeps:
  assumes "processMSG env srv k (msg, pos) = Some (srv', msg')" "pos \<le> length msg" shows "length msg' = length msg"
proof -
  from assms(1) obtain r1 ci c1 r2 t c2 r3 sh c3 r4 ty m4 p4 where
    d: "UInt32_decodeBinary (msg, pos) = Some (r1, ci, c1)" "UInt32_decodeBinary c1 = Some (r2, t, c2)"
      "SequenceHeader_decodeBinary c2 = Some (r3, sh, c3)" "NodeId_decodeBinary (e_mem env) c3 = Some (r4, ty, (m4, p4))"
    by (auto simp: processMSG_def bind_eq_Some_conv)
  have "length m4 = length msg" "p4 \<le> length m4"
    using keeps_length [OF int_safe(3) d(1)] keeps_length [OF int_safe(3) d(2)] keeps_length [OF header_decoders_safe(2) d(3)]
      keeps_length [OF NodeId_safe.safe_decoder_axioms d(4)] assms(2) by auto
  then show ?thesis using assms(1) d
    by (auto simp: processMSG_def bind_eq_Some_conv Let_def split: if_splits option.splits prod.splits node_identifier.splits
        dest!: sendError_keeps process_request_keeps [OF _ _ service_types])
qed


lemma header_decoded:
  assumes "TcpMessageHeader_decodeBinary (msg, pos) = Some (UA_STATUSCODE_GOOD, header, (m, p))"
  shows "m = msg \<and> p = pos + 8 \<and> p \<le> length msg \<and> messageSize header = announced_size msg pos"
  using assms
  by (auto simp: TcpMessageHeader_decodeBinary_def dec_bind_def dec_return_def UInt32_decodeBinary_def announced_size_def status_defs split: if_splits)

lemma round_progress:
  assumes "process_round env srv k (msg, pos) = Some (Next srv1 msg1 pos1)"
  shows "pos1 = pos + unat (announced_size msg pos)" "length msg1 = length msg"
proof -
  from assms obtain r header m p where d: "TcpMessageHeader_decodeBinary (msg, pos) = Some (r, header, (m, p))"
    by (auto simp: process_round_def bind_eq_Some_conv)
  with assms have r: "r = UA_STATUSCODE_GOOD" by (auto simp: process_round_def bind_eq_Some_conv split: if_splits)
  note h = header_decoded [OF d [unfolded r]]
  with assms d r show "pos1 = pos + unat (announced_size msg pos)"
    by (auto simp: process_round_def bind_eq_Some_conv Let_def split: if_splits)
  from assms d r h show "length msg1 = length msg"
    by (auto simp: process_round_def bind_eq_Some_conv Let_def split: if_splits dest: processHEL_keeps processOPN_keeps processMSG_keeps)
qed

lemma loop_terminates:
  assumes "\<And>srv' msg' pos'. rounds env k (srv, msg, pos) (srv', msg', pos') \<Longrightarrow> announced_size msg' pos' \<noteq> 0"
    and "length msg - pos < n" "pos < length msg"
  shows "UA_Server_processBinaryMessage n env srv k (msg, pos) \<noteq> Running"
  using assms
proof (induction n arbitrary: srv msg pos)
  case (Suc n)
  show ?case
  proof (cases "\<exists>srv1 msg1 pos1. process_round env srv k (msg, pos) = Some (Next srv1 msg1 pos1) \<and> pos1 < length msg1")
    case True
    then obtain srv1 msg1 pos1 where step: "process_round env srv k (msg, pos) = Some (Next srv1 msg1 pos1)" "pos1 < length msg1" by blast
    have "unat (announced_size msg pos) > 0" using Suc.prems(1) [OF rounds_start] by (simp add: unat_gt_0)
    then have "pos < pos1" "length msg1 = length msg" using round_progress [OF step(1)] by simp_all
    moreover have "rounds env k (srv, msg, pos) (srv1, msg1, pos1)" using rounds_next [OF rounds_start step] .
    ultimately have "UA_Server_processBinaryMessage n env srv1 k (msg1, pos1) \<noteq> Running"
      using Suc.prems step(2) by (intro Suc.IH) (auto dest: rounds_trans)
    with step show ?thesis by simp
  next
    case False
    then show ?thesis by (auto split: option.splits round.splits)
  qed
qed simp

text \<open>
  C18: the loop over the messages of a buffer ends, after at most as many rounds as the buffer has bytes,
  unless it reaches a message that announces the size zero.
\<close>

theorem processing_terminates:
  assumes "\<forall>srv' msg' pos'. rounds env k (srv, msg, 0) (srv', msg', pos') \<longrightarrow> announced_size msg' pos' \<noteq> 0" "msg \<noteq> []"
  shows "UA_Server_processBinaryMessage (Suc (length msg)) env srv k (msg, 0) \<noteq> Running"
  using assms by (intro loop_terminates) auto

definition example_ack :: "UA_Byte list" where
  "example_ack = [65, 67, 75, 70, 16, 0, 0, 0] @ replicate 8 0"

lemma example_ack_round: "process_round env srv k (example_ack, 0) = Some (Next srv example_ack 16)"
  by (simp add: process_round_def TcpMessageHeader_decodeBinary_def dec_bind_def dec_return_def codec_defs example_ack_def tag_defs)

lemma example_ack_size: "length example_ack = 16" "announced_size example_ack 0 = 16"
  by (simp_all add: example_ack_def announced_size_def)

lemma example_ack_reaches: "rounds env k (srv, example_ack, 0) x \<Longrightarrow> x = (srv, example_ack, 0)"
  by (induction x rule: rounds.induct) (auto simp: example_ack_round example_ack_size)

theorem processing_terminates_witness:
  "UA_Server_processBinaryMessage (Suc (length example_ack)) (example_env (\<lambda>_ _ _ _ _ _. None)) (example_server UA_CONNECTION_OPENING) 0 (example_ack, 0) \<noteq> Running"
  using example_ack_size by (intro processing_terminates) (auto dest!: example_ack_reaches)

section \<open>Requests of sessions that are not activated\<close>

lemma header_at_end:
  "\<exists>r v c. UA_decodeBinary mem UA_TYPES_REQUESTHEADER (msg, length msg) = Some (r, v, c) \<and> fst c = msg \<and> r \<noteq> UA_STATUSCODE_GOOD"
proof -
  have "\<exists>n. enough_depth (length msg - length msg) = Suc n" by (simp add: enough_depth_def UA_TYPES_COUNT_def numeral_eq_Suc)
  then obtain n where n: "enough_depth (length msg - length msg) = Suc n" ..
  show ?thesis unfolding UA_decodeBinary_def split n
    by (simp add: UA_decodeBinaryNoInit_def example_entries example_indices dec_map_def dec_cleanup_def dec_bind_def dec_return_def
        decodeBinaryJumpTable_def NodeId_decodeBinary_def dec_guard_def codec_defs tag_defs String_decodeBinary_def Int32_decodeBinary_def
        ExtensionObject_decodeBinary_def UA_NODEID_NULL_def status_defs)
qed

text \<open>
  A request of a session that is not activated is not answered when it is the last one of the buffer:
  the error is to be sent with the handle of the request header, which is looked for behind the request.
\<close>

theorem inactive_session_unanswered:
  assumes dec: "UA_decodeBinary (e_mem env) reqType (msg, pos) = Some (UA_STATUSCODE_GOOD, request, (msg1, length msg1))"
    and head: "request_header request = Some (token, handle)" and ch: "chan_of srv ref = Some ch"
    and found: "find_token (srv_comm srv) (sc_sessions ch) token = Some (Some s)" "sess (srv_comm srv) s = Some se" "\<not> activated se"
    and type: "reqType \<noteq> UA_TYPES_ACTIVATESESSIONREQUEST"
  shows "process_request env srv ref requestId reqType respType msg pos = Some (srv, msg1)"
  using header_at_end [of "e_mem env" msg1] assms by (auto simp: process_request_def sendError_def)


definition inactive_server :: UA_Server where
  "inactive_server = (example_server UA_CONNECTION_ESTABLISHED)\<lparr>srv_comm := (example_comm (UA_Connection_init\<lparr>c_state := UA_CONNECTION_ESTABLISHED\<rparr>))\<lparr>
     chans := (\<lambda>a. if a = 0 then Some (UA_SecureChannel_init\<lparr>sc_sessions := [0]\<rparr>) else None),
     sess := (\<lambda>a. if a = 0 then Some (UA_Session_init\<lparr>authenticationToken := UA_NODEID_NUMERIC 1 5\<rparr>) else None)\<rparr>\<rparr>"

abbreviation (input) five :: nat where "five \<equiv> Suc (Suc (Suc (Suc (Suc 0))))"

theorem inactive_session_unanswered_witness:
  "\<exists>msg1. process_request (example_env (\<lambda>_ _ _ _ _ _. None)) inactive_server (Some 0) 1 UA_TYPES_READREQUEST UA_TYPES_READRESPONSE
     (ser_value five UA_TYPES_READREQUEST example_read) 0 = Some (inactive_server, msg1)"
proof -
  let ?bs = "ser_value five UA_TYPES_READREQUEST example_read"
  have i: "UA_TYPES_READREQUEST < UA_TYPES_COUNT" by (simp add: UA_TYPES_COUNT_def)
  then have "nesting (ser_value five) UA_TYPES_READREQUEST example_read \<le> Suc (enough_depth (length ?bs - 0))"
    by (simp add: nesting_def enough_depth_def)
  from readsE [OF reads_with_depth [OF i example_read_ok(1) this], of 0 "[]" "[]"]
  obtain bs' where "length bs' = length ?bs" "UA_dec (\<lambda>_. True) (Suc (enough_depth (length ?bs - 0))) UA_TYPES_READREQUEST ([] @ ?bs @ [], 0) =
      Some (UA_STATUSCODE_GOOD, canon_value five UA_TYPES_READREQUEST example_read, ([] @ bs' @ [], 0 + length ?bs))"
    by (metis length_0_conv)
  then have dec: "UA_decodeBinary (e_mem (example_env (\<lambda>_ _ _ _ _ _. None))) UA_TYPES_READREQUEST (?bs, 0) =
      Some (UA_STATUSCODE_GOOD, canon_value five UA_TYPES_READREQUEST example_read, (bs', length bs'))"
    unfolding UA_decodeBinary_struct [OF example_entries(8)] example_env_def env.simps append_Nil append_Nil2 add_0 by metis
  have head: "request_header (canon_value five UA_TYPES_READREQUEST example_read) = Some (UA_NODEID_NUMERIC 1 5, 7)"
    by (simp add: example_eval request_header_def as_struct_def as_NodeId_def as_UInt32_def canon_NodeId_def)
  show ?thesis
    by (rule exI, rule inactive_session_unanswered [OF dec head, of _ _ "UA_SecureChannel_init\<lparr>sc_sessions := [0]\<rparr>" 0 "UA_Session_init\<lparr>authenticationToken := UA_NODEID_NUMERIC 1 5\<rparr>"])
      (simp_all add: inactive_server_def chan_of_def UA_Session_init_def UA_NodeId_equal_def UA_NODEID_NUMERIC_def)
qed

end
