(* ===== verification/Ua_Copy.thy ===== *)
theory Ua_Copy
  imports Ua_Structures
begin

text \<open>
  Deep copies (\<^verbatim>\<open>src/ua_types.c\<close>): \<open>UA_copy\<close> with the copy functions of the builtin types
  and the jump table. \<open>copy_value mem i v\<close> is the call of the jump table for a value of type
  \<open>i\<close>. After a failure the destination is cleared, by the function itself or by its caller,
  which is \<open>VDeleted\<close> here. \<open>None\<close> is a value that does not fit its type, or an access through
  a null pointer.
\<close>

section \<open>Builtin types\<close>

text \<open>The copies of the structured builtin types, member by member; a failure clears the destination.\<close>

definition QualifiedName_copy :: "(nat \<Rightarrow> bool) \<Rightarrow> UA_QualifiedName \<Rightarrow> UA_StatusCode \<times> UA_QualifiedName" where
  "QualifiedName_copy mem q = (let (r, s) = UA_String_copy mem (qn_name q)
     in (r, q\<lparr>qn_name := if r \<noteq> UA_STATUSCODE_GOOD then Null_ptr else s\<rparr>))"

definition LocalizedText_copy :: "(nat \<Rightarrow> bool) \<Rightarrow> UA_LocalizedText \<Rightarrow> UA_StatusCode \<times> UA_LocalizedText" where
  "LocalizedText_copy mem l = (let (r1, s) = UA_String_copy mem (locale_text l); (r2, t) = UA_String_copy mem (text_text l)
     in (r1 OR r2, if r1 OR r2 \<noteq> UA_STATUSCODE_GOOD then \<lparr>locale_text = Null_ptr, text_text = Null_ptr\<rparr> else \<lparr>locale_text = s, text_text = t\<rparr>))"

definition ExpandedNodeId_copy :: "(nat \<Rightarrow> bool) \<Rightarrow> UA_ExpandedNodeId \<Rightarrow> UA_StatusCode \<times> UA_ExpandedNodeId" where
  "ExpandedNodeId_copy mem e = (let (r1, n) = NodeId_copy mem (nodeId e); (r2, u) = UA_String_copy mem (namespaceUri e)
     in (r1 OR r2, if r1 OR r2 \<noteq> UA_STATUSCODE_GOOD then e\<lparr>nodeId := NodeId_deleteMembers n, namespaceUri := Null_ptr\<rparr>
                   else e\<lparr>nodeId := n, namespaceUri := u\<rparr>))"

text \<open>The additional info is copied when its flag is set, the nested info when it is there, too.\<close>

fun DiagnosticInfo_copy :: "(nat \<Rightarrow> bool) \<Rightarrow> UA_DiagnosticInfo \<Rightarrow> UA_StatusCode \<times> UA_DiagnosticInfo" where
  "DiagnosticInfo_copy mem (DiagnosticInfo b0 b1 b2 b3 b4 b5 b6 sy ns lt lo ai sc inner) =
     (let (r1, s) = (if b4 then UA_String_copy mem ai else (UA_STATUSCODE_GOOD, UA_STRING_NULL));
          (r2, c6, i) =
            (case inner of
               None \<Rightarrow> (UA_STATUSCODE_GOOD, b6, None)
             | Some d \<Rightarrow>
                 if \<not> b6 then (UA_STATUSCODE_GOOD, b6, None)
                 else if mem sizeof_DiagnosticInfo then (let (r, e) = DiagnosticInfo_copy mem d in (r, True, Some e))
                 else (UA_STATUSCODE_BADOUTOFMEMORY, False, None));
          dst = DiagnosticInfo b0 b1 b2 b3 b4 b5 c6 sy ns lt lo s sc i
      in (r1 OR r2, if r1 OR r2 \<noteq> UA_STATUSCODE_GOOD then DiagnosticInfo_deleteMembers dst else dst))"

section \<open>All types\<close>

text \<open>A copied value, cleared after a failure.\<close>

definition copied :: "('a \<Rightarrow> ua_value) \<Rightarrow> UA_StatusCode \<times> 'a \<Rightarrow> UA_StatusCode \<times> ua_value" where
  "copied f x = (fst x, if fst x \<noteq> UA_STATUSCODE_GOOD then VDeleted else f (snd x))"

text \<open>
  \<open>UA_Array_copy\<close> for \<open>n\<close> elements of type \<open>j\<close>; \<open>elems\<close> is the copy of the elements one
  by one.
\<close>

definition array_copy :: "(nat \<Rightarrow> bool) \<Rightarrow> nat \<Rightarrow> ua_value list \<Rightarrow> (UA_StatusCode \<times> ua_value list) option \<Rightarrow> (UA_StatusCode \<times> ua_value list) option" where
  "array_copy mem j xs elems =
     (if length xs > MAX_ARRAY_SIZE \<or> memSize (UA_TYPES ! j) * length xs > MAX_ARRAY_SIZE then Some (UA_STATUSCODE_BADOUTOFMEMORY, [])
      else if \<not> mem (length xs * memSize (UA_TYPES ! j)) then Some (UA_STATUSCODE_BADOUTOFMEMORY, [])
      else if fixedSize (UA_TYPES ! j) then Some (UA_STATUSCODE_GOOD, xs) else elems)"

text \<open>An array without elements is the null pointer or the sentinel.\<close>

definition empty_copy :: "'a ua_array \<Rightarrow> 'a ua_array" where
  "empty_copy a = (if a = Null_ptr then Null_ptr else Empty_sentinel)"

fun copy_value :: "(nat \<Rightarrow> bool) \<Rightarrow> nat \<Rightarrow> ua_value \<Rightarrow> (UA_StatusCode \<times> ua_value) option"
and copy_members :: "(nat \<Rightarrow> bool) \<Rightarrow> (nat \<times> bool) list \<Rightarrow> ua_value list \<Rightarrow> (UA_StatusCode \<times> ua_value list) option"
and copy_all :: "(nat \<Rightarrow> bool) \<Rightarrow> nat \<Rightarrow> ua_value list \<Rightarrow> (UA_StatusCode \<times> ua_value list) option" where
  "copy_value mem i (VBoolean b) = Some (UA_STATUSCODE_GOOD, VBoolean b)"
| "copy_value mem i (VByte b) = Some (UA_STATUSCODE_GOOD, VByte b)"
| "copy_value mem i (VUInt16 w) = Some (UA_STATUSCODE_GOOD, VUInt16 w)"
| "copy_value mem i (VUInt32 w) = Some (UA_STATUSCODE_GOOD, VUInt32 w)"
| "copy_value mem i (VUInt64 w) = Some (UA_STATUSCODE_GOOD, VUInt64 w)"
| "copy_value mem i (VGuid g) = Some (UA_STATUSCODE_GOOD, VGuid g)"
| "copy_value mem i (VString s) = Some (copied VString (UA_String_copy mem s))"
| "copy_value mem i (VNodeId n) = Some (copied VNodeId (NodeId_copy mem n))"
| "copy_value mem i (VExpandedNodeId e) = Some (copied VExpandedNodeId (ExpandedNodeId_copy mem e))"
| "copy_value mem i (VLocalizedText t) = Some (copied VLocalizedText (LocalizedText_copy mem t))"
| "copy_value mem i (VDiagnosticInfo d) = Some (copied VDiagnosticInfo (DiagnosticInfo_copy mem d))"
| "copy_value mem i (VEncoded e tid body) =
     (let (r1, n) = NodeId_copy mem tid; (r2, b) = UA_String_copy mem body in Some (copied (\<lambda>_. VEncoded e n b) (r1 OR r2, ())))"
| "copy_value mem i (VDecoded (Some k) (Some v)) =
     do { (r, ws) \<leftarrow> array_copy mem k [v] (copy_all mem k [v]); Some (copied (\<lambda>ws. VDecoded (Some k) (Some (hd ws))) (r, ws)) }"
| "copy_value mem i (VDecoded _ _) = Some (UA_STATUSCODE_BADINTERNALERROR, VDeleted)"
| "copy_value mem i (VVariant ty len (Block xs) dims) =
     (let n = (if len = 0 then 1 else len) in
      case ty of
        None \<Rightarrow> None
      | Some k \<Rightarrow>
          if n \<noteq> length xs then None
          else do {
            (r, ws) \<leftarrow> array_copy mem k xs (copy_all mem k xs);
            let (r2, d) = (if r \<noteq> UA_STATUSCODE_GOOD \<or> dims = Null_ptr then (r, Null_ptr)
                           else UA_Array_copy mem (memSize (UA_TYPES ! UA_TYPES_UINT32)) True (\<lambda>w. (UA_STATUSCODE_GOOD, w)) dims);
            Some (copied (\<lambda>_. VVariant (Some k) len (Block ws) d) (r2, ())) })"
| "copy_value mem i (VVariant ty len data dims) =
     (if len \<noteq> 0 then None
      else let (r2, d) = (if dims = Null_ptr then (UA_STATUSCODE_GOOD, Null_ptr)
                          else UA_Array_copy mem (memSize (UA_TYPES ! UA_TYPES_UINT32)) True (\<lambda>w. (UA_STATUSCODE_GOOD, w)) dims)
           in Some (copied (\<lambda>_. VVariant ty 0 (empty_copy data) d) (r2, ())))"
| "copy_value mem i (VDataValue f v st sts sp svts svp) =
     do { (r, w) \<leftarrow> copy_value mem UA_TYPES_VARIANT v; Some (copied (\<lambda>w. VDataValue f w st sts sp svts svp) (r, w)) }"
| "copy_value mem i (VStruct vs) =
     do { (r, ws) \<leftarrow> copy_members mem (members (UA_TYPES ! i)) vs; Some (copied VStruct (r, ws)) }"
| "copy_value mem i (VArray a) = None"
| "copy_value mem i VDeleted = None"
| "copy_members mem [] [] = Some (UA_STATUSCODE_GOOD, [])"
| "copy_members mem ((j, True) # ms) (VArray (Block (x # xs)) # vs) = do {
     (r1, ws) \<leftarrow> array_copy mem j (x # xs) (copy_all mem j (x # xs));
     (r2, us) \<leftarrow> copy_members mem ms vs;
     Some (r1 OR r2, VArray (Block ws) # us) }"
| "copy_members mem ((j, True) # ms) (VArray a # vs) = do {
     (r2, us) \<leftarrow> copy_members mem ms vs;
     Some (r2, VArray (empty_copy a) # us) }"
| "copy_members mem ((j, False) # ms) (v # vs) = do {
     (r1, w) \<leftarrow> copy_value mem j v;
     (r2, us) \<leftarrow> copy_members mem ms vs;
     Some (r1 OR r2, w # us) }"
| "copy_members mem _ _ = None"
| "copy_all mem j [] = Some (UA_STATUSCODE_GOOD, [])"
| "copy_all mem j (v # vs) = do {
     (r1, w) \<leftarrow> copy_value mem j v;
     (r2, ws) \<leftarrow> copy_all mem j vs;
     Some (r1 OR r2, w # ws) }"

text \<open>\<open>UA_copy\<close> clears the destination and copies into it; a builtin type has itself as its only member.\<close>

definition UA_copy :: "(nat \<Rightarrow> bool) \<Rightarrow> nat \<Rightarrow> ua_value \<Rightarrow> (UA_StatusCode \<times> ua_value) option" where
  "UA_copy mem i v = copy_value mem i v"

section \<open>Values that are copied exactly\<close>

text \<open>
  A value is in copying form when its arrays are not too long, have no empty blocks (the copy of
  such a block is the sentinel) and nothing is hidden behind an unset flag of a diagnostic info.
\<close>

definition plain_array :: "nat \<Rightarrow> 'a ua_array \<Rightarrow> bool" where
  "plain_array sz a \<longleftrightarrow> a \<noteq> Block [] \<and> alen a \<le> MAX_ARRAY_SIZE \<and> sz * alen a \<le> MAX_ARRAY_SIZE"

definition plain_NodeId :: "UA_NodeId \<Rightarrow> bool" where
  "plain_NodeId n \<longleftrightarrow> (case ident n of StringId s \<Rightarrow> plain_array 1 s | ByteStringId s \<Rightarrow> plain_array 1 s | _ \<Rightarrow> True)"

fun plain_DiagnosticInfo :: "UA_DiagnosticInfo \<Rightarrow> bool" where
  "plain_DiagnosticInfo (DiagnosticInfo b0 b1 b2 b3 b4 b5 b6 sy ns lt lo ai sc inner) \<longleftrightarrow>
     (if b4 then plain_array 1 ai else ai = UA_STRING_NULL) \<and> (case inner of None \<Rightarrow> True | Some d \<Rightarrow> b6 \<and> plain_DiagnosticInfo d)"

fun plain_value :: "nat \<Rightarrow> ua_value \<Rightarrow> bool"
and plain_members :: "(nat \<times> bool) list \<Rightarrow> ua_value list \<Rightarrow> bool"
and plain_all :: "nat \<Rightarrow> ua_value list \<Rightarrow> bool" where
  "plain_value i (VString s) \<longleftrightarrow> plain_array 1 s"
| "plain_value i (VNodeId n) \<longleftrightarrow> plain_NodeId n"
| "plain_value i (VExpandedNodeId e) \<longleftrightarrow> plain_NodeId (nodeId e) \<and> plain_array 1 (namespaceUri e)"
| "plain_value i (VLocalizedText t) \<longleftrightarrow> plain_array 1 (locale_text t) \<and> plain_array 1 (text_text t)"
| "plain_value i (VDiagnosticInfo d) \<longleftrightarrow> plain_DiagnosticInfo d"
| "plain_value i (VEncoded e tid body) \<longleftrightarrow> plain_NodeId tid \<and> plain_array 1 body"
| "plain_value i (VDecoded (Some k) (Some v)) \<longleftrightarrow> plain_array (memSize (UA_TYPES ! k)) (Block [v]) \<and> plain_all k [v]"
| "plain_value i (VDecoded _ _) \<longleftrightarrow> False"
| "plain_value i (VVariant ty len (Block xs) dims) \<longleftrightarrow>
     (case ty of None \<Rightarrow> False | Some k \<Rightarrow> length xs = (if len = 0 then 1 else len) \<and> plain_array (memSize (UA_TYPES ! k)) (Block xs) \<and> plain_all k xs) \<and>
     plain_array 4 dims"
| "plain_value i (VVariant ty len data dims) \<longleftrightarrow> len = 0 \<and> plain_array 4 dims"
| "plain_value i (VDataValue f v st sts sp svts svp) \<longleftrightarrow> plain_value UA_TYPES_VARIANT v"
| "plain_value i (VStruct vs) \<longleftrightarrow> plain_members (members (UA_TYPES ! i)) vs"
| "plain_value i (VArray a) \<longleftrightarrow> False"
| "plain_value i VDeleted \<longleftrightarrow> False"
| "plain_value i v \<longleftrightarrow> True"
| "plain_members [] [] \<longleftrightarrow> True"
| "plain_members ((j, True) # ms) (VArray (Block (x # xs)) # vs) \<longleftrightarrow>
     plain_array (memSize (UA_TYPES ! j)) (Block (x # xs)) \<and> plain_all j (x # xs) \<and> plain_members ms vs"
| "plain_members ((j, True) # ms) (VArray a # vs) \<longleftrightarrow> a \<noteq> Block [] \<and> plain_members ms vs"
| "plain_members ((j, False) # ms) (v # vs) \<longleftrightarrow> plain_value j v \<and> plain_members ms vs"
| "plain_members _ _ \<longleftrightarrow> False"
| "plain_all j [] \<longleftrightarrow> True"
| "plain_all j (v # vs) \<longleftrightarrow> plain_value j v \<and> plain_all j vs"

text \<open>An outcome of copying \<open>v\<close>: an equal value, or an error and a cleared destination.\<close>

definition exact :: "(nat \<Rightarrow> bool) \<Rightarrow> 'a \<Rightarrow> (UA_StatusCode \<times> 'a) \<Rightarrow> bool" where
  "exact mem v x \<longleftrightarrow> (fst x = UA_STATUSCODE_GOOD \<longrightarrow> snd x = v) \<and> ((\<forall>n. mem n) \<longrightarrow> fst x = UA_STATUSCODE_GOOD)"

definition clean :: "UA_StatusCode \<times> ua_value \<Rightarrow> bool" where
  "clean x \<longleftrightarrow> (fst x \<noteq> UA_STATUSCODE_GOOD \<longrightarrow> snd x = VDeleted)"

lemma oom_bad [simp]: "UA_STATUSCODE_BADOUTOFMEMORY \<noteq> UA_STATUSCODE_GOOD" "UA_STATUSCODE_GOOD \<noteq> UA_STATUSCODE_BADOUTOFMEMORY"
  by (simp_all add: status_defs)

lemma exact_array: "plain_array sz a \<Longrightarrow> exact mem a (UA_Array_copy mem sz True f a)"
  by (cases a rule: canon_array.cases) (auto simp: exact_def plain_array_def UA_Array_copy_def)

lemma exact_string: "plain_array 1 s \<Longrightarrow> exact mem s (UA_String_copy mem s)"
  by (simp add: UA_String_copy_def exact_array)

lemma exact_NodeId: "plain_NodeId n \<Longrightarrow> exact mem n (NodeId_copy mem n)"
proof (cases "ident n")
  case (StringId s)
  assume "plain_NodeId n"
  with StringId have "exact mem s (UA_String_copy mem s)" by (simp add: plain_NodeId_def exact_string)
  with StringId show ?thesis by (cases n, cases "UA_String_copy mem s") (auto simp: NodeId_copy_def exact_def Let_def)
next
  case (ByteStringId s)
  assume "plain_NodeId n"
  with ByteStringId have "exact mem s (UA_String_copy mem s)" by (simp add: plain_NodeId_def exact_string)
  with ByteStringId show ?thesis by (cases n, cases "UA_String_copy mem s") (auto simp: NodeId_copy_def exact_def Let_def)
qed (simp_all add: NodeId_copy_def exact_def)

lemma exact_ExpandedNodeId:
  "plain_NodeId (nodeId e) \<Longrightarrow> plain_array 1 (namespaceUri e) \<Longrightarrow> exact mem e (ExpandedNodeId_copy mem e)"
  using exact_NodeId [of "nodeId e" mem] exact_string [of "namespaceUri e" mem]
  by (cases e, cases "NodeId_copy mem (nodeId e)", cases "UA_String_copy mem (namespaceUri e)")
    (auto simp: ExpandedNodeId_copy_def exact_def)

lemma exact_LocalizedText:
  "plain_array 1 (locale_text t) \<Longrightarrow> plain_array 1 (text_text t) \<Longrightarrow> exact mem t (LocalizedText_copy mem t)"
  using exact_string [of "locale_text t" mem] exact_string [of "text_text t" mem]
  by (cases t, cases "UA_String_copy mem (locale_text t)", cases "UA_String_copy mem (text_text t)")
    (auto simp: LocalizedText_copy_def exact_def)

lemma exact_QualifiedName: "plain_array 1 (qn_name q) \<Longrightarrow> exact mem q (QualifiedName_copy mem q)"
  using exact_string [of "qn_name q" mem]
  by (cases q, cases "UA_String_copy mem (qn_name q)") (auto simp: QualifiedName_copy_def exact_def)

lemma exact_DiagnosticInfo: "plain_DiagnosticInfo d \<Longrightarrow> exact mem d (DiagnosticInfo_copy mem d)"
proof (induction d)
  case (DiagnosticInfo b0 b1 b2 b3 b4 b5 b6 sy ns lt lo ai sc inner)
  let ?s = "if b4 then UA_String_copy mem ai else (UA_STATUSCODE_GOOD, UA_STRING_NULL)"
  have s: "exact mem ai ?s" using DiagnosticInfo.prems exact_string [of ai mem] by (auto simp: exact_def)
  obtain r1 t where t: "?s = (r1, t)" by (cases ?s)
  show ?case
  proof (cases inner)
    case None
    then show ?thesis using s t by (simp add: exact_def Let_def)
  next
    case (Some d)
    then have d: "exact mem d (DiagnosticInfo_copy mem d)" "b6" using DiagnosticInfo by auto
    obtain r2 e where "DiagnosticInfo_copy mem d = (r2, e)" by (cases "DiagnosticInfo_copy mem d")
    then show ?thesis using s t d Some by (auto simp: exact_def Let_def)
  qed
qed

lemma exact_copied: "exact mem v x \<Longrightarrow> exact mem (f v) (copied f x) \<and> clean (copied f x)"
  by (auto simp: exact_def copied_def clean_def)

lemma exact_array_copy:
  assumes "plain_array (memSize (UA_TYPES ! j)) (Block xs)" "elems = Some x" "exact mem xs x"
  shows "\<exists>x. array_copy mem j xs elems = Some x \<and> exact mem xs x"
  using assms by (cases x) (auto simp: array_copy_def exact_def plain_array_def)

lemma exact_both: "exact mem x (r1, y) \<Longrightarrow> exact mem xs (r2, ys) \<Longrightarrow> exact mem (f x xs) (r1 OR r2, f y ys)"
  by (auto simp: exact_def)

text \<open>The dimensions of a variant.\<close>

definition copy_dims :: "(nat \<Rightarrow> bool) \<Rightarrow> UA_UInt32 ua_array \<Rightarrow> UA_StatusCode \<times> UA_UInt32 ua_array" where
  "copy_dims mem dims = (if dims = Null_ptr then (UA_STATUSCODE_GOOD, Null_ptr)
     else UA_Array_copy mem (memSize (UA_TYPES ! UA_TYPES_UINT32)) True (\<lambda>w. (UA_STATUSCODE_GOOD, w)) dims)"

lemma uint32_size: "memSize (UA_TYPES ! UA_TYPES_UINT32) = 4"
  by code_simp

lemma exact_dims: "plain_array 4 dims \<Longrightarrow> exact mem dims (copy_dims mem dims)"
  unfolding copy_dims_def uint32_size using exact_array [of 4 dims mem] by (simp add: exact_def)

lemma empty_variant_exact:
  assumes "data = Null_ptr \<or> data = Empty_sentinel" "plain_value i (VVariant ty len data dims)"
  shows "\<exists>x. copy_value mem i (VVariant ty len data dims) = Some x \<and> exact mem (VVariant ty len data dims) x \<and> clean x"
proof -
  have "plain_array 4 dims" "len = 0" using assms by auto
  then have "exact mem dims (copy_dims mem dims)" by (simp add: exact_dims)
  with assms(1) \<open>len = 0\<close> show ?thesis
    by (cases "copy_dims mem dims") (auto simp: copy_dims_def exact_def copied_def clean_def empty_copy_def)
qed

lemma copy_exact:
  "plain_value i v \<Longrightarrow> \<exists>x. copy_value mem i v = Some x \<and> exact mem v x \<and> clean x"
  "plain_members ms vs \<Longrightarrow> \<exists>x. copy_members mem ms vs = Some x \<and> exact mem vs x"
  "plain_all j us \<Longrightarrow> \<exists>x. copy_all mem j us = Some x \<and> exact mem us x"
proof (induction mem i v and mem ms vs and mem j us rule: copy_value_copy_members_copy_all.induct)
  case (7 mem i s)
  then show ?case using exact_copied [OF exact_string [of s mem]] by simp
next
  case (8 mem i n)
  then show ?case using exact_copied [OF exact_NodeId [of n mem]] by simp
next
  case (9 mem i e)
  then show ?case using exact_copied [OF exact_ExpandedNodeId [of e mem]] by simp
next
  case (10 mem i t)
  then show ?case using exact_copied [OF exact_LocalizedText [of t mem]] by simp
next
  case (11 mem i d)
  then show ?case using exact_copied [OF exact_DiagnosticInfo [of d mem]] by simp
next
  case (12 mem i e tid body)
  then have "exact mem tid (NodeId_copy mem tid)" "exact mem body (UA_String_copy mem body)"
    by (simp_all add: exact_NodeId exact_string)
  then show ?case by (cases "NodeId_copy mem tid", cases "UA_String_copy mem body") (auto simp: exact_def copied_def clean_def)
next
  case (13 mem i k v)
  from 13(2) have "plain_array (memSize (UA_TYPES ! k)) (Block [v])" "plain_all k [v]" by simp_all
  from 13(1) [OF this(2)] exact_array_copy [OF this(1)] obtain x where "array_copy mem k [v] (copy_all mem k [v]) = Some x" "exact mem [v] x" by blast
  then show ?case by (cases x) (auto simp: exact_def copied_def clean_def)
next
  case (15 mem i ty len xs dims)
  from 15(2) obtain k where k: "ty = Some k" "length xs = (if len = 0 then 1 else len)" "plain_array (memSize (UA_TYPES ! k)) (Block xs)" "plain_all k xs"
    and dims: "plain_array 4 dims" by (auto split: option.splits)
  from 15(1) [OF refl k(1) _ k(4)] exact_array_copy [OF k(3)] k(2)
  obtain r ws where r: "array_copy mem k xs (copy_all mem k xs) = Some (r, ws)" "exact mem xs (r, ws)" by fastforce
  show ?case
  proof (cases "r = UA_STATUSCODE_GOOD")
    case True
    obtain r2 d where d: "copy_dims mem dims = (r2, d)" by (cases "copy_dims mem dims")
    have "copy_value mem i (VVariant ty len (Block xs) dims) = Some (copied (\<lambda>_. VVariant (Some k) len (Block ws) d) (r2, ()))"
      using k(1,2) r(1) True d by (auto simp: copy_dims_def)
    then show ?thesis using exact_dims [OF dims, of mem] d r(2) True k(1) by (auto simp: exact_def copied_def clean_def)
  next
    case False
    then show ?thesis using k(1,2) r by (auto simp: exact_def copied_def clean_def)
  qed
next
  case (17 mem i f v st sts sp svts svp)
  then show ?case by (fastforce simp: exact_def copied_def clean_def)
next
  case (18 mem i vs)
  then show ?case by (fastforce simp: exact_def copied_def clean_def)
next
  case (22 mem j ms x xs vs)
  from "22.prems" have plain: "plain_array (memSize (UA_TYPES ! j)) (Block (x # xs))" "plain_all j (x # xs)" "plain_members ms vs" by simp_all
  from "22.IH"(1) [OF plain(2)] exact_array_copy [OF plain(1)]
  obtain r1 ws where 1: "array_copy mem j (x # xs) (copy_all mem j (x # xs)) = Some (r1, ws)" "exact mem (x # xs) (r1, ws)" by fastforce
  from "22.IH"(2) [OF _ _ plain(3)] 1(1) obtain r2 us where 2: "copy_members mem ms vs = Some (r2, us)" "exact mem vs (r2, us)" by fastforce
  show ?case using 1 2 exact_both [OF 1(2) 2(2), of "\<lambda>ws us. VArray (Block ws) # us"] by auto
next
  case (24 mem j ms v vs)
  from "24.prems" have plain: "plain_value j v" "plain_members ms vs" by simp_all
  from "24.IH"(1) [OF plain(1)] obtain r1 w where 1: "copy_value mem j v = Some (r1, w)" "exact mem v (r1, w)" by fastforce
  from "24.IH"(2) [OF 1(1) refl plain(2)] obtain r2 us where 2: "copy_members mem ms vs = Some (r2, us)" "exact mem vs (r2, us)" by fastforce
  show ?case using 1 2 exact_both [OF 1(2) 2(2), of Cons] by auto
next
  case (27 mem j v vs)
  from "27.prems" have plain: "plain_value j v" "plain_all j vs" by simp_all
  from "27.IH"(1) [OF plain(1)] obtain r1 w where 1: "copy_value mem j v = Some (r1, w)" "exact mem v (r1, w)" by fastforce
  from "27.IH"(2) [OF 1(1) refl plain(2)] obtain r2 us where 2: "copy_all mem j vs = Some (r2, us)" "exact mem vs (r2, us)" by fastforce
  show ?case using 1 2 exact_both [OF 1(2) 2(2), of Cons] by auto
qed (erule empty_variant_exact [rotated], simp | (auto simp: exact_def clean_def empty_copy_def)[1])+

text \<open>
  C26: a deep copy is exact or nothing. Whatever allocations succeed, copying a value of any type
  (structures, variants, extension objects and everything nested in them, without empty blocks and
  with arrays within the limit) gives the status GOOD and an equal value, or an error and a cleared
  destination; when all allocations succeed it is GOOD.
\<close>

theorem deep_copy_exact:
  assumes "plain_value i v"
  shows "\<exists>r w. UA_copy mem i v = Some (r, w) \<and> (r = UA_STATUSCODE_GOOD \<longrightarrow> w = v) \<and> (r \<noteq> UA_STATUSCODE_GOOD \<longrightarrow> w = VDeleted) \<and>
    ((\<forall>n. mem n) \<longrightarrow> r = UA_STATUSCODE_GOOD)"
  using copy_exact(1) [OF assms, of mem] by (auto simp: UA_copy_def exact_def clean_def)

theorem deep_copy_exact_witness:
  "UA_copy (\<lambda>_. True) UA_TYPES_VARIANT (VVariant (Some UA_TYPES_STRING) 2 (Block [VString (Block [72, 105]), VString Null_ptr]) Null_ptr) =
     Some (UA_STATUSCODE_GOOD, VVariant (Some UA_TYPES_STRING) 2 (Block [VString (Block [72, 105]), VString Null_ptr]) Null_ptr)"
proof -
  have "memSize (UA_TYPES ! UA_TYPES_STRING) = 16" by code_simp
  then show ?thesis
    using deep_copy_exact [of UA_TYPES_VARIANT "VVariant (Some UA_TYPES_STRING) 2 (Block [VString (Block [72, 105]), VString Null_ptr]) Null_ptr" "\<lambda>_. True"]
    by (auto simp: plain_array_def MAX_ARRAY_SIZE_def)
qed

end
