(* ===== verification/Ua_View.thy ===== *)
theory Ua_View
  imports Ua_Nodestore Ua_Copy
begin

text \<open>
  The view services (\<^verbatim>\<open>src/server/ua_services_view.c\<close>): browsing with continuation points, and the
  translation of browse paths, over the node store.

  The session is reduced to its continuation points. \<open>mem\<close> says which allocations succeed.
  \<open>None\<close> is a service that does not return, or an access to memory that is not its own.
\<close>

section \<open>Data\<close>

definition UA_STATUSCODE_BADCONTINUATIONPOINTINVALID :: UA_StatusCode where [status_defs]: "UA_STATUSCODE_BADCONTINUATIONPOINTINVALID = 0x804a0000"
definition UA_STATUSCODE_BADNOCONTINUATIONPOINTS :: UA_StatusCode where [status_defs]: "UA_STATUSCODE_BADNOCONTINUATIONPOINTS = 0x804b0000"
definition UA_STATUSCODE_BADREFERENCETYPEIDINVALID :: UA_StatusCode where [status_defs]: "UA_STATUSCODE_BADREFERENCETYPEIDINVALID = 0x804c0000"
definition UA_STATUSCODE_BADBROWSEDIRECTIONINVALID :: UA_StatusCode where [status_defs]: "UA_STATUSCODE_BADBROWSEDIRECTIONINVALID = 0x804d0000"
definition UA_STATUSCODE_BADVIEWIDUNKNOWN :: UA_StatusCode where [status_defs]: "UA_STATUSCODE_BADVIEWIDUNKNOWN = 0x806b0000"
definition UA_STATUSCODE_BADNOMATCH :: UA_StatusCode where [status_defs]: "UA_STATUSCODE_BADNOMATCH = 0x806f0000"

definition UA_NS0ID_HASTYPEDEFINITION :: UA_UInt32 where "UA_NS0ID_HASTYPEDEFINITION = 40"
definition UA_NS0ID_HASSUBTYPE :: UA_UInt32 where "UA_NS0ID_HASSUBTYPE = 45"

definition UA_BROWSEDIRECTION_FORWARD :: UA_UInt32 where [tag_defs]: "UA_BROWSEDIRECTION_FORWARD = 0"
definition UA_BROWSEDIRECTION_INVERSE :: UA_UInt32 where [tag_defs]: "UA_BROWSEDIRECTION_INVERSE = 1"
definition UA_BROWSEDIRECTION_BOTH :: UA_UInt32 where [tag_defs]: "UA_BROWSEDIRECTION_BOTH = 2"

definition UA_BROWSERESULTMASK_REFERENCETYPEID :: UA_UInt32 where [tag_defs]: "UA_BROWSERESULTMASK_REFERENCETYPEID = 1"
definition UA_BROWSERESULTMASK_ISFORWARD :: UA_UInt32 where [tag_defs]: "UA_BROWSERESULTMASK_ISFORWARD = 2"
definition UA_BROWSERESULTMASK_NODECLASS :: UA_UInt32 where [tag_defs]: "UA_BROWSERESULTMASK_NODECLASS = 4"
definition UA_BROWSERESULTMASK_BROWSENAME :: UA_UInt32 where [tag_defs]: "UA_BROWSERESULTMASK_BROWSENAME = 8"
definition UA_BROWSERESULTMASK_DISPLAYNAME :: UA_UInt32 where [tag_defs]: "UA_BROWSERESULTMASK_DISPLAYNAME = 16"
definition UA_BROWSERESULTMASK_TYPEDEFINITION :: UA_UInt32 where [tag_defs]: "UA_BROWSERESULTMASK_TYPEDEFINITION = 32"

record UA_BrowseDescription =
  bd_nodeId :: UA_NodeId
  browseDirection :: UA_UInt32
  bd_referenceTypeId :: UA_NodeId
  bd_includeSubtypes :: bool
  nodeClassMask :: UA_UInt32
  resultMask :: UA_UInt32

record UA_ReferenceDescription =
  rd_referenceTypeId :: UA_NodeId
  isForward :: bool
  rd_nodeId :: UA_ExpandedNodeId
  rd_browseName :: UA_QualifiedName
  rd_displayName :: UA_LocalizedText
  rd_nodeClass :: UA_NodeClass
  typeDefinition :: UA_ExpandedNodeId

definition UA_ReferenceDescription_init :: UA_ReferenceDescription where
  "UA_ReferenceDescription_init = \<lparr>rd_referenceTypeId = UA_NODEID_NULL, isForward = False, rd_nodeId = UA_EXPANDEDNODEID_NULL,
     rd_browseName = \<lparr>qn_namespaceIndex = 0, qn_name = Null_ptr\<rparr>, rd_displayName = \<lparr>locale_text = Null_ptr, text_text = Null_ptr\<rparr>,
     rd_nodeClass = UA_NODECLASS_UNSPECIFIED, typeDefinition = UA_EXPANDEDNODEID_NULL\<rparr>"

record UA_BrowseResult =
  br_statusCode :: UA_StatusCode
  br_continuationPoint :: UA_ByteString
  br_references :: "UA_ReferenceDescription list"

record ContinuationPointEntry =
  cp_identifier :: UA_ByteString
  browseDescription :: UA_BrowseDescription
  continuationIndex :: UA_UInt32
  maxReferences :: UA_UInt32

record cp_session =
  continuationPoints :: "ContinuationPointEntry list"
  cp_available :: UA_UInt16

section \<open>Memory\<close>

text \<open>Copied member by member; a failure clears the destination.\<close>

definition BrowseDescription_copy :: "(nat \<Rightarrow> bool) \<Rightarrow> UA_BrowseDescription \<Rightarrow> UA_StatusCode \<times> UA_BrowseDescription" where
  "BrowseDescription_copy mem d = (let (r1, n) = NodeId_copy mem (bd_nodeId d); (r2, t) = NodeId_copy mem (bd_referenceTypeId d)
     in (r1 OR r2, if r1 OR r2 \<noteq> UA_STATUSCODE_GOOD then d\<lparr>bd_nodeId := NodeId_deleteMembers n, bd_referenceTypeId := NodeId_deleteMembers t\<rparr>
                   else d\<lparr>bd_nodeId := n, bd_referenceTypeId := t\<rparr>))"

section \<open>Looking at nodes\<close>

text \<open>The first reference to a type definition.\<close>

fun type_definition_ref :: "UA_ReferenceNode list \<Rightarrow> UA_ReferenceNode option" where
  "type_definition_ref [] = None"
| "type_definition_ref (r # rs) =
     (if identifier_numeric (referenceTypeId r) \<noteq> UA_NS0ID_HASTYPEDEFINITION then type_definition_ref rs else Some r)"

text \<open>\<open>if(bits & bit) retval |= copy(...)\<close>\<close>

definition copy_when :: "bool \<Rightarrow> UA_StatusCode \<times> 'a \<Rightarrow> 'a \<Rightarrow> UA_StatusCode \<times> 'a" where
  "copy_when b x v0 = (if b then x else (UA_STATUSCODE_GOOD, v0))"

definition fillReferenceDescription ::
  "(nat \<Rightarrow> bool) \<Rightarrow> 'n UA_Node_scheme \<Rightarrow> UA_ReferenceNode \<Rightarrow> UA_UInt32 \<Rightarrow> UA_StatusCode \<times> UA_ReferenceDescription" where
  "fillReferenceDescription mem current ref bits =
     (let d = UA_ReferenceDescription_init;
          (r1, i) = NodeId_copy mem (n_nodeId current);
          (r2, t) = copy_when (bits AND UA_BROWSERESULTMASK_REFERENCETYPEID \<noteq> 0) (NodeId_copy mem (referenceTypeId ref)) (rd_referenceTypeId d);
          (r3, b) = copy_when (bits AND UA_BROWSERESULTMASK_BROWSENAME \<noteq> 0) (QualifiedName_copy mem (n_browseName current)) (rd_browseName d);
          (r4, l) = copy_when (bits AND UA_BROWSERESULTMASK_DISPLAYNAME \<noteq> 0) (LocalizedText_copy mem (n_displayName current)) (rd_displayName d);
          (r5, e) = (if bits AND UA_BROWSERESULTMASK_TYPEDEFINITION \<noteq> 0 \<and> n_nodeClass current \<in> {UA_NODECLASS_OBJECT, UA_NODECLASS_VARIABLE}
                     then (case type_definition_ref (n_references current) of
                             None \<Rightarrow> (UA_STATUSCODE_GOOD, typeDefinition d) | Some refnode \<Rightarrow> ExpandedNodeId_copy mem (targetId refnode))
                     else (UA_STATUSCODE_GOOD, typeDefinition d))
      in (r1 OR r2 OR r3 OR r4 OR r5,
          \<lparr>rd_referenceTypeId = t, isForward = (if bits AND UA_BROWSERESULTMASK_ISFORWARD \<noteq> 0 then \<not> isInverse ref else False),
           rd_nodeId = UA_EXPANDEDNODEID_NULL\<lparr>nodeId := i\<rparr>, rd_browseName = b, rd_displayName = l,
           rd_nodeClass = (if bits AND UA_BROWSERESULTMASK_NODECLASS \<noteq> 0 then n_nodeClass current else UA_NODECLASS_UNSPECIFIED),
           typeDefinition = e\<rparr>))"

text \<open>\<open>relevant\<close> is \<open>None\<close> when references of all types are returned.\<close>

definition returnRelevantNode ::
  "'n UA_NodeStore \<Rightarrow> UA_BrowseDescription \<Rightarrow> UA_NodeId list option \<Rightarrow> UA_ReferenceNode \<Rightarrow> 'n UA_Node_scheme option option" where
  "returnRelevantNode ns descr relevant reference =
     (if isInverse reference \<and> browseDirection descr = UA_BROWSEDIRECTION_FORWARD then Some None
      else if \<not> isInverse reference \<and> browseDirection descr = UA_BROWSEDIRECTION_INVERSE then Some None
      else if \<not> (case relevant of None \<Rightarrow> True | Some types \<Rightarrow> list_ex (UA_NodeId_equal (referenceTypeId reference)) types) then Some None
      else do {
        node \<leftarrow> get_node ns (nodeId (targetId reference));
        Some (case node of
                None \<Rightarrow> None
              | Some n \<Rightarrow> if nodeClassMask descr \<noteq> 0 \<and> node_class_code (n_nodeClass n) AND nodeClassMask descr = 0 then None else Some n) })"

section \<open>Subtypes of a reference type\<close>

text \<open>
  The references of one node, appended to the array \<open>results\<close> of the given capacity, which is
  doubled when it is full.
\<close>

fun add_subtypes :: "(nat \<Rightarrow> bool) \<Rightarrow> UA_ReferenceNode list \<Rightarrow> UA_NodeId list \<Rightarrow> nat \<Rightarrow> UA_StatusCode \<times> UA_NodeId list \<times> nat" where
  "add_subtypes mem [] results cap = (UA_STATUSCODE_GOOD, results, cap)"
| "add_subtypes mem (ref # refs) results cap =
     (if identifier_numeric (referenceTypeId ref) \<noteq> UA_NS0ID_HASSUBTYPE \<or> isInverse ref then add_subtypes mem refs results cap
      else if length results \<ge> cap \<and> \<not> mem (24 * cap * 2) then (UA_STATUSCODE_BADOUTOFMEMORY, results, cap)
      else let cap' = (if length results \<ge> cap then cap * 2 else cap);
               (r, i) = NodeId_copy mem (nodeId (targetId ref))
           in if r \<noteq> UA_STATUSCODE_GOOD then (r, results, cap') else add_subtypes mem refs (results @ [i]) cap')"

text \<open>The emulated recursion over the growing array; \<open>None\<close> when it does not end.\<close>

partial_function (option) subtypes_loop ::
  "(nat \<Rightarrow> bool) \<Rightarrow> 'n UA_NodeStore \<Rightarrow> nat \<Rightarrow> UA_NodeId list \<Rightarrow> nat \<Rightarrow> (UA_StatusCode \<times> UA_NodeId list) option" where
  "subtypes_loop mem ns index results cap = do {
     node \<leftarrow> get_node ns (results ! index);
     (let (r, results', cap') =
        (case node of
           None \<Rightarrow> (UA_STATUSCODE_GOOD, results, cap)
         | Some n \<Rightarrow> if n_nodeClass n \<noteq> UA_NODECLASS_REFERENCETYPE then (UA_STATUSCODE_GOOD, results, cap)
                    else add_subtypes mem (n_references n) results cap)
      in if index + 1 < length results' \<and> r = UA_STATUSCODE_GOOD
         then subtypes_loop mem ns (index + 1) results' cap' else Some (r, results')) }"

declare subtypes_loop.simps [code]

definition findSubTypes :: "(nat \<Rightarrow> bool) \<Rightarrow> 'n UA_NodeStore \<Rightarrow> UA_NodeId \<Rightarrow> (UA_StatusCode \<times> UA_NodeId list) option" where
  "findSubTypes mem ns root = do {
     node \<leftarrow> get_node ns root;
     (case node of
        None \<Rightarrow> Some (UA_STATUSCODE_BADNOMATCH, [])
      | Some n \<Rightarrow>
          if n_nodeClass n \<noteq> UA_NODECLASS_REFERENCETYPE then Some (UA_STATUSCODE_BADREFERENCETYPEIDINVALID, [])
          else if \<not> mem (24 * 20) then Some (UA_STATUSCODE_BADOUTOFMEMORY, [])
          else let (r, i) = NodeId_copy mem root
               in if r \<noteq> UA_STATUSCODE_GOOD then Some (r, [])
                  else do { (r', results) \<leftarrow> subtypes_loop mem ns 0 [i] 20; Some (r', if r' \<noteq> UA_STATUSCODE_GOOD then [] else results) }) }"

section \<open>Browsing\<close>

text \<open>The loop over the references of a node, with the index it stops at.\<close>

fun browse_loop ::
  "(nat \<Rightarrow> bool) \<Rightarrow> 'n UA_NodeStore \<Rightarrow> UA_BrowseDescription \<Rightarrow> UA_NodeId list option \<Rightarrow> nat \<Rightarrow> nat \<Rightarrow> UA_ReferenceNode list \<Rightarrow>
   nat \<Rightarrow> nat \<Rightarrow> UA_ReferenceDescription list \<Rightarrow> UA_StatusCode \<Rightarrow> (UA_StatusCode \<times> UA_ReferenceDescription list \<times> nat) option" where
  "browse_loop mem ns descr relevant maxrefs cont [] index skipped acc retval = Some (retval, acc, index)"
| "browse_loop mem ns descr relevant maxrefs cont (ref # refs) index skipped acc retval =
     (if \<not> length acc < maxrefs then Some (retval, acc, index)
      else do {
        current \<leftarrow> returnRelevantNode ns descr relevant ref;
        (case current of
           None \<Rightarrow> browse_loop mem ns descr relevant maxrefs cont refs (index + 1) skipped acc retval
         | Some n \<Rightarrow>
             if skipped < cont then browse_loop mem ns descr relevant maxrefs cont refs (index + 1) (skipped + 1) acc retval
             else let (r, d) = fillReferenceDescription mem n ref (resultMask descr)
                  in browse_loop mem ns descr relevant maxrefs cont refs (index + 1) skipped (acc @ [d]) (retval OR r)) })"

text \<open>The reference types a description asks for, or the status that ends the browsing.\<close>

definition relevant_types :: "(nat \<Rightarrow> bool) \<Rightarrow> 'n UA_NodeStore \<Rightarrow> UA_BrowseDescription \<Rightarrow> (UA_StatusCode \<times> UA_NodeId list option) option" where
  "relevant_types mem ns descr =
     (if UA_NodeId_isNull (bd_referenceTypeId descr) then Some (UA_STATUSCODE_GOOD, None)
      else if bd_includeSubtypes descr then do { (r, types) \<leftarrow> findSubTypes mem ns (bd_referenceTypeId descr); Some (r, Some types) }
      else do {
        rootRef \<leftarrow> get_node ns (bd_referenceTypeId descr);
        Some (case rootRef of
                None \<Rightarrow> (UA_STATUSCODE_BADREFERENCETYPEIDINVALID, None)
              | Some n \<Rightarrow> if n_nodeClass n \<noteq> UA_NODECLASS_REFERENCETYPE then (UA_STATUSCODE_BADREFERENCETYPEIDINVALID, None)
                         else (UA_STATUSCODE_GOOD, Some [bd_referenceTypeId descr])) })"

definition browse_result :: "UA_StatusCode \<Rightarrow> UA_BrowseResult" where
  "browse_result r = \<lparr>br_statusCode = r, br_continuationPoint = Null_ptr, br_references = []\<rparr>"

text \<open>\<open>sizeof(struct ContinuationPointEntry)\<close>\<close>

definition cp_size :: nat where "cp_size = 16 + 16 + 72 + 8"

definition removeCp :: "ContinuationPointEntry \<Rightarrow> cp_session \<Rightarrow> cp_session" where
  "removeCp cp session = session\<lparr>continuationPoints := remove1 cp (continuationPoints session), cp_available := cp_available session + 1\<rparr>"

text \<open>A continuation point is updated in place.\<close>

fun replace_cp :: "ContinuationPointEntry \<Rightarrow> ContinuationPointEntry \<Rightarrow> ContinuationPointEntry list \<Rightarrow> ContinuationPointEntry list" where
  "replace_cp cp cp' [] = []"
| "replace_cp cp cp' (c # cs) = (if c = cp then cp' # cs else c # replace_cp cp cp' cs)"

definition updateCp :: "ContinuationPointEntry \<Rightarrow> ContinuationPointEntry \<Rightarrow> cp_session \<Rightarrow> cp_session" where
  "updateCp cp cp' session = session\<lparr>continuationPoints := replace_cp cp cp' (continuationPoints session)\<rparr>"

text \<open>
  What happens after the references have been collected: \<open>cp\<close> is the continuation point that is
  continued, \<open>guid\<close> the random identifier of a new one.
\<close>

definition browse_finish ::
  "(nat \<Rightarrow> bool) \<Rightarrow> UA_ByteString \<Rightarrow> cp_session \<Rightarrow> ContinuationPointEntry option \<Rightarrow> UA_BrowseDescription \<Rightarrow> UA_UInt32 \<Rightarrow> bool \<Rightarrow>
   UA_ReferenceDescription list \<Rightarrow> (UA_BrowseResult \<times> cp_session) option" where
  "browse_finish mem guid session cp descr maxrefs complete refs =
     (let result = (browse_result UA_STATUSCODE_GOOD)\<lparr>br_references := refs\<rparr> in
      case cp of
        Some c \<Rightarrow>
          if complete then Some (result, removeCp c session)
          else Some (result\<lparr>br_continuationPoint := snd (UA_String_copy mem (cp_identifier c))\<rparr>,
                     updateCp c (c\<lparr>continuationIndex := continuationIndex c + word_of_nat (length refs)\<rparr>) session)
      | None \<Rightarrow>
          if maxrefs \<noteq> 0 \<and> length refs \<ge> unat maxrefs then
            if cp_available session = 0 \<or> \<not> mem cp_size then Some (result\<lparr>br_statusCode := UA_STATUSCODE_BADNOCONTINUATIONPOINTS\<rparr>, session)
            else if \<not> mem 16 then None
            else let c = \<lparr>cp_identifier = guid, browseDescription = snd (BrowseDescription_copy mem descr),
                          continuationIndex = word_of_nat (length refs), maxReferences = maxrefs\<rparr>
                 in Some (result\<lparr>br_continuationPoint := snd (UA_String_copy mem guid)\<rparr>,
                          session\<lparr>continuationPoints := c # continuationPoints session, cp_available := cp_available session - 1\<rparr>)
          else Some (result, session))"

definition Service_Browse_single ::
  "(nat \<Rightarrow> bool) \<Rightarrow> UA_ByteString \<Rightarrow> 'n UA_NodeStore \<Rightarrow> cp_session \<Rightarrow> ContinuationPointEntry option \<Rightarrow> UA_BrowseDescription \<Rightarrow> UA_UInt32 \<Rightarrow>
   (UA_BrowseResult \<times> cp_session) option" where
  "Service_Browse_single mem guid ns session cp descr0 maxrefs0 =
     (let descr = (case cp of None \<Rightarrow> descr0 | Some c \<Rightarrow> browseDescription c);
          maxrefs = (case cp of None \<Rightarrow> maxrefs0 | Some c \<Rightarrow> maxReferences c);
          cont = (case cp of None \<Rightarrow> 0 | Some c \<Rightarrow> unat (continuationIndex c)) in
      if browseDirection descr \<notin> {UA_BROWSEDIRECTION_BOTH, UA_BROWSEDIRECTION_FORWARD, UA_BROWSEDIRECTION_INVERSE}
      then Some (browse_result UA_STATUSCODE_BADBROWSEDIRECTIONINVALID, session)
      else do {
        (r1, relevant) \<leftarrow> relevant_types mem ns descr;
        if r1 \<noteq> UA_STATUSCODE_GOOD then Some (browse_result r1, session)
        else do {
          found \<leftarrow> get_node ns (bd_nodeId descr);
          (case found of
             None \<Rightarrow> Some (browse_result UA_STATUSCODE_BADNODEIDUNKNOWN, session)
           | Some node \<Rightarrow>
               let refs = n_references node;
                   wanted = (if maxrefs = 0 then word_of_nat (length refs) else maxrefs) :: UA_UInt32;
                   real_maxrefs = (if unat wanted > length refs then length refs else unat wanted) in
               if refs = [] then Some (browse_result UA_STATUSCODE_GOOD, session)
               else if \<not> UA_Array_new mem real_maxrefs UA_TYPES_REFERENCEDESCRIPTION then Some (browse_result UA_STATUSCODE_BADOUTOFMEMORY, session)
               else do {
                 (retval, ds, index) \<leftarrow> browse_loop mem ns descr relevant real_maxrefs cont refs 0 0 [] UA_STATUSCODE_GOOD;
                 if retval \<noteq> UA_STATUSCODE_GOOD then Some (browse_result retval, session)
                 else browse_finish mem guid session cp descr maxrefs (index = length refs) ds }) } })"

text \<open>The services over the arrays of a request; \<open>guids\<close> are the random identifiers.\<close>

fun browse_all ::
  "(nat \<Rightarrow> bool) \<Rightarrow> (nat \<Rightarrow> UA_ByteString) \<Rightarrow> 'n UA_NodeStore \<Rightarrow> UA_UInt32 \<Rightarrow> nat \<Rightarrow> UA_BrowseDescription list \<Rightarrow> cp_session \<Rightarrow>
   (UA_BrowseResult list \<times> cp_session) option" where
  "browse_all mem guids ns maxrefs i [] session = Some ([], session)"
| "browse_all mem guids ns maxrefs i (d # ds) session = do {
     (result, session1) \<leftarrow> Service_Browse_single mem (guids i) ns session None d maxrefs;
     (results, session2) \<leftarrow> browse_all mem guids ns maxrefs (i + 1) ds session1;
     Some (result # results, session2) }"

definition Service_Browse ::
  "(nat \<Rightarrow> bool) \<Rightarrow> (nat \<Rightarrow> UA_ByteString) \<Rightarrow> 'n UA_NodeStore \<Rightarrow> cp_session \<Rightarrow> UA_NodeId \<Rightarrow> UA_UInt32 \<Rightarrow> UA_BrowseDescription list \<Rightarrow>
   (UA_StatusCode \<times> UA_BrowseResult list \<times> cp_session) option" where
  "Service_Browse mem guids ns session viewId maxrefs nodesToBrowse =
     (if \<not> UA_NodeId_isNull viewId then Some (UA_STATUSCODE_BADVIEWIDUNKNOWN, [], session)
      else if nodesToBrowse = [] then Some (UA_STATUSCODE_BADNOTHINGTODO, [], session)
      else if \<not> UA_Array_new mem (length nodesToBrowse) UA_TYPES_BROWSERESULT then Some (UA_STATUSCODE_BADOUTOFMEMORY, [], session)
      else do { (results, session1) \<leftarrow> browse_all mem guids ns maxrefs 0 nodesToBrowse session; Some (UA_STATUSCODE_GOOD, results, session1) })"

fun browse_next_all ::
  "(nat \<Rightarrow> bool) \<Rightarrow> 'n UA_NodeStore \<Rightarrow> bool \<Rightarrow> UA_ByteString list \<Rightarrow> cp_session \<Rightarrow> (UA_BrowseResult list \<times> cp_session) option" where
  "browse_next_all mem ns release [] session = Some ([], session)"
| "browse_next_all mem ns release (p # ps) session = do {
     (result, session1) \<leftarrow>
       (case find (\<lambda>c. UA_ByteString_equal (cp_identifier c) p) (continuationPoints session) of
          None \<Rightarrow> Some (browse_result UA_STATUSCODE_BADCONTINUATIONPOINTINVALID, session)
        | Some cp \<Rightarrow>
            if \<not> release then Service_Browse_single mem Null_ptr ns session (Some cp) (browseDescription cp) 0
            else Some (browse_result UA_STATUSCODE_GOOD, removeCp cp session));
     (results, session2) \<leftarrow> browse_next_all mem ns release ps session1;
     Some (result # results, session2) }"

definition Service_BrowseNext ::
  "(nat \<Rightarrow> bool) \<Rightarrow> 'n UA_NodeStore \<Rightarrow> cp_session \<Rightarrow> bool \<Rightarrow> UA_ByteString list \<Rightarrow> (UA_StatusCode \<times> UA_BrowseResult list \<times> cp_session) option" where
  "Service_BrowseNext mem ns session release points =
     (if points = [] then Some (UA_STATUSCODE_BADNOTHINGTODO, [], session)
      else if \<not> UA_Array_new mem (length points) UA_TYPES_BROWSERESULT then Some (UA_STATUSCODE_BADOUTOFMEMORY, [], session)
      else do { (results, session1) \<leftarrow> browse_next_all mem ns release points session; Some (UA_STATUSCODE_GOOD, results, session1) })"

section \<open>Translation of browse paths\<close>

record UA_RelativePathElement =
  rp_referenceTypeId :: UA_NodeId
  rp_isInverse :: bool
  rp_includeSubtypes :: bool
  targetName :: UA_QualifiedName

text \<open>
  \<open>walkBrowsePath\<close> appends to \<open>targets\<close>. When the array is full the code passes the address of
  the pointer to \<open>realloc\<close> instead of the pointer: the call is undefined, the model has no result.
\<close>

definition reference_matches :: "UA_RelativePathElement \<Rightarrow> UA_NodeId list option \<Rightarrow> UA_ReferenceNode \<Rightarrow> bool" where
  "reference_matches elem reftypes ref = (case reftypes of
     None \<Rightarrow> True | Some types \<Rightarrow> list_ex (\<lambda>t. isInverse ref = rp_isInverse elem \<and> UA_NodeId_equal (referenceTypeId ref) t) types)"

definition has_browse_name :: "UA_QualifiedName \<Rightarrow> 'n UA_Node_scheme \<Rightarrow> bool" where
  "has_browse_name q n \<longleftrightarrow> \<not> (qn_namespaceIndex q \<noteq> qn_namespaceIndex (n_browseName n) \<or> \<not> UA_String_equal (qn_name q) (qn_name (n_browseName n)))"

text \<open>
  The loop over the references of one node; \<open>walk\<close> is what is done with a node that matches.
\<close>

fun walk_refs ::
  "'n UA_NodeStore \<Rightarrow> UA_RelativePathElement \<Rightarrow> UA_NodeId list option \<Rightarrow>
   ('n UA_Node_scheme \<Rightarrow> UA_NodeId list \<Rightarrow> (UA_StatusCode \<times> UA_NodeId list) option) \<Rightarrow>
   UA_ReferenceNode list \<Rightarrow> UA_NodeId list \<Rightarrow> (UA_StatusCode \<times> UA_NodeId list) option" where
  "walk_refs ns elem reftypes walk [] targets = Some (UA_STATUSCODE_GOOD, targets)"
| "walk_refs ns elem reftypes walk (ref # refs) targets =
     (if \<not> reference_matches elem reftypes ref then walk_refs ns elem reftypes walk refs targets
      else do {
        next \<leftarrow> get_node ns (nodeId (targetId ref));
        (case next of
           None \<Rightarrow> walk_refs ns elem reftypes walk refs targets
         | Some n \<Rightarrow>
             if \<not> has_browse_name (targetName elem) n then walk_refs ns elem reftypes walk refs targets
             else do {
               (r, targets1) \<leftarrow> walk n targets;
               if r \<noteq> UA_STATUSCODE_GOOD then Some (r, targets1) else walk_refs ns elem reftypes walk refs targets1 }) })"

definition path_types :: "(nat \<Rightarrow> bool) \<Rightarrow> 'n UA_NodeStore \<Rightarrow> UA_RelativePathElement \<Rightarrow> (UA_StatusCode \<times> UA_NodeId list option) option" where
  "path_types mem ns elem =
     (if UA_NodeId_isNull (rp_referenceTypeId elem) then Some (UA_STATUSCODE_GOOD, None)
      else if \<not> rp_includeSubtypes elem then Some (UA_STATUSCODE_GOOD, Some [rp_referenceTypeId elem])
      else do { (r, types) \<leftarrow> findSubTypes mem ns (rp_referenceTypeId elem); Some (r, Some types) })"

definition add_target :: "(nat \<Rightarrow> bool) \<Rightarrow> 'n UA_Node_scheme \<Rightarrow> UA_NodeId list \<Rightarrow> (UA_StatusCode \<times> UA_NodeId list) option" where
  "add_target mem next targets =
     (if length targets \<ge> 10 then None
      else let (r, i) = NodeId_copy mem (n_nodeId next) in Some (r, if r \<noteq> UA_STATUSCODE_GOOD then targets else targets @ [i]))"

fun walkBrowsePath ::
  "(nat \<Rightarrow> bool) \<Rightarrow> 'n UA_NodeStore \<Rightarrow> UA_RelativePathElement list \<Rightarrow> 'n UA_Node_scheme \<Rightarrow> UA_NodeId list \<Rightarrow> (UA_StatusCode \<times> UA_NodeId list) option" where
  "walkBrowsePath mem ns [] node targets = None"
| "walkBrowsePath mem ns (elem # path) node targets = do {
     (r, reftypes) \<leftarrow> path_types mem ns elem;
     if r \<noteq> UA_STATUSCODE_GOOD then Some (r, targets)
     else walk_refs ns elem reftypes (if path = [] then add_target mem else walkBrowsePath mem ns path) (n_references node) targets }"

text \<open>The targets of a path with their status; every target has \<open>remainingPathIndex = UA_UINT32_MAX\<close>.\<close>

definition Service_TranslateBrowsePathsToNodeIds_single ::
  "(nat \<Rightarrow> bool) \<Rightarrow> 'n UA_NodeStore \<Rightarrow> UA_NodeId \<Rightarrow> UA_RelativePathElement list \<Rightarrow> (UA_StatusCode \<times> UA_NodeId list) option" where
  "Service_TranslateBrowsePathsToNodeIds_single mem ns startingNode path =
     (if path = [] then Some (UA_STATUSCODE_BADNOTHINGTODO, [])
      else if \<not> mem (56 * 10) then Some (UA_STATUSCODE_BADOUTOFMEMORY, [])
      else do {
        firstNode \<leftarrow> get_node ns startingNode;
        (case firstNode of
           None \<Rightarrow> Some (UA_STATUSCODE_BADNODEIDUNKNOWN, [])
         | Some n \<Rightarrow> do {
             (r, targets) \<leftarrow> walkBrowsePath mem ns path n [];
             let r' = (if targets = [] \<and> r = UA_STATUSCODE_GOOD then UA_STATUSCODE_BADNOMATCH else r);
             Some (r', if r' \<noteq> UA_STATUSCODE_GOOD then [] else targets) }) })"

fun translate_all ::
  "(nat \<Rightarrow> bool) \<Rightarrow> 'n UA_NodeStore \<Rightarrow> (UA_NodeId \<times> UA_RelativePathElement list) list \<Rightarrow> (UA_StatusCode \<times> UA_NodeId list) list option" where
  "translate_all mem ns [] = Some []"
| "translate_all mem ns ((i, path) # ps) = do {
     result \<leftarrow> Service_TranslateBrowsePathsToNodeIds_single mem ns i path;
     results \<leftarrow> translate_all mem ns ps;
     Some (result # results) }"

definition Service_TranslateBrowsePathsToNodeIds ::
  "(nat \<Rightarrow> bool) \<Rightarrow> 'n UA_NodeStore \<Rightarrow> (UA_NodeId \<times> UA_RelativePathElement list) list \<Rightarrow>
   (UA_StatusCode \<times> (UA_StatusCode \<times> UA_NodeId list) list) option" where
  "Service_TranslateBrowsePathsToNodeIds mem ns browsePaths =
     (if browsePaths = [] then Some (UA_STATUSCODE_BADNOTHINGTODO, [])
      else if \<not> UA_Array_new mem (length browsePaths) UA_TYPES_BROWSEPATHRESULT then Some (UA_STATUSCODE_BADOUTOFMEMORY, [])
      else do { results \<leftarrow> translate_all mem ns browsePaths; Some (UA_STATUSCODE_GOOD, results) })"

section \<open>Registered nodes\<close>

text \<open>The node ids are handed back unchanged.\<close>

definition Service_RegisterNodes :: "(nat \<Rightarrow> bool) \<Rightarrow> UA_NodeId ua_array \<Rightarrow> UA_StatusCode \<times> UA_NodeId ua_array" where
  "Service_RegisterNodes mem nodesToRegister =
     (if alen nodesToRegister = 0 then (UA_STATUSCODE_BADNOTHINGTODO, Null_ptr)
      else UA_Array_copy mem 24 False (NodeId_copy mem) nodesToRegister)"

definition Service_UnregisterNodes :: "UA_NodeId ua_array \<Rightarrow> UA_StatusCode" where
  "Service_UnregisterNodes nodesToUnregister = (if alen nodesToUnregister = 0 then UA_STATUSCODE_BADNOTHINGTODO else UA_STATUSCODE_GOOD)"

end
