(* ===== verification/Ua_View_Laws.thy ===== *)
theory Ua_View_Laws
  imports Ua_View Ua_Nodestore_Theorems "HOL-Library.Multiset"
begin

text \<open>
  The view services on a store that satisfies the invariant of the node store, with enough memory:
  what the searches return, in terms of \<open>node_of\<close>.
\<close>

section \<open>Lookups\<close>

lemma get_node_eq:
  assumes "ns_inv ns" shows "get_node ns i = Some (node_of ns i)"
proof -
  have wf: "wf_table ns" and "taken_count (entries ns) < length (entries ns)"
    using assms by (simp_all add: ns_inv_def wf_table_def)
  then have "None \<in> set (entries ns)" by (metis (mono_tags, lifting) filter_True less_irrefl taken_count_def)
  from first_stop_exists [OF wf this, of i] obtain k where "first_stop ns i k" by blast
  then show ?thesis
    using containsNodeId_first [OF wf] entry_at_slot [OF wf, of "hash i" k]
    by (simp add: get_node_def node_of_def UA_NodeStore_get_def)
qed

lemma node_of_in_stored: "node_of ns i = Some n \<Longrightarrow> n \<in> stored ns"
  by (auto simp: node_of_def entry_at_def stored_def in_set_conv_nth split: option.splits if_splits)

section \<open>Subtypes\<close>

text \<open>A node id that is its own copy: no empty block, and not too long.\<close>

definition copy_fixed :: "UA_NodeId \<Rightarrow> bool" where
  "copy_fixed i \<longleftrightarrow> NodeId_copy (\<lambda>_. True) i = (UA_STATUSCODE_GOOD, i)"

definition targets_fixed :: "'n UA_NodeStore \<Rightarrow> bool" where
  "targets_fixed ns \<longleftrightarrow> (\<forall>n \<in> stored ns. copy_fixed (n_nodeId n) \<and> (\<forall>r \<in> set (n_references n). copy_fixed (nodeId (targetId r))))"

text \<open>The direct subtypes of a reference type.\<close>

definition is_subtype_ref :: "UA_ReferenceNode \<Rightarrow> bool" where
  "is_subtype_ref r \<longleftrightarrow> identifier_numeric (referenceTypeId r) = UA_NS0ID_HASSUBTYPE \<and> \<not> isInverse r"

definition direct_subtypes :: "'n UA_NodeStore \<Rightarrow> UA_NodeId \<Rightarrow> UA_NodeId list" where
  "direct_subtypes ns i = (case node_of ns i of
     None \<Rightarrow> []
   | Some n \<Rightarrow> if n_nodeClass n \<noteq> UA_NODECLASS_REFERENCETYPE then []
              else map (\<lambda>r. nodeId (targetId r)) (filter is_subtype_ref (n_references n)))"

definition subtype_rel :: "'n UA_NodeStore \<Rightarrow> (UA_NodeId \<times> UA_NodeId) set" where
  "subtype_rel ns = {(a, b). b \<in> set (direct_subtypes ns a)}"

lemma add_subtypes_eq:
  "\<forall>r \<in> set refs. copy_fixed (nodeId (targetId r)) \<Longrightarrow>
   \<exists>cap'. add_subtypes (\<lambda>_. True) refs results cap = (UA_STATUSCODE_GOOD, results @ map (\<lambda>r. nodeId (targetId r)) (filter is_subtype_ref refs), cap')"
proof (induction refs arbitrary: results cap)
  case (Cons ref refs)
  let ?i = "nodeId (targetId ref)"
  have "copy_fixed ?i" using Cons.prems by simp
  moreover obtain cap1 where "add_subtypes (\<lambda>_. True) refs results cap =
      (UA_STATUSCODE_GOOD, results @ map (\<lambda>r. nodeId (targetId r)) (filter is_subtype_ref refs), cap1)" using Cons by fastforce
  moreover obtain cap2 where "add_subtypes (\<lambda>_. True) refs (results @ [?i]) (if length results \<ge> cap then cap * 2 else cap) =
      (UA_STATUSCODE_GOOD, (results @ [?i]) @ map (\<lambda>r. nodeId (targetId r)) (filter is_subtype_ref refs), cap2)" using Cons by fastforce
  ultimately show ?case by (simp add: is_subtype_ref_def [of ref] copy_fixed_def)
qed simp

lemma subtypes_loop_step:
  assumes "ns_inv ns" "targets_fixed ns"
  shows "\<exists>cap'. subtypes_loop (\<lambda>_. True) ns k R cap =
    (if k + 1 < length (R @ direct_subtypes ns (R ! k))
     then subtypes_loop (\<lambda>_. True) ns (k + 1) (R @ direct_subtypes ns (R ! k)) cap' else Some (UA_STATUSCODE_GOOD, R @ direct_subtypes ns (R ! k)))"
proof (cases "node_of ns (R ! k)")
  case None
  then show ?thesis
    by (intro exI [of _ cap]) (subst subtypes_loop.simps, simp add: get_node_eq [OF assms(1)] direct_subtypes_def)
next
  case (Some n)
  have "\<forall>r \<in> set (n_references n). copy_fixed (nodeId (targetId r))"
    using assms(2) node_of_in_stored [OF Some] by (simp add: targets_fixed_def)
  from add_subtypes_eq [OF this, of R cap] obtain cap' where
    "add_subtypes (\<lambda>_. True) (n_references n) R cap = (UA_STATUSCODE_GOOD, R @ map (\<lambda>r. nodeId (targetId r)) (filter is_subtype_ref (n_references n)), cap')" ..
  then show ?thesis
    by (intro exI [of _ "if n_nodeClass n = UA_NODECLASS_REFERENCETYPE then cap' else cap"])
      (subst subtypes_loop.simps, simp add: get_node_eq [OF assms(1)] direct_subtypes_def Some)
qed

text \<open>A loop that ends has put the subtypes of every element behind it in the array, and nothing else.\<close>

definition searched :: "'n UA_NodeStore \<Rightarrow> UA_NodeId list \<Rightarrow> nat \<Rightarrow> bool" where
  "searched ns R k \<longleftrightarrow> (\<forall>j < k. \<forall>c \<in> set (direct_subtypes ns (R ! j)). \<exists>l. j < l \<and> l < length R \<and> R ! l = c)"

lemma searched_step:
  assumes "searched ns R k" "k < length R"
  shows "searched ns (R @ direct_subtypes ns (R ! k)) (k + 1)"
  unfolding searched_def
proof (intro allI impI ballI)
  let ?S = "direct_subtypes ns (R ! k)"
  fix j c assume j: "j < k + 1" and c: "c \<in> set (direct_subtypes ns ((R @ ?S) ! j))"
  show "\<exists>l. j < l \<and> l < length (R @ ?S) \<and> (R @ ?S) ! l = c"
  proof (cases "j = k")
    case True
    then obtain m where "m < length ?S" "?S ! m = c" using c assms(2) by (auto simp: in_set_conv_nth nth_append)
    then show ?thesis using True assms(2) by (intro exI [of _ "length R + m"]) (simp add: nth_append)
  next
    case False
    with j have "j < k" by simp
    with assms c obtain l where "j < l" "l < length R" "R ! l = c" unfolding searched_def by (fastforce simp: nth_append)
    then show ?thesis by (intro exI [of _ l]) (simp add: nth_append)
  qed
qed

lemma subtypes_loop_partial:
  assumes inv: "ns_inv ns" "targets_fixed ns"
    and ret: "subtypes_loop (\<lambda>_. True) ns k R cap = Some (r, R')" and "k < length R" "searched ns R k"
    and "\<forall>i \<in> set R. (root, i) \<in> (subtype_rel ns)\<^sup>*" "root \<in> set R"
  shows "r = UA_STATUSCODE_GOOD \<and> searched ns R' (length R') \<and> (\<forall>i \<in> set R'. (root, i) \<in> (subtype_rel ns)\<^sup>*) \<and> root \<in> set R'"
proof -
  let ?P = "\<lambda>(mem :: nat \<Rightarrow> bool) (ns' :: 'a UA_NodeStore) k R (cap :: nat) y. mem = (\<lambda>_. True) \<longrightarrow> ns' = ns \<longrightarrow> k < length R \<longrightarrow> searched ns R k \<longrightarrow>
      (\<forall>i \<in> set R. (root, i) \<in> (subtype_rel ns)\<^sup>*) \<longrightarrow> root \<in> set R \<longrightarrow>
      fst y = UA_STATUSCODE_GOOD \<and> searched ns (snd y) (length (snd y)) \<and> (\<forall>i \<in> set (snd y). (root, i) \<in> (subtype_rel ns)\<^sup>*) \<and> root \<in> set (snd y)"
  have step: "?P mem ns' k R cap y"
    if IH: "\<And>mem ns' k R cap y. loop mem ns' k R cap = Some y \<Longrightarrow> ?P mem ns' k R cap y"
      and body: "get_node ns' (R ! k) \<bind> (\<lambda>node. let (r, R1, cap1) =
          (case node of None \<Rightarrow> (UA_STATUSCODE_GOOD, R, cap)
           | Some n \<Rightarrow> if n_nodeClass n \<noteq> UA_NODECLASS_REFERENCETYPE then (UA_STATUSCODE_GOOD, R, cap) else add_subtypes mem (n_references n) R cap)
          in if k + 1 < length R1 \<and> r = UA_STATUSCODE_GOOD then loop mem ns' (k + 1) R1 cap1 else Some (r, R1)) = Some y"
    for loop :: "(nat \<Rightarrow> bool) \<Rightarrow> 'a UA_NodeStore \<Rightarrow> nat \<Rightarrow> UA_NodeId list \<Rightarrow> nat \<Rightarrow> (UA_StatusCode \<times> UA_NodeId list) option" and mem ns' k R cap y
  proof (intro impI)
    assume m: "mem = (\<lambda>_. True)" "ns' = ns" and k: "k < length R" "searched ns R k"
      and R: "\<forall>i \<in> set R. (root, i) \<in> (subtype_rel ns)\<^sup>*" "root \<in> set R"
    let ?S = "direct_subtypes ns (R ! k)"
    have reach: "\<forall>i \<in> set (R @ ?S). (root, i) \<in> (subtype_rel ns)\<^sup>*"
      using R(1) k(1) by (auto simp: subtype_rel_def intro: rtrancl_into_rtrancl dest: nth_mem)
    obtain cap1 where res: "(if k + 1 < length (R @ ?S) then loop mem ns' (k + 1) (R @ ?S) cap1 else Some (UA_STATUSCODE_GOOD, R @ ?S)) = Some y"
    proof (cases "\<exists>n. node_of ns (R ! k) = Some n \<and> n_nodeClass n = UA_NODECLASS_REFERENCETYPE")
      case False
      then have S: "?S = []" by (auto simp: direct_subtypes_def split: option.splits)
      show ?thesis using that [of cap, unfolded S append_Nil2] body inv m False by (auto simp: get_node_eq split: option.splits)
    next
      case True
      then obtain n where n: "node_of ns (R ! k) = Some n" "n_nodeClass n = UA_NODECLASS_REFERENCETYPE" by blast
      then have S: "?S = map (\<lambda>r. nodeId (targetId r)) (filter is_subtype_ref (n_references n))" by (simp add: direct_subtypes_def)
      obtain cap1 where "add_subtypes (\<lambda>_. True) (n_references n) R cap = (UA_STATUSCODE_GOOD, R @ ?S, cap1)"
        using add_subtypes_eq inv(2) node_of_in_stored [OF n(1)] unfolding targets_fixed_def S by blast
      then show ?thesis using that [of cap1] body inv m n by (simp add: get_node_eq)
    qed
    then show "fst y = UA_STATUSCODE_GOOD \<and> searched ns (snd y) (length (snd y)) \<and> (\<forall>i \<in> set (snd y). (root, i) \<in> (subtype_rel ns)\<^sup>*) \<and> root \<in> set (snd y)"
    proof (cases "k + 1 < length (R @ ?S)")
      case True
      with res have l: "loop mem ns' (k + 1) (R @ ?S) cap1 = Some y" by (simp only: if_True)
      have "root \<in> set (R @ ?S)" using R(2) by simp
      then show ?thesis
        by (rule IH [OF l, THEN mp, OF m(1), THEN mp, OF m(2), THEN mp, OF True, THEN mp, OF searched_step [OF k(2,1)], THEN mp, OF reach, THEN mp])
    next
      case False
      then have l: "length (R @ ?S) = k + 1" using k(1) by simp
      have y: "y = (UA_STATUSCODE_GOOD, R @ ?S)" using False res by (simp only: if_False option.inject)
      show ?thesis unfolding y fst_conv snd_conv l using reach R(2) searched_step [OF k(2,1)] by simp
    qed
  qed
  from subtypes_loop.raw_induct [where P = ?P, OF step ret] have "?P (\<lambda>_. True) ns k R cap (r, R')" .
  then show ?thesis using assms(4-) unfolding fst_conv snd_conv by blast
qed

lemma searched_closed:
  assumes "searched ns R (length R)" "root \<in> set R" "(root, i) \<in> (subtype_rel ns)\<^sup>*"
  shows "i \<in> set R"
  using assms(3)
proof (induction rule: rtrancl_induct)
  case (step a b)
  then show ?case using assms(1) by (fastforce simp: searched_def subtype_rel_def in_set_conv_nth)
qed (rule assms(2))

text \<open>In a hierarchy without infinite descent the loop ends: the pending elements decrease in the multiset order.\<close>

lemma subtypes_loop_total:
  assumes inv: "ns_inv ns" "targets_fixed ns" and wf: "wf ((subtype_rel ns)\<inverse>)" and k: "k < length R"
  shows "\<exists>R'. subtypes_loop (\<lambda>_. True) ns k R cap = Some (UA_STATUSCODE_GOOD, R')"
  using k
proof (induction "mset (drop k R)" arbitrary: k R cap rule: wf_induct_rule [OF wf_mult1 [OF wf]])
  case (1 k R cap)
  let ?S = "direct_subtypes ns (R ! k)"
  obtain cap' where step: "subtypes_loop (\<lambda>_. True) ns k R cap =
      (if k + 1 < length (R @ ?S) then subtypes_loop (\<lambda>_. True) ns (k + 1) (R @ ?S) cap' else Some (UA_STATUSCODE_GOOD, R @ ?S))"
    using subtypes_loop_step [OF inv] by blast
  show ?case
  proof (cases "k + 1 < length (R @ ?S)")
    case True
    have "mset (drop k R) = add_mset (R ! k) (mset (drop (k + 1) R))" using "1.prems" by (simp add: Cons_nth_drop_Suc [symmetric])
    moreover have "mset (drop (k + 1) (R @ ?S)) = mset (drop (k + 1) R) + mset ?S" using "1.prems" by simp
    moreover have "\<forall>b. b \<in># mset ?S \<longrightarrow> (b, R ! k) \<in> (subtype_rel ns)\<inverse>" by (simp add: subtype_rel_def)
    ultimately have "(mset (drop (k + 1) (R @ ?S)), mset (drop k R)) \<in> mult1 ((subtype_rel ns)\<inverse>)" unfolding mult1_def by blast
    from "1.hyps" [OF this True] show ?thesis using step True by simp
  next
    case False
    then show ?thesis using step by simp
  qed
qed

lemma findSubTypes_loop:
  assumes "ns_inv ns" "copy_fixed root" "node_of ns root = Some n" "n_nodeClass n = UA_NODECLASS_REFERENCETYPE"
  shows "findSubTypes (\<lambda>_. True) ns root = do { (r, R) \<leftarrow> subtypes_loop (\<lambda>_. True) ns 0 [root] 20; Some (r, if r \<noteq> UA_STATUSCODE_GOOD then [] else R) }"
  using assms by (simp add: findSubTypes_def get_node_eq copy_fixed_def)

lemma findSubTypes_acyclic:
  assumes inv: "ns_inv ns" "targets_fixed ns" and root: "copy_fixed root" "node_of ns root = Some n" "n_nodeClass n = UA_NODECLASS_REFERENCETYPE"
    and wf: "wf ((subtype_rel ns)\<inverse>)"
  shows "\<exists>R. findSubTypes (\<lambda>_. True) ns root = Some (UA_STATUSCODE_GOOD, R) \<and> set R = {i. (root, i) \<in> (subtype_rel ns)\<^sup>*}"
proof -
  from subtypes_loop_total [OF inv wf, of 0 "[root]" 20] obtain R where R: "subtypes_loop (\<lambda>_. True) ns 0 [root] 20 = Some (UA_STATUSCODE_GOOD, R)" by auto
  from subtypes_loop_partial [OF inv R, of root] have "searched ns R (length R)" "\<forall>i \<in> set R. (root, i) \<in> (subtype_rel ns)\<^sup>*" "root \<in> set R"
    by (simp_all add: searched_def)
  then show ?thesis using R findSubTypes_loop [OF inv(1) root] by (auto dest: searched_closed)
qed

text \<open>A finite array cannot hold the subtypes of every element behind the element when there is a cycle.\<close>

lemma searched_acyclic:
  assumes "searched ns R (length R)" "x \<in> set R" "(x, x) \<in> (subtype_rel ns)\<^sup>+"
  shows False
proof -
  let ?C = "{j. j < length R \<and> (x, R ! j) \<in> (subtype_rel ns)\<^sup>* \<and> (R ! j, x) \<in> (subtype_rel ns)\<^sup>+}"
  have fin: "finite ?C" by simp
  obtain j where "j < length R" "R ! j = x" using assms(2) by (auto simp: in_set_conv_nth)
  then have "?C \<noteq> {}" using assms(3) by blast
  with fin have max: "Max ?C \<in> ?C" by (rule Max_in)
  let ?m = "Max ?C"
  from max obtain c where c: "(R ! ?m, c) \<in> subtype_rel ns" "(c, x) \<in> (subtype_rel ns)\<^sup>*" by (auto dest: tranclD)
  with max assms(1) obtain l where l: "?m < l" "l < length R" "R ! l = c" by (auto simp: searched_def subtype_rel_def)
  have "(x, c) \<in> (subtype_rel ns)\<^sup>*" using max c(1) by auto
  moreover have "(c, x) \<in> (subtype_rel ns)\<^sup>+" using c(2) assms(3) by auto
  ultimately have "l \<in> ?C" using l by simp
  with Max_ge [OF fin this] l(1) show False by simp
qed

lemma findSubTypes_cyclic:
  assumes inv: "ns_inv ns" "targets_fixed ns" and root: "copy_fixed root" "node_of ns root = Some n" "n_nodeClass n = UA_NODECLASS_REFERENCETYPE"
    and cycle: "(root, x) \<in> (subtype_rel ns)\<^sup>*" "(x, x) \<in> (subtype_rel ns)\<^sup>+"
  shows "findSubTypes (\<lambda>_. True) ns root = None"
proof (cases "subtypes_loop (\<lambda>_. True) ns 0 [root] 20")
  case None
  then show ?thesis using findSubTypes_loop [OF inv(1) root] by simp
next
  case (Some y)
  obtain r R where y: "y = (r, R)" by (cases y)
  from subtypes_loop_partial [OF inv Some [unfolded y], of root] have R: "searched ns R (length R)" "root \<in> set R" by (simp_all add: searched_def)
  from searched_acyclic [OF R(1) searched_closed [OF R cycle(1)] cycle(2)] show ?thesis ..
qed

section \<open>Pages\<close>

text \<open>All references that a description asks for, as they are described to the client.\<close>

definition relevant_node :: "'n UA_NodeStore \<Rightarrow> UA_BrowseDescription \<Rightarrow> UA_NodeId list option \<Rightarrow> UA_ReferenceNode \<Rightarrow> 'n UA_Node_scheme option" where
  "relevant_node ns descr types ref =
     (if browseDirection descr \<noteq> (if isInverse ref then UA_BROWSEDIRECTION_FORWARD else UA_BROWSEDIRECTION_INVERSE) \<and>
         (\<forall>ts. types = Some ts \<longrightarrow> (\<exists>t \<in> set ts. UA_NodeId_equal (referenceTypeId ref) t))
      then (case node_of ns (nodeId (targetId ref)) of
              None \<Rightarrow> None
            | Some n \<Rightarrow> if nodeClassMask descr = 0 \<or> node_class_code (n_nodeClass n) AND nodeClassMask descr \<noteq> 0 then Some n else None)
      else None)"

lemma returnRelevantNode_eq: "ns_inv ns \<Longrightarrow> returnRelevantNode ns descr types ref = Some (relevant_node ns descr types ref)"
  by (auto simp: relevant_node_def returnRelevantNode_def get_node_eq list_ex_iff split: option.splits)

fun all_descriptions ::
  "'n UA_NodeStore \<Rightarrow> UA_BrowseDescription \<Rightarrow> UA_NodeId list option \<Rightarrow> UA_ReferenceNode list \<Rightarrow> UA_ReferenceDescription list" where
  "all_descriptions ns descr types [] = []"
| "all_descriptions ns descr types (ref # refs) = (case relevant_node ns descr types ref of
     None \<Rightarrow> all_descriptions ns descr types refs
   | Some n \<Rightarrow> snd (fillReferenceDescription (\<lambda>_. True) n ref (resultMask descr)) # all_descriptions ns descr types refs)"

text \<open>The descriptions can be copied.\<close>

definition describable :: "'n UA_NodeStore \<Rightarrow> UA_BrowseDescription \<Rightarrow> UA_NodeId list option \<Rightarrow> UA_ReferenceNode list \<Rightarrow> bool" where
  "describable ns descr types refs \<longleftrightarrow> (\<forall>ref \<in> set refs. \<forall>n. relevant_node ns descr types ref = Some n \<longrightarrow>
     fst (fillReferenceDescription (\<lambda>_. True) n ref (resultMask descr)) = UA_STATUSCODE_GOOD)"

lemma length_all_descriptions: "length (all_descriptions ns descr types refs) \<le> length refs"
  by (induction refs) (auto split: option.splits)

lemma browse_loop_eq:
  assumes "ns_inv ns" "describable ns descr types refs" "length acc \<le> m" "sk \<le> c"
  shows "\<exists>i. browse_loop (\<lambda>_. True) ns descr types m c refs idx sk acc UA_STATUSCODE_GOOD =
      Some (UA_STATUSCODE_GOOD, acc @ take (m - length acc) (drop (c - sk) (all_descriptions ns descr types refs)), i) \<and>
    (i = idx + length refs \<longrightarrow> length (all_descriptions ns descr types refs) - (c - sk) \<le> m - length acc) \<and>
    (i \<noteq> idx + length refs \<longrightarrow> m - length acc \<le> length (all_descriptions ns descr types refs) - (c - sk))"
    (is "\<exists>i. ?Q i refs idx sk acc")
  using assms(2-)
proof (induction refs arbitrary: idx sk acc)
  case (Cons ref refs)
  have dd: "describable ns descr types refs" using Cons.prems(1) by (simp add: describable_def)
  show ?case
  proof (cases "length acc < m")
    case False
    then have "m = length acc" using Cons.prems(2) by simp
    then show ?thesis by simp
  next
    case True
    show ?thesis
    proof (cases "relevant_node ns descr types ref")
      case None
      from Cons.IH [OF dd Cons.prems(2,3), of "idx + 1"] obtain i where "?Q i refs (idx + 1) sk acc" ..
      then show ?thesis using None True by (intro exI [of _ i]) (simp add: returnRelevantNode_eq [OF assms(1)])
    next
      case (Some n)
      then have "fst (fillReferenceDescription (\<lambda>_. True) n ref (resultMask descr)) = UA_STATUSCODE_GOOD"
        using Cons.prems(1) by (simp add: describable_def)
      then obtain d where fill: "fillReferenceDescription (\<lambda>_. True) n ref (resultMask descr) = (UA_STATUSCODE_GOOD, d)"
        by (metis prod.collapse)
      show ?thesis
      proof (cases "sk < c")
        case sk: True
        then have "c - sk = Suc (c - Suc sk)" by simp
        moreover from Cons.IH [OF dd Cons.prems(2) Suc_leI [OF sk], of "idx + 1"] obtain i where "?Q i refs (idx + 1) (Suc sk) acc" ..
        ultimately show ?thesis using Some True sk by (intro exI [of _ i]) (simp add: returnRelevantNode_eq [OF assms(1)])
      next
        case False
        have m: "m - length acc = Suc (m - length (acc @ [d]))" and "length (acc @ [d]) \<le> m" using True by simp_all
        with Cons.IH [OF dd _ Cons.prems(3), of "acc @ [d]" "idx + 1"] obtain i where "?Q i refs (idx + 1) sk (acc @ [d])" by blast
        then show ?thesis using Some fill m True False Cons.prems(3)
          by (intro exI [of _ i]) (simp add: returnRelevantNode_eq [OF assms(1)])
      qed
    qed
  qed
qed simp

text \<open>One page: \<open>cont\<close> descriptions are skipped.\<close>

lemma browse_page:
  assumes "ns_inv ns" "describable ns descr types refs"
  obtains i where "browse_loop (\<lambda>_. True) ns descr types m cont refs 0 0 [] UA_STATUSCODE_GOOD =
      Some (UA_STATUSCODE_GOOD, take m (drop cont (all_descriptions ns descr types refs)), i)"
    "i = length refs \<longrightarrow> length (all_descriptions ns descr types refs) \<le> cont + m"
    "i \<noteq> length refs \<longrightarrow> cont + m \<le> length (all_descriptions ns descr types refs) \<or> m = 0"
proof -
  from browse_loop_eq [OF assms, of "[]" m 0 cont 0] obtain i where
    "browse_loop (\<lambda>_. True) ns descr types m cont refs 0 0 [] UA_STATUSCODE_GOOD =
      Some (UA_STATUSCODE_GOOD, take m (drop cont (all_descriptions ns descr types refs)), i)"
    "i = length refs \<longrightarrow> length (all_descriptions ns descr types refs) - cont \<le> m"
    "i \<noteq> length refs \<longrightarrow> m \<le> length (all_descriptions ns descr types refs) - cont" by auto
  then show ?thesis using that [of i] by linarith
qed

section \<open>Browse paths\<close>

text \<open>The nodes one step along a path, and the targets of a path.\<close>

definition types_of :: "'n UA_NodeStore \<Rightarrow> UA_RelativePathElement \<Rightarrow> UA_NodeId list option" where
  "types_of ns elem = (case path_types (\<lambda>_. True) ns elem of None \<Rightarrow> None | Some (_, types) \<Rightarrow> types)"

fun next_nodes :: "'n UA_NodeStore \<Rightarrow> UA_RelativePathElement \<Rightarrow> UA_NodeId list option \<Rightarrow> UA_ReferenceNode list \<Rightarrow> 'n UA_Node_scheme list" where
  "next_nodes ns elem types [] = []"
| "next_nodes ns elem types (ref # refs) =
     (case node_of ns (nodeId (targetId ref)) of
        Some n \<Rightarrow> if reference_matches elem types ref \<and> has_browse_name (targetName elem) n then [n] else []
      | None \<Rightarrow> []) @ next_nodes ns elem types refs"

fun path_targets :: "'n UA_NodeStore \<Rightarrow> UA_RelativePathElement list \<Rightarrow> 'n UA_Node_scheme \<Rightarrow> UA_NodeId list" where
  "path_targets ns [] n = [n_nodeId n]"
| "path_targets ns (elem # path) n = concat (map (path_targets ns path) (next_nodes ns elem (types_of ns elem) (n_references n)))"

definition types_found :: "'n UA_NodeStore \<Rightarrow> UA_RelativePathElement \<Rightarrow> bool" where
  "types_found ns elem \<longleftrightarrow> (\<exists>types. path_types (\<lambda>_. True) ns elem = Some (UA_STATUSCODE_GOOD, types))"

text \<open>The array of the targets has ten places.\<close>

definition put_targets :: "UA_NodeId list \<Rightarrow> (UA_StatusCode \<times> UA_NodeId list) option" where
  "put_targets targets = (if length targets \<le> 10 then Some (UA_STATUSCODE_GOOD, targets) else None)"

lemma next_nodes_stored: "set (next_nodes ns elem types refs) \<subseteq> stored ns"
  by (induction refs) (auto dest: node_of_in_stored [OF sym] split: option.splits)

lemma walk_refs_eq:
  assumes "ns_inv ns" "\<And>n ts. n \<in> set (next_nodes ns elem types refs) \<Longrightarrow> length ts \<le> 10 \<Longrightarrow> walk n ts = put_targets (ts @ f n)"
    "length targets \<le> 10"
  shows "walk_refs ns elem types walk refs targets = put_targets (targets @ concat (map f (next_nodes ns elem types refs)))"
  using assms(2-)
proof (induction refs arbitrary: targets)
  case (Cons ref refs)
  show ?case
  proof (cases "\<exists>n. node_of ns (nodeId (targetId ref)) = Some n \<and> reference_matches elem types ref \<and> has_browse_name (targetName elem) n")
    case True
    then obtain n where n: "node_of ns (nodeId (targetId ref)) = Some n" "reference_matches elem types ref" "has_browse_name (targetName elem) n" by blast
    then have "walk n targets = put_targets (targets @ f n)" using Cons.prems by simp
    then show ?thesis using n Cons.IH [of "targets @ f n"] Cons.prems(1)
      by (auto simp: get_node_eq [OF assms(1)] put_targets_def)
  next
    case False
    then show ?thesis using Cons.IH [of targets] Cons.prems by (auto simp: get_node_eq [OF assms(1)] split: option.splits)
  qed
qed (simp add: put_targets_def)

lemma walkBrowsePath_eq:
  assumes "ns_inv ns" "targets_fixed ns" "path \<noteq> []" "\<forall>elem \<in> set path. types_found ns elem" "length targets \<le> 10"
  shows "walkBrowsePath (\<lambda>_. True) ns path n targets = put_targets (targets @ path_targets ns path n)"
  using assms(3-)
proof (induction path arbitrary: n targets)
  case (Cons elem path)
  from Cons.prems(2) have types: "path_types (\<lambda>_. True) ns elem = Some (UA_STATUSCODE_GOOD, types_of ns elem)"
    by (auto simp: types_found_def types_of_def)
  have walk: "(if path = [] then add_target (\<lambda>_. True) else walkBrowsePath (\<lambda>_. True) ns path) m ts = put_targets (ts @ path_targets ns path m)"
    if "m \<in> stored ns" "length ts \<le> 10" for m ts
    using that Cons.IH [of ts m] Cons.prems(2) assms(2)
    by (auto simp: targets_fixed_def copy_fixed_def add_target_def put_targets_def)
  have "walkBrowsePath (\<lambda>_. True) ns (elem # path) n targets = walk_refs ns elem (types_of ns elem)
      (if path = [] then add_target (\<lambda>_. True) else walkBrowsePath (\<lambda>_. True) ns path) (n_references n) targets"
    by (simp only: walkBrowsePath.simps types bind.bind_lunit prod.case simp_thms if_False)
  also have "\<dots> = put_targets (targets @ concat (map (path_targets ns path) (next_nodes ns elem (types_of ns elem) (n_references n))))"
    using next_nodes_stored by (intro walk_refs_eq [OF assms(1) walk Cons.prems(3)]) blast+
  finally show ?case by simp
qed simp

section \<open>Address spaces given by a list of nodes\<close>

definition store_of :: "'n UA_Node_scheme list \<Rightarrow> 'n UA_NodeStore" where
  "store_of vs = the (nodestore.ins_all empty_store vs)"

lemma store_of:
  fixes vs :: "'n UA_Node_scheme list"
  assumes "list_all insertable vs" "length vs \<le> 8388607" "distinct (map (\<lambda>v. norm_NodeId (n_nodeId v)) vs)"
  shows "ns_inv (store_of vs)" "\<And>v. v \<in> set vs \<Longrightarrow> node_of (store_of vs) (n_nodeId v) = Some v"
    "\<And>k. hashable k \<Longrightarrow> \<forall>v \<in> set vs. \<not> UA_NodeId_equal (n_nodeId v) k \<Longrightarrow> node_of (store_of vs) k = None"
proof -
  let ?empty = "empty_store :: 'n UA_NodeStore"
  have inv: "ns_inv ?empty" by (rule built_inv [OF built_empty])
  have none: "node_of ?empty i = None" if "hashable i" for i
    using node_of_absent [OF inv that] by (simp add: absent_def stored_def empty_store_def)
  have "\<forall>v \<in> set vs. insertable v \<and> node_of ?empty (n_nodeId v) = None"
    using assms(1) none by (simp add: list_all_iff insertable_def)
  from nodestore.ins_all_lookup [OF inv this _ assms(3)] assms(2) none
  show "ns_inv (store_of vs)" "\<And>v. v \<in> set vs \<Longrightarrow> node_of (store_of vs) (n_nodeId v) = Some v"
    "\<And>k. hashable k \<Longrightarrow> \<forall>v \<in> set vs. \<not> UA_NodeId_equal (n_nodeId v) k \<Longrightarrow> node_of (store_of vs) k = None"
    by (auto simp: store_of_def capacity_def empty_store_def)
qed

lemma stored_store_of:
  assumes "list_all insertable vs" "length vs \<le> 8388607" "distinct (map (\<lambda>v. norm_NodeId (n_nodeId v)) vs)"
  shows "stored (store_of vs) \<subseteq> set vs"
proof
  note s = store_of [OF assms]
  fix n assume n: "n \<in> stored (store_of vs)"
  then have h: "hashable (n_nodeId n)" by (rule inv_hashable [OF s(1)])
  from n have look: "node_of (store_of vs) (n_nodeId n) = Some n" by (simp add: node_of_stored [OF s(1) h] UA_NodeId_equal_refl)
  with s(3) [OF h] obtain v where "v \<in> set vs" "UA_NodeId_equal (n_nodeId v) (n_nodeId n)" by fastforce
  moreover from this(1) have "v \<in> stored (store_of vs)" by (rule node_of_in_stored [OF s(2)])
  ultimately show "n \<in> set vs" using look node_of_stored [OF s(1) h, of v] by auto
qed

end
