(* ===== verification/Ua_View_Theorems.thy ===== *)
theory Ua_View_Theorems
  imports Ua_View_Laws
begin

text \<open>
  The properties of the view services: complete pages over continuation points, complete sets of
  subtypes, and the translation of browse paths.
\<close>

section \<open>Continuation points\<close>

text \<open>A description that can be browsed: the node, its types and its descriptions exist.\<close>

definition browsable :: "'n UA_NodeStore \<Rightarrow> UA_BrowseDescription \<Rightarrow> UA_NodeId list option \<Rightarrow> 'n UA_Node_scheme \<Rightarrow> bool" where
  "browsable ns descr types node \<longleftrightarrow> ns_inv ns \<and>
     browseDirection descr \<in> {UA_BROWSEDIRECTION_BOTH, UA_BROWSEDIRECTION_FORWARD, UA_BROWSEDIRECTION_INVERSE} \<and>
     relevant_types (\<lambda>_. True) ns descr = Some (UA_STATUSCODE_GOOD, types) \<and> node_of ns (bd_nodeId descr) = Some node \<and>
     describable ns descr types (n_references node) \<and> n_references node \<noteq> [] \<and>
     memSize (UA_TYPES ! UA_TYPES_REFERENCEDESCRIPTION) * length (n_references node) \<le> MAX_ARRAY_SIZE"

lemma view_sizes: "memSize (UA_TYPES ! UA_TYPES_REFERENCEDESCRIPTION) = 192" "memSize (UA_TYPES ! UA_TYPES_BROWSERESULT) = 40"
  "memSize (UA_TYPES ! UA_TYPES_BROWSEPATHRESULT) = 24"
  by code_simp+

definition single_references ::
  "'n UA_NodeStore \<Rightarrow> UA_BrowseDescription \<Rightarrow> UA_NodeId list option \<Rightarrow> 'n UA_Node_scheme \<Rightarrow> UA_ReferenceDescription list" where
  "single_references ns descr types node = all_descriptions ns descr types (n_references node)"

lemma single_page:
  assumes "browsable ns descr types node" and c: "case cp of None \<Rightarrow> descr0 = descr \<and> max0 = m | Some c \<Rightarrow> browseDescription c = descr \<and> maxReferences c = m"
    and m: "m \<noteq> 0" and k: "k = (case cp of None \<Rightarrow> 0 | Some c \<Rightarrow> unat (continuationIndex c))"
  obtains complete where "Service_Browse_single (\<lambda>_. True) guid ns session cp descr0 max0 =
      browse_finish (\<lambda>_. True) guid session cp descr m complete
        (take (min (unat m) (length (n_references node))) (drop k (single_references ns descr types node)))"
    "complete \<longrightarrow> length (single_references ns descr types node) \<le> k + min (unat m) (length (n_references node))"
    "\<not> complete \<longrightarrow> k + min (unat m) (length (n_references node)) \<le> length (single_references ns descr types node)"
proof -
  let ?l = "length (n_references node)" and ?m = "min (unat m) (length (n_references node))"
  have b: "ns_inv ns" "describable ns descr types (n_references node)" "n_references node \<noteq> []" and mem: "UA_Array_new (\<lambda>_. True) ?m UA_TYPES_REFERENCEDESCRIPTION"
    using assms(1) by (auto simp: browsable_def UA_Array_new_def view_sizes)
  from m have pos: "?m \<noteq> 0" using b(3) by (simp add: min_def unat_gt_0)
  obtain i where i: "browse_loop (\<lambda>_. True) ns descr types ?m k (n_references node) 0 0 [] UA_STATUSCODE_GOOD =
      Some (UA_STATUSCODE_GOOD, take ?m (drop k (single_references ns descr types node)), i)"
    "i = ?l \<longrightarrow> length (single_references ns descr types node) \<le> k + ?m"
    "i \<noteq> ?l \<longrightarrow> k + ?m \<le> length (single_references ns descr types node) \<or> ?m = 0"
    by (rule browse_page [OF b(1,2), of ?m k, folded single_references_def])
  have "(if unat m > ?l then ?l else unat m) = ?m" by simp
  then have "Service_Browse_single (\<lambda>_. True) guid ns session cp descr0 max0 =
      browse_finish (\<lambda>_. True) guid session cp descr m (i = ?l) (take ?m (drop k (single_references ns descr types node)))"
    using assms mem b(3) i(1) by (cases cp) (auto simp: Service_Browse_single_def browsable_def get_node_eq Let_def)
  then show ?thesis by (rule that) (use i(2,3) pos in blast)+
qed

text \<open>A client that asks for the next page as long as it is given a continuation point.\<close>

fun follow :: "nat \<Rightarrow> 'n UA_NodeStore \<Rightarrow> cp_session \<Rightarrow> UA_ByteString \<Rightarrow> (UA_ReferenceDescription list \<times> cp_session) option" where
  "follow rounds ns session Null_ptr = Some ([], session)"
| "follow 0 ns session p = None"
| "follow (Suc rounds) ns session p = do {
     (r, results, session1) \<leftarrow> Service_BrowseNext (\<lambda>_. True) ns session False [p];
     (case results of
        [res] \<Rightarrow> if br_statusCode res \<noteq> UA_STATUSCODE_GOOD then None
                 else do { (ds, session2) \<leftarrow> follow rounds ns session1 (br_continuationPoint res); Some (br_references res @ ds, session2) }
      | _ \<Rightarrow> None) }"

lemma guid_copy: "length bs = 16 \<Longrightarrow> UA_String_copy (\<lambda>_. True) (Block bs) = (UA_STATUSCODE_GOOD, Block bs)"
  by (cases bs) (auto simp: UA_String_copy_def UA_Array_copy_def MAX_ARRAY_SIZE_def)

lemma BrowseNext_head:
  assumes "cp_identifier c = Block bs" "continuationPoints session = c # cps"
  shows "Service_BrowseNext (\<lambda>_. True) ns session False [Block bs] =
    map_option (\<lambda>(res, s). (UA_STATUSCODE_GOOD, [res], s))
      (Service_Browse_single (\<lambda>_. True) Null_ptr ns session (Some c) (browseDescription c) 0)"
proof -
  have "UA_Array_new (\<lambda>_. True) 1 UA_TYPES_BROWSERESULT" by (simp add: UA_Array_new_def view_sizes MAX_ARRAY_SIZE_def)
  moreover have "UA_ByteString_equal (Block bs) (Block bs)" by (simp add: UA_ByteString_equal_def UA_String_equal_def)
  ultimately show ?thesis using assms
    by (cases "Service_Browse_single (\<lambda>_. True) Null_ptr ns session (Some c) (browseDescription c) 0")
      (auto simp: Service_BrowseNext_def)
qed

lemma follow_pages:
  assumes b: "browsable ns descr types node" and m: "m \<noteq> 0" "unat m \<le> length (n_references node)" and bs: "length bs = 16"
    and k: "k \<le> length (single_references ns descr types node)" and rounds: "length (single_references ns descr types node) - k < rounds"
  shows "follow rounds ns (session\<lparr>cp_available := cp_available session - 1, continuationPoints := \<lparr>cp_identifier = Block bs, browseDescription = descr,
          continuationIndex = word_of_nat k, maxReferences = m\<rparr> # continuationPoints session\<rparr>) (Block bs) =
     Some (drop k (single_references ns descr types node), session)"
  using k rounds
proof (induction rounds arbitrary: k)
  case (Suc rounds)
  let ?D = "single_references ns descr types node"
  let ?c = "\<lambda>k. \<lparr>cp_identifier = Block bs, browseDescription = descr, continuationIndex = word_of_nat k, maxReferences = m\<rparr>"
  let ?s = "\<lambda>k. session\<lparr>cp_available := cp_available session - 1, continuationPoints := ?c k # continuationPoints session\<rparr>"
  have len: "length ?D < 2 ^ 32" using b length_all_descriptions [of ns descr types "n_references node"]
    by (simp add: browsable_def single_references_def view_sizes MAX_ARRAY_SIZE_def)
  then have k: "unat (word_of_nat k :: UA_UInt32) = k" using Suc.prems(1) by (simp add: unat_of_nat)
  have pos: "0 < unat m" using m(1) by (simp add: unat_gt_0)
  have nxt: "Service_BrowseNext (\<lambda>_. True) ns (?s k) False [Block bs] =
      map_option (\<lambda>(res, s). (UA_STATUSCODE_GOOD, [res], s)) (Service_Browse_single (\<lambda>_. True) Null_ptr ns (?s k) (Some (?c k)) descr 0)"
    using BrowseNext_head [of "?c k" bs "?s k" "continuationPoints session" ns] by simp
  obtain complete where page: "Service_Browse_single (\<lambda>_. True) Null_ptr ns (?s k) (Some (?c k)) descr 0 =
        browse_finish (\<lambda>_. True) Null_ptr (?s k) (Some (?c k)) descr m complete (take (unat m) (drop k ?D))"
    and complete: "complete \<longrightarrow> length ?D \<le> k + unat m" "\<not> complete \<longrightarrow> k + unat m \<le> length ?D"
    by (rule single_page [OF b, where cp = "Some (?c k)" and m = m and k = k and guid = Null_ptr and session = "?s k" and ?descr0.0 = descr and ?max0.0 = 0])
      (use m k in \<open>simp_all add: min_absorb1\<close>)
  show ?case
  proof (cases complete)
    case True
    then show ?thesis using nxt page complete(1) by (simp add: browse_finish_def browse_result_def removeCp_def)
  next
    case False
    then have "follow rounds ns (?s (k + unat m)) (Block bs) = Some (drop (k + unat m) ?D, session)"
      using Suc.IH [of "k + unat m"] Suc.prems complete(2) pos by simp
    moreover have "take (unat m) (drop k ?D) @ drop (k + unat m) ?D = drop k ?D" by (metis add.commute append_take_drop_id drop_drop)
    ultimately show ?thesis using False nxt page complete(2)
      by (simp add: browse_finish_def browse_result_def updateCp_def guid_copy [OF bs] min_absorb2)
  qed
qed simp

text \<open>
  C21: paging loses nothing and repeats nothing. When a client browses one node with a limit
  \<open>maxrefs\<close> on the references per answer, and asks for the next page as long as it is given a
  continuation point, it receives, in the order of the node's references, exactly one description
  for every reference that matches the description (direction, reference type, existing target of
  a wanted node class); afterwards the session has its former continuation points again, and as
  many of them available. One round per reference is enough.
\<close>

theorem browse_pages_complete:
  assumes "browsable ns descr types node" "copy_fixed (bd_nodeId descr)" "copy_fixed (bd_referenceTypeId descr)"
    and "maxrefs \<noteq> 0" "guids 0 = Block bs" "length bs = 16" "cp_available session \<noteq> 0"
  shows "\<exists>res ds session1. Service_Browse (\<lambda>_. True) guids ns session UA_NODEID_NULL maxrefs [descr] = Some (UA_STATUSCODE_GOOD, [res], session1) \<and>
    br_statusCode res = UA_STATUSCODE_GOOD \<and>
    follow (length (n_references node) + 1) ns session1 (br_continuationPoint res) = Some (ds, session) \<and>
    br_references res @ ds = all_descriptions ns descr types (n_references node)"
proof -
  let ?D = "single_references ns descr types node"
  have D: "length ?D \<le> length (n_references node)" by (simp add: single_references_def length_all_descriptions)
  have new: "UA_Array_new (\<lambda>_. True) 1 UA_TYPES_BROWSERESULT" by (simp add: UA_Array_new_def view_sizes MAX_ARRAY_SIZE_def)
  have copy: "BrowseDescription_copy (\<lambda>_. True) descr = (UA_STATUSCODE_GOOD, descr)"
    using assms(2,3) by (simp add: copy_fixed_def BrowseDescription_copy_def UA_STATUSCODE_GOOD_def)
  have null: "UA_NodeId_isNull UA_NODEID_NULL" by code_simp
  obtain complete where page: "Service_Browse_single (\<lambda>_. True) (Block bs) ns session None descr maxrefs =
      browse_finish (\<lambda>_. True) (Block bs) session None descr maxrefs complete (take (min (unat maxrefs) (length (n_references node))) ?D)"
    and "complete \<longrightarrow> length ?D \<le> min (unat maxrefs) (length (n_references node))"
      "\<not> complete \<longrightarrow> min (unat maxrefs) (length (n_references node)) \<le> length ?D"
    by (rule single_page [OF assms(1), where cp = None and m = maxrefs and k = 0 and guid = "Block bs" and session = session
          and ?descr0.0 = descr and ?max0.0 = maxrefs]) (use assms(4) in simp_all)
  show ?thesis
  proof (cases "unat maxrefs \<le> length ?D")
    case True
    then have "min (unat maxrefs) (length (n_references node)) = unat maxrefs" using D by simp
    moreover from follow_pages [OF assms(1,4) _ assms(6) True, of "length (n_references node) + 1" session] True D
    have "follow (length (n_references node) + 1) ns (session\<lparr>cp_available := cp_available session - 1,
        continuationPoints := \<lparr>cp_identifier = Block bs, browseDescription = descr, continuationIndex = maxrefs, maxReferences = maxrefs\<rparr>
          # continuationPoints session\<rparr>) (Block bs) = Some (drop (unat maxrefs) ?D, session)" by simp
    ultimately show ?thesis using page True new null assms(4,5,7) guid_copy [OF assms(6)] copy
      by (cases session) (simp add: Service_Browse_def browse_finish_def browse_result_def single_references_def min_absorb2)
  next
    case False
    then have "take (min (unat maxrefs) (length (n_references node))) ?D = ?D" using D by simp
    then show ?thesis using page False new null assms(5)
      by (simp add: Service_Browse_def browse_finish_def browse_result_def single_references_def)
  qed
qed

section \<open>Continuation points are accounted for\<close>

definition cp_total :: "cp_session \<Rightarrow> nat" where
  "cp_total session = length (continuationPoints session) + unat (cp_available session)"

lemma length_replace_cp: "length (replace_cp c c' cs) = length cs"
  by (induction cs) auto

lemma browse_finish_total:
  assumes "browse_finish mem guid session cp descr m complete refs = Some (res, session')" "cp_total session < 2 ^ 16"
    "\<forall>c. cp = Some c \<longrightarrow> c \<in> set (continuationPoints session)"
  shows "cp_total session' = cp_total session"
proof (cases cp)
  case None
  have "unat (cp_available session - 1) + 1 = unat (cp_available session)" if "cp_available session \<noteq> 0"
    using that by (simp add: unat_minus_one unat_gt_0)
  then show ?thesis using assms(1) None by (auto simp: browse_finish_def cp_total_def Let_def split: if_splits)
next
  case (Some c)
  then have c: "c \<in> set (continuationPoints session)" using assms(3) by simp
  then have "0 < length (continuationPoints session)" by (cases "continuationPoints session") auto
  with assms(2) have "unat (cp_available session) + 1 < 2 ^ 16" unfolding cp_total_def by linarith
  then have "unat (cp_available session + 1) = unat (cp_available session) + 1" by (simp add: unat_word_ariths)
  with c Some assms(1) \<open>0 < _\<close> show ?thesis
    by (auto simp: browse_finish_def cp_total_def removeCp_def updateCp_def length_replace_cp length_remove1 Let_def split: if_splits)
qed

lemma browse_single_total:
  assumes "Service_Browse_single mem guid ns session cp descr m = Some (res, session')" "cp_total session < 2 ^ 16"
    "\<forall>c. cp = Some c \<longrightarrow> c \<in> set (continuationPoints session)"
  shows "cp_total session' = cp_total session"
proof -
  have "always (\<lambda>(res, s). cp_total s = cp_total session) (Service_Browse_single mem guid ns session cp descr m)"
    unfolding Service_Browse_single_def Let_def
    by (intro always_rules always_Some alwaysI) (auto dest: browse_finish_total [OF _ assms(2,3)])
  from alwaysD [OF this assms(1)] show ?thesis by simp
qed

lemma browse_all_total:
  "browse_all mem guids ns m i ds session = Some (rs, session') \<Longrightarrow> cp_total session < 2 ^ 16 \<Longrightarrow> cp_total session' = cp_total session"
  by (induction ds arbitrary: i session rs) (auto simp: bind_eq_Some_conv dest!: browse_single_total)

lemma removeCp_total:
  assumes "c \<in> set (continuationPoints session)" "cp_total session < 2 ^ 16"
  shows "cp_total (removeCp c session) = cp_total session"
  using browse_finish_total [of "\<lambda>_. True" Null_ptr session "Some c" undefined 0 True "[]"] assms
  by (simp add: browse_finish_def)

lemma browse_next_all_total:
  "browse_next_all mem ns release ps session = Some (rs, session') \<Longrightarrow> cp_total session < 2 ^ 16 \<Longrightarrow> cp_total session' = cp_total session"
proof (induction ps arbitrary: session rs)
  case (Cons p ps)
  let ?s = "case find (\<lambda>c. UA_ByteString_equal (cp_identifier c) p) (continuationPoints session) of
      None \<Rightarrow> Some (browse_result UA_STATUSCODE_BADCONTINUATIONPOINTINVALID, session)
    | Some cp \<Rightarrow> if \<not> release then Service_Browse_single mem Null_ptr ns session (Some cp) (browseDescription cp) 0
        else Some (browse_result UA_STATUSCODE_GOOD, removeCp cp session)"
  from Cons.prems(1) obtain res s1 rs1 where 1: "?s = Some (res, s1)" "browse_next_all mem ns release ps s1 = Some (rs1, session')"
    unfolding browse_next_all.simps by (auto simp: bind_eq_Some_conv)
  have "cp_total s1 = cp_total session"
  proof (cases "find (\<lambda>c. UA_ByteString_equal (cp_identifier c) p) (continuationPoints session)")
    case (Some c)
    then have "c \<in> set (continuationPoints session)" by (auto simp: find_Some_iff)
    then show ?thesis using 1(1) Some browse_single_total [OF _ Cons.prems(2), of mem Null_ptr ns "Some c"] removeCp_total [OF _ Cons.prems(2)]
      by (auto split: if_splits)
  qed (use 1(1) in simp)
  then show ?case using Cons.IH [OF 1(2)] Cons.prems(2) by simp
qed simp

text \<open>
  C23: the continuation points of a session are accounted for. Whatever is browsed, continued or
  released, with whatever memory and result, the number of stored continuation points and the
  counter of available ones add up to the same total, so a session never holds more of them than
  it was created with and the 16-bit counter never wraps.
\<close>

theorem continuation_points_bounded:
  assumes "cp_total session < 2 ^ 16"
  shows "(Service_Browse mem guids ns session viewId maxrefs nodesToBrowse = Some (r1, results1, session1) \<longrightarrow> cp_total session1 = cp_total session) \<and>
    (Service_BrowseNext mem ns session release points = Some (r2, results2, session2) \<longrightarrow> cp_total session2 = cp_total session)"
  using browse_all_total [OF _ assms] browse_next_all_total [OF _ assms]
  by (auto simp: Service_Browse_def Service_BrowseNext_def bind_eq_Some_conv split: if_splits)

section \<open>An example\<close>

definition example_ref :: "UA_UInt32 \<Rightarrow> UA_UInt32 \<Rightarrow> UA_ReferenceNode" where
  "example_ref t i = \<lparr>referenceTypeId = numeric_id 0 t, isInverse = False, targetId = UA_EXPANDEDNODEID_NULL\<lparr>nodeId := numeric_id 0 i\<rparr>\<rparr>"

definition example_node :: "UA_UInt32 \<Rightarrow> UA_NodeClass \<Rightarrow> UA_ReferenceNode list \<Rightarrow> UA_Node" where
  "example_node i c refs = (plain_node (numeric_id 0 i))\<lparr>n_nodeClass := c, n_references := refs\<rparr>"

text \<open>A reference type with a subtype, and an object with two components.\<close>

definition example_space :: "UA_Node list" where
  "example_space = [example_node 33 UA_NODECLASS_REFERENCETYPE [example_ref 45 35], example_node 35 UA_NODECLASS_REFERENCETYPE [],
     example_node 85 UA_NODECLASS_OBJECT [example_ref 35 86, example_ref 35 87], example_node 86 UA_NODECLASS_OBJECT [],
     example_node 87 UA_NODECLASS_OBJECT []]"

lemma example_space_ok:
  "list_all insertable example_space" "length example_space \<le> 8388607" "distinct (map (\<lambda>v. norm_NodeId (n_nodeId v)) example_space)"
  by (simp_all add: example_space_def example_node_def insertable_def null_id_def hashable_def UA_NodeId_isNull_def norm_NodeId_def)

lemmas example_store = store_of [OF example_space_ok] stored_store_of [OF example_space_ok]

lemma example_fixed: "copy_fixed (numeric_id 0 i)"
  by (simp add: copy_fixed_def NodeId_copy_def)

lemma example_sel [simp]:
  "n_nodeId (example_node i c refs) = numeric_id 0 i" "n_nodeClass (example_node i c refs) = c" "n_references (example_node i c refs) = refs"
  "n_browseName (example_node i c refs) = \<lparr>qn_namespaceIndex = 0, qn_name = Null_ptr\<rparr>"
  "nodeId (targetId (example_ref t i)) = numeric_id 0 i" "referenceTypeId (example_ref t i) = numeric_id 0 t" "\<not> isInverse (example_ref t i)"
  by (simp_all add: example_node_def example_ref_def)

lemma example_stored: "(\<And>n. n \<in> set example_space \<Longrightarrow> P n) \<Longrightarrow> n \<in> stored (store_of example_space) \<Longrightarrow> P n"
  using example_store(4) by blast

lemma example_targets: "targets_fixed (store_of example_space)"
  unfolding targets_fixed_def by (intro ballI, erule example_stored [rotated]) (auto simp: example_space_def example_fixed)

lemma example_nodes [simp]:
  "node_of (store_of example_space) (numeric_id 0 33) = Some (example_node 33 UA_NODECLASS_REFERENCETYPE [example_ref 45 35])"
  "node_of (store_of example_space) (numeric_id 0 35) = Some (example_node 35 UA_NODECLASS_REFERENCETYPE [])"
  "node_of (store_of example_space) (numeric_id 0 85) = Some (example_node 85 UA_NODECLASS_OBJECT [example_ref 35 86, example_ref 35 87])"
  "node_of (store_of example_space) (numeric_id 0 86) = Some (example_node 86 UA_NODECLASS_OBJECT [])"
  "node_of (store_of example_space) (numeric_id 0 87) = Some (example_node 87 UA_NODECLASS_OBJECT [])"
  using example_store(2) [of "example_node 33 UA_NODECLASS_REFERENCETYPE [example_ref 45 35]"]
    example_store(2) [of "example_node 35 UA_NODECLASS_REFERENCETYPE []"]
    example_store(2) [of "example_node 85 UA_NODECLASS_OBJECT [example_ref 35 86, example_ref 35 87]"]
    example_store(2) [of "example_node 86 UA_NODECLASS_OBJECT []"] example_store(2) [of "example_node 87 UA_NODECLASS_OBJECT []"]
  by (simp_all add: example_space_def)

definition example_description :: UA_BrowseDescription where
  "example_description = \<lparr>bd_nodeId = numeric_id 0 85, browseDirection = UA_BROWSEDIRECTION_FORWARD, bd_referenceTypeId = numeric_id 0 33,
     bd_includeSubtypes = True, nodeClassMask = 0, resultMask = 0\<rparr>"

lemma example_wf: "wf ((subtype_rel (store_of example_space))\<inverse>)"
proof (rule wf_subset [of "measure (\<lambda>i. if i = numeric_id 0 35 then 0 else 1)"])
  have sub: "b = numeric_id 0 35 \<and> a \<noteq> numeric_id 0 35" if "(a, b) \<in> subtype_rel (store_of example_space)" for a b
  proof -
    from that obtain n r where n: "node_of (store_of example_space) a = Some n" "r \<in> set (n_references n)" "is_subtype_ref r" "b = nodeId (targetId r)"
      by (force simp: subtype_rel_def direct_subtypes_def split: option.splits if_splits)
    from node_of_in_stored [OF n(1)] have "n \<in> set example_space" using example_store(4) by blast
    then have "b = numeric_id 0 35" using n(2-) by (auto simp: example_space_def is_subtype_ref_def identifier_numeric_def UA_NS0ID_HASSUBTYPE_def)
    moreover have "a \<noteq> numeric_id 0 35" using n by auto
    ultimately show ?thesis by simp
  qed
  show "(subtype_rel (store_of example_space))\<inverse> \<subseteq> measure (\<lambda>i. if i = numeric_id 0 35 then 0 else 1)"
    by (clarify, drule sub) simp
qed simp

section \<open>Properties of the searches\<close>

text \<open>
  C22: the subtypes of a reference type are complete. Over a hierarchy of reference types without
  cycles the search ends, and returns exactly the types that can be reached from the given one
  over forward HasSubtype references, the type itself among them.
\<close>

theorem subtypes_complete:
  assumes "ns_inv ns" "targets_fixed ns" "copy_fixed root" "node_of ns root = Some n" "n_nodeClass n = UA_NODECLASS_REFERENCETYPE"
    and "wf ((subtype_rel ns)\<inverse>)"
  shows "\<exists>R. findSubTypes (\<lambda>_. True) ns root = Some (UA_STATUSCODE_GOOD, R) \<and> set R = {i. (root, i) \<in> (subtype_rel ns)\<^sup>*}"
  by (rule findSubTypes_acyclic [OF assms])

theorem subtypes_complete_witness:
  "\<exists>R. findSubTypes (\<lambda>_. True) (store_of example_space) (numeric_id 0 33) = Some (UA_STATUSCODE_GOOD, R) \<and> numeric_id 0 35 \<in> set R"
proof -
  have "(numeric_id 0 33, numeric_id 0 35) \<in> subtype_rel (store_of example_space)"
    by (simp add: subtype_rel_def direct_subtypes_def is_subtype_ref_def identifier_numeric_def UA_NS0ID_HASSUBTYPE_def)
  then show ?thesis using subtypes_complete [OF example_store(1) example_targets example_fixed example_nodes(1) _ example_wf] by auto
qed


definition cyclic_space :: "UA_Node list" where
  "cyclic_space = [example_node 33 UA_NODECLASS_REFERENCETYPE [example_ref 45 33]]"

lemma cyclic_space_ok:
  "list_all insertable cyclic_space" "length cyclic_space \<le> 8388607" "distinct (map (\<lambda>v. norm_NodeId (n_nodeId v)) cyclic_space)"
  by (simp_all add: cyclic_space_def insertable_def null_id_def hashable_def UA_NodeId_isNull_def norm_NodeId_def)


text \<open>
  C24: a browse path is translated to exactly the nodes it leads to, in the order of a depth-first
  walk over the references that match in type, direction and browse name: BadNoMatch when there is
  none, and the targets when there are up to ten. From the eleventh target on the service has no
  defined result: to enlarge the full array it passes the address of its own pointer to
  \<open>realloc\<close>.
\<close>

theorem browse_path_targets:
  assumes "ns_inv ns" "targets_fixed ns" "path \<noteq> []" "\<forall>elem \<in> set path. types_found ns elem" "node_of ns start = Some n"
  shows "Service_TranslateBrowsePathsToNodeIds_single (\<lambda>_. True) ns start path =
    (let targets = path_targets ns path n in
     if targets = [] then Some (UA_STATUSCODE_BADNOMATCH, []) else if length targets \<le> 10 then Some (UA_STATUSCODE_GOOD, targets) else None)"
proof -
  have "UA_STATUSCODE_BADNOMATCH \<noteq> UA_STATUSCODE_GOOD" by (simp add: status_defs)
  then show ?thesis using assms(3,5) walkBrowsePath_eq [OF assms(1-4), of "[]" n] get_node_eq [OF assms(1)]
    by (simp add: Service_TranslateBrowsePathsToNodeIds_single_def put_targets_def Let_def)
qed

definition example_path :: "UA_RelativePathElement list" where
  "example_path = [\<lparr>rp_referenceTypeId = numeric_id 0 35, rp_isInverse = False, rp_includeSubtypes = False,
     targetName = \<lparr>qn_namespaceIndex = 0, qn_name = Null_ptr\<rparr>\<rparr>]"

theorem browse_path_targets_witness:
  "Service_TranslateBrowsePathsToNodeIds_single (\<lambda>_. True) (store_of example_space) (numeric_id 0 85) example_path =
     Some (UA_STATUSCODE_GOOD, [numeric_id 0 86, numeric_id 0 87])"
proof -
  have types: "path_types (\<lambda>_. True) (store_of example_space) (hd example_path) = Some (UA_STATUSCODE_GOOD, Some [numeric_id 0 35])"
    by (simp add: path_types_def example_path_def UA_NodeId_isNull_def)
  then have "path_targets (store_of example_space) example_path (example_node 85 UA_NODECLASS_OBJECT [example_ref 35 86, example_ref 35 87]) =
      [numeric_id 0 86, numeric_id 0 87]"
    by (simp add: example_path_def types_of_def reference_matches_def has_browse_name_def UA_NodeId_equal_def UA_String_equal_def)
  then show ?thesis using types browse_path_targets [OF example_store(1) example_targets _ _ example_nodes(3), of example_path]
    by (simp add: types_found_def example_path_def)
qed

section \<open>Witnesses of the paging\<close>

text \<open>The example, browsed one reference at a time.\<close>

lemma example_browsable:
  "browsable (store_of example_space) (example_description\<lparr>bd_referenceTypeId := UA_NODEID_NULL\<rparr>) None
     (example_node 85 UA_NODECLASS_OBJECT [example_ref 35 86, example_ref 35 87])"
proof -
  have "UA_NodeId_isNull UA_NODEID_NULL" by code_simp
  then show ?thesis using example_store(1)
    by (simp add: browsable_def example_description_def relevant_types_def describable_def relevant_node_def view_sizes MAX_ARRAY_SIZE_def
        fillReferenceDescription_def NodeId_copy_def copy_when_def)
qed

theorem browse_pages_complete_witness:
  "\<exists>res ds session1. Service_Browse (\<lambda>_. True) (\<lambda>_. Block (replicate 16 1)) (store_of example_space) \<lparr>continuationPoints = [], cp_available = 5\<rparr>
      UA_NODEID_NULL 1 [example_description\<lparr>bd_referenceTypeId := UA_NODEID_NULL\<rparr>] = Some (UA_STATUSCODE_GOOD, [res], session1) \<and>
    follow 3 (store_of example_space) session1 (br_continuationPoint res) = Some (ds, \<lparr>continuationPoints = [], cp_available = 5\<rparr>) \<and>
    map (\<lambda>d. nodeId (rd_nodeId d)) (br_references res @ ds) = [numeric_id 0 86, numeric_id 0 87]"
proof -
  let ?descr = "example_description\<lparr>bd_referenceTypeId := UA_NODEID_NULL\<rparr>" and ?s = "\<lparr>continuationPoints = [], cp_available = 5\<rparr>"
  have fixed: "copy_fixed (bd_nodeId ?descr)" "copy_fixed (bd_referenceTypeId ?descr)"
    by (simp_all add: example_description_def example_fixed UA_NODEID_NULL_def)
  have all: "map (\<lambda>d. nodeId (rd_nodeId d)) (all_descriptions (store_of example_space) ?descr None [example_ref 35 86, example_ref 35 87]) =
      [numeric_id 0 86, numeric_id 0 87]"
    by (simp add: relevant_node_def example_description_def fillReferenceDescription_def NodeId_copy_def copy_when_def tag_defs)
  have rounds: "length (n_references (example_node 85 UA_NODECLASS_OBJECT [example_ref 35 86, example_ref 35 87])) + 1 = 3" by simp
  have args: "(1 :: UA_UInt32) \<noteq> 0" "Block (replicate 16 1) = Block (replicate 16 (1 :: UA_Byte))" "length (replicate 16 (1 :: UA_Byte)) = 16" "cp_available ?s \<noteq> 0"
    by simp_all
  note pages = browse_pages_complete [OF example_browsable fixed args, unfolded rounds, unfolded example_sel]
  then show ?thesis using all by (elim exE conjE) (intro exI conjI, assumption+, simp only:)
qed

theorem continuation_points_bounded_witness:
  "\<exists>results session1. Service_Browse (\<lambda>_. True) (\<lambda>_. Null_ptr) empty_store \<lparr>continuationPoints = [], cp_available = 5\<rparr> UA_NODEID_NULL 1 [] =
      Some (UA_STATUSCODE_BADNOTHINGTODO, results, session1) \<and> cp_total session1 = 5"
proof -
  have "UA_NodeId_isNull UA_NODEID_NULL" by code_simp
  then have "Service_Browse (\<lambda>_. True) (\<lambda>_. Null_ptr) empty_store \<lparr>continuationPoints = [], cp_available = 5\<rparr> UA_NODEID_NULL 1 [] =
      Some (UA_STATUSCODE_BADNOTHINGTODO, [], \<lparr>continuationPoints = [], cp_available = 5\<rparr>)" by (simp add: Service_Browse_def)
  moreover have "cp_total \<lparr>continuationPoints = [], cp_available = 5\<rparr> = 5" by (simp add: cp_total_def)
  ultimately show ?thesis
    using continuation_points_bounded [of "\<lparr>continuationPoints = [], cp_available = 5\<rparr>"] by fastforce
qed

end
