(* ===== verification/Ua_Ranges.thy ===== *)
theory Ua_Ranges
  imports Ua_Structures
begin

text \<open>
  Index ranges: their textual form (\<^verbatim>\<open>src/server/ua_services_attribute.c\<close>, \<open>readNumber\<close> to
  \<open>parse_numericrange\<close>), variants and the access to a range of the array of a variant
  (\<^verbatim>\<open>src/ua_types.c\<close>, \<open>processRangeDefinition\<close> to \<open>UA_Variant_setArrayCopy\<close>).

  The elements of the array are of any type, \<open>copy_elem\<close> copies one of them. The memory behind
  \<open>data\<close> is the list of the elements; an access outside of it is \<open>None\<close>. Strings are shorter
  than \<open>2 ^ 31\<close> bytes, arrays have fewer than \<open>2 ^ 32\<close> dimensions, and the products of the
  extents that are computed as \<open>size_t\<close> are below \<open>2 ^ 64\<close>.
\<close>

section \<open>Parsing\<close>

record UA_NumericRangeDimension =
  dim_min :: UA_UInt32
  dim_max :: UA_UInt32

type_synonym UA_NumericRange = "UA_NumericRangeDimension list"

text \<open>The number and how many characters it takes; the arithmetic wraps.\<close>

fun readNumber_from :: "UA_Byte list \<Rightarrow> UA_UInt32 \<Rightarrow> nat \<Rightarrow> nat \<times> UA_UInt32" where
  "readNumber_from [] n progress = (progress, n)"
| "readNumber_from (c # buf) n progress =
     (if 0x30 > c \<or> 0x39 < c then (progress, n) else readNumber_from buf (n * 10 + ucast (c - 0x30)) (progress + 1))"

definition readNumber :: "UA_Byte list \<Rightarrow> nat \<times> UA_UInt32" where
  "readNumber buf = readNumber_from buf 0 0"

definition readDimension :: "UA_Byte list \<Rightarrow> nat \<times> UA_NumericRangeDimension" where
  "readDimension buf =
     (let (progress, lo) = readNumber buf in
      if progress = 0 then (0, \<lparr>dim_min = lo, dim_max = 0\<rparr>)
      else if length buf \<le> progress \<or> buf ! progress \<noteq> 0x3A then (progress, \<lparr>dim_min = lo, dim_max = lo\<rparr>)
      else let (progress2, hi) = readNumber (drop (progress + 1) buf) in
           if progress2 = 0 then (0, \<lparr>dim_min = lo, dim_max = hi\<rparr>) else (progress + progress2 + 1, \<lparr>dim_min = lo, dim_max = hi\<rparr>))"

text \<open>
  The loop over the dimensions; \<open>max_dims\<close> is the capacity of their array. The rest of the string
  is not looked at when no comma follows.
\<close>

function parse_dimensions :: "(nat \<Rightarrow> bool) \<Rightarrow> UA_Byte list \<Rightarrow> nat \<Rightarrow> UA_NumericRange \<Rightarrow> UA_StatusCode \<times> UA_NumericRange" where
  "parse_dimensions mem str max_dims dims =
     (if length dims \<ge> max_dims \<and> \<not> mem (8 * (max_dims + 2)) then (UA_STATUSCODE_BADOUTOFMEMORY, [])
      else let max_dims' = (if length dims \<ge> max_dims then max_dims + 2 else max_dims);
               (progress, d) = readDimension str in
           if progress = 0 then (UA_STATUSCODE_BADINDEXRANGEINVALID, [])
           else if progress \<ge> length str then (UA_STATUSCODE_GOOD, dims @ [d])
           else if str ! progress = 0x2C then parse_dimensions mem (drop (progress + 1) str) max_dims' (dims @ [d])
           else (UA_STATUSCODE_GOOD, dims @ [d]))"
  by pat_completeness auto

termination
  by (relation "measure (\<lambda>(mem, str, max_dims, dims). length str)") auto

declare parse_dimensions.simps [simp del]

definition parse_numericrange :: "(nat \<Rightarrow> bool) \<Rightarrow> UA_String \<Rightarrow> UA_StatusCode \<times> UA_NumericRange" where
  "parse_numericrange mem str = parse_dimensions mem (content str) 0 []"

section \<open>Variants\<close>

record 'a UA_Variant =
  v_type :: "nat option"
  v_arrayLength :: nat
  v_data :: "'a ua_array"
  v_arrayDimensions :: "UA_UInt32 ua_array"

definition UA_Variant_init :: "'a UA_Variant" where
  "UA_Variant_init = \<lparr>v_type = None, v_arrayLength = 0, v_data = Null_ptr, v_arrayDimensions = Null_ptr\<rparr>"

definition UA_Variant_isScalar :: "'a UA_Variant \<Rightarrow> bool" where
  "UA_Variant_isScalar v \<longleftrightarrow> v_arrayLength v = 0 \<and> v_data v \<notin> {Null_ptr, Empty_sentinel}"

definition UA_Variant_setScalar :: "'a \<Rightarrow> nat \<Rightarrow> 'a UA_Variant" where
  "UA_Variant_setScalar p ty = UA_Variant_init\<lparr>v_type := Some ty, v_data := Block [p]\<rparr>"

definition UA_Variant_setScalarCopy :: "(nat \<Rightarrow> bool) \<Rightarrow> ('a \<Rightarrow> UA_StatusCode \<times> 'a) \<Rightarrow> 'a UA_Variant \<Rightarrow> 'a \<Rightarrow> nat \<Rightarrow> UA_StatusCode \<times> 'a UA_Variant" where
  "UA_Variant_setScalarCopy mem copy_elem v p ty =
     (if \<not> mem (memSize (UA_TYPES ! ty)) then (UA_STATUSCODE_BADOUTOFMEMORY, v)
      else let (retval, new) = copy_elem p in
           if retval \<noteq> UA_STATUSCODE_GOOD then (retval, v) else (UA_STATUSCODE_GOOD, UA_Variant_setScalar new ty))"

definition UA_Variant_setArray :: "'a ua_array \<Rightarrow> nat \<Rightarrow> 'a UA_Variant" where
  "UA_Variant_setArray a ty = UA_Variant_init\<lparr>v_data := a, v_arrayLength := alen a, v_type := Some ty\<rparr>"

definition UA_Variant_setArrayCopy :: "(nat \<Rightarrow> bool) \<Rightarrow> ('a \<Rightarrow> UA_StatusCode \<times> 'a) \<Rightarrow> 'a ua_array \<Rightarrow> nat \<Rightarrow> UA_StatusCode \<times> 'a UA_Variant" where
  "UA_Variant_setArrayCopy mem copy_elem a ty =
     (let (retval, b) = UA_Array_copy mem (memSize (UA_TYPES ! ty)) (fixedSize (UA_TYPES ! ty)) copy_elem a in
      if retval \<noteq> UA_STATUSCODE_GOOD then (retval, UA_Variant_init)
      else (UA_STATUSCODE_GOOD, UA_Variant_init\<lparr>v_data := b, v_arrayLength := alen a, v_type := Some ty\<rparr>))"

section \<open>Ranges of an array\<close>

text \<open>Number of elements, size of a contiguous block, distance between the blocks, first element.\<close>

record range_layout =
  rl_total :: nat
  rl_block :: nat
  rl_stride :: nat
  rl_first :: nat

text \<open>The dimensions of the range against those of the array.\<close>

fun check_range :: "(UA_NumericRangeDimension \<times> UA_UInt32) list \<Rightarrow> nat \<Rightarrow> UA_StatusCode \<times> nat" where
  "check_range [] count = (UA_STATUSCODE_GOOD, count)"
| "check_range ((r, d) # rest) count =
     (if dim_min r > dim_max r then (UA_STATUSCODE_BADINDEXRANGENODATA, count)
      else if dim_max r \<ge> d then (UA_STATUSCODE_BADINDEXRANGEINVALID, count)
      else check_range rest (count * unat (dim_max r - dim_min r + 1)))"

text \<open>The loop from the last dimension to the first, which the list has in that order.\<close>

fun range_blocks :: "(UA_NumericRangeDimension \<times> UA_UInt32) list \<Rightarrow> nat \<Rightarrow> bool \<Rightarrow> nat \<Rightarrow> nat \<Rightarrow> nat \<Rightarrow> nat \<times> nat \<times> nat" where
  "range_blocks [] running found b s f = (b, s, f)"
| "range_blocks ((r, d) # rest) running found b s f =
     (let hit = \<not> found \<and> (dim_min r \<noteq> 0 \<or> dim_max r + 1 \<noteq> d) in
      range_blocks rest (running * unat d) (found \<or> hit)
        (if hit then unat (dim_max r - dim_min r + 1) * running else b) (if hit then unat d * running else s) (f + running * unat (dim_min r)))"

definition processRangeDefinition :: "'a UA_Variant \<Rightarrow> UA_NumericRange \<Rightarrow> UA_StatusCode \<times> range_layout" where
  "processRangeDefinition v rng =
     (let none = \<lparr>rl_total = 0, rl_block = 0, rl_stride = 0, rl_first = 0\<rparr>;
          given = content (v_arrayDimensions v);
          elements = (if given = [] then 1 else foldl (*) 1 given) :: UA_UInt32;
          dims = (if given = [] then [word_of_nat (v_arrayLength v)] else given) in
      if given \<noteq> [] \<and> unat elements \<noteq> v_arrayLength v then (UA_STATUSCODE_BADINTERNALERROR, none)
      else if length rng \<noteq> length dims then (UA_STATUSCODE_BADINDEXRANGEINVALID, none)
      else let (r, count) = check_range (zip rng dims) 1 in
           if r \<noteq> UA_STATUSCODE_GOOD then (r, none)
           else let (b, s, f) = range_blocks (rev (zip rng dims)) 1 False 1 (unat elements) 0
                in (UA_STATUSCODE_GOOD, \<lparr>rl_total = count, rl_block = b, rl_stride = s, rl_first = f\<rparr>))"

text \<open>Reading and writing \<open>n\<close> elements from a position on.\<close>

definition read_block :: "'a list \<Rightarrow> nat \<Rightarrow> nat \<Rightarrow> 'a list option" where
  "read_block xs p n = (if p + n \<le> length xs then Some (take n (drop p xs)) else None)"

definition write_block :: "'a list \<Rightarrow> nat \<Rightarrow> 'a list \<Rightarrow> 'a list option" where
  "write_block xs p ys = (if p + length ys \<le> length xs then Some (take p xs @ ys @ drop (p + length ys) xs) else None)"

fun copy_blocks :: "nat \<Rightarrow> nat \<Rightarrow> nat \<Rightarrow> nat \<Rightarrow> 'a list \<Rightarrow> 'a list option" where
  "copy_blocks 0 block stride p xs = Some []"
| "copy_blocks (Suc n) block stride p xs = do {
     ys \<leftarrow> read_block xs p block;
     zs \<leftarrow> copy_blocks n block stride (p + stride) xs;
     Some (ys @ zs) }"

text \<open>Element by element until a copy fails.\<close>

fun copy_until :: "('a \<Rightarrow> (UA_StatusCode \<times> 'a) option) \<Rightarrow> 'a list \<Rightarrow> (UA_StatusCode \<times> 'a list) option" where
  "copy_until copy_elem [] = Some (UA_STATUSCODE_GOOD, [])"
| "copy_until copy_elem (x # xs) = do {
     (r, y) \<leftarrow> copy_elem x;
     if r \<noteq> UA_STATUSCODE_GOOD then Some (r, [])
     else do { (rs, ys) \<leftarrow> copy_until copy_elem xs; Some (rs, y # ys) } }"

definition UA_Variant_copyRange ::
  "(nat \<Rightarrow> bool) \<Rightarrow> ('a \<Rightarrow> (UA_StatusCode \<times> 'a) option) \<Rightarrow> 'a UA_Variant \<Rightarrow> 'a UA_Variant \<Rightarrow> UA_NumericRange \<Rightarrow> (UA_StatusCode \<times> 'a UA_Variant) option" where
  "UA_Variant_copyRange mem copy_elem src dst rng =
     (let (retval, l) = processRangeDefinition src rng in
      if retval \<noteq> UA_STATUSCODE_GOOD then Some (retval, dst)
      else case v_type src of
        None \<Rightarrow> None
      | Some ty \<Rightarrow>
          if \<not> mem (memSize (UA_TYPES ! ty) * rl_total l) then Some (UA_STATUSCODE_BADOUTOFMEMORY, UA_Variant_init)
          else do {
            xs \<leftarrow> copy_blocks (rl_total l div rl_block l) (rl_block l) (rl_stride l) (rl_first l) (content (v_data src));
            (r, ys) \<leftarrow> (if fixedSize (UA_TYPES ! ty) then Some (UA_STATUSCODE_GOOD, xs) else copy_until copy_elem xs);
            Some (if r \<noteq> UA_STATUSCODE_GOOD then (r, UA_Variant_init)
              else if alen (v_arrayDimensions src) = 0
              then (UA_STATUSCODE_GOOD, \<lparr>v_type = Some ty, v_arrayLength = rl_total l, v_data = Block ys, v_arrayDimensions = Null_ptr\<rparr>)
              else if \<not> UA_Array_new mem (alen (v_arrayDimensions src)) UA_TYPES_UINT32
              then (UA_STATUSCODE_BADOUTOFMEMORY, UA_Variant_init\<lparr>v_type := Some ty\<rparr>)
              else (UA_STATUSCODE_GOOD, \<lparr>v_type = Some ty, v_arrayLength = rl_total l, v_data = Block ys,
                     v_arrayDimensions = Block (map (\<lambda>r. dim_max r - dim_min r + 1) rng)\<rparr>)) })"

text \<open>Blocks are written one after the other.\<close>

fun set_blocks :: "nat \<Rightarrow> nat \<Rightarrow> nat \<Rightarrow> nat \<Rightarrow> 'a list \<Rightarrow> 'a list \<Rightarrow> 'a list option" where
  "set_blocks 0 block stride p src xs = Some xs"
| "set_blocks (Suc n) block stride p src xs = do {
     ys \<leftarrow> read_block src 0 block;
     xs1 \<leftarrow> write_block xs p ys;
     set_blocks n block stride (p + stride) (drop block src) xs1 }"

definition UA_Variant_setRange :: "'a UA_Variant \<Rightarrow> 'a list \<Rightarrow> nat \<Rightarrow> UA_NumericRange \<Rightarrow> (UA_StatusCode \<times> 'a UA_Variant) option" where
  "UA_Variant_setRange v array arraySize rng =
     (let (retval, l) = processRangeDefinition v rng in
      if retval \<noteq> UA_STATUSCODE_GOOD then Some (retval, v)
      else if rl_total l \<noteq> arraySize then Some (UA_STATUSCODE_BADINDEXRANGEINVALID, v)
      else do {
        _ \<leftarrow> v_type v;
        xs \<leftarrow> set_blocks (rl_total l div rl_block l) (rl_block l) (rl_stride l) (rl_first l) array (content (v_data v));
        Some (UA_STATUSCODE_GOOD, v\<lparr>v_data := Block xs\<rparr>) })"

text \<open>
  The copying variant. For elements that are not of a fixed size the old element is deleted and
  the copy takes its place, also when the copy fails.
\<close>

fun copy_each :: "('a \<Rightarrow> (UA_StatusCode \<times> 'a) option) \<Rightarrow> 'a list \<Rightarrow> (UA_StatusCode \<times> 'a list) option" where
  "copy_each copy_elem [] = Some (UA_STATUSCODE_GOOD, [])"
| "copy_each copy_elem (x # xs) = do { (r, y) \<leftarrow> copy_elem x; (rs, ys) \<leftarrow> copy_each copy_elem xs; Some (r OR rs, y # ys) }"

definition UA_Variant_setRangeCopy ::
  "('a \<Rightarrow> (UA_StatusCode \<times> 'a) option) \<Rightarrow> 'a UA_Variant \<Rightarrow> 'a list \<Rightarrow> nat \<Rightarrow> UA_NumericRange \<Rightarrow> (UA_StatusCode \<times> 'a UA_Variant) option" where
  "UA_Variant_setRangeCopy copy_elem v array arraySize rng =
     (let (retval, l) = processRangeDefinition v rng in
      if retval \<noteq> UA_STATUSCODE_GOOD then Some (retval, v)
      else if rl_total l \<noteq> arraySize then Some (UA_STATUSCODE_BADINDEXRANGEINVALID, v)
      else do {
        ty \<leftarrow> v_type v;
        (r, ys) \<leftarrow> (if fixedSize (UA_TYPES ! ty) then Some (UA_STATUSCODE_GOOD, array) else copy_each copy_elem array);
        xs \<leftarrow> set_blocks (rl_total l div rl_block l) (rl_block l) (rl_stride l) (rl_first l) ys (content (v_data v));
        Some (r, v\<lparr>v_data := Block xs\<rparr>) })"

end
