(* ===== verification/Ua_Attributes.thy ===== *)
theory Ua_Attributes
  imports Ua_Nodestore Ua_Ranges Ua_Copy
begin

text \<open>
  The attribute services (\<^verbatim>\<open>src/server/ua_services_attribute.c\<close>): Read and Write of single
  attributes, over the node store with the class-specific members of
  \<^verbatim>\<open>src/server/ua_nodes.h\<close>.

  A node is the common record extended by \<open>part\<close>, the members of its class. The code casts node
  pointers to another class with the same layout; where the layouts differ the model reads and
  writes what lies at that place. A cast of a node whose members are not those of its class is
  \<open>None\<close>, like every other access outside of an object and every call of a null pointer.

  The callbacks of the application are a parameter with a state of their own. \<open>mem\<close> says which
  allocations succeed, \<open>now\<close> is the time. External namespaces and multithreading are not
  compiled in the default configuration.
\<close>

section \<open>Constants\<close>

definition UA_STATUSCODE_BADATTRIBUTEIDINVALID :: UA_StatusCode where [status_defs]: "UA_STATUSCODE_BADATTRIBUTEIDINVALID = 0x80350000"
definition UA_STATUSCODE_BADDATAENCODINGINVALID :: UA_StatusCode where [status_defs]: "UA_STATUSCODE_BADDATAENCODINGINVALID = 0x80380000"
definition UA_STATUSCODE_BADTIMESTAMPSTORETURNINVALID :: UA_StatusCode where [status_defs]: "UA_STATUSCODE_BADTIMESTAMPSTORETURNINVALID = 0x802b0000"
definition UA_STATUSCODE_BADMAXAGEINVALID :: UA_StatusCode where [status_defs]: "UA_STATUSCODE_BADMAXAGEINVALID = 0x80700000"
definition UA_STATUSCODE_BADTYPEMISMATCH :: UA_StatusCode where [status_defs]: "UA_STATUSCODE_BADTYPEMISMATCH = 0x80740000"
definition UA_STATUSCODE_BADNODECLASSINVALID :: UA_StatusCode where [status_defs]: "UA_STATUSCODE_BADNODECLASSINVALID = 0x805f0000"
definition UA_STATUSCODE_BADNODATA :: UA_StatusCode where [status_defs]: "UA_STATUSCODE_BADNODATA = 0x809b0000"
definition UA_STATUSCODE_BADWRITENOTSUPPORTED :: UA_StatusCode where [status_defs]: "UA_STATUSCODE_BADWRITENOTSUPPORTED = 0x80730000"

datatype UA_AttributeId =
    UA_ATTRIBUTEID_NODEID | UA_ATTRIBUTEID_NODECLASS | UA_ATTRIBUTEID_BROWSENAME | UA_ATTRIBUTEID_DISPLAYNAME
  | UA_ATTRIBUTEID_DESCRIPTION | UA_ATTRIBUTEID_WRITEMASK | UA_ATTRIBUTEID_USERWRITEMASK | UA_ATTRIBUTEID_ISABSTRACT
  | UA_ATTRIBUTEID_SYMMETRIC | UA_ATTRIBUTEID_INVERSENAME | UA_ATTRIBUTEID_CONTAINSNOLOOPS | UA_ATTRIBUTEID_EVENTNOTIFIER
  | UA_ATTRIBUTEID_VALUE | UA_ATTRIBUTEID_DATATYPE | UA_ATTRIBUTEID_VALUERANK | UA_ATTRIBUTEID_ARRAYDIMENSIONS
  | UA_ATTRIBUTEID_ACCESSLEVEL | UA_ATTRIBUTEID_USERACCESSLEVEL | UA_ATTRIBUTEID_MINIMUMSAMPLINGINTERVAL
  | UA_ATTRIBUTEID_HISTORIZING | UA_ATTRIBUTEID_EXECUTABLE | UA_ATTRIBUTEID_USEREXECUTABLE | UA_ATTRIBUTEID_OTHER

text \<open>The numbers on the wire.\<close>

definition attribute_of :: "UA_UInt32 \<Rightarrow> UA_AttributeId" where
  "attribute_of n =
     (if 1 \<le> n \<and> n \<le> 22
      then [UA_ATTRIBUTEID_NODEID, UA_ATTRIBUTEID_NODECLASS, UA_ATTRIBUTEID_BROWSENAME, UA_ATTRIBUTEID_DISPLAYNAME,
            UA_ATTRIBUTEID_DESCRIPTION, UA_ATTRIBUTEID_WRITEMASK, UA_ATTRIBUTEID_USERWRITEMASK, UA_ATTRIBUTEID_ISABSTRACT,
            UA_ATTRIBUTEID_SYMMETRIC, UA_ATTRIBUTEID_INVERSENAME, UA_ATTRIBUTEID_CONTAINSNOLOOPS, UA_ATTRIBUTEID_EVENTNOTIFIER,
            UA_ATTRIBUTEID_VALUE, UA_ATTRIBUTEID_DATATYPE, UA_ATTRIBUTEID_VALUERANK, UA_ATTRIBUTEID_ARRAYDIMENSIONS,
            UA_ATTRIBUTEID_ACCESSLEVEL, UA_ATTRIBUTEID_USERACCESSLEVEL, UA_ATTRIBUTEID_MINIMUMSAMPLINGINTERVAL,
            UA_ATTRIBUTEID_HISTORIZING, UA_ATTRIBUTEID_EXECUTABLE, UA_ATTRIBUTEID_USEREXECUTABLE] ! unat (n - 1)
      else UA_ATTRIBUTEID_OTHER)"

definition UA_TIMESTAMPSTORETURN_SOURCE :: UA_UInt32 where [tag_defs]: "UA_TIMESTAMPSTORETURN_SOURCE = 0"
definition UA_TIMESTAMPSTORETURN_SERVER :: UA_UInt32 where [tag_defs]: "UA_TIMESTAMPSTORETURN_SERVER = 1"
definition UA_TIMESTAMPSTORETURN_BOTH :: UA_UInt32 where [tag_defs]: "UA_TIMESTAMPSTORETURN_BOTH = 2"

section \<open>Nodes with the members of their class\<close>

type_synonym variant = "ua_value UA_Variant"

text \<open>
  The value of a variable is held in the node, with flags for the callbacks that are set, or comes
  from a data source, which may have no write function.
\<close>

datatype UA_ValueSource =
    UA_VALUESOURCE_VARIANT (vs_value: variant) (has_onRead: bool) (has_onWrite: bool)
  | UA_VALUESOURCE_DATASOURCE (has_write: bool)

datatype node_part =
    ObjectPart UA_Byte
  | ObjectTypePart bool
  | VariablePart UA_Int32 UA_ValueSource UA_Byte UA_Byte UA_UInt64 bool
  | VariableTypePart UA_Int32 UA_ValueSource bool
  | ReferenceTypePart bool bool UA_LocalizedText
  | MethodPart bool bool
  | ViewPart UA_Byte bool
  | DataTypePart bool

record UA_AnyNode = UA_Node + part :: node_part

record UA_DataValue =
  dv_has :: dv_flags
  dv_value :: variant
  dv_status :: UA_StatusCode
  sourceTimestamp :: UA_DateTime
  sourcePicoseconds :: UA_UInt16
  serverTimestamp :: UA_DateTime
  serverPicoseconds :: UA_UInt16

definition UA_DataValue_init :: UA_DataValue where
  "UA_DataValue_init = \<lparr>dv_has = \<lparr>hasValue = False, hasStatus = False, hasSourceTimestamp = False, hasServerTimestamp = False,
       hasSourcePicoseconds = False, hasServerPicoseconds = False\<rparr>,
     dv_value = UA_Variant_init, dv_status = 0, sourceTimestamp = 0, sourcePicoseconds = 0, serverTimestamp = 0, serverPicoseconds = 0\<rparr>"

text \<open>The application: its callbacks, over its own state.\<close>

record 'e application =
  onRead :: "UA_NodeId \<Rightarrow> variant \<Rightarrow> UA_NumericRange option \<Rightarrow> 'e \<Rightarrow> 'e"
  onWrite :: "UA_NodeId \<Rightarrow> variant \<Rightarrow> UA_NumericRange option \<Rightarrow> 'e \<Rightarrow> 'e"
  ds_read :: "UA_NodeId \<Rightarrow> bool \<Rightarrow> UA_NumericRange option \<Rightarrow> UA_DataValue \<Rightarrow> 'e \<Rightarrow> UA_StatusCode \<times> UA_DataValue \<times> 'e"
  ds_write :: "UA_NodeId \<Rightarrow> variant \<Rightarrow> UA_NumericRange option \<Rightarrow> 'e \<Rightarrow> UA_StatusCode \<times> 'e"

record UA_ReadValueId =
  rv_nodeId :: UA_NodeId
  rv_attributeId :: UA_UInt32
  rv_indexRange :: UA_String
  rv_dataEncoding :: UA_QualifiedName

record UA_WriteValue =
  wv_nodeId :: UA_NodeId
  wv_attributeId :: UA_UInt32
  wv_indexRange :: UA_String
  wv_value :: UA_DataValue


type_synonym node_store = "unit UA_AnyNode_ext UA_NodeStore"

section \<open>Members through a cast pointer\<close>

text \<open>
  \<open>isAbstract\<close> is read and written as the first member after the common ones, for every class.
  In a variable type this is \<open>valueRank\<close>, of which the first byte is the lowest one.
\<close>

fun isAbstract_at :: "node_part \<Rightarrow> bool option" where
  "isAbstract_at (ObjectTypePart a) = Some a"
| "isAbstract_at (ReferenceTypePart a smt inm) = Some a"
| "isAbstract_at (DataTypePart a) = Some a"
| "isAbstract_at (VariableTypePart rank src a) = Some (rank AND 0xFF \<noteq> 0)"
| "isAbstract_at _ = None"

fun set_isAbstract_at :: "bool \<Rightarrow> node_part \<Rightarrow> node_part option" where
  "set_isAbstract_at b (ObjectTypePart a) = Some (ObjectTypePart b)"
| "set_isAbstract_at b (ReferenceTypePart a smt inm) = Some (ReferenceTypePart b smt inm)"
| "set_isAbstract_at b (DataTypePart a) = Some (DataTypePart b)"
| "set_isAbstract_at b (VariableTypePart rank src a) = Some (VariableTypePart ((rank AND 0xFFFFFF00) OR of_bool b) src a)"
| "set_isAbstract_at b _ = None"

text \<open>Objects and views share \<open>eventNotifier\<close>, variables and variable types the rank and the value.\<close>

fun eventNotifier_at :: "node_part \<Rightarrow> UA_Byte option" where
  "eventNotifier_at (ObjectPart n) = Some n"
| "eventNotifier_at (ViewPart n loops) = Some n"
| "eventNotifier_at _ = None"

fun set_eventNotifier_at :: "UA_Byte \<Rightarrow> node_part \<Rightarrow> node_part option" where
  "set_eventNotifier_at b (ObjectPart n) = Some (ObjectPart b)"
| "set_eventNotifier_at b (ViewPart n loops) = Some (ViewPart b loops)"
| "set_eventNotifier_at b _ = None"

fun valueRank_at :: "node_part \<Rightarrow> UA_Int32 option" where
  "valueRank_at (VariablePart rank src al ual msi his) = Some rank"
| "valueRank_at (VariableTypePart rank src a) = Some rank"
| "valueRank_at _ = None"

fun value_at :: "node_part \<Rightarrow> UA_ValueSource option" where
  "value_at (VariablePart rank src al ual msi his) = Some src"
| "value_at (VariableTypePart rank src a) = Some src"
| "value_at _ = None"

fun set_value_at :: "UA_ValueSource \<Rightarrow> node_part \<Rightarrow> node_part option" where
  "set_value_at v (VariablePart rank src al ual msi his) = Some (VariablePart rank v al ual msi his)"
| "set_value_at v (VariableTypePart rank src a) = Some (VariableTypePart rank v a)"
| "set_value_at v _ = None"

section \<open>Reading\<close>

definition handleServerTimestamps :: "UA_DateTime \<Rightarrow> UA_UInt32 \<Rightarrow> UA_DataValue \<Rightarrow> UA_DataValue" where
  "handleServerTimestamps now timestamps v =
     (if timestamps = UA_TIMESTAMPSTORETURN_SERVER \<or> timestamps = UA_TIMESTAMPSTORETURN_BOTH
      then v\<lparr>dv_has := (dv_has v)\<lparr>hasServerTimestamp := True\<rparr>, serverTimestamp := now\<rparr> else v)"

definition handleSourceTimestamps :: "UA_DateTime \<Rightarrow> UA_UInt32 \<Rightarrow> UA_DataValue \<Rightarrow> UA_DataValue" where
  "handleSourceTimestamps now timestamps v =
     (if timestamps = UA_TIMESTAMPSTORETURN_SOURCE \<or> timestamps = UA_TIMESTAMPSTORETURN_BOTH
      then v\<lparr>dv_has := (dv_has v)\<lparr>hasSourceTimestamp := True\<rparr>, sourceTimestamp := now\<rparr> else v)"

definition forceVariantSetScalar :: "UA_DataValue \<Rightarrow> ua_value \<Rightarrow> nat \<Rightarrow> UA_DataValue" where
  "forceVariantSetScalar v p ty = v\<lparr>dv_value := UA_Variant_init\<lparr>v_type := Some ty, v_data := Block [p]\<rparr>\<rparr>"

text \<open>The index range of a request: none when the string is empty.\<close>

definition optional_range :: "(nat \<Rightarrow> bool) \<Rightarrow> UA_String \<Rightarrow> UA_StatusCode \<times> UA_NumericRange option" where
  "optional_range mem str =
     (if alen str > 0 then (let (retval, rng) = parse_numericrange mem str in (retval, Some rng)) else (UA_STATUSCODE_GOOD, None))"

text \<open>The copy of an element of a variant.\<close>

definition elem_copy :: "(nat \<Rightarrow> bool) \<Rightarrow> variant \<Rightarrow> ua_value \<Rightarrow> (UA_StatusCode \<times> ua_value) option" where
  "elem_copy mem v x = do { ty \<leftarrow> v_type v; UA_copy mem ty x }"

text \<open>\<open>onRead\<close> is called with the value of the response, which is not set yet.\<close>

definition getVariableNodeValue ::
  "(nat \<Rightarrow> bool) \<Rightarrow> 'e application \<Rightarrow> UA_DateTime \<Rightarrow> UA_NodeId \<Rightarrow> UA_ValueSource \<Rightarrow> UA_UInt32 \<Rightarrow> UA_ReadValueId \<Rightarrow> UA_DataValue \<Rightarrow> 'e \<Rightarrow>
   (UA_StatusCode \<times> UA_DataValue \<times> 'e) option" where
  "getVariableNodeValue mem app now i src timestamps rid v e =
     (let (retval, rng) = optional_range mem (rv_indexRange rid) in
      if retval \<noteq> UA_STATUSCODE_GOOD then Some (retval, v, e)
      else case src of
        UA_VALUESOURCE_VARIANT value onr onw \<Rightarrow> do {
          (r, w) \<leftarrow> (case rng of None \<Rightarrow> Some (UA_STATUSCODE_GOOD, value)
                              | Some rg \<Rightarrow> UA_Variant_copyRange mem (elem_copy mem value) value (dv_value v) rg);
          Some (r, (if r = UA_STATUSCODE_GOOD then handleSourceTimestamps now timestamps else id) (v\<lparr>dv_value := w\<rparr>),
                if onr then onRead app i (dv_value v) rng e else e) }
      | UA_VALUESOURCE_DATASOURCE _ \<Rightarrow>
          Some (ds_read app i (timestamps = UA_TIMESTAMPSTORETURN_SOURCE \<or> timestamps = UA_TIMESTAMPSTORETURN_BOTH) rng v e))"

text \<open>The node id of a type description.\<close>

definition type_id :: "nat \<Rightarrow> UA_NodeId" where
  "type_id ty = UA_NODEID_NUMERIC 0 (typeId (UA_TYPES ! ty))"

definition getVariableNodeDataType ::
  "(nat \<Rightarrow> bool) \<Rightarrow> 'e application \<Rightarrow> UA_NodeId \<Rightarrow> UA_ValueSource \<Rightarrow> UA_DataValue \<Rightarrow> 'e \<Rightarrow> (UA_StatusCode \<times> UA_DataValue \<times> 'e) option" where
  "getVariableNodeDataType mem app i src v e =
     (case src of
        UA_VALUESOURCE_VARIANT value onr onw \<Rightarrow> do {
          ty \<leftarrow> v_type value;
          Some (UA_STATUSCODE_GOOD, forceVariantSetScalar v (VNodeId (type_id ty)) UA_TYPES_NODEID, e) }
      | UA_VALUESOURCE_DATASOURCE _ \<Rightarrow>
          let (retval, val, e1) = ds_read app i False None UA_DataValue_init e in
          if retval \<noteq> UA_STATUSCODE_GOOD then Some (retval, v, e1)
          else do {
            ty \<leftarrow> v_type (dv_value val);
            let (r, w) = UA_Variant_setScalarCopy mem (\<lambda>_. copied VNodeId (NodeId_copy mem (type_id ty))) (dv_value v) (VNodeId (type_id ty)) UA_TYPES_NODEID;
            Some (r, v\<lparr>dv_value := w\<rparr>, e1) })"

definition getVariableNodeArrayDimensions ::
  "(nat \<Rightarrow> bool) \<Rightarrow> 'e application \<Rightarrow> UA_NodeId \<Rightarrow> UA_ValueSource \<Rightarrow> UA_DataValue \<Rightarrow> 'e \<Rightarrow> UA_StatusCode \<times> UA_DataValue \<times> 'e" where
  "getVariableNodeArrayDimensions mem app i src v e =
     (case src of
        UA_VALUESOURCE_VARIANT value onr onw \<Rightarrow>
          (UA_STATUSCODE_GOOD, v\<lparr>dv_value := UA_Variant_setArray (map_ua_array VUInt32 (v_arrayDimensions value)) UA_TYPES_INT32\<rparr>, e)
      | UA_VALUESOURCE_DATASOURCE _ \<Rightarrow>
          let (retval, val, e1) = ds_read app i False None UA_DataValue_init e in
          if retval \<noteq> UA_STATUSCODE_GOOD then (retval, v, e1)
          else let (r, w) = UA_Variant_setArrayCopy mem (\<lambda>x. (UA_STATUSCODE_GOOD, x)) (map_ua_array VUInt32 (v_arrayDimensions (dv_value val))) UA_TYPES_INT32
               in (r, v\<lparr>dv_value := w\<rparr>, e1))"

text \<open>\<open>CHECK_NODECLASS\<close>: the class is one of the mask.\<close>

definition CHECK_NODECLASS :: "UA_AnyNode \<Rightarrow> UA_NodeClass list \<Rightarrow> bool" where
  "CHECK_NODECLASS node cs \<longleftrightarrow> node_class_code (n_nodeClass node) AND foldr (\<lambda>c m. node_class_code c OR m) cs 0 \<noteq> 0"

text \<open>A scalar member; the attribute is invalid when the class is not the right one.\<close>

definition read_member ::
  "UA_AnyNode \<Rightarrow> UA_NodeClass list \<Rightarrow> ua_value option \<Rightarrow> nat \<Rightarrow> UA_DataValue \<Rightarrow> 'e \<Rightarrow> (UA_StatusCode \<times> UA_DataValue \<times> 'e) option" where
  "read_member node cs x ty v e =
     (if \<not> CHECK_NODECLASS node cs then Some (UA_STATUSCODE_BADATTRIBUTEIDINVALID, v, e)
      else do { p \<leftarrow> x; Some (UA_STATUSCODE_GOOD, forceVariantSetScalar v p ty, e) })"

text \<open>The switch over the attribute of \<open>Service_Read_single\<close>.\<close>

definition read_attribute ::
  "(nat \<Rightarrow> bool) \<Rightarrow> 'e application \<Rightarrow> UA_DateTime \<Rightarrow> UA_UInt32 \<Rightarrow> UA_ReadValueId \<Rightarrow> UA_AnyNode \<Rightarrow> UA_DataValue \<Rightarrow> 'e \<Rightarrow>
   (UA_StatusCode \<times> UA_DataValue \<times> 'e) option" where
  "read_attribute mem app now timestamps rid node v e =
     (let common = (\<lambda>x ty. Some (UA_STATUSCODE_GOOD, forceVariantSetScalar v x ty, e));
          variables = [UA_NODECLASS_VARIABLE, UA_NODECLASS_VARIABLETYPE] in
      case attribute_of (rv_attributeId rid) of
        UA_ATTRIBUTEID_NODEID \<Rightarrow> common (VNodeId (n_nodeId node)) UA_TYPES_NODEID
      | UA_ATTRIBUTEID_NODECLASS \<Rightarrow> common (VUInt32 (node_class_code (n_nodeClass node))) UA_TYPES_INT32
      | UA_ATTRIBUTEID_BROWSENAME \<Rightarrow>
          common (VStruct [VUInt16 (qn_namespaceIndex (n_browseName node)), VString (qn_name (n_browseName node))]) UA_TYPES_QUALIFIEDNAME
      | UA_ATTRIBUTEID_DISPLAYNAME \<Rightarrow> common (VLocalizedText (n_displayName node)) UA_TYPES_LOCALIZEDTEXT
      | UA_ATTRIBUTEID_DESCRIPTION \<Rightarrow> common (VLocalizedText (n_description node)) UA_TYPES_LOCALIZEDTEXT
      | UA_ATTRIBUTEID_WRITEMASK \<Rightarrow> common (VUInt32 (n_writeMask node)) UA_TYPES_UINT32
      | UA_ATTRIBUTEID_USERWRITEMASK \<Rightarrow> common (VUInt32 (n_userWriteMask node)) UA_TYPES_UINT32
      | UA_ATTRIBUTEID_ISABSTRACT \<Rightarrow>
          read_member node [UA_NODECLASS_REFERENCETYPE, UA_NODECLASS_OBJECTTYPE, UA_NODECLASS_VARIABLETYPE, UA_NODECLASS_DATATYPE]
            (map_option VBoolean (isAbstract_at (part node))) UA_TYPES_BOOLEAN v e
      | UA_ATTRIBUTEID_SYMMETRIC \<Rightarrow>
          read_member node [UA_NODECLASS_REFERENCETYPE]
            (case part node of ReferenceTypePart a smt inm \<Rightarrow> Some (VBoolean smt) | _ \<Rightarrow> None) UA_TYPES_BOOLEAN v e
      | UA_ATTRIBUTEID_INVERSENAME \<Rightarrow>
          read_member node [UA_NODECLASS_REFERENCETYPE]
            (case part node of ReferenceTypePart a smt inm \<Rightarrow> Some (VLocalizedText inm) | _ \<Rightarrow> None) UA_TYPES_LOCALIZEDTEXT v e
      | UA_ATTRIBUTEID_CONTAINSNOLOOPS \<Rightarrow>
          read_member node [UA_NODECLASS_VIEW] (case part node of ViewPart n loops \<Rightarrow> Some (VBoolean loops) | _ \<Rightarrow> None) UA_TYPES_BOOLEAN v e
      | UA_ATTRIBUTEID_EVENTNOTIFIER \<Rightarrow>
          read_member node [UA_NODECLASS_VIEW, UA_NODECLASS_OBJECT] (map_option VByte (eventNotifier_at (part node))) UA_TYPES_BYTE v e
      | UA_ATTRIBUTEID_VALUE \<Rightarrow>
          if \<not> CHECK_NODECLASS node variables then Some (UA_STATUSCODE_BADATTRIBUTEIDINVALID, v, e)
          else do { src \<leftarrow> value_at (part node); getVariableNodeValue mem app now (n_nodeId node) src timestamps rid v e }
      | UA_ATTRIBUTEID_DATATYPE \<Rightarrow>
          if \<not> CHECK_NODECLASS node variables then Some (UA_STATUSCODE_BADATTRIBUTEIDINVALID, v, e)
          else do { src \<leftarrow> value_at (part node); getVariableNodeDataType mem app (n_nodeId node) src v e }
      | UA_ATTRIBUTEID_VALUERANK \<Rightarrow> read_member node variables (map_option VUInt32 (valueRank_at (part node))) UA_TYPES_INT32 v e
      | UA_ATTRIBUTEID_ARRAYDIMENSIONS \<Rightarrow>
          if \<not> CHECK_NODECLASS node variables then Some (UA_STATUSCODE_BADATTRIBUTEIDINVALID, v, e)
          else do { src \<leftarrow> value_at (part node); Some (getVariableNodeArrayDimensions mem app (n_nodeId node) src v e) }
      | UA_ATTRIBUTEID_ACCESSLEVEL \<Rightarrow>
          read_member node [UA_NODECLASS_VARIABLE]
            (case part node of VariablePart rank src al ual msi his \<Rightarrow> Some (VByte al) | _ \<Rightarrow> None) UA_TYPES_BYTE v e
      | UA_ATTRIBUTEID_USERACCESSLEVEL \<Rightarrow>
          read_member node [UA_NODECLASS_VARIABLE]
            (case part node of VariablePart rank src al ual msi his \<Rightarrow> Some (VByte ual) | _ \<Rightarrow> None) UA_TYPES_BYTE v e
      | UA_ATTRIBUTEID_MINIMUMSAMPLINGINTERVAL \<Rightarrow>
          read_member node [UA_NODECLASS_VARIABLE]
            (case part node of VariablePart rank src al ual msi his \<Rightarrow> Some (VUInt64 msi) | _ \<Rightarrow> None) UA_TYPES_DOUBLE v e
      | UA_ATTRIBUTEID_HISTORIZING \<Rightarrow>
          read_member node [UA_NODECLASS_VARIABLE]
            (case part node of VariablePart rank src al ual msi his \<Rightarrow> Some (VBoolean his) | _ \<Rightarrow> None) UA_TYPES_BOOLEAN v e
      | UA_ATTRIBUTEID_EXECUTABLE \<Rightarrow>
          read_member node [UA_NODECLASS_METHOD] (case part node of MethodPart ex uex \<Rightarrow> Some (VBoolean ex) | _ \<Rightarrow> None) UA_TYPES_BOOLEAN v e
      | UA_ATTRIBUTEID_USEREXECUTABLE \<Rightarrow>
          read_member node [UA_NODECLASS_METHOD] (case part node of MethodPart ex uex \<Rightarrow> Some (VBoolean uex) | _ \<Rightarrow> None) UA_TYPES_BOOLEAN v e
      | UA_ATTRIBUTEID_OTHER \<Rightarrow> Some (UA_STATUSCODE_BADATTRIBUTEIDINVALID, v, e))"

text \<open>\<^verbatim>\<open>DefaultBinary\<close>\<close>

definition binEncoding :: UA_String where
  "binEncoding = Block [0x44, 0x65, 0x66, 0x61, 0x75, 0x6C, 0x74, 0x42, 0x69, 0x6E, 0x61, 0x72, 0x79]"

definition dv_error :: "UA_StatusCode \<Rightarrow> UA_DataValue \<Rightarrow> UA_DataValue" where
  "dv_error r v = v\<lparr>dv_has := (dv_has v)\<lparr>hasStatus := True\<rparr>, dv_status := r\<rparr>"

definition Service_Read_single ::
  "(nat \<Rightarrow> bool) \<Rightarrow> 'e application \<Rightarrow> UA_DateTime \<Rightarrow> node_store \<Rightarrow> UA_UInt32 \<Rightarrow> UA_ReadValueId \<Rightarrow> UA_DataValue \<Rightarrow> 'e \<Rightarrow>
   (UA_DataValue \<times> 'e) option" where
  "Service_Read_single mem app now ns timestamps rid v e =
     (if alen (qn_name (rv_dataEncoding rid)) > 0 \<and> \<not> UA_String_equal binEncoding (qn_name (rv_dataEncoding rid))
      then Some (dv_error UA_STATUSCODE_BADDATAENCODINGINVALID v, e)
      else if alen (rv_indexRange rid) > 0 \<and> attribute_of (rv_attributeId rid) \<noteq> UA_ATTRIBUTEID_VALUE
      then Some (dv_error UA_STATUSCODE_BADINDEXRANGENODATA v, e)
      else do {
        found \<leftarrow> get_node ns (rv_nodeId rid);
        (case found of
           None \<Rightarrow> Some (dv_error UA_STATUSCODE_BADNODEIDUNKNOWN v, e)
         | Some node \<Rightarrow> do {
             (retval, v1, e1) \<leftarrow> read_attribute mem app now timestamps rid node (v\<lparr>dv_has := (dv_has v)\<lparr>hasValue := True\<rparr>\<rparr>) e;
             Some (handleServerTimestamps now timestamps
                     (if retval \<noteq> UA_STATUSCODE_GOOD then dv_error retval (v1\<lparr>dv_has := (dv_has v1)\<lparr>hasValue := False\<rparr>\<rparr>) else v1), e1) }) })"

fun read_all ::
  "(nat \<Rightarrow> bool) \<Rightarrow> 'e application \<Rightarrow> UA_DateTime \<Rightarrow> node_store \<Rightarrow> UA_UInt32 \<Rightarrow> UA_ReadValueId list \<Rightarrow> 'e \<Rightarrow> (UA_DataValue list \<times> 'e) option" where
  "read_all mem app now ns timestamps [] e = Some ([], e)"
| "read_all mem app now ns timestamps (rid # rids) e = do {
     (v, e1) \<leftarrow> Service_Read_single mem app now ns timestamps rid UA_DataValue_init e;
     (vs, e2) \<leftarrow> read_all mem app now ns timestamps rids e1;
     Some (v # vs, e2) }"

text \<open>Below zero, as an IEEE double: the sign is set, and it is neither the negative zero nor not a number.\<close>

definition negative_double :: "UA_UInt64 \<Rightarrow> bool" where
  "negative_double d \<longleftrightarrow> 0x8000000000000000 < d \<and> d \<le> 0xFFF0000000000000"

definition Service_Read ::
  "(nat \<Rightarrow> bool) \<Rightarrow> 'e application \<Rightarrow> UA_DateTime \<Rightarrow> node_store \<Rightarrow> UA_UInt64 \<Rightarrow> UA_UInt32 \<Rightarrow> UA_ReadValueId list \<Rightarrow> 'e \<Rightarrow>
   (UA_StatusCode \<times> UA_DataValue list \<times> 'e) option" where
  "Service_Read mem app now ns maxAge timestamps nodesToRead e =
     (if nodesToRead = [] then Some (UA_STATUSCODE_BADNOTHINGTODO, [], e)
      else if timestamps > 3 then Some (UA_STATUSCODE_BADTIMESTAMPSTORETURNINVALID, [], e)
      else if \<not> UA_Array_new mem (length nodesToRead) UA_TYPES_DATAVALUE then Some (UA_STATUSCODE_BADOUTOFMEMORY, [], e)
      else if negative_double maxAge then Some (UA_STATUSCODE_BADMAXAGEINVALID, replicate (length nodesToRead) UA_DataValue_init, e)
      else do { (vs, e1) \<leftarrow> read_all mem app now ns timestamps nodesToRead e; Some (UA_STATUSCODE_GOOD, vs, e1) })"

section \<open>Writing\<close>

text \<open>
  The callback of \<open>UA_Server_editNode\<close> changes the node in the store, also when it fails.
\<close>

definition UA_Server_editNode ::
  "node_store \<Rightarrow> UA_NodeId \<Rightarrow> (UA_AnyNode \<Rightarrow> 'e \<Rightarrow> (UA_StatusCode \<times> UA_AnyNode \<times> 'e) option) \<Rightarrow> 'e \<Rightarrow>
   (UA_StatusCode \<times> node_store \<times> 'e) option" where
  "UA_Server_editNode ns i callback e = do {
     found \<leftarrow> UA_NodeStore_get ns i;
     (case found of
        None \<Rightarrow> Some (UA_STATUSCODE_BADNODEIDUNKNOWN, ns, e)
      | Some slot \<Rightarrow> do {
          entry \<leftarrow> entry_at ns slot;
          node \<leftarrow> entry;
          (retval, node', e1) \<leftarrow> callback node e;
          Some (retval, ns\<lparr>entries := (entries ns)[unat slot := Some node']\<rparr>, e1) }) }"

definition CHECK_DATATYPE :: "UA_WriteValue \<Rightarrow> nat \<Rightarrow> bool" where
  "CHECK_DATATYPE wvalue ty \<longleftrightarrow>
     hasValue (dv_has (wv_value wvalue)) \<and> v_type (dv_value (wv_value wvalue)) = Some ty \<and> UA_Variant_isScalar (dv_value (wv_value wvalue))"

definition Service_Write_single_ValueDataSource ::
  "(nat \<Rightarrow> bool) \<Rightarrow> 'e application \<Rightarrow> UA_NodeId \<Rightarrow> bool \<Rightarrow> UA_WriteValue \<Rightarrow> 'e \<Rightarrow> (UA_StatusCode \<times> 'e) option" where
  "Service_Write_single_ValueDataSource mem app i writable wvalue e =
     (let (retval, rng) = optional_range mem (wv_indexRange wvalue) in
      if retval \<noteq> UA_STATUSCODE_GOOD then Some (retval, e)
      else if \<not> writable then None
      else Some (ds_write app i (dv_value (wv_value wvalue)) rng e))"

datatype type_equivalence = TYPE_EQUIVALENCE_NONE | TYPE_EQUIVALENCE_ENUM | TYPE_EQUIVALENCE_OPAQUE

definition typeEquivalence :: "nat \<Rightarrow> type_equivalence" where
  "typeEquivalence ty =
     (case members (UA_TYPES ! ty) of
        [(j, isArray)] \<Rightarrow>
          if j = UA_TYPES_INT32 then TYPE_EQUIVALENCE_ENUM
          else if j = UA_TYPES_BYTE \<and> isArray then TYPE_EQUIVALENCE_OPAQUE
          else TYPE_EQUIVALENCE_NONE
      | _ \<Rightarrow> TYPE_EQUIVALENCE_NONE)"

text \<open>
  The value as it is stored: of the type of the old value, which the wire format may not have
  preserved. \<open>Some None\<close> is a type mismatch. The types are those the two variants have.
\<close>

definition cast_value :: "nat \<Rightarrow> variant \<Rightarrow> nat \<Rightarrow> variant \<Rightarrow> variant option option" where
  "cast_value ty oldV ty' newV =
     (if UA_NodeId_equal (type_id ty) (type_id ty') then Some (Some newV)
      else if typeEquivalence ty \<noteq> TYPE_EQUIVALENCE_NONE \<and> typeEquivalence ty = typeEquivalence ty' then Some (Some (newV\<lparr>v_type := Some ty\<rparr>))
      else if ty = UA_TYPES_BYTE \<and> \<not> UA_Variant_isScalar oldV \<and> ty' = UA_TYPES_BYTESTRING \<and> UA_Variant_isScalar newV
      then case v_data newV of
             Block [VString str] \<Rightarrow> Some (Some (newV\<lparr>v_arrayLength := alen str, v_data := map_ua_array VByte str, v_type := Some UA_TYPES_BYTE\<rparr>))
           | _ \<Rightarrow> None
      else Some None)"

text \<open>A variant as a value of its own type, for \<open>UA_Variant_copy\<close>.\<close>

definition variant_value :: "variant \<Rightarrow> ua_value" where
  "variant_value v = VVariant (v_type v) (v_arrayLength v) (v_data v) (v_arrayDimensions v)"

fun value_variant :: "ua_value \<Rightarrow> variant" where
  "value_variant (VVariant ty len data dims) = \<lparr>v_type = ty, v_arrayLength = len, v_data = data, v_arrayDimensions = dims\<rparr>"
| "value_variant _ = UA_Variant_init"

text \<open>The new value replaces the old one, or a range of it. The result of \<open>UA_Variant_copy\<close> is not looked at.\<close>

definition store_value :: "(nat \<Rightarrow> bool) \<Rightarrow> UA_NumericRange option \<Rightarrow> variant \<Rightarrow> variant \<Rightarrow> (UA_StatusCode \<times> variant) option" where
  "store_value mem rng oldV newV =
     (case rng of
        None \<Rightarrow> do { (_, c) \<leftarrow> UA_copy mem UA_TYPES_VARIANT (variant_value newV); Some (UA_STATUSCODE_GOOD, value_variant c) }
      | Some rg \<Rightarrow> UA_Variant_setRangeCopy (elem_copy mem oldV) oldV (content (v_data newV)) (v_arrayLength newV) rg)"

text \<open>A variant without a type is accessed through a null pointer.\<close>

definition CopyValueIntoNode ::
  "(nat \<Rightarrow> bool) \<Rightarrow> 'e application \<Rightarrow> UA_NodeId \<Rightarrow> UA_ValueSource \<Rightarrow> UA_WriteValue \<Rightarrow> 'e \<Rightarrow> (UA_StatusCode \<times> UA_ValueSource \<times> 'e) option" where
  "CopyValueIntoNode mem app i src wvalue e =
     (let (retval, rng) = optional_range mem (wv_indexRange wvalue); oldV = vs_value src; newV = dv_value (wv_value wvalue) in
      if retval \<noteq> UA_STATUSCODE_GOOD then Some (retval, src, e)
      else do {
        ty \<leftarrow> v_type oldV;
        ty' \<leftarrow> v_type newV;
        cast \<leftarrow> cast_value ty oldV ty' newV;
        (case cast of
           None \<Rightarrow> Some (UA_STATUSCODE_BADTYPEMISMATCH, src, e)
         | Some cast_v \<Rightarrow> do {
             (r, w) \<leftarrow> store_value mem rng oldV cast_v;
             Some (r, UA_VALUESOURCE_VARIANT w (has_onRead src) (has_onWrite src),
                   if has_onWrite src then onWrite app i w rng e else e) }) })"

text \<open>An assignment to a member: class, data type and the value behind the pointer.\<close>

definition write_member ::
  "UA_AnyNode \<Rightarrow> UA_NodeClass list \<Rightarrow> UA_WriteValue \<Rightarrow> nat \<Rightarrow> (ua_value \<Rightarrow> (UA_StatusCode \<times> UA_AnyNode) option) \<Rightarrow> 'e \<Rightarrow>
   (UA_StatusCode \<times> UA_AnyNode \<times> 'e) option" where
  "write_member node cs wvalue ty assign e =
     (if cs \<noteq> [] \<and> \<not> CHECK_NODECLASS node cs then Some (UA_STATUSCODE_BADNODECLASSINVALID, node, e)
      else if \<not> CHECK_DATATYPE wvalue ty then Some (UA_STATUSCODE_BADTYPEMISMATCH, node, e)
      else case v_data (dv_value (wv_value wvalue)) of
             Block (x # xs) \<Rightarrow> do { (retval, node') \<leftarrow> assign x; Some (retval, node', e) }
           | _ \<Rightarrow> None)"

definition set_part :: "UA_AnyNode \<Rightarrow> node_part option \<Rightarrow> (UA_StatusCode \<times> UA_AnyNode) option" where
  "set_part node p = map_option (\<lambda>q. (UA_STATUSCODE_GOOD, node\<lparr>part := q\<rparr>)) p"

fun as_bool :: "ua_value \<Rightarrow> bool option" where "as_bool (VBoolean b) = Some b" | "as_bool _ = None"
fun as_byte :: "ua_value \<Rightarrow> UA_Byte option" where "as_byte (VByte b) = Some b" | "as_byte _ = None"
fun as_uint32 :: "ua_value \<Rightarrow> UA_UInt32 option" where "as_uint32 (VUInt32 w) = Some w" | "as_uint32 _ = None"
fun as_uint64 :: "ua_value \<Rightarrow> UA_UInt64 option" where "as_uint64 (VUInt64 w) = Some w" | "as_uint64 _ = None"

fun as_localized :: "ua_value \<Rightarrow> UA_LocalizedText option" where
  "as_localized (VLocalizedText t) = Some t"
| "as_localized _ = None"

fun as_qualified :: "ua_value \<Rightarrow> UA_QualifiedName option" where
  "as_qualified (VStruct [VUInt16 i, VString s]) = Some \<lparr>qn_namespaceIndex = i, qn_name = s\<rparr>"
| "as_qualified _ = None"

definition CopyAttributeIntoNode ::
  "(nat \<Rightarrow> bool) \<Rightarrow> 'e application \<Rightarrow> UA_WriteValue \<Rightarrow> UA_AnyNode \<Rightarrow> 'e \<Rightarrow> (UA_StatusCode \<times> UA_AnyNode \<times> 'e) option" where
  "CopyAttributeIntoNode mem app wvalue node e =
     (if \<not> hasValue (dv_has (wv_value wvalue)) then Some (UA_STATUSCODE_BADNODATA, node, e)
      else case attribute_of (wv_attributeId wvalue) of
        UA_ATTRIBUTEID_NODEID \<Rightarrow> Some (UA_STATUSCODE_BADWRITENOTSUPPORTED, node, e)
      | UA_ATTRIBUTEID_NODECLASS \<Rightarrow> Some (UA_STATUSCODE_BADWRITENOTSUPPORTED, node, e)
      | UA_ATTRIBUTEID_DATATYPE \<Rightarrow> Some (UA_STATUSCODE_BADWRITENOTSUPPORTED, node, e)
      | UA_ATTRIBUTEID_BROWSENAME \<Rightarrow> write_member node [] wvalue UA_TYPES_QUALIFIEDNAME
          (\<lambda>x. do { q \<leftarrow> as_qualified x; let (r, q') = QualifiedName_copy mem q; Some (r, node\<lparr>n_browseName := q'\<rparr>) }) e
      | UA_ATTRIBUTEID_DISPLAYNAME \<Rightarrow> write_member node [] wvalue UA_TYPES_LOCALIZEDTEXT
          (\<lambda>x. do { t \<leftarrow> as_localized x; let (r, t') = LocalizedText_copy mem t; Some (r, node\<lparr>n_displayName := t'\<rparr>) }) e
      | UA_ATTRIBUTEID_DESCRIPTION \<Rightarrow> write_member node [] wvalue UA_TYPES_LOCALIZEDTEXT
          (\<lambda>x. do { t \<leftarrow> as_localized x; let (r, t') = LocalizedText_copy mem t; Some (r, node\<lparr>n_description := t'\<rparr>) }) e
      | UA_ATTRIBUTEID_WRITEMASK \<Rightarrow> write_member node [] wvalue UA_TYPES_UINT32
          (\<lambda>x. do { w \<leftarrow> as_uint32 x; Some (UA_STATUSCODE_GOOD, node\<lparr>n_writeMask := w\<rparr>) }) e
      | UA_ATTRIBUTEID_USERWRITEMASK \<Rightarrow> write_member node [] wvalue UA_TYPES_UINT32
          (\<lambda>x. do { w \<leftarrow> as_uint32 x; Some (UA_STATUSCODE_GOOD, node\<lparr>n_userWriteMask := w\<rparr>) }) e
      | UA_ATTRIBUTEID_ISABSTRACT \<Rightarrow>
          write_member node [UA_NODECLASS_OBJECTTYPE, UA_NODECLASS_REFERENCETYPE, UA_NODECLASS_VARIABLETYPE, UA_NODECLASS_DATATYPE] wvalue UA_TYPES_BOOLEAN
            (\<lambda>x. do { b \<leftarrow> as_bool x; set_part node (set_isAbstract_at b (part node)) }) e
      | UA_ATTRIBUTEID_SYMMETRIC \<Rightarrow> write_member node [UA_NODECLASS_REFERENCETYPE] wvalue UA_TYPES_BOOLEAN
          (\<lambda>x. do { b \<leftarrow> as_bool x;
             set_part node (case part node of ReferenceTypePart a smt inm \<Rightarrow> Some (ReferenceTypePart a b inm) | _ \<Rightarrow> None) }) e
      | UA_ATTRIBUTEID_INVERSENAME \<Rightarrow> write_member node [UA_NODECLASS_REFERENCETYPE] wvalue UA_TYPES_LOCALIZEDTEXT
          (\<lambda>x. do { t \<leftarrow> as_localized x; let (r, t') = LocalizedText_copy mem t;
             case part node of ReferenceTypePart a smt inm \<Rightarrow> Some (r, node\<lparr>part := ReferenceTypePart a smt t'\<rparr>) | _ \<Rightarrow> None }) e
      | UA_ATTRIBUTEID_CONTAINSNOLOOPS \<Rightarrow> write_member node [UA_NODECLASS_VIEW] wvalue UA_TYPES_BOOLEAN
          (\<lambda>x. do { b \<leftarrow> as_bool x; set_part node (case part node of ViewPart n loops \<Rightarrow> Some (ViewPart n b) | _ \<Rightarrow> None) }) e
      | UA_ATTRIBUTEID_EVENTNOTIFIER \<Rightarrow> write_member node [UA_NODECLASS_VIEW, UA_NODECLASS_OBJECT] wvalue UA_TYPES_BYTE
          (\<lambda>x. do { b \<leftarrow> as_byte x; set_part node (set_eventNotifier_at b (part node)) }) e
      | UA_ATTRIBUTEID_VALUE \<Rightarrow>
          if \<not> CHECK_NODECLASS node [UA_NODECLASS_VARIABLE, UA_NODECLASS_VARIABLETYPE] then Some (UA_STATUSCODE_BADNODECLASSINVALID, node, e)
          else do {
            src \<leftarrow> value_at (part node);
            (case src of
               UA_VALUESOURCE_VARIANT value onr onw \<Rightarrow> do {
                 (r, src', e1) \<leftarrow> CopyValueIntoNode mem app (n_nodeId node) src wvalue e;
                 p \<leftarrow> set_value_at src' (part node);
                 Some (r, node\<lparr>part := p\<rparr>, e1) }
             | UA_VALUESOURCE_DATASOURCE writable \<Rightarrow> do {
                 (r, e1) \<leftarrow> Service_Write_single_ValueDataSource mem app (n_nodeId node) writable wvalue e;
                 Some (r, node, e1) }) }
      | UA_ATTRIBUTEID_ACCESSLEVEL \<Rightarrow> write_member node [UA_NODECLASS_VARIABLE] wvalue UA_TYPES_BYTE
          (\<lambda>x. do { b \<leftarrow> as_byte x; set_part node
             (case part node of VariablePart rank src al ual msi his \<Rightarrow> Some (VariablePart rank src b ual msi his) | _ \<Rightarrow> None) }) e
      | UA_ATTRIBUTEID_USERACCESSLEVEL \<Rightarrow> write_member node [UA_NODECLASS_VARIABLE] wvalue UA_TYPES_BYTE
          (\<lambda>x. do { b \<leftarrow> as_byte x; set_part node
             (case part node of VariablePart rank src al ual msi his \<Rightarrow> Some (VariablePart rank src al b msi his) | _ \<Rightarrow> None) }) e
      | UA_ATTRIBUTEID_MINIMUMSAMPLINGINTERVAL \<Rightarrow> write_member node [UA_NODECLASS_VARIABLE] wvalue UA_TYPES_DOUBLE
          (\<lambda>x. do { d \<leftarrow> as_uint64 x; set_part node
             (case part node of VariablePart rank src al ual msi his \<Rightarrow> Some (VariablePart rank src al ual d his) | _ \<Rightarrow> None) }) e
      | UA_ATTRIBUTEID_HISTORIZING \<Rightarrow> write_member node [UA_NODECLASS_VARIABLE] wvalue UA_TYPES_BOOLEAN
          (\<lambda>x. do { b \<leftarrow> as_bool x; set_part node
             (case part node of VariablePart rank src al ual msi his \<Rightarrow> Some (VariablePart rank src al ual msi b) | _ \<Rightarrow> None) }) e
      | UA_ATTRIBUTEID_EXECUTABLE \<Rightarrow> write_member node [UA_NODECLASS_METHOD] wvalue UA_TYPES_BOOLEAN
          (\<lambda>x. do { b \<leftarrow> as_bool x; set_part node (case part node of MethodPart ex uex \<Rightarrow> Some (MethodPart b uex) | _ \<Rightarrow> None) }) e
      | UA_ATTRIBUTEID_USEREXECUTABLE \<Rightarrow> write_member node [UA_NODECLASS_METHOD] wvalue UA_TYPES_BOOLEAN
          (\<lambda>x. do { b \<leftarrow> as_bool x; set_part node (case part node of MethodPart ex uex \<Rightarrow> Some (MethodPart ex b) | _ \<Rightarrow> None) }) e
      | UA_ATTRIBUTEID_VALUERANK \<Rightarrow> Some (UA_STATUSCODE_BADATTRIBUTEIDINVALID, node, e)
      | UA_ATTRIBUTEID_ARRAYDIMENSIONS \<Rightarrow> Some (UA_STATUSCODE_BADATTRIBUTEIDINVALID, node, e)
      | UA_ATTRIBUTEID_OTHER \<Rightarrow> Some (UA_STATUSCODE_BADATTRIBUTEIDINVALID, node, e))"

definition Service_Write_single ::
  "(nat \<Rightarrow> bool) \<Rightarrow> 'e application \<Rightarrow> node_store \<Rightarrow> UA_WriteValue \<Rightarrow> 'e \<Rightarrow> (UA_StatusCode \<times> node_store \<times> 'e) option" where
  "Service_Write_single mem app ns wvalue e = UA_Server_editNode ns (wv_nodeId wvalue) (CopyAttributeIntoNode mem app wvalue) e"

fun write_all ::
  "(nat \<Rightarrow> bool) \<Rightarrow> 'e application \<Rightarrow> UA_WriteValue list \<Rightarrow> node_store \<Rightarrow> 'e \<Rightarrow> (UA_StatusCode list \<times> node_store \<times> 'e) option" where
  "write_all mem app [] ns e = Some ([], ns, e)"
| "write_all mem app (w # ws) ns e = do {
     (r, ns1, e1) \<leftarrow> Service_Write_single mem app ns w e;
     (rs, ns2, e2) \<leftarrow> write_all mem app ws ns1 e1;
     Some (r # rs, ns2, e2) }"

definition Service_Write ::
  "(nat \<Rightarrow> bool) \<Rightarrow> 'e application \<Rightarrow> node_store \<Rightarrow> UA_WriteValue list \<Rightarrow> 'e \<Rightarrow> (UA_StatusCode \<times> UA_StatusCode list \<times> node_store \<times> 'e) option" where
  "Service_Write mem app ns nodesToWrite e =
     (if nodesToWrite = [] then Some (UA_STATUSCODE_BADNOTHINGTODO, [], ns, e)
      else if \<not> UA_Array_new mem (length nodesToWrite) UA_TYPES_STATUSCODE then Some (UA_STATUSCODE_BADOUTOFMEMORY, [], ns, e)
      else do { (rs, ns1, e1) \<leftarrow> write_all mem app nodesToWrite ns e; Some (UA_STATUSCODE_GOOD, rs, ns1, e1) })"

end
