(* ===== verification/Ua_Ranges_Laws.thy ===== *)
theory Ua_Ranges_Laws
  imports Ua_Ranges
begin

text \<open>
  Facts about index ranges: reading decimal numbers, and the positions that the blocks of a range
  cover compared with the positions of the range in a multidimensional array.
\<close>

section \<open>Decimal numbers\<close>

fun decimal :: "nat \<Rightarrow> UA_Byte list" where
  "decimal n = (if n < 10 then [0x30 + word_of_nat n] else decimal (n div 10) @ [0x30 + word_of_nat (n mod 10)])"

declare decimal.simps [simp del]

definition is_digit :: "UA_Byte \<Rightarrow> bool" where
  "is_digit c \<longleftrightarrow> \<not> (0x30 > c \<or> 0x39 < c)"

definition digit_step :: "UA_UInt32 \<Rightarrow> UA_Byte \<Rightarrow> UA_UInt32" where
  "digit_step n c = n * 10 + ucast (c - 0x30)"

lemma digit_less: "n < 10 \<Longrightarrow> is_digit (0x30 + word_of_nat n) \<and> ucast ((0x30 :: UA_Byte) + word_of_nat n - 0x30) = (word_of_nat n :: UA_UInt32)"
proof -
  assume "n < 10"
  then have "n \<in> {0, 1, 2, 3, 4, 5, 6, 7, 8, 9}" by auto
  then show ?thesis by (auto simp: is_digit_def)
qed

lemma decimal_digits: "\<forall>c \<in> set (decimal n). is_digit c"
  by (induction n rule: decimal.induct) (subst decimal.simps, auto simp: digit_less)

lemma decimal_nonempty: "decimal n \<noteq> []"
  by (subst decimal.simps) simp

lemma decimal_value: "foldl digit_step 0 (decimal n) = word_of_nat n"
proof (induction n rule: decimal.induct)
  case (1 n)
  show ?case
  proof (cases "n < 10")
    case True
    then show ?thesis using digit_less [of n] by (subst decimal.simps) (simp add: digit_step_def)
  next
    case False
    then have "foldl digit_step 0 (decimal n) = word_of_nat (n div 10) * 10 + word_of_nat (n mod 10)"
      using 1 digit_less [of "n mod 10"] by (subst decimal.simps) (simp add: digit_step_def [of _ "0x30 + _"])
    also have "\<dots> = word_of_nat (n div 10 * 10 + n mod 10)" by (simp only: of_nat_add of_nat_mult of_nat_numeral)
    finally show ?thesis by simp
  qed
qed

lemma readNumber_digits:
  "\<forall>c \<in> set ds. is_digit c \<Longrightarrow> readNumber_from (ds @ rest) n p = readNumber_from rest (foldl digit_step n ds) (p + length ds)"
  by (induction ds arbitrary: n p) (auto simp: is_digit_def digit_step_def)

lemma readNumber_stop: "rest = [] \<or> \<not> is_digit (hd rest) \<Longrightarrow> readNumber_from rest n p = (p, n)"
  by (cases rest) (auto simp: is_digit_def)

lemma readNumber_decimal:
  assumes "rest = [] \<or> \<not> is_digit (hd rest)"
  shows "readNumber (decimal n @ rest) = (length (decimal n), word_of_nat n)"
  using readNumber_digits [OF decimal_digits, of n rest 0 0] readNumber_stop [OF assms] decimal_value [of n]
  by (simp add: readNumber_def)

section \<open>Printing\<close>

text \<open>The textual form of a dimension: \<open>min:max\<close>, or one number.\<close>

definition print_dimension :: "bool \<Rightarrow> UA_NumericRangeDimension \<Rightarrow> UA_Byte list" where
  "print_dimension short d = decimal (unat (dim_min d)) @ (if short \<and> dim_min d = dim_max d then [] else 0x3A # decimal (unat (dim_max d)))"

fun print_range :: "(bool \<times> UA_NumericRangeDimension) list \<Rightarrow> UA_Byte list" where
  "print_range [] = []"
| "print_range [(short, d)] = print_dimension short d"
| "print_range ((short, d) # ds) = print_dimension short d @ 0x2C # print_range ds"

lemma colon_no_digit [simp]: "\<not> is_digit 0x3A" "\<not> is_digit 0x2C"
  by (simp_all add: is_digit_def)

lemma readDimension_print:
  assumes "rest = [] \<or> \<not> is_digit (hd rest) \<and> hd rest \<noteq> 0x3A"
  shows "readDimension (print_dimension short d @ rest) = (length (print_dimension short d), d)"
proof (cases "short \<and> dim_min d = dim_max d")
  case True
  have "readNumber (decimal (unat (dim_min d)) @ rest) = (length (decimal (unat (dim_min d))), dim_min d)"
    using readNumber_decimal [of rest "unat (dim_min d)"] assms by auto
  moreover have "(decimal (unat (dim_min d)) @ rest) ! length (decimal (unat (dim_min d))) \<noteq> 0x3A" if "rest \<noteq> []"
    using that assms by (simp add: nth_append hd_conv_nth)
  ultimately show ?thesis using True decimal_nonempty [of "unat (dim_min d)"]
    by (cases d) (auto simp: readDimension_def print_dimension_def)
next
  case False
  let ?a = "decimal (unat (dim_min d))" and ?b = "decimal (unat (dim_max d))"
  have "readNumber (?a @ 0x3A # ?b @ rest) = (length ?a, dim_min d)" "readNumber (?b @ rest) = (length ?b, dim_max d)"
    using readNumber_decimal [of "0x3A # ?b @ rest" "unat (dim_min d)"] readNumber_decimal [of rest "unat (dim_max d)"] assms by auto
  then show ?thesis using False decimal_nonempty
    by (cases d) (auto simp: readDimension_def print_dimension_def nth_append)
qed

lemma print_dimension_nonempty: "print_dimension short d \<noteq> []"
  by (simp add: print_dimension_def decimal_nonempty)

lemma parse_print:
  assumes "ds \<noteq> []" "rest = [] \<or> \<not> is_digit (hd rest) \<and> hd rest \<notin> {0x3A, 0x2C}"
  shows "parse_dimensions (\<lambda>_. True) (print_range ds @ rest) m acc = (UA_STATUSCODE_GOOD, acc @ map snd ds)"
  using assms(1)
proof (induction ds arbitrary: m acc rule: print_range.induct)
  case (2 short d)
  have "readDimension (print_dimension short d @ rest) = (length (print_dimension short d), d)"
    using assms(2) by (intro readDimension_print) auto
  moreover have "(print_dimension short d @ rest) ! length (print_dimension short d) \<noteq> 0x2C" if "rest \<noteq> []"
    using that assms(2) by (simp add: nth_append hd_conv_nth)
  ultimately show ?case using print_dimension_nonempty [of short d]
    by (subst parse_dimensions.simps) auto
next
  case (3 short d v va)
  have "readDimension (print_dimension short d @ 0x2C # print_range (v # va) @ rest) = (length (print_dimension short d), d)"
    by (rule readDimension_print) simp
  with "3.IH" [of _ "acc @ [d]"] show ?case using print_dimension_nonempty [of short d]
    by (subst parse_dimensions.simps) (simp add: nth_append)
qed simp

section \<open>The positions of a range\<close>

type_synonym range_dims = "(UA_NumericRangeDimension \<times> UA_UInt32) list"

text \<open>A range within its dimensions, and the flat positions of its elements in row-major order.\<close>

definition dims_prod :: "range_dims \<Rightarrow> nat" where
  "dims_prod zs = prod_list (map (\<lambda>z. unat (snd z)) zs)"

definition valid_dim :: "UA_NumericRangeDimension \<times> UA_UInt32 \<Rightarrow> bool" where
  "valid_dim z \<longleftrightarrow> dim_min (fst z) \<le> dim_max (fst z) \<and> dim_max (fst z) < snd z"

definition full_dim :: "UA_NumericRangeDimension \<times> UA_UInt32 \<Rightarrow> bool" where
  "full_dim z \<longleftrightarrow> dim_min (fst z) = 0 \<and> dim_max (fst z) + 1 = snd z"

fun range_indices :: "range_dims \<Rightarrow> nat list" where
  "range_indices [] = [0]"
| "range_indices (z # zs) =
     concat (map (\<lambda>i. map (\<lambda>j. i * dims_prod zs + j) (range_indices zs)) [unat (dim_min (fst z))..<unat (dim_max (fst z)) + 1])"

lemma dims_prod_simps [simp]: "dims_prod [] = 1" "dims_prod (z # zs) = unat (snd z) * dims_prod zs" "dims_prod (ys @ zs) = dims_prod ys * dims_prod zs"
  by (simp_all add: dims_prod_def)

lemma valid_dim_nat:
  assumes "valid_dim z"
  shows "unat (dim_min (fst z)) \<le> unat (dim_max (fst z))" "unat (dim_max (fst z)) < unat (snd z)"
    "unat (dim_max (fst z) - dim_min (fst z) + 1) = unat (dim_max (fst z)) + 1 - unat (dim_min (fst z))"
    "unat (dim_max (fst z) + 1) = unat (dim_max (fst z)) + 1"
proof -
  show 1: "unat (dim_min (fst z)) \<le> unat (dim_max (fst z))" "unat (dim_max (fst z)) < unat (snd z)"
    using assms by (simp_all add: valid_dim_def word_le_nat_alt word_less_nat_alt)
  have "unat (snd z) < 2 ^ LENGTH(32)" by (rule unsigned_less)
  then have lt: "unat (dim_max (fst z)) + 1 < 2 ^ 32" using 1(2) by simp
  then show "unat (dim_max (fst z) + 1) = unat (dim_max (fst z)) + 1" by (simp add: unat_word_ariths)
  have "unat (dim_max (fst z) - dim_min (fst z)) = unat (dim_max (fst z)) - unat (dim_min (fst z))"
    using assms by (intro unat_sub) (simp add: valid_dim_def)
  then show "unat (dim_max (fst z) - dim_min (fst z) + 1) = unat (dim_max (fst z)) + 1 - unat (dim_min (fst z))"
    using lt 1(1) by (simp add: unat_word_ariths)
qed

lemma full_dim_nat: "valid_dim z \<Longrightarrow> full_dim z \<longleftrightarrow> unat (dim_min (fst z)) = 0 \<and> unat (dim_max (fst z)) + 1 = unat (snd z)"
  using valid_dim_nat(4) [of z] by (auto simp: full_dim_def word_unat_eq_iff)

lemma upt_blocks: "a \<le> b \<Longrightarrow> concat (map (\<lambda>i. map (\<lambda>j. i * P + j) [0..<P]) [a..<b]) = [a * P..<b * P]"
proof (induction b)
  case (Suc b)
  show ?case
  proof (cases "a = Suc b")
    case False
    then have "[a * P..<Suc b * P] = [a * P..<b * P] @ [b * P..<b * P + P]"
      using Suc.prems upt_add_eq_append [of "a * P" "b * P" P] by (simp add: add.commute)
    moreover have "map (\<lambda>j. b * P + j) [0..<P] = [b * P..<b * P + P]" using map_add_upt [of "b * P" P] by (simp add: add.commute)
    ultimately show ?thesis using Suc False by simp
  qed simp
qed simp

lemma indices_full:
  assumes "\<forall>z \<in> set zs. valid_dim z \<and> full_dim z" shows "range_indices zs = [0..<dims_prod zs]"
  using assms
proof (induction zs)
  case (Cons z zs)
  then have "unat (dim_min (fst z)) = 0" "unat (dim_max (fst z)) + 1 = unat (snd z)" using full_dim_nat [of z] by auto
  then show ?case using Cons upt_blocks [of 0 "unat (snd z)" "dims_prod zs"] by simp
qed simp

lemma concat_map_concat: "concat (map f (concat xss)) = concat (map (\<lambda>xs. concat (map f xs)) xss)"
  by (induction xss) simp_all

lemma concat_concat_map: "concat (concat (map f xs)) = concat (map (\<lambda>x. concat (f x)) xs)"
  by (induction xs) simp_all

lemma indices_append:
  "range_indices (ys @ zs) = concat (map (\<lambda>i. map (\<lambda>j. i * dims_prod zs + j) (range_indices zs)) (range_indices ys))"
  by (induction ys) (simp_all add: map_concat comp_def concat_map_concat concat_concat_map algebra_simps)

lemma indices_less: "\<forall>z \<in> set zs. valid_dim z \<Longrightarrow> i \<in> set (range_indices zs) \<Longrightarrow> i < dims_prod zs"
proof (induction zs arbitrary: i)
  case (Cons z zs)
  from Cons.prems obtain k j where i: "i = k * dims_prod zs + j" "k \<le> unat (dim_max (fst z))" "j \<in> set (range_indices zs)" by auto
  then have "j < dims_prod zs" "k + 1 \<le> unat (snd z)" using Cons valid_dim_nat(2) [of z] by auto
  then have "k * dims_prod zs + j < (k + 1) * dims_prod zs" "(k + 1) * dims_prod zs \<le> unat (snd z) * dims_prod zs"
    by (simp, intro mult_le_mono1)
  then show ?case using i(1) by simp
qed simp

lemma length_indices:
  "\<forall>z \<in> set zs. valid_dim z \<Longrightarrow> length (range_indices zs) = prod_list (map (\<lambda>z. unat (dim_max (fst z) - dim_min (fst z) + 1)) zs)"
  by (induction zs) (simp_all add: length_concat comp_def sum_list_triv valid_dim_nat(1,3) Suc_diff_le)

lemma check_range_valid:
  assumes "\<forall>z \<in> set zs. valid_dim z"
  shows "check_range zs c = (UA_STATUSCODE_GOOD, c * length (range_indices zs))"
proof -
  have "check_range zs c = (UA_STATUSCODE_GOOD, c * prod_list (map (\<lambda>z. unat (dim_max (fst z) - dim_min (fst z) + 1)) zs))"
    using assms by (induction zs arbitrary: c) (auto simp: valid_dim_def not_less not_le mult.assoc)
  then show ?thesis using length_indices [OF assms] by simp
qed

text \<open>The position of the first element.\<close>

definition flat :: "range_dims \<Rightarrow> nat" where
  "flat zs = foldl (\<lambda>n z. n * unat (snd z) + unat (dim_min (fst z))) 0 zs"

lemma flat_simps [simp]: "flat [] = 0" "flat (zs @ [z]) = flat zs * unat (snd z) + unat (dim_min (fst z))"
  by (simp_all add: flat_def)

lemma indices_nonempty: "\<forall>z \<in> set zs. valid_dim z \<Longrightarrow> range_indices zs \<noteq> []"
  using valid_dim_nat(1) by (induction zs) fastforce+

lemma hd_indices: "\<forall>z \<in> set zs. valid_dim z \<Longrightarrow> hd (range_indices zs) = flat zs"
proof (induction zs rule: rev_induct)
  case (snoc z zs)
  obtain i I where I: "range_indices zs = i # I" using indices_nonempty [of zs] snoc.prems by (cases "range_indices zs") auto
  have "unat (dim_min (fst z)) < Suc (unat (dim_max (fst z)))" using valid_dim_nat(1) [of z] snoc.prems by simp
  then have "hd (range_indices (zs @ [z])) = i * unat (snd z) + unat (dim_min (fst z))"
    using I by (simp add: indices_append upt_rec [of "unat (dim_min (fst z))"] del: upt_Suc)
  then show ?case using snoc I by simp
qed simp

lemma blocks_found: "range_blocks (rev zs) running True b s f = (b, s, f + running * flat zs)"
proof (induction zs arbitrary: running f rule: rev_induct)
  case (snoc z zs)
  then show ?case by (cases z) (simp add: algebra_simps)
qed simp

lemma blocks_full: "\<forall>z \<in> set zs. full_dim z \<Longrightarrow>
  range_blocks (rev (ys @ zs)) running False b s f = range_blocks (rev ys) (running * dims_prod zs) False b s f"
proof (induction zs arbitrary: running rule: rev_induct)
  case (snoc z zs)
  then show ?case by (cases z) (simp add: full_dim_def mult_ac)
qed simp

lemma blocks_split:
  assumes "\<not> full_dim z" "\<forall>z \<in> set zs. full_dim z"
  shows "range_blocks (rev (ys @ z # zs)) 1 False b s 0 =
    (unat (dim_max (fst z) - dim_min (fst z) + 1) * dims_prod zs, unat (snd z) * dims_prod zs, dims_prod zs * flat (ys @ [z]))"
proof -
  have "range_blocks (rev ((ys @ [z]) @ zs)) 1 False b s 0 = range_blocks (rev (ys @ [z])) (dims_prod zs) False b s 0"
    using blocks_full [OF assms(2), of "ys @ [z]" 1] by simp
  then show ?thesis using assms(1) by (cases z) (simp add: full_dim_def blocks_found algebra_simps)
qed

text \<open>The positions that the blocks cover.\<close>

definition positions :: "nat \<Rightarrow> nat \<Rightarrow> nat \<Rightarrow> nat \<Rightarrow> nat list" where
  "positions n block stride p = concat (map (\<lambda>i. [p + i * stride..<p + i * stride + block]) [0..<n])"

lemma positions_simps [simp]:
  "positions 0 block stride p = []"
  "positions (Suc n) block stride p = [p..<p + block] @ positions n block stride (p + stride)"
  by (simp_all add: positions_def upt_rec [of 0] map_Suc_upt [symmetric] comp_def algebra_simps del: upt_Suc)

lemma map_plus_upt: "map ((+) (k :: nat)) [x..<y] = [k + x..<k + y]"
  by (induction y) auto

lemma positions_indices:
  assumes "\<forall>z \<in> set (ys @ z # zs). valid_dim z" "\<forall>z \<in> set zs. full_dim z" "range_indices ys = [a..<a + c]"
  defines "b \<equiv> unat (dim_max (fst z) - dim_min (fst z) + 1) * dims_prod zs" and "s \<equiv> unat (snd z) * dims_prod zs"
  shows "range_indices (ys @ z # zs) = positions c b s (dims_prod zs * flat (ys @ [z]))"
    "length (range_indices (ys @ z # zs)) div b = c"
proof -
  let ?lo = "unat (dim_min (fst z))" and ?hi = "unat (dim_max (fst z)) + 1"
  have v: "?lo \<le> unat (dim_max (fst z))" "unat (dim_max (fst z) - dim_min (fst z) + 1) = ?hi - ?lo"
    using valid_dim_nat(1,3) [of z] assms(1) by simp_all
  have inner: "range_indices (z # zs) = [?lo * dims_prod zs..<?hi * dims_prod zs]"
    using indices_full [of zs] assms(1,2) upt_blocks [of ?lo ?hi "dims_prod zs"] v(1) by simp
  have b: "?lo * dims_prod zs + b = ?hi * dims_prod zs" using v by (simp add: b_def flip: distrib_right)
  have "0 < length [a..<a + c]" using indices_nonempty [of ys] assms(1,3) by simp
  then have c: "0 < c" by simp
  then have "flat ys = a" using hd_indices [of ys] assms(1,3) by (simp add: upt_rec)
  then have first: "dims_prod zs * flat (ys @ [z]) = a * s + ?lo * dims_prod zs" by (simp add: s_def algebra_simps)
  have shift: "[a..<a + c] = map ((+) a) [0..<c]" by (simp add: map_plus_upt)
  have "range_indices (ys @ z # zs) = concat (map (\<lambda>i. map ((+) (i * s)) [?lo * dims_prod zs..<?lo * dims_prod zs + b]) [a..<a + c])"
    unfolding indices_append [of ys "z # zs"] inner assms(3) b by (simp add: s_def)
  also have "\<dots> = positions c b s (dims_prod zs * flat (ys @ [z]))"
    unfolding positions_def first map_plus_upt unfolding shift by (simp add: comp_def algebra_simps)
  finally show eq: "range_indices (ys @ z # zs) = positions c b s (dims_prod zs * flat (ys @ [z]))" .
  have "length (positions c b s p) = c * b" for p by (induction c arbitrary: p) simp_all
  moreover have "dims_prod zs \<noteq> 0"
    using assms(1) valid_dim_nat(2) by (induction zs) fastforce+
  then have "0 < b" using v by (simp add: b_def)
  ultimately show "length (range_indices (ys @ z # zs)) div b = c" by (simp add: eq)
qed

section \<open>Reading and writing blocks\<close>

lemma interval_bound: "0 < n \<Longrightarrow> (\<And>j. p \<le> j \<Longrightarrow> j < p + n \<Longrightarrow> j < (l :: nat)) \<Longrightarrow> p + n \<le> l"
  by (cases n) (simp_all add: Suc_le_eq)

lemma copy_blocks_positions:
  assumes "\<forall>j \<in> set (positions n block stride p). j < length xs" "0 < block"
  shows "copy_blocks n block stride p xs = Some (map ((!) xs) (positions n block stride p))"
  using assms(1)
proof (induction n arbitrary: p)
  case (Suc n)
  have "p + block \<le> length xs" by (rule interval_bound) (use Suc.prems assms(2) in auto)
  moreover from this have "take block (drop p xs) = map ((!) xs) [p..<p + block]" by (intro nth_equalityI) simp_all
  ultimately show ?case using Suc by (simp add: read_block_def)
qed simp

text \<open>The elements at pairwise different positions are replaced.\<close>

definition put :: "'a list \<Rightarrow> nat list \<Rightarrow> 'a list \<Rightarrow> 'a list" where
  "put xs ps ys = foldl (\<lambda>xs (p, y). xs[p := y]) xs (zip ps ys)"

lemma put_Cons [simp]: "put xs (p # ps) (y # ys) = put (xs[p := y]) ps ys" "put xs [] ys = xs"
  by (simp_all add: put_def)

lemma put_append: "length ps = length ys \<Longrightarrow> put xs (ps @ qs) (ys @ zs) = put (put xs ps ys) qs zs"
  by (simp add: put_def)

lemma length_put [simp]: "length (put xs ps ys) = length xs"
proof (induction ps arbitrary: xs ys)
  case (Cons p ps) then show ?case by (cases ys) (simp_all add: put_def)
qed simp

lemma put_other: "j \<notin> set ps \<Longrightarrow> put xs ps ys ! j = xs ! j"
proof (induction ps arbitrary: xs ys)
  case (Cons p ps) then show ?case by (cases ys) (simp_all add: put_def)
qed simp

lemma put_same:
  "distinct ps \<Longrightarrow> length ys = length ps \<Longrightarrow> \<forall>j \<in> set ps. j < length xs \<Longrightarrow> map ((!) (put xs ps ys)) ps = ys"
proof (induction ps arbitrary: xs ys)
  case (Cons p ps)
  then obtain y ys' where "ys = y # ys'" by (cases ys) auto
  then show ?case using Cons put_other [of p ps "xs[p := y]" ys'] by simp
qed simp

lemma set_put: "set (put xs ps ys) \<subseteq> set xs \<union> set ys"
proof (induction ps arbitrary: xs ys)
  case (Cons p ps)
  show ?case
  proof (cases ys)
    case (Cons y ys')
    then show ?thesis using \<open>\<And>xs ys. set (put xs ps ys) \<subseteq> set xs \<union> set ys\<close> [of "xs[p := y]" ys'] set_update_subset_insert [of xs p y] by auto
  qed (simp add: put_def)
qed simp

lemma put_upt: "p + length ys \<le> length xs \<Longrightarrow> put xs [p..<p + length ys] ys = take p xs @ ys @ drop (p + length ys) xs"
proof (induction ys arbitrary: p xs)
  case (Cons y ys)
  have "[p..<p + length (y # ys)] = p # [Suc p..<Suc p + length ys]" by (simp add: upt_rec)
  moreover have "take (Suc p) (xs[p := y]) = take p xs @ [y]" using Cons.prems by (simp add: take_Suc_conv_app_nth)
  ultimately show ?case using Cons.IH [of "Suc p" "xs[p := y]"] Cons.prems by simp
qed simp

lemma set_blocks_positions:
  assumes "\<forall>j \<in> set (positions n block stride p). j < length xs" "0 < block" "n * block \<le> length src"
  shows "set_blocks n block stride p src xs = Some (put xs (positions n block stride p) (take (n * block) src))"
  using assms(1,3)
proof (induction n arbitrary: p src xs)
  case (Suc n)
  have "p + block \<le> length xs" by (rule interval_bound) (use Suc.prems(1) assms(2) in auto)
  then have w: "write_block xs p (take block src) = Some (put xs [p..<p + block] (take block src))"
    using Suc.prems(2) put_upt [of p "take block src" xs] by (simp add: write_block_def min_absorb2)
  have "take (block + n * block) src = take block src @ take (n * block) (drop block src)" by (simp add: take_add)
  moreover have "set_blocks n block stride (p + stride) (drop block src) (put xs [p..<p + block] (take block src)) =
      Some (put (put xs [p..<p + block] (take block src)) (positions n block stride (p + stride)) (take (n * block) (drop block src)))"
    using Suc.prems by (intro Suc.IH) auto
  ultimately show ?case using w Suc.prems(2) by (simp add: read_block_def put_append min_absorb2)
qed simp

text \<open>Elements that are copied without a failure.\<close>

definition elements_copied :: "nat \<Rightarrow> ('a \<Rightarrow> (UA_StatusCode \<times> 'a) option) \<Rightarrow> 'a list \<Rightarrow> bool" where
  "elements_copied ty copy_elem xs \<longleftrightarrow> fixedSize (UA_TYPES ! ty) \<or> (\<forall>x \<in> set xs. copy_elem x = Some (UA_STATUSCODE_GOOD, x))"

lemma elements_copied_slow:
  "elements_copied ty copy_elem xs \<Longrightarrow> \<not> fixedSize (UA_TYPES ! ty) \<Longrightarrow> copy_until copy_elem xs = Some (UA_STATUSCODE_GOOD, xs)"
  "elements_copied ty copy_elem xs \<Longrightarrow> \<not> fixedSize (UA_TYPES ! ty) \<Longrightarrow> copy_each copy_elem xs = Some (UA_STATUSCODE_GOOD, xs)"
  by (induction xs) (auto simp: elements_copied_def)

end
