(* ===== verification/Ua_Ranges_Theorems.thy ===== *)
theory Ua_Ranges_Theorems
  imports Ua_Ranges_Laws
begin

text \<open>
  The properties of index ranges: what is parsed, and which elements of a multidimensional array
  are read and written.
\<close>

section \<open>Layouts\<close>

definition dims_of :: "'a UA_Variant \<Rightarrow> UA_UInt32 list" where
  "dims_of v = (if content (v_arrayDimensions v) = [] then [word_of_nat (v_arrayLength v)] else content (v_arrayDimensions v))"

text \<open>The array of the variant has the length its dimensions say.\<close>

definition consistent :: "'a UA_Variant \<Rightarrow> bool" where
  "consistent v \<longleftrightarrow> v_arrayLength v < 2 ^ 32 \<and> length (content (v_data v)) = v_arrayLength v \<and>
     prod_list (map unat (dims_of v)) = v_arrayLength v"

text \<open>The range is within the dimensions.\<close>

definition fits :: "'a UA_Variant \<Rightarrow> UA_NumericRange \<Rightarrow> bool" where
  "fits v rng \<longleftrightarrow> length rng = length (dims_of v) \<and> (\<forall>z \<in> set (zip rng (dims_of v)). valid_dim z)"

text \<open>
  The last dimension that is not complete is preceded by dimensions whose part of the range is
  contiguous: a range of at most one of them, with complete ones behind and single indices before it.
\<close>

definition in_blocks :: "'a UA_Variant \<Rightarrow> UA_NumericRange \<Rightarrow> bool" where
  "in_blocks v rng \<longleftrightarrow> content (v_arrayDimensions v) = [] \<or>
     (\<exists>ys z zs a c. zip rng (dims_of v) = ys @ z # zs \<and> \<not> full_dim z \<and> (\<forall>z \<in> set zs. full_dim z) \<and> range_indices ys = [a..<a + c])"

definition selected :: "'a UA_Variant \<Rightarrow> UA_NumericRange \<Rightarrow> nat list" where
  "selected v rng = range_indices (zip rng (dims_of v))"

lemma foldl_word_prod: "foldl (*) a ws = a * (word_of_nat (prod_list (map unat ws)) :: UA_UInt32)"
  by (induction ws arbitrary: a) (simp_all add: mult.assoc)

lemma zip_dims_prod: "length rng = length ds \<Longrightarrow> dims_prod (zip rng ds) = prod_list (map unat ds)"
  by (induction rng ds rule: list_induct2) (simp_all add: dims_prod_def)

lemma consistent_dims:
  assumes "consistent v"
  shows "content (v_arrayDimensions v) \<noteq> [] \<Longrightarrow> unat (foldl (*) 1 (content (v_arrayDimensions v)) :: UA_UInt32) = v_arrayLength v"
  using assms by (simp add: consistent_def dims_of_def foldl_word_prod unat_of_nat)

lemma positions_unit: "positions n 1 1 p = [p..<p + n]"
  by (induction n arbitrary: p) (simp_all add: upt_rec)

lemma layout:
  assumes "consistent v" "fits v rng" "in_blocks v rng"
  shows "\<exists>l. processRangeDefinition v rng = (UA_STATUSCODE_GOOD, l) \<and> 0 < rl_block l \<and> rl_total l = length (selected v rng) \<and>
    rl_total l div rl_block l * rl_block l = rl_total l \<and>
    positions (rl_total l div rl_block l) (rl_block l) (rl_stride l) (rl_first l) = selected v rng"
proof -
  let ?zs = "zip rng (dims_of v)"
  let ?b = "range_blocks (rev ?zs) 1 False 1 (unat (if content (v_arrayDimensions v) = [] then 1 else foldl (*) 1 (content (v_arrayDimensions v)) :: UA_UInt32)) 0"
  have valid: "\<forall>z \<in> set ?zs. valid_dim z" and len: "length rng = length (dims_of v)" using assms(2) by (simp_all add: fits_def)
  obtain b s f where b: "?b = (b, s, f)" by (cases ?b)
  have proc: "processRangeDefinition v rng = (UA_STATUSCODE_GOOD, \<lparr>rl_total = length (selected v rng), rl_block = b, rl_stride = s, rl_first = f\<rparr>)"
    using len b consistent_dims [OF assms(1)] check_range_valid [OF valid, of 1]
    by (auto simp: processRangeDefinition_def dims_of_def selected_def Let_def split: if_splits)
  have "0 < b \<and> length (selected v rng) div b * b = length (selected v rng) \<and> positions (length (selected v rng) div b) b s f = selected v rng"
  proof (cases "\<exists>ys z zs a c. ?zs = ys @ z # zs \<and> \<not> full_dim z \<and> (\<forall>z \<in> set zs. full_dim z) \<and> range_indices ys = [a..<a + c]")
    case True
    then obtain ys z zs a c where zs: "?zs = ys @ z # zs" "\<not> full_dim z" "\<forall>z \<in> set zs. full_dim z" "range_indices ys = [a..<a + c]" by blast
    have bsf: "b = unat (dim_max (fst z) - dim_min (fst z) + 1) * dims_prod zs" "s = unat (snd z) * dims_prod zs" "f = dims_prod zs * flat (ys @ [z])"
      using b blocks_split [OF zs(2,3)] unfolding zs(1) by auto
    note pos = positions_indices [OF valid [unfolded zs(1)] zs(3,4), folded bsf]
    have "length (positions c b s f) = c * b" by (induction c arbitrary: f) simp_all
    then have "length (selected v rng) = c * b" using pos(1) by (simp add: selected_def zs(1))
    moreover have "0 < length (selected v rng)" using indices_nonempty [OF valid] by (simp add: selected_def)
    ultimately have "0 < b" "length (selected v rng) = c * b" by simp_all
    then show ?thesis using pos by (simp add: selected_def zs(1))
  next
    case False
    then have none: "content (v_arrayDimensions v) = []" using assms(3) unfolding in_blocks_def by blast
    then obtain z where z: "?zs = [z]" using len by (cases rng) (auto simp: dims_of_def)
    have full: "full_dim z"
    proof (rule ccontr)
      assume "\<not> full_dim z"
      then have "?zs = [] @ z # [] \<and> \<not> full_dim z \<and> (\<forall>z \<in> set []. full_dim z) \<and> range_indices [] = [0..<0 + 1]" using z by simp
      with False show False by blast
    qed
    then have "?b = (1, 1, 0)" using none z by (cases z) (simp add: full_dim_def)
    then have "b = 1" "s = 1" "f = 0" using b by simp_all
    moreover have "selected v rng = [0..<dims_prod [z]]" using z full valid indices_full [of "[z]"] by (simp add: selected_def)
    ultimately show ?thesis using positions_unit [of "dims_prod [z]" 0] by simp
  qed
  with proc show ?thesis by auto
qed

lemma selected_less: "consistent v \<Longrightarrow> fits v rng \<Longrightarrow> \<forall>j \<in> set (selected v rng). j < length (content (v_data v))"
  using indices_less [of "zip rng (dims_of v)"] by (auto simp: selected_def fits_def consistent_def zip_dims_prod)

section \<open>Parsing\<close>

text \<open>
  The textual form of a range is parsed to that range: dimensions separated by commas, each of
  them \<open>min:max\<close> or, for a single index, one decimal number. Nothing behind the range is looked
  at, so it is parsed to the same range when other characters follow it, such as letters or blanks.
\<close>

theorem range_text_parsed:
  assumes "ds \<noteq> []" "rest = [] \<or> \<not> is_digit (hd rest) \<and> hd rest \<notin> {0x3A, 0x2C}"
  shows "parse_numericrange (\<lambda>_. True) (Block (print_range ds @ rest)) = (UA_STATUSCODE_GOOD, map snd ds)"
  using parse_print [OF assms, of 0 "[]"] by (simp add: parse_numericrange_def)

text \<open>The text \<open>1:12,7 x\<close>.\<close>

theorem range_text_parsed_witness:
  "parse_numericrange (\<lambda>_. True) (Block [0x31, 0x3A, 0x31, 0x32, 0x2C, 0x37, 0x20, 0x78]) =
     (UA_STATUSCODE_GOOD, [\<lparr>dim_min = 1, dim_max = 12\<rparr>, \<lparr>dim_min = 7, dim_max = 7\<rparr>])"
proof -
  have "print_range [(False, \<lparr>dim_min = 1, dim_max = 12\<rparr>), (True, \<lparr>dim_min = 7, dim_max = 7\<rparr>)] = [0x31, 0x3A, 0x31, 0x32, 0x2C, 0x37]"
    by (simp add: print_dimension_def decimal.simps)
  then show ?thesis
    using range_text_parsed [of "[(False, \<lparr>dim_min = 1, dim_max = 12\<rparr>), (True, \<lparr>dim_min = 7, dim_max = 7\<rparr>)]" "[0x20, 0x78]"]
    by (simp add: is_digit_def)
qed

text \<open>
  Numbers are read modulo \<open>2 ^ 32\<close>: an index of \<open>2 ^ 32 + n\<close> is accepted and selects
  element \<open>n\<close>.
\<close>

theorem range_index_wraps:
  "parse_numericrange (\<lambda>_. True) (Block (decimal (2 ^ 32 + n))) = (UA_STATUSCODE_GOOD, [\<lparr>dim_min = word_of_nat n, dim_max = word_of_nat n\<rparr>])"
proof -
  have "readNumber (decimal (2 ^ 32 + n)) = (length (decimal (2 ^ 32 + n)), word_of_nat n)"
    using readNumber_decimal [of "[]" "2 ^ 32 + n"] by (simp add: of_nat_add)
  then show ?thesis using decimal_nonempty [of "2 ^ 32 + n"]
    by (simp add: parse_numericrange_def parse_dimensions.simps readDimension_def)
qed

section \<open>Elements\<close>

lemma copyRange_selected:
  assumes "consistent v" "fits v rng" "in_blocks v rng" "v_type v = Some ty" "elements_copied ty copy_elem (content (v_data v))" "UA_Array_new (\<lambda>_. True) (alen (v_arrayDimensions v)) UA_TYPES_UINT32"
  shows "UA_Variant_copyRange (\<lambda>_. True) copy_elem v dst rng = Some (UA_STATUSCODE_GOOD,
    \<lparr>v_type = Some ty, v_arrayLength = length (selected v rng), v_data = Block (map ((!) (content (v_data v))) (selected v rng)),
     v_arrayDimensions = (if alen (v_arrayDimensions v) = 0 then Null_ptr else Block (map (\<lambda>r. dim_max r - dim_min r + 1) rng))\<rparr>)"
proof -
  from layout [OF assms(1-3)] obtain l where l: "processRangeDefinition v rng = (UA_STATUSCODE_GOOD, l)" "0 < rl_block l"
    "rl_total l = length (selected v rng)" "positions (rl_total l div rl_block l) (rl_block l) (rl_stride l) (rl_first l) = selected v rng" by blast
  have "copy_blocks (rl_total l div rl_block l) (rl_block l) (rl_stride l) (rl_first l) (content (v_data v)) =
      Some (map ((!) (content (v_data v))) (selected v rng))"
    using copy_blocks_positions [of "rl_total l div rl_block l" "rl_block l" "rl_stride l" "rl_first l"] selected_less [OF assms(1,2)] l(2,4) by simp
  moreover have "elements_copied ty copy_elem (map ((!) (content (v_data v))) (selected v rng))"
    using assms(5) selected_less [OF assms(1,2)] by (auto simp: elements_copied_def)
  ultimately show ?thesis using l(1,3) assms(4,6) by (simp add: UA_Variant_copyRange_def elements_copied_slow(1))
qed

lemma distinct_concat_map:
  "distinct xs \<Longrightarrow> (\<And>x. x \<in> set xs \<Longrightarrow> distinct (f x)) \<Longrightarrow> (\<And>x y. x \<noteq> y \<Longrightarrow> set (f x) \<inter> set (f y) = {}) \<Longrightarrow> distinct (concat (map f xs))"
proof (induction xs)
  case (Cons x xs)
  have "set (f x) \<inter> set (f y) = {}" if "y \<in> set xs" for y using Cons.prems(1) that by (intro Cons.prems(3)) auto
  then show ?case using Cons by auto
qed simp

lemma distinct_indices: "\<forall>z \<in> set zs. valid_dim z \<Longrightarrow> distinct (range_indices zs)"
proof (induction zs)
  case (Cons z zs)
  let ?P = "dims_prod zs"
  have less: "j < ?P" if "j \<in> set (range_indices zs)" for j using indices_less Cons.prems that by simp
  have "i = i'" if "i * ?P + j = i' * ?P + j'" "j < ?P" "j' < ?P" for i i' j j'
    using arg_cong [OF that(1), of "\<lambda>n. n div ?P"] that(2,3) by simp
  then have "set (map (\<lambda>j. i * ?P + j) (range_indices zs)) \<inter> set (map (\<lambda>j. i' * ?P + j) (range_indices zs)) = {}" if "i \<noteq> i'" for i i'
    using that less by fastforce
  then show ?case unfolding range_indices.simps using Cons
    by (intro distinct_concat_map) (simp_all add: distinct_map inj_on_def)
qed simp

text \<open>
  C27: a range is read correctly. When the array of a variant has as many elements as its dimensions
  say, the range is within the dimensions and its blocks are equally spaced (every range of a
  one-dimensional array without stated dimensions, every range of a two-dimensional array except the
  complete one), the copy holds exactly the elements of the range, in row-major order, with the
  dimensions of the range.
\<close>

theorem range_read:
  assumes "consistent v" "fits v rng" "in_blocks v rng" "v_type v = Some ty" "elements_copied ty copy_elem (content (v_data v))"
    "UA_Array_new (\<lambda>_. True) (alen (v_arrayDimensions v)) UA_TYPES_UINT32"
  shows "\<exists>w. UA_Variant_copyRange (\<lambda>_. True) copy_elem v dst rng = Some (UA_STATUSCODE_GOOD, w) \<and>
    content (v_data w) = map ((!) (content (v_data v))) (range_indices (zip rng (dims_of v))) \<and> v_arrayLength w = alen (v_data w) \<and>
    (alen (v_arrayDimensions v) \<noteq> 0 \<longrightarrow> content (v_arrayDimensions w) = map (\<lambda>r. dim_max r - dim_min r + 1) rng)"
  using copyRange_selected [OF assms, of dst] by (simp add: selected_def)

text \<open>
  What is written to a range is read back from it, and the elements outside of the range keep
  their values.
\<close>

theorem range_write_read:
  assumes "consistent v" "fits v rng" "in_blocks v rng" "v_type v = Some ty" "elements_copied ty copy_elem (content (v_data v))"
    "UA_Array_new (\<lambda>_. True) (alen (v_arrayDimensions v)) UA_TYPES_UINT32" "length xs = length (range_indices (zip rng (dims_of v)))"
    "elements_copied ty copy_elem xs"
  shows "\<exists>v' w. UA_Variant_setRangeCopy copy_elem v xs (length xs) rng = Some (UA_STATUSCODE_GOOD, v') \<and>
    UA_Variant_copyRange (\<lambda>_. True) copy_elem v' dst rng = Some (UA_STATUSCODE_GOOD, w) \<and> content (v_data w) = xs \<and>
    (\<forall>j < v_arrayLength v. j \<notin> set (range_indices (zip rng (dims_of v))) \<longrightarrow> content (v_data v') ! j = content (v_data v) ! j)"
proof -
  from layout [OF assms(1-3)] obtain l where l: "processRangeDefinition v rng = (UA_STATUSCODE_GOOD, l)" "0 < rl_block l"
    "rl_total l = length (selected v rng)" "rl_total l div rl_block l * rl_block l = rl_total l"
    "positions (rl_total l div rl_block l) (rl_block l) (rl_stride l) (rl_first l) = selected v rng" by blast
  let ?n = "rl_total l div rl_block l" and ?xs = "put (content (v_data v)) (selected v rng) xs"
  have less: "\<forall>j \<in> set (selected v rng). j < length (content (v_data v))" by (rule selected_less [OF assms(1,2)])
  have xs: "length xs = rl_total l" using l(3) assms(7) by (simp add: selected_def)
  have "set_blocks ?n (rl_block l) (rl_stride l) (rl_first l) xs (content (v_data v)) = Some (put (content (v_data v)) (selected v rng) (take (?n * rl_block l) xs))"
    using set_blocks_positions [of ?n "rl_block l" "rl_stride l" "rl_first l" "content (v_data v)" xs] less l(2,4,5) xs by (simp only: order_refl)
  then have "set_blocks ?n (rl_block l) (rl_stride l) (rl_first l) xs (content (v_data v)) = Some ?xs" using l(4) xs by simp
  then have set: "UA_Variant_setRangeCopy copy_elem v xs (length xs) rng = Some (UA_STATUSCODE_GOOD, v\<lparr>v_data := Block ?xs\<rparr>)"
    using l(1) xs assms(4,8) by (simp add: UA_Variant_setRangeCopy_def elements_copied_slow(2))
  let ?v = "v\<lparr>v_data := Block ?xs\<rparr>"
  have sel: "dims_of ?v = dims_of v" "selected ?v rng = selected v rng" by (simp_all add: dims_of_def selected_def)
  have "distinct (selected v rng)" using distinct_indices assms(2) by (simp add: selected_def fits_def)
  then have "map ((!) ?xs) (selected v rng) = xs" using put_same [of "selected v rng" xs "content (v_data v)"] less xs l(3) by simp
  moreover have "consistent ?v" "fits ?v rng" "in_blocks ?v rng" using assms(1-3) sel(1) by (simp_all add: consistent_def fits_def in_blocks_def)
  moreover have "elements_copied ty copy_elem ?xs"
  proof -
    have "x \<in> set (content (v_data v)) \<union> set xs" if "x \<in> set ?xs" for x using that set_put by fastforce
    then show ?thesis using assms(5,8) by (auto simp: elements_copied_def)
  qed
  ultimately show ?thesis using set copyRange_selected [of ?v rng ty copy_elem dst] assms(4,6) sel(2)
    by (simp add: put_other selected_def)
qed

text \<open>The second column of a matrix with two rows and three columns.\<close>

definition matrix :: "UA_UInt32 UA_Variant" where
  "matrix = \<lparr>v_type = Some UA_TYPES_UINT32, v_arrayLength = 6, v_data = Block [10, 11, 12, 20, 21, 22], v_arrayDimensions = Block [2, 3]\<rparr>"

definition second_column :: UA_NumericRange where
  "second_column = [\<lparr>dim_min = 0, dim_max = 1\<rparr>, \<lparr>dim_min = 1, dim_max = 1\<rparr>]"

lemma uint32_fixed: "fixedSize (UA_TYPES ! UA_TYPES_UINT32)" "memSize (UA_TYPES ! UA_TYPES_UINT32) = 4"
  by code_simp+

lemma uint32_copied: "elements_copied UA_TYPES_UINT32 copy_elem xs"
  by (simp add: elements_copied_def uint32_fixed(1))

lemma matrix_ok:
  "consistent matrix" "fits matrix second_column" "in_blocks matrix second_column" "v_type matrix = Some UA_TYPES_UINT32"
  "UA_Array_new (\<lambda>_. True) (alen (v_arrayDimensions matrix)) UA_TYPES_UINT32" "range_indices (zip second_column (dims_of matrix)) = [1, 4]"
proof -
  show "in_blocks matrix second_column" unfolding in_blocks_def
    by (intro disjI2 exI [of _ "[(\<lparr>dim_min = 0, dim_max = 1\<rparr>, 2)]"] exI [of _ "(\<lparr>dim_min = 1, dim_max = 1\<rparr>, 3)"] exI [of _ "[]"] exI [of _ 0] exI [of _ 2])
      (simp add: matrix_def second_column_def dims_of_def full_dim_def upt_rec)
  show "UA_Array_new (\<lambda>_. True) (alen (v_arrayDimensions matrix)) UA_TYPES_UINT32"
    by (simp add: UA_Array_new_def uint32_fixed matrix_def MAX_ARRAY_SIZE_def)
qed (simp_all add: matrix_def second_column_def consistent_def fits_def dims_of_def valid_dim_def upt_rec)

theorem range_read_witness:
  "\<exists>w. UA_Variant_copyRange (\<lambda>_. True) (\<lambda>x. Some (UA_STATUSCODE_GOOD, x)) matrix UA_Variant_init second_column = Some (UA_STATUSCODE_GOOD, w) \<and> content (v_data w) = [11, 21]"
  using range_read [OF matrix_ok(1-4) uint32_copied matrix_ok(5), of "\<lambda>x. Some (UA_STATUSCODE_GOOD, x)" UA_Variant_init] matrix_ok(6)
  by (auto simp: matrix_def)

theorem range_write_read_witness:
  "\<exists>v' w. UA_Variant_setRangeCopy (\<lambda>x. Some (UA_STATUSCODE_GOOD, x)) matrix [7, 8] 2 second_column = Some (UA_STATUSCODE_GOOD, v') \<and>
    UA_Variant_copyRange (\<lambda>_. True) (\<lambda>x. Some (UA_STATUSCODE_GOOD, x)) v' UA_Variant_init second_column = Some (UA_STATUSCODE_GOOD, w) \<and> content (v_data w) = [7, 8]"
  using range_write_read [OF matrix_ok(1-4) uint32_copied matrix_ok(5), of "[7, 8]" "\<lambda>x. Some (UA_STATUSCODE_GOOD, x)" UA_Variant_init] matrix_ok(6)
  by (auto simp: numeral_2_eq_2 uint32_copied)

text \<open>
  The complete range of an array with stated dimensions is not readable: no dimension is found
  to be incomplete, so the blocks keep the size of one element with the size of the whole array as
  distance, and from the second element on memory behind the array is read.
\<close>

theorem full_range_overreads:
  assumes "consistent v" "fits v rng" "content (v_arrayDimensions v) \<noteq> []" "\<forall>z \<in> set (zip rng (dims_of v)). full_dim z"
    and "2 \<le> v_arrayLength v" "v_type v = Some ty"
  shows "UA_Variant_copyRange (\<lambda>_. True) copy_elem v dst rng = None"
proof -
  let ?zs = "zip rng (dims_of v)"
  have valid: "\<forall>z \<in> set ?zs. valid_dim z" and len: "length rng = length (dims_of v)" using assms(2) by (simp_all add: fits_def)
  have n: "dims_prod ?zs = v_arrayLength v" using assms(1) zip_dims_prod [OF len] by (simp add: consistent_def)
  have "range_indices ?zs = [0..<v_arrayLength v]" using indices_full valid assms(4) n by simp
  then have "check_range ?zs 1 = (UA_STATUSCODE_GOOD, v_arrayLength v)" using check_range_valid [OF valid, of 1] by simp
  moreover have "range_blocks (rev ?zs) 1 False 1 s 0 = (1, s, 0)" for s using blocks_full [OF assms(4), of "[]" 1 1 s 0] by simp
  ultimately have "processRangeDefinition v rng =
      (UA_STATUSCODE_GOOD, \<lparr>rl_total = v_arrayLength v, rl_block = 1, rl_stride = v_arrayLength v, rl_first = 0\<rparr>)"
    using len assms(3) consistent_dims [OF assms(1,3)] by (simp add: processRangeDefinition_def dims_of_def)
  moreover obtain k where k: "v_arrayLength v = Suc (Suc k)" using assms(5) by (metis add_2_eq_Suc le_Suc_ex)
  moreover have "length (content (v_data v)) = v_arrayLength v" using assms(1) by (simp add: consistent_def)
  ultimately show ?thesis using assms(6) by (simp add: UA_Variant_copyRange_def read_block_def)
qed

theorem full_range_overreads_witness:
  "UA_Variant_copyRange (\<lambda>_. True) (\<lambda>x. Some (UA_STATUSCODE_GOOD, x)) matrix UA_Variant_init [\<lparr>dim_min = 0, dim_max = 1\<rparr>, \<lparr>dim_min = 0, dim_max = 2\<rparr>] = None"
  by (rule full_range_overreads [OF matrix_ok(1) _ _ _ _ matrix_ok(4)]) (simp_all add: matrix_def fits_def dims_of_def valid_dim_def full_dim_def)

text \<open>
  With three dimensions the wrong elements can be read. The range \<open>0:1,0:1,0\<close> of an array
  with two, three and two elements per dimension is the positions 0, 2, 6 and 8, but the blocks are
  spaced equally and positions 0, 2, 4 and 6 are returned.
\<close>

theorem three_dimensions_misread:
  "let v = \<lparr>v_type = Some UA_TYPES_UINT32, v_arrayLength = 12, v_data = Block [0, 1, 2, 3, 4, 5, 6, 7, 8, 9, 10, 11], v_arrayDimensions = Block [2, 3, 2]\<rparr>;
       rng = [\<lparr>dim_min = 0, dim_max = 1\<rparr>, \<lparr>dim_min = 0, dim_max = 1\<rparr>, \<lparr>dim_min = 0, dim_max = 0\<rparr>] in
   range_indices (zip rng (dims_of v)) = [0, 2, 6, 8] \<and>
   (\<exists>w. UA_Variant_copyRange (\<lambda>_. True) (\<lambda>x. Some (UA_STATUSCODE_GOOD, x)) v UA_Variant_init rng = Some (UA_STATUSCODE_GOOD, w) \<and> content (v_data w) = [0, 2, 4, 6 :: UA_UInt32])"
proof -
  have "copy_blocks 4 1 2 0 [0, 1, 2, 3, 4, 5, 6, 7, 8, 9, 10, 11 :: UA_UInt32] = Some [0, 2, 4, 6]" by code_simp
  then show ?thesis
    by (simp add: UA_Variant_copyRange_def processRangeDefinition_def dims_of_def Let_def uint32_fixed UA_Array_new_def MAX_ARRAY_SIZE_def upt_rec word_le_nat_alt)
qed

end
