(* ===== verification/Ua_Attributes_Laws.thy ===== *)
theory Ua_Attributes_Laws
  imports Ua_Attributes Ua_View_Laws Ua_Ranges_Theorems
begin

text \<open>
  The attribute services on a store that satisfies the invariant of the node store: the effect of
  an edit on the lookups, and the members of a node of a known class.
\<close>

section \<open>Edits\<close>

text \<open>An edit in place is a replacement of the node in its slot.\<close>

lemma edit_replaces:
  assumes "ns_inv ns" "hashable i" "node_of ns i = Some node"
  obtains slot where "UA_NodeStore_get ns i = Some (Some slot)" "UA_NodeStore_get ns (n_nodeId node) = Some (Some slot)"
    "entry_at ns slot = Some (Some node)"
proof -
  have wf: "wf_table ns" "reachable_slots ns" using assms(1) by (simp_all add: ns_inv_def)
  have old: "node \<in> stored ns" "UA_NodeId_equal (n_nodeId node) i" using assms node_of_stored by blast+
  from find_stored [OF wf old assms(2)] obtain p where
    p: "p < length (entries ns)" "entries ns ! p = Some node" "containsNodeId ns i = Some (True, word_of_nat p)" "unat (word_of_nat p :: hash_t) = p" by auto
  from find_stored [OF wf old(1) UA_NodeId_equal_refl inv_hashable [OF assms(1) old(1)]] obtain q where
    q: "q < length (entries ns)" "entries ns ! q = Some node" "containsNodeId ns (n_nodeId node) = Some (True, word_of_nat q)" by auto
  from reachable_slotsD [OF wf(2) p(1,2)] reachable_slotsD [OF wf(2) q(1,2)] first_stop_unique have "p = q" by metis
  with p q that [of "word_of_nat p"] show thesis by (simp add: UA_NodeStore_get_def entry_at_def)
qed

lemma edit_node:
  assumes inv: "ns_inv ns" "hashable i" "node_of ns i = Some node" and f: "f node e = Some (r, node', e1)"
    and id: "n_nodeId node' = n_nodeId node" and cls: "n_nodeClass node' \<noteq> UA_NODECLASS_UNSPECIFIED"
  shows "\<exists>ns'. UA_Server_editNode ns i f e = Some (r, ns', e1) \<and> ns_inv ns' \<and>
    (\<forall>j. hashable j \<longrightarrow> node_of ns' j = (if UA_NodeId_equal i j then Some node' else node_of ns j))"
proof -
  from edit_replaces [OF inv] obtain slot where s: "UA_NodeStore_get ns i = Some (Some slot)"
    "UA_NodeStore_get ns (n_nodeId node) = Some (Some slot)" "entry_at ns slot = Some (Some node)" .
  have old: "node \<in> stored ns" "UA_NodeId_equal (n_nodeId node) i" using inv node_of_stored by blast+
  have eq: "UA_NodeId_equal (n_nodeId node) (n_nodeId node')" by (simp add: id UA_NodeId_equal_refl)
  let ?ns = "ns\<lparr>entries := (entries ns)[unat slot := Some node']\<rparr>"
  have "UA_NodeStore_replace ns slot node' = Some (UA_STATUSCODE_GOOD, Some slot, ?ns)"
    using s cls by (auto simp: UA_NodeStore_replace_def UA_NodeStore_get_def id fillEntry_def deleteEntry_def entry_at_def bind_eq_Some_conv split: if_splits)
  with replace_keeps [OF inv(1) old(1) eq] s(2) cls inv_hashable [OF inv(1) old(1)]
  have new: "ns_inv ?ns" "stored ?ns = insert node' (stored ns - {node})" by (auto simp: id)
  have iff: "UA_NodeId_equal i j \<longleftrightarrow> UA_NodeId_equal (n_nodeId node) j" for j using old(2) by (simp add: UA_NodeId_equal_norm)
  have "node_of ?ns j = (if UA_NodeId_equal i j then Some node' else node_of ns j)" if "hashable j" for j
  proof (cases "UA_NodeId_equal i j")
    case True
    then show ?thesis using node_of_stored [OF new(1) that, of node'] new(2) id iff by simp
  next
    case False
    then have "node_of ?ns j = Some n \<longleftrightarrow> node_of ns j = Some n" for n
      using node_of_stored [OF new(1) that, of n] node_of_stored [OF inv(1) that, of n] new(2) iff id by auto
    then show ?thesis using False by (metis option.exhaust)
  qed
  with new(1) f s show ?thesis by (simp add: UA_Server_editNode_def)
qed


section \<open>Attributes of a class\<close>

fun part_class :: "node_part \<Rightarrow> UA_NodeClass" where
  "part_class (ObjectPart n) = UA_NODECLASS_OBJECT"
| "part_class (ObjectTypePart a) = UA_NODECLASS_OBJECTTYPE"
| "part_class (VariablePart rank src al ual msi his) = UA_NODECLASS_VARIABLE"
| "part_class (VariableTypePart rank src a) = UA_NODECLASS_VARIABLETYPE"
| "part_class (ReferenceTypePart a smt inm) = UA_NODECLASS_REFERENCETYPE"
| "part_class (MethodPart ex uex) = UA_NODECLASS_METHOD"
| "part_class (ViewPart n loops) = UA_NODECLASS_VIEW"
| "part_class (DataTypePart a) = UA_NODECLASS_DATATYPE"

text \<open>The members of a node are those of its class.\<close>

definition node_ok :: "UA_AnyNode \<Rightarrow> bool" where
  "node_ok node \<longleftrightarrow> n_nodeClass node = part_class (part node)"

lemma check_class: "UA_NODECLASS_UNSPECIFIED \<notin> set cs \<Longrightarrow> CHECK_NODECLASS node cs \<longleftrightarrow> n_nodeClass node \<in> set cs"
proof -
  have bits: "node_class_code c AND node_class_code d \<noteq> 0 \<longleftrightarrow> c = d \<and> d \<noteq> UA_NODECLASS_UNSPECIFIED" for c d
    by (cases c; cases d) simp_all
  have code: "node_class_code c = 0 \<longleftrightarrow> c = UA_NODECLASS_UNSPECIFIED" for c by (cases c) simp_all
  assume "UA_NODECLASS_UNSPECIFIED \<notin> set cs"
  then show ?thesis
    unfolding CHECK_NODECLASS_def by (induction cs) (auto simp: bit.conj_disj_distrib or_eq_0_iff bits code)
qed

lemma part_class_specified [simp]: "part_class p \<noteq> UA_NODECLASS_UNSPECIFIED"
  by (cases p) simp_all

text \<open>The attributes of the node classes in the address space model of OPC UA.\<close>

definition base_attributes :: "UA_AttributeId list" where
  "base_attributes = [UA_ATTRIBUTEID_NODEID, UA_ATTRIBUTEID_NODECLASS, UA_ATTRIBUTEID_BROWSENAME, UA_ATTRIBUTEID_DISPLAYNAME,
     UA_ATTRIBUTEID_DESCRIPTION, UA_ATTRIBUTEID_WRITEMASK, UA_ATTRIBUTEID_USERWRITEMASK]"

fun class_attributes :: "UA_NodeClass \<Rightarrow> UA_AttributeId list" where
  "class_attributes UA_NODECLASS_UNSPECIFIED = base_attributes"
| "class_attributes UA_NODECLASS_OBJECT = base_attributes @ [UA_ATTRIBUTEID_EVENTNOTIFIER]"
| "class_attributes UA_NODECLASS_VARIABLE = base_attributes @ [UA_ATTRIBUTEID_VALUE, UA_ATTRIBUTEID_DATATYPE, UA_ATTRIBUTEID_VALUERANK,
     UA_ATTRIBUTEID_ARRAYDIMENSIONS, UA_ATTRIBUTEID_ACCESSLEVEL, UA_ATTRIBUTEID_USERACCESSLEVEL, UA_ATTRIBUTEID_MINIMUMSAMPLINGINTERVAL,
     UA_ATTRIBUTEID_HISTORIZING]"
| "class_attributes UA_NODECLASS_METHOD = base_attributes @ [UA_ATTRIBUTEID_EXECUTABLE, UA_ATTRIBUTEID_USEREXECUTABLE]"
| "class_attributes UA_NODECLASS_OBJECTTYPE = base_attributes @ [UA_ATTRIBUTEID_ISABSTRACT]"
| "class_attributes UA_NODECLASS_VARIABLETYPE = base_attributes @ [UA_ATTRIBUTEID_VALUE, UA_ATTRIBUTEID_DATATYPE, UA_ATTRIBUTEID_VALUERANK,
     UA_ATTRIBUTEID_ARRAYDIMENSIONS, UA_ATTRIBUTEID_ISABSTRACT]"
| "class_attributes UA_NODECLASS_REFERENCETYPE =
     base_attributes @ [UA_ATTRIBUTEID_ISABSTRACT, UA_ATTRIBUTEID_SYMMETRIC, UA_ATTRIBUTEID_INVERSENAME]"
| "class_attributes UA_NODECLASS_DATATYPE = base_attributes @ [UA_ATTRIBUTEID_ISABSTRACT]"
| "class_attributes UA_NODECLASS_VIEW = base_attributes @ [UA_ATTRIBUTEID_CONTAINSNOLOOPS, UA_ATTRIBUTEID_EVENTNOTIFIER]"

text \<open>The value of a variable is stored in the node and has a type; nodes of other classes have none.\<close>

definition value_typed :: "node_part \<Rightarrow> bool" where
  "value_typed p \<longleftrightarrow> (case value_at p of None \<Rightarrow> True
     | Some (UA_VALUESOURCE_VARIANT v onr onw) \<Rightarrow> v_type v \<noteq> None | Some (UA_VALUESOURCE_DATASOURCE _) \<Rightarrow> False)"

lemmas read_attribute_rules = read_attribute_def Let_def read_member_def check_class node_ok_def

lemma read_in_class:
  assumes "node_ok node" "value_typed (part node)" "alen (rv_indexRange rid) = 0"
    "attribute_of (rv_attributeId rid) \<in> set (class_attributes (n_nodeClass node))"
  shows "\<exists>w e1. read_attribute mem app now ts rid node v e = Some (UA_STATUSCODE_GOOD, w, e1) \<and>
    hasValue (dv_has w) = hasValue (dv_has v) \<and> hasStatus (dv_has w) = hasStatus (dv_has v)"
  using assms
  by (cases "part node"; cases "value_at (part node)"; cases "attribute_of (rv_attributeId rid)")
    (auto simp: read_attribute_rules base_attributes_def value_typed_def forceVariantSetScalar_def getVariableNodeValue_def optional_range_def
      getVariableNodeDataType_def getVariableNodeArrayDimensions_def handleSourceTimestamps_def split: UA_ValueSource.splits)

lemma read_not_in_class:
  assumes "node_ok node" "attribute_of (rv_attributeId rid) \<notin> set (class_attributes (n_nodeClass node))"
  shows "read_attribute mem app now ts rid node v e = Some (UA_STATUSCODE_BADATTRIBUTEIDINVALID, v, e)"
  using assms
  by (cases "part node"; cases "attribute_of (rv_attributeId rid)") (auto simp: read_attribute_rules base_attributes_def)

section \<open>Writes of a member\<close>

text \<open>The attributes that are members of the node and can be written, with their types.\<close>

fun attribute_type :: "UA_AttributeId \<Rightarrow> nat option" where
  "attribute_type UA_ATTRIBUTEID_BROWSENAME = Some UA_TYPES_QUALIFIEDNAME"
| "attribute_type UA_ATTRIBUTEID_DISPLAYNAME = Some UA_TYPES_LOCALIZEDTEXT"
| "attribute_type UA_ATTRIBUTEID_DESCRIPTION = Some UA_TYPES_LOCALIZEDTEXT"
| "attribute_type UA_ATTRIBUTEID_WRITEMASK = Some UA_TYPES_UINT32"
| "attribute_type UA_ATTRIBUTEID_USERWRITEMASK = Some UA_TYPES_UINT32"
| "attribute_type UA_ATTRIBUTEID_ISABSTRACT = Some UA_TYPES_BOOLEAN"
| "attribute_type UA_ATTRIBUTEID_SYMMETRIC = Some UA_TYPES_BOOLEAN"
| "attribute_type UA_ATTRIBUTEID_INVERSENAME = Some UA_TYPES_LOCALIZEDTEXT"
| "attribute_type UA_ATTRIBUTEID_CONTAINSNOLOOPS = Some UA_TYPES_BOOLEAN"
| "attribute_type UA_ATTRIBUTEID_EVENTNOTIFIER = Some UA_TYPES_BYTE"
| "attribute_type UA_ATTRIBUTEID_ACCESSLEVEL = Some UA_TYPES_BYTE"
| "attribute_type UA_ATTRIBUTEID_USERACCESSLEVEL = Some UA_TYPES_BYTE"
| "attribute_type UA_ATTRIBUTEID_MINIMUMSAMPLINGINTERVAL = Some UA_TYPES_DOUBLE"
| "attribute_type UA_ATTRIBUTEID_HISTORIZING = Some UA_TYPES_BOOLEAN"
| "attribute_type UA_ATTRIBUTEID_EXECUTABLE = Some UA_TYPES_BOOLEAN"
| "attribute_type UA_ATTRIBUTEID_USEREXECUTABLE = Some UA_TYPES_BOOLEAN"
| "attribute_type _ = None"

text \<open>A value of such a type, without empty blocks.\<close>

definition member_value :: "nat \<Rightarrow> ua_value \<Rightarrow> bool" where
  "member_value ty x \<longleftrightarrow>
     (ty = UA_TYPES_BOOLEAN \<and> (\<exists>b. x = VBoolean b)) \<or> (ty = UA_TYPES_BYTE \<and> (\<exists>b. x = VByte b)) \<or>
     (ty = UA_TYPES_UINT32 \<and> (\<exists>w. x = VUInt32 w)) \<or> (ty = UA_TYPES_DOUBLE \<and> (\<exists>d. x = VUInt64 d)) \<or>
     (ty = UA_TYPES_QUALIFIEDNAME \<and> (\<exists>i s. x = VStruct [VUInt16 i, VString s] \<and> plain_array 1 s)) \<or>
     (ty = UA_TYPES_LOCALIZEDTEXT \<and> (\<exists>t. x = VLocalizedText t \<and> plain_array 1 (locale_text t) \<and> plain_array 1 (text_text t)))"

text \<open>A write of the scalar \<open>x\<close>.\<close>

definition scalar_write :: "UA_WriteValue \<Rightarrow> nat \<Rightarrow> ua_value \<Rightarrow> bool" where
  "scalar_write wvalue ty x \<longleftrightarrow> hasValue (dv_has (wv_value wvalue)) \<and>
     (\<exists>dims. dv_value (wv_value wvalue) = \<lparr>v_type = Some ty, v_arrayLength = 0, v_data = Block [x], v_arrayDimensions = dims\<rparr>)"

lemma scalar_check: "scalar_write wvalue ty x \<Longrightarrow> CHECK_DATATYPE wvalue ty \<and> v_data (dv_value (wv_value wvalue)) = Block [x]"
  by (auto simp: scalar_write_def CHECK_DATATYPE_def UA_Variant_isScalar_def)

lemma copies_exact:
  "plain_array 1 s \<Longrightarrow> QualifiedName_copy (\<lambda>_. True) \<lparr>qn_namespaceIndex = i, qn_name = s\<rparr> = (UA_STATUSCODE_GOOD, \<lparr>qn_namespaceIndex = i, qn_name = s\<rparr>)"
  "plain_array 1 (locale_text t) \<Longrightarrow> plain_array 1 (text_text t) \<Longrightarrow> LocalizedText_copy (\<lambda>_. True) t = (UA_STATUSCODE_GOOD, t)"
  using exact_QualifiedName [of "\<lparr>qn_namespaceIndex = i, qn_name = s\<rparr>" "\<lambda>_. True"] exact_LocalizedText [of t "\<lambda>_. True"]
  by (simp_all add: exact_def prod_eq_iff)

text \<open>\<open>isAbstract\<close> of a variable type is the exception.\<close>

definition misplaced :: "UA_AttributeId \<Rightarrow> node_part \<Rightarrow> bool" where
  "misplaced a p \<longleftrightarrow> a = UA_ATTRIBUTEID_ISABSTRACT \<and> part_class p = UA_NODECLASS_VARIABLETYPE"

lemmas write_rules = CopyAttributeIntoNode_def write_member_def set_part_def check_class node_ok_def

lemma write_effect:
  fixes app :: "'e application"
  assumes "node_ok node" "a = attribute_of (wv_attributeId wvalue)" "a \<in> set (class_attributes (n_nodeClass node))" "attribute_type a = Some ty"
    "\<not> misplaced a (part node)" "scalar_write wvalue ty x" "member_value ty x"
  shows "\<exists>node'. CopyAttributeIntoNode (\<lambda>_. True) app wvalue node e = Some (UA_STATUSCODE_GOOD, node', e) \<and>
    n_nodeId node' = n_nodeId node \<and> n_nodeClass node' = n_nodeClass node \<and>
    (\<forall>mem (app :: 'e application) now ts rid v e. attribute_of (rv_attributeId rid) = a \<longrightarrow>
      read_attribute mem app now ts rid node' v e = Some (UA_STATUSCODE_GOOD, forceVariantSetScalar v x ty, e))"
proof -
  have "hasValue (dv_has (wv_value wvalue))" using assms(6) by (simp add: scalar_write_def)
  then show ?thesis
    using assms(1,3-5,7) scalar_check [OF assms(6)] unfolding assms(2)
    by (cases "part node"; cases "attribute_of (wv_attributeId wvalue)")
      (auto simp: write_rules base_attributes_def member_value_def misplaced_def copies_exact read_attribute_rules)
qed

text \<open>Nodes that differ in one attribute only.\<close>

definition same_but :: "UA_AttributeId \<Rightarrow> UA_AnyNode \<Rightarrow> UA_AnyNode \<Rightarrow> bool" where
  "same_but a node node' \<longleftrightarrow> n_nodeId node' = n_nodeId node \<and> n_nodeClass node' = n_nodeClass node \<and>
     part_class (part node') = part_class (part node) \<and> value_at (part node') = value_at (part node) \<and>
     valueRank_at (part node') = valueRank_at (part node) \<and>
     (a \<noteq> UA_ATTRIBUTEID_BROWSENAME \<longrightarrow> n_browseName node' = n_browseName node) \<and>
     (a \<noteq> UA_ATTRIBUTEID_DISPLAYNAME \<longrightarrow> n_displayName node' = n_displayName node) \<and>
     (a \<noteq> UA_ATTRIBUTEID_DESCRIPTION \<longrightarrow> n_description node' = n_description node) \<and>
     (a \<noteq> UA_ATTRIBUTEID_WRITEMASK \<longrightarrow> n_writeMask node' = n_writeMask node) \<and>
     (a \<noteq> UA_ATTRIBUTEID_USERWRITEMASK \<longrightarrow> n_userWriteMask node' = n_userWriteMask node) \<and>
     (a \<noteq> UA_ATTRIBUTEID_ISABSTRACT \<longrightarrow> isAbstract_at (part node') = isAbstract_at (part node)) \<and>
     (a \<noteq> UA_ATTRIBUTEID_EVENTNOTIFIER \<longrightarrow> eventNotifier_at (part node') = eventNotifier_at (part node)) \<and>
     (case (part node, part node') of
        (ReferenceTypePart b s i, ReferenceTypePart b' s' i') \<Rightarrow>
          (a \<noteq> UA_ATTRIBUTEID_SYMMETRIC \<longrightarrow> s' = s) \<and> (a \<noteq> UA_ATTRIBUTEID_INVERSENAME \<longrightarrow> i' = i)
      | (ViewPart n l, ViewPart n' l') \<Rightarrow> a \<noteq> UA_ATTRIBUTEID_CONTAINSNOLOOPS \<longrightarrow> l' = l
      | (MethodPart x u, MethodPart x' u') \<Rightarrow>
          (a \<noteq> UA_ATTRIBUTEID_EXECUTABLE \<longrightarrow> x' = x) \<and> (a \<noteq> UA_ATTRIBUTEID_USEREXECUTABLE \<longrightarrow> u' = u)
      | (VariablePart rank src al ual msi his, VariablePart rank' src' al' ual' msi' his') \<Rightarrow>
          (a \<noteq> UA_ATTRIBUTEID_ACCESSLEVEL \<longrightarrow> al' = al) \<and> (a \<noteq> UA_ATTRIBUTEID_USERACCESSLEVEL \<longrightarrow> ual' = ual) \<and>
          (a \<noteq> UA_ATTRIBUTEID_MINIMUMSAMPLINGINTERVAL \<longrightarrow> msi' = msi) \<and> (a \<noteq> UA_ATTRIBUTEID_HISTORIZING \<longrightarrow> his' = his)
      | _ \<Rightarrow> True)"

lemma same_but_read:
  assumes "same_but a node node'" "attribute_of (rv_attributeId rid) \<noteq> a"
  shows "read_attribute mem app now ts rid node' v e = read_attribute mem app now ts rid node v e"
  using assms
  by (cases "part node"; cases "part node'"; cases "attribute_of (rv_attributeId rid)")
    (simp_all add: same_but_def read_attribute_def read_member_def CHECK_NODECLASS_def Let_def)

lemma same_but_refl: "same_but a node node"
  by (simp add: same_but_def split: node_part.split)

lemma write_member_elim:
  assumes "write_member node cs wvalue ty assign e = Some (r, node', e1)" "Q node"
    "\<And>x r node'. assign x = Some (r, node') \<Longrightarrow> Q node'"
  shows "Q node' \<and> e1 = e"
  using assms by (auto simp: write_member_def bind_eq_Some_conv split: if_splits ua_array.splits list.splits)

lemma set_part_elim:
  "set_part node p = Some (r, node') \<Longrightarrow> \<exists>q. p = Some q \<and> node' = node\<lparr>part := q\<rparr>"
  by (auto simp: set_part_def)

lemma write_frame:
  assumes wr: "CopyAttributeIntoNode mem app wvalue node e = Some (r, node', e1)" "attribute_of (wv_attributeId wvalue) = a" "a \<noteq> UA_ATTRIBUTEID_VALUE"
    "\<not> misplaced a (part node)"
  shows "same_but a node node' \<and> e1 = e"
proof (cases "hasValue (dv_has (wv_value wvalue))")
  case True
  note rules = CopyAttributeIntoNode_def True
  note elim = bind_eq_Some_conv same_but_def
  from wr show ?thesis
    by (cases a; simp add: rules same_but_refl)
      ((erule write_member_elim [where Q = "same_but _ node"], rule same_but_refl, cases "part node", (auto simp: elim misplaced_def case_prod_beta dest!: set_part_elim)[8])+)
next
  case False
  then show ?thesis using assms by (auto simp: CopyAttributeIntoNode_def same_but_refl)
qed

section \<open>What no write changes\<close>

text \<open>
  The identity, the class and the references of a node, and the type of its value, unless the
  value is lost.
\<close>

fun type_kept :: "UA_ValueSource option \<Rightarrow> UA_ValueSource option \<Rightarrow> bool" where
  "type_kept (Some (UA_VALUESOURCE_VARIANT v onr onw)) (Some (UA_VALUESOURCE_VARIANT v' onr' onw')) \<longleftrightarrow>
     v_type v' \<in> {v_type v, None} \<and> onr' = onr \<and> onw' = onw"
| "type_kept s s' \<longleftrightarrow> s' = s"

definition kept :: "UA_AnyNode \<Rightarrow> UA_AnyNode \<Rightarrow> bool" where
  "kept node node' \<longleftrightarrow> n_nodeId node' = n_nodeId node \<and> n_nodeClass node' = n_nodeClass node \<and> n_references node' = n_references node \<and>
     part_class (part node') = part_class (part node) \<and> type_kept (value_at (part node)) (value_at (part node'))"

lemma type_kept_refl: "type_kept s s"
  by (cases "(s, s)" rule: type_kept.cases) simp_all

lemma type_kept_trans: "type_kept s t \<Longrightarrow> type_kept t u \<Longrightarrow> type_kept s u"
  by (cases "(s, t)" rule: type_kept.cases; cases "(t, u)" rule: type_kept.cases) auto

lemma kept_refl: "kept node node"
  by (simp add: kept_def type_kept_refl)

lemma kept_trans: "kept n1 n2 \<Longrightarrow> kept n2 n3 \<Longrightarrow> kept n1 n3"
  using type_kept_trans by (auto simp: kept_def)

lemma table_ids_distinct: "distinct (map typeId UA_TYPES)"
  by code_simp

lemma type_id_inj: "ty < length UA_TYPES \<Longrightarrow> ty' < length UA_TYPES \<Longrightarrow> UA_NodeId_equal (type_id ty) (type_id ty') \<longleftrightarrow> ty = ty'"
  using table_ids_distinct nth_eq_iff_index_eq [of "map typeId UA_TYPES" ty ty']
  by (auto simp: type_id_def UA_NODEID_NUMERIC_def UA_NodeId_equal_def)

text \<open>The types of variants are entries of the table.\<close>

abbreviation in_table :: "'a UA_Variant \<Rightarrow> bool" where
  "in_table v \<equiv> \<forall>ty. v_type v = Some ty \<longrightarrow> ty < length UA_TYPES"

lemma cast_value_type:
  assumes "cast_value ty oldV ty' newV = Some (Some v)" "v_type newV = Some ty'" "ty < length UA_TYPES" "ty' < length UA_TYPES"
  shows "v_type v = Some ty"
  using assms by (auto simp: cast_value_def type_id_inj split: if_splits ua_array.splits list.splits ua_value.splits)

lemma copy_variant_type:
  assumes "UA_copy mem i (variant_value v) = Some (r, c)"
  shows "v_type (value_variant c) \<in> {v_type v, None}"
  using assms by (cases "v_data v")
    (auto simp: UA_copy_def variant_value_def copied_def bind_eq_Some_conv case_prod_beta Let_def UA_Variant_init_def split: if_splits option.splits)

lemma setRange_type: "UA_Variant_setRangeCopy f v xs n rng = Some (r, w) \<Longrightarrow> v_type w = v_type v"
  by (auto simp: UA_Variant_setRangeCopy_def bind_eq_Some_conv case_prod_beta Let_def split: if_splits)

lemma copy_value_kept:
  assumes res: "CopyValueIntoNode mem app i (UA_VALUESOURCE_VARIANT v onr onw) wvalue e = Some (r, src', e1)"
    and tab: "in_table v" "in_table (dv_value (wv_value wvalue))"
  shows "type_kept (Some (UA_VALUESOURCE_VARIANT v onr onw)) (Some src')"
proof (cases "src' = UA_VALUESOURCE_VARIANT v onr onw")
  case False
  let ?new = "dv_value (wv_value wvalue)" and ?rng = "snd (optional_range mem (wv_indexRange wvalue))"
  from res False obtain ty ty' cast w where v: "v_type v = Some ty" "v_type ?new = Some ty'" "cast_value ty v ty' ?new = Some (Some cast)"
    and w: "store_value mem ?rng v cast = Some (r, w)" and src': "src' = UA_VALUESOURCE_VARIANT w onr onw"
    by (auto simp: CopyValueIntoNode_def case_prod_beta Let_def bind_eq_Some_conv split: if_splits option.split_asm)
  have "v_type cast = Some ty" using cast_value_type [OF v(3,2)] tab v by simp
  then have "v_type w \<in> {v_type v, None}"
    using w v(1) copy_variant_type [of mem UA_TYPES_VARIANT cast] setRange_type [of _ v]
    by (auto simp: store_value_def bind_eq_Some_conv split: option.splits)
  then show ?thesis by (simp add: src')
qed (simp add: type_kept_refl)

lemma set_value_kept:
  "set_value_at src p = Some q \<Longrightarrow> part_class q = part_class p \<and> value_at q = Some src"
  by (cases p) auto

text \<open>The value a node holds is of a type of the table.\<close>

definition value_in_table :: "UA_AnyNode \<Rightarrow> bool" where
  "value_in_table node \<longleftrightarrow> (\<forall>v onr onw. value_at (part node) = Some (UA_VALUESOURCE_VARIANT v onr onw) \<longrightarrow> in_table v)"

lemma write_kept:
  assumes wr: "CopyAttributeIntoNode mem app wvalue node e = Some (r, node', e1)" and tab: "value_in_table node" "in_table (dv_value (wv_value wvalue))"
  shows "kept node node'"
proof (cases "hasValue (dv_has (wv_value wvalue))")
  case True
  let ?a = "attribute_of (wv_attributeId wvalue)"
  note rules = CopyAttributeIntoNode_def True
  show ?thesis
  proof (cases "?a = UA_ATTRIBUTEID_VALUE")
    case False
    with wr have "kept node node' \<and> e1 = e"
      by (cases ?a; simp add: rules kept_refl)
        ((erule write_member_elim [where Q = "kept node"], rule kept_refl, cases "part node",
          (auto simp: bind_eq_Some_conv kept_def type_kept_refl case_prod_beta dest!: set_part_elim)[8])+)
    then show ?thesis ..
  next
    case isval: True
    show ?thesis
    proof (cases "CHECK_NODECLASS node [UA_NODECLASS_VARIABLE, UA_NODECLASS_VARIABLETYPE]")
      case True
      with wr isval obtain src where src: "value_at (part node) = Some src" by (auto simp: rules bind_eq_Some_conv)
      show ?thesis
      proof (cases src)
        case (UA_VALUESOURCE_VARIANT v onr onw)
        with wr isval True src obtain src' q where c: "CopyValueIntoNode mem app (n_nodeId node) src wvalue e = Some (r, src', e1)"
            "set_value_at src' (part node) = Some q" "node' = node\<lparr>part := q\<rparr>"
          by (auto simp: rules bind_eq_Some_conv)
        have "type_kept (Some src) (Some src')"
          using copy_value_kept [of mem app "n_nodeId node" v onr onw wvalue e r src' e1] c(1) tab src UA_VALUESOURCE_VARIANT by (auto simp: value_in_table_def)
        then show ?thesis using c(3) set_value_kept [OF c(2)] src by (simp add: kept_def)
      next
        case (UA_VALUESOURCE_DATASOURCE x2)
        with wr isval True src show ?thesis by (auto simp: rules bind_eq_Some_conv kept_refl)
      qed
    qed (use wr isval in \<open>auto simp: rules kept_refl\<close>)
  qed
qed (use wr in \<open>auto simp: CopyAttributeIntoNode_def kept_refl\<close>)

lemma numeric_ids: "hashable (UA_NODEID_NUMERIC n i)" "plain_NodeId (UA_NODEID_NUMERIC n i)"
  "UA_NodeId_equal (UA_NODEID_NUMERIC n i) (UA_NODEID_NUMERIC m j) \<longleftrightarrow> n = m \<and> i = j"
  by (auto simp: hashable_def plain_NodeId_def UA_NODEID_NUMERIC_def UA_NodeId_equal_norm norm_NodeId_def)

end
