(* ===== verification/Ua_Attributes_Theorems.thy ===== *)
theory Ua_Attributes_Theorems
  imports Ua_Attributes_Laws
begin

text \<open>
  The properties of the attribute services: what is read after a write, which attributes the
  classes have, what no write changes, and the writes that go wrong.
\<close>

section \<open>Stores of typed nodes\<close>

definition store_ok :: "node_store \<Rightarrow> bool" where
  "store_ok ns \<longleftrightarrow> ns_inv ns \<and> (\<forall>n \<in> stored ns. node_ok n \<and> value_in_table n)"

lemma store_okD: "store_ok ns \<Longrightarrow> node_of ns i = Some node \<Longrightarrow> ns_inv ns \<and> node_ok node \<and> value_in_table node"
  by (simp add: store_ok_def node_of_in_stored)

lemma kept_ok: "kept node node' \<Longrightarrow> node_ok node \<Longrightarrow> value_in_table node \<Longrightarrow> node_ok node' \<and> value_in_table node'"
  by (cases "(value_at (part node), value_at (part node'))" rule: type_kept.cases) (auto simp: kept_def node_ok_def value_in_table_def)

lemma edit_ok:
  assumes "ns_inv ns'" "store_ok ns" "\<And>j. hashable j \<Longrightarrow> rel_option kept (node_of ns j) (node_of ns' j)"
  shows "store_ok ns'"
  unfolding store_ok_def
proof (intro conjI ballI)
  fix n assume n: "n \<in> stored ns'"
  then have h: "hashable (n_nodeId n)" by (rule inv_hashable [OF assms(1)])
  with n have "node_of ns' (n_nodeId n) = Some n" by (simp add: node_of_stored [OF assms(1)] UA_NodeId_equal_refl)
  with assms(3) [OF h] obtain m where m: "node_of ns (n_nodeId n) = Some m" "kept m n" by (auto simp: option_rel_Some2)
  then show "node_ok n" "value_in_table n" using kept_ok [OF m(2)] store_okD [OF assms(2) m(1)] by simp_all
qed (rule assms(1))

text \<open>A write that is answered, on a node that is there.\<close>

lemma write_single:
  assumes "store_ok ns" "hashable (wv_nodeId w)" "node_of ns (wv_nodeId w) = Some node" "in_table (dv_value (wv_value w))"
    and c: "CopyAttributeIntoNode mem app w node e = Some (r, node', e1)"
  shows "\<exists>ns'. Service_Write_single mem app ns w e = Some (r, ns', e1) \<and> store_ok ns' \<and>
    (\<forall>j. hashable j \<longrightarrow> node_of ns' j = (if UA_NodeId_equal (wv_nodeId w) j then Some node' else node_of ns j)) \<and>
    (\<forall>j. hashable j \<longrightarrow> rel_option kept (node_of ns j) (node_of ns' j))"
proof -
  note ok = store_okD [OF assms(1,3)]
  have kept: "kept node node'" using write_kept [OF c] ok assms(4) by blast
  from edit_node [OF _ assms(2,3), of "CopyAttributeIntoNode mem app w", OF _ c] ok kept
  obtain ns' where ns': "Service_Write_single mem app ns w e = Some (r, ns', e1)" "ns_inv ns'"
    "\<And>j. hashable j \<Longrightarrow> node_of ns' j = (if UA_NodeId_equal (wv_nodeId w) j then Some node' else node_of ns j)"
    by (auto simp: kept_def Service_Write_single_def node_ok_def)
  have rel: "rel_option kept (node_of ns j) (node_of ns' j)" if "hashable j" for j
  proof (cases "UA_NodeId_equal (wv_nodeId w) j")
    case True
    have "node_of ns j = Some node"
      using assms(2,3) ok True that by (simp add: node_of_stored UA_NodeId_equal_norm)
    then show ?thesis using ns'(3) that True kept by simp
  next
    case False
    then show ?thesis using ns'(3) [OF that] by (cases "node_of ns j") (simp_all add: kept_refl)
  qed
  have "store_ok ns'" by (rule edit_ok [OF ns'(2) assms(1) rel])
  with ns'(1,3) rel show ?thesis by simp
qed

lemma write_all_kept:
  assumes "store_ok ns" "\<forall>w \<in> set ws. hashable (wv_nodeId w) \<and> in_table (dv_value (wv_value w))" "write_all mem app ws ns e = Some (rs, ns', e')"
  shows "store_ok ns' \<and> length rs = length ws \<and> (\<forall>j. hashable j \<longrightarrow> rel_option kept (node_of ns j) (node_of ns' j))"
  using assms
proof (induction ws arbitrary: ns e rs)
  case Nil
  then show ?case by (auto simp: option.rel_refl kept_refl)
next
  case (Cons w ws)
  from Cons.prems(3) obtain r ns1 e1 rs1 where r: "Service_Write_single mem app ns w e = Some (r, ns1, e1)"
    "write_all mem app ws ns1 e1 = Some (rs1, ns', e')" "rs = r # rs1" by (auto simp: bind_eq_Some_conv)
  have step: "store_ok ns1 \<and> (\<forall>j. hashable j \<longrightarrow> rel_option kept (node_of ns j) (node_of ns1 j))"
  proof (cases "node_of ns (wv_nodeId w)")
    case None
    then have "ns1 = ns" using r(1) Cons.prems(1) get_node_eq [of ns "wv_nodeId w"]
      by (auto simp: Service_Write_single_def UA_Server_editNode_def get_node_def bind_eq_Some_conv store_ok_def split: option.splits)
    then show ?thesis using Cons.prems(1) by (simp add: option.rel_refl kept_refl)
  next
    case (Some node)
    have h: "hashable (wv_nodeId w)" "in_table (dv_value (wv_value w))" using Cons.prems(2) by auto
    from edit_replaces [OF _ h(1) Some] store_okD [OF Cons.prems(1) Some] obtain slot where
      "UA_NodeStore_get ns (wv_nodeId w) = Some (Some slot)" "entry_at ns slot = Some (Some node)" by blast
    with r(1) obtain node' where c: "CopyAttributeIntoNode mem app w node e = Some (r, node', e1)"
      by (auto simp: Service_Write_single_def UA_Server_editNode_def bind_eq_Some_conv)
    show ?thesis using write_single [OF Cons.prems(1) h(1) Some h(2) c] r(1) by auto
  qed
  from Cons.IH [OF conjunct1 [OF step] _ r(2)] Cons.prems(2) have "store_ok ns' \<and> length rs1 = length ws \<and>
    (\<forall>j. hashable j \<longrightarrow> rel_option kept (node_of ns1 j) (node_of ns' j))" by simp
  moreover have "rel_option kept (node_of ns j) (node_of ns' j)"
    if "rel_option kept (node_of ns j) (node_of ns1 j)" "rel_option kept (node_of ns1 j) (node_of ns' j)" for j
    using that kept_trans by (auto simp: option.rel_sel)
  ultimately show ?case using step r(3) by auto
qed

text \<open>
  C29: whatever a client writes, with whatever allocations failing and whatever results, the address
  space keeps its shape. The store keeps its invariant, no node appears or disappears, every node
  keeps its id, its class and its references, and the value of a variable keeps its type or is lost
  altogether.
\<close>

theorem writes_keep_structure:
  assumes "store_ok ns" "\<forall>w \<in> set ws. hashable (wv_nodeId w) \<and> in_table (dv_value (wv_value w))"
    "Service_Write mem app ns ws e = Some (s, rs, ns', e')" "hashable j"
  shows "store_ok ns' \<and> rel_option kept (node_of ns j) (node_of ns' j) \<and> (s = UA_STATUSCODE_GOOD \<longrightarrow> length rs = length ws)"
proof -
  have "ns' = ns \<and> s \<noteq> UA_STATUSCODE_GOOD \<or> write_all mem app ws ns e = Some (rs, ns', e')"
    using assms(3) by (auto simp: Service_Write_def bind_eq_Some_conv status_defs split: if_splits)
  then show ?thesis
    using write_all_kept [OF assms(1,2), of mem app e rs ns' e'] assms(1,4) by (auto simp: option.rel_refl kept_refl)
qed

section \<open>Reading\<close>

text \<open>A request without an index range, in the binary encoding.\<close>

definition plain_request :: "UA_ReadValueId \<Rightarrow> bool" where
  "plain_request rid \<longleftrightarrow> alen (rv_indexRange rid) = 0 \<and>
     (alen (qn_name (rv_dataEncoding rid)) = 0 \<or> UA_String_equal binEncoding (qn_name (rv_dataEncoding rid)))"

definition with_value :: "UA_DataValue \<Rightarrow> UA_DataValue" where
  "with_value v = v\<lparr>dv_has := (dv_has v)\<lparr>hasValue := True\<rparr>\<rparr>"

lemma read_single:
  assumes "ns_inv ns" "plain_request rid" "node_of ns (rv_nodeId rid) = Some node"
    "read_attribute mem app now ts rid node (with_value v) e = Some (r, w, e1)"
  shows "Service_Read_single mem app now ns ts rid v e =
    Some (handleServerTimestamps now ts (if r \<noteq> UA_STATUSCODE_GOOD then dv_error r (w\<lparr>dv_has := (dv_has w)\<lparr>hasValue := False\<rparr>\<rparr>) else w), e1)"
  using assms by (auto simp: Service_Read_single_def plain_request_def get_node_eq with_value_def)

lemma bad_attribute: "UA_STATUSCODE_BADATTRIBUTEIDINVALID \<noteq> UA_STATUSCODE_GOOD"
  by (simp add: status_defs)


section \<open>Reading what was written\<close>


section \<open>Values\<close>

text \<open>The write addresses the value of a variable that is stored in its node.\<close>

definition value_write :: "node_store \<Rightarrow> UA_WriteValue \<Rightarrow> UA_AnyNode \<Rightarrow> variant \<Rightarrow> bool \<Rightarrow> bool \<Rightarrow> bool" where
  "value_write ns w node old onr onw \<longleftrightarrow> store_ok ns \<and> hashable (wv_nodeId w) \<and> node_of ns (wv_nodeId w) = Some node \<and>
     value_at (part node) = Some (UA_VALUESOURCE_VARIANT old onr onw) \<and>
     attribute_of (wv_attributeId w) = UA_ATTRIBUTEID_VALUE \<and> hasValue (dv_has (wv_value w)) \<and> in_table (dv_value (wv_value w))"

lemma value_class: "node_ok node \<Longrightarrow> value_at (part node) = Some src \<Longrightarrow> CHECK_NODECLASS node [UA_NODECLASS_VARIABLE, UA_NODECLASS_VARIABLETYPE]"
  by (cases "part node") (simp_all add: check_class node_ok_def)

lemma set_value_some: "value_at p = Some src \<Longrightarrow> \<exists>q. set_value_at src' p = Some q \<and> value_at q = Some src' \<and> part_class q = part_class p"
  by (cases p) auto

lemma read_value:
  assumes "node_ok node" "value_at (part node) = Some src" "attribute_of (rv_attributeId rid) = UA_ATTRIBUTEID_VALUE"
  shows "read_attribute mem app now ts rid node v e = getVariableNodeValue mem app now (n_nodeId node) src ts rid v e"
  using value_class [OF assms(1,2)] assms(2,3) by (simp add: read_attribute_def Let_def)

lemma write_value:
  assumes w: "value_write ns w node old onr onw"
    and c: "CopyValueIntoNode mem app (n_nodeId node) (UA_VALUESOURCE_VARIANT old onr onw) w e = Some (r, src', e1)"
  shows "\<exists>ns' node'. Service_Write_single mem app ns w e = Some (r, ns', e1) \<and> store_ok ns' \<and> node_ok node' \<and>
    n_nodeId node' = n_nodeId node \<and> value_at (part node') = Some src' \<and>
    (\<forall>j. hashable j \<longrightarrow> node_of ns' j = (if UA_NodeId_equal (wv_nodeId w) j then Some node' else node_of ns j))"
proof -
  note w' = w [unfolded value_write_def]
  have n: "node_of ns (wv_nodeId w) = Some node" using w' by blast
  note ok = store_okD [OF _ n]
  from set_value_some [of "part node"] w' obtain q where q: "set_value_at src' (part node) = Some q" "value_at q = Some src'"
    "part_class q = part_class (part node)" by blast
  have "CopyAttributeIntoNode mem app w node e = Some (r, node\<lparr>part := q\<rparr>, e1)"
    using w' ok value_class c q(1) by (simp add: CopyAttributeIntoNode_def)
  moreover have "node_ok (node\<lparr>part := q\<rparr>)" using ok w' q(3) by (simp add: node_ok_def)
  moreover from calculation(1) have "\<exists>ns'. Service_Write_single mem app ns w e = Some (r, ns', e1) \<and> store_ok ns' \<and>
      (\<forall>j. hashable j \<longrightarrow> node_of ns' j = (if UA_NodeId_equal (wv_nodeId w) j then Some (node\<lparr>part := q\<rparr>) else node_of ns j))"
    using write_single [of ns w node mem app e r "node\<lparr>part := q\<rparr>" e1] w' by auto
  ultimately show ?thesis using q(2) by (intro exI [of _ "node\<lparr>part := q\<rparr>"] ex_comm [THEN iffD1]) simp
qed

lemma read_value_single:
  assumes "store_ok ns" "node_of ns (rv_nodeId rid) = Some node" "node_ok node" "value_at (part node) = Some src"
    "attribute_of (rv_attributeId rid) = UA_ATTRIBUTEID_VALUE"
    "alen (qn_name (rv_dataEncoding rid)) = 0 \<or> UA_String_equal binEncoding (qn_name (rv_dataEncoding rid))"
    "getVariableNodeValue mem app now (n_nodeId node) src ts rid (with_value v) e = Some (UA_STATUSCODE_GOOD, x, e1)"
  shows "Service_Read_single mem app now ns ts rid v e = Some (handleServerTimestamps now ts x, e1)"
  using assms by (auto simp: Service_Read_single_def get_node_eq store_ok_def with_value_def read_value [OF assms(3,4,5)])

lemma value_variant_value [simp]: "value_variant (variant_value v) = v"
  by (cases v) (simp add: variant_value_def)

text \<open>
  C31: the value of a variable that is written is read back. When the new value has the type of the
  old one and is copied exactly, the write is GOOD and calls the callback of the node with the new
  value; a read of the value is then answered with exactly this variant.
\<close>

theorem value_write_read:
  assumes "value_write ns w node old onr onw" "alen (wv_indexRange w) = 0" "v_type old = Some ty" "v_type (dv_value (wv_value w)) = Some ty"
    "plain_value UA_TYPES_VARIANT (variant_value (dv_value (wv_value w)))"
    "hashable (rv_nodeId rid)" "UA_NodeId_equal (wv_nodeId w) (rv_nodeId rid)" "attribute_of (rv_attributeId rid) = UA_ATTRIBUTEID_VALUE" "plain_request rid"
  shows "\<exists>ns'. Service_Write_single (\<lambda>_. True) app ns w e =
      Some (UA_STATUSCODE_GOOD, ns', if onw then onWrite app (n_nodeId node) (dv_value (wv_value w)) None e else e) \<and>
    Service_Read_single mem app now ns' ts rid v e1 =
      Some (handleServerTimestamps now ts (handleSourceTimestamps now ts (with_value v\<lparr>dv_value := dv_value (wv_value w)\<rparr>)),
            if onr then onRead app (n_nodeId node) (dv_value v) None e1 else e1)"
proof -
  let ?new = "dv_value (wv_value w)" and ?e = "if onw then onWrite app (n_nodeId node) (dv_value (wv_value w)) None e else e"
  let ?x = "handleSourceTimestamps now ts (with_value v\<lparr>dv_value := ?new\<rparr>)"
  have "UA_copy (\<lambda>_. True) UA_TYPES_VARIANT (variant_value ?new) = Some (UA_STATUSCODE_GOOD, variant_value ?new)"
    using copy_exact(1) [OF assms(5), of "\<lambda>_. True"] by (auto simp: UA_copy_def exact_def)
  then have "CopyValueIntoNode (\<lambda>_. True) app (n_nodeId node) (UA_VALUESOURCE_VARIANT old onr onw) w e =
      Some (UA_STATUSCODE_GOOD, UA_VALUESOURCE_VARIANT ?new onr onw, ?e)"
    using assms(2-4) by (simp add: CopyValueIntoNode_def optional_range_def cast_value_def UA_NodeId_equal_refl store_value_def Let_def)
  from write_value [OF assms(1) this] obtain ns' node' where
    ns': "Service_Write_single (\<lambda>_. True) app ns w e = Some (UA_STATUSCODE_GOOD, ns', ?e)" "store_ok ns'" "node_ok node'"
      "n_nodeId node' = n_nodeId node" "value_at (part node') = Some (UA_VALUESOURCE_VARIANT ?new onr onw)" "node_of ns' (rv_nodeId rid) = Some node'"
    using assms(6,7) by auto
  have "getVariableNodeValue mem app now (n_nodeId node') (UA_VALUESOURCE_VARIANT ?new onr onw) ts rid (with_value v) e1 =
      Some (UA_STATUSCODE_GOOD, ?x, if onr then onRead app (n_nodeId node) (dv_value v) None e1 else e1)"
    using assms(9) ns'(4) by (simp add: getVariableNodeValue_def optional_range_def plain_request_def with_value_def)
  from read_value_single [OF ns'(2,6,3,5) assms(8) _ this] assms(9) ns'(1) show ?thesis by (auto simp: plain_request_def)
qed

lemma plain_elem_copy: "v_type v = Some ty \<Longrightarrow> \<forall>x \<in> set xs. plain_value ty x \<Longrightarrow> elements_copied ty (elem_copy (\<lambda>_. True) v) xs"
  using copy_exact(1) [of ty _ "\<lambda>_. True"] by (fastforce simp: elements_copied_def elem_copy_def UA_copy_def exact_def)


section \<open>Writes that go wrong\<close>

lemma write_faults:
  assumes "store_ok ns" "hashable (wv_nodeId w)" "node_of ns (wv_nodeId w) = Some node" "CopyAttributeIntoNode mem app w node e = None"
  shows "Service_Write_single mem app ns w e = None"
proof -
  from edit_replaces [OF _ assms(2,3)] store_okD [OF assms(1,3)] obtain slot where
    "UA_NodeStore_get ns (wv_nodeId w) = Some (Some slot)" "entry_at ns slot = Some (Some node)" by blast
  then show ?thesis using assms(4) by (simp add: Service_Write_single_def UA_Server_editNode_def)
qed

lemma value_write_faults:
  assumes "value_write ns w node old onr onw" "fst (optional_range mem (wv_indexRange w)) = UA_STATUSCODE_GOOD"
    "v_type old = None \<or> v_type (dv_value (wv_value w)) = None"
  shows "Service_Write_single mem app ns w e = None"
proof -
  have w: "store_ok ns" "hashable (wv_nodeId w)" "node_of ns (wv_nodeId w) = Some node" "value_at (part node) = Some (UA_VALUESOURCE_VARIANT old onr onw)"
    "attribute_of (wv_attributeId w) = UA_ATTRIBUTEID_VALUE" "hasValue (dv_has (wv_value w))" using assms(1) by (simp_all add: value_write_def)
  have "CopyValueIntoNode mem app (n_nodeId node) (UA_VALUESOURCE_VARIANT old onr onw) w e = None"
    using assms(2,3) by (cases "optional_range mem (wv_indexRange w)") (auto simp: CopyValueIntoNode_def Let_def bind_eq_None_conv)
  then have "CopyAttributeIntoNode mem app w node e = None"
    using w value_class store_okD [OF w(1,3)] by (simp add: CopyAttributeIntoNode_def)
  then show ?thesis by (rule write_faults [OF w(1-3)])
qed

text \<open>
  A write request with an empty variant as the value of a variable ends in an access through a
  null pointer: the service checks that there is a value, not that the value has a type, and
  compares the type ids of the old and the new value. No response is produced.
\<close>

theorem empty_value_write_faults:
  assumes "value_write ns w node old onr onw" "fst (optional_range mem (wv_indexRange w)) = UA_STATUSCODE_GOOD"
    "v_type (dv_value (wv_value w)) = None" "UA_Array_new mem (length (w # ws)) UA_TYPES_STATUSCODE"
  shows "Service_Write mem app ns (w # ws) e = None"
  using assms(3,4) by (simp add: Service_Write_def value_write_faults [OF assms(1,2)])

text \<open>
  A write that runs out of memory loses the value and reports success. When the memory for the
  elements of the new value is not available, the status is still GOOD, the variable then holds an
  empty variant, and the next write of its value ends in an access through a null pointer.
\<close>

theorem lost_value_reported_good:
  assumes "value_write ns w node old onr onw" "alen (wv_indexRange w) = 0" "v_type old = Some ty" "v_type (dv_value (wv_value w)) = Some ty"
    "v_data (dv_value (wv_value w)) = Block xs"
    "length xs = (if v_arrayLength (dv_value (wv_value w)) = 0 then 1 else v_arrayLength (dv_value (wv_value w)))"
    "\<not> mem (length xs * memSize (UA_TYPES ! ty))"
  shows "\<exists>ns' e' node'. Service_Write_single mem app ns w e = Some (UA_STATUSCODE_GOOD, ns', e') \<and>
    node_of ns' (wv_nodeId w) = Some node' \<and> value_at (part node') = Some (UA_VALUESOURCE_VARIANT UA_Variant_init onr onw) \<and>
    (\<forall>mem e2. Service_Write_single mem app ns' w e2 = None)"
proof -
  let ?new = "dv_value (wv_value w)" and ?e = "if onw then onWrite app (n_nodeId node) UA_Variant_init None e else e"
  have "array_copy mem ty xs (copy_all mem ty xs) = Some (UA_STATUSCODE_BADOUTOFMEMORY, [])"
    using assms(7) by (simp add: array_copy_def)
  then have "UA_copy mem UA_TYPES_VARIANT (variant_value ?new) = Some (UA_STATUSCODE_BADOUTOFMEMORY, VDeleted)"
    using assms(4-6) by (auto simp: UA_copy_def variant_value_def copied_def)
  then have "CopyValueIntoNode mem app (n_nodeId node) (UA_VALUESOURCE_VARIANT old onr onw) w e =
      Some (UA_STATUSCODE_GOOD, UA_VALUESOURCE_VARIANT UA_Variant_init onr onw, ?e)"
    using assms(2-4) by (simp add: CopyValueIntoNode_def optional_range_def cast_value_def UA_NodeId_equal_refl store_value_def Let_def)
  from write_value [OF assms(1) this] obtain ns' node' where
    ns': "Service_Write_single mem app ns w e = Some (UA_STATUSCODE_GOOD, ns', ?e)" "store_ok ns'"
      "value_at (part node') = Some (UA_VALUESOURCE_VARIANT UA_Variant_init onr onw)" "node_of ns' (wv_nodeId w) = Some node'"
    using assms(1) by (auto simp: value_write_def UA_NodeId_equal_refl)
  then have vw: "value_write ns' w node' UA_Variant_init onr onw" using assms(1) by (simp add: value_write_def)
  have "\<forall>mem e2. Service_Write_single mem app ns' w e2 = None"
    using assms(2) by (simp add: value_write_faults [OF vw] optional_range_def UA_Variant_init_def)
  with ns' show ?thesis by blast
qed

text \<open>
  The \<open>isAbstract\<close> of a variable type is looked for in the wrong place. It is read as the
  lowest byte of the value rank, whatever the node says, and writing it changes the value rank and
  leaves the \<open>isAbstract\<close> of the node as it was.
\<close>

theorem variable_type_isAbstract_misplaced:
  assumes "store_ok ns" "node_of ns i = Some node" "hashable i" "part node = VariableTypePart rank src a"
    "rv_nodeId rid = i" "attribute_of (rv_attributeId rid) = UA_ATTRIBUTEID_ISABSTRACT" "plain_request rid"
    "wv_nodeId w = i" "attribute_of (wv_attributeId w) = UA_ATTRIBUTEID_ISABSTRACT" "scalar_write w UA_TYPES_BOOLEAN (VBoolean b)"
  shows "Service_Read_single mem app now ns ts rid v e =
      Some (handleServerTimestamps now ts (forceVariantSetScalar (with_value v) (VBoolean (rank AND 0xFF \<noteq> 0)) UA_TYPES_BOOLEAN), e) \<and>
    (\<exists>ns' node'. Service_Write_single mem app ns w e = Some (UA_STATUSCODE_GOOD, ns', e) \<and> node_of ns' i = Some node' \<and>
      part node' = VariableTypePart ((rank AND 0xFFFFFF00) OR of_bool b) src a)"
proof -
  have ok: "ns_inv ns" "n_nodeClass node = UA_NODECLASS_VARIABLETYPE" using store_okD [OF assms(1,2)] assms(4) by (simp_all add: node_ok_def)
  have "read_attribute mem app now ts rid node (with_value v) e =
      Some (UA_STATUSCODE_GOOD, forceVariantSetScalar (with_value v) (VBoolean (rank AND 0xFF \<noteq> 0)) UA_TYPES_BOOLEAN, e)"
    using ok assms(4,6) by (simp add: read_attribute_def read_member_def check_class)
  from read_single [OF ok(1) assms(7) _ this] assms(2,5) have read: "Service_Read_single mem app now ns ts rid v e =
      Some (handleServerTimestamps now ts (forceVariantSetScalar (with_value v) (VBoolean (rank AND 0xFF \<noteq> 0)) UA_TYPES_BOOLEAN), e)" by simp
  let ?node = "node\<lparr>part := VariableTypePart ((rank AND 0xFFFFFF00) OR of_bool b) src a\<rparr>"
  have "CopyAttributeIntoNode mem app w node e = Some (UA_STATUSCODE_GOOD, ?node, e)"
    using ok assms(4,9) scalar_check [OF assms(10)] assms(10) by (simp add: CopyAttributeIntoNode_def write_member_def check_class set_part_def scalar_write_def)
  moreover have "in_table (dv_value (wv_value w))"
    using assms(10) by (auto simp: scalar_write_def length_UA_TYPES UA_TYPES_COUNT_def)
  ultimately have "\<exists>ns'. Service_Write_single mem app ns w e = Some (UA_STATUSCODE_GOOD, ns', e) \<and> node_of ns' i = Some ?node"
    using write_single [of ns w node mem app e UA_STATUSCODE_GOOD ?node e] assms(1-3,8) by (auto simp: UA_NodeId_equal_refl)
  then show ?thesis using read by fastforce
qed

section \<open>An example\<close>

definition example_matrix :: variant where
  "example_matrix = \<lparr>v_type = Some UA_TYPES_UINT32, v_arrayLength = 6, v_data = Block (map VUInt32 [10, 11, 12, 20, 21, 22]), v_arrayDimensions = Block [2, 3]\<rparr>"

definition example_any :: "UA_UInt32 \<Rightarrow> node_part \<Rightarrow> UA_AnyNode" where
  "example_any i p = \<lparr>n_nodeId = UA_NODEID_NUMERIC 1 i, n_nodeClass = part_class p, n_browseName = \<lparr>qn_namespaceIndex = 0, qn_name = Null_ptr\<rparr>,
     n_displayName = \<lparr>locale_text = Null_ptr, text_text = Null_ptr\<rparr>, n_description = \<lparr>locale_text = Null_ptr, text_text = Null_ptr\<rparr>,
     n_writeMask = 0, n_userWriteMask = 0, n_references = [], part = p\<rparr>"

text \<open>A variable with a matrix, and an abstract variable type whose value rank is zero.\<close>

definition example_variable :: UA_AnyNode where
  "example_variable = example_any 10 (VariablePart 2 (UA_VALUESOURCE_VARIANT example_matrix False False) 3 3 0 False)"

definition example_vtype :: UA_AnyNode where
  "example_vtype = example_any 11 (VariableTypePart 0 (UA_VALUESOURCE_VARIANT example_matrix False False) True)"

definition example_nodes2 :: "UA_AnyNode list" where
  "example_nodes2 = [example_variable, example_vtype]"

lemma example_any_sel [simp]:
  "n_nodeId example_variable = UA_NODEID_NUMERIC 1 10" "n_nodeId example_vtype = UA_NODEID_NUMERIC 1 11"
  "n_nodeClass example_variable = UA_NODECLASS_VARIABLE" "n_nodeClass example_vtype = UA_NODECLASS_VARIABLETYPE"
  "part example_variable = VariablePart 2 (UA_VALUESOURCE_VARIANT example_matrix False False) 3 3 0 False"
  "part example_vtype = VariableTypePart 0 (UA_VALUESOURCE_VARIANT example_matrix False False) True"
  by (simp_all add: example_variable_def example_vtype_def example_any_def)

lemma numeric_hashable [simp]: "hashable (UA_NODEID_NUMERIC n i)"
  by (simp add: hashable_def UA_NODEID_NUMERIC_def)

lemma example_nodes2_ok:
  "list_all insertable example_nodes2" "length example_nodes2 \<le> 8388607" "distinct (map (\<lambda>v. norm_NodeId (n_nodeId v)) example_nodes2)"
  by (simp_all add: example_nodes2_def insertable_def null_id_def UA_NodeId_isNull_def norm_NodeId_def UA_NODEID_NUMERIC_def hashable_def)

abbreviation example_store2 :: node_store where
  "example_store2 \<equiv> store_of example_nodes2"

lemma example_in_table: "in_table example_matrix"
  by (simp add: example_matrix_def length_UA_TYPES UA_TYPES_COUNT_def)

lemma example_store2:
  "store_ok example_store2" "node_of example_store2 (UA_NODEID_NUMERIC 1 10) = Some example_variable"
  "node_of example_store2 (UA_NODEID_NUMERIC 1 11) = Some example_vtype"
proof -
  note s = store_of [OF example_nodes2_ok] stored_store_of [OF example_nodes2_ok]
  have "\<forall>n \<in> set example_nodes2. node_ok n \<and> value_in_table n"
    using example_in_table by (simp add: example_nodes2_def node_ok_def value_in_table_def)
  then show "store_ok example_store2" using s(1,4) by (auto simp: store_ok_def)
  show "node_of example_store2 (UA_NODEID_NUMERIC 1 10) = Some example_variable"
    "node_of example_store2 (UA_NODEID_NUMERIC 1 11) = Some example_vtype"
    using s(2) [of example_variable] s(2) [of example_vtype] by (simp_all add: example_nodes2_def)
qed

definition quiet :: "unit application" where
  "quiet = \<lparr>onRead = (\<lambda>_ _ _ e. e), onWrite = (\<lambda>_ _ _ e. e), ds_read = (\<lambda>_ _ _ v e. (0, v, e)), ds_write = (\<lambda>_ _ _ e. (0, e))\<rparr>"

definition example_write :: "UA_UInt32 \<Rightarrow> UA_UInt32 \<Rightarrow> UA_String \<Rightarrow> variant \<Rightarrow> UA_WriteValue" where
  "example_write i a rng v = \<lparr>wv_nodeId = UA_NODEID_NUMERIC 1 i, wv_attributeId = a, wv_indexRange = rng,
     wv_value = with_value UA_DataValue_init\<lparr>dv_value := v\<rparr>\<rparr>"

definition example_read :: "UA_UInt32 \<Rightarrow> UA_UInt32 \<Rightarrow> UA_String \<Rightarrow> UA_ReadValueId" where
  "example_read i a rng = \<lparr>rv_nodeId = UA_NODEID_NUMERIC 1 i, rv_attributeId = a, rv_indexRange = rng,
     rv_dataEncoding = \<lparr>qn_namespaceIndex = 0, qn_name = Null_ptr\<rparr>\<rparr>"

lemma example_request_sel [simp]:
  "wv_nodeId (example_write i a rng v) = UA_NODEID_NUMERIC 1 i" "wv_attributeId (example_write i a rng v) = a"
  "wv_indexRange (example_write i a rng v) = rng" "dv_value (wv_value (example_write i a rng v)) = v"
  "hasValue (dv_has (wv_value (example_write i a rng v)))"
  "rv_nodeId (example_read i a rng) = UA_NODEID_NUMERIC 1 i" "rv_attributeId (example_read i a rng) = a" "rv_indexRange (example_read i a rng) = rng"
  "content (qn_name (rv_dataEncoding (example_read i a rng))) = []" "plain_request (example_read i a Null_ptr)"
  by (simp_all add: example_write_def example_read_def with_value_def plain_request_def)

lemma example_attributes [simp]:
  "attribute_of 8 = UA_ATTRIBUTEID_ISABSTRACT" "attribute_of 13 = UA_ATTRIBUTEID_VALUE" "attribute_of 17 = UA_ATTRIBUTEID_ACCESSLEVEL"
  by (simp_all add: attribute_of_def)

lemma example_value_write:
  "in_table v \<Longrightarrow> value_write example_store2 (example_write 10 13 rng v) example_variable example_matrix False False"
  using example_store2 by (simp add: value_write_def)

abbreviation example_level_write :: UA_WriteValue where
  "example_level_write \<equiv> example_write 10 17 Null_ptr (UA_Variant_setScalar (VByte 1) UA_TYPES_BYTE)"

lemma example_level: "scalar_write example_level_write UA_TYPES_BYTE (VByte 1)" "member_value UA_TYPES_BYTE (VByte 1)"
  by (simp_all add: scalar_write_def UA_Variant_setScalar_def UA_Variant_init_def member_value_def)

lemma example_level_in_table: "in_table (UA_Variant_setScalar (VByte 1) UA_TYPES_BYTE)"
  by (simp add: UA_Variant_setScalar_def UA_Variant_init_def length_UA_TYPES UA_TYPES_COUNT_def)

theorem writes_keep_structure_witness:
  "\<exists>ns'. Service_Write (\<lambda>_. True) quiet example_store2 [example_level_write] () = Some (UA_STATUSCODE_GOOD, [UA_STATUSCODE_GOOD], ns', ()) \<and>
     store_ok ns' \<and> rel_option kept (Some example_vtype) (node_of ns' (UA_NODEID_NUMERIC 1 11))"
proof -
  from write_effect [of example_variable _ example_level_write, OF _ refl _ _ _ example_level, of quiet "()"] store_okD [OF example_store2(1,2)]
  obtain node' where "CopyAttributeIntoNode (\<lambda>_. True) quiet example_level_write example_variable () = Some (UA_STATUSCODE_GOOD, node', ())"
    by (auto simp: base_attributes_def misplaced_def)
  from write_single [OF example_store2(1) _ _ _ this] example_store2(2) example_level_in_table
  obtain ns' where "Service_Write_single (\<lambda>_. True) quiet example_store2 example_level_write () = Some (UA_STATUSCODE_GOOD, ns', ())" by auto
  moreover have "memSize (UA_TYPES ! UA_TYPES_STATUSCODE) = 4" by code_simp
  ultimately have wr: "Service_Write (\<lambda>_. True) quiet example_store2 [example_level_write] () = Some (UA_STATUSCODE_GOOD, [UA_STATUSCODE_GOOD], ns', ())"
    by (simp add: Service_Write_def UA_Array_new_def MAX_ARRAY_SIZE_def)
  have "\<forall>w \<in> set [example_level_write]. hashable (wv_nodeId w) \<and> in_table (dv_value (wv_value w))" using example_level_in_table by simp
  from writes_keep_structure [OF example_store2(1) this wr, of "UA_NODEID_NUMERIC 1 11"] wr example_store2(3) show ?thesis by simp
qed



lemma example_matrix_plain: "plain_value UA_TYPES_VARIANT (variant_value example_matrix)"
  by (simp add: example_matrix_def variant_value_def plain_array_def MAX_ARRAY_SIZE_def uint32_fixed(2))

theorem value_write_read_witness:
  "\<exists>ns'. Service_Write_single (\<lambda>_. True) quiet example_store2 (example_write 10 13 Null_ptr example_matrix) () = Some (UA_STATUSCODE_GOOD, ns', ()) \<and>
     Service_Read_single (\<lambda>_. True) quiet 0 ns' 3 (example_read 10 13 Null_ptr) UA_DataValue_init () =
       Some (with_value UA_DataValue_init\<lparr>dv_value := example_matrix\<rparr>, ())"
  using value_write_read [OF example_value_write [OF example_in_table], of Null_ptr UA_TYPES_UINT32 "example_read 10 13 Null_ptr" quiet "()" "\<lambda>_. True" 0 3 UA_DataValue_init "()"]
    example_matrix_plain
  by (simp add: UA_NodeId_equal_refl handleServerTimestamps_def handleSourceTimestamps_def tag_defs example_matrix_def)

text \<open>The second column, \<^verbatim>\<open>0:1,1\<close>.\<close>

definition column_text :: UA_String where
  "column_text = Block [0x30, 0x3A, 0x31, 0x2C, 0x31]"

lemma column_parsed: "optional_range (\<lambda>_. True) column_text = (UA_STATUSCODE_GOOD, Some second_column)"
  by (simp add: optional_range_def column_text_def parse_numericrange_def parse_dimensions.simps readDimension_def readNumber_def second_column_def Let_def)

lemma example_matrix_ok:
  "consistent example_matrix" "fits example_matrix second_column" "in_blocks example_matrix second_column" "dims_of example_matrix = dims_of matrix"
  using matrix_ok by (simp_all add: consistent_def fits_def in_blocks_def dims_of_def example_matrix_def matrix_def)


theorem empty_value_write_faults_witness:
  "Service_Write (\<lambda>_. True) quiet example_store2 [example_write 10 13 Null_ptr UA_Variant_init] () = None"
proof -
  have "in_table (UA_Variant_init :: variant)" by (simp add: UA_Variant_init_def)
  moreover have "memSize (UA_TYPES ! UA_TYPES_STATUSCODE) = 4" by code_simp
  ultimately show ?thesis
    using empty_value_write_faults [OF example_value_write [of UA_Variant_init Null_ptr], of "\<lambda>_. True" "[]" quiet "()"]
    by (simp add: optional_range_def UA_Variant_init_def UA_Array_new_def MAX_ARRAY_SIZE_def)
qed

theorem lost_value_reported_good_witness:
  "\<exists>ns' e' node'. Service_Write_single (\<lambda>_. False) quiet example_store2 (example_write 10 13 Null_ptr example_matrix) () = Some (UA_STATUSCODE_GOOD, ns', e') \<and>
     node_of ns' (UA_NODEID_NUMERIC 1 10) = Some node' \<and> value_at (part node') = Some (UA_VALUESOURCE_VARIANT UA_Variant_init False False)"
  using lost_value_reported_good [OF example_value_write [OF example_in_table], of Null_ptr UA_TYPES_UINT32 "map VUInt32 [10, 11, 12, 20, 21, 22]" "\<lambda>_. False" quiet "()"]
  by (simp add: example_matrix_def) blast

theorem variable_type_isAbstract_misplaced_witness:
  "Service_Read_single (\<lambda>_. True) quiet 0 example_store2 3 (example_read 11 8 Null_ptr) UA_DataValue_init () =
     Some (forceVariantSetScalar (with_value UA_DataValue_init) (VBoolean False) UA_TYPES_BOOLEAN, ())"
proof -
  have "scalar_write (example_write 11 8 Null_ptr (UA_Variant_setScalar (VBoolean False) UA_TYPES_BOOLEAN)) UA_TYPES_BOOLEAN (VBoolean False)"
    by (simp add: scalar_write_def UA_Variant_setScalar_def UA_Variant_init_def)
  from variable_type_isAbstract_misplaced [OF example_store2(1,3) _ _ _ _ _ _ _ this, of 0 _ True "example_read 11 8 Null_ptr" "\<lambda>_. True" quiet 0 3 UA_DataValue_init "()"]
  show ?thesis by (simp add: handleServerTimestamps_def tag_defs)
qed

end
