(* ===== verification/Ua_Jobs.thy ===== *)
theory Ua_Jobs
  imports Ua_Server_Binary "HOL-Library.Multiset" "HOL-Library.Signed_Division"
begin

text \<open>
  The jobs of the server (\<^verbatim>\<open>src/server/ua_server_worker.c\<close>, single-threaded build): execution of
  jobs, the sorted list of repeated jobs, and the main loop over the network layers.

  A method of the application is a value of type \<open>'m\<close> (the function pointer with its data);
  what it does to the server is the argument \<open>j_run\<close>, since the code is called through the pointer. The entries
  of the list are paired with their address, so that a pointer to an entry that was freed or moved is
  visible: following it is \<open>Faults\<close>. Loops take a number of rounds; \<open>Loops\<close> when they do not suffice.
\<close>

section \<open>Jobs\<close>

datatype 'a outcome = Returns 'a | Faults | Loops

fun oc_bind :: "'a outcome \<Rightarrow> ('a \<Rightarrow> 'b outcome) \<Rightarrow> 'b outcome" where
  "oc_bind (Returns x) f = f x"
| "oc_bind Faults f = Faults"
| "oc_bind Loops f = Loops"

definition oc_some :: "'a option \<Rightarrow> 'a outcome" where
  "oc_some r = (case r of None \<Rightarrow> Faults | Some x \<Rightarrow> Returns x)"

definition oc_loop :: "loop_result \<Rightarrow> UA_Server outcome" where
  "oc_loop r = (case r of Finished srv \<Rightarrow> Returns srv | Fault \<Rightarrow> Faults | Running \<Rightarrow> Loops)"

datatype 'm UA_Job =
  UA_JOBTYPE_NOTHING
| UA_JOBTYPE_DETACHCONNECTION nat
| UA_JOBTYPE_BINARYMESSAGE_NETWORKLAYER nat "UA_Byte list"
| UA_JOBTYPE_BINARYMESSAGE_ALLOCATED nat "UA_Byte list"
| UA_JOBTYPE_METHODCALL 'm
| UA_JOBTYPE_METHODCALL_DELAYED 'm
| UA_JOBTYPE_UNKNOWN

type_synonym 'm IdentifiedJob = "UA_Guid \<times> 'm UA_Job"

record 'm RepeatedJobs =
  rj_nextTime :: UA_DateTime
  rj_interval :: UA_UInt32
  rj_jobs :: "'m IdentifiedJob list"

record 'm jserver =
  js_server :: UA_Server
  repeatedJobs :: "(nat \<times> 'm RepeatedJobs) list"

record 'm jenv =
  j_env :: env
  j_rounds :: nat
  j_run :: "'m \<Rightarrow> 'm jserver \<Rightarrow> 'm jserver outcome"

definition put_server :: "'m jserver \<Rightarrow> UA_Server \<Rightarrow> 'm jserver" where
  "put_server s srv = s\<lparr>js_server := srv\<rparr>"

definition processBinary :: "'m jenv \<Rightarrow> 'm jserver \<Rightarrow> nat \<Rightarrow> UA_Byte list \<Rightarrow> 'm jserver outcome" where
  "processBinary E s k m =
     oc_bind (oc_loop (UA_Server_processBinaryMessage (j_rounds E) (j_env E) (js_server s) k (m, 0))) (\<lambda>srv. Returns (put_server s srv))"

text \<open>One job. Releasing the buffer of a message behind its processing only frees memory.\<close>

fun processJob :: "'m jenv \<Rightarrow> 'm jserver \<Rightarrow> 'm UA_Job \<Rightarrow> 'm jserver outcome" where
  "processJob E s UA_JOBTYPE_NOTHING = Returns s"
| "processJob E s (UA_JOBTYPE_DETACHCONNECTION k) =
     oc_bind (oc_some (UA_Connection_detachSecureChannel (srv_comm (js_server s)) k))
       (\<lambda>st. Returns (put_server s ((js_server s)\<lparr>srv_comm := st\<rparr>)))"
| "processJob E s (UA_JOBTYPE_BINARYMESSAGE_NETWORKLAYER k m) = processBinary E s k m"
| "processJob E s (UA_JOBTYPE_BINARYMESSAGE_ALLOCATED k m) = processBinary E s k m"
| "processJob E s (UA_JOBTYPE_METHODCALL f) = j_run E f s"
| "processJob E s (UA_JOBTYPE_METHODCALL_DELAYED f) = j_run E f s"
| "processJob E s UA_JOBTYPE_UNKNOWN = Returns s"

fun process_all :: "'m jenv \<Rightarrow> 'm jserver \<Rightarrow> 'm UA_Job list \<Rightarrow> 'm jserver outcome" where
  "process_all E s [] = Returns s"
| "process_all E s (j # js) = oc_bind (processJob E s j) (\<lambda>s1. process_all E s1 js)"

text \<open>The size is signed: a negative size is an error of the caller and processes nothing.\<close>

definition processJobs :: "'m jenv \<Rightarrow> 'm jserver \<Rightarrow> 'm UA_Job list \<Rightarrow> UA_Int32 \<Rightarrow> 'm jserver outcome" where
  "processJobs E s js jobsSize = process_all E s (take (nat (sint jobsSize)) js)"

section \<open>Repeated jobs\<close>

text \<open>The entries passed by the search of \<open>addRepeatedJob\<close>, and the list from where it stops.\<close>

fun passed :: "UA_UInt32 \<Rightarrow> UA_DateTime \<Rightarrow> (nat \<times> 'm RepeatedJobs) list \<Rightarrow> (nat \<times> 'm RepeatedJobs) list \<times> (nat \<times> 'm RepeatedJobs) list" where
  "passed i firstTime [] = ([], [])"
| "passed i firstTime (tw # tws) =
     (if i = rj_interval (snd tw) \<or> firstTime <s rj_nextTime (snd tw) then ([], tw # tws)
      else let (ps, rs) = passed i firstTime tws in (tw # ps, rs))"

definition entry_bytes :: "nat \<Rightarrow> nat" where
  "entry_bytes n = 40 + 48 * n"

text \<open>\<open>new\<close> is the address that \<open>UA_realloc\<close> or \<open>UA_malloc\<close> returns.\<close>

definition addRepeatedJob ::
  "(nat \<Rightarrow> bool) \<Rightarrow> nat \<Rightarrow> UA_DateTime \<Rightarrow> 'm jserver \<Rightarrow> 'm IdentifiedJob \<Rightarrow> UA_UInt32 \<Rightarrow> UA_StatusCode \<times> 'm jserver" where
  "addRepeatedJob mem new now s job i =
     (let firstTime = now + ucast i; (ps, rs) = passed i firstTime (repeatedJobs s)
      in case rs of
           tw # tws \<Rightarrow>
             if i = rj_interval (snd tw) then
               if mem (entry_bytes (length (rj_jobs (snd tw)) + 1))
               then (UA_STATUSCODE_GOOD, s\<lparr>repeatedJobs := ps @ (new, (snd tw)\<lparr>rj_jobs := rj_jobs (snd tw) @ [job]\<rparr>) # tws\<rparr>)
               else (UA_STATUSCODE_BADOUTOFMEMORY, s)
             else if mem (entry_bytes 1)
             then (UA_STATUSCODE_GOOD, s\<lparr>repeatedJobs := ps @ (new, \<lparr>rj_nextTime = firstTime, rj_interval = i, rj_jobs = [job]\<rparr>) # rs\<rparr>)
             else (UA_STATUSCODE_BADOUTOFMEMORY, s)
         | [] \<Rightarrow>
             if mem (entry_bytes 1)
             then (UA_STATUSCODE_GOOD, s\<lparr>repeatedJobs := ps @ [(new, \<lparr>rj_nextTime = firstTime, rj_interval = i, rj_jobs = [job]\<rparr>)]\<rparr>)
             else (UA_STATUSCODE_BADOUTOFMEMORY, s))"

text \<open>\<open>guid\<close> is the random identifier when the caller asks for one, and null otherwise.\<close>

definition UA_Server_addRepeatedJob ::
  "(nat \<Rightarrow> bool) \<Rightarrow> nat \<Rightarrow> UA_DateTime \<Rightarrow> 'm jserver \<Rightarrow> 'm UA_Job \<Rightarrow> UA_UInt32 \<Rightarrow> UA_Guid \<Rightarrow> UA_StatusCode \<times> 'm jserver" where
  "UA_Server_addRepeatedJob mem new now s job i guid =
     (if i < 5 then (UA_STATUSCODE_BADINTERNALERROR, s)
      else (UA_STATUSCODE_GOOD, snd (addRepeatedJob mem new now s (guid, job) (i * 10000))))"

text \<open>The jobs of the entry at an address, which may change while they run.\<close>

primrec run_entry :: "nat \<Rightarrow> 'm jenv \<Rightarrow> nat \<Rightarrow> nat \<Rightarrow> 'm jserver \<Rightarrow> 'm jserver outcome" where
  "run_entry 0 E a i s = Loops"
| "run_entry (Suc n) E a i s =
     (case map_of (repeatedJobs s) a of
        None \<Rightarrow> Faults
      | Some tw \<Rightarrow>
          if i < length (rj_jobs tw)
          then oc_bind (processJobs E s [snd (rj_jobs tw ! i)] 1) (run_entry n E a (i + 1))
          else Returns s)"

definition next_execution :: "UA_DateTime \<Rightarrow> 'm RepeatedJobs \<Rightarrow> UA_DateTime" where
  "next_execution now tw = (let t = rj_nextTime tw + ucast (rj_interval tw) in if t <s now then now else t)"

text \<open>The last entry from the start of the list whose successor is missing or due after \<open>t\<close>.\<close>

fun insertion_point :: "UA_DateTime \<Rightarrow> (nat \<times> 'm RepeatedJobs) list \<Rightarrow> nat option" where
  "insertion_point t [] = None"
| "insertion_point t [p] = Some (fst p)"
| "insertion_point t (p # n # ps) = (if t <s rj_nextTime (snd n) then Some (fst p) else insertion_point t (n # ps))"

fun insert_after :: "nat \<Rightarrow> nat \<times> 'm RepeatedJobs \<Rightarrow> (nat \<times> 'm RepeatedJobs) list \<Rightarrow> (nat \<times> 'm RepeatedJobs) list" where
  "insert_after p tw [] = []"
| "insert_after p tw (q # qs) = (if fst q = p then q # tw # qs else q # insert_after p tw qs)"

definition reschedule :: "UA_DateTime \<Rightarrow> nat \<Rightarrow> 'm jserver \<Rightarrow> 'm jserver outcome" where
  "reschedule now a s =
     (case map_of (repeatedJobs s) a of
        None \<Rightarrow> Faults
      | Some tw \<Rightarrow>
          let t = next_execution now tw; tw1 = tw\<lparr>rj_nextTime := t\<rparr>;
              tws = map (\<lambda>q. if fst q = a then (a, tw1) else q) (repeatedJobs s)
          in case insertion_point t tws of
               None \<Rightarrow> Faults
             | Some p \<Rightarrow>
                 Returns (s\<lparr>repeatedJobs := if p = a then tws else insert_after p (a, tw1) (filter (\<lambda>q. fst q \<noteq> a) tws)\<rparr>))"

primrec process_due :: "nat \<Rightarrow> 'm jenv \<Rightarrow> UA_DateTime \<Rightarrow> 'm jserver \<Rightarrow> 'm jserver outcome" where
  "process_due 0 E now s = Loops"
| "process_due (Suc n) E now s =
     (case repeatedJobs s of
        [] \<Rightarrow> Returns s
      | (a, tw) # _ \<Rightarrow>
          if now <s rj_nextTime tw then Returns s
          else oc_bind (run_entry n E a 0 s) (\<lambda>s1. oc_bind (reschedule now a s1) (process_due n E now)))"

definition MAXTIMEOUT :: UA_UInt32 where "MAXTIMEOUT = 50000"

definition next_timeout :: "UA_DateTime \<Rightarrow> 'm jserver \<Rightarrow> UA_UInt16" where
  "next_timeout now s =
     (case repeatedJobs s of
        [] \<Rightarrow> ucast MAXTIMEOUT
      | first # _ \<Rightarrow>
          let t = word_of_int (sint (rj_nextTime (snd first) - now) sdiv 10) :: UA_UInt32
          in if t > MAXTIMEOUT then ucast MAXTIMEOUT else ucast t)"

definition processRepeatedJobs :: "nat \<Rightarrow> 'm jenv \<Rightarrow> UA_DateTime \<Rightarrow> 'm jserver \<Rightarrow> (UA_UInt16 \<times> 'm jserver) outcome" where
  "processRepeatedJobs n E now s = oc_bind (process_due n E now s) (\<lambda>s1. Returns (next_timeout now s1, s1))"

text \<open>The first job with the identifier; the last job of its entry takes its place.\<close>

fun position_of :: "UA_Guid \<Rightarrow> 'm IdentifiedJob list \<Rightarrow> nat option" where
  "position_of jobId [] = None"
| "position_of jobId (j # js) = (if UA_Guid_equal jobId (fst j) then Some 0 else map_option Suc (position_of jobId js))"

fun remove_job :: "UA_Guid \<Rightarrow> (nat \<times> 'm RepeatedJobs) list \<Rightarrow> (nat \<times> 'm RepeatedJobs) list" where
  "remove_job jobId [] = []"
| "remove_job jobId (tw # tws) =
     (let js = rj_jobs (snd tw)
      in case position_of jobId js of
           None \<Rightarrow> tw # remove_job jobId tws
         | Some i \<Rightarrow>
             if length js = 1 then tws
             else (fst tw, (snd tw)\<lparr>rj_jobs := butlast (js[i := last js])\<rparr>) # tws)"

definition UA_Server_removeRepeatedJob :: "'m jserver \<Rightarrow> UA_Guid \<Rightarrow> UA_StatusCode \<times> 'm jserver" where
  "UA_Server_removeRepeatedJob s jobId = (UA_STATUSCODE_GOOD, s\<lparr>repeatedJobs := remove_job jobId (repeatedJobs s)\<rparr>)"

definition UA_Server_deleteAllRepeatedJobs :: "'m jserver \<Rightarrow> 'm jserver" where
  "UA_Server_deleteAllRepeatedJobs s = s\<lparr>repeatedJobs := []\<rparr>"

section \<open>Main loop\<close>

text \<open>
  A network layer answers with jobs and their number: \<open>getJobs i t\<close> when layer \<open>i\<close> is asked
  to wait for at most \<open>t\<close> microseconds, \<open>stop i\<close> when it is closed. \<open>running i\<close> is what the
  main loop finds in the flag of the application at layer \<open>i\<close>.
\<close>

record 'm layers =
  networkLayersSize :: nat
  nl_running :: "nat \<Rightarrow> bool"
  nl_start :: "nat \<Rightarrow> UA_StatusCode"
  nl_getJobs :: "nat \<Rightarrow> UA_UInt16 \<Rightarrow> 'm UA_Job list \<times> UA_Int32"
  nl_stop :: "nat \<Rightarrow> 'm UA_Job list \<times> UA_Int32"

fun layer_jobs :: "'m layers \<Rightarrow> UA_UInt16 \<Rightarrow> nat \<Rightarrow> 'm UA_Job list \<times> UA_Int32" where
  "layer_jobs L t i =
     (if nl_running L i then nl_getJobs L i (if i = networkLayersSize L - 1 then t else 0) else nl_stop L i)"

fun process_layers :: "'m jenv \<Rightarrow> (nat \<Rightarrow> 'm UA_Job list \<times> UA_Int32) \<Rightarrow> nat list \<Rightarrow> 'm jserver \<Rightarrow> 'm jserver outcome" where
  "process_layers E answer [] s = Returns s"
| "process_layers E answer (i # is) s =
     oc_bind (processJobs E s (fst (answer i)) (snd (answer i))) (process_layers E answer is)"

definition UA_Server_run_mainloop :: "nat \<Rightarrow> 'm jenv \<Rightarrow> UA_DateTime \<Rightarrow> 'm layers \<Rightarrow> 'm jserver \<Rightarrow> 'm jserver outcome" where
  "UA_Server_run_mainloop n E now L s =
     oc_bind (processRepeatedJobs n E now s) (\<lambda>(t, s1). process_layers E (layer_jobs L t) [0..<networkLayersSize L] s1)"

definition UA_Server_run_startup :: "'m layers \<Rightarrow> UA_StatusCode" where
  "UA_Server_run_startup L = foldl (\<lambda>r i. r OR nl_start L i) UA_STATUSCODE_GOOD [0..<networkLayersSize L]"

definition UA_Server_run_shutdown :: "'m jenv \<Rightarrow> 'm layers \<Rightarrow> 'm jserver \<Rightarrow> 'm jserver outcome" where
  "UA_Server_run_shutdown E L s = process_layers E (nl_stop L) [0..<networkLayersSize L] s"

text \<open>The iterations while the flag is set: each with its clock and its layers.\<close>

fun run_iterations :: "nat \<Rightarrow> 'm jenv \<Rightarrow> (UA_DateTime \<times> 'm layers) list \<Rightarrow> 'm jserver \<Rightarrow> 'm jserver outcome" where
  "run_iterations n E [] s = Returns s"
| "run_iterations n E ((now, L) # its) s = oc_bind (UA_Server_run_mainloop n E now L s) (run_iterations n E its)"

definition UA_Server_run :: "nat \<Rightarrow> 'm jenv \<Rightarrow> (UA_DateTime \<times> 'm layers) list \<Rightarrow> 'm layers \<Rightarrow> 'm jserver \<Rightarrow> 'm jserver outcome" where
  "UA_Server_run n E its L s =
     oc_bind (if UA_Server_run_startup L = UA_STATUSCODE_GOOD then run_iterations n E its s else Returns s) (UA_Server_run_shutdown E L)"

end
