(* ===== verification/Ua_Jobs_Laws.thy ===== *)
theory Ua_Jobs_Laws
  imports Ua_Jobs
begin

text \<open>
  The list of repeated jobs: its invariant, and the loop over the due entries as a sequence of
  executions with a final list.
\<close>

section \<open>Outcomes\<close>

lemma oc_bind_assoc [simp]: "oc_bind (oc_bind r f) g = oc_bind r (\<lambda>x. oc_bind (f x) g)"
  by (cases r) auto

lemma oc_bind_Returns [simp]: "oc_bind r Returns = r"
  by (cases r) auto

lemma oc_bind_eq_Returns: "oc_bind r f = Returns y \<longleftrightarrow> (\<exists>x. r = Returns x \<and> f x = Returns y)"
  by (cases r) auto

lemma oc_bind_cong_Returns: "r = q \<Longrightarrow> (\<And>x. q = Returns x \<Longrightarrow> f x = g x) \<Longrightarrow> oc_bind r f = oc_bind q g"
  by (cases q) auto

section \<open>Methods that leave the list of repeated jobs alone\<close>

text \<open>The methods neither read nor change the list.\<close>

definition list_neutral :: "'m jenv \<Rightarrow> bool" where
  "list_neutral E \<longleftrightarrow> (\<forall>m s l. j_run E m (s\<lparr>repeatedJobs := l\<rparr>) = oc_bind (j_run E m s) (\<lambda>s1. Returns (s1\<lparr>repeatedJobs := l\<rparr>)))"

lemma put_server_list [simp]:
  "put_server (s\<lparr>repeatedJobs := l\<rparr>) srv = (put_server s srv)\<lparr>repeatedJobs := l\<rparr>"
  "repeatedJobs (put_server s srv) = repeatedJobs s"
  by (cases s; simp add: put_server_def)+

lemma processBinary_quiet: "processBinary E (s\<lparr>repeatedJobs := l\<rparr>) k m = oc_bind (processBinary E s k m) (\<lambda>s1. Returns (s1\<lparr>repeatedJobs := l\<rparr>))"
  by (simp add: processBinary_def)

lemma processJob_quiet:
  "list_neutral E \<Longrightarrow> processJob E (s\<lparr>repeatedJobs := l\<rparr>) j = oc_bind (processJob E s j) (\<lambda>s1. Returns (s1\<lparr>repeatedJobs := l\<rparr>))"
  by (cases j) (simp_all add: list_neutral_def processBinary_quiet)

lemma process_all_quiet:
  assumes "list_neutral E"
  shows "process_all E (s\<lparr>repeatedJobs := l\<rparr>) js = oc_bind (process_all E s js) (\<lambda>s1. Returns (s1\<lparr>repeatedJobs := l\<rparr>))"
proof (induction js arbitrary: s)
  case (Cons j js)
  then show ?case by (simp add: processJob_quiet [OF assms])
qed simp

lemma process_all_list:
  assumes "list_neutral E" "process_all E s js = Returns s1"
  shows "repeatedJobs s1 = repeatedJobs s"
proof -
  have "Returns s1 = oc_bind (process_all E s js) (\<lambda>s1. Returns (s1\<lparr>repeatedJobs := repeatedJobs s\<rparr>))"
    using process_all_quiet [OF assms(1), where s = s and js = js and l = "repeatedJobs s"] assms(2) by simp
  then have "s1 = s1\<lparr>repeatedJobs := repeatedJobs s\<rparr>" using assms(2) by simp
  then show ?thesis by (metis jserver.select_convs(2) jserver.surjective jserver.update_convs(2))
qed

lemma process_all_append: "process_all E s (xs @ ys) = oc_bind (process_all E s xs) (\<lambda>s1. process_all E s1 ys)"
  by (induction xs arbitrary: s) auto

lemma processJobs_one [simp]: "processJobs E s [j] 1 = processJob E s j"
  by (simp add: processJobs_def)

lemma run_entry_jobs:
  assumes "list_neutral E" "map_of (repeatedJobs s) a = Some tw" "length (rj_jobs tw) - i < n"
  shows "run_entry n E a i s = process_all E s (map snd (drop i (rj_jobs tw)))"
  using assms(2, 3)
proof (induction n arbitrary: i s)
  case (Suc n)
  show ?case
  proof (cases "i < length (rj_jobs tw)")
    case True
    have "run_entry n E a (i + 1) s1 = process_all E s1 (map snd (drop (i + 1) (rj_jobs tw)))"
      if "processJob E s (snd (rj_jobs tw ! i)) = Returns s1" for s1
      using Suc.IH [of s1 "i + 1"] Suc.prems process_all_list [OF assms(1), of s "[snd (rj_jobs tw ! i)]" s1] that True by simp
    then show ?thesis
      using True Suc.prems by (simp add: Cons_nth_drop_Suc [symmetric] cong: oc_bind_cong_Returns)
  qed (use Suc.prems in simp)
qed simp

section \<open>The sorted list\<close>

abbreviation due :: "nat \<times> 'm RepeatedJobs \<Rightarrow> int" where
  "due q \<equiv> sint (rj_nextTime (snd q))"

abbreviation period :: "nat \<times> 'm RepeatedJobs \<Rightarrow> int" where
  "period q \<equiv> uint (rj_interval (snd q))"

definition time_ok :: "UA_DateTime \<Rightarrow> bool" where
  "time_ok now \<longleftrightarrow> 0 \<le> sint now \<and> sint now < 2 ^ 62"

definition entry_ok :: "UA_DateTime \<Rightarrow> nat \<times> 'm RepeatedJobs \<Rightarrow> bool" where
  "entry_ok now q \<longleftrightarrow> rj_jobs (snd q) \<noteq> [] \<and> 0 \<le> due q \<and> due q \<le> sint now + period q"

definition jobs_inv :: "UA_DateTime \<Rightarrow> (nat \<times> 'm RepeatedJobs) list \<Rightarrow> bool" where
  "jobs_inv now xs \<longleftrightarrow> distinct (map fst xs) \<and> distinct (map (\<lambda>q. rj_interval (snd q)) xs) \<and> sorted (map due xs) \<and>
     (\<forall>q\<in>set xs. entry_ok now q)"

lemma sless_due: "t <s rj_nextTime (snd q) \<longleftrightarrow> sint t < due q"
  by (simp add: word_sless_alt)

lemma interval_below: "uint (i :: UA_UInt32) < 2 ^ 32"
  using unsigned_less [of i, where ?'a = int] by simp

lemma sint_add_interval:
  fixes t :: UA_DateTime and i :: UA_UInt32
  assumes "0 \<le> sint t" "sint t < 2 ^ 62 + 2 ^ 32"
  shows "sint (t + ucast i) = sint t + uint i"
proof -
  have u: "uint i < 2 ^ 32" by (rule interval_below)
  have s: "sint (ucast i :: UA_DateTime) = uint i"
    using u by (simp add: sint_uint unsigned_ucast_eq take_bit_int_eq_self signed_take_bit_eq_if_positive
        take_bit_eq_mod bit_iff_odd)
  have "0 \<le> sint t + uint i" using assms(1) by simp
  then have "- (2 ^ 63) \<le> sint t + uint i" by (rule order_trans [rotated]) simp
  moreover have "sint t + uint i < 2 ^ 63" using assms u by simp
  ultimately show ?thesis
    using s by (simp add: sint_word_ariths signed_take_bit_int_eq_self)
qed

lemma entry_ok_range:
  assumes "time_ok now" "entry_ok now q"
  shows "0 \<le> due q" "due q < 2 ^ 62 + 2 ^ 32"
  using assms interval_below [of "rj_interval (snd q)"] by (auto simp: time_ok_def entry_ok_def)

lemma passed_split:
  "passed i f xs = (ps, rs) \<Longrightarrow> xs = ps @ rs \<and> (\<forall>q\<in>set ps. rj_interval (snd q) \<noteq> i \<and> due q \<le> sint f) \<and>
     (\<forall>q qs. rs = q # qs \<longrightarrow> rj_interval (snd q) \<noteq> i \<longrightarrow> sint f < due q)"
  by (induction xs arbitrary: ps rs) (auto simp: sless_due split: if_splits prod.splits)

lemma add_cases:
  assumes "time_ok now" "jobs_inv now (repeatedJobs s)"
  obtains (found) ps tw ts where "repeatedJobs s = ps @ tw # ts" "rj_interval (snd tw) = i"
      "addRepeatedJob mem new now s job i =
         (if mem (entry_bytes (length (rj_jobs (snd tw)) + 1))
          then (UA_STATUSCODE_GOOD, s\<lparr>repeatedJobs := ps @ (new, (snd tw)\<lparr>rj_jobs := rj_jobs (snd tw) @ [job]\<rparr>) # ts\<rparr>)
          else (UA_STATUSCODE_BADOUTOFMEMORY, s))"
  | (fresh) ps rs where "repeatedJobs s = ps @ rs" "\<forall>q\<in>set ps. due q \<le> sint now + uint i" "\<forall>q\<in>set rs. sint now + uint i < due q"
      "i \<notin> (\<lambda>q. rj_interval (snd q)) ` set (repeatedJobs s)"
      "addRepeatedJob mem new now s job i =
         (if mem (entry_bytes 1)
          then (UA_STATUSCODE_GOOD, s\<lparr>repeatedJobs := ps @ (new, \<lparr>rj_nextTime = now + ucast i, rj_interval = i, rj_jobs = [job]\<rparr>) # rs\<rparr>)
          else (UA_STATUSCODE_BADOUTOFMEMORY, s))"
proof -
  obtain ps rs where p: "passed i (now + ucast i) (repeatedJobs s) = (ps, rs)" by fastforce
  have t: "sint (now + ucast i) = sint now + uint i"
    using assms(1) by (intro sint_add_interval) (auto simp: time_ok_def)
  have sp: "repeatedJobs s = ps @ rs" and lo: "\<forall>q\<in>set ps. rj_interval (snd q) \<noteq> i \<and> due q \<le> sint now + uint i"
    and hi: "\<And>q qs. rs = q # qs \<Longrightarrow> rj_interval (snd q) \<noteq> i \<Longrightarrow> sint now + uint i < due q"
    using passed_split [OF p] by (auto simp: t)
  show ?thesis
  proof (cases "\<exists>tw ts. rs = tw # ts \<and> rj_interval (snd tw) = i")
    case True
    then show ?thesis using sp p by (auto simp: addRepeatedJob_def Let_def intro: found)
  next
    case False
    have all_hi: "\<forall>q\<in>set rs. sint now + uint i < due q"
    proof (cases rs)
      case (Cons q qs)
      moreover have "sint now + uint i < due q" using False hi Cons by auto
      moreover have "sorted (map due rs)" using assms(2) sp by (auto simp: jobs_inv_def sorted_append)
      ultimately show ?thesis by fastforce
    qed simp
    have "rj_interval (snd q) \<noteq> i" if "q \<in> set rs" for q
    proof
      assume "rj_interval (snd q) = i"
      moreover have "entry_ok now q" using assms(2) sp that by (auto simp: jobs_inv_def)
      ultimately show False using bspec [OF all_hi that] by (simp add: entry_ok_def)
    qed
    then have i: "i \<notin> (\<lambda>q. rj_interval (snd q)) ` set (repeatedJobs s)" using sp lo by auto
    have "addRepeatedJob mem new now s job i =
         (if mem (entry_bytes 1)
          then (UA_STATUSCODE_GOOD, s\<lparr>repeatedJobs := ps @ (new, \<lparr>rj_nextTime = now + ucast i, rj_interval = i, rj_jobs = [job]\<rparr>) # rs\<rparr>)
          else (UA_STATUSCODE_BADOUTOFMEMORY, s))"
      using False p by (auto simp: addRepeatedJob_def Let_def split: list.splits)
    then show ?thesis using sp lo all_hi i by (intro fresh) auto
  qed
qed

lemma add_inv:
  assumes "time_ok now" "jobs_inv now (repeatedJobs s)" "new \<notin> fst ` set (repeatedJobs s)"
  shows "jobs_inv now (repeatedJobs (snd (addRepeatedJob mem new now s job i)))"
  using assms(1, 2)
proof (cases rule: add_cases [where i = i and mem = mem and new = new and job = job])
  case (found ps tw ts)
  then show ?thesis using assms by (auto simp: jobs_inv_def entry_ok_def sorted_append)
next
  case (fresh ps rs)
  have "sint (now + ucast i) = sint now + uint i"
    using assms(1) by (intro sint_add_interval) (auto simp: time_ok_def)
  with fresh assms show ?thesis
    by (auto simp: jobs_inv_def entry_ok_def sorted_append time_ok_def intro: less_imp_le order_trans)
qed

section \<open>The loop over the due entries\<close>

text \<open>How often an entry is executed by one call, and when it is due afterwards.\<close>

definition executions :: "UA_DateTime \<Rightarrow> nat \<times> 'm RepeatedJobs \<Rightarrow> nat" where
  "executions now q = (if sint now < due q then 0 else if due q + period q \<le> sint now then 2 else 1)"

definition advance :: "UA_DateTime \<Rightarrow> nat \<times> 'm RepeatedJobs \<Rightarrow> nat \<times> 'm RepeatedJobs" where
  "advance now q = (if sint now < due q then q
     else (fst q, (snd q)\<lparr>rj_nextTime := (if due q + period q \<le> sint now then now else rj_nextTime (snd q)) + ucast (rj_interval (snd q))\<rparr>))"

definition postponed :: "UA_DateTime \<Rightarrow> nat \<times> 'm RepeatedJobs \<Rightarrow> nat \<times> 'm RepeatedJobs" where
  "postponed now q = (fst q, (snd q)\<lparr>rj_nextTime := next_execution now (snd q)\<rparr>)"

definition sorted_in :: "nat \<times> 'm RepeatedJobs \<Rightarrow> (nat \<times> 'm RepeatedJobs) list \<Rightarrow> (nat \<times> 'm RepeatedJobs) list" where
  "sorted_in q qs = takeWhile (\<lambda>r. due r \<le> due q) qs @ q # dropWhile (\<lambda>r. due r \<le> due q) qs"

lemma insertion_point_walk: "insertion_point t (p # qs) = Some (fst (last (p # takeWhile (\<lambda>r. due r \<le> sint t) qs)))"
  by (induction qs arbitrary: p) (auto simp: sless_due)

lemma insert_after_mid: "fst q \<notin> fst ` set us \<Longrightarrow> insert_after (fst q) x (us @ q # vs) = us @ q # x # vs"
  by (induction us) auto

lemma insert_after_walk:
  assumes "distinct (map fst qs)" "takeWhile P qs \<noteq> []"
  shows "insert_after (fst (last (takeWhile P qs))) x qs = takeWhile P qs @ x # dropWhile P qs"
proof -
  let ?l = "last (takeWhile P qs)" and ?u = "butlast (takeWhile P qs)"
  have qs: "qs = ?u @ ?l # dropWhile P qs"
    using assms(2) by (metis append.assoc append_Cons append_Nil append_butlast_last_id takeWhile_dropWhile_id)
  have "fst ?l \<notin> fst ` set ?u" using assms(1) by (subst (asm) qs) auto
  from insert_after_mid [OF this, of x "dropWhile P qs"] show ?thesis
    using qs assms(2) by (metis append.assoc append_Cons append_Nil append_butlast_last_id)
qed

lemma reschedule_first:
  assumes "repeatedJobs s = q # qs" "distinct (map fst (q # qs))"
  shows "reschedule now (fst q) s = Returns (s\<lparr>repeatedJobs := sorted_in (postponed now q) qs\<rparr>)"
proof -
  let ?t = "next_execution now (snd q)" and ?P = "\<lambda>r. due r \<le> sint (next_execution now (snd q))"
  have a: "map (\<lambda>r. if fst r = fst q then (fst q, (snd q)\<lparr>rj_nextTime := ?t\<rparr>) else r) (q # qs) = postponed now q # qs"
    and f: "filter (\<lambda>r. fst r \<noteq> fst q) (postponed now q # qs) = qs"
    using assms(2) by (auto simp: postponed_def image_iff intro!: map_idI filter_True)
  have m: "map_of (repeatedJobs s) (fst q) = Some (snd q)" using assms(1) by (cases q) simp
  have ip: "insertion_point ?t (postponed now q # qs) = Some (fst (last (postponed now q # takeWhile ?P qs)))"
    by (rule insertion_point_walk)
  show ?thesis
  proof (cases "takeWhile ?P qs = []")
    case True
    moreover then have "dropWhile ?P qs = qs" by (metis append_Nil takeWhile_dropWhile_id)
    ultimately show ?thesis
      using m assms(1) a ip by (simp add: reschedule_def Let_def sorted_in_def postponed_def)
  next
    case False
    moreover have "fst (last (takeWhile ?P qs)) \<in> fst ` set qs"
      using last_in_set [OF False] by (blast dest: set_takeWhileD)
    moreover then have "fst (last (takeWhile ?P qs)) \<noteq> fst q"
      using assms(2) by (metis distinct.simps(2) list.simps(9) set_map)
    ultimately show ?thesis
      using m assms a f ip insert_after_walk [OF _ False, of "postponed now q"]
      by (simp add: reschedule_def Let_def sorted_in_def postponed_def)
  qed
qed

lemma mset_sorted_in [simp]: "mset (sorted_in q qs) = add_mset q (mset qs)"
proof -
  have "mset (sorted_in q qs) = add_mset q (mset (takeWhile (\<lambda>r. due r \<le> due q) qs @ dropWhile (\<lambda>r. due r \<le> due q) qs))"
    by (simp add: sorted_in_def del: takeWhile_dropWhile_id)
  then show ?thesis by simp
qed

lemma sorted_sorted_in:
  assumes "sorted (map due qs)"
  shows "sorted (map due (sorted_in q qs))"
proof -
  let ?P = "\<lambda>r. due r \<le> due q"
  have s: "sorted (map due (takeWhile ?P qs @ dropWhile ?P qs))" using assms by simp
  have "due q \<le> due r" if "r \<in> set (dropWhile ?P qs)" for r
  proof -
    have "dropWhile ?P qs \<noteq> []" using that by (metis empty_iff list.set(1))
    then obtain h hs where h: "dropWhile ?P qs = h # hs" by (meson neq_Nil_conv)
    then have "\<not> ?P h" by (metis hd_dropWhile list.discI list.sel(1))
    moreover have "due h \<le> due r" using s that h by (auto simp: sorted_append)
    ultimately show ?thesis by linarith
  qed
  then show ?thesis using s by (auto simp: sorted_in_def sorted_append dest: set_takeWhileD simp del: takeWhile_dropWhile_id)
qed

lemma next_execution_due:
  assumes "time_ok now" "entry_ok now q"
  shows "due (postponed now q) = max (due q + period q) (sint now)"
  using sint_add_interval [OF entry_ok_range [OF assms], of "rj_interval (snd q)"]
  by (simp add: postponed_def next_execution_def Let_def word_sless_alt max_def)

lemma postponed_entry:
  assumes "time_ok now" "entry_ok now q" "\<not> sint now < due q"
  shows "entry_ok now (postponed now q)"
  using next_execution_due [OF assms(1, 2)] assms by (auto simp: entry_ok_def time_ok_def postponed_def)

lemma postponed_executions:
  assumes "time_ok now" "entry_ok now q" "\<not> sint now < due q" "0 < period q"
  shows "executions now q = Suc (executions now (postponed now q))"
  using next_execution_due [OF assms(1, 2)] assms(3, 4) by (auto simp: executions_def postponed_def max_def)

lemma postponed_advance:
  assumes "time_ok now" "entry_ok now q" "\<not> sint now < due q" "0 < period q"
  shows "advance now (postponed now q) = advance now q"
proof -
  have d: "sint (next_execution now (snd q)) = max (due q + period q) (sint now)"
    using next_execution_due [OF assms(1, 2)] by (simp add: postponed_def)
  have e: "sint (rj_nextTime (snd q) + ucast (rj_interval (snd q))) = due q + period q"
    by (rule sint_add_interval [OF entry_ok_range [OF assms(1, 2)]])
  show ?thesis
  proof (cases "due q + period q \<le> sint now")
    case True
    have "next_execution now (snd q) = now"
      using True d by (intro signed_word_eqI) (simp add: max_def)
    then show ?thesis using True assms(3, 4) by (simp add: advance_def postponed_def)
  next
    case False
    then show ?thesis using e d assms(3)
      by (simp add: advance_def postponed_def next_execution_def Let_def word_sless_alt)
  qed
qed

lemma postponed_simps [simp]:
  "fst (postponed now q) = fst q" "rj_interval (snd (postponed now q)) = rj_interval (snd q)"
  "rj_jobs (snd (postponed now q)) = rj_jobs (snd q)"
  by (simp_all add: postponed_def)

lemma jobs_inv_sorted_in:
  assumes "time_ok now" "jobs_inv now (q # qs)" "\<not> sint now < due q"
  shows "jobs_inv now (sorted_in (postponed now q) qs)"
proof -
  have m: "mset (sorted_in (postponed now q) qs) = mset (postponed now q # qs)" by simp
  have s: "set (sorted_in (postponed now q) qs) = insert (postponed now q) (set qs)"
    using mset_eq_setD [OF m] by simp
  show ?thesis
    using assms postponed_entry [OF assms(1) _ assms(3)] unfolding jobs_inv_def s
    by (auto simp: mset_eq_imp_distinct_iff [of "map fst (sorted_in (postponed now q) qs)" "map fst (postponed now q # qs)"]
        mset_eq_imp_distinct_iff [of "map (\<lambda>q. rj_interval (snd q)) (sorted_in (postponed now q) qs)" "map (\<lambda>q. rj_interval (snd q)) (postponed now q # qs)"]
        intro: sorted_sorted_in)
qed

text \<open>The jobs of the entry at an address.\<close>

definition jobs_at :: "(nat \<times> 'm RepeatedJobs) list \<Rightarrow> nat \<Rightarrow> 'm UA_Job list" where
  "jobs_at xs a = concat (map (\<lambda>q. if fst q = a then map snd (rj_jobs (snd q)) else []) xs)"

lemma jobs_at_first: "distinct (map fst (q # qs)) \<Longrightarrow> jobs_at (q # qs) (fst q) = map snd (rj_jobs (snd q))"
  by (auto simp: jobs_at_def image_iff)

lemma concat_while_Nil:
  assumes "\<forall>r\<in>set qs. f r = []"
  shows "concat (map f (takeWhile P qs)) = []" "concat (map f (dropWhile P qs)) = []"
  using assms by (auto dest: set_takeWhileD set_dropWhileD)

lemma concat_split_insert:
  "\<forall>r\<in>set qs. f r = [] \<Longrightarrow> concat (map f (takeWhile P qs @ x # dropWhile P qs)) = f x"
  "f x = [] \<Longrightarrow> concat (map f (takeWhile P qs @ x # dropWhile P qs)) = concat (map f qs)"
proof -
  show "concat (map f (takeWhile P qs @ x # dropWhile P qs)) = f x" if "\<forall>r\<in>set qs. f r = []"
    by (simp only: map_append list.map concat_append concat.simps concat_while_Nil [OF that] append_Nil append_Nil2)
  show "concat (map f (takeWhile P qs @ x # dropWhile P qs)) = concat (map f qs)" if "f x = []"
    by (metis append_Nil concat.simps(2) concat_append list.simps(9) map_append takeWhile_dropWhile_id that)
qed

lemma jobs_at_sorted_in:
  assumes "distinct (map fst (q # qs))"
  shows "jobs_at (sorted_in (postponed now q) qs) = jobs_at (q # qs)"
proof
  fix a
  show "jobs_at (sorted_in (postponed now q) qs) a = jobs_at (q # qs) a"
  proof (cases "fst q = a")
    case True
    have "fst r \<noteq> a" if "r \<in> set qs" for r using assms True that by (metis distinct.simps(2) image_eqI list.simps(9) set_map)
    then show ?thesis
      unfolding jobs_at_def sorted_in_def by (subst concat_split_insert(1)) (use True in auto)
  next
    case False
    then show ?thesis
      unfolding jobs_at_def sorted_in_def by (subst concat_split_insert(2)) auto
  qed
qed

lemma process_due_runs:
  assumes "list_neutral E" "time_ok now"
  shows "jobs_inv now xs \<Longrightarrow> \<forall>q\<in>set xs. 0 < period q \<Longrightarrow> 0 < n \<Longrightarrow>
      \<forall>q\<in>set xs. sum_list (map (executions now) xs) + length (rj_jobs (snd q)) < n \<Longrightarrow>
    \<exists>order final. (\<forall>s. repeatedJobs s = xs \<longrightarrow> process_due n E now s =
         oc_bind (process_all E s (concat (map (jobs_at xs) order))) (\<lambda>s1. Returns (s1\<lparr>repeatedJobs := final\<rparr>))) \<and>
      mset final = image_mset (advance now) (mset xs) \<and> jobs_inv now final \<and> (\<forall>q\<in>set final. sint now < due q) \<and>
      set order \<subseteq> fst ` set xs \<and> (\<forall>q\<in>set xs. count (mset order) (fst q) = executions now q)"
proof (induction n arbitrary: xs)
  case (Suc n)
  show ?case
  proof (cases "\<exists>q qs. xs = q # qs \<and> \<not> sint now < due q")
    case False
    have hi: "\<forall>q\<in>set xs. sint now < due q"
      using False Suc.prems(1) by (cases xs) (auto simp: jobs_inv_def intro: less_le_trans)
    then have i: "image_mset (advance now) (mset xs) = mset xs"
      by (intro multiset.map_ident_strong) (simp add: advance_def)
    have "process_due (Suc n) E now s = Returns s" if "repeatedJobs s = xs" for s
      using that False by (cases xs) (auto simp: word_sless_alt)
    then show ?thesis
      using hi i Suc.prems(1) by (intro exI [of _ "[]"] exI [of _ xs]) (auto simp: executions_def)
  next
    case True
    then obtain q qs where xs: "xs = q # qs" and lo: "\<not> sint now < due q" by blast
    let ?ys = "sorted_in (postponed now q) qs"
    have d: "distinct (map fst (q # qs))" and ok: "entry_ok now q" and p: "0 < period q"
      using Suc.prems(1, 2) by (auto simp: xs jobs_inv_def)
    have setys: "set ?ys = insert (postponed now q) (set qs)"
      using mset_eq_setD [of ?ys "postponed now q # qs"] by simp
    have "sum_list (map (executions now) ?ys) = sum_mset (image_mset (executions now) (mset ?ys))"
      by (metis mset_map sum_mset_sum_list)
    then have sum: "Suc (sum_list (map (executions now) ?ys)) = sum_list (map (executions now) xs)"
      using postponed_executions [OF assms(2) ok lo p] by (simp add: xs flip: sum_mset_sum_list mset_map)
    have n: "length (rj_jobs (snd q)) < n" "0 < n" using Suc.prems(4) sum by (auto simp: xs)
    have inv: "jobs_inv now ?ys" using Suc.prems(1) by (simp add: xs jobs_inv_sorted_in [OF assms(2) _ lo])
    have per: "\<forall>r\<in>set ?ys. 0 < period r" using Suc.prems(2) by (simp add: xs setys)
    have len: "\<forall>r\<in>set ?ys. sum_list (map (executions now) ?ys) + length (rj_jobs (snd r)) < n"
      using Suc.prems(4) unfolding sum [symmetric] by (auto simp: xs setys)
    obtain order final where IH:
      "\<And>s. repeatedJobs s = ?ys \<Longrightarrow> process_due n E now s =
         oc_bind (process_all E s (concat (map (jobs_at xs) order))) (\<lambda>s1. Returns (s1\<lparr>repeatedJobs := final\<rparr>))"
      and fin: "mset final = image_mset (advance now) (mset ?ys)" "jobs_inv now final" "\<forall>q\<in>set final. sint now < due q"
      and ord: "set order \<subseteq> fst ` set ?ys" "\<forall>q\<in>set ?ys. count (mset order) (fst q) = executions now q"
      using Suc.IH [OF inv per n(2) len] unfolding jobs_at_sorted_in [OF d] xs by blast
    have run: "process_due (Suc n) E now s =
        oc_bind (process_all E s (concat (map (jobs_at xs) (fst q # order)))) (\<lambda>s1. Returns (s1\<lparr>repeatedJobs := final\<rparr>))"
      if s: "repeatedJobs s = xs" for s
    proof -
      have "run_entry n E (fst q) 0 s = process_all E s (jobs_at xs (fst q))"
        using run_entry_jobs [OF assms(1), of s "fst q" "snd q" 0 n] n s jobs_at_first [OF d]
        by (cases q) (simp add: xs)
      moreover have "oc_bind (reschedule now (fst q) s1) (process_due n E now) =
          oc_bind (process_all E s1 (concat (map (jobs_at xs) order))) (\<lambda>s1. Returns (s1\<lparr>repeatedJobs := final\<rparr>))"
        if "process_all E s (jobs_at xs (fst q)) = Returns s1" for s1
        using process_all_list [OF assms(1) that] s reschedule_first [of s1 q qs now] d
        by (simp add: xs IH process_all_quiet [OF assms(1)])
      ultimately show ?thesis
        using s lo by (cases q) (simp add: xs word_sless_alt process_all_append cong: oc_bind_cong_Returns)
    qed
    have m: "mset final = image_mset (advance now) (mset xs)"
      using fin(1) postponed_advance [OF assms(2) ok lo p] by (simp add: xs)
    have c: "\<forall>r\<in>set xs. count (mset (fst q # order)) (fst r) = executions now r"
      using ord(2) postponed_executions [OF assms(2) ok lo p] d by (auto simp: xs setys)
    show ?thesis
      by (intro exI [of _ "fst q # order"] exI [of _ final] conjI allI impI run m fin(2, 3) c)
        (use ord(1) in \<open>auto simp: xs setys\<close>)
  qed
qed simp

section \<open>What the operations keep of the list\<close>

lemma processJob_list: "list_neutral E \<Longrightarrow> processJob E s j = Returns s1 \<Longrightarrow> repeatedJobs s1 = repeatedJobs s"
  using process_all_list [of E s "[j]" s1] by simp

lemma run_entry_list: "list_neutral E \<Longrightarrow> run_entry n E a i s = Returns s1 \<Longrightarrow> repeatedJobs s1 = repeatedJobs s"
proof (induction n arbitrary: i s)
  case (Suc n)
  then show ?case by (auto simp: oc_bind_eq_Returns dest: processJob_list split: option.splits if_splits)
qed simp

lemma process_due_inv:
  assumes "list_neutral E" "time_ok now" "jobs_inv now (repeatedJobs s)" "process_due n E now s = Returns s1"
  shows "jobs_inv now (repeatedJobs s1)"
  using assms(3, 4)
proof (induction n arbitrary: s)
  case (Suc n)
  show ?case
  proof (cases "repeatedJobs s")
    case (Cons q qs)
    show ?thesis
    proof (cases "sint now < due q")
      case True
      then show ?thesis using Suc.prems Cons by (cases q) (simp add: word_sless_alt)
    next
      case False
      obtain s2 where r: "run_entry n E (fst q) 0 s = Returns s2"
        and p: "oc_bind (reschedule now (fst q) s2) (process_due n E now) = Returns s1"
        using Suc.prems(2) Cons False by (cases q) (auto simp: oc_bind_eq_Returns word_sless_alt)
      have l: "repeatedJobs s2 = q # qs" using run_entry_list [OF assms(1) r] Cons by simp
      moreover have "distinct (map fst (q # qs))" using Suc.prems(1) Cons by (simp add: jobs_inv_def)
      ultimately have "process_due n E now (s2\<lparr>repeatedJobs := sorted_in (postponed now q) qs\<rparr>) = Returns s1"
        using p reschedule_first [of s2 q qs now] by simp
      from Suc.IH [OF _ this] show ?thesis
        using jobs_inv_sorted_in [OF assms(2) _ False, of qs] Suc.prems(1) Cons by simp
    qed
  qed (use Suc.prems in simp)
qed simp

lemma position_of_Some:
  "position_of jobId js = Some i \<Longrightarrow> i < length js \<and> UA_Guid_equal jobId (fst (js ! i))"
  by (induction js arbitrary: i) (auto split: if_splits)

lemma position_of_None: "position_of jobId js = None \<longleftrightarrow> (\<forall>j\<in>set js. \<not> UA_Guid_equal jobId (fst j))"
  by (induction js) auto

lemma mset_move_last:
  assumes "i < length js"
  shows "add_mset (js ! i) (mset (butlast (js[i := last js]))) = mset js"
proof -
  have ne: "js[i := last js] \<noteq> []" using assms by auto
  have l: "last (js[i := last js]) = last js"
    using assms by (subst last_list_update) auto
  have "mset (js[i := last js]) = add_mset (last js) (mset js - {#js ! i#})" by (simp add: mset_update assms)
  moreover have "mset (js[i := last js]) = add_mset (last js) (mset (butlast (js[i := last js])))"
    using append_butlast_last_id [OF ne] l by (metis mset.simps(1,2) mset_append union_mset_add_mset_right add.right_neutral)
  ultimately have "mset (butlast (js[i := last js])) = mset js - {#js ! i#}" by simp
  then show ?thesis using assms by simp
qed

lemma remove_job_cases:
  "(\<forall>q\<in>set xs. \<forall>j\<in>set (rj_jobs (snd q)). \<not> UA_Guid_equal jobId (fst j)) \<and> remove_job jobId xs = xs \<or>
   (\<exists>us q vs i. xs = us @ q # vs \<and> i < length (rj_jobs (snd q)) \<and> UA_Guid_equal jobId (fst (rj_jobs (snd q) ! i)) \<and>
      remove_job jobId xs = us @ (if length (rj_jobs (snd q)) = 1 then []
        else [(fst q, (snd q)\<lparr>rj_jobs := butlast ((rj_jobs (snd q))[i := last (rj_jobs (snd q))])\<rparr>)]) @ vs)"
proof (induction xs)
  case (Cons x xs)
  show ?case
  proof (cases "position_of jobId (rj_jobs (snd x))")
    case (Some i)
    then show ?thesis
      using position_of_Some [OF Some]
      by (intro disjI2 exI [of _ "[]"] exI [of _ x] exI [of _ xs] exI [of _ i]) (simp add: Let_def)
  next
    case None
    have r: "remove_job jobId (x # xs) = x # remove_job jobId xs" using None by (simp add: Let_def)
    from Cons.IH show ?thesis
    proof
      assume "\<exists>us q vs i. xs = us @ q # vs \<and> i < length (rj_jobs (snd q)) \<and> UA_Guid_equal jobId (fst (rj_jobs (snd q) ! i)) \<and>
        remove_job jobId xs = us @ (if length (rj_jobs (snd q)) = 1 then []
          else [(fst q, (snd q)\<lparr>rj_jobs := butlast ((rj_jobs (snd q))[i := last (rj_jobs (snd q))])\<rparr>)]) @ vs"
      then show ?thesis unfolding r by (metis append_Cons)
    qed (use None r in \<open>auto simp: position_of_None\<close>)
  qed
qed simp

lemma remove_inv:
  assumes "jobs_inv now xs"
  shows "jobs_inv now (remove_job jobId xs)"
  using remove_job_cases [of xs jobId]
proof (elim disjE exE conjE)
  fix us q vs i
  assume xs: "xs = us @ q # vs" and i: "i < length (rj_jobs (snd q))"
    and r: "remove_job jobId xs = us @ (if length (rj_jobs (snd q)) = 1 then []
        else [(fst q, (snd q)\<lparr>rj_jobs := butlast ((rj_jobs (snd q))[i := last (rj_jobs (snd q))])\<rparr>)]) @ vs"
  have ne: "butlast ((rj_jobs (snd q))[i := last (rj_jobs (snd q))]) \<noteq> []" if "length (rj_jobs (snd q)) \<noteq> 1"
    using i that by (metis One_nat_def Suc_lessI add_diff_cancel_left' gr_implies_not0 length_butlast length_list_update list.size(3)
        less_Suc0 linorder_neqE_nat plus_1_eq_Suc zero_less_diff)
  then show ?thesis
    unfolding r using assms by (auto simp: jobs_inv_def entry_ok_def xs sorted_append)
qed (use assms in simp)

end
