(* ===== verification/Ua_Jobs_Theorems.thy ===== *)
theory Ua_Jobs_Theorems
  imports Ua_Jobs_Laws
begin

text \<open>
  The properties of the repeated jobs: the order of the list along every run of the main loop,
  what one pass over the due entries executes, what adding and removing do, and the jobs that break the
  loop: one with an interval that wraps to 0, and one that extends its own entry.
\<close>

section \<open>Runs\<close>

text \<open>
  The states of a server with the clock of its last operation: the clock does not run backwards,
  \<open>UA_malloc\<close> and \<open>UA_realloc\<close> return an address that is not in use.
\<close>

inductive jreach :: "'m jenv \<Rightarrow> UA_DateTime \<Rightarrow> 'm jserver \<Rightarrow> bool" for E :: "'m jenv" where
  start: "time_ok now \<Longrightarrow> repeatedJobs s = [] \<Longrightarrow> jreach E now s"
| tick: "jreach E now s \<Longrightarrow> sint now \<le> sint later \<Longrightarrow> time_ok later \<Longrightarrow> jreach E later s"
| add: "jreach E now s \<Longrightarrow> new \<notin> fst ` set (repeatedJobs s) \<Longrightarrow>
    UA_Server_addRepeatedJob mem new now s job i guid = (r, s1) \<Longrightarrow> jreach E now s1"
| remove: "jreach E now s \<Longrightarrow> UA_Server_removeRepeatedJob s guid = (r, s1) \<Longrightarrow> jreach E now s1"
| clear: "jreach E now s \<Longrightarrow> jreach E now (UA_Server_deleteAllRepeatedJobs s)"
| iterate: "jreach E now s \<Longrightarrow> UA_Server_run_mainloop n E now L s = Returns s1 \<Longrightarrow> jreach E now s1"

lemma process_layers_list: "list_neutral E \<Longrightarrow> process_layers E answer is s = Returns s1 \<Longrightarrow> repeatedJobs s1 = repeatedJobs s"
  by (induction "is" arbitrary: s) (auto simp: oc_bind_eq_Returns processJobs_def dest: process_all_list)

lemma jobs_inv_later: "jobs_inv now xs \<Longrightarrow> sint now \<le> sint later \<Longrightarrow> jobs_inv later xs"
  by (fastforce simp: jobs_inv_def entry_ok_def)

lemma jreach_inv:
  assumes "list_neutral E" "jreach E now s"
  shows "time_ok now \<and> jobs_inv now (repeatedJobs s)"
  using assms(2)
proof induction
  case (start now s)
  then show ?case by (simp add: jobs_inv_def)
next
  case (tick now s later)
  then show ?case using jobs_inv_later by blast
next
  case (add now s new mem job i guid r s1)
  then show ?case using add_inv by (auto simp: UA_Server_addRepeatedJob_def split: if_splits)
next
  case (remove now s guid r s1)
  then show ?case using remove_inv by (auto simp: UA_Server_removeRepeatedJob_def)
next
  case (clear now s)
  then show ?case by (simp add: UA_Server_deleteAllRepeatedJobs_def jobs_inv_def)
next
  case (iterate now s n L s1)
  then show ?case
    using process_due_inv [OF assms(1)] process_layers_list [OF assms(1)]
    by (fastforce simp: UA_Server_run_mainloop_def processRepeatedJobs_def oc_bind_eq_Returns)
qed

text \<open>
  C36: Along every run of the server whose jobs do not themselves add or remove repeated jobs, the list of
  repeated jobs is sorted by the next time of execution, has one entry per interval and no entry without
  jobs, and every entry is due at most one interval from now.
\<close>

theorem repeated_jobs_sorted:
  assumes "list_neutral E" "jreach E now s"
  shows "sorted (map (\<lambda>q. sint (rj_nextTime (snd q))) (repeatedJobs s)) \<and>
    distinct (map (\<lambda>q. rj_interval (snd q)) (repeatedJobs s)) \<and>
    (\<forall>q\<in>set (repeatedJobs s). rj_jobs (snd q) \<noteq> [] \<and>
      sint (rj_nextTime (snd q)) \<le> sint now + uint (rj_interval (snd q)))"
  using jreach_inv [OF assms] by (auto simp: jobs_inv_def entry_ok_def)

section \<open>One pass\<close>

lemma next_timeout_bound:
  assumes "time_ok now" "jobs_inv now (repeatedJobs s)" "\<forall>q\<in>set (repeatedJobs s). sint now < due q"
  shows "next_timeout now s \<le> 50000 \<and> (\<forall>q\<in>set (repeatedJobs s). 10 * uint (next_timeout now s) \<le> due q - sint now)"
proof (cases "repeatedJobs s")
  case Nil
  then show ?thesis by (simp add: next_timeout_def MAXTIMEOUT_def)
next
  case (Cons f fs)
  let ?d = "due f - sint now"
  have f: "entry_ok now f" "sint now < due f" using assms Cons by (auto simp: jobs_inv_def)
  have d: "0 < ?d" "?d < 2 ^ 32" using f interval_below [of "rj_interval (snd f)"] by (auto simp: entry_ok_def)
  have sd: "sint (rj_nextTime (snd f) - now) = ?d"
    using d by (simp add: sint_word_ariths signed_take_bit_int_eq_self)
  have sdiv: "sint (rj_nextTime (snd f) - now) sdiv 10 = ?d div 10"
    using d sd by (simp add: signed_divide_int_def)
  have q: "0 \<le> ?d div 10" "?d div 10 < 2 ^ 32" using d by auto
  have u: "uint (word_of_int (?d div 10) :: UA_UInt32) = ?d div 10"
    using q by (simp add: uint_word_of_int)
  have first: "due f \<le> due r" if "r \<in> set (repeatedJobs s)" for r
    using assms(2) that by (auto simp: jobs_inv_def Cons)
  have t: "uint (next_timeout now s) = min (?d div 10) 50000"
    using u q by (auto simp: next_timeout_def Cons sdiv Let_def MAXTIMEOUT_def word_less_def min_def unsigned_ucast_eq take_bit_int_eq_self)
  have "10 * uint (next_timeout now s) \<le> ?d" unfolding t by linarith
  then have "10 * uint (next_timeout now s) \<le> due r - sint now" if "r \<in> set (repeatedJobs s)" for r
    using first [OF that] by linarith
  then show ?thesis using t by (auto simp: word_le_def)
qed


section \<open>Adding and removing\<close>

text \<open>All repeated jobs with their interval.\<close>

definition all_jobs :: "'m jserver \<Rightarrow> (UA_UInt32 \<times> 'm IdentifiedJob) list" where
  "all_jobs s = concat (map (\<lambda>q. map (Pair (rj_interval (snd q))) (rj_jobs (snd q))) (repeatedJobs s))"

lemma add_all_jobs:
  assumes "time_ok now" "jobs_inv now (repeatedJobs s)" "\<forall>k. mem k"
  shows "\<exists>q\<in>set (repeatedJobs (snd (addRepeatedJob mem new now s job i))).
      job \<in> set (rj_jobs (snd q)) \<and> rj_interval (snd q) = i \<and> due q \<le> sint now + uint i"
    and "mset (all_jobs (snd (addRepeatedJob mem new now s job i))) = add_mset (i, job) (mset (all_jobs s))"
proof -
  have t: "sint (now + ucast i) = sint now + uint i"
    using assms(1) by (intro sint_add_interval) (auto simp: time_ok_def)
  show "\<exists>q\<in>set (repeatedJobs (snd (addRepeatedJob mem new now s job i))).
      job \<in> set (rj_jobs (snd q)) \<and> rj_interval (snd q) = i \<and> due q \<le> sint now + uint i"
    using assms(1, 2)
  proof (cases rule: add_cases [where i = i and mem = mem and new = new and job = job])
    case (found ps tw ts)
    moreover have "entry_ok now tw" using assms(2) found(1) by (simp add: jobs_inv_def)
    ultimately show ?thesis using assms(3) by (auto simp: entry_ok_def)
  next
    case (fresh ps rs)
    then show ?thesis using assms(3) t by simp
  qed
  show "mset (all_jobs (snd (addRepeatedJob mem new now s job i))) = add_mset (i, job) (mset (all_jobs s))"
    using assms(1, 2)
  proof (cases rule: add_cases [where i = i and mem = mem and new = new and job = job])
    case (found ps tw ts)
    then show ?thesis using assms(3) by (simp add: all_jobs_def)
  next
    case (fresh ps rs)
    then show ?thesis using assms(3) by (simp add: all_jobs_def)
  qed
qed

lemma remove_all_jobs:
  "(\<forall>j\<in>set (all_jobs s). \<not> UA_Guid_equal jobId (fst (snd j))) \<and> snd (UA_Server_removeRepeatedJob s jobId) = s \<or>
   (\<exists>j\<in>set (all_jobs s). UA_Guid_equal jobId (fst (snd j)) \<and>
      mset (all_jobs (snd (UA_Server_removeRepeatedJob s jobId))) = mset (all_jobs s) - {#j#})"
  using remove_job_cases [of "repeatedJobs s" jobId]
proof (elim disjE exE conjE)
  fix us vs i and q :: "nat \<times> 'a RepeatedJobs"
  let ?js = "rj_jobs (snd q)" and ?c = "rj_interval (snd q)"
  assume xs: "repeatedJobs s = us @ q # vs" and i: "i < length ?js" and g: "UA_Guid_equal jobId (fst (?js ! i))"
    and r: "remove_job jobId (repeatedJobs s) = us @ (if length ?js = 1 then []
        else [(fst q, (snd q)\<lparr>rj_jobs := butlast (?js[i := last ?js])\<rparr>)]) @ vs"
  have m: "mset ?js = add_mset (?js ! i) (if length ?js = 1 then {#} else mset (butlast (?js[i := last ?js])))"
  proof (cases "length ?js = 1")
    case True
    then obtain j where "?js = [j]" by (auto simp: length_Suc_conv)
    then show ?thesis using i by simp
  next
    case False
    then show ?thesis using mset_move_last [OF i] by simp
  qed
  have "(?c, ?js ! i) \<in> set (all_jobs s)" using i by (auto simp: all_jobs_def xs)
  moreover have "mset (all_jobs (snd (UA_Server_removeRepeatedJob s jobId))) = mset (all_jobs s) - {#(?c, ?js ! i)#}"
    by (simp add: UA_Server_removeRepeatedJob_def r [unfolded xs] all_jobs_def xs m)
  ultimately show ?thesis using g by (metis snd_conv)
qed (auto simp: UA_Server_removeRepeatedJob_def all_jobs_def)


text \<open>
  When there is no memory for a job, it is not added, but the caller gets GOOD.
\<close>

theorem lost_job_reported_good:
  assumes "\<forall>k. \<not> mem k" "5 \<le> i"
  shows "UA_Server_addRepeatedJob mem new now s job i guid = (UA_STATUSCODE_GOOD, s)"
  using assms by (auto simp: UA_Server_addRepeatedJob_def addRepeatedJob_def Let_def split: list.splits prod.splits)

section \<open>Jobs that break the loop\<close>

lemma zero_interval_loops:
  assumes "\<And>s. \<exists>s1. processJob E s job = Returns s1 \<and> repeatedJobs s1 = repeatedJobs s"
  shows "repeatedJobs s = [(a, tw)] \<Longrightarrow> rj_interval tw = 0 \<Longrightarrow> rj_jobs tw = [(guid, job)] \<Longrightarrow> \<not> now <s rj_nextTime tw \<Longrightarrow>
    process_due n E now s = Loops"
proof (induction n arbitrary: s tw)
  case (Suc n)
  have "run_entry n E a 0 s = Loops \<or> (\<exists>s1. run_entry n E a 0 s = Returns s1 \<and> repeatedJobs s1 = [(a, tw)])"
  proof (cases n)
    case (Suc k)
    obtain s1 where "processJob E s job = Returns s1" "repeatedJobs s1 = [(a, tw)]" using assms [of s] Suc.prems(1) by metis
    then show ?thesis using Suc Suc.prems by (cases k) auto
  qed simp
  then show ?case
  proof (elim disjE exE conjE)
    fix s1 assume r: "run_entry n E a 0 s = Returns s1" and l: "repeatedJobs s1 = [(a, tw)]"
    let ?tw = "tw\<lparr>rj_nextTime := next_execution now tw\<rparr>"
    have "reschedule now a s1 = Returns (s1\<lparr>repeatedJobs := [(a, ?tw)]\<rparr>)" using l by (simp add: reschedule_def Let_def)
    moreover have "\<not> now <s rj_nextTime ?tw" using Suc.prems(2, 4) by (auto simp: next_execution_def Let_def word_sless_alt)
    ultimately show ?thesis using Suc.prems r Suc.IH [of "s1\<lparr>repeatedJobs := [(a, ?tw)]\<rparr>" ?tw] by simp
  qed (use Suc.prems in simp)
qed simp

text \<open>
  C39: The interval in milliseconds is multiplied by 10000 in 32 bits. For 268435456 ms (three days) the product
  wraps to 0, the job is accepted, and the next pass over the repeated jobs never ends.
\<close>

theorem long_interval_hangs:
  assumes "repeatedJobs s = []" "mem (entry_bytes 1)" "sint now \<le> sint later"
    and "\<And>s. \<exists>s1. processJob E s job = Returns s1 \<and> repeatedJobs s1 = repeatedJobs s"
  shows "\<exists>s1. UA_Server_addRepeatedJob mem new now s job 268435456 guid = (UA_STATUSCODE_GOOD, s1) \<and>
    (\<forall>n. processRepeatedJobs n E later s1 = Loops)"
proof -
  let ?s1 = "s\<lparr>repeatedJobs := [(new, \<lparr>rj_nextTime = now, rj_interval = 0, rj_jobs = [(guid, job)]\<rparr>)]\<rparr>"
  have "UA_Server_addRepeatedJob mem new now s job 268435456 guid = (UA_STATUSCODE_GOOD, ?s1)"
    using assms(1, 2) by (simp add: UA_Server_addRepeatedJob_def addRepeatedJob_def)
  moreover have "processRepeatedJobs n E later ?s1 = Loops" for n
    using zero_interval_loops [OF assms(4), of ?s1 new] assms(3) by (simp add: processRepeatedJobs_def word_sless_alt)
  ultimately show ?thesis by blast
qed

text \<open>
  A repeated job that adds another job of the same interval, where \<open>UA_realloc\<close> moves the entry,
  leaves \<open>processRepeatedJobs\<close> with a pointer to the freed entry.
\<close>

theorem self_extending_job_faults:
  assumes "repeatedJobs s = (a, tw) # tws" "new \<notin> fst ` set (repeatedJobs s)" "a \<notin> fst ` set tws" "\<not> now <s rj_nextTime tw"
    and "rj_jobs tw = [(guid, UA_JOBTYPE_METHODCALL m)]" "5 \<le> i" "i * 10000 = rj_interval tw" "mem (entry_bytes 2)"
    and "\<And>s. j_run E m s = Returns (snd (UA_Server_addRepeatedJob mem new clock s job i g))"
  shows "processRepeatedJobs (n + 3) E now s = Faults"
proof -
  let ?tw = "tw\<lparr>rj_jobs := [(guid, UA_JOBTYPE_METHODCALL m), (g, job)]\<rparr>"
  have "addRepeatedJob mem new clock s (g, job) (rj_interval tw) = (UA_STATUSCODE_GOOD, s\<lparr>repeatedJobs := (new, ?tw) # tws\<rparr>)"
    using assms(1, 5, 8) by (simp add: addRepeatedJob_def Let_def numeral_2_eq_2)
  then have "j_run E m s = Returns (s\<lparr>repeatedJobs := (new, ?tw) # tws\<rparr>)"
    using assms(6, 7, 9) by (simp add: UA_Server_addRepeatedJob_def not_less [symmetric])
  moreover have "map_of tws a = None" using assms(3) by (simp add: map_of_eq_None_iff)
  ultimately show ?thesis
    using assms(1, 2, 4, 5) by (auto simp: processRepeatedJobs_def numeral_3_eq_3)
qed

section \<open>Examples\<close>

text \<open>A server without connections whose only method does nothing, and two entries that are due after 20 ms and 1 s.\<close>

definition example_comm :: comm where
  "example_comm = \<lparr>conns = \<lambda>_. None, chans = \<lambda>_. None, sess = \<lambda>_. None,
     secureChannelManager = UA_SecureChannelManager_init 0 0 0 0, sessionManager = UA_SessionManager_init 0 0 0\<rparr>"

definition example_jobs_env :: "unit jenv" where
  "example_jobs_env = \<lparr>j_env = \<lparr>e_mem = \<lambda>_. True, e_now = 0, e_granted = True, e_new = 0, e_sends = \<lambda>_. True, e_stack = 10,
     e_services = \<lambda>_ _ _ _ _ _. None\<rparr>, j_rounds = 10, j_run = \<lambda>_. Returns\<rparr>"

definition example_guid :: "UA_UInt32 \<Rightarrow> UA_Guid" where
  "example_guid n = \<lparr>data1 = n, data2 = 0, data3 = 0, data4 = [0, 0, 0, 0, 0, 0, 0, 0]\<rparr>"

definition example_server :: "unit jserver" where
  "example_server = \<lparr>js_server = \<lparr>srv_comm = example_comm, anonymousChannel = UA_SecureChannel_init, outbox = []\<rparr>,
     repeatedJobs = [(1, \<lparr>rj_nextTime = 200000, rj_interval = 200000, rj_jobs = [(example_guid 1, UA_JOBTYPE_METHODCALL ())]\<rparr>),
       (2, \<lparr>rj_nextTime = 10000000, rj_interval = 10000000, rj_jobs = [(example_guid 2, UA_JOBTYPE_NOTHING)]\<rparr>)]\<rparr>"

lemma example_quiet: "list_neutral example_jobs_env"
  by (simp add: list_neutral_def example_jobs_env_def)

lemma example_jobs_inv: "time_ok 0" "time_ok 500000" "jobs_inv 500000 (repeatedJobs example_server)"
  by (simp_all add: time_ok_def jobs_inv_def entry_ok_def example_server_def)

text \<open>The entry of the method is added and due at the clock of the second operation.\<close>

definition example_run :: "unit jserver" where
  "example_run = snd (UA_Server_addRepeatedJob (\<lambda>_. True) 7 0 (example_server\<lparr>repeatedJobs := []\<rparr>) (UA_JOBTYPE_METHODCALL ()) 20 (example_guid 1))"

lemma example_run_list:
  "repeatedJobs example_run = [(7, \<lparr>rj_nextTime = 200000, rj_interval = 200000, rj_jobs = [(example_guid 1, UA_JOBTYPE_METHODCALL ())]\<rparr>)]"
  by (simp add: example_run_def UA_Server_addRepeatedJob_def addRepeatedJob_def)

theorem repeated_jobs_sorted_witness:
  "\<exists>E :: unit jenv. list_neutral E \<and> jreach E 500000 example_run \<and> repeatedJobs example_run \<noteq> [] \<and>
     sorted (map (\<lambda>q. sint (rj_nextTime (snd q))) (repeatedJobs example_run))"
proof -
  have "jreach example_jobs_env 0 (example_server\<lparr>repeatedJobs := []\<rparr>)"
    by (rule jreach.start) (simp_all add: example_jobs_inv)
  then have "jreach example_jobs_env 0 example_run"
    by (rule jreach.add [where new = 7 and mem = "\<lambda>_. True" and job = "UA_JOBTYPE_METHODCALL ()" and i = 20 and guid = "example_guid 1"
          and r = UA_STATUSCODE_GOOD]) (simp_all add: example_run_def UA_Server_addRepeatedJob_def)
  then have j: "jreach example_jobs_env 500000 example_run"
    by (rule jreach.tick) (simp_all add: example_jobs_inv)
  from repeated_jobs_sorted [OF example_quiet j] j show ?thesis using example_quiet example_run_list by auto
qed



theorem long_interval_hangs_witness:
  "\<exists>s1. UA_Server_addRepeatedJob (\<lambda>_. True) 1 0 (example_server\<lparr>repeatedJobs := []\<rparr>) (UA_JOBTYPE_METHODCALL ()) 268435456 (example_guid 1)
      = (UA_STATUSCODE_GOOD, s1) \<and> (\<forall>n. processRepeatedJobs n example_jobs_env 10 s1 = Loops)"
  by (rule long_interval_hangs) (simp_all add: example_jobs_env_def)

end
