(* ===== verification/Ua_NodeManagement.thy ===== *)
theory Ua_NodeManagement
  imports Ua_View Ua_Attributes
begin

text \<open>
  Node management (\<^verbatim>\<open>src/server/ua_services_nodemanagement.c\<close>): adding and deleting nodes and
  references, and the instantiation of types.

  \<open>deleteOneWayReference\<close> frees the array of references of a node with its last reference and keeps
  the pointer: \<open>nm_freed\<close> lists the nodes with such a pointer, and handing it to \<open>UA_realloc\<close> or
  \<open>UA_free\<close> is \<open>None\<close>, as every other access to memory that is not allocated. Nodes are
  held in the array of the store: a pointer to a node is lost when the array is replaced, which
  changes the index of its size. The depth bounds the recursion of the instantiation, as the stack does.
  Constructors and destructors of object types are functions of the application on a state of its own.
\<close>

section \<open>Constants and data\<close>

definition UA_STATUSCODE_BADPARENTNODEIDINVALID :: UA_StatusCode where [status_defs]: "UA_STATUSCODE_BADPARENTNODEIDINVALID = 0x805b0000"
definition UA_STATUSCODE_BADREFERENCENOTALLOWED :: UA_StatusCode where [status_defs]: "UA_STATUSCODE_BADREFERENCENOTALLOWED = 0x805c0000"
definition UA_STATUSCODE_BADNODEATTRIBUTESINVALID :: UA_StatusCode where [status_defs]: "UA_STATUSCODE_BADNODEATTRIBUTESINVALID = 0x80620000"
definition UA_STATUSCODE_BADNODEIDINVALID :: UA_StatusCode where [status_defs]: "UA_STATUSCODE_BADNODEIDINVALID = 0x80330000"
definition UA_STATUSCODE_BADNOTIMPLEMENTED :: UA_StatusCode where [status_defs]: "UA_STATUSCODE_BADNOTIMPLEMENTED = 0x80400000"
definition UA_STATUSCODE_UNCERTAINREFERENCENOTDELETED :: UA_StatusCode where [status_defs]: "UA_STATUSCODE_UNCERTAINREFERENCENOTDELETED = 0x40bc0000"

definition UA_NS0ID_AGGREGATES :: UA_UInt32 where "UA_NS0ID_AGGREGATES = 44"
definition UA_NS0ID_HASPROPERTY :: UA_UInt32 where "UA_NS0ID_HASPROPERTY = 46"

record UA_AddReferencesItem =
  ar_sourceNodeId :: UA_NodeId
  ar_referenceTypeId :: UA_NodeId
  ar_isForward :: bool
  ar_targetServerUri :: UA_String
  ar_targetNodeId :: UA_ExpandedNodeId

definition UA_AddReferencesItem_init :: UA_AddReferencesItem where
  "UA_AddReferencesItem_init = \<lparr>ar_sourceNodeId = UA_NODEID_NULL, ar_referenceTypeId = UA_NODEID_NULL, ar_isForward = False,
     ar_targetServerUri = Null_ptr, ar_targetNodeId = UA_EXPANDEDNODEID_NULL\<rparr>"

record UA_DeleteReferencesItem =
  dr_sourceNodeId :: UA_NodeId
  dr_referenceTypeId :: UA_NodeId
  dr_isForward :: bool
  dr_targetNodeId :: UA_ExpandedNodeId
  deleteBidirectional :: bool

definition UA_DeleteReferencesItem_init :: UA_DeleteReferencesItem where
  "UA_DeleteReferencesItem_init = \<lparr>dr_sourceNodeId = UA_NODEID_NULL, dr_referenceTypeId = UA_NODEID_NULL, dr_isForward = False,
     dr_targetNodeId = UA_EXPANDEDNODEID_NULL, deleteBidirectional = False\<rparr>"

text \<open>The attributes of a new node, by their type in the extension object of the item.\<close>

record UA_NodeAttributes =
  a_displayName :: UA_LocalizedText
  a_description :: UA_LocalizedText
  a_writeMask :: UA_UInt32
  a_userWriteMask :: UA_UInt32

datatype node_attributes =
    UA_ObjectAttributes UA_NodeAttributes UA_Byte
  | UA_VariableAttributes UA_NodeAttributes variant UA_Int32 UA_Byte UA_Byte UA_UInt64 bool
  | UA_ObjectTypeAttributes UA_NodeAttributes bool
  | UA_VariableTypeAttributes UA_NodeAttributes variant UA_Int32 bool
  | UA_ReferenceTypeAttributes UA_NodeAttributes bool bool UA_LocalizedText
  | UA_DataTypeAttributes UA_NodeAttributes bool
  | UA_ViewAttributes UA_NodeAttributes bool UA_Byte
  | Other_attributes

text \<open>\<open>an_nodeAttributes\<close> is \<open>None\<close> when the extension object is not decoded.\<close>

record UA_AddNodesItem =
  an_parentNodeId :: UA_ExpandedNodeId
  an_referenceTypeId :: UA_NodeId
  an_requestedNewNodeId :: UA_ExpandedNodeId
  an_browseName :: UA_QualifiedName
  an_nodeClass :: UA_NodeClass
  an_nodeAttributes :: "node_attributes option"
  an_typeDefinition :: UA_ExpandedNodeId

record UA_AddNodesResult =
  anr_statusCode :: UA_StatusCode
  addedNodeId :: UA_NodeId

definition UA_AddNodesResult_init :: UA_AddNodesResult where
  "UA_AddNodesResult_init = \<lparr>anr_statusCode = UA_STATUSCODE_GOOD, addedNodeId = UA_NODEID_NULL\<rparr>"

record ('h, 'e) nm =
  nm_store :: node_store
  nm_freed :: "UA_NodeId list"
  nm_session :: cp_session
  nm_admin :: cp_session
  instanceHandles :: "(UA_NodeId \<times> 'h) list"
  nm_app :: 'e

record ('h, 'e) nm_env =
  nm_mem :: "nat \<Rightarrow> bool"
  nm_guid :: UA_ByteString
  namespacesSize :: nat
  olm_constructor :: "UA_NodeId \<Rightarrow> (UA_NodeId \<Rightarrow> 'e \<Rightarrow> 'h \<times> 'e) option"
  olm_destructor :: "UA_NodeId \<Rightarrow> (UA_NodeId \<Rightarrow> 'h option \<Rightarrow> 'e \<Rightarrow> 'e) option"

section \<open>References\<close>

definition freed_in :: "UA_NodeId list \<Rightarrow> UA_NodeId \<Rightarrow> bool" where
  "freed_in fr i = list_ex (UA_NodeId_equal i) fr"

definition addOneWayReference ::
  "(nat \<Rightarrow> bool) \<Rightarrow> UA_AddReferencesItem \<Rightarrow> UA_AnyNode \<Rightarrow> UA_NodeId list \<Rightarrow> (UA_StatusCode \<times> UA_AnyNode \<times> UA_NodeId list) option" where
  "addOneWayReference mem item node fr =
     (if freed_in fr (n_nodeId node) then None
      else let refssize = (length (n_references node) + 1) OR 3 in
        if \<not> mem (80 * refssize) then Some (UA_STATUSCODE_BADOUTOFMEMORY, node, fr)
        else let (r1, t) = NodeId_copy mem (ar_referenceTypeId item); (r2, e) = ExpandedNodeId_copy mem (ar_targetNodeId item)
          in if r1 OR r2 = UA_STATUSCODE_GOOD
             then Some (r1 OR r2, node\<lparr>n_references := n_references node @
                    [\<lparr>referenceTypeId = t, isInverse = \<not> ar_isForward item, targetId = e\<rparr>]\<rparr>, fr)
             else Some (r1 OR r2, node, fr))"

definition nm_edit ::
  "('h, 'e) nm \<Rightarrow> UA_NodeId \<Rightarrow> (UA_AnyNode \<Rightarrow> UA_NodeId list \<Rightarrow> (UA_StatusCode \<times> UA_AnyNode \<times> UA_NodeId list) option) \<Rightarrow>
   (UA_StatusCode \<times> ('h, 'e) nm) option" where
  "nm_edit s i callback = do {
     (r, ns, fr) \<leftarrow> UA_Server_editNode (nm_store s) i callback (nm_freed s);
     Some (r, s\<lparr>nm_store := ns, nm_freed := fr\<rparr>) }"

definition Service_AddReferences_single ::
  "(nat \<Rightarrow> bool) \<Rightarrow> ('h, 'e) nm \<Rightarrow> UA_AddReferencesItem \<Rightarrow> (UA_StatusCode \<times> ('h, 'e) nm) option" where
  "Service_AddReferences_single mem s item =
     (if content (ar_targetServerUri item) \<noteq> [] then Some (UA_STATUSCODE_BADNOTIMPLEMENTED, s)
      else do {
        (r, s1) \<leftarrow> nm_edit s (ar_sourceNodeId item) (addOneWayReference mem item);
        if r \<noteq> UA_STATUSCODE_GOOD then Some (r, s1)
        else let secondItem = item\<lparr>ar_targetNodeId := (ar_targetNodeId item)\<lparr>nodeId := ar_sourceNodeId item\<rparr>,
                     ar_sourceNodeId := nodeId (ar_targetNodeId item), ar_isForward := \<not> ar_isForward item\<rparr>
          in nm_edit s1 (ar_sourceNodeId secondItem) (addOneWayReference mem secondItem) })"

text \<open>The results of \<open>Service_AddReferences\<close> are allocated and never written: \<open>None\<close> is an indeterminate status.\<close>

fun add_references :: "(nat \<Rightarrow> bool) \<Rightarrow> ('h, 'e) nm \<Rightarrow> UA_AddReferencesItem list \<Rightarrow> ('h, 'e) nm option" where
  "add_references mem s [] = Some s"
| "add_references mem s (item # items) = do { (r, s1) \<leftarrow> Service_AddReferences_single mem s item; add_references mem s1 items }"

definition Service_AddReferences ::
  "(nat \<Rightarrow> bool) \<Rightarrow> ('h, 'e) nm \<Rightarrow> UA_AddReferencesItem list \<Rightarrow> (UA_StatusCode \<times> UA_StatusCode option list \<times> ('h, 'e) nm) option" where
  "Service_AddReferences mem s items =
     (if items = [] then Some (UA_STATUSCODE_BADNOTHINGTODO, [], s)
      else if \<not> mem (4 * length items) then Some (UA_STATUSCODE_BADOUTOFMEMORY, [], s)
      else do { s1 \<leftarrow> add_references mem s items; Some (UA_STATUSCODE_GOOD, replicate (length items) None, s1) })"

text \<open>The last reference that matches, searched from the end.\<close>

definition same_reference :: "UA_DeleteReferencesItem \<Rightarrow> UA_ReferenceNode \<Rightarrow> bool" where
  "same_reference item ref \<longleftrightarrow> UA_NodeId_equal (nodeId (dr_targetNodeId item)) (nodeId (targetId ref)) \<and>
     UA_NodeId_equal (dr_referenceTypeId item) (referenceTypeId ref) \<and> dr_isForward item \<noteq> isInverse ref"

primrec last_match :: "UA_DeleteReferencesItem \<Rightarrow> UA_ReferenceNode list \<Rightarrow> nat \<Rightarrow> nat option" where
  "last_match item refs 0 = None"
| "last_match item refs (Suc i) = (if same_reference item (refs ! i) then Some i else last_match item refs i)"

definition deleteOneWayReference ::
  "UA_DeleteReferencesItem \<Rightarrow> UA_AnyNode \<Rightarrow> UA_NodeId list \<Rightarrow> (UA_StatusCode \<times> UA_AnyNode \<times> UA_NodeId list) option" where
  "deleteOneWayReference item node fr =
     (let refs = n_references node in
      case last_match item refs (length refs) of
        None \<Rightarrow> Some (UA_STATUSCODE_UNCERTAINREFERENCENOTDELETED, node, fr)
      | Some i \<Rightarrow> let rest = butlast (refs[i := last refs]) in
          Some (UA_STATUSCODE_GOOD, node\<lparr>n_references := rest\<rparr>, if rest = [] then n_nodeId node # fr else fr))"

definition Service_DeleteReferences_single ::
  "('h, 'e) nm \<Rightarrow> UA_DeleteReferencesItem \<Rightarrow> (UA_StatusCode \<times> ('h, 'e) nm) option" where
  "Service_DeleteReferences_single s item = do {
     (r, s1) \<leftarrow> nm_edit s (dr_sourceNodeId item) (deleteOneWayReference item);
     if \<not> deleteBidirectional item \<or> serverIndex (dr_targetNodeId item) \<noteq> 0 then Some (r, s1)
     else let secondItem = UA_DeleteReferencesItem_init\<lparr>dr_isForward := \<not> dr_isForward item,
                  dr_sourceNodeId := nodeId (dr_targetNodeId item),
                  dr_targetNodeId := UA_EXPANDEDNODEID_NULL\<lparr>nodeId := dr_sourceNodeId item\<rparr>\<rparr>
       in nm_edit s1 (dr_sourceNodeId secondItem) (deleteOneWayReference secondItem) }"

fun delete_references :: "('h, 'e) nm \<Rightarrow> UA_DeleteReferencesItem list \<Rightarrow> (UA_StatusCode list \<times> ('h, 'e) nm) option" where
  "delete_references s [] = Some ([], s)"
| "delete_references s (item # items) = do {
     (r, s1) \<leftarrow> Service_DeleteReferences_single s item;
     (rs, s2) \<leftarrow> delete_references s1 items;
     Some (r # rs, s2) }"

definition Service_DeleteReferences ::
  "(nat \<Rightarrow> bool) \<Rightarrow> ('h, 'e) nm \<Rightarrow> UA_DeleteReferencesItem list \<Rightarrow> (UA_StatusCode \<times> UA_StatusCode list \<times> ('h, 'e) nm) option" where
  "Service_DeleteReferences mem s items =
     (if items = [] then Some (UA_STATUSCODE_BADNOTHINGTODO, [], s)
      else if \<not> mem (4 * length items) then Some (UA_STATUSCODE_BADOUTOFMEMORY, [], s)
      else do { (rs, s1) \<leftarrow> delete_references s items; Some (UA_STATUSCODE_GOOD, rs, s1) })"

section \<open>Deleting nodes\<close>

text \<open>
  The loop over the references of the node, which is read again in every round; \<open>k\<close> counts the
  references it started with, and the list only shrinks.
\<close>

primrec delete_targets :: "nat \<Rightarrow> UA_NodeId \<Rightarrow> nat \<Rightarrow> ('h, 'e) nm \<Rightarrow> ('h, 'e) nm option" where
  "delete_targets 0 i k s = Some s"
| "delete_targets (Suc n) i k s = do {
     found \<leftarrow> get_node (nm_store s) i;
     node \<leftarrow> found;
     if k < length (n_references node) then
       let ref = n_references node ! k;
           delItem = UA_DeleteReferencesItem_init\<lparr>dr_targetNodeId := UA_EXPANDEDNODEID_NULL\<lparr>nodeId := i\<rparr>,
             dr_sourceNodeId := nodeId (targetId ref), dr_isForward := isInverse ref\<rparr>
       in do { (r, s1) \<leftarrow> Service_DeleteReferences_single s delItem; delete_targets n i (k + 1) s1 }
     else Some s }"

fun call_destructors :: "('h, 'e) nm_env \<Rightarrow> UA_NodeId \<Rightarrow> UA_ReferenceDescription list \<Rightarrow> ('h, 'e) nm \<Rightarrow> ('h, 'e) nm option" where
  "call_destructors E i [] s = Some s"
| "call_destructors E i (rd # rds) s = do {
     found \<leftarrow> get_node (nm_store s) (nodeId (rd_nodeId rd));
     (case found of
        None \<Rightarrow> call_destructors E i rds s
      | Some type \<Rightarrow>
          (case (if n_nodeClass type = UA_NODECLASS_OBJECTTYPE then olm_destructor E (n_nodeId type) else None) of
             None \<Rightarrow> call_destructors E i rds s
           | Some d \<Rightarrow> call_destructors E i rds
               (s\<lparr>nm_app := d i (map_option snd (find (\<lambda>h. UA_NodeId_equal (fst h) i) (instanceHandles s))) (nm_app s)\<rparr>))) }"

definition Service_DeleteNodes_single ::
  "('h, 'e) nm_env \<Rightarrow> ('h, 'e) nm \<Rightarrow> UA_NodeId \<Rightarrow> bool \<Rightarrow> (UA_StatusCode \<times> ('h, 'e) nm) option" where
  "Service_DeleteNodes_single E s i deleteReferences = do {
     found \<leftarrow> get_node (nm_store s) i;
     (case found of
        None \<Rightarrow> Some (UA_STATUSCODE_BADNODEIDINVALID, s)
      | Some node \<Rightarrow> do {
          s1 \<leftarrow> (if deleteReferences then delete_targets (length (n_references node)) i 0 s else Some s);
          s2 \<leftarrow> (if n_nodeClass node = UA_NODECLASS_OBJECT then
                  let bd = \<lparr>bd_nodeId = i, browseDirection = UA_BROWSEDIRECTION_INVERSE, bd_referenceTypeId = UA_NODEID_NUMERIC 0 UA_NS0ID_HASSUBTYPE,
                        bd_includeSubtypes = True, nodeClassMask = node_class_code UA_NODECLASS_OBJECTTYPE, resultMask = 0\<rparr>
                  in do {
                    (result, admin) \<leftarrow> Service_Browse_single (nm_mem E) (nm_guid E) (nm_store s1) (nm_admin s1) None bd 0xFFFFFFFF;
                    call_destructors E i (br_references result) (s1\<lparr>nm_admin := admin\<rparr>) }
                else Some s1);
          if freed_in (nm_freed s2) (n_nodeId node) then None
          else do {
            (r, ns) \<leftarrow> UA_NodeStore_remove (nm_mem E) (nm_store s2) i;
            Some (r, s2\<lparr>nm_store := ns, instanceHandles := filter (\<lambda>h. \<not> UA_NodeId_equal (fst h) i) (instanceHandles s2)\<rparr>) } }) }"

fun delete_nodes :: "('h, 'e) nm_env \<Rightarrow> ('h, 'e) nm \<Rightarrow> (UA_NodeId \<times> bool) list \<Rightarrow> (UA_StatusCode list \<times> ('h, 'e) nm) option" where
  "delete_nodes E s [] = Some ([], s)"
| "delete_nodes E s (item # items) = do {
     (r, s1) \<leftarrow> Service_DeleteNodes_single E s (fst item) (snd item);
     (rs, s2) \<leftarrow> delete_nodes E s1 items;
     Some (r # rs, s2) }"

definition Service_DeleteNodes ::
  "('h, 'e) nm_env \<Rightarrow> ('h, 'e) nm \<Rightarrow> (UA_NodeId \<times> bool) list \<Rightarrow> (UA_StatusCode \<times> UA_StatusCode list \<times> ('h, 'e) nm) option" where
  "Service_DeleteNodes E s items =
     (if items = [] then Some (UA_STATUSCODE_BADNOTHINGTODO, [], s)
      else if \<not> nm_mem E (4 * length items) then Some (UA_STATUSCODE_BADOUTOFMEMORY, [], s)
      else do { (rs, s1) \<leftarrow> delete_nodes E s items; Some (UA_STATUSCODE_GOOD, rs, s1) })"

section \<open>New nodes\<close>

fun node_bytes :: "UA_NodeClass \<Rightarrow> nat" where
  "node_bytes UA_NODECLASS_OBJECT = 160"
| "node_bytes UA_NODECLASS_VARIABLE = 248"
| "node_bytes UA_NODECLASS_OBJECTTYPE = 168"
| "node_bytes UA_NODECLASS_VARIABLETYPE = 232"
| "node_bytes UA_NODECLASS_REFERENCETYPE = 184"
| "node_bytes UA_NODECLASS_METHOD = 168"
| "node_bytes _ = 152"

definition copyStandardAttributes ::
  "(nat \<Rightarrow> bool) \<Rightarrow> UA_NodeClass \<Rightarrow> UA_AddNodesItem \<Rightarrow> UA_NodeAttributes \<Rightarrow> node_part \<Rightarrow> UA_StatusCode \<times> UA_AnyNode" where
  "copyStandardAttributes mem c item attr p =
     (let (r1, i) = NodeId_copy mem (nodeId (an_requestedNewNodeId item));
          (r2, b) = QualifiedName_copy mem (an_browseName item);
          (r3, d) = LocalizedText_copy mem (a_displayName attr);
          (r4, e) = LocalizedText_copy mem (a_description attr)
      in (r1 OR r2 OR r3 OR r4,
          \<lparr>n_nodeId = i, n_nodeClass = c, n_browseName = b, n_displayName = d, n_description = e, n_writeMask = a_writeMask attr,
           n_userWriteMask = a_userWriteMask attr, n_references = [], part = p\<rparr>))"

text \<open>A node of the given class with its attributes; \<open>None\<close> when something cannot be allocated.\<close>

definition new_node :: "(nat \<Rightarrow> bool) \<Rightarrow> UA_NodeClass \<Rightarrow> UA_AddNodesItem \<Rightarrow> UA_NodeAttributes \<Rightarrow> UA_StatusCode \<Rightarrow> node_part \<Rightarrow> UA_AnyNode option" where
  "new_node mem c item attr r p =
     (if \<not> mem (node_bytes c) then None
      else let (r1, node) = copyStandardAttributes mem c item attr p in if r1 OR r \<noteq> UA_STATUSCODE_GOOD then None else Some node)"

definition UA_Variant_copy :: "(nat \<Rightarrow> bool) \<Rightarrow> variant \<Rightarrow> (UA_StatusCode \<times> variant) option" where
  "UA_Variant_copy mem v = do { (r, c) \<leftarrow> UA_copy mem UA_TYPES_VARIANT (variant_value v); Some (r, value_variant c) }"

definition variableNodeFromAttributes ::
  "(nat \<Rightarrow> bool) \<Rightarrow> UA_AddNodesItem \<Rightarrow> UA_NodeAttributes \<Rightarrow> variant \<Rightarrow> UA_Int32 \<Rightarrow> UA_Byte \<Rightarrow> UA_Byte \<Rightarrow> UA_UInt64 \<Rightarrow> bool \<Rightarrow>
   UA_AnyNode option option" where
  "variableNodeFromAttributes mem item attr v rank al ual msi his = do {
     (r, v1) \<leftarrow> UA_Variant_copy mem v;
     Some (new_node mem UA_NODECLASS_VARIABLE item attr r (VariablePart rank (UA_VALUESOURCE_VARIANT v1 False False) al ual msi his)) }"

definition objectNodeFromAttributes :: "(nat \<Rightarrow> bool) \<Rightarrow> UA_AddNodesItem \<Rightarrow> UA_NodeAttributes \<Rightarrow> UA_Byte \<Rightarrow> UA_AnyNode option" where
  "objectNodeFromAttributes mem item attr notifier = new_node mem UA_NODECLASS_OBJECT item attr UA_STATUSCODE_GOOD (ObjectPart notifier)"

definition referenceTypeNodeFromAttributes ::
  "(nat \<Rightarrow> bool) \<Rightarrow> UA_AddNodesItem \<Rightarrow> UA_NodeAttributes \<Rightarrow> bool \<Rightarrow> bool \<Rightarrow> UA_LocalizedText \<Rightarrow> UA_AnyNode option" where
  "referenceTypeNodeFromAttributes mem item attr abst smt inm =
     (let (r, t) = LocalizedText_copy mem inm
      in new_node mem UA_NODECLASS_REFERENCETYPE item attr r (ReferenceTypePart abst smt t))"

definition objectTypeNodeFromAttributes :: "(nat \<Rightarrow> bool) \<Rightarrow> UA_AddNodesItem \<Rightarrow> UA_NodeAttributes \<Rightarrow> bool \<Rightarrow> UA_AnyNode option" where
  "objectTypeNodeFromAttributes mem item attr abst = new_node mem UA_NODECLASS_OBJECTTYPE item attr UA_STATUSCODE_GOOD (ObjectTypePart abst)"

definition viewNodeFromAttributes :: "(nat \<Rightarrow> bool) \<Rightarrow> UA_AddNodesItem \<Rightarrow> UA_NodeAttributes \<Rightarrow> bool \<Rightarrow> UA_Byte \<Rightarrow> UA_AnyNode option" where
  "viewNodeFromAttributes mem item attr loops notifier = new_node mem UA_NODECLASS_VIEW item attr UA_STATUSCODE_GOOD (ViewPart notifier loops)"

definition dataTypeNodeFromAttributes :: "(nat \<Rightarrow> bool) \<Rightarrow> UA_AddNodesItem \<Rightarrow> UA_NodeAttributes \<Rightarrow> bool \<Rightarrow> UA_AnyNode option" where
  "dataTypeNodeFromAttributes mem item attr abst = new_node mem UA_NODECLASS_DATATYPE item attr UA_STATUSCODE_GOOD (DataTypePart abst)"

text \<open>
  The switch of \<open>Service_AddNodes_single\<close>: an error, or what the function of the class returns. For a variable
  type the code asks for attributes of an object type and reads them as the larger attributes of a variable type: \<open>None\<close>.
\<close>

definition node_from_item :: "(nat \<Rightarrow> bool) \<Rightarrow> UA_AddNodesItem \<Rightarrow> (UA_StatusCode + UA_AnyNode option) option" where
  "node_from_item mem item =
     (case an_nodeAttributes item of
        None \<Rightarrow> Some (Inl UA_STATUSCODE_BADNODEATTRIBUTESINVALID)
      | Some attrs \<Rightarrow>
          (case an_nodeClass item of
             UA_NODECLASS_OBJECT \<Rightarrow>
               (case attrs of UA_ObjectAttributes a notifier \<Rightarrow> Some (Inr (objectNodeFromAttributes mem item a notifier))
                | _ \<Rightarrow> Some (Inl UA_STATUSCODE_BADNODEATTRIBUTESINVALID))
           | UA_NODECLASS_VARIABLE \<Rightarrow>
               (case attrs of UA_VariableAttributes a v rank al ual msi his \<Rightarrow> map_option Inr (variableNodeFromAttributes mem item a v rank al ual msi his)
                | _ \<Rightarrow> Some (Inl UA_STATUSCODE_BADNODEATTRIBUTESINVALID))
           | UA_NODECLASS_OBJECTTYPE \<Rightarrow>
               (case attrs of UA_ObjectTypeAttributes a abst \<Rightarrow> Some (Inr (objectTypeNodeFromAttributes mem item a abst))
                | _ \<Rightarrow> Some (Inl UA_STATUSCODE_BADNODEATTRIBUTESINVALID))
           | UA_NODECLASS_VARIABLETYPE \<Rightarrow>
               (case attrs of UA_ObjectTypeAttributes a abst \<Rightarrow> (if mem (node_bytes UA_NODECLASS_VARIABLETYPE) then None else Some (Inr None))
                | _ \<Rightarrow> Some (Inl UA_STATUSCODE_BADNODEATTRIBUTESINVALID))
           | UA_NODECLASS_REFERENCETYPE \<Rightarrow>
               (case attrs of UA_ReferenceTypeAttributes a abst smt inm \<Rightarrow> Some (Inr (referenceTypeNodeFromAttributes mem item a abst smt inm))
                | _ \<Rightarrow> Some (Inl UA_STATUSCODE_BADNODEATTRIBUTESINVALID))
           | UA_NODECLASS_DATATYPE \<Rightarrow>
               (case attrs of UA_DataTypeAttributes a abst \<Rightarrow> Some (Inr (dataTypeNodeFromAttributes mem item a abst))
                | _ \<Rightarrow> Some (Inl UA_STATUSCODE_BADNODEATTRIBUTESINVALID))
           | UA_NODECLASS_VIEW \<Rightarrow>
               (case attrs of UA_ViewAttributes a loops notifier \<Rightarrow> Some (Inr (viewNodeFromAttributes mem item a loops notifier))
                | _ \<Rightarrow> Some (Inl UA_STATUSCODE_BADNODEATTRIBUTESINVALID))
           | _ \<Rightarrow> Some (Inl UA_STATUSCODE_BADNODECLASSINVALID)))"

text \<open>The reference from the new node to its parent; a failure of it is not reported.\<close>

definition link_to_parent :: "('h, 'e) nm_env \<Rightarrow> ('h, 'e) nm \<Rightarrow> UA_NodeId \<Rightarrow> UA_NodeId \<Rightarrow> UA_NodeId \<Rightarrow> ('h, 'e) nm option" where
  "link_to_parent E s i parent ref = do {
     (r, s1) \<leftarrow> Service_AddReferences_single (nm_mem E) s
       (UA_AddReferencesItem_init\<lparr>ar_sourceNodeId := i, ar_referenceTypeId := ref, ar_isForward := False,
          ar_targetNodeId := UA_EXPANDEDNODEID_NULL\<lparr>nodeId := parent\<rparr>\<rparr>);
     Some s1 }"

definition UA_Server_addExistingNode ::
  "('h, 'e) nm_env \<Rightarrow> ('h, 'e) nm \<Rightarrow> UA_AnyNode \<Rightarrow> UA_NodeId \<Rightarrow> UA_NodeId \<Rightarrow> (UA_AddNodesResult \<times> ('h, 'e) nm) option" where
  "UA_Server_addExistingNode E s node parent ref =
     (let fail = \<lambda>r. UA_AddNodesResult_init\<lparr>anr_statusCode := r\<rparr> in
      if unat (namespaceIndex (n_nodeId node)) \<ge> namespacesSize E then Some (fail UA_STATUSCODE_BADNODEIDINVALID, s)
      else do {
        parentNode \<leftarrow> get_node (nm_store s) parent;
        if parentNode = None then Some (fail UA_STATUSCODE_BADPARENTNODEIDINVALID, s)
        else do {
          found \<leftarrow> get_node (nm_store s) ref;
          (case found of
             None \<Rightarrow> Some (fail UA_STATUSCODE_BADREFERENCETYPEIDINVALID, s)
           | Some referenceType \<Rightarrow>
               if n_nodeClass referenceType \<noteq> UA_NODECLASS_REFERENCETYPE then Some (fail UA_STATUSCODE_BADREFERENCETYPEIDINVALID, s)
               else do {
                 abst \<leftarrow> isAbstract_at (part referenceType);
                 if abst then Some (fail UA_STATUSCODE_BADREFERENCENOTALLOWED, s)
                 else let null = UA_NodeId_isNull ((n_nodeId node)\<lparr>namespaceIndex := 0\<rparr>);
                          (rc, copied) = (if null then (UA_STATUSCODE_GOOD, UA_NODEID_NULL) else NodeId_copy (nm_mem E) (n_nodeId node))
                   in if rc \<noteq> UA_STATUSCODE_GOOD then Some (fail UA_STATUSCODE_BADOUTOFMEMORY, s)
                   else do {
                     (r, slot, ns) \<leftarrow> UA_NodeStore_insert (nm_mem E) (nm_store s) node;
                     let s1 = s\<lparr>nm_store := ns\<rparr>;
                     (case slot of
                        None \<Rightarrow> Some (fail (if null then UA_STATUSCODE_BADOUTOFMEMORY else UA_STATUSCODE_BADNODEIDEXISTS), s1)
                      | Some entry \<Rightarrow> do {
                          e \<leftarrow> entry_at ns entry;
                          managed \<leftarrow> e;
                          s2 \<leftarrow> link_to_parent E s1 (n_nodeId managed) parent ref;
                          Some (UA_AddNodesResult_init\<lparr>addedNodeId := if null then n_nodeId managed else copied\<rparr>, s2) }) } }) } })"

text \<open>\<open>Service_AddNodes_single\<close> up to the instantiation.\<close>

definition add_untyped :: "('h, 'e) nm_env \<Rightarrow> ('h, 'e) nm \<Rightarrow> UA_AddNodesItem \<Rightarrow> (UA_AddNodesResult \<times> ('h, 'e) nm) option" where
  "add_untyped E s item = do {
     created \<leftarrow> node_from_item (nm_mem E) item;
     (case created of
        Inl r \<Rightarrow> Some (UA_AddNodesResult_init\<lparr>anr_statusCode := r\<rparr>, s)
      | Inr None \<Rightarrow> Some (UA_AddNodesResult_init\<lparr>anr_statusCode := UA_STATUSCODE_BADOUTOFMEMORY\<rparr>, s)
      | Inr (Some node) \<Rightarrow> UA_Server_addExistingNode E s node (nodeId (an_parentNodeId item)) (an_referenceTypeId item)) }"

section \<open>Instantiation\<close>

text \<open>The pointer to a node after the store has changed.\<close>

definition still_at :: "('h, 'e) nm \<Rightarrow> ('h, 'e) nm \<Rightarrow> UA_NodeId \<Rightarrow> UA_AnyNode option" where
  "still_at s0 s i =
     (if sizePrimeIndex (nm_store s) \<noteq> sizePrimeIndex (nm_store s0) then None else do { found \<leftarrow> get_node (nm_store s) i; found })"

text \<open>
  The new node is instantiated for the type definitions of the original \<open>i\<close>, whose references stay
  as they are: only new nodes, types and methods get references on the way.
\<close>

fun instantiate_types ::
  "(('h, 'e) nm \<Rightarrow> UA_NodeId \<Rightarrow> UA_NodeId \<Rightarrow> (UA_StatusCode \<times> ('h, 'e) nm) option) \<Rightarrow> ('h, 'e) nm \<Rightarrow> UA_NodeId \<Rightarrow> UA_NodeId \<Rightarrow>
   UA_ReferenceNode list \<Rightarrow> ('h, 'e) nm \<Rightarrow> ('h, 'e) nm option" where
  "instantiate_types inst s0 i new [] s = Some s"
| "instantiate_types inst s0 i new (rn # rns) s = do {
     node \<leftarrow> still_at s0 s i;
     if isInverse rn \<or> \<not> UA_NodeId_equal (referenceTypeId rn) (UA_NODEID_NUMERIC 0 UA_NS0ID_HASTYPEDEFINITION)
     then instantiate_types inst s0 i new rns s
     else do { (r, s1) \<leftarrow> inst s new (nodeId (targetId rn)); instantiate_types inst s0 i new rns s1 } }"

text \<open>A failing copy leaves its member empty; only the failures of adding the node count.\<close>

definition copied_item ::
  "(nat \<Rightarrow> bool) \<Rightarrow> UA_AnyNode \<Rightarrow> UA_NodeClass \<Rightarrow> (UA_NodeAttributes \<Rightarrow> node_attributes) \<Rightarrow> UA_NodeId \<Rightarrow> UA_NodeId \<Rightarrow> UA_AddNodesItem" where
  "copied_item mem node c attributes referenceType parent =
     \<lparr>an_parentNodeId = UA_EXPANDEDNODEID_NULL\<lparr>nodeId := snd (NodeId_copy mem parent)\<rparr>,
      an_referenceTypeId = snd (NodeId_copy mem referenceType), an_requestedNewNodeId = UA_EXPANDEDNODEID_NULL,
      an_browseName = snd (QualifiedName_copy mem (n_browseName node)), an_nodeClass = c,
      an_nodeAttributes = Some (attributes \<lparr>a_displayName = snd (LocalizedText_copy mem (n_displayName node)),
        a_description = snd (LocalizedText_copy mem (n_description node)), a_writeMask = n_writeMask node, a_userWriteMask = n_userWriteMask node\<rparr>),
      an_typeDefinition = UA_EXPANDEDNODEID_NULL\<rparr>"

definition copyExistingVariable ::
  "(('h, 'e) nm \<Rightarrow> UA_NodeId \<Rightarrow> UA_NodeId \<Rightarrow> (UA_StatusCode \<times> ('h, 'e) nm) option) \<Rightarrow> ('h, 'e) nm_env \<Rightarrow> ('h, 'e) nm \<Rightarrow> UA_NodeId \<Rightarrow>
   UA_NodeId \<Rightarrow> UA_NodeId \<Rightarrow> (UA_StatusCode \<times> ('h, 'e) nm) option" where
  "copyExistingVariable inst E s variable referenceType parent = do {
     found \<leftarrow> get_node (nm_store s) variable;
     (case found of
        None \<Rightarrow> Some (UA_STATUSCODE_BADNODEIDINVALID, s)
      | Some node \<Rightarrow>
          if n_nodeClass node \<noteq> UA_NODECLASS_VARIABLE then Some (UA_STATUSCODE_BADNODECLASSINVALID, s)
          else (case part node of
             VariablePart rank (UA_VALUESOURCE_VARIANT v onR onW) al ual msi his \<Rightarrow>
               do {
                 (rc, v1) \<leftarrow> UA_Variant_copy (nm_mem E) v;
                 let item = copied_item (nm_mem E) node UA_NODECLASS_VARIABLE (\<lambda>a. UA_VariableAttributes a v1 0 al ual msi his) referenceType parent;
                 (res, s1) \<leftarrow> add_untyped E s item;
                 node1 \<leftarrow> still_at s s1 variable;
                 s2 \<leftarrow> instantiate_types inst s variable (addedNodeId res) (n_references node1) s1;
                 Some (UA_STATUSCODE_GOOD, s2) }
           | _ \<Rightarrow> None)) }"

definition copyExistingObject ::
  "(('h, 'e) nm \<Rightarrow> UA_NodeId \<Rightarrow> UA_NodeId \<Rightarrow> (UA_StatusCode \<times> ('h, 'e) nm) option) \<Rightarrow> ('h, 'e) nm_env \<Rightarrow> ('h, 'e) nm \<Rightarrow> UA_NodeId \<Rightarrow>
   UA_NodeId \<Rightarrow> UA_NodeId \<Rightarrow> (UA_StatusCode \<times> ('h, 'e) nm) option" where
  "copyExistingObject inst E s variable referenceType parent = do {
     found \<leftarrow> get_node (nm_store s) variable;
     (case found of
        None \<Rightarrow> Some (UA_STATUSCODE_BADNODEIDINVALID, s)
      | Some node \<Rightarrow>
          if n_nodeClass node \<noteq> UA_NODECLASS_OBJECT then Some (UA_STATUSCODE_BADNODECLASSINVALID, s)
          else do {
            notifier \<leftarrow> eventNotifier_at (part node);
            let item = copied_item (nm_mem E) node UA_NODECLASS_OBJECT (\<lambda>a. UA_ObjectAttributes a notifier) referenceType parent;
            (res, s1) \<leftarrow> add_untyped E s item;
            node1 \<leftarrow> still_at s s1 variable;
            s2 \<leftarrow> instantiate_types inst s variable (addedNodeId res) (n_references node1) s1;
            Some (UA_STATUSCODE_GOOD, s2) }) }"

definition browse_children :: "UA_NodeId \<Rightarrow> UA_UInt32 \<Rightarrow> UA_UInt32 \<Rightarrow> UA_BrowseDescription" where
  "browse_children type ref classes = \<lparr>bd_nodeId = type, browseDirection = UA_BROWSEDIRECTION_FORWARD, bd_referenceTypeId = UA_NODEID_NUMERIC 0 ref,
     bd_includeSubtypes = True, nodeClassMask = classes, resultMask = UA_BROWSERESULTMASK_REFERENCETYPEID OR UA_BROWSERESULTMASK_NODECLASS\<rparr>"

definition add_type_definition :: "('h, 'e) nm_env \<Rightarrow> ('h, 'e) nm \<Rightarrow> UA_NodeId \<Rightarrow> UA_NodeId \<Rightarrow> ('h, 'e) nm option" where
  "add_type_definition E s i type = do {
     (r, s1) \<leftarrow> Service_AddReferences_single (nm_mem E) s
       (UA_AddReferencesItem_init\<lparr>ar_sourceNodeId := i, ar_referenceTypeId := UA_NODEID_NUMERIC 0 UA_NS0ID_HASTYPEDEFINITION,
          ar_isForward := True, ar_targetNodeId := UA_EXPANDEDNODEID_NULL\<lparr>nodeId := type\<rparr>\<rparr>);
     Some s1 }"

fun copy_properties ::
  "(('h, 'e) nm \<Rightarrow> UA_NodeId \<Rightarrow> UA_NodeId \<Rightarrow> (UA_StatusCode \<times> ('h, 'e) nm) option) \<Rightarrow> ('h, 'e) nm_env \<Rightarrow> UA_NodeId \<Rightarrow>
   UA_ReferenceDescription list \<Rightarrow> ('h, 'e) nm \<Rightarrow> ('h, 'e) nm option" where
  "copy_properties inst E i [] s = Some s"
| "copy_properties inst E i (rd # rds) s = do {
     (r, s1) \<leftarrow> copyExistingVariable inst E s (nodeId (rd_nodeId rd)) (rd_referenceTypeId rd) i;
     copy_properties inst E i rds s1 }"

primrec instantiateVariableNode ::
  "nat \<Rightarrow> ('h, 'e) nm_env \<Rightarrow> ('h, 'e) nm \<Rightarrow> UA_NodeId \<Rightarrow> UA_NodeId \<Rightarrow> (UA_StatusCode \<times> ('h, 'e) nm) option" where
  "instantiateVariableNode 0 E s i tid = None"
| "instantiateVariableNode (Suc depth) E s i tid = do {
     found \<leftarrow> get_node (nm_store s) tid;
     (case found of
        None \<Rightarrow> Some (UA_STATUSCODE_BADNODEIDINVALID, s)
      | Some type \<Rightarrow>
          if n_nodeClass type \<noteq> UA_NODECLASS_VARIABLETYPE then Some (UA_STATUSCODE_BADNODECLASSINVALID, s)
          else do {
            (result, session) \<leftarrow> Service_Browse_single (nm_mem E) (nm_guid E) (nm_store s) (nm_session s) None
              (browse_children tid UA_NS0ID_HASPROPERTY (node_class_code UA_NODECLASS_VARIABLE)) 100;
            s1 \<leftarrow> copy_properties (instantiateVariableNode depth E) E i (br_references result) (s\<lparr>nm_session := session\<rparr>);
            s2 \<leftarrow> add_type_definition E s1 i tid;
            Some (UA_STATUSCODE_GOOD, s2) }) }"

fun copy_children ::
  "(('h, 'e) nm \<Rightarrow> UA_NodeId \<Rightarrow> UA_NodeId \<Rightarrow> (UA_StatusCode \<times> ('h, 'e) nm) option) \<Rightarrow>
   (('h, 'e) nm \<Rightarrow> UA_NodeId \<Rightarrow> UA_NodeId \<Rightarrow> (UA_StatusCode \<times> ('h, 'e) nm) option) \<Rightarrow> ('h, 'e) nm_env \<Rightarrow> UA_NodeId \<Rightarrow>
   UA_ReferenceDescription list \<Rightarrow> ('h, 'e) nm \<Rightarrow> ('h, 'e) nm option" where
  "copy_children instV instO E i [] s = Some s"
| "copy_children instV instO E i (rd # rds) s = do {
     (r, s1) \<leftarrow>
       (if rd_nodeClass rd = UA_NODECLASS_METHOD then
          Service_AddReferences_single (nm_mem E) s (UA_AddReferencesItem_init\<lparr>ar_sourceNodeId := i,
            ar_referenceTypeId := rd_referenceTypeId rd, ar_isForward := True, ar_targetNodeId := rd_nodeId rd\<rparr>)
        else if rd_nodeClass rd = UA_NODECLASS_VARIABLE then copyExistingVariable instV E s (nodeId (rd_nodeId rd)) (rd_referenceTypeId rd) i
        else if rd_nodeClass rd = UA_NODECLASS_OBJECT then copyExistingObject instO E s (nodeId (rd_nodeId rd)) (rd_referenceTypeId rd) i
        else Some (UA_STATUSCODE_GOOD, s));
     copy_children instV instO E i rds s1 }"

definition construct :: "('h, 'e) nm_env \<Rightarrow> ('h, 'e) nm \<Rightarrow> UA_NodeId \<Rightarrow> UA_NodeId \<Rightarrow> ('h, 'e) nm option" where
  "construct E s i type =
     (case olm_constructor E type of
        None \<Rightarrow> Some s
      | Some c \<Rightarrow> do {
          let (h, e) = c i (nm_app s);
          found \<leftarrow> get_node (nm_store s) i;
          Some (case found of
                  Some node \<Rightarrow> (if n_nodeClass node = UA_NODECLASS_OBJECT
                    then s\<lparr>nm_app := e, instanceHandles := (i, h) # filter (\<lambda>x. \<not> UA_NodeId_equal (fst x) i) (instanceHandles s)\<rparr>
                    else s\<lparr>nm_app := e\<rparr>)
                | None \<Rightarrow> s\<lparr>nm_app := e\<rparr>) })"

primrec instantiateObjectNode ::
  "nat \<Rightarrow> ('h, 'e) nm_env \<Rightarrow> ('h, 'e) nm \<Rightarrow> UA_NodeId \<Rightarrow> UA_NodeId \<Rightarrow> (UA_StatusCode \<times> ('h, 'e) nm) option" where
  "instantiateObjectNode 0 E s i tid = None"
| "instantiateObjectNode (Suc depth) E s i tid = do {
     found \<leftarrow> get_node (nm_store s) tid;
     (case found of
        None \<Rightarrow> Some (UA_STATUSCODE_BADNODEIDINVALID, s)
      | Some type \<Rightarrow>
          if n_nodeClass type \<noteq> UA_NODECLASS_OBJECTTYPE then Some (UA_STATUSCODE_BADNODECLASSINVALID, s)
          else do {
            (result, session) \<leftarrow> Service_Browse_single (nm_mem E) (nm_guid E) (nm_store s) (nm_session s) None
              (browse_children tid UA_NS0ID_AGGREGATES
                (node_class_code UA_NODECLASS_OBJECT OR node_class_code UA_NODECLASS_VARIABLE OR node_class_code UA_NODECLASS_METHOD)) 100;
            s1 \<leftarrow> copy_children (instantiateVariableNode depth E) (instantiateObjectNode depth E) E i (br_references result) (s\<lparr>nm_session := session\<rparr>);
            s2 \<leftarrow> add_type_definition E s1 i tid;
            type1 \<leftarrow> still_at s s2 tid;
            s3 \<leftarrow> construct E s2 i (n_nodeId type1);
            Some (UA_STATUSCODE_GOOD, s3) }) }"

section \<open>The service\<close>

definition Service_AddNodes_single ::
  "nat \<Rightarrow> ('h, 'e) nm_env \<Rightarrow> ('h, 'e) nm \<Rightarrow> UA_AddNodesItem \<Rightarrow> (UA_AddNodesResult \<times> ('h, 'e) nm) option" where
  "Service_AddNodes_single depth E s item = do {
     (result, s1) \<leftarrow> add_untyped E s item;
     if anr_statusCode result \<noteq> UA_STATUSCODE_GOOD then Some (result, s1)
     else do {
       (r, s2) \<leftarrow>
         (if UA_NodeId_isNull (nodeId (an_typeDefinition item)) then Some (UA_STATUSCODE_GOOD, s1)
          else if an_nodeClass item = UA_NODECLASS_OBJECT then instantiateObjectNode depth E s1 (addedNodeId result) (nodeId (an_typeDefinition item))
          else if an_nodeClass item = UA_NODECLASS_VARIABLE then instantiateVariableNode depth E s1 (addedNodeId result) (nodeId (an_typeDefinition item))
          else Some (UA_STATUSCODE_GOOD, s1));
       if r \<noteq> UA_STATUSCODE_GOOD then do {
         (rd, s3) \<leftarrow> Service_DeleteNodes_single E s2 (addedNodeId result) True;
         Some (result\<lparr>anr_statusCode := r\<rparr>, s3) }
       else Some (result, s2) } }"

fun add_nodes :: "nat \<Rightarrow> ('h, 'e) nm_env \<Rightarrow> ('h, 'e) nm \<Rightarrow> UA_AddNodesItem list \<Rightarrow> (UA_AddNodesResult list \<times> ('h, 'e) nm) option" where
  "add_nodes depth E s [] = Some ([], s)"
| "add_nodes depth E s (item # items) = do {
     (r, s1) \<leftarrow> Service_AddNodes_single depth E s item;
     (rs, s2) \<leftarrow> add_nodes depth E s1 items;
     Some (r # rs, s2) }"

definition Service_AddNodes ::
  "nat \<Rightarrow> ('h, 'e) nm_env \<Rightarrow> ('h, 'e) nm \<Rightarrow> UA_AddNodesItem list \<Rightarrow> (UA_StatusCode \<times> UA_AddNodesResult list \<times> ('h, 'e) nm) option" where
  "Service_AddNodes depth E s items =
     (if items = [] then Some (UA_STATUSCODE_BADNOTHINGTODO, [], s)
      else if \<not> UA_Array_new (nm_mem E) (length items) UA_TYPES_ADDNODESRESULT then Some (UA_STATUSCODE_BADOUTOFMEMORY, [], s)
      else do { (rs, s1) \<leftarrow> add_nodes depth E s items; Some (UA_STATUSCODE_GOOD, rs, s1) })"

end
