(* ===== verification/Ua_NodeManagement_Theorems.thy ===== *)
theory Ua_NodeManagement_Theorems
  imports Ua_NodeManagement Ua_Attributes_Laws
begin

text \<open>
  The properties of node management: what adding a reference or a node changes in the address space, that references
  stay mutual, and where deleting leaves them one-sided.
\<close>

section \<open>Edits of the address space\<close>

definition space_ok :: "node_store \<Rightarrow> bool" where
  "space_ok ns \<longleftrightarrow> ns_inv ns \<and> (\<forall>n\<in>stored ns. n_nodeClass n \<noteq> UA_NODECLASS_UNSPECIFIED)"

lemma space_ok_class: "space_ok ns \<Longrightarrow> hashable i \<Longrightarrow> node_of ns i = Some n \<Longrightarrow> n_nodeClass n \<noteq> UA_NODECLASS_UNSPECIFIED"
  using node_of_stored by (auto simp: space_ok_def)

lemma node_of_cong:
  assumes "ns_inv ns" "UA_NodeId_equal i j" "hashable i" "hashable j"
  shows "node_of ns i = node_of ns j"
  using node_of_stored [OF assms(1), of i] node_of_stored [OF assms(1), of j] assms(2-4)
  by (cases "node_of ns i"; cases "node_of ns j") (auto simp: UA_NodeId_equal_norm)

lemma nm_edit_absent:
  assumes "space_ok (nm_store s)" "hashable i" "node_of (nm_store s) i = None"
  shows "nm_edit s i f = Some (UA_STATUSCODE_BADNODEIDUNKNOWN, s)"
  using get_stored [of "nm_store s" i] assms
  by (auto simp: space_ok_def nm_edit_def UA_Server_editNode_def node_of_def split: option.splits)

lemma nm_edit_found:
  assumes "space_ok (nm_store s)" "hashable i" "node_of (nm_store s) i = Some n"
    and "f n (nm_freed s) = Some (r, n', fr)" "n_nodeId n' = n_nodeId n" "n_nodeClass n' = n_nodeClass n"
  shows "\<exists>ns'. nm_edit s i f = Some (r, s\<lparr>nm_store := ns', nm_freed := fr\<rparr>) \<and> space_ok ns' \<and>
    (\<forall>j. hashable j \<longrightarrow> node_of ns' j = (if UA_NodeId_equal i j then Some n' else node_of (nm_store s) j))"
proof -
  have inv: "ns_inv (nm_store s)" using assms(1) by (simp add: space_ok_def)
  have c: "n_nodeClass n' \<noteq> UA_NODECLASS_UNSPECIFIED" using space_ok_class [OF assms(1-3)] assms(6) by simp
  from edit_node [where f = f and e = "nm_freed s", OF inv assms(2-5) c] obtain ns' where
    e: "UA_Server_editNode (nm_store s) i f (nm_freed s) = Some (r, ns', fr)" "ns_inv ns'"
    and look: "\<forall>j. hashable j \<longrightarrow> node_of ns' j = (if UA_NodeId_equal i j then Some n' else node_of (nm_store s) j)" by blast
  have "n_nodeClass m \<noteq> UA_NODECLASS_UNSPECIFIED" if m: "m \<in> stored ns'" for m
  proof -
    have h: "hashable (n_nodeId m)" by (rule inv_hashable [OF e(2) m])
    have "node_of ns' (n_nodeId m) = Some m" using node_of_stored [OF e(2) h, of m] m by (simp add: UA_NodeId_equal_refl)
    then show ?thesis using look h c space_ok_class [OF assms(1) h] by (auto split: if_splits)
  qed
  then show ?thesis using e look by (auto simp: nm_edit_def space_ok_def)
qed

text \<open>A reference as it is stored.\<close>

definition stored_ref :: "(nat \<Rightarrow> bool) \<Rightarrow> UA_AddReferencesItem \<Rightarrow> UA_ReferenceNode" where
  "stored_ref mem item = \<lparr>referenceTypeId = snd (NodeId_copy mem (ar_referenceTypeId item)), isInverse = \<not> ar_isForward item,
     targetId = snd (ExpandedNodeId_copy mem (ar_targetNodeId item))\<rparr>"

abbreviation add_ref :: "UA_ReferenceNode \<Rightarrow> UA_AnyNode \<Rightarrow> UA_AnyNode" where
  "add_ref r n \<equiv> n\<lparr>n_references := n_references n @ [r]\<rparr>"

lemma addOneWay_cases:
  assumes "addOneWayReference mem item n fr = Some (r, n', fr')"
  shows "fr' = fr \<and> (r = UA_STATUSCODE_GOOD \<longrightarrow> n' = add_ref (stored_ref mem item) n \<and> fst (NodeId_copy mem (ar_referenceTypeId item)) = UA_STATUSCODE_GOOD \<and>
      fst (ExpandedNodeId_copy mem (ar_targetNodeId item)) = UA_STATUSCODE_GOOD) \<and> (r \<noteq> UA_STATUSCODE_GOOD \<longrightarrow> n' = n)"
  using assms by (auto simp: addOneWayReference_def stored_ref_def Let_def bad_codes_not_good split: prod.splits if_splits)

lemma add_one_way_good:
  assumes ok: "space_ok (nm_store s)" "hashable i" and e: "nm_edit s i (addOneWayReference mem item) = Some (UA_STATUSCODE_GOOD, s1)"
  obtains n where "node_of (nm_store s) i = Some n" "space_ok (nm_store s1)"
    "\<And>j. hashable j \<Longrightarrow> node_of (nm_store s1) j = (if UA_NodeId_equal i j then Some (add_ref (stored_ref mem item) n) else node_of (nm_store s) j)"
    "fst (NodeId_copy mem (ar_referenceTypeId item)) = UA_STATUSCODE_GOOD" "fst (ExpandedNodeId_copy mem (ar_targetNodeId item)) = UA_STATUSCODE_GOOD"
proof -
  have "node_of (nm_store s) i \<noteq> None"
    using nm_edit_absent [OF ok, of "addOneWayReference mem item"] e by (auto simp: status_defs)
  then obtain n where n: "node_of (nm_store s) i = Some n" by blast
  have "addOneWayReference mem item n (nm_freed s) \<noteq> None"
  proof
    assume "addOneWayReference mem item n (nm_freed s) = None"
    then have "nm_edit s i (addOneWayReference mem item) = None"
      using n by (auto simp: nm_edit_def UA_Server_editNode_def node_of_def split: option.splits)
    with e show False by simp
  qed
  then obtain r n' fr where a: "addOneWayReference mem item n (nm_freed s) = Some (r, n', fr)" by auto
  note c = addOneWay_cases [OF a]
  have "n_nodeId n' = n_nodeId n" "n_nodeClass n' = n_nodeClass n" using c by (cases "r = UA_STATUSCODE_GOOD"; auto)+
  from nm_edit_found [where f = "addOneWayReference mem item", OF ok n a this] obtain ns' where
    f: "nm_edit s i (addOneWayReference mem item) = Some (r, s\<lparr>nm_store := ns', nm_freed := fr\<rparr>)" "space_ok ns'"
      "\<forall>j. hashable j \<longrightarrow> node_of ns' j = (if UA_NodeId_equal i j then Some n' else node_of (nm_store s) j)" by blast
  show thesis using that [OF n] f c e by auto
qed

lemma add_one_way_step:
  assumes ok: "space_ok (nm_store s)" "hashable i" and n: "node_of (nm_store s) i = Some n" and m: "\<forall>k. mem k"
    and fr: "\<not> freed_in (nm_freed s) (n_nodeId n)"
    and p: "plain_NodeId (ar_referenceTypeId item)" "plain_NodeId (nodeId (ar_targetNodeId item))" "plain_array 1 (namespaceUri (ar_targetNodeId item))"
  shows "\<exists>ns'. nm_edit s i (addOneWayReference mem item) = Some (UA_STATUSCODE_GOOD, s\<lparr>nm_store := ns'\<rparr>) \<and> space_ok ns' \<and>
    (\<forall>j. hashable j \<longrightarrow> node_of ns' j = (if UA_NodeId_equal i j
       then Some (add_ref \<lparr>referenceTypeId = ar_referenceTypeId item, isInverse = \<not> ar_isForward item, targetId = ar_targetNodeId item\<rparr> n)
       else node_of (nm_store s) j))"
proof -
  let ?n = "add_ref \<lparr>referenceTypeId = ar_referenceTypeId item, isInverse = \<not> ar_isForward item, targetId = ar_targetNodeId item\<rparr> n"
  have c: "NodeId_copy mem (ar_referenceTypeId item) = (UA_STATUSCODE_GOOD, ar_referenceTypeId item)"
    "ExpandedNodeId_copy mem (ar_targetNodeId item) = (UA_STATUSCODE_GOOD, ar_targetNodeId item)"
    using exact_NodeId [OF p(1), of mem] exact_ExpandedNodeId [OF p(2, 3), of mem] m by (simp_all add: exact_def prod_eq_iff)
  have "addOneWayReference mem item n (nm_freed s) = Some (UA_STATUSCODE_GOOD, ?n, nm_freed s)"
    using fr m c by (simp add: addOneWayReference_def Let_def)
  from nm_edit_found [where f = "addOneWayReference mem item", OF ok n this] obtain ns' where
    "nm_edit s i (addOneWayReference mem item) = Some (UA_STATUSCODE_GOOD, s\<lparr>nm_store := ns', nm_freed := nm_freed s\<rparr>)" "space_ok ns'"
    "\<forall>j. hashable j \<longrightarrow> node_of ns' j = (if UA_NodeId_equal i j then Some ?n else node_of (nm_store s) j)" by auto
  then show ?thesis by (intro exI [of _ ns']) simp
qed

section \<open>Adding references\<close>

lemma add_reference_effect:
  assumes "space_ok (nm_store s)" "\<forall>k. mem k" "content (ar_targetServerUri item) = []"
    and "hashable (ar_sourceNodeId item)" "node_of (nm_store s) (ar_sourceNodeId item) = Some a" "\<not> freed_in (nm_freed s) (n_nodeId a)"
    and "hashable (nodeId (ar_targetNodeId item))" "node_of (nm_store s) (nodeId (ar_targetNodeId item)) = Some b" "\<not> freed_in (nm_freed s) (n_nodeId b)"
    and "plain_NodeId (ar_referenceTypeId item)" "plain_NodeId (ar_sourceNodeId item)" "plain_NodeId (nodeId (ar_targetNodeId item))"
      "plain_array 1 (namespaceUri (ar_targetNodeId item))"
  shows "\<exists>s'. Service_AddReferences_single mem s item = Some (UA_STATUSCODE_GOOD, s') \<and> space_ok (nm_store s') \<and> nm_freed s' = nm_freed s \<and>
    (\<forall>j. hashable j \<longrightarrow> node_of (nm_store s') j = map_option (\<lambda>n. n\<lparr>n_references := n_references n @
       (if UA_NodeId_equal (ar_sourceNodeId item) j then [\<lparr>referenceTypeId = ar_referenceTypeId item, isInverse = \<not> ar_isForward item,
          targetId = ar_targetNodeId item\<rparr>] else []) @
       (if UA_NodeId_equal (nodeId (ar_targetNodeId item)) j then [\<lparr>referenceTypeId = ar_referenceTypeId item, isInverse = ar_isForward item,
          targetId = (ar_targetNodeId item)\<lparr>nodeId := ar_sourceNodeId item\<rparr>\<rparr>] else [])\<rparr>) (node_of (nm_store s) j))"
proof -
  let ?second = "item\<lparr>ar_targetNodeId := (ar_targetNodeId item)\<lparr>nodeId := ar_sourceNodeId item\<rparr>,
    ar_sourceNodeId := nodeId (ar_targetNodeId item), ar_isForward := \<not> ar_isForward item\<rparr>"
  obtain ns1 where e1: "nm_edit s (ar_sourceNodeId item) (addOneWayReference mem item) = Some (UA_STATUSCODE_GOOD, s\<lparr>nm_store := ns1\<rparr>)" "space_ok ns1"
    and l1: "\<And>j. hashable j \<Longrightarrow> node_of ns1 j = (if UA_NodeId_equal (ar_sourceNodeId item) j
       then Some (add_ref \<lparr>referenceTypeId = ar_referenceTypeId item, isInverse = \<not> ar_isForward item, targetId = ar_targetNodeId item\<rparr> a)
       else node_of (nm_store s) j)"
    using add_one_way_step [OF assms(1, 4, 5, 2, 6, 10, 12, 13)] by blast
  define b1 where "b1 = (if UA_NodeId_equal (ar_sourceNodeId item) (nodeId (ar_targetNodeId item))
    then add_ref \<lparr>referenceTypeId = ar_referenceTypeId item, isInverse = \<not> ar_isForward item, targetId = ar_targetNodeId item\<rparr> a else b)"
  have ab: "a = b" if "UA_NodeId_equal (ar_sourceNodeId item) (nodeId (ar_targetNodeId item))"
    using node_of_cong [OF _ that assms(4, 7), of "nm_store s"] assms(1, 5, 8) by (simp add: space_ok_def)
  have b1: "node_of ns1 (nodeId (ar_targetNodeId item)) = Some b1" "n_nodeId b1 = n_nodeId b"
    using l1 [OF assms(7)] assms(8) ab by (auto simp: b1_def)
  obtain ns2 where e2: "nm_edit (s\<lparr>nm_store := ns1\<rparr>) (nodeId (ar_targetNodeId item)) (addOneWayReference mem ?second) =
        Some (UA_STATUSCODE_GOOD, s\<lparr>nm_store := ns2\<rparr>)" "space_ok ns2"
    and l2: "\<And>j. hashable j \<Longrightarrow> node_of ns2 j = (if UA_NodeId_equal (nodeId (ar_targetNodeId item)) j
       then Some (add_ref \<lparr>referenceTypeId = ar_referenceTypeId item, isInverse = ar_isForward item,
          targetId = (ar_targetNodeId item)\<lparr>nodeId := ar_sourceNodeId item\<rparr>\<rparr> b1)
       else node_of ns1 j)"
    using add_one_way_step [of "s\<lparr>nm_store := ns1\<rparr>" "nodeId (ar_targetNodeId item)" b1 mem ?second] e1(2) assms b1
    by (elim meta_impE exE conjE) simp_all
  have "node_of ns2 j = map_option (\<lambda>n. n\<lparr>n_references := n_references n @
       (if UA_NodeId_equal (ar_sourceNodeId item) j then [\<lparr>referenceTypeId = ar_referenceTypeId item, isInverse = \<not> ar_isForward item,
          targetId = ar_targetNodeId item\<rparr>] else []) @
       (if UA_NodeId_equal (nodeId (ar_targetNodeId item)) j then [\<lparr>referenceTypeId = ar_referenceTypeId item, isInverse = ar_isForward item,
          targetId = (ar_targetNodeId item)\<lparr>nodeId := ar_sourceNodeId item\<rparr>\<rparr>] else [])\<rparr>) (node_of (nm_store s) j)" if j: "hashable j" for j
  proof -
    have "node_of (nm_store s) j = Some a" if "UA_NodeId_equal (ar_sourceNodeId item) j"
      using node_of_cong [OF _ that assms(4) j, of "nm_store s"] assms(1, 5) by (simp add: space_ok_def)
    moreover have "node_of (nm_store s) j = Some b" if "UA_NodeId_equal (nodeId (ar_targetNodeId item)) j"
      using node_of_cong [OF _ that assms(7) j, of "nm_store s"] assms(1, 8) by (simp add: space_ok_def)
    moreover have "UA_NodeId_equal (ar_sourceNodeId item) (nodeId (ar_targetNodeId item)) \<longleftrightarrow> UA_NodeId_equal (ar_sourceNodeId item) j"
      if "UA_NodeId_equal (nodeId (ar_targetNodeId item)) j" using that by (simp add: UA_NodeId_equal_norm)
    ultimately show ?thesis using l1 [OF j] l2 [OF j] by (cases "node_of (nm_store s) j") (auto simp: b1_def)
  qed
  then show ?thesis using assms(3) e1 e2 by (simp add: Service_AddReferences_single_def)
qed


section \<open>Mutual references\<close>

definition refs_of :: "node_store \<Rightarrow> UA_NodeId \<Rightarrow> UA_ReferenceNode set" where
  "refs_of ns i = (case node_of ns i of None \<Rightarrow> {} | Some n \<Rightarrow> set (n_references n))"

text \<open>\<open>r'\<close> is the reference back to \<open>x\<close> that belongs to the reference \<open>r\<close> of \<open>x\<close>.\<close>

definition counterpart :: "UA_NodeId \<Rightarrow> UA_ReferenceNode \<Rightarrow> UA_ReferenceNode \<Rightarrow> bool" where
  "counterpart x r r' \<longleftrightarrow> UA_NodeId_equal (nodeId (targetId r')) x \<and> UA_NodeId_equal (referenceTypeId r') (referenceTypeId r) \<and> isInverse r' \<noteq> isInverse r"

definition mutual :: "node_store \<Rightarrow> bool" where
  "mutual ns \<longleftrightarrow> (\<forall>x r. hashable x \<longrightarrow> r \<in> refs_of ns x \<longrightarrow>
     hashable (nodeId (targetId r)) \<and> (\<exists>r' \<in> refs_of ns (nodeId (targetId r)). counterpart x r r'))"

lemma copied_hashable:
  assumes "NodeId_copy mem i = (UA_STATUSCODE_GOOD, j)" "hashable i"
  shows "hashable j"
  using assms by (auto simp: NodeId_copy_def hashable_def UA_String_copy_def UA_Array_copy_def Let_def split: node_identifier.splits prod.splits if_splits ua_array.splits)

lemma copied_expanded:
  assumes "fst (ExpandedNodeId_copy mem e) = UA_STATUSCODE_GOOD" "hashable (nodeId e)"
  shows "hashable (nodeId (snd (ExpandedNodeId_copy mem e))) \<and> UA_NodeId_equal (nodeId (snd (ExpandedNodeId_copy mem e))) (nodeId e)"
  using assms copied_hashable NodeId_copy_equal by (fastforce simp: ExpandedNodeId_copy_def Let_def split: prod.splits if_splits)

lemma add_one_way_refs:
  assumes ok: "space_ok (nm_store s)" "hashable i" and e: "nm_edit s i (addOneWayReference mem item) = Some (UA_STATUSCODE_GOOD, s1)"
    and j: "hashable j"
  shows "refs_of (nm_store s1) j = refs_of (nm_store s) j \<union> (if UA_NodeId_equal i j then {stored_ref mem item} else {})"
proof -
  from add_one_way_good [OF ok e] obtain n where n: "node_of (nm_store s) i = Some n"
    and l: "node_of (nm_store s1) j = (if UA_NodeId_equal i j then Some (add_ref (stored_ref mem item) n) else node_of (nm_store s) j)"
    using j by metis
  have "node_of (nm_store s) j = Some n" if "UA_NodeId_equal i j"
    using node_of_cong [OF _ that ok(2) j, of "nm_store s"] ok(1) n by (simp add: space_ok_def)
  then show ?thesis using l by (auto simp: refs_of_def)
qed


section \<open>Deleting references\<close>

lemma last_match_Some: "last_match item refs n = Some i \<Longrightarrow> i < n \<and> same_reference item (refs ! i)"
  by (induction n) (auto split: if_splits)

lemma last_match_None: "last_match item refs n = None \<longleftrightarrow> (\<forall>i<n. \<not> same_reference item (refs ! i))"
  by (induction n) (auto simp: less_Suc_eq)

lemma no_match: "(\<forall>r\<in>set refs. \<not> same_reference item r) \<Longrightarrow> last_match item refs (length refs) = None"
  by (simp add: last_match_None)

text \<open>
  An item that matches nothing leaves everything as it is.
\<close>

lemma delete_no_match:
  assumes "space_ok (nm_store s)" "hashable i" "\<forall>r\<in>refs_of (nm_store s) i. \<not> same_reference item r"
  shows "\<exists>r. r \<noteq> UA_STATUSCODE_GOOD \<and> nm_edit s i (deleteOneWayReference item) = Some (r, s)"
proof (cases "node_of (nm_store s) i")
  case None
  then show ?thesis using nm_edit_absent [OF assms(1, 2), of "deleteOneWayReference item"] by simp
next
  case (Some n)
  obtain slot where s: "UA_NodeStore_get (nm_store s) i = Some (Some slot)" "entry_at (nm_store s) slot = Some (Some n)"
    using edit_replaces [OF _ assms(2) Some] assms(1) by (auto simp: space_ok_def)
  then have "(entries (nm_store s))[unat slot := Some n] = entries (nm_store s)"
    by (auto simp: entry_at_def list_update_same_conv split: if_splits)
  moreover have "deleteOneWayReference item n (nm_freed s) = Some (UA_STATUSCODE_UNCERTAINREFERENCENOTDELETED, n, nm_freed s)"
    using assms(3) Some by (simp add: deleteOneWayReference_def refs_of_def no_match)
  ultimately show ?thesis using s by (simp add: nm_edit_def UA_Server_editNode_def status_defs)
qed

text \<open>
  A request to delete a reference in both directions deletes it at the source only: the search at the target
  is for a reference of the null type. The answer is that the reference was not deleted.
\<close>

theorem bidirectional_delete_one_sided:
  assumes "space_ok (nm_store s)" "hashable (dr_sourceNodeId item)" "hashable (nodeId (dr_targetNodeId item))"
    and "\<not> UA_NodeId_equal (dr_sourceNodeId item) (nodeId (dr_targetNodeId item))"
    and "node_of (nm_store s) (dr_sourceNodeId item) = Some a" "node_of (nm_store s) (nodeId (dr_targetNodeId item)) = Some b"
    and "deleteBidirectional item" "serverIndex (dr_targetNodeId item) = 0" "\<exists>r\<in>set (n_references a). same_reference item r"
    and "\<forall>r\<in>set (n_references b). \<not> UA_NodeId_equal UA_NODEID_NULL (referenceTypeId r)"
  shows "\<exists>s' i. Service_DeleteReferences_single s item = Some (UA_STATUSCODE_UNCERTAINREFERENCENOTDELETED, s') \<and>
    i < length (n_references a) \<and> same_reference item (n_references a ! i) \<and>
    node_of (nm_store s') (dr_sourceNodeId item) = Some (a\<lparr>n_references := butlast ((n_references a)[i := last (n_references a)])\<rparr>) \<and>
    node_of (nm_store s') (nodeId (dr_targetNodeId item)) = Some b"
proof -
  obtain i where m: "last_match item (n_references a) (length (n_references a)) = Some i"
    using assms(9) last_match_None by (metis in_set_conv_nth not_None_eq)
  let ?a = "a\<lparr>n_references := butlast ((n_references a)[i := last (n_references a)])\<rparr>"
  obtain fr where "deleteOneWayReference item a (nm_freed s) = Some (UA_STATUSCODE_GOOD, ?a, fr)"
    using m by (auto simp: deleteOneWayReference_def Let_def)
  from nm_edit_found [where f = "deleteOneWayReference item", OF assms(1, 2, 5) this] obtain ns1 where
    1: "nm_edit s (dr_sourceNodeId item) (deleteOneWayReference item) = Some (UA_STATUSCODE_GOOD, s\<lparr>nm_store := ns1, nm_freed := fr\<rparr>)" "space_ok ns1"
    and l1: "\<forall>j. hashable j \<longrightarrow> node_of ns1 j = (if UA_NodeId_equal (dr_sourceNodeId item) j then Some ?a else node_of (nm_store s) j)" by auto
  let ?s1 = "s\<lparr>nm_store := ns1, nm_freed := fr\<rparr>"
  let ?second = "UA_DeleteReferencesItem_init\<lparr>dr_isForward := \<not> dr_isForward item, dr_sourceNodeId := nodeId (dr_targetNodeId item),
    dr_targetNodeId := UA_EXPANDEDNODEID_NULL\<lparr>nodeId := dr_sourceNodeId item\<rparr>\<rparr>"
  have b: "node_of ns1 (nodeId (dr_targetNodeId item)) = Some b" using l1 assms(3, 4, 6) by simp
  then have "deleteOneWayReference ?second b fr = Some (UA_STATUSCODE_UNCERTAINREFERENCENOTDELETED, b, fr)"
    using assms(10) by (simp add: deleteOneWayReference_def no_match same_reference_def UA_DeleteReferencesItem_init_def)
  from nm_edit_found [where f = "deleteOneWayReference ?second" and s = ?s1, OF _ assms(3) _ , of b "UA_STATUSCODE_UNCERTAINREFERENCENOTDELETED" b fr] b 1(2) this
  obtain ns2 where 2: "nm_edit ?s1 (nodeId (dr_targetNodeId item)) (deleteOneWayReference ?second) =
      Some (UA_STATUSCODE_UNCERTAINREFERENCENOTDELETED, ?s1\<lparr>nm_store := ns2, nm_freed := fr\<rparr>)"
    and l2: "\<forall>j. hashable j \<longrightarrow> node_of ns2 j = (if UA_NodeId_equal (nodeId (dr_targetNodeId item)) j then Some b else node_of ns1 j)" by auto
  have ne: "\<not> UA_NodeId_equal (nodeId (dr_targetNodeId item)) (dr_sourceNodeId item)" using assms(4) by (simp add: UA_NodeId_equal_norm)
  have "node_of ns2 (dr_sourceNodeId item) = Some ?a" using l2 l1 assms(2) ne by (simp add: UA_NodeId_equal_refl)
  moreover have "node_of ns2 (nodeId (dr_targetNodeId item)) = Some b" using l2 assms(3) by (simp add: UA_NodeId_equal_refl)
  ultimately show ?thesis
    using 1(1) 2 assms(7, 8) last_match_Some [OF m]
    by (intro exI [of _ "s\<lparr>nm_store := ns2, nm_freed := fr\<rparr>"] exI [of _ i]) (simp add: Service_DeleteReferences_single_def Let_def)
qed

text \<open>
  The loop of \<open>Service_DeleteNodes_single\<close> that deletes the references of other nodes to the deleted node
  deletes nothing, as it looks for references of the null type.
\<close>

theorem delete_targets_deletes_nothing:
  assumes "space_ok (nm_store s)" "mutual (nm_store s)" "hashable i" "node_of (nm_store s) i = Some node"
    and "\<forall>j r. hashable j \<longrightarrow> r \<in> refs_of (nm_store s) j \<longrightarrow> \<not> UA_NodeId_equal UA_NODEID_NULL (referenceTypeId r)"
  shows "delete_targets n i k s = Some s"
proof (induction n arbitrary: k)
  case (Suc n)
  have g: "get_node (nm_store s) i = Some (Some node)" using get_node_eq [of "nm_store s" i] assms(1, 4) by (simp add: space_ok_def)
  show ?case
  proof (cases "k < length (n_references node)")
    case True
    let ?ref = "n_references node ! k"
    let ?item = "UA_DeleteReferencesItem_init\<lparr>dr_targetNodeId := UA_EXPANDEDNODEID_NULL\<lparr>nodeId := i\<rparr>,
      dr_sourceNodeId := nodeId (targetId ?ref), dr_isForward := isInverse ?ref\<rparr>"
    have "?ref \<in> refs_of (nm_store s) i" using True assms(4) by (simp add: refs_of_def)
    then have h: "hashable (nodeId (targetId ?ref))" using assms(2, 3) by (simp add: mutual_def)
    from delete_no_match [OF assms(1) h, of ?item] obtain r where
      "nm_edit s (nodeId (targetId ?ref)) (deleteOneWayReference ?item) = Some (r, s)"
      using assms(5) h by (auto simp: same_reference_def UA_DeleteReferencesItem_init_def)
    then have "Service_DeleteReferences_single s ?item = Some (r, s)"
      by (simp add: Service_DeleteReferences_single_def UA_DeleteReferencesItem_init_def)
    then show ?thesis using True g Suc.IH by (simp add: Let_def)
  qed (simp add: g)
qed simp

text \<open>
  After the last reference of a node is deleted, adding a reference to it hands a freed pointer to \<open>UA_realloc\<close>.
\<close>

theorem last_reference_dangles:
  assumes "space_ok (nm_store s)" "hashable (dr_sourceNodeId item)" "node_of (nm_store s) (dr_sourceNodeId item) = Some a"
    and "n_references a = [r]" "same_reference item r" "\<not> deleteBidirectional item"
    and "ar_sourceNodeId add = dr_sourceNodeId item" "content (ar_targetServerUri add) = []"
  shows "\<exists>s'. Service_DeleteReferences_single s item = Some (UA_STATUSCODE_GOOD, s') \<and> Service_AddReferences_single mem s' add = None"
proof -
  let ?a = "a\<lparr>n_references := []\<rparr>"
  have "deleteOneWayReference item a (nm_freed s) = Some (UA_STATUSCODE_GOOD, ?a, n_nodeId a # nm_freed s)"
    using assms(4, 5) by (simp add: deleteOneWayReference_def)
  from nm_edit_found [where f = "deleteOneWayReference item", OF assms(1-3) this] obtain ns1 where
    1: "nm_edit s (dr_sourceNodeId item) (deleteOneWayReference item) = Some (UA_STATUSCODE_GOOD, s\<lparr>nm_store := ns1, nm_freed := n_nodeId a # nm_freed s\<rparr>)"
    and ok: "space_ok ns1" and l: "node_of ns1 (dr_sourceNodeId item) = Some ?a" using assms(2) by (auto simp: UA_NodeId_equal_refl)
  have "addOneWayReference mem add ?a (n_nodeId a # nm_freed s) = None" by (simp add: addOneWayReference_def freed_in_def UA_NodeId_equal_refl)
  moreover have "UA_Server_editNode ns1 (dr_sourceNodeId item) f e = None" if "f ?a e = None" for f :: "UA_AnyNode \<Rightarrow> UA_NodeId list \<Rightarrow> _" and e
    using l that by (auto simp: UA_Server_editNode_def node_of_def split: option.splits)
  ultimately show ?thesis
    using 1 assms(6-8) by (simp add: Service_DeleteReferences_single_def Service_AddReferences_single_def nm_edit_def)
qed

section \<open>Adding nodes\<close>

definition item_plain :: "UA_AddNodesItem \<Rightarrow> bool" where
  "item_plain item \<longleftrightarrow> plain_NodeId (nodeId (an_requestedNewNodeId item)) \<and> plain_array 1 (qn_name (an_browseName item)) \<and>
     plain_NodeId (nodeId (an_parentNodeId item)) \<and> plain_NodeId (an_referenceTypeId item)"

lemma new_node_members:
  assumes "new_node mem c item attr r p = Some node" "item_plain item"
  shows "n_nodeId node = nodeId (an_requestedNewNodeId item) \<and> n_nodeClass node = c \<and> n_browseName node = an_browseName item \<and>
    n_references node = [] \<and> n_writeMask node = a_writeMask attr \<and> n_userWriteMask node = a_userWriteMask attr \<and> part node = p"
  using assms exact_NodeId [of "nodeId (an_requestedNewNodeId item)" mem] exact_QualifiedName [of "an_browseName item" mem]
  by (auto simp: new_node_def copyStandardAttributes_def item_plain_def exact_def Let_def split: prod.splits if_splits)

lemma created_members:
  assumes "node_from_item mem item = Some (Inr (Some node))" "item_plain item"
  shows "n_nodeId node = nodeId (an_requestedNewNodeId item) \<and> n_nodeClass node = an_nodeClass item \<and>
    n_browseName node = an_browseName item \<and> n_references node = [] \<and> an_nodeClass item \<noteq> UA_NODECLASS_UNSPECIFIED"
  using assms new_node_members [OF _ assms(2)]
  by (auto simp: node_from_item_def objectNodeFromAttributes_def variableNodeFromAttributes_def objectTypeNodeFromAttributes_def
      referenceTypeNodeFromAttributes_def dataTypeNodeFromAttributes_def viewNodeFromAttributes_def bind_eq_Some_conv
      split: option.splits UA_NodeClass.splits node_attributes.splits if_splits prod.splits)

lemma inserted_space:
  assumes "space_ok ns" "insertable n" "0 < capacity ns" "node_of ns (n_nodeId n) = None"
  shows "\<exists>entry ns'. UA_NodeStore_insert (\<lambda>_. True) ns n = Some (UA_STATUSCODE_GOOD, Some entry, ns') \<and> entry_at ns' entry = Some (Some n) \<and>
    space_ok ns' \<and> (\<forall>k. hashable k \<longrightarrow> node_of ns' k = (if UA_NodeId_equal (n_nodeId n) k then Some n else node_of ns k))"
proof -
  have inv: "ns_inv ns" using assms(1) by (simp add: space_ok_def)
  have h: "hashable (n_nodeId n)" using assms(2) by (simp add: insertable_def)
  have "absent ns (n_nodeId n)" using assms(4) node_of_absent [OF inv h] by simp
  with insert_fresh [OF inv _ capacity_Suc(2) [OF assms(3), of ns], of "\<lambda>_. True" n] assms(2) obtain entry ns' where
    1: "UA_NodeStore_insert (\<lambda>_. True) ns n = Some (UA_STATUSCODE_GOOD, Some entry, ns')" "ns_inv ns'"
      "stored ns' = insert n (stored ns)" "entry_at ns' entry = Some (Some n)" by (auto simp: insertable_def)
  from nodestore.ins_new [OF inv assms(2-4)] 1(1)
  have "\<forall>k. hashable k \<longrightarrow> node_of ns' k = (if UA_NodeId_equal (n_nodeId n) k then Some n else node_of ns k)"
    by (auto simp: insert_node_def)
  then show ?thesis using 1 assms(1, 2) by (auto simp: space_ok_def insertable_def)
qed


section \<open>An example\<close>

text \<open>Two objects and a reference type without references.\<close>

definition sample_node :: "UA_UInt32 \<Rightarrow> UA_NodeClass \<Rightarrow> node_part \<Rightarrow> UA_AnyNode" where
  "sample_node i c p = \<lparr>n_nodeId = UA_NODEID_NUMERIC 1 i, n_nodeClass = c, n_browseName = \<lparr>qn_namespaceIndex = 0, qn_name = Null_ptr\<rparr>,
     n_displayName = \<lparr>locale_text = Null_ptr, text_text = Null_ptr\<rparr>, n_description = \<lparr>locale_text = Null_ptr, text_text = Null_ptr\<rparr>,
     n_writeMask = 0, n_userWriteMask = 0, n_references = [], part = p\<rparr>"

definition sample_nodes :: "UA_AnyNode list" where
  "sample_nodes = [sample_node 20 UA_NODECLASS_OBJECT (ObjectPart 0), sample_node 21 UA_NODECLASS_OBJECT (ObjectPart 0),
     sample_node 35 UA_NODECLASS_REFERENCETYPE (ReferenceTypePart False False \<lparr>locale_text = Null_ptr, text_text = Null_ptr\<rparr>)]"

definition sample_space :: "(unit, unit) nm" where
  "sample_space = \<lparr>nm_store = store_of sample_nodes, nm_freed = [], nm_session = \<lparr>continuationPoints = [], cp_available = 5\<rparr>,
     nm_admin = \<lparr>continuationPoints = [], cp_available = 5\<rparr>, instanceHandles = [], nm_app = ()\<rparr>"

definition sample_env :: "(unit, unit) nm_env" where
  "sample_env = \<lparr>nm_mem = \<lambda>_. True, nm_guid = Null_ptr, namespacesSize = 2, olm_constructor = \<lambda>_. None, olm_destructor = \<lambda>_. None\<rparr>"

definition sample_reference :: UA_AddReferencesItem where
  "sample_reference = \<lparr>ar_sourceNodeId = UA_NODEID_NUMERIC 1 20, ar_referenceTypeId = UA_NODEID_NUMERIC 1 35, ar_isForward = True,
     ar_targetServerUri = Null_ptr, ar_targetNodeId = UA_EXPANDEDNODEID_NULL\<lparr>nodeId := UA_NODEID_NUMERIC 1 21\<rparr>\<rparr>"

definition sample_item :: UA_AddNodesItem where
  "sample_item = \<lparr>an_parentNodeId = UA_EXPANDEDNODEID_NULL\<lparr>nodeId := UA_NODEID_NUMERIC 1 20\<rparr>, an_referenceTypeId = UA_NODEID_NUMERIC 1 35,
     an_requestedNewNodeId = UA_EXPANDEDNODEID_NULL\<lparr>nodeId := UA_NODEID_NUMERIC 1 22\<rparr>, an_browseName = \<lparr>qn_namespaceIndex = 0, qn_name = Null_ptr\<rparr>,
     an_nodeClass = UA_NODECLASS_OBJECT, an_nodeAttributes = Some (UA_ObjectAttributes \<lparr>a_displayName = \<lparr>locale_text = Null_ptr, text_text = Null_ptr\<rparr>,
       a_description = \<lparr>locale_text = Null_ptr, text_text = Null_ptr\<rparr>, a_writeMask = 0, a_userWriteMask = 0\<rparr> 0), an_typeDefinition = UA_EXPANDEDNODEID_NULL\<rparr>"

declare numeric_ids [simp]

lemma sample_nodes_ok:
  "list_all insertable sample_nodes" "length sample_nodes \<le> 8388607" "distinct (map (\<lambda>v. norm_NodeId (n_nodeId v)) sample_nodes)"
  by (simp_all add: sample_nodes_def sample_node_def insertable_def null_id_def UA_NodeId_isNull_def norm_NodeId_def UA_NODEID_NUMERIC_def hashable_def)

lemma count_stored: "ns_inv ns \<Longrightarrow> unat (ns_count ns) = card (stored ns)"
  using stored_distinct [of ns] distinct_card [of "nodes (entries ns)"]
  by (auto simp: ns_inv_def stored_nodes length_nodes distinct_map)

lemma sample_space_ok:
  "space_ok (nm_store sample_space)" "mutual (nm_store sample_space)" "0 < capacity (nm_store sample_space)"
  "node_of (nm_store sample_space) (UA_NODEID_NUMERIC 1 20) = Some (sample_nodes ! 0)"
  "node_of (nm_store sample_space) (UA_NODEID_NUMERIC 1 21) = Some (sample_nodes ! 1)"
  "node_of (nm_store sample_space) (UA_NODEID_NUMERIC 1 35) = Some (sample_nodes ! 2)"
  "node_of (nm_store sample_space) (UA_NODEID_NUMERIC 1 22) = None"
proof -
  note s = store_of [OF sample_nodes_ok] stored_store_of [OF sample_nodes_ok]
  have st: "nm_store sample_space = store_of sample_nodes" by (simp add: sample_space_def)
  show "space_ok (nm_store sample_space)" using s(1, 4) by (auto simp: st space_ok_def sample_nodes_def sample_node_def)
  have "n_references n = []" if "node_of (store_of sample_nodes) x = Some n" for x n
    using node_of_in_stored [OF that] s(4) by (auto simp: sample_nodes_def sample_node_def)
  then show "mutual (nm_store sample_space)" by (auto simp: st mutual_def refs_of_def split: option.splits)
  have "card (stored (store_of sample_nodes)) \<le> 3"
    using card_mono [OF _ s(4)] card_length [of sample_nodes] by (simp add: sample_nodes_def)
  then show "0 < capacity (nm_store sample_space)" using count_stored [OF s(1)] by (simp add: st capacity_def)
  show "node_of (nm_store sample_space) (UA_NODEID_NUMERIC 1 20) = Some (sample_nodes ! 0)"
    "node_of (nm_store sample_space) (UA_NODEID_NUMERIC 1 21) = Some (sample_nodes ! 1)"
    "node_of (nm_store sample_space) (UA_NODEID_NUMERIC 1 35) = Some (sample_nodes ! 2)"
    using s(2) [of "sample_nodes ! 0"] s(2) [of "sample_nodes ! 1"] s(2) [of "sample_nodes ! 2"] by (simp_all add: st sample_nodes_def sample_node_def)
  show "node_of (nm_store sample_space) (UA_NODEID_NUMERIC 1 22) = None"
    using s(3) [of "UA_NODEID_NUMERIC 1 22"] by (simp add: st sample_nodes_def sample_node_def)
qed

lemma sample_reference_ok:
  "content (ar_targetServerUri sample_reference) = []" "ar_sourceNodeId sample_reference = UA_NODEID_NUMERIC 1 20"
  "nodeId (ar_targetNodeId sample_reference) = UA_NODEID_NUMERIC 1 21" "ar_referenceTypeId sample_reference = UA_NODEID_NUMERIC 1 35"
  "plain_array 1 (namespaceUri (ar_targetNodeId sample_reference))" "nm_freed sample_space = []"
  by (simp_all add: sample_reference_def sample_space_def UA_EXPANDEDNODEID_NULL_def UA_STRING_NULL_def plain_array_def)




end
