(* ===== verification/Ua_Call.thy ===== *)
theory Ua_Call
  imports Ua_NodeManagement
begin

text \<open>
  Method calls (\<^verbatim>\<open>src/server/ua_services_call.c\<close>): the checks on method, object and arguments in
  front of the method of the application, which is called through a function pointer: an argument \<open>attached\<close>
  of the model, by the identifier of the method node, on a state of the application. \<open>None\<close> is an access through a null
  pointer or outside of an array.
\<close>

definition UA_STATUSCODE_BADMETHODINVALID :: UA_StatusCode where [status_defs]: "UA_STATUSCODE_BADMETHODINVALID = 0x80750000"
definition UA_STATUSCODE_BADARGUMENTSMISSING :: UA_StatusCode where [status_defs]: "UA_STATUSCODE_BADARGUMENTSMISSING = 0x80760000"
definition UA_STATUSCODE_BADINVALIDARGUMENT :: UA_StatusCode where [status_defs]: "UA_STATUSCODE_BADINVALIDARGUMENT = 0x80ab0000"
definition UA_STATUSCODE_BADNOTWRITABLE :: UA_StatusCode where [status_defs]: "UA_STATUSCODE_BADNOTWRITABLE = 0x803b0000"

definition UA_NS0ID_HASCOMPONENT :: UA_UInt32 where "UA_NS0ID_HASCOMPONENT = 47"

text \<open>The members of an argument description that are looked at.\<close>

record UA_Argument =
  arg_dataType :: UA_NodeId
  arg_valueRank :: UA_Int32
  arg_arrayDimensions :: "UA_UInt32 ua_array"

fun uint32_array :: "ua_value ua_array \<Rightarrow> UA_UInt32 ua_array" where
  "uint32_array a = map_ua_array (\<lambda>v. case v of VUInt32 n \<Rightarrow> n | _ \<Rightarrow> 0) a"

definition as_Argument :: "ua_value \<Rightarrow> UA_Argument option" where
  "as_Argument v = (case v of VStruct [_, VNodeId t, VUInt32 rank, VArray dims, _] \<Rightarrow>
     Some \<lparr>arg_dataType = t, arg_valueRank = rank, arg_arrayDimensions = uint32_array dims\<rparr> | _ \<Rightarrow> None)"

record UA_CallMethodRequest =
  objectId :: UA_NodeId
  methodId :: UA_NodeId
  inputArguments :: "variant list"

text \<open>\<open>cm_outputs\<close> is \<open>None\<close> when the array could not be allocated.\<close>

record UA_CallMethodResult =
  cm_statusCode :: UA_StatusCode
  cm_outputs :: "variant list option"

definition UA_CallMethodResult_init :: UA_CallMethodResult where
  "UA_CallMethodResult_init = \<lparr>cm_statusCode = UA_STATUSCODE_GOOD, cm_outputs = Some []\<rparr>"

type_synonym 'e callback = "UA_NodeId \<Rightarrow> variant list \<Rightarrow> nat \<Rightarrow> variant list option \<Rightarrow> 'e \<Rightarrow> UA_StatusCode \<times> variant list option \<times> 'e"

section \<open>Arguments\<close>

fun find_arguments :: "node_store \<Rightarrow> UA_ReferenceNode list \<Rightarrow> UA_String \<Rightarrow> UA_AnyNode option option" where
  "find_arguments ns [] withBrowseName = Some None"
| "find_arguments ns (ref # refs) withBrowseName =
     (if \<not> isInverse ref \<and> UA_NodeId_equal (UA_NODEID_NUMERIC 0 UA_NS0ID_HASPROPERTY) (referenceTypeId ref) then do {
        found \<leftarrow> get_node ns (nodeId (targetId ref));
        (case found of
           None \<Rightarrow> find_arguments ns refs withBrowseName
         | Some refTarget \<Rightarrow>
             if n_nodeClass refTarget = UA_NODECLASS_VARIABLE \<and> qn_namespaceIndex (n_browseName refTarget) = 0 \<and>
                UA_String_equal withBrowseName (qn_name (n_browseName refTarget))
             then Some (Some refTarget) else find_arguments ns refs withBrowseName) }
      else find_arguments ns refs withBrowseName)"

definition getArgumentsVariableNode :: "node_store \<Rightarrow> UA_AnyNode \<Rightarrow> UA_String \<Rightarrow> UA_AnyNode option option" where
  "getArgumentsVariableNode ns ofMethod withBrowseName = find_arguments ns (n_references ofMethod) withBrowseName"

text \<open>The dimensions of an argument: those it states, or its length when it is an array that states none.\<close>

definition argument_dims :: "variant \<Rightarrow> UA_UInt32 list" where
  "argument_dims var = (if \<not> UA_Variant_isScalar var \<and> v_arrayDimensions var = Null_ptr then [word_of_nat (v_arrayLength var)]
     else content (v_arrayDimensions var))"

definition satisfySignature :: "variant \<Rightarrow> UA_Argument \<Rightarrow> UA_StatusCode option" where
  "satisfySignature var arg = do {
     ty \<leftarrow> v_type var;
     let scalar = UA_Variant_isScalar var;
     let dims = argument_dims var;
     let rank = sint (arg_valueRank arg);
     Some (if \<not> UA_NodeId_equal (UA_NODEID_NUMERIC 0 (typeId (UA_TYPES ! ty))) (arg_dataType arg) then UA_STATUSCODE_BADINVALIDARGUMENT
           else if alen (arg_arrayDimensions arg) > 0 \<and> alen (v_arrayDimensions var) > 0 \<and>
                   alen (v_arrayDimensions var) \<noteq> alen (arg_arrayDimensions arg) then UA_STATUSCODE_BADINVALIDARGUMENT
           else if rank = -3 \<and> length dims > 1 then UA_STATUSCODE_BADINVALIDARGUMENT
           else if rank = -1 \<and> \<not> scalar then UA_STATUSCODE_BADINVALIDARGUMENT
           else if rank = 0 \<and> scalar then UA_STATUSCODE_BADINVALIDARGUMENT
           else if alen (arg_arrayDimensions arg) \<noteq> length dims then UA_STATUSCODE_BADINVALIDARGUMENT
           else if content (arg_arrayDimensions arg) \<noteq> dims then UA_STATUSCODE_BADINVALIDARGUMENT
           else UA_STATUSCODE_GOOD) }"

fun satisfy_all :: "variant list \<Rightarrow> ua_value list \<Rightarrow> UA_StatusCode \<Rightarrow> UA_StatusCode option" where
  "satisfy_all [] reqs retval = Some retval"
| "satisfy_all (v # vs) [] retval = None"
| "satisfy_all (v # vs) (q # qs) retval = do {
     arg \<leftarrow> as_Argument q;
     r \<leftarrow> satisfySignature v arg;
     satisfy_all vs qs (retval OR r) }"

definition argConformsToDefinition :: "UA_AnyNode \<Rightarrow> variant list \<Rightarrow> UA_StatusCode option" where
  "argConformsToDefinition argRequirements args = do {
     src \<leftarrow> value_at (part argRequirements);
     (case src of
        UA_VALUESOURCE_DATASOURCE w \<Rightarrow> Some UA_STATUSCODE_BADINTERNALERROR
      | UA_VALUESOURCE_VARIANT v onR onW \<Rightarrow>
          if v_type v \<noteq> Some UA_TYPES_ARGUMENT then Some UA_STATUSCODE_BADINTERNALERROR
          else let argReqsSize = (if UA_Variant_isScalar v then 1 else v_arrayLength v) in
            if argReqsSize > length args then Some UA_STATUSCODE_BADARGUMENTSMISSING
            else if argReqsSize \<noteq> length args then Some UA_STATUSCODE_BADINVALIDARGUMENT
            else satisfy_all args (content (v_data v)) UA_STATUSCODE_GOOD) }"

section \<open>The call\<close>

definition has_component :: "UA_AnyNode \<Rightarrow> UA_NodeId \<Rightarrow> bool" where
  "has_component withObject calledId = list_ex (\<lambda>r. identifier_numeric (referenceTypeId r) = UA_NS0ID_HASCOMPONENT \<and>
     UA_NodeId_equal (nodeId (targetId r)) calledId) (n_references withObject)"

fun executable_at :: "node_part \<Rightarrow> (bool \<times> bool) option" where
  "executable_at (MethodPart ex uex) = Some (ex, uex)"
| "executable_at _ = None"

fun array_length_at :: "node_part \<Rightarrow> nat option" where
  "array_length_at (VariablePart rank (UA_VALUESOURCE_VARIANT v onR onW) al ual msi his) = Some (v_arrayLength v)"
| "array_length_at _ = None"

definition ascii :: "string \<Rightarrow> UA_Byte list" where
  "ascii s = map (\<lambda>c. word_of_nat (of_char c)) s"

definition callMethod ::
  "(nat \<Rightarrow> bool) \<Rightarrow> (UA_NodeId \<Rightarrow> 'e callback option) \<Rightarrow> node_store \<Rightarrow> UA_CallMethodRequest \<Rightarrow> 'e \<Rightarrow> (UA_CallMethodResult \<times> 'e) option" where
  "callMethod mem attached ns request e =
     (let fail = \<lambda>r. Some (UA_CallMethodResult_init\<lparr>cm_statusCode := r\<rparr>, e) in do {
        found \<leftarrow> get_node ns (methodId request);
        (case found of
           None \<Rightarrow> fail UA_STATUSCODE_BADMETHODINVALID
         | Some methodCalled \<Rightarrow> do {
             foundObject \<leftarrow> get_node ns (objectId request);
             (case foundObject of
                None \<Rightarrow> fail UA_STATUSCODE_BADNODEIDINVALID
              | Some withObject \<Rightarrow>
                  if n_nodeClass methodCalled \<noteq> UA_NODECLASS_METHOD then fail UA_STATUSCODE_BADNODECLASSINVALID
                  else if n_nodeClass withObject \<noteq> UA_NODECLASS_OBJECT \<and> n_nodeClass withObject \<noteq> UA_NODECLASS_OBJECTTYPE
                  then fail UA_STATUSCODE_BADNODECLASSINVALID
                  else if \<not> has_component withObject (n_nodeId methodCalled) then fail UA_STATUSCODE_BADMETHODINVALID
                  else do {
                    (ex, uex) \<leftarrow> executable_at (part methodCalled);
                    if \<not> ex \<or> \<not> uex then fail UA_STATUSCODE_BADNOTWRITABLE
                    else do {
                      ins \<leftarrow> getArgumentsVariableNode ns methodCalled (Block (ascii ''InputArguments''));
                      r \<leftarrow> (case ins of
                              Some node \<Rightarrow> argConformsToDefinition node (inputArguments request)
                            | None \<Rightarrow> Some (if inputArguments request \<noteq> [] then UA_STATUSCODE_BADINVALIDARGUMENT else UA_STATUSCODE_GOOD));
                      if r \<noteq> UA_STATUSCODE_GOOD then fail r
                      else do {
                        outs \<leftarrow> getArgumentsVariableNode ns methodCalled (Block (ascii ''OutputArguments''));
                        (case outs of
                           None \<Rightarrow> fail UA_STATUSCODE_BADINTERNALERROR
                         | Some outNode \<Rightarrow>
                             (case attached (n_nodeId methodCalled) of
                                None \<Rightarrow> fail UA_STATUSCODE_BADNOTWRITABLE
                              | Some f \<Rightarrow> do {
                                  n \<leftarrow> array_length_at (part outNode);
                                  let (rc, os, e1) = f (n_nodeId withObject) (inputArguments request) n
                                    (if UA_Array_new mem n UA_TYPES_VARIANT then Some (replicate n UA_Variant_init) else None) e;
                                  Some (\<lparr>cm_statusCode = rc, cm_outputs = os\<rparr>, e1) })) } } }) }) })"

fun call_all ::
  "(nat \<Rightarrow> bool) \<Rightarrow> (UA_NodeId \<Rightarrow> 'e callback option) \<Rightarrow> node_store \<Rightarrow> UA_CallMethodRequest list \<Rightarrow> 'e \<Rightarrow> (UA_CallMethodResult list \<times> 'e) option" where
  "call_all mem attached ns [] e = Some ([], e)"
| "call_all mem attached ns (q # qs) e = do {
     (r, e1) \<leftarrow> callMethod mem attached ns q e;
     (rs, e2) \<leftarrow> call_all mem attached ns qs e1;
     Some (r # rs, e2) }"

definition Service_Call ::
  "(nat \<Rightarrow> bool) \<Rightarrow> (UA_NodeId \<Rightarrow> 'e callback option) \<Rightarrow> node_store \<Rightarrow> UA_CallMethodRequest list \<Rightarrow> 'e \<Rightarrow>
   (UA_StatusCode \<times> UA_CallMethodResult list \<times> 'e) option" where
  "Service_Call mem attached ns requests e =
     (if requests = [] then Some (UA_STATUSCODE_BADNOTHINGTODO, [], e)
      else if \<not> UA_Array_new mem (length requests) UA_TYPES_CALLMETHODRESULT then Some (UA_STATUSCODE_BADOUTOFMEMORY, [], e)
      else do { (rs, e1) \<leftarrow> call_all mem attached ns requests e; Some (UA_STATUSCODE_GOOD, rs, e1) })"

end
