(* ===== verification/Ua_Call_Theorems.thy ===== *)
theory Ua_Call_Theorems
  imports Ua_Call Ua_Attributes_Laws
begin

text \<open>
  The properties of method calls: the application is reached only by calls whose method, object and arguments fit, and
  by all of them; an argument without a type crashes the server.
\<close>

section \<open>Arguments that fit\<close>

definition signature_ok :: "variant \<Rightarrow> UA_Argument \<Rightarrow> bool" where
  "signature_ok var arg \<longleftrightarrow>
     (\<exists>ty. v_type var = Some ty \<and> UA_NodeId_equal (UA_NODEID_NUMERIC 0 (typeId (UA_TYPES ! ty))) (arg_dataType arg)) \<and>
     content (arg_arrayDimensions arg) = argument_dims var \<and>
     (sint (arg_valueRank arg) = -3 \<longrightarrow> length (argument_dims var) \<le> 1) \<and>
     (sint (arg_valueRank arg) = -1 \<longrightarrow> UA_Variant_isScalar var) \<and> (sint (arg_valueRank arg) = 0 \<longrightarrow> \<not> UA_Variant_isScalar var)"

lemma stated_dims: "content (v_arrayDimensions var) \<noteq> [] \<Longrightarrow> argument_dims var = content (v_arrayDimensions var)"
  by (cases "v_arrayDimensions var") (auto simp: argument_dims_def)

lemma guard_good: "b \<noteq> g \<Longrightarrow> (if c then b else x) = g \<longleftrightarrow> \<not> c \<and> x = g"
  by simp

lemma satisfySignature_good: "satisfySignature var arg = Some UA_STATUSCODE_GOOD \<longleftrightarrow> signature_ok var arg"
proof (cases "v_type var")
  case (Some ty)
  have bad: "UA_STATUSCODE_BADINVALIDARGUMENT \<noteq> UA_STATUSCODE_GOOD" by (simp add: status_defs)
  have d: "content (v_arrayDimensions var) = [] \<or> argument_dims var = content (v_arrayDimensions var)"
    using stated_dims [of var] by blast
  define fits where "fits = UA_NodeId_equal (UA_NODEID_NUMERIC 0 (typeId (UA_TYPES ! ty))) (arg_dataType arg)"
  have "satisfySignature var arg = Some UA_STATUSCODE_GOOD \<longleftrightarrow> fits \<and>
      \<not> (length (content (arg_arrayDimensions arg)) > 0 \<and> length (content (v_arrayDimensions var)) > 0 \<and>
         length (content (v_arrayDimensions var)) \<noteq> length (content (arg_arrayDimensions arg))) \<and>
      \<not> (sint (arg_valueRank arg) = -3 \<and> length (argument_dims var) > 1) \<and> \<not> (sint (arg_valueRank arg) = -1 \<and> \<not> UA_Variant_isScalar var) \<and>
      \<not> (sint (arg_valueRank arg) = 0 \<and> UA_Variant_isScalar var) \<and>
      length (content (arg_arrayDimensions arg)) = length (argument_dims var) \<and> content (arg_arrayDimensions arg) = argument_dims var"
    unfolding satisfySignature_def Some Let_def bind.simps option.inject  fits_def [symmetric] guard_good [OF bad] by blast
  also have "\<dots> \<longleftrightarrow> signature_ok var arg"
    using d unfolding signature_ok_def Some option.inject ex_simps simp_thms fits_def [symmetric] not_less [symmetric] by auto
  finally show ?thesis .
qed (simp add: satisfySignature_def signature_ok_def)

definition arguments_fit :: "variant list \<Rightarrow> ua_value list \<Rightarrow> bool" where
  "arguments_fit vs qs \<longleftrightarrow> length vs \<le> length qs \<and>
     (\<forall>i<length vs. \<exists>arg. as_Argument (qs ! i) = Some arg \<and> signature_ok (vs ! i) arg)"

lemma arguments_fit_simps:
  "arguments_fit [] qs" "\<not> arguments_fit (v # vs) []"
  "arguments_fit (v # vs) (q # qs) \<longleftrightarrow> (\<exists>arg. as_Argument q = Some arg \<and> signature_ok v arg) \<and> arguments_fit vs qs"
  by (auto simp: arguments_fit_def All_less_Suc2)

lemma satisfy_all_good: "satisfy_all vs qs r = Some UA_STATUSCODE_GOOD \<longleftrightarrow> r = UA_STATUSCODE_GOOD \<and> arguments_fit vs qs"
proof (induction vs qs r rule: satisfy_all.induct)
  case (3 v vs q qs r)
  then show ?case
    by (auto simp: arguments_fit_simps bind_eq_Some_conv satisfySignature_good [symmetric] simp del: satisfy_all.simps(1))
qed (auto simp: arguments_fit_simps)

text \<open>The call as far as the service can check it.\<close>

definition arguments_ok :: "node_store \<Rightarrow> UA_AnyNode \<Rightarrow> variant list \<Rightarrow> bool" where
  "arguments_ok ns m args \<longleftrightarrow>
     (case getArgumentsVariableNode ns m (Block (ascii ''InputArguments'')) of
        None \<Rightarrow> False
      | Some None \<Rightarrow> args = []
      | Some (Some node) \<Rightarrow> (\<exists>v onR onW. value_at (part node) = Some (UA_VALUESOURCE_VARIANT v onR onW) \<and> v_type v = Some UA_TYPES_ARGUMENT \<and>
          length args = (if UA_Variant_isScalar v then 1 else v_arrayLength v) \<and> arguments_fit args (content (v_data v))))"

definition call_allowed :: "node_store \<Rightarrow> UA_CallMethodRequest \<Rightarrow> UA_AnyNode \<Rightarrow> UA_AnyNode \<Rightarrow> bool" where
  "call_allowed ns request m ob \<longleftrightarrow> node_of ns (methodId request) = Some m \<and> node_of ns (objectId request) = Some ob \<and>
     n_nodeClass m = UA_NODECLASS_METHOD \<and> part m = MethodPart True True \<and>
     n_nodeClass ob \<in> {UA_NODECLASS_OBJECT, UA_NODECLASS_OBJECTTYPE} \<and> has_component ob (n_nodeId m) \<and>
     arguments_ok ns m (inputArguments request)"

lemma conforms_good:
  "argConformsToDefinition node args = Some UA_STATUSCODE_GOOD \<longleftrightarrow>
     (\<exists>v onR onW. value_at (part node) = Some (UA_VALUESOURCE_VARIANT v onR onW) \<and> v_type v = Some UA_TYPES_ARGUMENT \<and>
       length args = (if UA_Variant_isScalar v then 1 else v_arrayLength v) \<and> arguments_fit args (content (v_data v)))"
proof (cases "value_at (part node)")
  case (Some src)
  have bad: "UA_STATUSCODE_BADINTERNALERROR \<noteq> UA_STATUSCODE_GOOD" "UA_STATUSCODE_BADARGUMENTSMISSING \<noteq> UA_STATUSCODE_GOOD"
    "UA_STATUSCODE_BADINVALIDARGUMENT \<noteq> UA_STATUSCODE_GOOD" by (simp_all add: status_defs)
  show ?thesis using Some bad
    by (cases src) (simp_all add: argConformsToDefinition_def Let_def satisfy_all_good)
qed (simp add: argConformsToDefinition_def)

lemma executable_part: "executable_at p = Some (True, True) \<longleftrightarrow> p = MethodPart True True"
  by (cases p) auto

lemma inputs_good:
  assumes "getArgumentsVariableNode ns m (Block (ascii ''InputArguments'')) = Some ins"
  shows "(case ins of Some node \<Rightarrow> argConformsToDefinition node args
      | None \<Rightarrow> Some (if args \<noteq> [] then UA_STATUSCODE_BADINVALIDARGUMENT else UA_STATUSCODE_GOOD)) = Some UA_STATUSCODE_GOOD \<longleftrightarrow>
    arguments_ok ns m args"
proof (cases ins)
  case None
  have "UA_STATUSCODE_BADINVALIDARGUMENT \<noteq> UA_STATUSCODE_GOOD" by (simp add: status_defs)
  with None show ?thesis using assms by (simp add: arguments_ok_def)
qed (use assms in \<open>simp add: arguments_ok_def conforms_good\<close>)

lemma reached_allowed:
  assumes "ns_inv ns" "callMethod mem attached ns request e = Some (res, e1)" "e1 \<noteq> e"
  shows "\<exists>m ob. call_allowed ns request m ob"
proof -
  obtain m where m: "node_of ns (methodId request) = Some m"
    using assms by (cases "node_of ns (methodId request)") (auto simp: callMethod_def get_node_eq)
  obtain ob where ob: "node_of ns (objectId request) = Some ob"
    using assms m by (cases "node_of ns (objectId request)") (auto simp: callMethod_def get_node_eq)
  have c: "n_nodeClass m = UA_NODECLASS_METHOD" "n_nodeClass ob \<in> {UA_NODECLASS_OBJECT, UA_NODECLASS_OBJECTTYPE}" "has_component ob (n_nodeId m)"
    using assms m ob by (auto simp: callMethod_def get_node_eq Let_def split: if_splits)
  obtain ex uex where ex: "executable_at (part m) = Some (ex, uex)"
    using assms m ob c by (cases "executable_at (part m)") (auto simp: callMethod_def get_node_eq)
  have x: "ex" "uex" using assms m ob c ex by (auto simp: callMethod_def get_node_eq split: if_splits)
  obtain ins where ins: "getArgumentsVariableNode ns m (Block (ascii ''InputArguments'')) = Some ins"
    using assms m ob c ex x by (cases "getArgumentsVariableNode ns m (Block (ascii ''InputArguments''))") (auto simp: callMethod_def get_node_eq)
  define r where "r = (case ins of Some node \<Rightarrow> argConformsToDefinition node (inputArguments request)
      | None \<Rightarrow> Some (if inputArguments request \<noteq> [] then UA_STATUSCODE_BADINVALIDARGUMENT else UA_STATUSCODE_GOOD))"
  have "r = Some UA_STATUSCODE_GOOD"
    using assms m ob c ex x ins
    by (cases r) (auto simp: callMethod_def get_node_eq r_def [symmetric] simp del: not_None_eq split: if_splits)
  then have "arguments_ok ns m (inputArguments request)" using inputs_good [OF ins] by (simp add: r_def)
  then show ?thesis using m ob c ex x executable_part by (auto simp: call_allowed_def)
qed

lemma allowed_reached:
  assumes "ns_inv ns" "call_allowed ns request m ob" "getArgumentsVariableNode ns m (Block (ascii ''OutputArguments'')) = Some (Some outNode)"
    and "array_length_at (part outNode) = Some n" "attached (n_nodeId m) = Some f"
    and "f (n_nodeId ob) (inputArguments request) n (if UA_Array_new mem n UA_TYPES_VARIANT then Some (replicate n UA_Variant_init) else None) e = (rc, os, e1)"
  shows "callMethod mem attached ns request e = Some (\<lparr>cm_statusCode = rc, cm_outputs = os\<rparr>, e1)"
proof -
  have ok: "arguments_ok ns m (inputArguments request)" using assms(2) by (simp add: call_allowed_def)
  then obtain ins where ins: "getArgumentsVariableNode ns m (Block (ascii ''InputArguments'')) = Some ins"
    by (auto simp: arguments_ok_def split: option.splits)
  note r = inputs_good [OF ins, THEN iffD2, OF ok]
  show ?thesis
    using assms(1-5) ins by (auto simp: call_allowed_def callMethod_def get_node_eq r assms(6))
qed


section \<open>An example\<close>

text \<open>
  A method \<open>30\<close> of an object \<open>31\<close> with one input argument, a 32 bit integer, and no output argument; the function that is attached
  counts its calls.
\<close>

definition call_node :: "UA_UInt32 \<Rightarrow> UA_NodeClass \<Rightarrow> string \<Rightarrow> UA_ReferenceNode list \<Rightarrow> node_part \<Rightarrow> UA_AnyNode" where
  "call_node i c name refs p = \<lparr>n_nodeId = UA_NODEID_NUMERIC 1 i, n_nodeClass = c, n_browseName = \<lparr>qn_namespaceIndex = 0, qn_name = Block (ascii name)\<rparr>,
     n_displayName = \<lparr>locale_text = Null_ptr, text_text = Null_ptr\<rparr>, n_description = \<lparr>locale_text = Null_ptr, text_text = Null_ptr\<rparr>,
     n_writeMask = 0, n_userWriteMask = 0, n_references = refs, part = p\<rparr>"

definition call_ref :: "UA_UInt32 \<Rightarrow> UA_UInt32 \<Rightarrow> UA_ReferenceNode" where
  "call_ref t i = \<lparr>referenceTypeId = UA_NODEID_NUMERIC 0 t, isInverse = False, targetId = UA_EXPANDEDNODEID_NULL\<lparr>nodeId := UA_NODEID_NUMERIC 1 i\<rparr>\<rparr>"

definition call_arguments :: "ua_value ua_array \<Rightarrow> node_part" where
  "call_arguments d = VariablePart 0 (UA_VALUESOURCE_VARIANT \<lparr>v_type = Some UA_TYPES_ARGUMENT, v_arrayLength = 0, v_data = d,
     v_arrayDimensions = Null_ptr\<rparr> False False) 1 1 0 False"

definition call_argument :: ua_value where
  "call_argument = VStruct [VString Null_ptr, VNodeId (UA_NODEID_NUMERIC 0 6), VUInt32 (-1), VArray Null_ptr,
     VLocalizedText \<lparr>locale_text = Null_ptr, text_text = Null_ptr\<rparr>]"

definition call_nodes :: "UA_AnyNode list" where
  "call_nodes = [call_node 30 UA_NODECLASS_METHOD ''m'' [call_ref UA_NS0ID_HASPROPERTY 32, call_ref UA_NS0ID_HASPROPERTY 33] (MethodPart True True),
     call_node 31 UA_NODECLASS_OBJECT ''o'' [call_ref UA_NS0ID_HASCOMPONENT 30] (ObjectPart 0),
     call_node 32 UA_NODECLASS_VARIABLE ''InputArguments'' []
       (call_arguments (Block [call_argument])),
     call_node 33 UA_NODECLASS_VARIABLE ''OutputArguments'' [] (call_arguments Empty_sentinel)]"

definition call_request :: UA_CallMethodRequest where
  "call_request = \<lparr>objectId = UA_NODEID_NUMERIC 1 31, methodId = UA_NODEID_NUMERIC 1 30, inputArguments =
     [\<lparr>v_type = Some UA_TYPES_INT32, v_arrayLength = 0, v_data = Block [VUInt32 7], v_arrayDimensions = Null_ptr\<rparr>]\<rparr>"

definition count_calls :: "nat callback" where
  "count_calls ob ins n outs e = (UA_STATUSCODE_GOOD, outs, Suc e)"

lemma call_nodes_ok:
  "list_all insertable call_nodes" "length call_nodes \<le> 8388607" "distinct (map (\<lambda>v. norm_NodeId (n_nodeId v)) call_nodes)"
  by (simp_all add: call_nodes_def call_node_def insertable_def null_id_def UA_NodeId_isNull_def norm_NodeId_def UA_NODEID_NUMERIC_def hashable_def)

lemma call_store:
  "ns_inv (store_of call_nodes)" "node_of (store_of call_nodes) (UA_NODEID_NUMERIC 1 30) = Some (call_nodes ! 0)"
  "node_of (store_of call_nodes) (UA_NODEID_NUMERIC 1 31) = Some (call_nodes ! 1)"
  "node_of (store_of call_nodes) (UA_NODEID_NUMERIC 1 32) = Some (call_nodes ! 2)"
  "node_of (store_of call_nodes) (UA_NODEID_NUMERIC 1 33) = Some (call_nodes ! 3)"
  using store_of [OF call_nodes_ok] store_of(2) [OF call_nodes_ok, of "call_nodes ! 0"] store_of(2) [OF call_nodes_ok, of "call_nodes ! 1"]
    store_of(2) [OF call_nodes_ok, of "call_nodes ! 2"] store_of(2) [OF call_nodes_ok, of "call_nodes ! 3"]
  by (simp_all add: call_nodes_def call_node_def)

lemma argument_names: "UA_String_equal (Block (ascii ''InputArguments'')) (Block (ascii ''InputArguments''))"
  "\<not> UA_String_equal (Block (ascii ''OutputArguments'')) (Block (ascii ''InputArguments''))"
  "UA_String_equal (Block (ascii ''OutputArguments'')) (Block (ascii ''OutputArguments''))"
  by code_simp+

lemma call_argument_nodes:
  "getArgumentsVariableNode (store_of call_nodes) (call_nodes ! 0) (Block (ascii ''InputArguments'')) = Some (Some (call_nodes ! 2))"
  "getArgumentsVariableNode (store_of call_nodes) (call_nodes ! 0) (Block (ascii ''OutputArguments'')) = Some (Some (call_nodes ! 3))"
proof -
  have r: "n_references (call_nodes ! 0) = [call_ref UA_NS0ID_HASPROPERTY 32, call_ref UA_NS0ID_HASPROPERTY 33]"
    "n_nodeClass (call_nodes ! 2) = UA_NODECLASS_VARIABLE" "n_nodeClass (call_nodes ! 3) = UA_NODECLASS_VARIABLE"
    "n_browseName (call_nodes ! 2) = \<lparr>qn_namespaceIndex = 0, qn_name = Block (ascii ''InputArguments'')\<rparr>"
    "n_browseName (call_nodes ! 3) = \<lparr>qn_namespaceIndex = 0, qn_name = Block (ascii ''OutputArguments'')\<rparr>"
    by (simp_all add: call_nodes_def call_node_def)
  have g: "get_node (store_of call_nodes) (UA_NODEID_NUMERIC 1 32) = Some (Some (call_nodes ! 2))"
    "get_node (store_of call_nodes) (UA_NODEID_NUMERIC 1 33) = Some (Some (call_nodes ! 3))"
    by (simp_all add: get_node_eq [OF call_store(1)] call_store)
  show "getArgumentsVariableNode (store_of call_nodes) (call_nodes ! 0) (Block (ascii ''InputArguments'')) = Some (Some (call_nodes ! 2))"
    "getArgumentsVariableNode (store_of call_nodes) (call_nodes ! 0) (Block (ascii ''OutputArguments'')) = Some (Some (call_nodes ! 3))"
    by (simp_all add: getArgumentsVariableNode_def r call_ref_def numeric_ids g argument_names)
qed

lemma call_request_allowed: "call_allowed (store_of call_nodes) call_request (call_nodes ! 0) (call_nodes ! 1)"
proof -
  have t: "typeId (UA_TYPES ! UA_TYPES_INT32) = 6" by code_simp
  have p: "part (call_nodes ! 2) = call_arguments (Block [call_argument])" by (simp add: call_nodes_def call_node_def)
  have "as_Argument call_argument =
      Some \<lparr>arg_dataType = UA_NODEID_NUMERIC 0 6, arg_valueRank = -1, arg_arrayDimensions = Null_ptr\<rparr>"
    by (simp add: as_Argument_def call_argument_def)
  moreover have "signature_ok \<lparr>v_type = Some UA_TYPES_INT32, v_arrayLength = 0, v_data = Block [VUInt32 7], v_arrayDimensions = Null_ptr\<rparr>
      \<lparr>arg_dataType = UA_NODEID_NUMERIC 0 6, arg_valueRank = -1, arg_arrayDimensions = Null_ptr\<rparr>"
    unfolding signature_ok_def UA_Variant.simps option.inject ex_simps simp_thms t
    by (simp add: numeric_ids argument_dims_def UA_Variant_isScalar_def)
  ultimately have "arguments_ok (store_of call_nodes) (call_nodes ! 0) (inputArguments call_request)"
    using p by (auto simp: arguments_ok_def call_argument_nodes arguments_fit_simps call_request_def call_arguments_def UA_Variant_isScalar_def)
  moreover have "n_nodeClass (call_nodes ! 0) = UA_NODECLASS_METHOD" "part (call_nodes ! 0) = MethodPart True True"
    "n_nodeClass (call_nodes ! 1) = UA_NODECLASS_OBJECT" "has_component (call_nodes ! 1) (n_nodeId (call_nodes ! 0))"
    by (simp_all add: call_nodes_def call_node_def has_component_def call_ref_def UA_NODEID_NUMERIC_def identifier_numeric_def UA_NodeId_equal_norm)
  ultimately show ?thesis by (simp add: call_allowed_def call_request_def call_store)
qed


section \<open>Arguments without a type\<close>

text \<open>
  An input argument that is an empty variant is compared through its null type pointer, once the number of arguments fits.
\<close>

theorem empty_argument_faults:
  assumes "ns_inv ns" "node_of ns (methodId request) = Some m" "node_of ns (objectId request) = Some ob"
    and "n_nodeClass m = UA_NODECLASS_METHOD" "part m = MethodPart True True" "n_nodeClass ob = UA_NODECLASS_OBJECT" "has_component ob (n_nodeId m)"
    and "getArgumentsVariableNode ns m (Block (ascii ''InputArguments'')) = Some (Some node)"
    and "value_at (part node) = Some (UA_VALUESOURCE_VARIANT v onR onW)" "v_type v = Some UA_TYPES_ARGUMENT" "UA_Variant_isScalar v"
    and "inputArguments request = [UA_Variant_init]"
  shows "callMethod mem attached ns request e = None"
proof -
  have "satisfy_all [UA_Variant_init] (content (v_data v)) UA_STATUSCODE_GOOD = None"
    by (cases "content (v_data v)") (auto simp: satisfySignature_def UA_Variant_init_def bind_eq_None_conv)
  then have "argConformsToDefinition node [UA_Variant_init] = None"
    using assms(9-11) by (simp add: argConformsToDefinition_def)
  then show ?thesis using assms by (simp add: callMethod_def get_node_eq)
qed

end
