(* ===== verification/Spec2Isabelle.thy ===== *)
theory Spec2Isabelle
  imports Ua_Encoding_Theorems Ua_Nodestore_Theorems Ua_Channels_Theorems Ua_Structures_Theorems Ua_Server_Theorems
    Ua_View_Theorems Ua_Attributes_Theorems Ua_Jobs_Theorems Ua_NodeManagement_Theorems Ua_Call_Theorems
begin

text \<open>
  A verification library for the open62541-based OPC UA stack of this repository: a server and a
  client that exchange binary-encoded service messages over TCP. The models are translated from
  the C sources under \<^verbatim>\<open>src/\<close>; the single-threaded build is the one that is modelled.

  \<^bold>\<open>The program.\<close> Bytes arrive from a network layer at a \<^emph>\<open>connection\<close>, which reassembles messages from
  segments. The \<^emph>\<open>binary protocol server\<close> takes the messages of a buffer one by one: a hello
  negotiates buffer sizes, an open request creates or renews a \<^emph>\<open>secure channel\<close>, a service request is
  decoded with the help of the generated \<^emph>\<open>type table\<close>, authorised against channel and \<^emph>\<open>session\<close>, and
  passed to a service, whose response is encoded and sent. The services work on the address space, a
  set of \<^emph>\<open>nodes\<close> with references kept in the hash table of the \<^emph>\<open>node store\<close>: the \<^emph>\<open>view services\<close>
  follow references, the \<^emph>\<open>attribute services\<close> read and write the members of nodes, values and ranges
  of arrays among them. Nodes are edited copy-on-write: deep copy, change, replace. Timed and
  queued \<^emph>\<open>jobs\<close> run from the main loop.

  \<^bold>\<open>Theories and sources.\<close> Definitions keep the names of the C functions. Every component has a
  theory with its data and operations, where needed one (\<^verbatim>\<open>_Laws\<close>) with its invariant and the
  lemmas on single operations, and one (\<^verbatim>\<open>_Theorems\<close>) with its properties.
  \<^item> \<^verbatim>\<open>Ua_Prelude\<close>: words for the integer types of \<^verbatim>\<open>include/ua_types.h\<close>, the status codes of
    \<^verbatim>\<open>include/ua_statuscodes.h\<close>, C arrays that may be null, little-endian bytes, shared lemmas.
  \<^item> \<^verbatim>\<open>Ua_Types\<close>: the builtin types with comparison and copy (\<^verbatim>\<open>src/ua_types.c\<close>). \<^verbatim>\<open>Ua_TypeTable\<close>:
    the table \<open>UA_TYPES\<close> (\<^verbatim>\<open>build/src_generated/ua_types_generated.c\<close>), entry by entry.
  \<^item> \<^verbatim>\<open>Ua_Codec\<close>, \<^verbatim>\<open>Ua_Encoding\<close>, \<^verbatim>\<open>Ua_DiagnosticInfo\<close>, \<^verbatim>\<open>Ua_Structures\<close>: the encoder and decoder
    of \<^verbatim>\<open>src/ua_types_encoding_binary.c\<close>: builtin types, the self-nesting diagnostic info, then
    extension objects, variants, data values and the structures of the type table. An encoder maps
    the buffer and an offset to status, buffer and offset; a decoder maps bytes and offset to status,
    value and offset; every bound check and failing allocation is a branch. \<^verbatim>\<open>Ua_Wire\<close>,
    \<^verbatim>\<open>Ua_Wire_Values\<close>, \<^verbatim>\<open>Ua_Wire_Laws\<close>, \<^verbatim>\<open>Ua_Wire_Depth\<close>: the wire format as a reference definition,
    and that both sides implement it.
  \<^item> \<^verbatim>\<open>Ua_Copy\<close>: \<open>UA_copy\<close>, the deep copy over the type table (\<^verbatim>\<open>src/ua_types.c\<close>).
  \<^item> \<^verbatim>\<open>Ua_Ranges\<close>: index ranges: their text form (\<^verbatim>\<open>ua_services_attribute.c\<close>), reading and writing
    the block structure of a range in a variant (\<^verbatim>\<open>src/ua_types.c\<close>), 32-bit wrap-around included.
  \<^item> \<^verbatim>\<open>Ua_Nodes\<close>, \<^verbatim>\<open>Ua_Nodestore_Hash\<close>, \<^verbatim>\<open>Ua_Primes\<close>, \<^verbatim>\<open>Ua_Nodestore\<close>: nodes, hash functions and the
    open-addressing table (\<^verbatim>\<open>src/server/ua_nodes.h\<close>, \<^verbatim>\<open>ua_nodestore_hash.inc\<close>, \<^verbatim>\<open>ua_nodestore.c\<close>).
  \<^item> \<^verbatim>\<open>Ua_Connection\<close>: \<^verbatim>\<open>src/ua_connection.c\<close>. \<^verbatim>\<open>Ua_Channels\<close>: secure channels, sessions, their two
    managers and their services, as a heap of objects with pointers
    (\<^verbatim>\<open>src/ua_securechannel.c\<close>, \<^verbatim>\<open>src/ua_session.c\<close>, \<^verbatim>\<open>ua_securechannel_manager.c\<close>,
    \<^verbatim>\<open>ua_session_manager.c\<close>, \<^verbatim>\<open>ua_services_securechannel.c\<close>, \<^verbatim>\<open>ua_services_session.c\<close>).
  \<^item> \<^verbatim>\<open>Ua_Server_Binary\<close>: \<^verbatim>\<open>src/server/ua_server_binary.c\<close>, the message handlers and the loop over a
    buffer; the services are an argument.
  \<^item> \<^verbatim>\<open>Ua_View\<close>: Browse, BrowseNext, TranslateBrowsePathsToNodeIds, RegisterNodes
    (\<^verbatim>\<open>ua_services_view.c\<close>). \<^verbatim>\<open>Ua_Attributes\<close>: Read and Write (\<^verbatim>\<open>ua_services_attribute.c\<close>).
  \<^item> \<^verbatim>\<open>Ua_NodeManagement\<close>: adding and deleting nodes and references, instantiation of types
    (\<^verbatim>\<open>ua_services_nodemanagement.c\<close>), with the array of references that is freed and kept.
  \<^item> \<^verbatim>\<open>Ua_Call\<close>: method calls (\<^verbatim>\<open>ua_services_call.c\<close>); the attached functions are arguments.
  \<^item> \<^verbatim>\<open>Ua_Jobs\<close>: execution of jobs, the list of repeated jobs and the main loop
    (\<^verbatim>\<open>ua_server_worker.c\<close>); methods of the application and network layers are arguments.

  \<^bold>\<open>What is shown.\<close>
  \<^item> Encoding: on arbitrary bytes the decoders return, stay inside the message and free what they
    allocated; representable values of every type of the table arrive unchanged, up to the
    canonical form of null pointers. The inputs on which the code fails (a string without room for
    its length prefix, identifiers of 256) are theorems as well.
  \<^item> Node store: the probe sequence reaches every slot, lookup agrees with a search, insert and
    replace implement a dictionary, fresh identifiers are found; a removal without a rebuild hides
    other nodes.
  \<^item> Connections, channels, sessions: any segmentation delivers the same messages; along every run
    with one channel per connection all pointers are mutual and none dangles; expiry, authentication
    and lifetime bounds; the run with a second channel that leaves a dangling pointer.
  \<^item> Protocol server: a service is reached only by authorised requests, a response is exactly one
    well-formed message, the message loop ends except for the crafted message that keeps it running.
  \<^item> Views: the pages of a browse are complete and free of repetition, subtypes are computed
    exactly on acyclic hierarchies, continuation points are bounded, paths are translated completely.
  \<^item> Values: deep copies are exact or fail; reading a range gives the elements of the range; what is
    written is read back, everything else is untouched; the writes that crash or lose the value.
  \<^item> Address space: an added node is found and linked with its parent, an added reference appears at both
    ends and nowhere else, and references stay mutual; deleting leaves them one-sided.
  \<^item> Method calls: a function of the application runs exactly for the calls whose method, object and
    arguments fit; an argument without a type crashes the server.
  \<^item> Jobs: the list stays sorted along every run, a pass over the due jobs ends and runs exactly the
    due ones, added jobs run within their interval; the interval that wraps to zero hangs the server.

  \<^bold>\<open>Interfaces.\<close> \<open>codec\<close> (encoder and decoder agree on a wire format), \<open>safe_decoder\<close>,
  \<open>array_codec\<close> and \<open>zero_copy_codec\<close> (arrays of a codec, with and without block copy) carry the
  builtin types and are interpreted for each of them; \<open>wire_codec\<close> weakens \<open>codec\<close> to values that
  are only equal in canonical form (a \<open>sublocale\<close> makes every codec one), \<open>wire_array\<close> lifts it
  to arrays, and the interpretation \<open>Value\<close> instantiates it for all types of the table.
  \<open>node_dictionary\<close> is the contract of the node store towards the services, interpreted on the hash
  table as \<open>nodestore\<close>.

  \<^bold>\<open>Bounds and fuel.\<close> Nested decoding takes a depth; the depth used for a message is computed from
  its length and shown to be enough, so the theorems are about returning results. Message loops and
  browse pages take a number of rounds, shown to be enough (as many as the buffer has bytes; as many
  as there are references). Loops that may run forever return \<open>None\<close> when out of fuel, and both sides are
  stated: when they end and when no fuel suffices. Node store results hold for tables of up to
  16777213 slots (8388607 nodes), because the primality of the sizes is checked by trial division.
  Allocation is a parameter \<open>mem\<close>, a predicate on request sizes; theorems say whether they
  assume that it succeeds. Random numbers, clocks and callbacks of the application are arguments.

  \<^bold>\<open>Not modelled.\<close> The client library (\<^verbatim>\<open>src/client\<close>), which calls the same encoder from
  the other side; the start-up of the server and the construction of namespace zero
  (\<^verbatim>\<open>ua_server.c\<close>), which is a long list of constant nodes; discovery and subscriptions
  (\<^verbatim>\<open>ua_services_discovery.c\<close>,
  \<^verbatim>\<open>ua_services_subscription.c\<close>, \<^verbatim>\<open>ua_subscription.c\<close>, \<^verbatim>\<open>ua_subscription_manager.c\<close>), of which the
  default configuration compiles only the first; the two functions that add data source variables and
  methods; the class-specific copies of \<^verbatim>\<open>ua_nodes.c\<close>; network layers and loggers of
  \<^verbatim>\<open>examples/\<close>, which are system calls; generated identifiers and node sets; third-party code under
  \<^verbatim>\<open>deps/\<close>. Clean-up functions only free memory: a cleared object is a value. The multithreaded build
  with its worker threads and delayed jobs, its concurrent node store and the external namespaces are left
  out, and so is the text of log messages.
\<close>

end
